(* ===== verification/Prelude.thy ===== *)
theory Prelude
  imports Main "HOL-Library.AList"
begin

text \<open>
  What every component shares: the collections its automation uses, 64-bit wrap-around, results
  that are an error or a value, instants and spans of time, and the association lists that stand
  for Go maps.
\<close>

named_theorems safe_ops \<open>operations that keep what is held switched off\<close>

subsection \<open>Machine integers\<close>

text \<open>\<^verbatim>\<open>int\<close> and \<^verbatim>\<open>int64\<close> are 64 bits wide and wrap around.\<close>

definition wrap64 :: "int \<Rightarrow> int" where
  "wrap64 n = (n + 2 ^ 63) mod 2 ^ 64 - 2 ^ 63"

definition max_int64 :: int where
  "max_int64 = 2 ^ 63 - 1"

definition min_int64 :: int where
  "min_int64 = - (2 ^ 63)"

definition in_int64 :: "int \<Rightarrow> bool" where
  "in_int64 n \<longleftrightarrow> min_int64 \<le> n \<and> n \<le> max_int64"

lemma wrap64_id: "in_int64 n \<Longrightarrow> wrap64 n = n"
  by (simp add: wrap64_def in_int64_def min_int64_def max_int64_def)

lemma wrap64_in_int64: "in_int64 (wrap64 n)"
  using pos_mod_bound [of "2 ^ 64 :: int" "n + 2 ^ 63"]
  by (simp add: wrap64_def in_int64_def min_int64_def max_int64_def)

subsection \<open>Errors\<close>

text \<open>A Go function that returns \<^verbatim>\<open>(T, error)\<close>: \<open>Inl\<close> the message, \<open>Inr\<close> the value.\<close>

type_synonym 'a result = "string + 'a"

definition is_ok :: "'a result \<Rightarrow> bool" where
  "is_ok r = (case r of Inl _ \<Rightarrow> False | Inr _ \<Rightarrow> True)"

lemma is_ok_simps [simp]: "is_ok (Inr x)" "\<not> is_ok (Inl e)"
  by (simp_all add: is_ok_def)

lemma map_sum_Inr_iff: "map_sum id f r = Inr x \<longleftrightarrow> (\<exists>y. r = Inr y \<and> x = f y)"
  by (cases r) auto

subsection \<open>Time\<close>

text \<open>
  An instant is the nanoseconds since the year 1, so \<^verbatim>\<open>time.Time{}\<close>, the only instant for which
  \<^verbatim>\<open>IsZero\<close> holds, is 0. A span is a 64-bit number of nanoseconds; subtracting two instants
  saturates instead of wrapping.
\<close>

type_synonym gotime = int
type_synonym duration = int

abbreviation is_zero_time :: "gotime \<Rightarrow> bool" where
  "is_zero_time t \<equiv> t = 0"

definition time_sub :: "gotime \<Rightarrow> gotime \<Rightarrow> duration" where
  "time_sub a b = max min_int64 (min max_int64 (a - b))"

abbreviation millisecond :: duration where "millisecond \<equiv> 1000000"
abbreviation second :: duration where "second \<equiv> 1000000000"
abbreviation minute :: duration where "minute \<equiv> 60000000000"
abbreviation hour :: duration where "hour \<equiv> 3600000000000"

text \<open>Go's integer division truncates towards zero.\<close>

definition go_div :: "int \<Rightarrow> int \<Rightarrow> int" where
  "go_div a b = sgn a * sgn b * (\<bar>a\<bar> div \<bar>b\<bar>)"

definition go_mod :: "int \<Rightarrow> int \<Rightarrow> int" where
  "go_mod a b = a - b * go_div a b"

lemma go_div_nonneg: "0 \<le> a \<Longrightarrow> 0 < b \<Longrightarrow> go_div a b = a div b"
  by (cases "a = 0") (simp_all add: go_div_def)

lemma go_mod_nonneg: "0 \<le> a \<Longrightarrow> 0 < b \<Longrightarrow> go_mod a b = a mod b"
  by (simp add: go_mod_def go_div_nonneg minus_mult_div_eq_mod)

subsection \<open>A store of keyed entries\<close>

text \<open>
  Go maps are association lists with distinct keys: the list is one order the runtime could
  iterate in, and no statement depends on which. \<open>AList.update\<close> replaces in place or appends.
  The contract a client of such a store needs is an interface of its own.
\<close>

type_synonym ('k, 'v) gomap = "('k \<times> 'v) list"

locale kv_store =
  fixes get :: "'m \<Rightarrow> 'k \<Rightarrow> 'v option"
    and put :: "'k \<Rightarrow> 'v \<Rightarrow> 'm \<Rightarrow> 'm"
    and del :: "'k \<Rightarrow> 'm \<Rightarrow> 'm"
    and emp :: 'm
    and inv :: "'m \<Rightarrow> bool"
  assumes get_emp: "get emp k = None"
    and get_put: "get (put k v m) k' = (if k = k' then Some v else get m k')"
    and get_del: "inv m \<Longrightarrow> get (del k m) k' = (if k = k' then None else get m k')"
    and inv_emp: "inv emp"
    and inv_put: "inv m \<Longrightarrow> inv (put k v m)"
    and inv_del: "inv m \<Longrightarrow> inv (del k m)"
begin

definition has :: "'m \<Rightarrow> 'k \<Rightarrow> bool" where
  "has m k \<longleftrightarrow> get m k \<noteq> None"

lemma get_put_same: "get (put k v m) k = Some v"
  by (simp add: get_put)

lemma get_put_other: "k \<noteq> k' \<Longrightarrow> get (put k v m) k' = get m k'"
  by (simp add: get_put)

lemma has_put: "has (put k v m) k' \<longleftrightarrow> k = k' \<or> has m k'"
  by (simp add: has_def get_put)

lemma not_has_del: "inv m \<Longrightarrow> \<not> has (del k m) k"
  by (simp add: has_def get_del)

lemma has_del: "inv m \<Longrightarrow> has (del k m) k' \<longleftrightarrow> k \<noteq> k' \<and> has m k'"
  by (simp add: has_def get_del)

text \<open>A new entry that is taken out again leaves every lookup as it was.\<close>

lemma put_del_fresh: "inv m \<Longrightarrow> \<not> has m k \<Longrightarrow> get (del k (put k v m)) k' = get m k'"
  by (auto simp: get_del get_put inv_put has_def)

end

definition distinct_keys :: "('k, 'v) gomap \<Rightarrow> bool" where
  "distinct_keys m \<longleftrightarrow> distinct (map fst m)"

lemma distinct_keys_Nil [simp]: "distinct_keys []"
  by (simp add: distinct_keys_def)

lemma distinct_keys_update [simp]: "distinct_keys m \<Longrightarrow> distinct_keys (AList.update k v m)"
  by (simp add: distinct_keys_def distinct_update)

lemma distinct_keys_delete [simp]: "distinct_keys m \<Longrightarrow> distinct_keys (AList.delete k m)"
  by (simp add: distinct_keys_def distinct_delete)

lemma map_of_update [simp]: "map_of (AList.update k v m) = (map_of m)(k \<mapsto> v)"
  by (simp add: update_conv')

lemma map_of_delete [simp]: "map_of (AList.delete k m) = (map_of m)(k := None)"
  by (simp add: delete_conv')

interpretation gomap: kv_store map_of AList.update AList.delete "[]" distinct_keys
  by unfold_locales auto

lemma keys_update: "set (map fst (AList.update k v m)) = insert k (set (map fst m))"
  by (induction m) auto

lemma keys_update_present: "map_of m k = Some w \<Longrightarrow> map fst (AList.update k v m) = map fst m"
  by (induction m) auto

lemma length_update_present:
  "map_of m k = Some w \<Longrightarrow> length (AList.update k v m) = length m"
  by (induction m) auto

lemma length_update_absent:
  "map_of m k = None \<Longrightarrow> length (AList.update k v m) = Suc (length m)"
  by (induction m) auto

lemma map_of_mem: "distinct_keys m \<Longrightarrow> (k, v) \<in> set m \<longleftrightarrow> map_of m k = Some v"
  by (simp add: distinct_keys_def)

text \<open>Replace the value of every entry, keeping keys and order.\<close>

definition map_vals :: "('k \<Rightarrow> 'v \<Rightarrow> 'w) \<Rightarrow> ('k, 'v) gomap \<Rightarrow> ('k, 'w) gomap" where
  "map_vals f m = map (\<lambda>(k, v). (k, f k v)) m"

lemma keys_map_vals [simp]: "map fst (map_vals f m) = map fst m"
  by (simp add: map_vals_def case_prod_beta comp_def)

lemma distinct_keys_map_vals [simp]: "distinct_keys (map_vals f m) = distinct_keys m"
  by (simp add: distinct_keys_def)

lemma map_of_map_vals [simp]: "map_of (map_vals f m) k = map_option (f k) (map_of m k)"
  by (induction m) (auto simp: map_vals_def)

lemma length_map_vals [simp]: "length (map_vals f m) = length m"
  by (simp add: map_vals_def)

subsection \<open>Running a component\<close>

text \<open>
  A component is a step function on its state; what every operation keeps, every run keeps.
\<close>

fun run_steps :: "('op \<Rightarrow> 's \<Rightarrow> 's) \<Rightarrow> 'op list \<Rightarrow> 's \<Rightarrow> 's" where
  "run_steps step [] s = s"
| "run_steps step (x # xs) s = run_steps step xs (step x s)"

lemma run_steps_append: "run_steps step (xs @ ys) s = run_steps step ys (run_steps step xs s)"
  by (induction xs arbitrary: s) auto

locale invariant_ops =
  fixes step :: "'op \<Rightarrow> 's \<Rightarrow> 's"
    and inv :: "'s \<Rightarrow> bool"
  assumes step_inv: "inv s \<Longrightarrow> inv (step x s)"
begin

lemma run_inv: "inv s \<Longrightarrow> inv (run_steps step xs s)"
  by (induction xs arbitrary: s) (auto intro: step_inv)

lemma run_inv_prefix: "inv s \<Longrightarrow> xs = ys @ zs \<Longrightarrow> inv (run_steps step ys s)"
  by (rule run_inv)

end

end
