(* ===== verification/GoStrings.thy ===== *)
theory GoStrings
  imports Prelude
begin

text \<open>
  Go strings and what the program uses of the packages \<^verbatim>\<open>strings\<close>, \<^verbatim>\<open>unicode/utf8\<close>,
  \<^verbatim>\<open>unicode\<close> and \<^verbatim>\<open>strconv\<close>. A string is its bytes (a \<open>char list\<close>); where the
  library reads characters, the bytes are decoded as UTF-8 first, an invalid byte standing for
  itself as the replacement rune, as Go does. Case mapping is the ASCII one: letters outside ASCII
  are left as they are.
\<close>

subsection \<open>Prefixes, substrings, splitting\<close>

definition has_prefix :: "string \<Rightarrow> string \<Rightarrow> bool" where
  "has_prefix s p \<longleftrightarrow> take (length p) s = p"

definition has_suffix :: "string \<Rightarrow> string \<Rightarrow> bool" where
  "has_suffix s p \<longleftrightarrow> has_prefix (rev s) (rev p)"

definition trim_prefix :: "string \<Rightarrow> string \<Rightarrow> string" where
  "trim_prefix s p = (if has_prefix s p then drop (length p) s else s)"

definition trim_suffix :: "string \<Rightarrow> string \<Rightarrow> string" where
  "trim_suffix s p = (if has_suffix s p then take (length s - length p) s else s)"

text \<open>\<^verbatim>\<open>strings.Index\<close>, with \<open>None\<close> for -1.\<close>

fun str_index :: "string \<Rightarrow> string \<Rightarrow> nat option" where
  "str_index [] p = (if p = [] then Some 0 else None)"
| "str_index (c # s) p =
     (if has_prefix (c # s) p then Some 0 else map_option Suc (str_index s p))"

definition contains :: "string \<Rightarrow> string \<Rightarrow> bool" where
  "contains s p \<longleftrightarrow> str_index s p \<noteq> None"

definition contains_any :: "string \<Rightarrow> string \<Rightarrow> bool" where
  "contains_any s cs \<longleftrightarrow> list_ex (\<lambda>c. List.member cs c) s"

text \<open>\<^verbatim>\<open>strings.Cut\<close>: what is before and after the separator, if it is there.\<close>

definition str_cut :: "string \<Rightarrow> string \<Rightarrow> (string \<times> string) option" where
  "str_cut s p = (case str_index s p of
     None \<Rightarrow> None | Some i \<Rightarrow> Some (take i s, drop (i + length p) s))"

text \<open>\<^verbatim>\<open>strings.Split\<close> on one byte: always at least one piece.\<close>

fun str_split :: "char \<Rightarrow> string \<Rightarrow> string list" where
  "str_split d [] = [[]]"
| "str_split d (c # s) = (if c = d then [] # str_split d s
     else (case str_split d s of [] \<Rightarrow> [[c]] | w # ws \<Rightarrow> (c # w) # ws))"

fun str_join :: "string list \<Rightarrow> string \<Rightarrow> string" where
  "str_join [] sep = []"
| "str_join [w] sep = w"
| "str_join (w # v # ws) sep = w @ sep @ str_join (v # ws) sep"

text \<open>\<^verbatim>\<open>strings.ReplaceAll\<close> for a non-empty pattern: the matches do not overlap.\<close>

function replace_all :: "string \<Rightarrow> string \<Rightarrow> string \<Rightarrow> string" where
  "replace_all s p r = (if p = [] \<or> s = [] then s
     else if has_prefix s p then r @ replace_all (drop (length p) s) p r
     else hd s # replace_all (tl s) p r)"
  by pat_completeness auto
termination
  by (relation "measure (\<lambda>(s, p, r). length s)") auto

declare replace_all.simps [simp del]

definition str_repeat :: "string \<Rightarrow> nat \<Rightarrow> string" where
  "str_repeat s n = concat (replicate n s)"

subsection \<open>Case\<close>

definition lower_char :: "char \<Rightarrow> char" where
  "lower_char c = (let n = (of_char c :: nat)
     in if 65 \<le> n \<and> n \<le> 90 then char_of (n + 32) else c)"

definition to_lower :: "string \<Rightarrow> string" where
  "to_lower s = map lower_char s"

definition equal_fold :: "string \<Rightarrow> string \<Rightarrow> bool" where
  "equal_fold s t \<longleftrightarrow> to_lower s = to_lower t"

subsection \<open>UTF-8\<close>

type_synonym rune = nat

definition rune_error :: rune where "rune_error = 65533"

definition is_cont :: "nat \<Rightarrow> bool" where "is_cont b \<longleftrightarrow> 128 \<le> b \<and> b \<le> 191"

text \<open>
  \<^verbatim>\<open>utf8.DecodeRuneInString\<close> on the bytes as numbers: the rune and how many bytes it took. The
  ranges of the second byte rule out overlong forms, surrogates and values past U+10FFFF.
\<close>

fun decode2 :: "nat \<Rightarrow> nat list \<Rightarrow> rune \<times> nat" where
  "decode2 a (b # _) = (if is_cont b then ((a - 192) * 64 + (b - 128), 2) else (rune_error, 1))"
| "decode2 a _ = (rune_error, 1)"

fun decode3 :: "nat \<Rightarrow> nat list \<Rightarrow> rune \<times> nat" where
  "decode3 a (b # c # _) =
     (if (if a = 224 then 160 else 128) \<le> b \<and> b \<le> (if a = 237 then 159 else 191) \<and> is_cont c
      then ((a - 224) * 4096 + (b - 128) * 64 + (c - 128), 3) else (rune_error, 1))"
| "decode3 a _ = (rune_error, 1)"

fun decode4 :: "nat \<Rightarrow> nat list \<Rightarrow> rune \<times> nat" where
  "decode4 a (b # c # d # _) =
     (if (if a = 240 then 144 else 128) \<le> b \<and> b \<le> (if a = 244 then 143 else 191)
         \<and> is_cont c \<and> is_cont d
      then ((a - 240) * 262144 + (b - 128) * 4096 + (c - 128) * 64 + (d - 128), 4)
      else (rune_error, 1))"
| "decode4 a _ = (rune_error, 1)"

definition decode_rune :: "nat \<Rightarrow> nat list \<Rightarrow> rune \<times> nat" where
  "decode_rune a bs =
     (if a < 128 then (a, 1)
      else if 194 \<le> a \<and> a \<le> 223 then decode2 a bs
      else if 224 \<le> a \<and> a \<le> 239 then decode3 a bs
      else if 240 \<le> a \<and> a \<le> 244 then decode4 a bs
      else (rune_error, 1))"

definition first_rune :: "char \<Rightarrow> string \<Rightarrow> rune \<times> nat" where
  "first_rune c s = decode_rune (of_char c) (map of_char (take 3 s))"

text \<open>A string as its runes, each with the bytes it was read from.\<close>

function utf8 :: "string \<Rightarrow> (rune \<times> string) list" where
  "utf8 [] = []"
| "utf8 (c # s) = (let (r, n) = first_rune c s
     in (r, c # take (n - 1) s) # utf8 (drop (n - 1) s))"
  by pat_completeness auto
termination
  by (relation "measure length") (auto simp: less_Suc_eq_le)

definition unchunk :: "(rune \<times> string) list \<Rightarrow> string" where
  "unchunk cs = concat (map snd cs)"

lemma unchunk_Nil [simp]: "unchunk [] = []"
  by (simp add: unchunk_def)

lemma unchunk_Cons [simp]: "unchunk (c # cs) = snd c @ unchunk cs"
  by (simp add: unchunk_def)

lemma unchunk_append [simp]: "unchunk (as @ bs) = unchunk as @ unchunk bs"
  by (simp add: unchunk_def)

lemma unchunk_utf8 [simp]: "unchunk (utf8 s) = s"
  by (induction s rule: utf8.induct) (auto split: prod.splits)

definition runes :: "string \<Rightarrow> rune list" where
  "runes s = map fst (utf8 s)"

text \<open>\<^verbatim>\<open>strconv.Quote\<close>, which \<^verbatim>\<open>%q\<close> prints: a byte that is not UTF-8 is escaped; every character
  outside ASCII counts as printable.\<close>

definition hex_char :: "nat \<Rightarrow> char" where
  "hex_char d = char_of (if d < 10 then 48 + d else 87 + d)"

definition quote_rune :: "rune \<times> string \<Rightarrow> string" where
  "quote_rune c = (let r = fst c; b = hd (snd c); n = (of_char b :: nat);
       escape = [CHR 0x5C, CHR ''x'', hex_char (n div 16), hex_char (n mod 16)] in
     if List.length (snd c) = 1 \<and> 128 \<le> n then escape
     else if b = CHR 0x22 \<or> b = CHR 0x5C then [CHR 0x5C, b]
     else (case map_of [(7, CHR ''a''), (8, CHR ''b''), (9, CHR ''t''), (10, CHR ''n''),
                        (11, CHR ''v''), (12, CHR ''f''), (13, CHR ''r'')] r of
         Some x \<Rightarrow> [CHR 0x5C, x]
       | None \<Rightarrow> if r < 32 \<or> r = 127 then escape else snd c))"

definition quoted :: "string \<Rightarrow> string" where
  "quoted s = CHR 0x22 # concat (map quote_rune (utf8 s)) @ [CHR 0x22]"

subsection \<open>Character classes\<close>

definition is_control :: "rune \<Rightarrow> bool" where
  "is_control r \<longleftrightarrow> r \<le> 31 \<or> (127 \<le> r \<and> r \<le> 159)"

definition is_space :: "rune \<Rightarrow> bool" where
  "is_space r \<longleftrightarrow> (9 \<le> r \<and> r \<le> 13) \<or> r = 32 \<or> r = 133 \<or> r = 160 \<or> r = 5760
     \<or> (8192 \<le> r \<and> r \<le> 8202) \<or> r = 8232 \<or> r = 8233 \<or> r = 8239 \<or> r = 8287 \<or> r = 12288"

definition trim_chunks :: "(rune \<times> string) list \<Rightarrow> (rune \<times> string) list" where
  "trim_chunks cs = rev (dropWhile (is_space \<circ> fst) (rev (dropWhile (is_space \<circ> fst) cs)))"

definition trim_space :: "string \<Rightarrow> string" where
  "trim_space s = unchunk (trim_chunks (utf8 s))"

text \<open>\<^verbatim>\<open>strings.Fields\<close>: the maximal runs of characters that are not spaces.\<close>

fun fields_from :: "string \<Rightarrow> (rune \<times> string) list \<Rightarrow> string list" where
  "fields_from cur [] = (if cur = [] then [] else [cur])"
| "fields_from cur (c # cs) =
     (if is_space (fst c)
      then (if cur = [] then fields_from [] cs else cur # fields_from [] cs)
      else fields_from (cur @ snd c) cs)"

definition fields :: "string \<Rightarrow> string list" where
  "fields s = fields_from [] (utf8 s)"

definition trim_right_char :: "char \<Rightarrow> string \<Rightarrow> string" where
  "trim_right_char c s = rev (dropWhile (\<lambda>x. x = c) (rev s))"

text \<open>The line ending \<^verbatim>\<open>bufio.ScanLines\<close> drops besides the newline.\<close>

definition drop_cr :: "string \<Rightarrow> string" where
  "drop_cr l = (if l \<noteq> [] \<and> last l = CHR 0x0D then butlast l else l)"

subsection \<open>Numbers\<close>

definition is_digit :: "char \<Rightarrow> bool" where
  "is_digit c \<longleftrightarrow> 48 \<le> (of_char c :: nat) \<and> (of_char c :: nat) \<le> 57"

definition digit_char :: "nat \<Rightarrow> char" where
  "digit_char d = char_of (48 + d)"

function nat_digits :: "nat \<Rightarrow> string" where
  "nat_digits n = (if n < 10 then [digit_char n]
     else nat_digits (n div 10) @ [digit_char (n mod 10)])"
  by pat_completeness auto
termination
  by (relation "measure id") auto

declare nat_digits.simps [simp del]

definition itoa :: "int \<Rightarrow> string" where
  "itoa n = (if n < 0 then CHR ''-'' # nat_digits (nat (- n)) else nat_digits (nat n))"

definition digits_val :: "string \<Rightarrow> nat" where
  "digits_val s = foldl (\<lambda>a c. 10 * a + (of_char c - 48)) 0 s"

text \<open>\<^verbatim>\<open>strconv.Atoi\<close>: an optional sign, at least one digit, and a value of 64 bits.\<close>

definition atoi :: "string \<Rightarrow> int option" where
  "atoi s = (let neg = has_prefix s ''-'';
       ds = (if neg \<or> has_prefix s ''+'' then tl s else s)
     in if ds = [] \<or> \<not> list_all is_digit ds then None
        else let n = (if neg then - int (digits_val ds) else int (digits_val ds))
             in if in_int64 n then Some n else None)"

subsection \<open>Lemmas\<close>

lemma has_prefix_append [simp]: "has_prefix (p @ s) p"
  by (simp add: has_prefix_def)

lemma has_prefix_iff: "has_prefix s p \<longleftrightarrow> (\<exists>t. s = p @ t)"
  by (metis append_take_drop_id has_prefix_append has_prefix_def)

lemma has_prefix_Nil [simp]: "has_prefix s []"
  by (simp add: has_prefix_def)

lemma has_prefix_Cons [simp]: "has_prefix (c # s) (d # p) \<longleftrightarrow> c = d \<and> has_prefix s p"
  by (auto simp: has_prefix_def)

lemma has_prefix_empty [simp]: "has_prefix [] p \<longleftrightarrow> p = []"
  by (auto simp: has_prefix_def)

lemma has_suffix_append [simp]: "has_suffix (s @ p) p"
  by (simp add: has_suffix_def)

lemma str_split_not_Nil [simp]: "str_split d s \<noteq> []"
  by (induction s) (auto split: list.splits)

lemma str_split_no_sep: "d \<notin> set s \<Longrightarrow> str_split d s = [s]"
  by (induction s) auto

lemma str_split_sep: "d \<notin> set s \<Longrightarrow> str_split d (s @ d # t) = s # str_split d t"
  by (induction s) auto

lemma join_split: "str_join (str_split d s) [d] = s"
proof (induction s)
  case (Cons c s)
  then show ?case
    by (cases "str_split d s"; cases "tl (str_split d s)") auto
qed simp

lemma str_index_Some_prefix:
  "str_index s p = Some i \<Longrightarrow> has_prefix (drop i s) p \<and> i \<le> length s"
  by (induction s arbitrary: i) (auto split: if_splits)

lemma str_index_singleton_None: "str_index s [c] = None \<longleftrightarrow> c \<notin> set s"
  by (induction s) auto

lemma str_index_singleton: "c \<notin> set s \<Longrightarrow> str_index (s @ c # t) [c] = Some (length s)"
  by (induction s) auto

lemma str_cut_append: "c \<notin> set s \<Longrightarrow> str_cut (s @ c # t) [c] = Some (s, t)"
  by (simp add: str_cut_def str_index_singleton)

text \<open>Only the first bytes of a sequence decide how it decodes.\<close>

lemma decode_width_bound: "decode_rune a bs = (r, n) \<Longrightarrow> 1 \<le> n \<and> n \<le> Suc (length bs) \<and> n \<le> 4"
  by (auto simp: decode_rune_def split: if_splits elim!: decode2.elims decode3.elims decode4.elims)

lemma first_rune_width:
  assumes "first_rune c s = (r, n)" shows "1 \<le> n" "n - 1 \<le> length s" "n \<le> 4"
  using decode_width_bound [OF assms [unfolded first_rune_def]] by auto

lemma decode_rune_take:
  "decode_rune a bs = (r, n) \<Longrightarrow> n - 1 \<le> k \<Longrightarrow> decode_rune a (take k bs) = (r, n)"
  by (auto simp: decode_rune_def take_Cons' split: if_splits
      elim!: decode2.elims decode3.elims decode4.elims)

lemma first_rune_take:
  assumes "first_rune c s = (r, n)" "n - 1 \<le> m"
  shows "first_rune c (take m s) = (r, n)"
proof -
  have "map of_char (take 3 (take m s)) = take m (map of_char (take 3 s) :: nat list)"
    by (simp add: take_map min.commute)
  then show ?thesis
    using assms by (simp add: first_rune_def decode_rune_take)
qed

lemma unchunk_take: "unchunk (take k cs) = take (length (unchunk (take k cs))) (unchunk cs)"
proof -
  have "unchunk cs = unchunk (take k cs) @ unchunk (drop k cs)"
    by (simp flip: unchunk_append)
  then show ?thesis by simp
qed

lemma utf8_drop: "utf8 (unchunk (drop k (utf8 s))) = drop k (utf8 s)"
proof (induction s arbitrary: k rule: utf8.induct)
  case (2 c s)
  obtain r n where rn: "first_rune c s = (r, n)" by fastforce
  show ?case
  proof (cases k)
    case (Suc j)
    then show ?thesis using "2.IH" [OF rn [symmetric]] rn by simp
  qed (simp only: drop_0 unchunk_utf8)
qed simp

lemma utf8_take: "utf8 (unchunk (take k (utf8 s))) = take k (utf8 s)"
proof (induction s arbitrary: k rule: utf8.induct)
  case (2 c s)
  obtain r n where rn: "first_rune c s = (r, n)" by fastforce
  show ?case
  proof (cases k)
    case (Suc j)
    let ?x = "unchunk (take j (utf8 (drop (n - 1) s)))"
    have len: "n - 1 \<le> length s" using first_rune_width [OF rn] by simp
    have x: "take (n - 1) s @ ?x = take (n - 1 + length ?x) s"
      by (subst unchunk_take) (simp add: take_add)
    then have "first_rune c (take (n - 1) s @ ?x) = (r, n)"
      using first_rune_take [OF rn] by simp
    moreover have "take (n - 1) (take (n - 1) s @ ?x) = take (n - 1) s"
      "drop (n - 1) (take (n - 1) s @ ?x) = ?x"
      using len by simp_all
    ultimately show ?thesis using "2.IH" [OF rn [symmetric]] Suc rn by simp
  qed simp
qed simp

lemma utf8_trim_chunks: "utf8 (unchunk (trim_chunks (utf8 s))) = trim_chunks (utf8 s)"
proof -
  have *: "\<exists>j k. trim_chunks cs = take k (drop j cs)" for cs
    by (metis dropWhile_eq_drop rev_drop rev_rev_ident trim_chunks_def)
  then obtain j k where "trim_chunks (utf8 s) = take k (drop j (utf8 s))" by blast
  then show ?thesis by (metis utf8_drop utf8_take)
qed

lemma trim_chunks_idem: "trim_chunks (trim_chunks cs) = trim_chunks cs"
proof -
  let ?d = "dropWhile (is_space \<circ> fst)"
  let ?x = "?d (rev (?d cs))"
  have "?d (rev ?x) = rev ?x"
  proof (cases "rev ?x")
    case (Cons a as)
    have "rev (?d cs) = takeWhile (is_space \<circ> fst) (rev (?d cs)) @ ?x" by simp
    then have "?d cs = rev ?x @ rev (takeWhile (is_space \<circ> fst) (rev (?d cs)))"
      by (metis rev_append rev_rev_ident)
    then have "hd (?d cs) = a" using Cons by (metis append_Cons list.sel(1))
    moreover have "?d cs \<noteq> []" using Cons by force
    ultimately have "\<not> (is_space \<circ> fst) a" by (metis hd_dropWhile)
    then show ?thesis using Cons by simp
  next
    case Nil
    show ?thesis by (simp only: Nil dropWhile.simps)
  qed
  moreover have "?d ?x = ?x" by (simp add: dropWhile_idem)
  ultimately show ?thesis by (simp add: trim_chunks_def)
qed

lemma trim_space_idem [simp]: "trim_space (trim_space s) = trim_space s"
  by (simp add: trim_space_def utf8_trim_chunks trim_chunks_idem)

lemma utf8_trim_space: "utf8 (trim_space s) = trim_chunks (utf8 s)"
  by (simp add: trim_space_def utf8_trim_chunks)

text \<open>A trimmed string neither starts nor ends with a space.\<close>

lemma trim_space_ends:
  assumes "utf8 (trim_space s) = c # cs"
  shows "\<not> is_space (fst c)" "\<not> is_space (fst (last (c # cs)))"
proof -
  let ?d = "dropWhile (is_space \<circ> fst)"
  have t: "trim_chunks (c # cs) = c # cs"
    using assms by (metis trim_chunks_idem utf8_trim_space)
  show "\<not> is_space (fst (last (c # cs)))"
  proof -
    have "?d (rev (?d (c # cs))) = rev (c # cs)"
      using t by (metis rev_rev_ident trim_chunks_def)
    then have "hd (rev (c # cs)) = hd (?d (rev (?d (c # cs))))" by simp
    moreover have "?d (rev (?d (c # cs))) \<noteq> []"
      using \<open>?d (rev (?d (c # cs))) = rev (c # cs)\<close> by simp
    ultimately have "\<not> (is_space \<circ> fst) (hd (rev (c # cs)))" by (metis hd_dropWhile)
    moreover have "hd (rev (c # cs)) = last (c # cs)" by (rule hd_rev)
    ultimately show ?thesis by (metis comp_apply)
  qed
  show "\<not> is_space (fst c)"
  proof
    assume "is_space (fst c)"
    then have "length (trim_chunks (c # cs)) \<le> length cs"
      using length_dropWhile_le [of "is_space \<circ> fst" cs]
        length_dropWhile_le [of "is_space \<circ> fst" "rev (?d cs)"]
      by (simp add: trim_chunks_def)
    then show False using t by simp
  qed
qed

lemma trim_space_Nil [simp]: "trim_space [] = []"
  by (simp add: trim_space_def trim_chunks_def)

text \<open>ASCII text is its characters, and one that neither starts nor ends with a space is trimmed already.\<close>

lemma utf8_ascii:
  "list_all (\<lambda>c. of_char c < (128::nat)) s \<Longrightarrow> utf8 s = map (\<lambda>c. (of_char c, [c])) s"
  by (induction s) (simp_all add: first_rune_def decode_rune_def)

lemma trim_space_ascii:
  assumes "list_all (\<lambda>c. of_char c < (128::nat)) s" "s \<noteq> []"
    "\<not> is_space (of_char (hd s))" "\<not> is_space (of_char (last s))"
  shows "trim_space s = s"
proof -
  let ?f = "\<lambda>c. (of_char c :: rune, [c])"
  let ?d = "dropWhile (is_space \<circ> fst)"
  have "?d (map ?f s) = map ?f s" using assms(2,3) by (cases s) auto
  moreover have "?d (rev (map ?f s)) = rev (map ?f s)"
    using assms(2,4) by (cases s rule: rev_cases) auto
  ultimately have "trim_chunks (map ?f s) = map ?f s" by (simp add: trim_chunks_def)
  moreover have "unchunk (map ?f s) = s" by (induction s) auto
  ultimately show ?thesis by (simp add: trim_space_def utf8_ascii [OF assms(1)])
qed

subsection \<open>Decimal digits written and read\<close>

text \<open>
  What \<^verbatim>\<open>strconv.Itoa\<close> writes and \<^verbatim>\<open>strconv.Atoi\<close> reads: lemmas on decimal digits that the parsers of
  quantities, the lock file and the indexers' tokens share.
\<close>

lemma is_digit_digit_char [simp]: "d < 10 \<Longrightarrow> is_digit (digit_char d)"
  by (simp add: is_digit_def digit_char_def of_char_of)

lemma of_char_digit_char [simp]: "d < 10 \<Longrightarrow> of_char (digit_char d) = 48 + d"
  by (simp add: digit_char_def of_char_of)

lemma nat_digits_digits: "list_all is_digit (nat_digits n)"
proof (induction n rule: nat_digits.induct)
  case (1 n)
  then show ?case by (subst nat_digits.simps) auto
qed

lemma nat_digits_not_Nil [simp]: "nat_digits n \<noteq> []"
  by (subst nat_digits.simps) simp

definition dec_val :: "nat \<Rightarrow> string \<Rightarrow> nat" where
  "dec_val a s = foldl (\<lambda>a c. 10 * a + (of_char c - 48)) a s"

lemma dec_val_simps [simp]:
  "dec_val a [] = a" "dec_val a (c # s) = dec_val (10 * a + (of_char c - 48)) s"
  "dec_val a (s @ t) = dec_val (dec_val a s) t"
  by (simp_all add: dec_val_def)

lemma dec_val_nat_digits: "dec_val 0 (nat_digits n) = n"
proof (induction n rule: nat_digits.induct)
  case (1 n)
  then show ?case by (subst nat_digits.simps) auto
qed

lemma digit_ascii:
  assumes "is_digit c"
  shows "of_char c < (128::nat)" "\<not> is_space (of_char c)" "c \<noteq> CHR ''.''" "c \<noteq> CHR ''_''" "c \<noteq> CHR ''-''"
    "c \<noteq> CHR ''+''" "lower_char c = c"
proof -
  have c: "48 \<le> (of_char c :: nat)" "(of_char c :: nat) \<le> 57" using assms by (auto simp: is_digit_def)
  then show "of_char c < (128::nat)" "\<not> is_space (of_char c)" by (auto simp: is_space_def)
  show "c \<noteq> CHR ''.''" "c \<noteq> CHR ''_''" "c \<noteq> CHR ''-''" "c \<noteq> CHR ''+''" using c by auto
  show "lower_char c = c" using c by (simp add: lower_char_def Let_def)
qed

lemma itoa_digits: "0 \<le> n \<Longrightarrow> itoa n = nat_digits (nat n)"
  by (simp add: itoa_def)

lemma trim_space_digits:
  assumes "list_all is_digit s" "s \<noteq> []" shows "trim_space s = s"
  using assms by (intro trim_space_ascii) (auto simp: list_all_iff digit_ascii)

text \<open>The decimal digits of a number are few.\<close>

lemma nat_digits_length: "n < 10 ^ Suc k \<Longrightarrow> List.length (nat_digits n) \<le> Suc k"
proof (induction k arbitrary: n)
  case (Suc k)
  then have "n div 10 < 10 ^ Suc k" by (simp add: less_mult_imp_div_less mult.commute)
  with Suc.IH have "List.length (nat_digits (n div 10)) \<le> Suc k" by blast
  then show ?case by (subst nat_digits.simps) simp
qed (subst nat_digits.simps, simp)

lemma dec_val_digits_val: "digits_val s = dec_val 0 s"
  by (simp add: digits_val_def dec_val_def)

lemma atoi_itoa: "0 \<le> n \<Longrightarrow> in_int64 n \<Longrightarrow> atoi (itoa n) = Some n"
proof -
  assume n: "0 \<le> n" "in_int64 n"
  note d = nat_digits_digits [of "nat n"]
  obtain c s where s: "nat_digits (nat n) = c # s" by (cases "nat_digits (nat n)") auto
  then have "is_digit c" using d by simp
  then have "\<not> has_prefix (c # s) ''-''" "\<not> has_prefix (c # s) ''+''" using digit_ascii by auto
  then show ?thesis using n d s dec_val_nat_digits [of "nat n"]
    by (simp add: atoi_def itoa_digits Let_def dec_val_digits_val)
qed

text \<open>Spaces after digits are trimmed.\<close>

lemma trim_space_digits_space:
  assumes "list_all is_digit s" "s \<noteq> []" "of_char c < (128::nat)" "is_space (of_char c)"
  shows "trim_space (s @ [c]) = s"
proof -
  have a: "list_all (\<lambda>c. of_char c < (128::nat)) s" using assms(1) by (auto simp: list_all_iff digit_ascii)
  have u: "utf8 (s @ [c]) = utf8 s @ [(of_char c, [c])]" using a assms(3) by (simp add: utf8_ascii)
  obtain x t where s: "s = x # t" using assms(2) by (cases s) auto
  have m: "utf8 s = map (\<lambda>c. (of_char c, [c])) s" by (rule utf8_ascii [OF a])
  have "dropWhile (is_space \<circ> fst) (utf8 s @ ys) = utf8 s @ ys" for ys
    unfolding m using s assms(1) digit_ascii(2) [of x] by simp
  from this [of "[]"] this [of "[(of_char c, [c])]"]
  have "trim_chunks (utf8 s @ [(of_char c, [c])]) = trim_chunks (utf8 s)"
    using assms(4) by (simp add: trim_chunks_def)
  then show ?thesis using trim_space_digits [OF assms(1,2)] by (simp add: trim_space_def u)
qed

end
