(* ===== verification/Float64.thy ===== *)
theory Float64
  imports Complex_Main "HOL-Library.Log_Nat"
begin

text \<open>
  Go's \<^verbatim>\<open>float64\<close>: a finite value is an exact rational, every operation rounds its exact
  result to the nearest 53-bit value, ties to even (\<open>rnd\<close>), and overflow gives an infinity.
  Positive and negative zero are one value: nothing in the modelled code tells them apart.
  The lemmas at the end say what the components rely on: rounding keeps the sign, and every
  integer of at most 53 bits is exact.
\<close>

datatype f64 = Fin rat | PosInf | NegInf | NaN

definition two_pow :: "int \<Rightarrow> rat" where
  "two_pow e = (if 0 \<le> e then 2 ^ nat e else 1 / 2 ^ nat (- e))"

text \<open>The exponent of the leading bit of a positive rational.\<close>

definition ilog2 :: "rat \<Rightarrow> int" where
  "ilog2 a = (case quotient_of a of (p, d) \<Rightarrow>
     let k = int (floorlog 2 (nat p)) - int (floorlog 2 (nat d))
     in if two_pow k \<le> a then k else k - 1)"

definition round_half_even :: "rat \<Rightarrow> int" where
  "round_half_even x = (let f = \<lfloor>x\<rfloor>; d = x - of_int f in
     if d < 1 / 2 then f else if 1 / 2 < d then f + 1 else if even f then f else f + 1)"

definition rnd :: "rat \<Rightarrow> f64" where
  "rnd q = (if q = 0 then Fin 0 else
     let a = \<bar>q\<bar>; u = two_pow (max (ilog2 a) (- 1022) - 52);
         r = of_int (round_half_even (a / u)) * u
     in if two_pow 1024 \<le> r then (if 0 < q then PosInf else NegInf)
        else Fin (if 0 < q then r else - r))"

definition f64_of_int :: "int \<Rightarrow> f64" where
  "f64_of_int n = rnd (of_int n)"

subsection \<open>Arithmetic and comparison\<close>

fun f64_add :: "f64 \<Rightarrow> f64 \<Rightarrow> f64" where
  "f64_add (Fin a) (Fin b) = rnd (a + b)"
| "f64_add NaN _ = NaN"
| "f64_add _ NaN = NaN"
| "f64_add PosInf NegInf = NaN"
| "f64_add NegInf PosInf = NaN"
| "f64_add PosInf _ = PosInf"
| "f64_add NegInf _ = NegInf"
| "f64_add (Fin _) PosInf = PosInf"
| "f64_add (Fin _) NegInf = NegInf"

definition f64_sgn :: "f64 \<Rightarrow> int" where
  "f64_sgn x = (case x of Fin a \<Rightarrow> (if a < 0 then -1 else if a = 0 then 0 else 1)
     | PosInf \<Rightarrow> 1 | NegInf \<Rightarrow> -1 | NaN \<Rightarrow> 0)"

text \<open>The infinity with the sign of \<open>s\<close>; there is none for 0, whose result is NaN.\<close>

definition signed_inf :: "int \<Rightarrow> f64" where
  "signed_inf s = (if s = 0 then NaN else if 0 < s then PosInf else NegInf)"

fun f64_mul :: "f64 \<Rightarrow> f64 \<Rightarrow> f64" where
  "f64_mul (Fin a) (Fin b) = rnd (a * b)"
| "f64_mul NaN _ = NaN"
| "f64_mul _ NaN = NaN"
| "f64_mul x y = signed_inf (f64_sgn x * f64_sgn y)"

fun f64_div :: "f64 \<Rightarrow> f64 \<Rightarrow> f64" where
  "f64_div (Fin a) (Fin b) = (if b = 0 then signed_inf (f64_sgn (Fin a)) else rnd (a / b))"
| "f64_div NaN _ = NaN"
| "f64_div _ NaN = NaN"
| "f64_div (Fin a) _ = Fin 0"
| "f64_div x (Fin b) = (if b < 0 then signed_inf (- f64_sgn x) else x)"
| "f64_div _ _ = NaN"

fun f64_le :: "f64 \<Rightarrow> f64 \<Rightarrow> bool" where
  "f64_le (Fin a) (Fin b) = (a \<le> b)"
| "f64_le NaN _ = False"
| "f64_le _ NaN = False"
| "f64_le NegInf _ = True"
| "f64_le _ PosInf = True"
| "f64_le PosInf _ = False"
| "f64_le (Fin _) NegInf = False"

fun f64_lt :: "f64 \<Rightarrow> f64 \<Rightarrow> bool" where
  "f64_lt (Fin a) (Fin b) = (a < b)"
| "f64_lt NaN _ = False"
| "f64_lt _ NaN = False"
| "f64_lt _ NegInf = False"
| "f64_lt NegInf _ = True"
| "f64_lt PosInf _ = False"
| "f64_lt (Fin _) PosInf = True"

text \<open>\<^verbatim>\<open>math.Max\<close>: an infinite \<^verbatim>\<open>+Inf\<close> wins over NaN, NaN over everything else.\<close>

definition f64_max :: "f64 \<Rightarrow> f64 \<Rightarrow> f64" where
  "f64_max x y = (if x = PosInf \<or> y = PosInf then PosInf
     else if x = NaN \<or> y = NaN then NaN else if f64_lt x y then y else x)"

text \<open>
  Conversion to a 64-bit integer truncates towards zero. Go leaves the result open when the
  value does not fit (or is not a number); the model takes the smallest integer, which is what
  amd64 gives.
\<close>

definition f64_trunc :: "rat \<Rightarrow> int" where
  "f64_trunc a = (if 0 \<le> a then \<lfloor>a\<rfloor> else - \<lfloor>- a\<rfloor>)"

definition int_of_f64 :: "f64 \<Rightarrow> int" where
  "int_of_f64 x = (case x of
     Fin a \<Rightarrow> (let n = f64_trunc a in if - (2 ^ 63) \<le> n \<and> n < 2 ^ 63 then n else - (2 ^ 63))
   | _ \<Rightarrow> - (2 ^ 63))"

definition f64_finite :: "f64 \<Rightarrow> bool" where
  "f64_finite x = (case x of Fin _ \<Rightarrow> True | _ \<Rightarrow> False)"

definition f64_nonneg :: "f64 \<Rightarrow> bool" where
  "f64_nonneg x = (case x of Fin a \<Rightarrow> 0 \<le> a | PosInf \<Rightarrow> True | _ \<Rightarrow> False)"

subsection \<open>What rounding keeps\<close>

lemma two_pow_pos [simp]: "0 < two_pow e"
  by (simp add: two_pow_def)

lemma two_pow_ge_0 [simp]: "0 \<le> two_pow e"
  by (simp add: less_imp_le)

lemma two_pow_neq_0 [simp]: "two_pow e \<noteq> 0"
  by (simp add: two_pow_def)

lemma round_half_even_of_int [simp]: "round_half_even (of_int n) = n"
  by (simp add: round_half_even_def)

lemma round_half_even_nonneg: "0 \<le> x \<Longrightarrow> 0 \<le> round_half_even x"
  by (auto simp: round_half_even_def Let_def)

lemma rnd_0 [simp]: "rnd 0 = Fin 0"
  by (simp add: rnd_def)

lemma rnd_not_NaN [simp]: "rnd q \<noteq> NaN"
  by (simp add: rnd_def Let_def)

lemma rnd_nonneg:
  assumes "0 \<le> q" shows "f64_nonneg (rnd q)"
proof (cases "q = 0")
  case False
  have "0 \<le> \<bar>q\<bar> / two_pow e" for e by simp
  then have "0 \<le> round_half_even (\<bar>q\<bar> / two_pow e)" for e
    by (rule round_half_even_nonneg)
  then show ?thesis using assms False
    by (auto simp: rnd_def f64_nonneg_def Let_def)
qed (simp add: f64_nonneg_def)

lemma ilog2_of_int:
  assumes "0 < n" shows "ilog2 (of_int n) = int (floorlog 2 (nat n)) - 1"
proof -
  let ?l = "floorlog 2 (nat n)"
  have pos: "0 < ?l" using assms by (simp add: floorlog_def)
  have "2 ^ (?l - 1) \<le> nat n"
    using floorlog_bounds [of "nat n" 2] assms by simp
  then have "(2::int) ^ (?l - 1) \<le> n"
    using assms by (simp add: nat_le_eq_zle le_nat_iff)
  then have "(2::rat) ^ (?l - 1) \<le> of_int n"
    by (metis of_int_le_iff of_int_numeral of_int_power)
  then have "two_pow (int ?l - 1) \<le> (of_int n :: rat)"
    using pos by (simp add: two_pow_def nat_diff_distrib)
  moreover have "floorlog 2 (nat 1) = 1" by (simp add: floorlog_def)
  ultimately show ?thesis by (simp add: ilog2_def Let_def)
qed

lemma rnd_of_int_pos:
  assumes "0 < n" "n \<le> 2 ^ 53" shows "rnd (of_int n) = Fin (of_int n)"
proof -
  let ?l = "floorlog 2 (nat n)" and ?k = "ilog2 (of_int n)"
  have k: "?k = int ?l - 1" by (rule ilog2_of_int [OF assms(1)])
  have pos: "0 < ?l" using assms by (simp add: floorlog_def)
  have lo: "(2::nat) ^ (?l - 1) \<le> nat n" and hi: "nat n < 2 ^ ?l"
    using floorlog_bounds [of "nat n" 2] assms by simp_all
  have "nat n \<le> 2 ^ 53" using assms(2) by (simp add: nat_le_iff)
  with lo have "(2::nat) ^ (?l - 1) \<le> 2 ^ 53" by (rule le_trans)
  then have l54: "?l - 1 \<le> 53"
    by (rule power_le_imp_le_exp [rotated]) simp
  let ?u = "two_pow (?k - 52)"
  have int: "\<exists>m. (of_int n :: rat) / ?u = of_int m"
  proof (cases "?k \<le> 52")
    case True
    then have "(of_int n :: rat) / ?u = of_int (n * 2 ^ nat (52 - ?k))"
      by (cases "?k = 52") (simp_all add: two_pow_def)
    then show ?thesis by blast
  next
    case False
    with k l54 pos have k53: "?k = 53" by linarith
    with k have l: "?l = 54" by simp
    have "2 ^ 53 \<le> nat n" using lo unfolding l by simp
    with assms have n: "n = 2 ^ 53" by simp
    show ?thesis by (rule exI [of _ "2 ^ 52"]) (simp only: k53, simp add: two_pow_def n)
  qed
  then obtain m where m: "(of_int n :: rat) / ?u = of_int m" by blast
  then have r: "of_int (round_half_even (of_int n / ?u)) * ?u = (of_int n :: rat)"
    by (metis nonzero_eq_divide_eq round_half_even_of_int two_pow_neq_0)
  have mx: "max ?k (- 1022) = ?k" using k pos by linarith
  have "(of_int n :: rat) \<le> 2 ^ 53"
    using assms(2) by (metis of_int_le_iff of_int_numeral of_int_power)
  also have "\<dots> < two_pow 1024" by (simp add: two_pow_def)
  finally have "\<not> two_pow 1024 \<le> (of_int n :: rat)" by simp
  then show ?thesis
    using assms(1) r mx by (simp add: rnd_def Let_def)
qed

lemma rnd_minus: "rnd (- q) = (case rnd q of Fin a \<Rightarrow> Fin (- a) | PosInf \<Rightarrow> NegInf
    | NegInf \<Rightarrow> PosInf | NaN \<Rightarrow> NaN)"
  by (cases "q = 0"; cases "0 < q") (auto simp: rnd_def Let_def)

lemma f64_of_int_exact:
  assumes "\<bar>n\<bar> \<le> 2 ^ 53" shows "f64_of_int n = Fin (of_int n)"
proof -
  consider "n = 0" | "0 < n" | "n < 0" by linarith
  then show ?thesis
  proof cases
    case 3
    then have "rnd (of_int (- n)) = Fin (of_int (- n))"
      using assms by (intro rnd_of_int_pos) auto
    then show ?thesis using rnd_minus [of "of_int (- n)"] by (simp add: f64_of_int_def)
  qed (use assms rnd_of_int_pos in \<open>auto simp: f64_of_int_def\<close>)
qed

lemma rnd_numeral_exact:
  "numeral k \<le> (2 ^ 53 :: int) \<Longrightarrow> rnd (numeral k) = Fin (numeral k)"
  using rnd_of_int_pos [of "numeral k"] by simp

lemma rnd_1 [simp]: "rnd 1 = Fin 1"
  using rnd_of_int_pos [of 1] by simp

lemma f64_le_refl: "x \<noteq> NaN \<Longrightarrow> f64_le x x"
  by (cases x) auto

lemma f64_lt_imp_not_le: "f64_lt x y \<Longrightarrow> \<not> f64_le y x"
  by (cases x; cases y) auto

lemma f64_max_0_nonneg: "x \<noteq> NaN \<Longrightarrow> f64_nonneg (f64_max (Fin 0) x)"
  by (cases x) (auto simp: f64_max_def f64_nonneg_def)

lemma f64_div_fin_not_NaN: "0 < b \<Longrightarrow> f64_div (Fin a) (Fin b) \<noteq> NaN"
  by simp

lemma f64_nonneg_le_0: "f64_nonneg x = f64_le (Fin 0) x"
  by (cases x) (auto simp: f64_nonneg_def)

lemma ilog2_bound:
  assumes "0 < a" "a \<le> 2 ^ k" shows "ilog2 a \<le> int k"
proof -
  obtain p d where pd: "quotient_of a = (p, d)" by force
  have d: "0 < d" using quotient_of_denom_pos [OF pd] .
  have a: "a = of_int p / of_int d" using quotient_of_div [OF pd] .
  have p: "0 < p" using assms(1) d unfolding a by (simp add: zero_less_divide_iff)
  have "(of_int p :: rat) \<le> of_int (d * 2 ^ k)"
    using assms(2) d unfolding a by (simp add: pos_divide_le_eq mult.commute)
  then have "p \<le> d * 2 ^ k" by (simp only: of_int_le_iff)
  then have "nat p \<le> nat d * 2 ^ k" using d by (simp add: nat_le_iff)
  then have "floorlog 2 (nat p) \<le> floorlog 2 (nat d * 2 ^ k)" by (rule floorlog_mono)
  also have "\<dots> = floorlog 2 (nat d) + k" by (rule floorlog_power) (use d in simp_all)
  finally have "int (floorlog 2 (nat p)) - int (floorlog 2 (nat d)) \<le> int k" by simp
  then show ?thesis by (auto simp: ilog2_def pd Let_def)
qed

lemma two_pow_mono: "i \<le> j \<Longrightarrow> 0 \<le> j \<Longrightarrow> two_pow i \<le> two_pow j"
proof -
  assume ij: "i \<le> j" "0 \<le> j"
  show ?thesis
  proof (cases "0 \<le> i")
    case True
    then show ?thesis using ij by (simp add: two_pow_def nat_mono power_increasing)
  next
    case False
    then have "two_pow i \<le> 1" by (simp add: two_pow_def)
    also have "(1::rat) \<le> two_pow j" using ij by (simp add: two_pow_def)
    finally show ?thesis .
  qed
qed

lemma rnd_finite:
  assumes "\<bar>q\<bar> \<le> 2 ^ 70" shows "\<exists>r. rnd q = Fin r \<and> \<bar>r\<bar> \<le> \<bar>q\<bar> + 2 ^ 18"
proof (cases "q = 0")
  case False
  define a where "a = \<bar>q\<bar>"
  define u where "u = two_pow (max (ilog2 a) (- 1022) - 52)"
  define r where "r = of_int (round_half_even (a / u)) * u"
  have a: "0 < a" "a \<le> 2 ^ 70" using assms False by (simp_all add: a_def)
  have u: "0 < u" by (simp add: u_def)
  have "u \<le> two_pow 18"
    unfolding u_def by (rule two_pow_mono) (use ilog2_bound [of a 70] a in auto)
  then have u18: "u \<le> 2 ^ 18" by (simp add: two_pow_def)
  have "of_int \<lfloor>a / u\<rfloor> \<le> a / u" by (rule of_int_floor_le)
  then have "of_int (round_half_even (a / u)) \<le> a / u + 1"
    using add_increasing2 [of 1 "of_int \<lfloor>a / u\<rfloor>" "a / u"]
    unfolding round_half_even_def Let_def by simp
  then have "r \<le> (a / u + 1) * u" unfolding r_def using u by (intro mult_right_mono) auto
  also have "\<dots> = a + u" using u by (simp add: field_simps)
  finally have le: "r \<le> a + 2 ^ 18" using u18 by simp
  have ge: "0 \<le> r" unfolding r_def
    using u a by (intro mult_nonneg_nonneg) (auto intro: round_half_even_nonneg)
  have "r < two_pow 1024"
  proof -
    have "r \<le> 2 ^ 70 + 2 ^ 18" using le a(2) by simp
    also have "\<dots> < two_pow 1024" by (simp add: two_pow_def)
    finally show ?thesis .
  qed
  then have "rnd q = Fin (if 0 < q then r else - r)"
    using False by (simp add: rnd_def Let_def r_def u_def a_def)
  then show ?thesis using le ge by (auto simp: a_def)
qed simp

text \<open>Rounding does not pass a small whole number.\<close>

lemma round_half_even_le: "x \<le> of_int N \<Longrightarrow> round_half_even x \<le> N"
proof -
  assume x: "x \<le> of_int N"
  show ?thesis
  proof (cases "x = of_int N")
    case False
    then have "\<lfloor>x\<rfloor> < N" using x by (simp add: floor_less_iff)
    then show ?thesis by (simp add: round_half_even_def Let_def)
  qed simp
qed

lemma rnd_between:
  assumes "0 \<le> x" "x \<le> of_int n" "n \<le> 2 ^ 52"
  shows "\<exists>r. rnd x = Fin r \<and> 0 \<le> r \<and> r \<le> of_int n"
proof (cases "x = 0")
  case True
  then show ?thesis using assms by simp
next
  case False
  define e where "e = max (ilog2 x) (- 1022) - 52"
  define r where "r = of_int (round_half_even (x / two_pow e)) * two_pow e"
  have x: "0 < x" using assms False by simp
  have n: "(of_int n :: rat) \<le> 2 ^ 52" using assms(3) by (metis of_int_le_iff of_int_numeral of_int_power)
  have "ilog2 x \<le> 52" using ilog2_bound [of x 52] x assms(2) n by simp
  then have e: "e \<le> 0" by (simp add: e_def)
  have "x / two_pow e \<le> of_int n / two_pow e" using assms(2) by (simp add: divide_right_mono)
  also have "\<dots> = of_int (n * 2 ^ nat (- e))" using e by (simp add: two_pow_def)
  finally have "round_half_even (x / two_pow e) \<le> n * 2 ^ nat (- e)" by (rule round_half_even_le)
  then have "(of_int (round_half_even (x / two_pow e)) :: rat) \<le> of_int (n * 2 ^ nat (- e))" by (simp only: of_int_le_iff)
  then have "r \<le> of_int (n * 2 ^ nat (- e)) * two_pow e" unfolding r_def by (rule mult_right_mono) simp
  also have "\<dots> = of_int n" using e by (simp add: two_pow_def)
  finally have le: "r \<le> of_int n" .
  have ge: "0 \<le> r" unfolding r_def using x by (intro mult_nonneg_nonneg) (auto intro: round_half_even_nonneg)
  have "r < two_pow 1024"
  proof -
    have "r \<le> 2 ^ 52" using le n by simp
    also have "\<dots> < two_pow 1024" by (simp add: two_pow_def)
    finally show ?thesis .
  qed
  then have "rnd x = Fin r" using x by (simp add: rnd_def Let_def r_def e_def)
  then show ?thesis using le ge by blast
qed

end
