(* ===== verification/EngineTypes.thy ===== *)
theory EngineTypes
  imports GoStrings Float64
begin

text \<open>
  The types of \<^verbatim>\<open>internal/engine/types.go\<close>: priorities, lifecycle states, the snapshot of a
  torrent and the events the engine publishes. \<^verbatim>\<open>Priority\<close> and \<^verbatim>\<open>State\<close> are integers on the
  wire, so each datatype has a constructor for an integer outside the named constants, which the
  source's \<^verbatim>\<open>default\<close> branches handle.
\<close>

subsection \<open>Priorities\<close>

datatype priority = PriorityNone | PriorityLow | PriorityNormal | PriorityHigh | PriorityNow
  | PriorityOther int

fun priority_num :: "priority \<Rightarrow> int" where
  "priority_num PriorityNone = 0"
| "priority_num PriorityLow = 1"
| "priority_num PriorityNormal = 2"
| "priority_num PriorityHigh = 3"
| "priority_num PriorityNow = 4"
| "priority_num (PriorityOther n) = n"

fun priority_String :: "priority \<Rightarrow> string" where
  "priority_String PriorityNone = ''none''"
| "priority_String PriorityLow = ''low''"
| "priority_String PriorityNormal = ''normal''"
| "priority_String PriorityHigh = ''high''"
| "priority_String PriorityNow = ''now''"
| "priority_String (PriorityOther _) = ''unknown''"

definition ParsePriority :: "string \<Rightarrow> priority option" where
  "ParsePriority s =
     (if s = ''none'' \<or> s = ''skip'' then Some PriorityNone
      else if s = ''low'' then Some PriorityLow
      else if s = ''normal'' \<or> s = '''' then Some PriorityNormal
      else if s = ''high'' then Some PriorityHigh
      else if s = ''now'' \<or> s = ''max'' then Some PriorityNow
      else None)"

subsection \<open>Lifecycle states\<close>

datatype state = StateChecking | StateQueued | StatePaused | StateDownloading | StateSeeding
  | StateError | StateBlocked | StateLowDisk | StateOther int

fun state_num :: "state \<Rightarrow> int" where
  "state_num StateChecking = 0"
| "state_num StateQueued = 1"
| "state_num StatePaused = 2"
| "state_num StateDownloading = 3"
| "state_num StateSeeding = 4"
| "state_num StateError = 5"
| "state_num StateBlocked = 6"
| "state_num StateLowDisk = 7"
| "state_num (StateOther n) = n"

fun state_String :: "state \<Rightarrow> string" where
  "state_String StateChecking = ''checking''"
| "state_String StateQueued = ''queued''"
| "state_String StatePaused = ''paused''"
| "state_String StateDownloading = ''downloading''"
| "state_String StateSeeding = ''seeding''"
| "state_String StateError = ''error''"
| "state_String StateBlocked = ''blocked''"
| "state_String StateLowDisk = ''low disk''"
| "state_String (StateOther _) = ''unknown''"

subsection \<open>Snapshots, details, events\<close>

type_synonym tid = string

record TorrentSnapshot =
  snap_ID :: tid
  snap_Name :: string
  snap_InfoHash :: string
  snap_TotalLength :: int
  snap_Completed :: int
  snap_Progress :: f64
  snap_DownloadBPS :: f64
  snap_UploadBPS :: f64
  snap_Downloaded :: int
  snap_Uploaded :: int
  snap_Ratio :: f64
  snap_NumPeers :: int
  snap_NumSeeds :: int
  snap_ETA :: duration
  snap_State :: state
  snap_Paused :: bool
  snap_Checking :: bool
  snap_CheckProgress :: f64
  snap_SavePath :: string
  snap_DataDir :: string
  snap_AddedAt :: gotime
  snap_Error :: string
  snap_DownloadLimit :: int
  snap_UploadLimit :: int
  snap_Label :: string

definition StatusText :: "TorrentSnapshot \<Rightarrow> string" where
  "StatusText s =
     (if snap_Checking s \<or>
         (snap_State s = StateChecking \<and> f64_lt (Fin 0) (snap_CheckProgress s))
      then ''checking '' @ itoa (int_of_f64 (f64_mul (snap_CheckProgress s) (Fin 100))) @ ''%''
      else state_String (snap_State s))"

record FileInfo =
  file_Index :: nat
  file_Path :: string
  file_Length :: int
  file_Completed :: int
  file_Priority :: priority

record PeerInfo =
  peer_Addr :: string
  peer_Client :: string
  peer_PeerID :: string
  peer_Source :: string
  peer_DownloadBPS :: f64
  peer_UploadBPS :: f64
  peer_PiecesHave :: int
  peer_PiecesTotal :: int
  peer_Progress :: f64
  peer_Encrypted :: bool

record PieceRun =
  run_Length :: int
  run_Known :: bool
  run_Complete :: bool
  run_Partial :: bool
  run_Checking :: bool

record TrackerInfo =
  tracker_URL :: string
  tracker_Tier :: nat

record TorrentDetail =
  detail_Snapshot :: TorrentSnapshot
  detail_Files :: "FileInfo list"
  detail_Peers :: "PeerInfo list"
  detail_Trackers :: "TrackerInfo list"
  detail_Pieces :: "PieceRun list"
  detail_NumPieces :: int
  detail_PieceLength :: int

record GlobalStats =
  glob_DownloadBPS :: f64
  glob_UploadBPS :: f64
  glob_TotalDownload :: int
  glob_TotalUpload :: int
  glob_NumTorrents :: int
  glob_DiskFreeBytes :: int
  glob_DiskTotalBytes :: int
  glob_ListenPort :: int
  glob_DhtNodes :: int
  glob_VPNRequired :: bool
  glob_VPNActive :: bool
  glob_VPNInterface :: string
  glob_DiskLow :: bool
  glob_MinFreeSpace :: int
  glob_UploadLimit :: int
  glob_DownloadLimit :: int
  glob_Version :: string
  glob_StartedAt :: gotime

record Event =
  ev_Torrents :: "TorrentSnapshot list"
  ev_Global :: GlobalStats
  ev_At :: gotime

record VPNStatus =
  vpn_Active :: bool
  vpn_Interface :: string
  vpn_Reason :: string

record AddOpts =
  opt_SavePath :: string
  opt_Paused :: bool
  opt_Files :: "string list"

definition named_priority :: "priority \<Rightarrow> bool" where
  "named_priority p = (case p of PriorityOther _ \<Rightarrow> False | _ \<Rightarrow> True)"

definition named_state :: "state \<Rightarrow> bool" where
  "named_state s = (case s of StateOther _ \<Rightarrow> False | _ \<Rightarrow> True)"

lemma ParsePriority_String: "named_priority p \<Longrightarrow> ParsePriority (priority_String p) = Some p"
  by (cases p) (simp_all add: ParsePriority_def named_priority_def)

lemma ParsePriority_named: "ParsePriority s = Some p \<Longrightarrow> named_priority p"
  by (auto simp: ParsePriority_def named_priority_def split: if_splits)

lemma state_String_inj:
  "named_state a \<Longrightarrow> named_state b \<Longrightarrow> state_String a = state_String b \<Longrightarrow> a = b"
  by (cases a; cases b) (simp_all add: named_state_def)

end
