(* ===== verification/Library.thy ===== *)
theory Library
  imports EngineTypes
begin

text \<open>
  The torrent library, \<^verbatim>\<open>github.com/anacrolix/torrent\<close>, is not part of the repository and is a
  parameter. The engine talks to it in two ways. It \<^emph>\<open>commands\<close> it: each call that changes
  something is an entry of a history the engine state carries, newest first. And it \<^emph>\<open>reads\<close> it:
  a \<open>lib\<close> says what each accessor returns after a history of commands. Nothing is assumed of a
  \<open>lib\<close> here; the few documented facts a property relies on (a file's priority reads as it was
  last set, say) are named predicates that the property takes as a hypothesis.

  The two priority conversions of \<^verbatim>\<open>internal/engine/ops.go\<close> close the theory, since they are all
  the engine knows of the library's scale.
\<close>

datatype piece_priority = PPNone | PPNormal | PPHigh | PPReadahead | PPNext | PPNow

fun pp_rank :: "piece_priority \<Rightarrow> nat" where
  "pp_rank PPNone = 0"
| "pp_rank PPNormal = 1"
| "pp_rank PPHigh = 2"
| "pp_rank PPReadahead = 3"
| "pp_rank PPNext = 4"
| "pp_rank PPNow = 5"

lemma pp_rank_inj: "pp_rank a = pp_rank b \<longleftrightarrow> a = b"
  by (cases a; cases b) simp_all

instantiation piece_priority :: linorder
begin

definition less_eq_piece_priority :: "piece_priority \<Rightarrow> piece_priority \<Rightarrow> bool" where
  "a \<le> b \<longleftrightarrow> pp_rank a \<le> pp_rank b"

definition less_piece_priority :: "piece_priority \<Rightarrow> piece_priority \<Rightarrow> bool" where
  "a < b \<longleftrightarrow> pp_rank a < pp_rank b"

instance
  by intro_classes (auto simp: less_eq_piece_priority_def less_piece_priority_def pp_rank_inj)

end

type_synonym handle = nat
type_synonym sid = nat

text \<open>What the accessors of one file, one peer connection and one torrent return.\<close>

record fview =
  fv_path :: string
  fv_length :: int
  fv_completed :: int
  fv_priority :: piece_priority

record stats =
  st_read :: int
  st_written :: int
  st_activePeers :: int
  st_seeders :: int

record run_view =
  rv_length :: int
  rv_ok :: bool
  rv_complete :: bool
  rv_partial :: bool
  rv_hashing :: bool
  rv_queued :: bool

datatype peer_source = PSTracker | PSIncoming | PSDhtGetPeers | PSDhtAnnouncePeer | PSPex
  | PSUtHolepunch | PSDirect | PSOther string

record conn_view =
  cv_addr :: string
  cv_read :: int
  cv_written :: int
  cv_remotePieces :: int
  cv_peerID :: string
  cv_client :: "string option"
  cv_source :: peer_source
  cv_encrypted :: bool

record tview =
  tv_hasInfo :: bool
  tv_name :: string
  tv_infohash :: string
  tv_length :: int
  tv_completed :: int
  tv_complete :: bool
  tv_numPieces :: int
  tv_pieceLength :: int
  tv_files :: "fview list"
  tv_stats :: stats
  tv_runs :: "run_view list"
  tv_conns :: "conn_view list"
  tv_announceList :: "string list list"
  tv_announce :: string
  tv_specErr :: "string option"
  tv_pieceLayers :: nat

text \<open>
  A spec handed to \<^verbatim>\<open>AddTorrentSpec\<close>: where it was parsed from, the storage it carries, and
  whether the engine set its piece-layer map to nil (the v1/v2 trap of a re-add).
\<close>

datatype spec_source = FromMagnet string | FromFile string | FromMetainfo handle

record tspec =
  sp_source :: spec_source
  sp_storage :: "sid option"
  sp_layersCleared :: bool

datatype libcmd =
    SetPriority handle nat piece_priority
  | AllowDataDownload handle
  | DisallowDataDownload handle
  | AllowDataUpload handle
  | DisallowDataUpload handle
  | AddTorrentSpec tspec
  | DropTorrent handle
  | NewFile sid string
  | CloseStorage sid

record lib =
  lib_view :: "libcmd list \<Rightarrow> handle \<Rightarrow> tview"
  lib_add :: "libcmd list \<Rightarrow> tspec \<Rightarrow> handle result"
  lib_parse_magnet :: "string \<Rightarrow> string option"
  lib_load_file :: "string \<Rightarrow> string option"
  lib_spec_of_file :: "string \<Rightarrow> string option"
  lib_verify :: "libcmd list \<Rightarrow> handle \<Rightarrow> int \<Rightarrow> string option"
  lib_port :: "libcmd list \<Rightarrow> int"
  lib_dhtNodes :: "libcmd list \<Rightarrow> int list"

text \<open>
  What the machine says during one operation: the clock, the file system's totals (\<^verbatim>\<open>statfs\<close>,
  three counts or an error) and the VPN check the daemon injected.
\<close>

record machine =
  m_now :: gotime
  m_statfs :: "string \<Rightarrow> (int \<times> int \<times> int) result"
  m_vpn :: VPNStatus

definition diskUsage :: "machine \<Rightarrow> string \<Rightarrow> (int \<times> int) result" where
  "diskUsage mc path = (case m_statfs mc path of
     Inl err \<Rightarrow> Inl err
   | Inr (bavail, blocks, bsize) \<Rightarrow> Inr (wrap64 (bavail * bsize), wrap64 (blocks * bsize)))"

definition filesOrNil :: "tview \<Rightarrow> fview list" where
  "filesOrNil v = (if tv_hasInfo v then tv_files v else [])"

definition dhtNodeCount :: "lib \<Rightarrow> libcmd list \<Rightarrow> int" where
  "dhtNodeCount L h = foldl (\<lambda>n k. wrap64 (n + k)) 0 (lib_dhtNodes L h)"

fun toLibPriority :: "priority \<Rightarrow> piece_priority" where
  "toLibPriority PriorityNone = PPNone"
| "toLibPriority PriorityLow = PPNormal"
| "toLibPriority PriorityNormal = PPNormal"
| "toLibPriority PriorityHigh = PPHigh"
| "toLibPriority PriorityNow = PPNow"
| "toLibPriority (PriorityOther _) = PPNormal"

definition fromLibPriority :: "piece_priority \<Rightarrow> priority" where
  "fromLibPriority p =
     (if p = PPNone then PriorityNone
      else if PPNow \<le> p then PriorityNow
      else if PPHigh \<le> p then PriorityHigh
      else PriorityNormal)"

lemma pp_le_simps [simp]:
  "PPNow \<le> p \<longleftrightarrow> p = PPNow" "PPHigh \<le> p \<longleftrightarrow> p \<noteq> PPNone \<and> p \<noteq> PPNormal"
  by (cases p; simp add: less_eq_piece_priority_def)+

lemma fromLib_toLib:
  "fromLibPriority (toLibPriority p) =
     (case p of PriorityNone \<Rightarrow> PriorityNone | PriorityHigh \<Rightarrow> PriorityHigh
      | PriorityNow \<Rightarrow> PriorityNow | _ \<Rightarrow> PriorityNormal)"
  by (cases p) (simp_all add: fromLibPriority_def)

lemma fromLib_None_iff [simp]: "fromLibPriority p = PriorityNone \<longleftrightarrow> p = PPNone"
  by (cases p) (simp_all add: fromLibPriority_def)

lemma fromLib_Normal_iff [simp]: "fromLibPriority p = PriorityNormal \<longleftrightarrow> p = PPNormal"
  by (cases p) (simp_all add: fromLibPriority_def)

lemma fromLib_named [simp]: "named_priority (fromLibPriority p)"
  by (cases p) (simp_all add: fromLibPriority_def named_priority_def)

subsection \<open>Documented facts a property may take as a hypothesis\<close>

text \<open>
  \<^verbatim>\<open>File.Priority\<close> reports what \<^verbatim>\<open>SetPriority\<close> was last called with on that handle, and no
  priority (\<open>PPNone\<close>) for a file nobody has touched.
\<close>

fun last_priority :: "libcmd list \<Rightarrow> handle \<Rightarrow> nat \<Rightarrow> piece_priority" where
  "last_priority [] t i = PPNone"
| "last_priority (SetPriority t' i' p # cs) t i =
     (if t' = t \<and> i' = i then p else last_priority cs t i)"
| "last_priority (_ # cs) t i = last_priority cs t i"

definition priorities_read_back :: "lib \<Rightarrow> bool" where
  "priorities_read_back L \<longleftrightarrow>
     (\<forall>h t i. i < List.length (tv_files (lib_view L h t)) \<longrightarrow>
        fv_priority (tv_files (lib_view L h t) ! i) = last_priority h t i)"

text \<open>
  The switches have no accessor. What they are is what they were last set to; a torrent may move
  data both ways until something says otherwise.
\<close>

fun down_allowed :: "libcmd list \<Rightarrow> handle \<Rightarrow> bool" where
  "down_allowed [] t = True"
| "down_allowed (AllowDataDownload t' # cs) t = (t' = t \<or> down_allowed cs t)"
| "down_allowed (DisallowDataDownload t' # cs) t = (t' \<noteq> t \<and> down_allowed cs t)"
| "down_allowed (_ # cs) t = down_allowed cs t"

fun up_allowed :: "libcmd list \<Rightarrow> handle \<Rightarrow> bool" where
  "up_allowed [] t = True"
| "up_allowed (AllowDataUpload t' # cs) t = (t' = t \<or> up_allowed cs t)"
| "up_allowed (DisallowDataUpload t' # cs) t = (t' \<noteq> t \<and> up_allowed cs t)"
| "up_allowed (_ # cs) t = up_allowed cs t"

text \<open>Storages the engine opened and has not closed.\<close>

fun open_storages :: "libcmd list \<Rightarrow> sid set" where
  "open_storages [] = {}"
| "open_storages (NewFile s _ # cs) = insert s (open_storages cs)"
| "open_storages (CloseStorage s # cs) = open_storages cs - {s}"
| "open_storages (_ # cs) = open_storages cs"

end
