(* ===== verification/FileSys.thy ===== *)
theory FileSys
  imports GoStrings
begin

text \<open>
  The file system the program runs on: \<^verbatim>\<open>path/filepath\<close> as pure functions on Unix paths, and
  a tree of files and directories for the calls of \<^verbatim>\<open>os\<close> the engine makes. The tree maps clean
  absolute paths to nodes. Whatever else can make a call fail is in two fields: \<open>fs_denied\<close> lists
  the paths the kernel refuses to change, \<open>fs_otherDev\<close> those on another device than the rest,
  between which a rename fails.
\<close>

subsection \<open>Paths\<close>

definition slash :: char where "slash = CHR ''/''"

fun clean_step :: "bool \<Rightarrow> string list \<Rightarrow> string \<Rightarrow> string list" where
  "clean_step rooted stack c =
     (if c = [] \<or> c = ''.'' then stack
      else if c = ''..'' then
        (if stack \<noteq> [] \<and> last stack \<noteq> ''..'' then butlast stack
         else if rooted then stack else stack @ [c])
      else stack @ [c])"

definition path_clean :: "string \<Rightarrow> string" where
  "path_clean p =
     (if p = [] then ''.''
      else let rooted = has_prefix p [slash];
               body = str_join (foldl (clean_step rooted) [] (str_split slash p)) [slash]
           in if rooted then slash # body else if body = [] then ''.'' else body)"

text \<open>\<^verbatim>\<open>filepath.Join\<close> of two elements: an empty one does not count.\<close>

definition path_join :: "string \<Rightarrow> string \<Rightarrow> string" where
  "path_join a b =
     (if a \<noteq> [] then path_clean (a @ [slash] @ b)
      else if b \<noteq> [] then path_clean b else [])"

definition path_dir :: "string \<Rightarrow> string" where
  "path_dir p = path_clean (rev (dropWhile (\<lambda>c. c \<noteq> slash) (rev p)))"

definition path_base :: "string \<Rightarrow> string" where
  "path_base p =
     (if p = [] then ''.''
      else let q = trim_right_char slash p
           in if q = [] then [slash] else rev (takeWhile (\<lambda>c. c \<noteq> slash) (rev q)))"

definition path_ext :: "string \<Rightarrow> string" where
  "path_ext p = (let w = takeWhile (\<lambda>c. c \<noteq> slash) (rev p)
     in if CHR ''.'' \<in> set w
        then rev (takeWhile (\<lambda>c. c \<noteq> CHR ''.'') w @ ''.'') else [])"


subsection \<open>The tree\<close>

datatype node = DirNode | FileNode string

record fs =
  fs_nodes :: "(string, node) gomap"
  fs_denied :: "string list"
  fs_otherDev :: "string list"

definition os_stat :: "fs \<Rightarrow> string \<Rightarrow> node option" where
  "os_stat f p = map_of (fs_nodes f) p"

definition os_denied :: "fs \<Rightarrow> string \<Rightarrow> bool" where
  "os_denied f p \<longleftrightarrow> p \<in> set (fs_denied f)"

text \<open>The entries directly inside a directory.\<close>

definition os_children :: "fs \<Rightarrow> string \<Rightarrow> string list" where
  "os_children f p = filter (\<lambda>q. q \<noteq> p \<and> path_dir q = p) (map fst (fs_nodes f))"

text \<open>\<^verbatim>\<open>os.Remove\<close>: a file, or a directory with nothing in it. True when it went.\<close>

definition os_remove :: "string \<Rightarrow> fs \<Rightarrow> bool \<times> fs" where
  "os_remove p f =
     (if os_denied f p then (False, f)
      else case os_stat f p of
        None \<Rightarrow> (False, f)
      | Some DirNode \<Rightarrow> (if os_children f p = []
          then (True, f\<lparr>fs_nodes := AList.delete p (fs_nodes f)\<rparr>) else (False, f))
      | Some (FileNode _) \<Rightarrow> (True, f\<lparr>fs_nodes := AList.delete p (fs_nodes f)\<rparr>))"

text \<open>The directories above a clean path, outermost first, ending with the path itself.\<close>

fun dirs_from :: "string \<Rightarrow> string list \<Rightarrow> string list" where
  "dirs_from pre [] = []"
| "dirs_from pre (c # cs) = (if c = [] then dirs_from pre cs
     else (pre @ c) # dirs_from (pre @ c @ [slash]) cs)"

definition path_dirs :: "string \<Rightarrow> string list" where
  "path_dirs p = dirs_from (if has_prefix p [slash] then [slash] else []) (str_split slash p)"

fun mkdirs :: "string list \<Rightarrow> fs \<Rightarrow> bool \<times> fs" where
  "mkdirs [] f = (True, f)"
| "mkdirs (d # ds) f = (case os_stat f d of
     Some DirNode \<Rightarrow> mkdirs ds f
   | Some (FileNode _) \<Rightarrow> (False, f)
   | None \<Rightarrow> if os_denied f d then (False, f)
       else mkdirs ds (f\<lparr>fs_nodes := AList.update d DirNode (fs_nodes f)\<rparr>))"

definition os_mkdirAll :: "string \<Rightarrow> fs \<Rightarrow> bool \<times> fs" where
  "os_mkdirAll p f = mkdirs (path_dirs (path_clean p)) f"

text \<open>\<^verbatim>\<open>os.Rename\<close>: fails without a source, onto a directory, into a missing directory, or
  between devices. A directory takes what is in it along.\<close>

definition renamed :: "string \<Rightarrow> string \<Rightarrow> string \<Rightarrow> string" where
  "renamed src dst q = (if q = src then dst
     else if has_prefix q (src @ [slash]) then dst @ drop (List.length src) q else q)"

definition os_rename :: "string \<Rightarrow> string \<Rightarrow> fs \<Rightarrow> bool \<times> fs" where
  "os_rename src dst f =
     (if os_denied f src \<or> os_denied f dst \<or> os_stat f src = None
         \<or> os_stat f dst = Some DirNode \<or> os_stat f (path_dir dst) \<noteq> Some DirNode
         \<or> ((src \<in> set (fs_otherDev f)) \<noteq> (dst \<in> set (fs_otherDev f)))
      then (False, f)
      else if src = dst then (True, f)
      else (True, f\<lparr>fs_nodes := map (\<lambda>(q, n). (renamed src dst q, n))
                     (AList.delete dst (fs_nodes f))\<rparr>))"

text \<open>\<^verbatim>\<open>os.Create\<close> with the content written to it.\<close>

definition os_write :: "string \<Rightarrow> string \<Rightarrow> fs \<Rightarrow> bool \<times> fs" where
  "os_write p content f =
     (if os_denied f p \<or> os_stat f p = Some DirNode \<or> os_stat f (path_dir p) \<noteq> Some DirNode
      then (False, f)
      else (True, f\<lparr>fs_nodes := AList.update p (FileNode content) (fs_nodes f)\<rparr>))"

definition os_read :: "string \<Rightarrow> fs \<Rightarrow> string option" where
  "os_read p f = (case os_stat f p of Some (FileNode c) \<Rightarrow> Some c | _ \<Rightarrow> None)"

definition fs_ok :: "fs \<Rightarrow> bool" where
  "fs_ok f \<longleftrightarrow> distinct_keys (fs_nodes f)"

subsection \<open>Lemmas\<close>

lemma os_stat_update [simp]:
  "os_stat (f\<lparr>fs_nodes := AList.update p n (fs_nodes f)\<rparr>) q = (if p = q then Some n else os_stat f q)"
  by (simp add: os_stat_def)

lemma os_stat_delete [simp]:
  "os_stat (f\<lparr>fs_nodes := AList.delete p (fs_nodes f)\<rparr>) q = (if p = q then None else os_stat f q)"
  by (simp add: os_stat_def)

lemma os_remove_other: "p \<noteq> q \<Longrightarrow> os_stat (snd (os_remove p f)) q = os_stat f q"
  by (auto simp: os_remove_def split: option.splits node.splits)

lemma os_remove_True: "fst (os_remove p f) \<Longrightarrow> os_stat (snd (os_remove p f)) p = None"
  by (auto simp: os_remove_def split: option.splits node.splits if_splits)

lemma os_remove_False: "\<not> fst (os_remove p f) \<Longrightarrow> snd (os_remove p f) = f"
  by (auto simp: os_remove_def split: option.splits node.splits if_splits)

lemma os_remove_file:
  "\<not> os_denied f p \<Longrightarrow> os_stat f p = Some (FileNode c) \<Longrightarrow> fst (os_remove p f)"
  by (simp add: os_remove_def)

lemma os_remove_denied [simp]: "fs_denied (snd (os_remove p f)) = fs_denied f"
  by (auto simp: os_remove_def split: option.splits node.splits)

lemma os_remove_ok: "fs_ok f \<Longrightarrow> fs_ok (snd (os_remove p f))"
  by (auto simp: os_remove_def fs_ok_def split: option.splits node.splits)

lemma os_remove_mono: "os_stat f q = None \<Longrightarrow> os_stat (snd (os_remove p f)) q = None"
  by (auto simp: os_remove_def split: option.splits node.splits)

text \<open>A name in a directory: one component of a path.\<close>

definition name_ok :: "string \<Rightarrow> bool" where
  "name_ok n \<longleftrightarrow> n \<noteq> [] \<and> n \<noteq> ''.'' \<and> n \<noteq> ''..'' \<and> slash \<notin> set n"

lemma str_split_append: "str_split c (s @ c # t) = str_split c s @ str_split c t"
proof (induction s)
  case (Cons x s)
  then show ?case by (cases "str_split c s") auto
qed simp

lemma str_join_snoc: "str_join (ws @ [w]) sep = (if ws = [] then w else str_join ws sep @ sep @ w)"
  by (induction ws sep rule: str_join.induct) auto

lemma path_join_name:
  assumes "dir \<noteq> []" "name_ok n"
  shows "path_join dir n = (let rooted = has_prefix dir [slash];
      stack = foldl (clean_step rooted) [] (str_split slash dir);
      body = (if stack = [] then n else str_join stack [slash] @ [slash] @ n)
    in if rooted then slash # body else body)"
proof -
  have r: "has_prefix (dir @ slash # n) [slash] = has_prefix dir [slash]"
    using assms(1) by (cases dir) auto
  have "str_split slash (dir @ [slash] @ n) = str_split slash dir @ [n]"
    using assms(2) by (simp add: str_split_append str_split_no_sep name_ok_def)
  then show ?thesis using assms
    by (auto simp: path_join_def path_clean_def r Let_def str_join_snoc name_ok_def)
qed

lemma path_join_inj: "dir \<noteq> [] \<Longrightarrow> name_ok a \<Longrightarrow> name_ok b \<Longrightarrow> path_join dir a = path_join dir b \<longleftrightarrow> a = b"
  by (auto simp: path_join_name Let_def split: if_splits)

lemma path_ext_app:
  assumes "slash \<notin> set n"
  shows "path_ext (slash # n) = path_ext n \<and> path_ext (p @ slash # n) = path_ext n"
proof -
  have *: "takeWhile (\<lambda>c. c \<noteq> slash) (rev n) = rev n"
    "takeWhile (\<lambda>c. c \<noteq> slash) (rev n @ slash # t) = rev n" for t
    using assms by (auto simp: takeWhile_append takeWhile_eq_all_conv)
  show ?thesis by (simp add: path_ext_def *)
qed

text \<open>The extension of a joined path is the one of its last name.\<close>

lemma path_ext_join: "dir \<noteq> [] \<Longrightarrow> name_ok n \<Longrightarrow> path_ext (path_join dir n) = path_ext n"
  by (auto simp: path_join_name Let_def path_ext_app name_ok_def) (metis append_Cons path_ext_app)

end
