(* ===== verification/EngineState.thy ===== *)
theory EngineState
  imports Library FileSys
begin

text \<open>
  The state of \<^verbatim>\<open>internal/engine/engine.go\<close>: the configuration, one torrent's bookkeeping
  (\<^verbatim>\<open>tracked\<close>), the engine, and the session file it writes. Background work is data: a goroutine
  waiting for metadata is an entry of \<open>e_waiting\<close>, a running verification an entry of
  \<open>tr_checks\<close>, so every interleaving at the granularity of operations is a sequence of steps.

  Three fields stand for what the source sends elsewhere: \<open>e_cmds\<close> is the history of calls to the
  torrent library, \<open>e_log\<close> the messages logged and \<open>e_completions\<close> the calls of the completion
  hook, newest first.
\<close>

subsection \<open>Configuration\<close>

record Config =
  cfg_DataDir :: string
  cfg_ListenPortLow :: int
  cfg_ListenPortHigh :: int
  cfg_RequireVPN :: bool
  cfg_VPNCheck :: bool
  cfg_UploadRateLimit :: int
  cfg_DownloadRateLimit :: int
  cfg_OnComplete :: bool
  cfg_SeedRatio :: f64
  cfg_SeedTime :: duration
  cfg_MinFreeSpace :: int
  cfg_StateDir :: string
  cfg_Version :: string

subsection \<open>One torrent\<close>

record peerBytes =
  pb_down :: int
  pb_up :: int
  pb_downBPS :: f64
  pb_upBPS :: f64

datatype check_kind = Recheck | AfterMove

text \<open>One verification goroutine: the instance it hashes, how many pieces, the next one.\<close>

record check =
  ck_id :: nat
  ck_kind :: check_kind
  ck_t :: handle
  ck_total :: int
  ck_next :: int
  ck_cancelled :: bool

record tracked =
  tr_t :: handle
  tr_addedAt :: gotime
  tr_paused :: bool
  tr_savePath :: string
  tr_magnet :: string
  tr_ownStorage :: "sid option"
  tr_label :: string
  tr_chosenFiles :: "nat list"
  tr_baseDownloaded :: int
  tr_baseUploaded :: int
  tr_lastDownloaded :: int
  tr_lastUploaded :: int
  tr_lastDownBPS :: f64
  tr_lastUpBPS :: f64
  tr_downLimit :: int
  tr_upLimit :: int
  tr_seedRatio :: f64
  tr_seedTime :: duration
  tr_completedAt :: gotime
  tr_lastPeers :: "(string, peerBytes) gomap"
  tr_lastPeersAt :: gotime
  tr_completeLogged :: bool
  tr_holdData :: bool
  tr_checks :: "check list"
  tr_cancelCheck :: "nat option"
  tr_checking :: bool
  tr_lastErr :: string
  tr_checkDone :: int
  tr_checkTotal :: int

text \<open>A fresh entry: every field the composite literal in \<^verbatim>\<open>addSpec\<close> leaves out is zero.\<close>

definition new_tracked :: "handle \<Rightarrow> gotime \<Rightarrow> string \<Rightarrow> bool \<Rightarrow> string \<Rightarrow> sid option \<Rightarrow> tracked" where
  "new_tracked t now magnet paused savePath own =
     \<lparr>tr_t = t, tr_addedAt = now, tr_paused = paused, tr_savePath = savePath, tr_magnet = magnet,
      tr_ownStorage = own, tr_label = [], tr_chosenFiles = [], tr_baseDownloaded = 0,
      tr_baseUploaded = 0, tr_lastDownloaded = 0, tr_lastUploaded = 0, tr_lastDownBPS = Fin 0,
      tr_lastUpBPS = Fin 0, tr_downLimit = 0, tr_upLimit = 0, tr_seedRatio = Fin 0,
      tr_seedTime = 0, tr_completedAt = 0, tr_lastPeers = [], tr_lastPeersAt = 0,
      tr_completeLogged = False, tr_holdData = False, tr_checks = [], tr_cancelCheck = None,
      tr_checking = False, tr_lastErr = [], tr_checkDone = 0, tr_checkTotal = 0\<rparr>"

subsection \<open>The session file\<close>

record filePriorityRecord =
  fpr_Index :: int
  fpr_Priority :: string

record torrentRecord =
  rec_InfoHash :: string
  rec_Name :: string
  rec_Magnet :: string
  rec_SavePath :: string
  rec_Paused :: bool
  rec_UpLimit :: int
  rec_DownLimit :: int
  rec_Uploaded :: int
  rec_Downloaded :: int
  rec_AddedAt :: gotime
  rec_SeedRatio :: f64
  rec_SeedTime :: duration
  rec_CompletedAt :: gotime
  rec_Label :: string
  rec_FilePriorities :: "filePriorityRecord list"

record sessionFile =
  ses_Version :: int
  ses_SavedAt :: gotime
  ses_Torrents :: "torrentRecord list"

text \<open>
  The state directory: what reading \<^verbatim>\<open>session.json\<close> gives, the ids whose metainfo is saved, and
  the faults the disk may have.
\<close>

datatype session_content = NoSession | SessionUnreadable string | SessionCorrupt string
  | SessionOk sessionFile

record statedir =
  sd_session :: session_content
  sd_metainfo :: "tid list"
  sd_mkdirFault :: "string option"
  sd_metainfoFault :: "tid \<Rightarrow> string option"
  sd_writeFault :: "string option"

subsection \<open>The engine\<close>

datatype limiter = RateInf | RateLimit f64

datatype logmsg =
    VpnDetected string
  | VpnHeld string
  | DiskUnreadable string
  | DiskHeld int
  | DiskGuardActive int
  | DiskRecovered int
  | SaveFailed string
  | MetainfoFailed tid string
  | RestoreFailed string string
  | UnknownPriority tid int string
  | PriorityNotRestored tid int string
  | TorrentAdded tid bool
  | MetadataReceived tid
  | NothingSelected tid
  | FilesSelected tid nat nat
  | TorrentRemoved tid bool
  | TorrentLabelled tid string string
  | SeedingFinished tid string
  | SeedStopFailed tid string
  | TorrentComplete tid
  | RecheckStarted tid int
  | RecheckCancelled tid int int
  | RecheckFailed tid string
  | RecheckFinished tid
  | DataDeleted tid
  | PurgeFailed tid string
  | MoveFailed tid string

record waiting =
  wt_t :: handle
  wt_id :: tid
  wt_opts :: AddOpts

record engine =
  e_cfg :: Config
  e_restoring :: bool
  e_upLimiter :: limiter
  e_downLimiter :: limiter
  e_torrents :: "(tid, tracked) gomap"
  e_subs :: "(nat, Event option) gomap"
  e_nextSub :: nat
  e_vpn :: VPNStatus
  e_blocked :: bool
  e_vpnChecked :: bool
  e_lowDisk :: bool
  e_diskFree :: int
  e_diskChecked :: bool
  e_lastTick :: gotime
  e_startedAt :: gotime
  e_closed :: bool
  e_waiting :: "waiting list"
  e_nextCheck :: nat
  e_nextSid :: sid
  e_cmds :: "libcmd list"
  e_disk :: statedir
  e_fs :: fs
  e_log :: "logmsg list"
  e_completions :: "TorrentSnapshot list"

text \<open>A call to the library, a log line, and an assignment through a \<^verbatim>\<open>*tracked\<close>.\<close>

definition cmd :: "libcmd \<Rightarrow> engine \<Rightarrow> engine" where
  "cmd c e = e\<lparr>e_cmds := c # e_cmds e\<rparr>"

definition logf :: "logmsg \<Rightarrow> engine \<Rightarrow> engine" where
  "logf m e = e\<lparr>e_log := m # e_log e\<rparr>"

definition upd_tr :: "tid \<Rightarrow> (tracked \<Rightarrow> tracked) \<Rightarrow> engine \<Rightarrow> engine" where
  "upd_tr k f e = e\<lparr>e_torrents := AList.map_entry k f (e_torrents e)\<rparr>"

definition vw :: "lib \<Rightarrow> engine \<Rightarrow> handle \<Rightarrow> tview" where
  "vw L e t = lib_view L (e_cmds e) t"

definition lookup :: "tid \<Rightarrow> engine \<Rightarrow> tracked result" where
  "lookup k e = (case map_of (e_torrents e) k of
     None \<Rightarrow> Inl ''torrent not found'' | Some tr \<Rightarrow> Inr tr)"

subsection \<open>Lemmas\<close>

lemma map_of_map_entry [simp]:
  "map_of (AList.map_entry k f m) k' = (if k = k' then map_option f (map_of m k) else map_of m k')"
  by (induction m) auto

lemma keys_map_entry [simp]: "map fst (AList.map_entry k f m) = map fst m"
  by (induction m) auto

lemma distinct_keys_map_entry [simp]: "distinct_keys (AList.map_entry k f m) = distinct_keys m"
  by (simp add: distinct_keys_def)

lemma lookup_Inr [simp]: "lookup k e = Inr tr \<longleftrightarrow> map_of (e_torrents e) k = Some tr"
  by (simp add: lookup_def split: option.splits)

lemma lookup_Inl: "lookup k e = Inl err \<longleftrightarrow>
    map_of (e_torrents e) k = None \<and> err = ''torrent not found''"
  by (auto simp add: lookup_def split: option.splits)

lemma lookup_None: "map_of (e_torrents e) k = None \<Longrightarrow> lookup k e = Inl ''torrent not found''"
  by (simp add: lookup_def)

lemma cmd_simps [simp]:
  "e_torrents (cmd c e) = e_torrents e" "e_cmds (cmd c e) = c # e_cmds e"
  "e_cfg (cmd c e) = e_cfg e" "e_subs (cmd c e) = e_subs e" "e_blocked (cmd c e) = e_blocked e"
  "e_lowDisk (cmd c e) = e_lowDisk e" "e_disk (cmd c e) = e_disk e" "e_fs (cmd c e) = e_fs e"
  "e_log (cmd c e) = e_log e" "e_restoring (cmd c e) = e_restoring e"
  "e_waiting (cmd c e) = e_waiting e" "e_nextCheck (cmd c e) = e_nextCheck e"
  "e_nextSid (cmd c e) = e_nextSid e" "e_closed (cmd c e) = e_closed e"
  "e_completions (cmd c e) = e_completions e" "e_nextSub (cmd c e) = e_nextSub e"
  "e_vpn (cmd c e) = e_vpn e"
  by (simp_all add: cmd_def)

lemma logf_simps [simp]:
  "e_torrents (logf m e) = e_torrents e" "e_cmds (logf m e) = e_cmds e"
  "e_cfg (logf m e) = e_cfg e" "e_subs (logf m e) = e_subs e" "e_blocked (logf m e) = e_blocked e"
  "e_lowDisk (logf m e) = e_lowDisk e" "e_disk (logf m e) = e_disk e" "e_fs (logf m e) = e_fs e"
  "e_log (logf m e) = m # e_log e" "e_restoring (logf m e) = e_restoring e"
  "e_waiting (logf m e) = e_waiting e" "e_nextCheck (logf m e) = e_nextCheck e"
  "e_nextSid (logf m e) = e_nextSid e" "e_closed (logf m e) = e_closed e"
  "e_completions (logf m e) = e_completions e" "e_nextSub (logf m e) = e_nextSub e"
  "e_vpn (logf m e) = e_vpn e"
  by (simp_all add: logf_def)

lemma upd_tr_simps [simp]:
  "e_torrents (upd_tr k f e) = AList.map_entry k f (e_torrents e)"
  "e_cmds (upd_tr k f e) = e_cmds e"
  "e_cfg (upd_tr k f e) = e_cfg e" "e_subs (upd_tr k f e) = e_subs e"
  "e_blocked (upd_tr k f e) = e_blocked e" "e_lowDisk (upd_tr k f e) = e_lowDisk e"
  "e_disk (upd_tr k f e) = e_disk e" "e_fs (upd_tr k f e) = e_fs e"
  "e_log (upd_tr k f e) = e_log e" "e_restoring (upd_tr k f e) = e_restoring e"
  "e_waiting (upd_tr k f e) = e_waiting e" "e_nextCheck (upd_tr k f e) = e_nextCheck e"
  "e_nextSid (upd_tr k f e) = e_nextSid e" "e_closed (upd_tr k f e) = e_closed e"
  "e_completions (upd_tr k f e) = e_completions e" "e_nextSub (upd_tr k f e) = e_nextSub e"
  "e_vpn (upd_tr k f e) = e_vpn e"
  by (simp_all add: upd_tr_def)

lemma vw_upd_tr [simp]: "vw L (upd_tr k f e) = vw L e"
  by (simp add: vw_def fun_eq_iff)

lemma vw_logf [simp]: "vw L (logf m e) = vw L e"
  by (simp add: vw_def fun_eq_iff)

end
