(* ===== verification/Snapshot.thy ===== *)
theory Snapshot
  imports EngineState
begin

text \<open>
  Reading and publishing: \<^verbatim>\<open>internal/engine/snapshot.go\<close> (rates, the data-flow decision, a
  torrent's snapshot), and from \<^verbatim>\<open>engine.go\<close> the two guards, subscriptions, the broadcast, the
  event and the constructor.
\<close>

text \<open>
  Two contracts several components share. A \<^emph>\<open>mailbox\<close> is a channel with one slot that a sender
  never blocks on: the engine's subscriptions and the client's event stream are two of them. A
  \<^emph>\<open>guard\<close> is a condition of the machine that is read again and again and logged when its verdict
  changes: the VPN guard and the free-space guard.
\<close>

subsection \<open>Mailboxes\<close>

datatype 'ev mail = Send 'ev | Receive

locale newest_mailbox =
  fixes offer :: "'ev \<Rightarrow> 'ev option \<Rightarrow> 'ev option"
  assumes offer_newest: "offer ev slot = Some ev"
begin

fun deliver :: "'ev mail \<Rightarrow> 'ev option \<Rightarrow> 'ev option" where
  "deliver (Send ev) slot = offer ev slot"
| "deliver Receive slot = None"

lemma after_send: "run_steps deliver (xs @ [Send ev]) slot = Some ev"
  by (simp add: run_steps_append offer_newest)

text \<open>What a slow reader finds is the newest event sent since it last looked.\<close>

lemma slot_is_last_sent:
  "run_steps deliver xs slot =
     (case rev xs of [] \<Rightarrow> slot | Send ev # _ \<Rightarrow> Some ev | Receive # _ \<Rightarrow> None)"
  by (cases xs rule: rev_exhaust) (auto simp: run_steps_append offer_newest split: mail.splits)

lemma nothing_but_sent:
  "run_steps deliver xs slot = Some ev \<Longrightarrow> Send ev \<in> set xs \<or> (xs = [] \<and> slot = Some ev)"
  by (cases xs rule: rev_exhaust)
     (auto simp: slot_is_last_sent split: mail.splits)

end

subsection \<open>Guards\<close>

locale transition_guard =
  fixes on :: "'s \<Rightarrow> bool"
    and refresh :: "'obs \<Rightarrow> 's \<Rightarrow> 's"
    and reads :: "'obs \<Rightarrow> 's \<Rightarrow> bool option"
    and verdict :: "'s \<Rightarrow> bool"
    and checked :: "'s \<Rightarrow> bool"
    and lines :: "'s \<Rightarrow> nat"
  assumes on_refresh: "on s \<Longrightarrow> on (refresh x s)"
    and reads_refresh: "reads y (refresh x s) = reads y s"
    and verdict_refresh: "on s \<Longrightarrow> reads x s = Some b \<Longrightarrow> verdict (refresh x s) = b"
    and checked_refresh: "on s \<Longrightarrow> reads x s = Some b \<Longrightarrow> checked (refresh x s)"
    and verdict_unread: "on s \<Longrightarrow> reads x s = None \<Longrightarrow> verdict (refresh x s) = verdict s"
    and lines_refresh: "on s \<Longrightarrow> reads x s = Some b \<Longrightarrow>
       lines (refresh x s) = (if checked s \<and> verdict s = b then lines s else Suc (lines s))"
begin

lemma quiet_when_steady:
  "on s \<Longrightarrow> checked s \<Longrightarrow> verdict s = b \<Longrightarrow> list_all (\<lambda>x. reads x s = Some b) xs \<Longrightarrow>
     lines (run_steps refresh xs s) = lines s"
proof (induction xs arbitrary: s)
  case (Cons x xs)
  have "reads x s = Some b" using Cons.prems(4) by simp
  then show ?case
    using Cons.IH [of "refresh x s"] Cons.prems
    by (simp add: on_refresh checked_refresh verdict_refresh lines_refresh reads_refresh)
qed simp

text \<open>However often a guard reads the same thing, it says so at most once.\<close>

lemma one_line_per_verdict:
  assumes "on s" "list_all (\<lambda>x. reads x s = Some b) xs"
  shows "lines (run_steps refresh xs s) \<le> Suc (lines s)"
proof (cases xs)
  case (Cons x ys)
  have x: "reads x s = Some b" and ys: "list_all (\<lambda>y. reads y (refresh x s) = Some b) ys"
    using assms Cons by (simp_all add: reads_refresh)
  have "lines (run_steps refresh ys (refresh x s)) = lines (refresh x s)"
    by (rule quiet_when_steady [OF on_refresh [OF assms(1)] checked_refresh [OF assms(1) x]
          verdict_refresh [OF assms(1) x] ys])
  then show ?thesis using Cons lines_refresh [OF assms(1) x] by (simp split: if_splits)
qed simp

text \<open>The verdict in force is the last one read, through any number of failed reads.\<close>

lemma verdict_unread_run:
  "on s \<Longrightarrow> list_all (\<lambda>x. reads x s = None) xs \<Longrightarrow> verdict (run_steps refresh xs s) = verdict s"
proof (induction xs arbitrary: s)
  case (Cons x xs)
  then show ?case
    using Cons.IH [of "refresh x s"] by (simp add: on_refresh verdict_unread reads_refresh)
qed simp

end

subsection \<open>Rates\<close>

text \<open>\<^verbatim>\<open>Duration.Seconds\<close>.\<close>

definition seconds_of :: "duration \<Rightarrow> f64" where
  "seconds_of d = f64_add (f64_of_int (go_div d second))
                    (f64_div (f64_of_int (go_mod d second)) (f64_of_int second))"

definition speed :: "int \<Rightarrow> int \<Rightarrow> f64 \<Rightarrow> f64" where
  "speed new old elapsed = f64_max (Fin 0) (f64_div (f64_of_int (wrap64 (new - old))) elapsed)"

definition updateRates :: "tview \<Rightarrow> f64 \<Rightarrow> tracked \<Rightarrow> tracked" where
  "updateRates v elapsed tr =
     (if f64_le elapsed (Fin 0) then tr
      else let downloaded = st_read (tv_stats v); uploaded = st_written (tv_stats v)
           in tr\<lparr>tr_lastDownBPS := speed downloaded (tr_lastDownloaded tr) elapsed,
                 tr_lastUpBPS := speed uploaded (tr_lastUploaded tr) elapsed,
                 tr_lastDownloaded := downloaded,
                 tr_lastUploaded := uploaded\<rparr>)"

subsection \<open>Which way data may flow\<close>

record guards =
  g_vpnBlocked :: bool
  g_lowDisk :: bool

definition guards_any :: "guards \<Rightarrow> bool" where
  "guards_any g \<longleftrightarrow> g_vpnBlocked g \<or> g_lowDisk g"

definition guardsLocked :: "engine \<Rightarrow> guards" where
  "guardsLocked e = \<lparr>g_vpnBlocked = e_blocked e, g_lowDisk = e_lowDisk e\<rparr>"

definition dataFlow :: "guards \<Rightarrow> tracked \<Rightarrow> bool \<times> bool" where
  "dataFlow g tr =
     (if tr_paused tr \<or> guards_any g \<or> tr_holdData tr then (False, False)
      else (tr_downLimit tr \<le> 0 \<or> f64_le (tr_lastDownBPS tr) (f64_of_int (tr_downLimit tr)),
            tr_upLimit tr \<le> 0 \<or> f64_le (tr_lastUpBPS tr) (f64_of_int (tr_upLimit tr))))"

definition flowDecision :: "guards \<Rightarrow> tracked \<Rightarrow> handle \<times> bool \<times> bool" where
  "flowDecision g tr = (let (down, up) = dataFlow g tr in (tr_t tr, down, up))"

definition applyFlow :: "handle \<times> bool \<times> bool \<Rightarrow> engine \<Rightarrow> engine" where
  "applyFlow d e = (case d of (t, down, up) \<Rightarrow>
     let e1 = cmd (if down then AllowDataDownload t else DisallowDataDownload t) e
     in cmd (if up then AllowDataUpload t else DisallowDataUpload t) e1)"

text \<open>Decide with the lock, apply without it: the pair every operation ends its locked part with.\<close>

definition flow_tr :: "tid \<Rightarrow> engine \<Rightarrow> engine" where
  "flow_tr k e = (case map_of (e_torrents e) k of
     None \<Rightarrow> e | Some tr \<Rightarrow> applyFlow (flowDecision (guardsLocked e) tr) e)"

subsection \<open>A snapshot\<close>

definition dataDir :: "string \<Rightarrow> tview \<Rightarrow> string" where
  "dataDir savePath v = (case filesOrNil v of
     [] \<Rightarrow> savePath
   | f # _ \<Rightarrow> (case str_cut (fv_path f) ''/'' of
       None \<Rightarrow> savePath
     | Some (first, _) \<Rightarrow> path_join savePath first))"

definition total_downloaded :: "tview \<Rightarrow> tracked \<Rightarrow> int" where
  "total_downloaded v tr = wrap64 (tr_baseDownloaded tr + st_read (tv_stats v))"

definition total_uploaded :: "tview \<Rightarrow> tracked \<Rightarrow> int" where
  "total_uploaded v tr = wrap64 (tr_baseUploaded tr + st_written (tv_stats v))"

definition snap_state_of :: "guards \<Rightarrow> tview \<Rightarrow> tracked \<Rightarrow> int \<Rightarrow> int \<Rightarrow> state" where
  "snap_state_of g v tr sz completed =
     (if tr_lastErr tr \<noteq> [] then StateError
      else if tr_checking tr then StateChecking
      else if \<not> tv_hasInfo v then StateChecking
      else if tr_paused tr then StatePaused
      else if g_vpnBlocked g then StateBlocked
      else if g_lowDisk g then StateLowDisk
      else if sz > 0 \<and> completed \<ge> sz then StateSeeding
      else StateDownloading)"

definition ratio_of :: "int \<Rightarrow> int \<Rightarrow> f64" where
  "ratio_of uploaded downloaded =
     (if downloaded > 0 then f64_div (f64_of_int uploaded) (f64_of_int downloaded)
      else if uploaded > 0 then PosInf else Fin 0)"

definition eta_of :: "int \<Rightarrow> f64 \<Rightarrow> duration" where
  "eta_of missing bps =
     (if missing > 0 \<and> f64_lt (Fin (1 / 2)) bps
      then wrap64 (int_of_f64 (f64_div (f64_of_int missing) bps) * second) else 0)"

definition snapshotLocked :: "lib \<Rightarrow> engine \<Rightarrow> tid \<Rightarrow> tracked \<Rightarrow> TorrentSnapshot" where
  "snapshotLocked L e k tr =
     (let v = vw L e (tr_t tr);
          sz = if tv_hasInfo v then tv_length v else 0;
          completed = if tv_hasInfo v then tv_completed v else 0;
          downloaded = total_downloaded v tr;
          uploaded = total_uploaded v tr
      in \<lparr>snap_ID = k, snap_Name = tv_name v, snap_InfoHash = tv_infohash v,
          snap_TotalLength = sz, snap_Completed = completed,
          snap_Progress = (if sz > 0 then f64_div (f64_of_int completed) (f64_of_int sz)
                           else Fin 0),
          snap_DownloadBPS = tr_lastDownBPS tr, snap_UploadBPS = tr_lastUpBPS tr,
          snap_Downloaded = downloaded, snap_Uploaded = uploaded,
          snap_Ratio = ratio_of uploaded downloaded,
          snap_NumPeers = st_activePeers (tv_stats v), snap_NumSeeds = st_seeders (tv_stats v),
          snap_ETA = eta_of (wrap64 (sz - completed)) (tr_lastDownBPS tr),
          snap_State = snap_state_of (guardsLocked e) v tr sz completed,
          snap_Paused = tr_paused tr, snap_Checking = tr_checking tr,
          snap_CheckProgress = (if tr_checking tr \<and> tr_checkTotal tr > 0
            then f64_div (f64_of_int (tr_checkDone tr)) (f64_of_int (tr_checkTotal tr)) else Fin 0),
          snap_SavePath = tr_savePath tr, snap_DataDir = dataDir (tr_savePath tr) v,
          snap_AddedAt = tr_addedAt tr, snap_Error = tr_lastErr tr,
          snap_DownloadLimit = tr_downLimit tr, snap_UploadLimit = tr_upLimit tr,
          snap_Label = tr_label tr\<rparr>)"

definition ListTorrents :: "lib \<Rightarrow> engine \<Rightarrow> TorrentSnapshot list" where
  "ListTorrents L e = map (\<lambda>(k, tr). snapshotLocked L e k tr) (e_torrents e)"

subsection \<open>Events\<close>

text \<open>\<^verbatim>\<open>GlobalStats\<close> has fields the event leaves at zero: the upload totals and the two limits.\<close>

definition eventLocked :: "lib \<Rightarrow> machine \<Rightarrow> engine \<Rightarrow> Event" where
  "eventLocked L mc e =
     (let snaps = ListTorrents L e;
          usage = diskUsage mc (cfg_DataDir (e_cfg e))
      in \<lparr>ev_Torrents = snaps,
          ev_Global =
            \<lparr>glob_DownloadBPS = foldl (\<lambda>s x. f64_add s (snap_DownloadBPS x)) (Fin 0) snaps,
             glob_UploadBPS = Fin 0,
             glob_TotalDownload = foldl (\<lambda>s x. wrap64 (s + snap_Completed x)) 0 snaps,
             glob_TotalUpload = 0,
             glob_NumTorrents = int (List.length snaps),
             glob_DiskFreeBytes = (case usage of Inl _ \<Rightarrow> 0 | Inr (free, _) \<Rightarrow> free),
             glob_DiskTotalBytes = (case usage of Inl _ \<Rightarrow> 0 | Inr (_, all) \<Rightarrow> all),
             glob_ListenPort = lib_port L (e_cmds e),
             glob_DhtNodes = dhtNodeCount L (e_cmds e),
             glob_VPNRequired = cfg_RequireVPN (e_cfg e),
             glob_VPNActive = vpn_Active (e_vpn e),
             glob_VPNInterface = vpn_Interface (e_vpn e),
             glob_DiskLow = e_lowDisk e,
             glob_MinFreeSpace = cfg_MinFreeSpace (e_cfg e),
             glob_UploadLimit = 0, glob_DownloadLimit = 0,
             glob_Version = cfg_Version (e_cfg e), glob_StartedAt = e_startedAt e\<rparr>,
          ev_At = m_now mc\<rparr>)"

text \<open>
  A subscriber's channel holds at most one event. \<^verbatim>\<open>broadcast\<close> tries to send, and when the slot
  is taken it takes the pending event out and tries again.
\<close>

definition try_send :: "Event \<Rightarrow> Event option \<Rightarrow> Event option \<times> bool" where
  "try_send ev slot = (case slot of None \<Rightarrow> (Some ev, True) | Some old \<Rightarrow> (Some old, False))"

definition offer :: "Event \<Rightarrow> Event option \<Rightarrow> Event option" where
  "offer ev slot = (let (slot1, sent) = try_send ev slot in
     if sent then slot1 else fst (try_send ev None))"

definition broadcast :: "Event \<Rightarrow> engine \<Rightarrow> engine" where
  "broadcast ev e = e\<lparr>e_subs := map_vals (\<lambda>_. offer ev) (e_subs e)\<rparr>"

interpretation sub: newest_mailbox offer
  by unfold_locales (simp add: offer_def try_send_def split: option.splits)

definition snapshotAndBroadcastNow :: "lib \<Rightarrow> machine \<Rightarrow> engine \<Rightarrow> engine" where
  "snapshotAndBroadcastNow L mc e = broadcast (eventLocked L mc e) e"

text \<open>\<open>None\<close>: closing the engine sets the map of subscribers to nil, and writing to it panics.\<close>

definition Subscribe :: "lib \<Rightarrow> machine \<Rightarrow> engine \<Rightarrow> (nat \<times> engine) option" where
  "Subscribe L mc e =
     (if e_closed e then None
      else Some (e_nextSub e,
        e\<lparr>e_subs := AList.update (e_nextSub e) (Some (eventLocked L mc e)) (e_subs e),
          e_nextSub := Suc (e_nextSub e)\<rparr>))"

definition subscribed :: "lib \<Rightarrow> machine \<Rightarrow> engine \<Rightarrow> engine" where
  "subscribed L mc e = (case Subscribe L mc e of None \<Rightarrow> e | Some (_, e') \<Rightarrow> e')"

definition unsubscribe :: "nat \<Rightarrow> engine \<Rightarrow> engine" where
  "unsubscribe ch e = e\<lparr>e_subs := AList.delete ch (e_subs e)\<rparr>"

definition receive :: "nat \<Rightarrow> engine \<Rightarrow> Event option \<times> engine" where
  "receive ch e = (case map_of (e_subs e) ch of
     Some (Some ev) \<Rightarrow> (Some ev, e\<lparr>e_subs := AList.update ch None (e_subs e)\<rparr>)
   | _ \<Rightarrow> (None, e))"

subsection \<open>The guards\<close>

definition refreshVPN :: "machine \<Rightarrow> engine \<Rightarrow> engine" where
  "refreshVPN mc e =
     (if \<not> cfg_RequireVPN (e_cfg e) then e
      else let st = (if cfg_VPNCheck (e_cfg e) then m_vpn mc
                     else \<lparr>vpn_Active = False, vpn_Interface = [],
                           vpn_Reason = ''no VPN check configured''\<rparr>);
               blocked = (\<not> vpn_Active st);
               changed = (\<not> e_vpnChecked e \<or> e_blocked e \<noteq> blocked);
               e1 = e\<lparr>e_vpn := st, e_blocked := blocked, e_vpnChecked := True\<rparr>
           in if \<not> changed then e1
              else logf (if vpn_Active st then VpnDetected (vpn_Interface st)
                         else VpnHeld (vpn_Reason st)) e1)"

definition refreshDisk :: "machine \<Rightarrow> engine \<Rightarrow> engine" where
  "refreshDisk mc e =
     (if cfg_MinFreeSpace (e_cfg e) \<le> 0 then e
      else case diskUsage mc (cfg_DataDir (e_cfg e)) of
        Inl err \<Rightarrow> logf (DiskUnreadable err) e
      | Inr (free, _) \<Rightarrow>
          let low = (free < cfg_MinFreeSpace (e_cfg e));
              first = (\<not> e_diskChecked e);
              changed = (first \<or> e_lowDisk e \<noteq> low);
              e1 = e\<lparr>e_lowDisk := low, e_diskFree := free, e_diskChecked := True\<rparr>
          in if \<not> changed then e1
             else logf (if low then DiskHeld free else if first then DiskGuardActive free
                        else DiskRecovered free) e1)"

subsection \<open>Starting\<close>

text \<open>
  \<^verbatim>\<open>torrent.NewClient\<close> is the library's: \<open>bind p\<close> is its error on port \<open>p\<close>, if it has one.
\<close>

fun try_ports :: "(int \<Rightarrow> string option) \<Rightarrow> int list \<Rightarrow> string \<Rightarrow> int result" where
  "try_ports bind [] lastErr = Inl lastErr"
| "try_ports bind (p # ps) lastErr = (case bind p of None \<Rightarrow> Inr p | Some err \<Rightarrow> try_ports bind ps err)"

definition newClientOnPortRange :: "(int \<Rightarrow> string option) \<Rightarrow> int \<Rightarrow> int \<Rightarrow> int result" where
  "newClientOnPortRange bind low high =
     (if low \<le> 0 then (case bind 0 of None \<Rightarrow> Inr 0 | Some err \<Rightarrow> Inl err)
      else let high = (if high < low then low else high)
           in case try_ports bind [low..high] [] of
                Inr p \<Rightarrow> Inr p
              | Inl err \<Rightarrow> Inl (''no free port in ['' @ itoa low @ '','' @ itoa high @ '']: '' @ err))"

definition limiter_of :: "int \<Rightarrow> limiter" where
  "limiter_of bps = (if bps > 0 then RateLimit (f64_of_int bps) else RateInf)"

definition New :: "(int \<Rightarrow> string option) \<Rightarrow> machine \<Rightarrow> Config \<Rightarrow> statedir \<Rightarrow> fs \<Rightarrow> engine result" where
  "New bind mc cfg disk files =
     (if cfg_DataDir cfg = [] then Inl ''engine: DataDir must be set''
      else case os_mkdirAll (cfg_DataDir cfg) files of
        (False, _) \<Rightarrow> Inl ''engine: create data dir''
      | (True, files1) \<Rightarrow>
         (case newClientOnPortRange bind (cfg_ListenPortLow cfg) (cfg_ListenPortHigh cfg) of
            Inl err \<Rightarrow> Inl (''engine: start torrent client: '' @ err)
          | Inr _ \<Rightarrow> Inr (refreshDisk mc (refreshVPN mc
             \<lparr>e_cfg = cfg, e_restoring = False,
              e_upLimiter = limiter_of (cfg_UploadRateLimit cfg),
              e_downLimiter = limiter_of (cfg_DownloadRateLimit cfg),
              e_torrents = [], e_subs = [], e_nextSub = 0,
              e_vpn = \<lparr>vpn_Active = False, vpn_Interface = [], vpn_Reason = []\<rparr>,
              e_blocked = False, e_vpnChecked = False, e_lowDisk = False, e_diskFree = 0,
              e_diskChecked = False, e_lastTick = m_now mc, e_startedAt = m_now mc,
              e_closed = False, e_waiting = [], e_nextCheck = 0, e_nextSid = 0, e_cmds = [],
              e_disk = disk, e_fs = files1, e_log = [], e_completions = []\<rparr>))))"

subsection \<open>What each operation leaves alone\<close>

lemma applyFlow_simps [simp]:
  "e_torrents (applyFlow d e) = e_torrents e"
  "e_cfg (applyFlow d e) = e_cfg e"
  "e_subs (applyFlow d e) = e_subs e"
  "e_blocked (applyFlow d e) = e_blocked e"
  "e_lowDisk (applyFlow d e) = e_lowDisk e"
  "e_vpn (applyFlow d e) = e_vpn e"
  "e_disk (applyFlow d e) = e_disk e"
  "e_fs (applyFlow d e) = e_fs e"
  "e_log (applyFlow d e) = e_log e"
  "e_restoring (applyFlow d e) = e_restoring e"
  "e_waiting (applyFlow d e) = e_waiting e"
  "e_nextCheck (applyFlow d e) = e_nextCheck e"
  "e_nextSid (applyFlow d e) = e_nextSid e"
  "e_closed (applyFlow d e) = e_closed e"
  "e_completions (applyFlow d e) = e_completions e"
  "e_nextSub (applyFlow d e) = e_nextSub e"
  by (simp_all add: applyFlow_def Let_def split: prod.splits)

lemma flow_tr_simps [simp]:
  "e_torrents (flow_tr k e) = e_torrents e"
  "e_cfg (flow_tr k e) = e_cfg e"
  "e_subs (flow_tr k e) = e_subs e"
  "e_blocked (flow_tr k e) = e_blocked e"
  "e_lowDisk (flow_tr k e) = e_lowDisk e"
  "e_vpn (flow_tr k e) = e_vpn e"
  "e_disk (flow_tr k e) = e_disk e"
  "e_fs (flow_tr k e) = e_fs e"
  "e_log (flow_tr k e) = e_log e"
  "e_restoring (flow_tr k e) = e_restoring e"
  "e_waiting (flow_tr k e) = e_waiting e"
  "e_nextCheck (flow_tr k e) = e_nextCheck e"
  "e_nextSid (flow_tr k e) = e_nextSid e"
  "e_closed (flow_tr k e) = e_closed e"
  "e_completions (flow_tr k e) = e_completions e"
  "e_nextSub (flow_tr k e) = e_nextSub e"
  by (simp_all add: flow_tr_def split: option.splits)

lemma broadcast_simps [simp]:
  "e_torrents (broadcast ev e) = e_torrents e"
  "e_cfg (broadcast ev e) = e_cfg e"
  "e_blocked (broadcast ev e) = e_blocked e"
  "e_lowDisk (broadcast ev e) = e_lowDisk e"
  "e_vpn (broadcast ev e) = e_vpn e"
  "e_disk (broadcast ev e) = e_disk e"
  "e_fs (broadcast ev e) = e_fs e"
  "e_log (broadcast ev e) = e_log e"
  "e_restoring (broadcast ev e) = e_restoring e"
  "e_waiting (broadcast ev e) = e_waiting e"
  "e_nextCheck (broadcast ev e) = e_nextCheck e"
  "e_nextSid (broadcast ev e) = e_nextSid e"
  "e_closed (broadcast ev e) = e_closed e"
  "e_completions (broadcast ev e) = e_completions e"
  "e_nextSub (broadcast ev e) = e_nextSub e"
  "e_cmds (broadcast ev e) = e_cmds e"
  by (simp_all add: broadcast_def)

lemma now_simps [simp]:
  "e_torrents (snapshotAndBroadcastNow L mc e) = e_torrents e"
  "e_cfg (snapshotAndBroadcastNow L mc e) = e_cfg e"
  "e_blocked (snapshotAndBroadcastNow L mc e) = e_blocked e"
  "e_lowDisk (snapshotAndBroadcastNow L mc e) = e_lowDisk e"
  "e_vpn (snapshotAndBroadcastNow L mc e) = e_vpn e"
  "e_disk (snapshotAndBroadcastNow L mc e) = e_disk e"
  "e_fs (snapshotAndBroadcastNow L mc e) = e_fs e"
  "e_log (snapshotAndBroadcastNow L mc e) = e_log e"
  "e_restoring (snapshotAndBroadcastNow L mc e) = e_restoring e"
  "e_waiting (snapshotAndBroadcastNow L mc e) = e_waiting e"
  "e_nextCheck (snapshotAndBroadcastNow L mc e) = e_nextCheck e"
  "e_nextSid (snapshotAndBroadcastNow L mc e) = e_nextSid e"
  "e_closed (snapshotAndBroadcastNow L mc e) = e_closed e"
  "e_completions (snapshotAndBroadcastNow L mc e) = e_completions e"
  "e_nextSub (snapshotAndBroadcastNow L mc e) = e_nextSub e"
  "e_cmds (snapshotAndBroadcastNow L mc e) = e_cmds e"
  by (simp_all add: snapshotAndBroadcastNow_def)

lemma refreshVPN_simps [simp]:
  "e_torrents (refreshVPN mc e) = e_torrents e"
  "e_cfg (refreshVPN mc e) = e_cfg e"
  "e_subs (refreshVPN mc e) = e_subs e"
  "e_lowDisk (refreshVPN mc e) = e_lowDisk e"
  "e_disk (refreshVPN mc e) = e_disk e"
  "e_fs (refreshVPN mc e) = e_fs e"
  "e_restoring (refreshVPN mc e) = e_restoring e"
  "e_waiting (refreshVPN mc e) = e_waiting e"
  "e_nextCheck (refreshVPN mc e) = e_nextCheck e"
  "e_nextSid (refreshVPN mc e) = e_nextSid e"
  "e_closed (refreshVPN mc e) = e_closed e"
  "e_completions (refreshVPN mc e) = e_completions e"
  "e_nextSub (refreshVPN mc e) = e_nextSub e"
  "e_cmds (refreshVPN mc e) = e_cmds e"
  by (simp_all add: refreshVPN_def logf_def Let_def)

lemma refreshDisk_simps [simp]:
  "e_torrents (refreshDisk mc e) = e_torrents e"
  "e_cfg (refreshDisk mc e) = e_cfg e"
  "e_subs (refreshDisk mc e) = e_subs e"
  "e_blocked (refreshDisk mc e) = e_blocked e"
  "e_vpn (refreshDisk mc e) = e_vpn e"
  "e_disk (refreshDisk mc e) = e_disk e"
  "e_fs (refreshDisk mc e) = e_fs e"
  "e_restoring (refreshDisk mc e) = e_restoring e"
  "e_waiting (refreshDisk mc e) = e_waiting e"
  "e_nextCheck (refreshDisk mc e) = e_nextCheck e"
  "e_nextSid (refreshDisk mc e) = e_nextSid e"
  "e_closed (refreshDisk mc e) = e_closed e"
  "e_completions (refreshDisk mc e) = e_completions e"
  "e_nextSub (refreshDisk mc e) = e_nextSub e"
  "e_cmds (refreshDisk mc e) = e_cmds e"
  by (simp_all add: refreshDisk_def logf_def Let_def split: sum.splits)

lemma vw_frames [simp]:
  "vw L (broadcast ev e) = vw L e" "vw L (snapshotAndBroadcastNow L' mc e) = vw L e"
  "vw L (refreshVPN mc e) = vw L e" "vw L (refreshDisk mc e) = vw L e"
  by (simp_all add: vw_def fun_eq_iff)

lemma guardsLocked_frames [simp]:
  "guardsLocked (cmd c e) = guardsLocked e" "guardsLocked (logf m e) = guardsLocked e"
  "guardsLocked (upd_tr k f e) = guardsLocked e" "guardsLocked (applyFlow d e) = guardsLocked e"
  "guardsLocked (flow_tr k e) = guardsLocked e" "guardsLocked (broadcast ev e) = guardsLocked e"
  "guardsLocked (snapshotAndBroadcastNow L mc e) = guardsLocked e"
  by (simp_all add: guardsLocked_def)

lemma guards_any_engine: "guards_any (guardsLocked e) \<longleftrightarrow> e_blocked e \<or> e_lowDisk e"
  by (simp add: guards_any_def guardsLocked_def)

subsection \<open>Flow\<close>

lemma dataFlow_held:
  "tr_paused tr \<or> guards_any g \<or> tr_holdData tr \<Longrightarrow> dataFlow g tr = (False, False)"
  by (simp add: dataFlow_def)

lemma dataFlow_True:
  "fst (dataFlow g tr) \<or> snd (dataFlow g tr) \<Longrightarrow>
     \<not> tr_paused tr \<and> \<not> guards_any g \<and> \<not> tr_holdData tr"
  by (auto simp: dataFlow_def split: if_splits)

lemma down_allowed_applyFlow [simp]:
  "down_allowed (e_cmds (applyFlow d e)) t' =
     (if fst d = t' then fst (snd d) else down_allowed (e_cmds e) t')"
  by (cases d) (simp add: applyFlow_def Let_def)

lemma up_allowed_applyFlow [simp]:
  "up_allowed (e_cmds (applyFlow d e)) t' =
     (if fst d = t' then snd (snd d) else up_allowed (e_cmds e) t')"
  by (cases d) (simp add: applyFlow_def Let_def)

lemma open_storages_applyFlow [simp]:
  "open_storages (e_cmds (applyFlow d e)) = open_storages (e_cmds e)"
  by (auto simp: applyFlow_def Let_def split: prod.splits)

lemma open_storages_flow_tr [simp]:
  "open_storages (e_cmds (flow_tr k e)) = open_storages (e_cmds e)"
  by (auto simp: flow_tr_def split: option.splits)

lemma last_priority_applyFlow [simp]:
  "last_priority (e_cmds (applyFlow d e)) = last_priority (e_cmds e)"
  by (auto simp: applyFlow_def Let_def fun_eq_iff split: prod.splits)

lemma last_priority_flow_tr [simp]:
  "last_priority (e_cmds (flow_tr k e)) = last_priority (e_cmds e)"
  by (auto simp: flow_tr_def split: option.splits)

lemma flow_tr_down:
  "map_of (e_torrents e) k = Some tr \<Longrightarrow> down_allowed (e_cmds (flow_tr k e)) t =
     (if t = tr_t tr then fst (dataFlow (guardsLocked e) tr) else down_allowed (e_cmds e) t)"
  by (auto simp: flow_tr_def flowDecision_def split: prod.splits)

lemma flow_tr_up:
  "map_of (e_torrents e) k = Some tr \<Longrightarrow> up_allowed (e_cmds (flow_tr k e)) t =
     (if t = tr_t tr then snd (dataFlow (guardsLocked e) tr) else up_allowed (e_cmds e) t)"
  by (auto simp: flow_tr_def flowDecision_def split: prod.splits)

subsection \<open>Snapshots\<close>

lemma snap_simps [simp]:
  "snap_ID (snapshotLocked L e k tr) = k" "snap_Paused (snapshotLocked L e k tr) = tr_paused tr"
  "snap_Label (snapshotLocked L e k tr) = tr_label tr"
  "snap_Checking (snapshotLocked L e k tr) = tr_checking tr"
  by (simp_all add: snapshotLocked_def Let_def)

lemma ListTorrents_ids: "map snap_ID (ListTorrents L e) = map fst (e_torrents e)"
  by (simp add: ListTorrents_def comp_def case_prod_beta)

lemma updateRates_simps [simp]:
  "tr_t (updateRates v s tr) = tr_t tr" "tr_paused (updateRates v s tr) = tr_paused tr"
  "tr_holdData (updateRates v s tr) = tr_holdData tr"
  "tr_ownStorage (updateRates v s tr) = tr_ownStorage tr"
  "tr_chosenFiles (updateRates v s tr) = tr_chosenFiles tr"
  "tr_checks (updateRates v s tr) = tr_checks tr"
  "tr_cancelCheck (updateRates v s tr) = tr_cancelCheck tr"
  "tr_checking (updateRates v s tr) = tr_checking tr"
  "tr_completedAt (updateRates v s tr) = tr_completedAt tr"
  by (simp_all add: updateRates_def Let_def)

subsection \<open>Rates are never negative\<close>

lemma f64_of_int_finite: "\<bar>n\<bar> \<le> 2 ^ 63 \<Longrightarrow> \<exists>r. f64_of_int n = Fin r \<and> \<bar>r\<bar> \<le> 2 ^ 64"
proof -
  assume "\<bar>n\<bar> \<le> 2 ^ 63"
  then have "\<bar>rat_of_int n\<bar> \<le> 2 ^ 63"
    by (metis of_int_abs of_int_le_iff of_int_numeral of_int_power)
  then show ?thesis using rnd_finite [of "rat_of_int n"] by (auto simp: f64_of_int_def)
qed

lemma seconds_of_finite:
  assumes "in_int64 d" shows "\<exists>r. seconds_of d = Fin r"
proof -
  have d: "\<bar>d\<bar> \<le> 2 ^ 63" using assms by (simp add: in_int64_def min_int64_def max_int64_def abs_le_iff)
  have q: "\<bar>go_div d second\<bar> \<le> \<bar>d\<bar>"
    by (cases "d = 0") (auto simp: go_div_def abs_mult abs_sgn_eq intro: order_trans [OF zdiv_mono2 [of "\<bar>d\<bar>" 1]])
  have m: "\<bar>go_mod d second\<bar> < second"
  proof -
    have neg: "- d - second * (- d div second) = - d mod second"
      by (rule minus_mult_div_eq_mod)
    have "go_mod d second = sgn d * (\<bar>d\<bar> mod second)"
    proof (cases d "0::int" rule: linorder_cases)
      case less
      then have "go_mod d second = - (- d - second * (- d div second))"
        by (simp add: go_mod_def go_div_def)
      then show ?thesis using less unfolding neg by simp
    qed (simp_all add: go_mod_def go_div_def minus_mult_div_eq_mod)
    then show ?thesis by (cases "d = 0") (simp_all add: abs_mult abs_sgn_eq)
  qed
  obtain a where a: "f64_of_int (go_div d second) = Fin a" "\<bar>a\<bar> \<le> 2 ^ 64"
    using f64_of_int_finite [OF order_trans [OF q d]] by blast
  have b: "f64_of_int (go_mod d second) = Fin (of_int (go_mod d second))"
    by (rule f64_of_int_exact) (use m in simp)
  have c: "f64_of_int second = Fin 1000000000"
    using f64_of_int_exact [of second] by simp
  have "\<bar>rat_of_int (go_mod d second)\<bar> < 1000000000"
    using m by (metis of_int_abs of_int_less_iff of_int_numeral)
  then have "\<bar>rat_of_int (go_mod d second) / 1000000000\<bar> \<le> 1" by simp
  then obtain e where e: "rnd (rat_of_int (go_mod d second) / 1000000000) = Fin e" "\<bar>e\<bar> \<le> 2 ^ 19"
    using rnd_finite [of "rat_of_int (go_mod d second) / 1000000000"] by auto
  have "\<bar>a + e\<bar> \<le> 2 ^ 70" using a(2) e(2) by (simp add: abs_le_iff)
  then obtain f where "rnd (a + e) = Fin f" using rnd_finite by blast
  then show ?thesis by (simp add: seconds_of_def a b c e)
qed

text \<open>Whatever the counters did in between: they start over when a torrent is added again.\<close>

lemma speed_nonneg: "0 < s \<Longrightarrow> f64_nonneg (speed new old (Fin s))"
proof -
  assume s: "0 < s"
  have "f64_of_int (wrap64 (new - old)) \<noteq> NaN" by (simp add: f64_of_int_def)
  then have "f64_div (f64_of_int (wrap64 (new - old))) (Fin s) \<noteq> NaN"
    using s by (cases "f64_of_int (wrap64 (new - old))") (auto simp: signed_inf_def f64_sgn_def)
  then show ?thesis unfolding speed_def by (rule f64_max_0_nonneg)
qed

subsection \<open>Both guards keep their contract\<close>

text \<open>
  The observation is the machine: the VPN check always gives a verdict, \<^verbatim>\<open>statfs\<close> may fail. A
  guard nobody asked for never looks, so the contract is for one that was.
\<close>

definition vpn_reads :: "machine \<Rightarrow> engine \<Rightarrow> bool option" where
  "vpn_reads mc e = Some (\<not> (cfg_VPNCheck (e_cfg e) \<and> vpn_Active (m_vpn mc)))"

definition disk_reads :: "machine \<Rightarrow> engine \<Rightarrow> bool option" where
  "disk_reads mc e = (case diskUsage mc (cfg_DataDir (e_cfg e)) of
     Inl _ \<Rightarrow> None | Inr (free, _) \<Rightarrow> Some (free < cfg_MinFreeSpace (e_cfg e)))"

definition log_lines :: "engine \<Rightarrow> nat" where
  "log_lines e = List.length (e_log e)"

interpretation vpn: transition_guard "\<lambda>e. cfg_RequireVPN (e_cfg e)" refreshVPN vpn_reads
    e_blocked e_vpnChecked log_lines
  by unfold_locales (auto simp: vpn_reads_def refreshVPN_def log_lines_def logf_def Let_def)

interpretation disk: transition_guard "\<lambda>e. 0 < cfg_MinFreeSpace (e_cfg e)" refreshDisk disk_reads
    e_lowDisk e_diskChecked log_lines
  by unfold_locales
     (auto simp: disk_reads_def refreshDisk_def log_lines_def logf_def Let_def split: sum.splits)

lemma refreshVPN_off: "\<not> cfg_RequireVPN (e_cfg e) \<Longrightarrow> refreshVPN mc e = e"
  by (simp add: refreshVPN_def)

lemma refreshDisk_off: "cfg_MinFreeSpace (e_cfg e) \<le> 0 \<Longrightarrow> refreshDisk mc e = e"
  by (simp add: refreshDisk_def)

end
