(* ===== verification/Persist.thy ===== *)
theory Persist
  imports Snapshot
begin

text \<open>
  Writing the session: the first half of \<^verbatim>\<open>internal/engine/session.go\<close>. The file on disk is kept
  as what reading it back gives, so the JSON encoding is where it can lose something: a string that
  is not UTF-8 comes back with the replacement character in it, and a number that is not finite
  cannot be written at all.
\<close>

subsection \<open>What JSON does\<close>

definition replacement :: string where
  "replacement = map char_of [239, 191, 189 :: nat]"

definition json_str :: "string \<Rightarrow> string" where
  "json_str s = concat (map (\<lambda>(r, bs). if r = rune_error \<and> List.length bs = 1 then replacement else bs)
                       (utf8 s))"

definition json_float_err :: "f64 \<Rightarrow> string option" where
  "json_float_err x = (case x of Fin _ \<Rightarrow> None
     | PosInf \<Rightarrow> Some ''json: unsupported value: +Inf''
     | NegInf \<Rightarrow> Some ''json: unsupported value: -Inf''
     | NaN \<Rightarrow> Some ''json: unsupported value: NaN'')"

definition json_record :: "torrentRecord \<Rightarrow> torrentRecord result" where
  "json_record r = (case json_float_err (rec_SeedRatio r) of
     Some err \<Rightarrow> Inl err
   | None \<Rightarrow> Inr (r\<lparr>rec_InfoHash := json_str (rec_InfoHash r), rec_Name := json_str (rec_Name r),
                   rec_Magnet := json_str (rec_Magnet r), rec_SavePath := json_str (rec_SavePath r),
                   rec_Label := json_str (rec_Label r)\<rparr>))"

fun json_records :: "torrentRecord list \<Rightarrow> torrentRecord list result" where
  "json_records [] = Inr []"
| "json_records (r # rs) = (case json_record r of
     Inl err \<Rightarrow> Inl err
   | Inr r' \<Rightarrow> (case json_records rs of Inl err \<Rightarrow> Inl err | Inr rs' \<Rightarrow> Inr (r' # rs')))"

subsection \<open>Records\<close>

definition sessionVersion :: int where "sessionVersion = 1"

fun indexed :: "nat \<Rightarrow> 'a list \<Rightarrow> (nat \<times> 'a) list" where
  "indexed n [] = []"
| "indexed n (x # xs) = (n, x) # indexed (Suc n) xs"

definition file_records :: "fview list \<Rightarrow> filePriorityRecord list" where
  "file_records fs = concat (map (\<lambda>(i, f).
     let prio = fromLibPriority (fv_priority f)
     in if prio = PriorityNormal then []
        else [\<lparr>fpr_Index = int i, fpr_Priority = priority_String prio\<rparr>]) (indexed 0 fs))"

definition recordLocked :: "lib \<Rightarrow> engine \<Rightarrow> tid \<Rightarrow> tracked \<Rightarrow> torrentRecord" where
  "recordLocked L e k tr =
     (let v = vw L e (tr_t tr) in
      \<lparr>rec_InfoHash = k,
       rec_Name = (if tv_hasInfo v then tv_name v else []),
       rec_Magnet = tr_magnet tr, rec_SavePath = tr_savePath tr, rec_Paused = tr_paused tr,
       rec_UpLimit = tr_upLimit tr, rec_DownLimit = tr_downLimit tr,
       rec_Uploaded = total_uploaded v tr, rec_Downloaded = total_downloaded v tr,
       rec_AddedAt = tr_addedAt tr, rec_SeedRatio = tr_seedRatio tr,
       rec_SeedTime = tr_seedTime tr, rec_CompletedAt = tr_completedAt tr,
       rec_Label = tr_label tr,
       rec_FilePriorities = (if tv_hasInfo v then file_records (tv_files v) else [])\<rparr>)"

subsection \<open>Saving\<close>

fun save_pending :: "tid list \<Rightarrow> engine \<Rightarrow> engine" where
  "save_pending [] e = e"
| "save_pending (k # ks) e = save_pending ks
     (if k \<in> set (sd_metainfo (e_disk e)) then e
      else case sd_metainfoFault (e_disk e) k of
        Some err \<Rightarrow> logf (MetainfoFailed k err) e
      | None \<Rightarrow> e\<lparr>e_disk := (e_disk e)\<lparr>sd_metainfo := k # sd_metainfo (e_disk e)\<rparr>\<rparr>)"

definition saveMetainfo :: "lib \<Rightarrow> engine \<Rightarrow> engine" where
  "saveMetainfo L e =
     save_pending (map fst (filter (\<lambda>(k, tr). tv_hasInfo (vw L e (tr_t tr))) (e_torrents e))) e"

definition writeFileAtomic :: "sessionFile \<Rightarrow> engine \<Rightarrow> unit result \<times> engine" where
  "writeFileAtomic sf e = (case sd_writeFault (e_disk e) of
     Some err \<Rightarrow> (Inl err, e)
   | None \<Rightarrow> (Inr (), e\<lparr>e_disk := (e_disk e)\<lparr>sd_session := SessionOk sf\<rparr>\<rparr>))"

definition SaveSession :: "lib \<Rightarrow> machine \<Rightarrow> engine \<Rightarrow> unit result \<times> engine" where
  "SaveSession L mc e =
     (if cfg_StateDir (e_cfg e) = [] then (Inr (), e)
      else let records = map (\<lambda>(k, tr). recordLocked L e k tr) (e_torrents e)
           in case sd_mkdirFault (e_disk e) of
             Some err \<Rightarrow> (Inl (''create state dir: '' @ err), e)
           | None \<Rightarrow>
               let e1 = saveMetainfo L e
               in (case json_records records of
                     Inl err \<Rightarrow> (Inl (''encode session: '' @ err), e1)
                   | Inr rs \<Rightarrow> writeFileAtomic
                       \<lparr>ses_Version = sessionVersion, ses_SavedAt = m_now mc, ses_Torrents = rs\<rparr> e1))"

definition persist :: "lib \<Rightarrow> machine \<Rightarrow> engine \<Rightarrow> engine" where
  "persist L mc e =
     (if e_restoring e then e
      else case SaveSession L mc e of
        (Inl err, e1) \<Rightarrow> logf (SaveFailed err) e1
      | (Inr _, e1) \<Rightarrow> e1)"

definition removeMetainfo :: "tid \<Rightarrow> engine \<Rightarrow> engine" where
  "removeMetainfo k e =
     (if cfg_StateDir (e_cfg e) = [] then e
      else e\<lparr>e_disk := (e_disk e)\<lparr>sd_metainfo := removeAll k (sd_metainfo (e_disk e))\<rparr>\<rparr>)"

subsection \<open>What saving leaves alone\<close>

lemma save_pending_simps [simp]:
  "e_torrents (save_pending ks e) = e_torrents e"
  "e_cfg (save_pending ks e) = e_cfg e"
  "e_subs (save_pending ks e) = e_subs e"
  "e_blocked (save_pending ks e) = e_blocked e"
  "e_lowDisk (save_pending ks e) = e_lowDisk e"
  "e_vpn (save_pending ks e) = e_vpn e"
  "e_fs (save_pending ks e) = e_fs e"
  "e_restoring (save_pending ks e) = e_restoring e"
  "e_waiting (save_pending ks e) = e_waiting e"
  "e_nextCheck (save_pending ks e) = e_nextCheck e"
  "e_nextSid (save_pending ks e) = e_nextSid e"
  "e_closed (save_pending ks e) = e_closed e"
  "e_completions (save_pending ks e) = e_completions e"
  "e_nextSub (save_pending ks e) = e_nextSub e"
  "e_cmds (save_pending ks e) = e_cmds e"
  by (induction ks arbitrary: e) (simp_all split: option.splits)

lemma saveMetainfo_simps [simp]:
  "e_torrents (saveMetainfo L e) = e_torrents e"
  "e_cfg (saveMetainfo L e) = e_cfg e"
  "e_subs (saveMetainfo L e) = e_subs e"
  "e_blocked (saveMetainfo L e) = e_blocked e"
  "e_lowDisk (saveMetainfo L e) = e_lowDisk e"
  "e_vpn (saveMetainfo L e) = e_vpn e"
  "e_fs (saveMetainfo L e) = e_fs e"
  "e_restoring (saveMetainfo L e) = e_restoring e"
  "e_waiting (saveMetainfo L e) = e_waiting e"
  "e_nextCheck (saveMetainfo L e) = e_nextCheck e"
  "e_nextSid (saveMetainfo L e) = e_nextSid e"
  "e_closed (saveMetainfo L e) = e_closed e"
  "e_completions (saveMetainfo L e) = e_completions e"
  "e_nextSub (saveMetainfo L e) = e_nextSub e"
  "e_cmds (saveMetainfo L e) = e_cmds e"
  by (simp_all add: saveMetainfo_def)

lemma SaveSession_simps [simp]:
  "e_torrents (snd (SaveSession L mc e)) = e_torrents e"
  "e_cfg (snd (SaveSession L mc e)) = e_cfg e"
  "e_subs (snd (SaveSession L mc e)) = e_subs e"
  "e_blocked (snd (SaveSession L mc e)) = e_blocked e"
  "e_lowDisk (snd (SaveSession L mc e)) = e_lowDisk e"
  "e_vpn (snd (SaveSession L mc e)) = e_vpn e"
  "e_fs (snd (SaveSession L mc e)) = e_fs e"
  "e_restoring (snd (SaveSession L mc e)) = e_restoring e"
  "e_waiting (snd (SaveSession L mc e)) = e_waiting e"
  "e_nextCheck (snd (SaveSession L mc e)) = e_nextCheck e"
  "e_nextSid (snd (SaveSession L mc e)) = e_nextSid e"
  "e_closed (snd (SaveSession L mc e)) = e_closed e"
  "e_completions (snd (SaveSession L mc e)) = e_completions e"
  "e_nextSub (snd (SaveSession L mc e)) = e_nextSub e"
  "e_cmds (snd (SaveSession L mc e)) = e_cmds e"
  by (simp_all add: SaveSession_def writeFileAtomic_def Let_def split: option.splits sum.splits)

lemma persist_simps [simp]:
  "e_torrents (persist L mc e) = e_torrents e"
  "e_cfg (persist L mc e) = e_cfg e"
  "e_subs (persist L mc e) = e_subs e"
  "e_blocked (persist L mc e) = e_blocked e"
  "e_lowDisk (persist L mc e) = e_lowDisk e"
  "e_vpn (persist L mc e) = e_vpn e"
  "e_fs (persist L mc e) = e_fs e"
  "e_restoring (persist L mc e) = e_restoring e"
  "e_waiting (persist L mc e) = e_waiting e"
  "e_nextCheck (persist L mc e) = e_nextCheck e"
  "e_nextSid (persist L mc e) = e_nextSid e"
  "e_closed (persist L mc e) = e_closed e"
  "e_completions (persist L mc e) = e_completions e"
  "e_nextSub (persist L mc e) = e_nextSub e"
  "e_cmds (persist L mc e) = e_cmds e"
  by (simp_all add: persist_def SaveSession_def writeFileAtomic_def Let_def
      split: option.splits sum.splits prod.splits)

lemma removeMetainfo_simps [simp]:
  "e_torrents (removeMetainfo k e) = e_torrents e"
  "e_cfg (removeMetainfo k e) = e_cfg e"
  "e_subs (removeMetainfo k e) = e_subs e"
  "e_blocked (removeMetainfo k e) = e_blocked e"
  "e_lowDisk (removeMetainfo k e) = e_lowDisk e"
  "e_vpn (removeMetainfo k e) = e_vpn e"
  "e_fs (removeMetainfo k e) = e_fs e"
  "e_log (removeMetainfo k e) = e_log e"
  "e_restoring (removeMetainfo k e) = e_restoring e"
  "e_waiting (removeMetainfo k e) = e_waiting e"
  "e_nextCheck (removeMetainfo k e) = e_nextCheck e"
  "e_nextSid (removeMetainfo k e) = e_nextSid e"
  "e_closed (removeMetainfo k e) = e_closed e"
  "e_completions (removeMetainfo k e) = e_completions e"
  "e_nextSub (removeMetainfo k e) = e_nextSub e"
  "e_cmds (removeMetainfo k e) = e_cmds e"
  by (simp_all add: removeMetainfo_def)

lemma vw_persist [simp]: "vw L (persist L' mc e) = vw L e" "vw L (removeMetainfo k e) = vw L e"
  "vw L (saveMetainfo L' e) = vw L e"
  by (simp_all add: vw_def fun_eq_iff)

lemma guardsLocked_persist [simp]:
  "guardsLocked (persist L mc e) = guardsLocked e" "guardsLocked (removeMetainfo k e) = guardsLocked e"
  by (simp_all add: guardsLocked_def)

subsection \<open>What a save leaves on disk\<close>

lemma indexed_nth: "i < List.length xs \<Longrightarrow> indexed n xs ! i = (n + i, xs ! i)"
  by (induction xs arbitrary: n i) (auto simp: nth_Cons split: nat.splits)

lemma length_indexed [simp]: "List.length (indexed n xs) = List.length xs"
  by (induction xs arbitrary: n) auto

lemma set_indexed: "set (indexed n xs) = {(n + i, xs ! i) | i. i < List.length xs}"
  by (auto simp: in_set_conv_nth indexed_nth) (metis indexed_nth length_indexed)

lemma json_record_Inl:
  "(\<exists>err. json_record r = Inl err) \<longleftrightarrow> \<not> f64_finite (rec_SeedRatio r)"
  by (cases "rec_SeedRatio r") (auto simp: json_record_def json_float_err_def f64_finite_def)

lemma json_records_Inl:
  "(\<exists>err. json_records rs = Inl err) \<longleftrightarrow> (\<exists>r\<in>set rs. \<not> f64_finite (rec_SeedRatio r))"
proof (induction rs)
  case (Cons r rs)
  have "(\<exists>err. json_records (r # rs) = Inl err) \<longleftrightarrow>
      (\<exists>err. json_record r = Inl err) \<or> (\<exists>err. json_records rs = Inl err)"
    by (auto split: sum.splits)
  then show ?case by (simp add: Cons.IH json_record_Inl)
qed simp

lemma json_records_map:
  "json_records rs = Inr rs' \<Longrightarrow> map (\<lambda>r. json_str (rec_InfoHash r)) rs = map rec_InfoHash rs'"
  by (induction rs arbitrary: rs')
     (auto simp: json_record_def split: sum.splits option.splits)

lemma save_pending_metainfo:
  "set (sd_metainfo (e_disk (save_pending ks e))) =
     set (sd_metainfo (e_disk e)) \<union> {k \<in> set ks. sd_metainfoFault (e_disk e) k = None}"
  by (induction ks arbitrary: e) (auto split: option.splits)

lemma save_pending_disk [simp]:
  "sd_session (e_disk (save_pending ks e)) = sd_session (e_disk e)"
  "sd_writeFault (e_disk (save_pending ks e)) = sd_writeFault (e_disk e)"
  by (induction ks arbitrary: e) (simp_all split: option.splits)

lemma saveMetainfo_disk [simp]:
  "sd_session (e_disk (saveMetainfo L e)) = sd_session (e_disk e)"
  "sd_writeFault (e_disk (saveMetainfo L e)) = sd_writeFault (e_disk e)"
  by (simp_all add: saveMetainfo_def)

text \<open>A save that reports success wrote one record for every torrent; one that fails wrote none.\<close>

lemma SaveSession_ok:
  assumes "cfg_StateDir (e_cfg e) \<noteq> []" "fst (SaveSession L mc e) = Inr ()"
  obtains rs where
    "json_records (map (\<lambda>(k, tr). recordLocked L e k tr) (e_torrents e)) = Inr rs"
    "sd_session (e_disk (snd (SaveSession L mc e))) =
       SessionOk \<lparr>ses_Version = 1, ses_SavedAt = m_now mc, ses_Torrents = rs\<rparr>"
  using assms that
  by (auto simp: SaveSession_def writeFileAtomic_def sessionVersion_def Let_def
      split: option.splits sum.splits)

lemma SaveSession_fails:
  "fst (SaveSession L mc e) = Inl err \<Longrightarrow>
     sd_session (e_disk (snd (SaveSession L mc e))) = sd_session (e_disk e)"
  by (auto simp: SaveSession_def writeFileAtomic_def Let_def split: option.splits sum.splits if_splits)

lemma recordLocked_simps [simp]:
  "rec_InfoHash (recordLocked L e k tr) = k" "rec_SeedRatio (recordLocked L e k tr) = tr_seedRatio tr"
  "rec_Paused (recordLocked L e k tr) = tr_paused tr" "rec_Label (recordLocked L e k tr) = tr_label tr"
  by (simp_all add: recordLocked_def Let_def)

end
