(* ===== verification/Checks.thy ===== *)
theory Checks
  imports Persist
begin

text \<open>
  Hash verification, from \<^verbatim>\<open>internal/engine/ops.go\<close>: \<^verbatim>\<open>beginCheck\<close> and the function it returns,
  \<^verbatim>\<open>verifyPieces\<close>, \<^verbatim>\<open>cancelCheckLocked\<close>, \<^verbatim>\<open>quiesceCheck\<close> and \<^verbatim>\<open>ForceRecheck\<close>. A running
  verification is an entry of \<open>tr_checks\<close>; \<open>tr_cancelCheck\<close> names the one whose cancel function the
  torrent holds. The wait group is the number of entries.
\<close>

subsection \<open>Starting, cancelling, ending\<close>

definition mark_cancelled :: "nat \<Rightarrow> tracked \<Rightarrow> tracked" where
  "mark_cancelled c tr = tr\<lparr>tr_checks :=
     map (\<lambda>ck. if ck_id ck = c then ck\<lparr>ck_cancelled := True\<rparr> else ck) (tr_checks tr)\<rparr>"

definition cancelCheckLocked :: "tracked \<Rightarrow> tracked" where
  "cancelCheckLocked tr = (case tr_cancelCheck tr of None \<Rightarrow> tr | Some c \<Rightarrow> mark_cancelled c tr)"

definition beginCheck_tr :: "nat \<Rightarrow> check_kind \<Rightarrow> int \<Rightarrow> tracked \<Rightarrow> tracked" where
  "beginCheck_tr c kind tot tr =
     (let tr1 = cancelCheckLocked tr
      in tr1\<lparr>tr_checks := tr_checks tr1 @
               [\<lparr>ck_id = c, ck_kind = kind, ck_t = tr_t tr, ck_total = tot, ck_next = 0,
                 ck_cancelled = False\<rparr>],
             tr_cancelCheck := Some c, tr_checking := True,
             tr_checkDone := 0, tr_checkTotal := tot\<rparr>)"

definition beginCheck :: "tid \<Rightarrow> check_kind \<Rightarrow> int \<Rightarrow> engine \<Rightarrow> nat \<times> engine" where
  "beginCheck k kind tot e =
     (e_nextCheck e,
      (upd_tr k (beginCheck_tr (e_nextCheck e) kind tot) e)\<lparr>e_nextCheck := Suc (e_nextCheck e)\<rparr>)"

text \<open>The function \<^verbatim>\<open>beginCheck\<close> returns, called when check \<open>c\<close> has ended.\<close>

definition check_done :: "nat \<Rightarrow> tracked \<Rightarrow> tracked" where
  "check_done c tr = tr\<lparr>tr_cancelCheck := None, tr_checking := False, tr_checkDone := 0,
     tr_checkTotal := 0, tr_checks := filter (\<lambda>ck. ck_id ck \<noteq> c) (tr_checks tr)\<rparr>"

subsection \<open>The loop over the pieces\<close>

datatype check_outcome = Verified | Canceled | Broken string

function verifyPieces :: "(int \<Rightarrow> string option) \<Rightarrow> bool \<Rightarrow> int \<Rightarrow> int \<Rightarrow> check_outcome \<times> int" where
  "verifyPieces verify cancelled i tot =
     (if tot \<le> i then (Verified, i)
      else if cancelled then (Canceled, i)
      else case verify i of
        Some err \<Rightarrow> (Broken err, i)
      | None \<Rightarrow> verifyPieces verify cancelled (i + 1) tot)"
  by pat_completeness auto
termination by (relation "measure (\<lambda>(_, _, i, tot). nat (tot - i))") auto

declare verifyPieces.simps [simp del]

text \<open>One iteration: the outcome if it was the last.\<close>

definition verify_once :: "(int \<Rightarrow> string option) \<Rightarrow> check \<Rightarrow> check_outcome option" where
  "verify_once verify ck =
     (if ck_total ck \<le> ck_next ck then Some Verified
      else if ck_cancelled ck then Some Canceled
      else map_option Broken (verify (ck_next ck)))"

text \<open>What the goroutine does after the loop, for a recheck and for the check after a move.\<close>

definition finish_check :: "lib \<Rightarrow> machine \<Rightarrow> tid \<Rightarrow> check \<Rightarrow> check_outcome \<Rightarrow> int \<Rightarrow> engine \<Rightarrow> engine" where
  "finish_check L mc k ck out reached e =
     (let e1 = upd_tr k (check_done (ck_id ck)) e
      in snapshotAndBroadcastNow L mc (case ck_kind ck of
           Recheck \<Rightarrow> (case out of
               Canceled \<Rightarrow> logf (RecheckCancelled k reached (ck_total ck)) e1
             | Broken err \<Rightarrow> logf (RecheckFailed k err)
                 (upd_tr k (tr_lastErr_update (\<lambda>_. ''recheck failed: '' @ err)) e1)
             | Verified \<Rightarrow> logf (RecheckFinished k) e1)
         | AfterMove \<Rightarrow>
             (let e2 = (case out of
                   Broken err \<Rightarrow>
                     upd_tr k (tr_lastErr_update (\<lambda>_. ''verify after move failed: '' @ err)) e1
                 | _ \<Rightarrow> e1);
                  e3 = upd_tr k (tr_holdData_update (\<lambda>_. False)) e2
              in flow_tr k e3)))"

definition piece_verifier :: "lib \<Rightarrow> engine \<Rightarrow> check \<Rightarrow> int \<Rightarrow> string option" where
  "piece_verifier L e ck i = lib_verify L (e_cmds e) (ck_t ck) i"

text \<open>A step of one running check: another piece, or the end.\<close>

definition advance :: "nat \<Rightarrow> tracked \<Rightarrow> tracked" where
  "advance c tr = tr\<lparr>tr_checks := map (\<lambda>ck. if ck_id ck = c
       then ck\<lparr>ck_next := ck_next ck + 1\<rparr> else ck) (tr_checks tr)\<rparr>"

definition stepCheck :: "lib \<Rightarrow> machine \<Rightarrow> tid \<Rightarrow> nat \<Rightarrow> engine \<Rightarrow> engine" where
  "stepCheck L mc k c e = (case map_of (e_torrents e) k of
     None \<Rightarrow> e
   | Some tr \<Rightarrow> (case List.find (\<lambda>ck. ck_id ck = c) (tr_checks tr) of
       None \<Rightarrow> e
     | Some ck \<Rightarrow> (case verify_once (piece_verifier L e ck) ck of
         Some out \<Rightarrow> finish_check L mc k ck out (tr_checkDone tr) e
       | None \<Rightarrow> upd_tr k (\<lambda>tr. (advance c tr)\<lparr>tr_checkDone := ck_next ck + 1\<rparr>) e)))"

text \<open>A check left to run to its end.\<close>

definition runCheck :: "lib \<Rightarrow> machine \<Rightarrow> tid \<Rightarrow> check \<Rightarrow> engine \<Rightarrow> engine" where
  "runCheck L mc k ck e =
     (let (out, reached) = verifyPieces (piece_verifier L e ck) (ck_cancelled ck) (ck_next ck) (ck_total ck)
      in finish_check L mc k ck out reached e)"

fun drain :: "lib \<Rightarrow> machine \<Rightarrow> tid \<Rightarrow> check list \<Rightarrow> engine \<Rightarrow> engine" where
  "drain L mc k [] e = e"
| "drain L mc k (ck # cks) e = drain L mc k cks (runCheck L mc k ck e)"

text \<open>
  Cancel, then wait: every verification on the torrent ends before the caller goes on, the one
  that was told to stop and any other.
\<close>

definition quiesceCheck :: "lib \<Rightarrow> machine \<Rightarrow> tid \<Rightarrow> engine \<Rightarrow> engine" where
  "quiesceCheck L mc k e =
     (let e1 = upd_tr k cancelCheckLocked e
      in case map_of (e_torrents e1) k of
           None \<Rightarrow> e1
         | Some tr \<Rightarrow> drain L mc k (tr_checks tr) e1)"

text \<open>
  How the operations that drop the library's torrent begin: find the torrent, take its operation
  lock, and go on once nothing verifies it any more.
\<close>

definition quiesced :: "lib \<Rightarrow> machine \<Rightarrow> tid \<Rightarrow> (tracked \<Rightarrow> engine \<Rightarrow> 'a result \<times> engine) \<Rightarrow>
    engine \<Rightarrow> 'a result \<times> engine" where
  "quiesced L mc k body e = (case lookup k e of
     Inl err \<Rightarrow> (Inl err, e)
   | Inr _ \<Rightarrow>
      (let e1 = quiesceCheck L mc k e in
       case lookup k e1 of Inl err \<Rightarrow> (Inl err, e1) | Inr tr \<Rightarrow> body tr e1))"

lemma quiesced_rule:
  assumes "I e" "I (quiesceCheck L mc k e)"
    "\<And>tr. map_of (e_torrents (quiesceCheck L mc k e)) k = Some tr \<Longrightarrow>
       I (snd (body tr (quiesceCheck L mc k e)))"
  shows "I (snd (quiesced L mc k body e))"
  using assms by (auto simp: quiesced_def Let_def split: sum.splits)

definition ForceRecheck :: "lib \<Rightarrow> machine \<Rightarrow> tid \<Rightarrow> engine \<Rightarrow> unit result \<times> engine" where
  "ForceRecheck L mc k e = (case lookup k e of
     Inl err \<Rightarrow> (Inl err, e)
   | Inr tr \<Rightarrow>
      (let v = vw L e (tr_t tr) in
       if \<not> tv_hasInfo v then (Inl ''torrent metadata not available yet'', e)
       else let tot = tv_numPieces v;
                e1 = snd (beginCheck k Recheck tot e);
                e2 = logf (RecheckStarted k tot) e1
            in (Inr (), snapshotAndBroadcastNow L mc e2)))"

subsection \<open>Lemmas on one torrent\<close>

lemma mark_cancelled_simps [simp]:
  "tr_cancelCheck (mark_cancelled c tr) = tr_cancelCheck tr"
  "tr_checking (mark_cancelled c tr) = tr_checking tr"
  "map ck_id (tr_checks (mark_cancelled c tr)) = map ck_id (tr_checks tr)"
  by (auto simp: mark_cancelled_def)

lemma ids_mark_cancelled [simp]:
  "ck_id ` set (tr_checks (mark_cancelled c tr)) = ck_id ` set (tr_checks tr)"
  by (metis list.set_map mark_cancelled_simps(3))

lemma cancelCheckLocked_simps [simp]:
  "tr_t (cancelCheckLocked tr) = tr_t tr" "tr_paused (cancelCheckLocked tr) = tr_paused tr"
  "tr_ownStorage (cancelCheckLocked tr) = tr_ownStorage tr"
  "tr_holdData (cancelCheckLocked tr) = tr_holdData tr"
  "tr_chosenFiles (cancelCheckLocked tr) = tr_chosenFiles tr"
  "tr_cancelCheck (cancelCheckLocked tr) = tr_cancelCheck tr"
  "tr_checking (cancelCheckLocked tr) = tr_checking tr"
  "tr_savePath (cancelCheckLocked tr) = tr_savePath tr"
  "tr_lastErr (cancelCheckLocked tr) = tr_lastErr tr"
  "map ck_id (tr_checks (cancelCheckLocked tr)) = map ck_id (tr_checks tr)"
  by (simp_all add: cancelCheckLocked_def mark_cancelled_def comp_def split: option.splits)

lemma ids_cancelCheckLocked [simp]:
  "ck_id ` set (tr_checks (cancelCheckLocked tr)) = ck_id ` set (tr_checks tr)"
  by (simp add: cancelCheckLocked_def split: option.splits)

lemma beginCheck_tr_simps [simp]:
  "tr_t (beginCheck_tr c kind n tr) = tr_t tr" "tr_paused (beginCheck_tr c kind n tr) = tr_paused tr"
  "tr_ownStorage (beginCheck_tr c kind n tr) = tr_ownStorage tr"
  "tr_holdData (beginCheck_tr c kind n tr) = tr_holdData tr"
  "tr_chosenFiles (beginCheck_tr c kind n tr) = tr_chosenFiles tr"
  "tr_cancelCheck (beginCheck_tr c kind n tr) = Some c"
  "tr_checking (beginCheck_tr c kind n tr)"
  "map ck_id (tr_checks (beginCheck_tr c kind n tr)) = map ck_id (tr_checks tr) @ [c]"
  by (simp_all add: beginCheck_tr_def Let_def)

lemma check_done_simps [simp]:
  "tr_t (check_done c tr) = tr_t tr" "tr_paused (check_done c tr) = tr_paused tr"
  "tr_ownStorage (check_done c tr) = tr_ownStorage tr"
  "tr_holdData (check_done c tr) = tr_holdData tr"
  "tr_chosenFiles (check_done c tr) = tr_chosenFiles tr"
  "tr_cancelCheck (check_done c tr) = None" "\<not> tr_checking (check_done c tr)"
  "tr_savePath (check_done c tr) = tr_savePath tr"
  "tr_checks (check_done c tr) = filter (\<lambda>ck. ck_id ck \<noteq> c) (tr_checks tr)"
  by (simp_all add: check_done_def)

subsection \<open>The loop ends, and where\<close>

lemma verifyPieces_cancelled:
  "cancelled \<Longrightarrow> verifyPieces verify cancelled i tot = (if tot \<le> i then Verified else Canceled, i)"
  by (simp add: verifyPieces.simps)

lemma verifyPieces_reached:
  "i \<le> tot \<Longrightarrow> i \<le> snd (verifyPieces verify c i tot) \<and> snd (verifyPieces verify c i tot) \<le> tot"
proof (induction verify c i tot rule: verifyPieces.induct)
  case (1 verify c i tot)
  show ?case
  proof (cases "tot \<le> i \<or> c \<or> verify i \<noteq> None")
    case True
    then show ?thesis using 1(2) by (subst (1 2) verifyPieces.simps) (auto split: option.splits)
  next
    case False
    then have "verifyPieces verify c i tot = verifyPieces verify c (i + 1) tot"
      by (subst verifyPieces.simps) simp
    then show ?thesis using 1(1) False 1(2) by force
  qed
qed

text \<open>Every piece before the one reached was verified; the outcome says what stopped it there.\<close>

lemma verifyPieces_sound:
  assumes "verifyPieces verify c i tot = (out, n)" "i \<le> tot"
  shows "(\<forall>j. i \<le> j \<and> j < n \<longrightarrow> verify j = None) \<and>
    (case out of Verified \<Rightarrow> n = tot | Canceled \<Rightarrow> c \<and> n = i
     | Broken err \<Rightarrow> n < tot \<and> verify n = Some err)"
  using assms
proof (induction verify c i tot rule: verifyPieces.induct)
  case (1 verify c i tot)
  show ?case
  proof (cases "tot \<le> i \<or> c \<or> verify i \<noteq> None")
    case True
    with 1(2,3) show ?thesis by (subst (asm) verifyPieces.simps) (auto split: option.splits if_splits)
  next
    case False
    then have "verifyPieces verify c (i + 1) tot = (out, n)"
      using 1(2) by (subst (asm) verifyPieces.simps) simp
    then have IH: "(\<forall>j. i + 1 \<le> j \<and> j < n \<longrightarrow> verify j = None) \<and>
        (case out of Verified \<Rightarrow> n = tot | Canceled \<Rightarrow> c \<and> n = i + 1
         | Broken err \<Rightarrow> n < tot \<and> verify n = Some err)"
      using 1(1) False by auto
    have "verify j = None" if "i \<le> j" "j < n" for j
      using that IH False by (cases "j = i") auto
    then show ?thesis using IH False by (auto split: check_outcome.splits)
  qed
qed

end
