(* ===== verification/Labels.thy ===== *)
theory Labels
  imports Persist
begin

text \<open>
  Labels and seeding limits: \<^verbatim>\<open>internal/engine/label.go\<close> and \<^verbatim>\<open>internal/engine/seedlimit.go\<close>.
\<close>

subsection \<open>Labels\<close>

definition maxLabelLen :: nat where "maxLabelLen = 64"

definition normalizeLabel :: "string \<Rightarrow> string result" where
  "normalizeLabel label =
     (let label = trim_space label in
      if label = [] then Inr []
      else if maxLabelLen < List.length label
      then Inl (''label is '' @ itoa (int (List.length label)) @ '' bytes, over the '' @
                itoa (int maxLabelLen) @ ''-byte limit'')
      else if list_ex is_control (runes label)
      then Inl ''label must not contain control characters''
      else Inr label)"

definition SetLabel :: "lib \<Rightarrow> machine \<Rightarrow> tid \<Rightarrow> string \<Rightarrow> engine \<Rightarrow> unit result \<times> engine" where
  "SetLabel L mc k label e = (case normalizeLabel label of
     Inl err \<Rightarrow> (Inl err, e)
   | Inr label \<Rightarrow> (case lookup k e of
       Inl err \<Rightarrow> (Inl err, e)
     | Inr tr \<Rightarrow>
         (let was = tr_label tr;
              e1 = upd_tr k (tr_label_update (\<lambda>_. label)) e;
              e2 = (if was \<noteq> label then logf (TorrentLabelled k label was) e1 else e1)
          in (Inr (), snapshotAndBroadcastNow L mc (persist L mc e2)))))"

definition good_label :: "string \<Rightarrow> bool" where
  "good_label l \<longleftrightarrow> List.length l \<le> 64 \<and> trim_space l = l \<and> \<not> list_ex is_control (runes l)"

lemma runes_Nil [simp]: "runes [] = []"
  by (simp add: runes_def)

lemma good_label_Nil [simp]: "good_label []"
  by (simp add: good_label_def)

lemma normalizeLabel_good: "normalizeLabel l = Inr l' \<Longrightarrow> good_label l' \<and> l' = trim_space l"
  by (auto simp: normalizeLabel_def good_label_def maxLabelLen_def Let_def split: if_splits)

lemma normalizeLabel_fix: "good_label l \<Longrightarrow> normalizeLabel l = Inr l"
  by (auto simp: normalizeLabel_def good_label_def maxLabelLen_def Let_def)

lemma normalizeLabel_idem: "normalizeLabel l = Inr l' \<Longrightarrow> normalizeLabel l' = Inr l'"
  by (simp add: normalizeLabel_fix normalizeLabel_good)

subsection \<open>Seeding limits\<close>

definition seedLimitsFor :: "Config \<Rightarrow> tracked \<Rightarrow> f64 \<times> duration" where
  "seedLimitsFor cfg tr =
     (let ratio = (if tr_seedRatio tr \<noteq> Fin 0 then tr_seedRatio tr else cfg_SeedRatio cfg);
          seedTime = (if tr_seedTime tr \<noteq> 0 then tr_seedTime tr else cfg_SeedTime cfg)
      in (if f64_lt ratio (Fin 0) then Fin 0 else ratio, if seedTime < 0 then 0 else seedTime))"

definition finished :: "TorrentSnapshot \<Rightarrow> bool" where
  "finished snap \<longleftrightarrow> snap_TotalLength snap > 0 \<and> snap_Completed snap \<ge> snap_TotalLength snap"

definition seedLimitReached :: "Config \<Rightarrow> tracked \<Rightarrow> TorrentSnapshot \<Rightarrow> gotime \<Rightarrow> string option" where
  "seedLimitReached cfg tr snap now =
     (if tr_paused tr \<or> snap_TotalLength snap \<le> 0 \<or> snap_Completed snap < snap_TotalLength snap
      then None
      else let (ratio, seedTime) = seedLimitsFor cfg tr in
        if f64_lt (Fin 0) ratio \<and> f64_le ratio (snap_Ratio snap) then Some ''ratio''
        else if seedTime > 0 \<and> \<not> is_zero_time (tr_completedAt tr)
                \<and> time_sub now (tr_completedAt tr) \<ge> seedTime then Some ''time''
        else None)"

definition markCompleted :: "TorrentSnapshot \<Rightarrow> gotime \<Rightarrow> tracked \<Rightarrow> bool \<times> tracked" where
  "markCompleted snap now tr =
     (if is_zero_time (tr_completedAt tr) \<and> snap_TotalLength snap > 0
         \<and> snap_Completed snap \<ge> snap_TotalLength snap
      then (True, tr\<lparr>tr_completedAt := now\<rparr>) else (False, tr))"

definition SetSeedLimit :: "lib \<Rightarrow> machine \<Rightarrow> tid \<Rightarrow> f64 \<Rightarrow> duration \<Rightarrow> engine \<Rightarrow> unit result \<times> engine" where
  "SetSeedLimit L mc k ratio seedTime e = (case lookup k e of
     Inl err \<Rightarrow> (Inl err, e)
   | Inr tr \<Rightarrow>
      (let e1 = upd_tr k (\<lambda>tr. tr\<lparr>tr_seedRatio := ratio, tr_seedTime := seedTime\<rparr>) e
       in (Inr (), snapshotAndBroadcastNow L mc (persist L mc e1))))"

text \<open>The limits in force are never negative; zero is no limit.\<close>

lemma seedLimitsFor_nonneg:
  "\<not> f64_lt (fst (seedLimitsFor cfg tr)) (Fin 0) \<and> 0 \<le> snd (seedLimitsFor cfg tr)"
  by (simp add: seedLimitsFor_def Let_def)

text \<open>A torrent's own negative limit turns off a default that would otherwise apply.\<close>

lemma seedLimitsFor_opt_out:
  "f64_lt (tr_seedRatio tr) (Fin 0) \<Longrightarrow> fst (seedLimitsFor cfg tr) = Fin 0"
  "tr_seedTime tr < 0 \<Longrightarrow> snd (seedLimitsFor cfg tr) = 0"
  by (auto simp: seedLimitsFor_def Let_def)

lemma seedLimitsFor_default:
  "tr_seedRatio tr = Fin 0 \<Longrightarrow> \<not> f64_lt (cfg_SeedRatio cfg) (Fin 0) \<Longrightarrow>
     fst (seedLimitsFor cfg tr) = cfg_SeedRatio cfg"
  by (simp add: seedLimitsFor_def Let_def)

lemma seedLimitReached_finished: "seedLimitReached cfg tr snap now = Some why \<Longrightarrow>
    \<not> tr_paused tr \<and> finished snap"
  by (auto simp: seedLimitReached_def finished_def split: if_splits)

lemma seedLimitReached_iff:
  "seedLimitReached cfg tr snap now \<noteq> None \<longleftrightarrow>
     \<not> tr_paused tr \<and> finished snap \<and>
     (f64_lt (Fin 0) (fst (seedLimitsFor cfg tr)) \<and> f64_le (fst (seedLimitsFor cfg tr)) (snap_Ratio snap)
      \<or> snd (seedLimitsFor cfg tr) > 0 \<and> tr_completedAt tr \<noteq> 0
        \<and> time_sub now (tr_completedAt tr) \<ge> snd (seedLimitsFor cfg tr))"
  by (auto simp: seedLimitReached_def finished_def case_prod_beta)

lemma markCompleted_simps [simp]:
  "tr_t (snd (markCompleted snap now tr)) = tr_t tr"
  "tr_paused (snd (markCompleted snap now tr)) = tr_paused tr"
  "tr_ownStorage (snd (markCompleted snap now tr)) = tr_ownStorage tr"
  "tr_holdData (snd (markCompleted snap now tr)) = tr_holdData tr"
  "tr_checks (snd (markCompleted snap now tr)) = tr_checks tr"
  "tr_cancelCheck (snd (markCompleted snap now tr)) = tr_cancelCheck tr"
  "tr_checking (snd (markCompleted snap now tr)) = tr_checking tr"
  "tr_chosenFiles (snd (markCompleted snap now tr)) = tr_chosenFiles tr"
  "tr_lastDownBPS (snd (markCompleted snap now tr)) = tr_lastDownBPS tr"
  "tr_lastUpBPS (snd (markCompleted snap now tr)) = tr_lastUpBPS tr"
  by (simp_all add: markCompleted_def)

end
