(* ===== verification/SelectFiles.thy ===== *)
theory SelectFiles
  imports Persist
begin

text \<open>
  Choosing files by pattern, \<^verbatim>\<open>internal/engine/selectfiles.go\<close>, over the standard library's
  \<^verbatim>\<open>path.Match\<close>. A malformed pattern is \<open>None\<close>, the \<^verbatim>\<open>ErrBadPattern\<close> of \<^verbatim>\<open>path.Match\<close>.
\<close>

subsection \<open>Glob patterns\<close>

definition getEsc :: "string \<Rightarrow> (rune \<times> string) option" where
  "getEsc chunk = (case chunk of
     [] \<Rightarrow> None
   | c # cs \<Rightarrow> if c = CHR ''-'' \<or> c = CHR '']'' then None
      else (case (if c = CHR 0x5C then cs else chunk) of
          [] \<Rightarrow> None
        | d # ds \<Rightarrow> (let (r, n) = first_rune d ds; rest = drop n (d # ds)
            in if (r = rune_error \<and> n = 1) \<or> rest = [] then None else Some (r, rest))))"

lemma getEsc_shorter: "getEsc chunk = Some (r, rest) \<Longrightarrow> List.length rest < List.length chunk"
proof -
  assume a: "getEsc chunk = Some (r, rest)"
  then obtain c cs where c: "chunk = c # cs" by (auto simp: getEsc_def split: list.splits)
  define u where "u = (if c = CHR 0x5C then cs else chunk)"
  obtain d ds where u: "u = d # ds" and rest: "rest = drop (snd (first_rune d ds)) u"
    using a c by (auto simp: getEsc_def u_def Let_def case_prod_beta split: list.splits if_splits)
  have "1 \<le> snd (first_rune d ds)" using first_rune_width [of d ds "fst (first_rune d ds)"] by simp
  then have "List.length rest < List.length u" unfolding rest u by simp
  moreover have "List.length u \<le> List.length chunk" by (simp add: u_def c)
  ultimately show ?thesis by simp
qed

text \<open>The inside of \<^verbatim>\<open>[...]\<close>: whether the rune is in one of the ranges, and what follows.\<close>

function match_ranges :: "rune \<Rightarrow> bool \<Rightarrow> bool \<Rightarrow> string \<Rightarrow> (bool \<times> string) option" where
  "match_ranges r found some_range chunk =
     (if some_range \<and> chunk \<noteq> [] \<and> hd chunk = CHR '']'' then Some (found, tl chunk)
      else case getEsc chunk of
        None \<Rightarrow> None
      | Some (lo, chunk1) \<Rightarrow>
          (if chunk1 \<noteq> [] \<and> hd chunk1 = CHR ''-''
           then (case getEsc (tl chunk1) of
               None \<Rightarrow> None
             | Some (hi, chunk2) \<Rightarrow> match_ranges r (found \<or> (lo \<le> r \<and> r \<le> hi)) True chunk2)
           else match_ranges r (found \<or> lo = r) True chunk1))"
  by pat_completeness auto
termination
  by (relation "measure (\<lambda>(_, _, _, chunk). List.length chunk)")
     (auto dest!: getEsc_shorter simp: neq_Nil_conv)

declare match_ranges.simps [simp del]

lemma match_ranges_shorter:
  "match_ranges r f n chunk = Some (b, rest) \<Longrightarrow> List.length rest < List.length chunk"
proof (induction r f n chunk rule: match_ranges.induct)
  case (1 r found some_range chunk)
  show ?case
  proof (cases "some_range \<and> chunk \<noteq> [] \<and> hd chunk = CHR '']''")
    case True
    then show ?thesis using 1(3) by (subst (asm) match_ranges.simps) auto
  next
    case False
    then obtain lo chunk1 where g: "getEsc chunk = Some (lo, chunk1)"
      using 1(3) by (subst (asm) match_ranges.simps) (auto split: option.splits)
    note less = getEsc_shorter [OF g]
    show ?thesis
    proof (cases "chunk1 \<noteq> [] \<and> hd chunk1 = CHR ''-''")
      case True
      then obtain hi chunk2 where g2: "getEsc (tl chunk1) = Some (hi, chunk2)"
        using 1(3) False g by (subst (asm) match_ranges.simps) (auto split: option.splits)
      then have "match_ranges r (found \<or> (lo \<le> r \<and> r \<le> hi)) True chunk2 = Some (b, rest)"
        using 1(3) False g True by (subst (asm) match_ranges.simps) simp
      then have "List.length rest < List.length chunk2"
        using 1(1) [OF False g refl True g2 refl] by simp
      then show ?thesis using getEsc_shorter [OF g2] less by simp
    next
      case no: False
      then have "match_ranges r (found \<or> lo = r) True chunk1 = Some (b, rest)"
        using 1(3) False g by (subst (asm) match_ranges.simps) auto
      then show ?thesis using 1(2) [OF False g refl no] less by simp
    qed
  qed
qed

text \<open>
  \<^verbatim>\<open>matchChunk\<close>: \<open>None\<close> for a malformed chunk, otherwise the rest of the name when it matches. A
  failed match goes on to the end of the chunk, only to find whether it is well formed.
\<close>

function match_chunk :: "bool \<Rightarrow> string \<Rightarrow> string \<Rightarrow> string option option" where
  "match_chunk failed [] s = Some (if failed then None else Some s)"
| "match_chunk failed0 (c # cs) s =
     (let failed = (failed0 \<or> s = []) in
      if c = CHR ''['' then
        (let (r, s1) = (if failed then (0, s)
                        else let (r, n) = first_rune (hd s) (tl s) in (r, drop n s));
             negated = (cs \<noteq> [] \<and> hd cs = CHR ''^'');
             body = (if negated then tl cs else cs)
         in case match_ranges r False False body of
              None \<Rightarrow> None
            | Some (found, rest) \<Rightarrow> match_chunk (failed \<or> found = negated) rest s1)
      else if c = CHR ''?'' then
        (if failed then match_chunk True cs s
         else match_chunk (hd s = slash) cs (drop (snd (first_rune (hd s) (tl s))) s))
      else if c = CHR 0x5C then
        (case cs of
           [] \<Rightarrow> None
         | d # ds \<Rightarrow> if failed then match_chunk True ds s else match_chunk (d \<noteq> hd s) ds (tl s))
      else if failed then match_chunk True cs s else match_chunk (c \<noteq> hd s) cs (tl s))"
  by pat_completeness auto
termination
  by (relation "measure (\<lambda>(_, chunk, _). List.length chunk)")
     (auto dest!: match_ranges_shorter split: if_splits)

text \<open>\<^verbatim>\<open>scanChunk\<close>: the length of the chunk, up to the next star outside brackets.\<close>

fun scan_len :: "bool \<Rightarrow> string \<Rightarrow> nat" where
  "scan_len inrange [] = 0"
| "scan_len inrange (c # cs) =
     (if c = CHR 0x5C then (case cs of [] \<Rightarrow> 1 | _ # ds \<Rightarrow> 2 + scan_len inrange ds)
      else if c = CHR ''['' then Suc (scan_len True cs)
      else if c = CHR '']'' then Suc (scan_len False cs)
      else if c = CHR ''*'' \<and> \<not> inrange then 0
      else Suc (scan_len inrange cs))"

definition scan_chunk :: "string \<Rightarrow> bool \<times> string \<times> string" where
  "scan_chunk pat = (let p = dropWhile (\<lambda>c. c = CHR ''*'') pat; n = scan_len False p
     in (pat \<noteq> p, take n p, drop n p))"

lemma scan_chunk_shorter:
  assumes "pat \<noteq> []" shows "List.length (snd (snd (scan_chunk pat))) < List.length pat"
proof -
  obtain c cs where c: "pat = c # cs" using assms by (cases pat) auto
  show ?thesis
  proof (cases "c = CHR ''*''")
    case True
    have "List.length (dropWhile (\<lambda>c. c = CHR ''*'') cs) \<le> List.length cs"
      by (rule length_dropWhile_le)
    then show ?thesis using True c by (simp add: scan_chunk_def Let_def)
  next
    case False
    then have "0 < scan_len False pat" by (simp add: c split: list.splits)
    then show ?thesis using False c by (simp add: scan_chunk_def Let_def)
  qed
qed

text \<open>Behind a star: the first place in the name, up to a slash, where the chunk matches.\<close>

fun star_match :: "string \<Rightarrow> bool \<Rightarrow> string \<Rightarrow> string option option" where
  "star_match chunk is_last [] = Some None"
| "star_match chunk is_last (c # s) =
     (if c = slash then Some None
      else case match_chunk False chunk s of
        None \<Rightarrow> None
      | Some None \<Rightarrow> star_match chunk is_last s
      | Some (Some t) \<Rightarrow> if is_last \<and> t \<noteq> [] then star_match chunk is_last s else Some (Some t))"

function well_formed_rest :: "string \<Rightarrow> bool" where
  "well_formed_rest pat =
     (if pat = [] then True
      else let (_, chunk, rest) = scan_chunk pat
           in match_chunk False chunk [] \<noteq> None \<and> well_formed_rest rest)"
  by pat_completeness auto
termination
  by (relation "measure List.length") (auto dest: scan_chunk_shorter, metis scan_chunk_shorter snd_conv)

declare well_formed_rest.simps [simp del]

function path_Match :: "string \<Rightarrow> string \<Rightarrow> bool option" where
  "path_Match pat name =
     (if pat = [] then Some (name = [])
      else let (star, chunk, rest) = scan_chunk pat in
        if star \<and> chunk = [] then Some (\<not> contains name [slash])
        else case match_chunk False chunk name of
          None \<Rightarrow> None
        | Some m \<Rightarrow>
            (case (case m of Some t \<Rightarrow> if t = [] \<or> rest \<noteq> [] then Some t else None | None \<Rightarrow> None) of
               Some t \<Rightarrow> path_Match rest t
             | None \<Rightarrow>
                 (case (if star then star_match chunk (rest = []) name else Some None) of
                    None \<Rightarrow> None
                  | Some (Some t) \<Rightarrow> path_Match rest t
                  | Some None \<Rightarrow> if well_formed_rest rest then Some False else None)))"
  by pat_completeness auto
termination
  by (relation "measure (\<lambda>(pat, _). List.length pat)") (auto, (metis scan_chunk_shorter snd_conv)+)

declare path_Match.simps [simp del]

subsection \<open>The selection\<close>

definition matchesAnyPattern :: "string \<Rightarrow> string list \<Rightarrow> bool" where
  "matchesAnyPattern filePath patterns =
     list_ex (\<lambda>p. path_Match p (if contains p ''/'' then filePath else path_base filePath) = Some True)
             patterns"

fun select_files :: "handle \<Rightarrow> string list \<Rightarrow> (nat \<times> fview) list \<Rightarrow> engine \<Rightarrow> engine" where
  "select_files t patterns [] e = e"
| "select_files t patterns ((i, f) # fs) e = select_files t patterns fs
     (cmd (SetPriority t i (if matchesAnyPattern (fv_path f) patterns then PPNormal else PPNone)) e)"

definition applyFileSelection :: "lib \<Rightarrow> tid \<Rightarrow> handle \<Rightarrow> string list \<Rightarrow> engine \<Rightarrow> nat \<times> engine" where
  "applyFileSelection L k t patterns e =
     (let v = vw L e t; files = filesOrNil v in
      if \<not> tv_hasInfo v then (0, e)
      else let e1 = select_files t patterns (indexed 0 files) e;
               e2 = upd_tr k (tr_chosenFiles_update (\<lambda>_. [0..<List.length files])) e1
           in (List.length (filter (\<lambda>f. matchesAnyPattern (fv_path f) patterns) files), e2))"

end
