(* ===== verification/DataFiles.thy ===== *)
theory DataFiles
  imports EngineState
begin

text \<open>
  A torrent's data on disk, from \<^verbatim>\<open>internal/engine/ops.go\<close>: where it can be, deleting it, the
  directories left behind, and moving one file.
\<close>

subsection \<open>Paths get shorter on the way up\<close>

definition weight :: "string list \<Rightarrow> nat" where
  "weight cs = sum_list (map (\<lambda>c. Suc (List.length c)) cs)"

lemma weight_simps [simp]:
  "weight [] = 0" "weight (c # cs) = Suc (List.length c + weight cs)"
  "weight (as @ bs) = weight as + weight bs"
  by (simp_all add: weight_def)

lemma length_str_join: "xs \<noteq> [] \<Longrightarrow> Suc (List.length (str_join xs [d])) = weight xs"
proof (induction xs)
  case (Cons x xs)
  then show ?case by (cases xs) simp_all
qed simp

lemma weight_str_split: "weight (str_split d s) = Suc (List.length s)"
  using length_str_join [of "str_split d s" d] by (simp add: join_split)

lemma weight_butlast: "weight (butlast xs) \<le> weight xs"
  by (cases xs rule: rev_exhaust) simp_all

lemma weight_clean_step:
  "weight (clean_step r st c) \<le> weight st + (if c = [] then 0 else Suc (List.length c))"
  using weight_butlast [of st] by (auto simp: clean_step.simps)

declare clean_step.simps [simp del]

lemma weight_clean:
  "weight (foldl (clean_step r) st cs) \<le> weight st + weight (filter (\<lambda>c. c \<noteq> []) cs)"
proof (induction cs arbitrary: st)
  case (Cons c cs)
  show ?case
    using Cons.IH [of "clean_step r st c"] weight_clean_step [of r st c]
    by (cases "c = []") (simp_all del: weight_simps(3))
qed simp

lemma weight_filter: "[] \<in> set cs \<Longrightarrow> Suc (weight (filter (\<lambda>c. c \<noteq> []) cs)) \<le> weight cs"
proof (induction cs)
  case (Cons c cs)
  have "weight (filter (\<lambda>c. c \<noteq> []) cs) \<le> weight cs"
    by (induction cs) simp_all
  then show ?case using Cons by (cases "c = []") simp_all
qed simp

lemma filter_weight: "weight (filter (\<lambda>c. c \<noteq> []) cs) \<le> weight cs"
  by (induction cs) simp_all

lemma length_clean_body:
  "List.length (str_join (foldl (clean_step r) [] cs) [slash]) \<le> weight (filter (\<lambda>c. c \<noteq> []) cs) - 1"
  using length_str_join [of "foldl (clean_step r) [] cs" slash] weight_clean [of r "[]" cs]
  by (cases "foldl (clean_step r) [] cs = []") auto

lemma str_split_snoc_sep: "str_split d (s @ [d]) = str_split d s @ [[]]"
proof (induction s)
  case (Cons c s)
  then show ?case by (cases "str_split d s") (auto split: list.splits)
qed simp

text \<open>Cleaning a path that ends in a slash, other than the root, makes it shorter.\<close>

lemma length_path_clean_dir:
  assumes "s \<noteq> []" shows "List.length (path_clean (s @ [slash])) < Suc (List.length s)"
proof -
  let ?p = "s @ [slash]" and ?cs = "str_split slash (s @ [slash])"
  have w: "weight ?cs = Suc (Suc (List.length s))" by (simp add: weight_str_split)
  have e: "[] \<in> set ?cs" by (simp add: str_split_snoc_sep)
  show ?thesis
  proof (cases "has_prefix ?p [slash]")
    case False
    have "List.length (str_join (foldl (clean_step False) [] ?cs) [slash]) \<le> List.length s"
      using length_clean_body [of False ?cs] weight_filter [OF e] w by linarith
    then show ?thesis using False assms by (simp add: path_clean_def Let_def less_Suc_eq_le Suc_le_eq)
  next
    case True
    then obtain t where t: "s = slash # t" using assms by (cases s) simp_all
    then have cs: "?cs = [] # str_split slash t @ [[]]"
      using str_split_snoc_sep [of slash t] by simp
    have "weight (filter (\<lambda>c. c \<noteq> []) ?cs) \<le> weight (str_split slash t)"
      by (simp add: cs filter_weight)
    then have "weight (filter (\<lambda>c. c \<noteq> []) ?cs) \<le> List.length s"
      by (simp add: weight_str_split t)
    then have "List.length (str_join (foldl (clean_step True) [] ?cs) [slash]) \<le> List.length s - 1"
      using length_clean_body [of True ?cs] by linarith
    then show ?thesis using True t by (simp add: path_clean_def Let_def)
  qed
qed

lemma path_dir_cases:
  obtains "path_dir p = ''.''"
  | s where "path_dir p = path_clean (s @ [slash])" "List.length s < List.length p"
proof -
  let ?q = "dropWhile (\<lambda>c. c \<noteq> slash) (rev p)"
  show ?thesis
  proof (cases ?q)
    case Nil
    then show ?thesis using that(1) by (simp add: path_dir_def path_clean_def)
  next
    case (Cons c q)
    then have "c = slash" using hd_dropWhile [of "\<lambda>c. c \<noteq> slash" "rev p"] by simp
    moreover have "List.length ?q \<le> List.length p"
      using length_dropWhile_le [of "\<lambda>c. c \<noteq> slash" "rev p"] by simp
    ultimately show ?thesis using that(2) [of "rev q"] Cons by (simp add: path_dir_def)
  qed
qed

lemma path_dir_shorter:
  assumes "path_dir p \<noteq> ''.''" "p \<noteq> [slash]" shows "List.length (path_dir p) < List.length p"
proof (cases rule: path_dir_cases [of p])
  case (2 s)
  show ?thesis
  proof (cases s)
    case Nil
    then have "path_dir p = [slash]"
      using 2(1) by (simp add: path_clean_def has_prefix_def slash_def clean_step.simps)
    moreover have "1 < List.length p"
    proof (rule ccontr)
      assume "\<not> 1 < List.length p"
      then obtain c where "p = [c]" using 2(2) by (cases p) auto
      then show False using \<open>path_dir p = [slash]\<close> assms
        by (auto simp: path_dir_def path_clean_def slash_def split: if_splits)
    qed
    ultimately show ?thesis by simp
  next
    case (Cons c t)
    then show ?thesis using length_path_clean_dir [of s] 2 by simp
  qed
qed (use assms in simp)

subsection \<open>Where the data is\<close>

definition partFileSuffix :: string where "partFileSuffix = ''.part''"

definition dataPaths :: "string \<Rightarrow> tview \<Rightarrow> string list" where
  "dataPaths savePath v = concat (map (\<lambda>f.
     let p = path_join savePath (fv_path f) in [p, p @ partFileSuffix]) (filesOrNil v))"

subsection \<open>Deleting it\<close>

fun deleteFiles :: "string list \<Rightarrow> fs \<Rightarrow> fs" where
  "deleteFiles [] f = f"
| "deleteFiles (p # ps) f = deleteFiles ps (snd (os_remove p f))"

text \<open>Walk up from a directory, removing what is empty, until something stops it.\<close>

function climb :: "string \<Rightarrow> string \<Rightarrow> string list \<Rightarrow> fs \<Rightarrow> string list \<times> fs" where
  "climb savePath dir seen f =
     (if dir = savePath \<or> dir = ''.'' \<or> dir = [slash] \<or> dir \<in> set seen then (seen, f)
      else case os_remove dir f of
        (False, f1) \<Rightarrow> (dir # seen, f1)
      | (True, f1) \<Rightarrow> climb savePath (path_dir dir) (dir # seen) f1)"
  by pat_completeness auto
termination
  by (relation "measure (\<lambda>(_, dir, _, _). if dir = ''.'' then 0 else Suc (List.length dir))")
     (auto dest: path_dir_shorter)

declare climb.simps [simp del]

fun removeDirs :: "string \<Rightarrow> string list \<Rightarrow> string list \<Rightarrow> fs \<Rightarrow> fs" where
  "removeDirs savePath seen [] f = f"
| "removeDirs savePath seen (p # ps) f =
     (let (seen1, f1) = climb savePath (path_dir p) seen f in removeDirs savePath seen1 ps f1)"

definition removeEmptyDirs :: "string \<Rightarrow> string list \<Rightarrow> fs \<Rightarrow> fs" where
  "removeEmptyDirs savePath paths f = removeDirs savePath [] paths f"

subsection \<open>Moving a file\<close>

text \<open>Rename, or copy and remove when the destination is on another device.\<close>

definition moveFile :: "string \<Rightarrow> string \<Rightarrow> fs \<Rightarrow> unit result \<times> fs" where
  "moveFile src dst f =
     (case os_rename src dst f of
        (True, f1) \<Rightarrow> (Inr (), f1)
      | (False, _) \<Rightarrow>
          (case os_stat f src of
             None \<Rightarrow> (Inr (), f)
           | Some DirNode \<Rightarrow> (Inl (''copy '' @ src), snd (os_write dst [] f))
           | Some (FileNode content) \<Rightarrow>
              (case os_write dst content f of
                 (False, _) \<Rightarrow> (Inl (''create '' @ dst), f)
               | (True, f1) \<Rightarrow>
                  (case os_remove src f1 of
                     (True, f2) \<Rightarrow> (Inr (), f2)
                   | (False, f2) \<Rightarrow> (Inl (''remove '' @ src), f2)))))"

subsection \<open>What is deleted, and what never is\<close>

lemma deleteFiles_other: "q \<notin> set ps \<Longrightarrow> os_stat (deleteFiles ps f) q = os_stat f q"
  by (induction ps arbitrary: f) (auto simp: os_remove_other)

lemma deleteFiles_mono: "os_stat f q = None \<Longrightarrow> os_stat (deleteFiles ps f) q = None"
  by (induction ps arbitrary: f) (auto simp: os_remove_mono)

lemma deleteFiles_denied [simp]: "fs_denied (deleteFiles ps f) = fs_denied f"
  by (induction ps arbitrary: f) auto

lemma os_denied_remove [simp]: "os_denied (snd (os_remove p f)) q = os_denied f q"
  by (simp add: os_denied_def)

lemma deleteFiles_gone:
  "p \<in> set ps \<Longrightarrow> \<not> os_denied f p \<Longrightarrow> os_stat f p \<noteq> Some DirNode \<Longrightarrow>
     os_stat (deleteFiles ps f) p = None"
proof (induction ps arbitrary: f)
  case (Cons q qs)
  show ?case
  proof (cases "p = q")
    case True
    have "os_stat (snd (os_remove p f)) p = None"
    proof (cases "os_stat f p")
      case None
      then show ?thesis by (rule os_remove_mono)
    next
      case (Some n)
      then obtain c where "os_stat f p = Some (FileNode c)" using Cons.prems(3) by (cases n) auto
      then show ?thesis using os_remove_True os_remove_file Cons.prems(2) by blast
    qed
    then show ?thesis using True by (simp add: deleteFiles_mono)
  next
    case False
    then show ?thesis using Cons by (simp add: os_remove_other [OF not_sym [OF False]])
  qed
qed simp

text \<open>The directories above a path.\<close>

definition above :: "string \<Rightarrow> string \<Rightarrow> bool" where
  "above p q \<longleftrightarrow> (\<exists>n. (path_dir ^^ Suc n) p = q)"

lemma climb_other:
  "q \<noteq> dir \<Longrightarrow> \<not> above dir q \<Longrightarrow> os_stat (snd (climb savePath dir seen f)) q = os_stat f q"
proof (induction savePath dir seen f rule: climb.induct)
  case (1 savePath dir seen f)
  show ?case
  proof (cases "dir = savePath \<or> dir = ''.'' \<or> dir = [slash] \<or> dir \<in> set seen")
    case True
    then show ?thesis by (subst climb.simps) simp
  next
    case False
    obtain ok f1 where r: "os_remove dir f = (ok, f1)" by force
    have f1: "os_stat f1 q = os_stat f q" using os_remove_other [OF not_sym [OF 1(2)], of f] r by simp
    show ?thesis
    proof (cases ok)
      case True
      have up: "q \<noteq> path_dir dir" using 1(3) unfolding above_def by (metis funpow_0 funpow_Suc_right o_apply)
      have ab: "\<not> above (path_dir dir) q" using 1(3) unfolding above_def
        by (metis funpow_Suc_right o_apply)
      have "climb savePath dir seen f = climb savePath (path_dir dir) (dir # seen) f1"
        using False r True by (subst climb.simps) simp
      then show ?thesis using 1(1) [OF False r [symmetric] _ up ab] True f1 by simp
    next
      case fail: False
      then have "climb savePath dir seen f = (dir # seen, f1)"
        using False r by (subst climb.simps) simp
      then show ?thesis using f1 by simp
    qed
  qed
qed

lemma climb_savePath: "os_stat (snd (climb savePath dir seen f)) savePath = os_stat f savePath"
proof (induction savePath dir seen f rule: climb.induct)
  case (1 savePath dir seen f)
  show ?case
  proof (cases "dir = savePath \<or> dir = ''.'' \<or> dir = [slash] \<or> dir \<in> set seen")
    case True
    then show ?thesis by (subst climb.simps) simp
  next
    case False
    obtain ok f1 where r: "os_remove dir f = (ok, f1)" by force
    have f1: "os_stat f1 savePath = os_stat f savePath"
      using os_remove_other [of dir savePath f] r False by simp
    show ?thesis using 1 [OF False r [symmetric]] f1 False r
      by (subst climb.simps) (auto split: bool.splits)
  qed
qed

lemma removeDirs_savePath: "os_stat (removeDirs savePath seen ps f) savePath = os_stat f savePath"
proof (induction ps arbitrary: seen f)
  case (Cons p ps)
  then show ?case using climb_savePath [of savePath "path_dir p" seen f] by (auto split: prod.splits)
qed simp

lemma removeDirs_other:
  "list_all (\<lambda>p. \<not> above p q) ps \<Longrightarrow> os_stat (removeDirs savePath seen ps f) q = os_stat f q"
proof (induction ps arbitrary: seen f)
  case (Cons p ps)
  have p: "\<not> above p q" using Cons.prems by simp
  have "q \<noteq> path_dir p" using p unfolding above_def by (metis funpow_0 funpow_Suc_right o_apply)
  moreover have "\<not> above (path_dir p) q" using p unfolding above_def by (metis funpow_Suc_right o_apply)
  ultimately have "os_stat (snd (climb savePath (path_dir p) seen f)) q = os_stat f q"
    by (rule climb_other)
  then show ?case using Cons by (auto split: prod.splits)
qed simp

text \<open>
  Deleting a torrent's data touches its own files and the directories above them; the save path
  itself stays, and so does every other file.
\<close>

lemma delete_data_other:
  "q \<notin> set ps \<Longrightarrow> list_all (\<lambda>p. \<not> above p q) ps \<Longrightarrow>
     os_stat (removeEmptyDirs savePath ps (deleteFiles ps f)) q = os_stat f q"
  by (simp add: removeEmptyDirs_def removeDirs_other deleteFiles_other)

lemma delete_data_savePath:
  "savePath \<notin> set ps \<Longrightarrow>
     os_stat (removeEmptyDirs savePath ps (deleteFiles ps f)) savePath = os_stat f savePath"
  by (simp add: removeEmptyDirs_def removeDirs_savePath deleteFiles_other)

end
