(* ===== verification/EngineOps.thy ===== *)
theory EngineOps
  imports Checks Labels SelectFiles DataFiles
begin

text \<open>
  The engine's operations on a torrent, \<^verbatim>\<open>internal/engine/ops.go\<close>: adding, the goroutine that
  waits for metadata, removing, pausing, priorities, streaming and limits. Each is a function from
  the state to a result and the state after; what the source defers to a goroutine is a step of its
  own (\<open>metadataArrived\<close>, \<open>stepCheck\<close>).
\<close>

subsection \<open>Storages\<close>

definition open_storage :: "string \<Rightarrow> engine \<Rightarrow> sid \<times> engine" where
  "open_storage dir e =
     (e_nextSid e, cmd (NewFile (e_nextSid e) dir) (e\<lparr>e_nextSid := Suc (e_nextSid e)\<rparr>))"

definition close_storage :: "sid option \<Rightarrow> engine \<Rightarrow> engine" where
  "close_storage own e = (case own of None \<Rightarrow> e | Some s \<Rightarrow> cmd (CloseStorage s) e)"

subsection \<open>Files wanted\<close>

fun set_priorities :: "handle \<Rightarrow> (nat \<times> piece_priority) list \<Rightarrow> engine \<Rightarrow> engine" where
  "set_priorities t [] e = e"
| "set_priorities t ((i, p) # ps) e = set_priorities t ps (cmd (SetPriority t i p) e)"

definition downloadUnchosenFiles :: "lib \<Rightarrow> handle \<Rightarrow> nat list \<Rightarrow> engine \<Rightarrow> engine" where
  "downloadUnchosenFiles L t chosen e =
     set_priorities t (map (\<lambda>i. (i, PPNormal))
       (filter (\<lambda>i. i \<notin> set chosen) [0..<List.length (filesOrNil (vw L e t))])) e"

definition downloadAllFiles :: "lib \<Rightarrow> handle \<Rightarrow> engine \<Rightarrow> engine" where
  "downloadAllFiles L t e = downloadUnchosenFiles L t [] e"

definition chosenFilesOf :: "tid \<Rightarrow> engine \<Rightarrow> nat list" where
  "chosenFilesOf k e = (case map_of (e_torrents e) k of None \<Rightarrow> [] | Some tr \<Rightarrow> tr_chosenFiles tr)"

definition applyFilePriorities :: "lib \<Rightarrow> handle \<Rightarrow> priority list \<Rightarrow> engine \<Rightarrow> engine" where
  "applyFilePriorities L t prios e =
     set_priorities t (zip [0..<List.length (filesOrNil (vw L e t))] (map toLibPriority prios)) e"

subsection \<open>Adding\<close>

text \<open>A torrent that wants its own directory gets its own storage.\<close>

definition own_storage :: "AddOpts \<Rightarrow> engine \<Rightarrow> sid option result \<times> engine" where
  "own_storage opts e =
     (if opt_SavePath opts = [] then (Inr None, e)
      else case os_mkdirAll (opt_SavePath opts) (e_fs e) of
        (False, files) \<Rightarrow> (Inl (''create save dir '' @ opt_SavePath opts), e\<lparr>e_fs := files\<rparr>)
      | (True, files) \<Rightarrow>
          (Inr (Some (e_nextSid e)), snd (open_storage (opt_SavePath opts) (e\<lparr>e_fs := files\<rparr>))))"

text \<open>
  The engine's own entry: a torrent already tracked keeps its entry, gives the new storage back
  and is paused if that was asked for; any other gets a fresh one.
\<close>

definition enter_torrent :: "machine \<Rightarrow> tid \<Rightarrow> handle \<Rightarrow> AddOpts \<Rightarrow> string \<Rightarrow> sid option \<Rightarrow> engine \<Rightarrow> engine" where
  "enter_torrent mc k t opts magnetURI own e =
     (case map_of (e_torrents e) k of
        Some tr \<Rightarrow>
          (let e1 = close_storage own e
           in if opt_Paused opts then upd_tr k (tr_paused_update (\<lambda>_. True)) e1 else e1)
      | None \<Rightarrow>
          (let savePath = (if opt_SavePath opts \<noteq> [] then opt_SavePath opts else cfg_DataDir (e_cfg e))
           in e\<lparr>e_torrents := AList.update k
                  (new_tracked t (m_now mc) magnetURI (opt_Paused opts) savePath own) (e_torrents e)\<rparr>))"

definition addSpec :: "lib \<Rightarrow> machine \<Rightarrow> spec_source \<Rightarrow> AddOpts \<Rightarrow> string \<Rightarrow> engine \<Rightarrow> tid result \<times> engine" where
  "addSpec L mc src opts magnetURI e0 = (case own_storage opts e0 of
     (Inl err, e) \<Rightarrow> (Inl err, e)
   | (Inr own, e) \<Rightarrow>
      (let spec = \<lparr>sp_source = src, sp_storage = own, sp_layersCleared = False\<rparr> in
       case lib_add L (e_cmds e) spec of
         Inl err \<Rightarrow> (Inl (''add torrent: '' @ err), close_storage own e)
       | Inr t \<Rightarrow>
          (let e1 = cmd (AddTorrentSpec spec) e;
               k = tv_infohash (vw L e1 t);
               e2 = flow_tr k (enter_torrent mc k t opts magnetURI own e1);
               e3 = e2\<lparr>e_waiting := e_waiting e2 @ [\<lparr>wt_t = t, wt_id = k, wt_opts = opts\<rparr>]\<rparr>;
               e4 = persist L mc (logf (TorrentAdded k (opt_Paused opts)) e3)
           in (Inr k, snapshotAndBroadcastNow L mc e4))))"

definition AddMagnet :: "lib \<Rightarrow> machine \<Rightarrow> string \<Rightarrow> AddOpts \<Rightarrow> engine \<Rightarrow> tid result \<times> engine" where
  "AddMagnet L mc uri opts e = (case lib_parse_magnet L uri of
     Some err \<Rightarrow> (Inl (''parse magnet uri: '' @ err), e)
   | None \<Rightarrow> addSpec L mc (FromMagnet uri) opts uri e)"

definition AddTorrentFile :: "lib \<Rightarrow> machine \<Rightarrow> string \<Rightarrow> AddOpts \<Rightarrow> engine \<Rightarrow> tid result \<times> engine" where
  "AddTorrentFile L mc path opts e = (case lib_load_file L path of
     Some err \<Rightarrow> (Inl (''load torrent file '' @ path @ '': '' @ err), e)
   | None \<Rightarrow> (case lib_spec_of_file L path of
       Some err \<Rightarrow> (Inl (''parse torrent file '' @ path @ '': '' @ err), e)
     | None \<Rightarrow> addSpec L mc (FromFile path) opts [] e))"

text \<open>The goroutine \<^verbatim>\<open>addSpec\<close> starts, when the metadata it waits for is there.\<close>

definition metadataArrived :: "lib \<Rightarrow> machine \<Rightarrow> waiting \<Rightarrow> engine \<Rightarrow> engine" where
  "metadataArrived L mc w e =
     (if e_closed e \<or> w \<notin> set (e_waiting e) \<or> \<not> tv_hasInfo (vw L e (wt_t w)) then e
      else let k = wt_id w; t = wt_t w; opts = wt_opts w;
               e1 = logf (MetadataReceived k) (e\<lparr>e_waiting := remove1 w (e_waiting e)\<rparr>);
               e2 = (if opt_Files opts \<noteq> []
                     then let (n, e') = applyFileSelection L k t (opt_Files opts) e1
                          in logf (if n = 0 then NothingSelected k
                                   else FilesSelected k n (List.length (filesOrNil (vw L e' t)))) e'
                     else if \<not> opt_Paused opts
                     then downloadUnchosenFiles L t (chosenFilesOf k e1) e1
                     else e1)
           in snapshotAndBroadcastNow L mc (persist L mc e2))"

subsection \<open>Removing\<close>

definition removeNow :: "lib \<Rightarrow> machine \<Rightarrow> tid \<Rightarrow> bool \<Rightarrow> tracked \<Rightarrow> engine \<Rightarrow> unit result \<times> engine" where
  "removeNow L mc k deleteData tr e =
     (let e1 = e\<lparr>e_torrents := AList.delete k (e_torrents e)\<rparr>;
          paths = dataPaths (tr_savePath tr) (vw L e1 (tr_t tr));
          e2 = close_storage (tr_ownStorage tr) (cmd (DropTorrent (tr_t tr)) e1);
          e3 = (if deleteData
                then e2\<lparr>e_fs := removeEmptyDirs (tr_savePath tr) paths (deleteFiles paths (e_fs e2))\<rparr>
                else e2);
          e4 = removeMetainfo k (logf (TorrentRemoved k deleteData) e3)
      in (Inr (), snapshotAndBroadcastNow L mc (persist L mc e4)))"

definition RemoveTorrent :: "lib \<Rightarrow> machine \<Rightarrow> tid \<Rightarrow> bool \<Rightarrow> engine \<Rightarrow> unit result \<times> engine" where
  "RemoveTorrent L mc k deleteData e = quiesced L mc k (removeNow L mc k deleteData) e"

subsection \<open>Pausing\<close>

definition SetPaused :: "lib \<Rightarrow> machine \<Rightarrow> tid \<Rightarrow> bool \<Rightarrow> engine \<Rightarrow> unit result \<times> engine" where
  "SetPaused L mc k paused e = (case lookup k e of
     Inl err \<Rightarrow> (Inl err, e)
   | Inr tr \<Rightarrow>
      (let e1 = upd_tr k (\<lambda>tr. let tr1 = tr\<lparr>tr_paused := paused\<rparr>
                                in if paused then cancelCheckLocked tr1 else tr1) e;
           e2 = flow_tr k e1;
           e3 = (if paused then e2
                 else downloadUnchosenFiles L (tr_t tr) (chosenFilesOf k e2) e2)
       in (Inr (), snapshotAndBroadcastNow L mc (persist L mc e3))))"

subsection \<open>Priorities and streaming\<close>

definition index_error :: "int \<Rightarrow> nat \<Rightarrow> string" where
  "index_error i n = ''file index '' @ itoa i @ '' out of range (0..'' @ itoa (int n - 1) @ '')''"

definition choose_file :: "nat \<Rightarrow> tracked \<Rightarrow> tracked" where
  "choose_file i tr = tr\<lparr>tr_chosenFiles := List.insert i (tr_chosenFiles tr)\<rparr>"

definition SetFilePriority :: "lib \<Rightarrow> machine \<Rightarrow> tid \<Rightarrow> int \<Rightarrow> priority \<Rightarrow> engine \<Rightarrow> unit result \<times> engine" where
  "SetFilePriority L mc k fileIndex prio e = (case lookup k e of
     Inl err \<Rightarrow> (Inl err, e)
   | Inr tr \<Rightarrow>
      (let v = vw L e (tr_t tr); files = filesOrNil v in
       if \<not> tv_hasInfo v then (Inl ''torrent metadata not available yet'', e)
       else if fileIndex < 0 \<or> int (List.length files) \<le> fileIndex
       then (Inl (index_error fileIndex (List.length files)), e)
       else let e1 = cmd (SetPriority (tr_t tr) (nat fileIndex) (toLibPriority prio)) e;
                e2 = upd_tr k (choose_file (nat fileIndex)) e1
            in (Inr (), snapshotAndBroadcastNow L mc (persist L mc e2))))"

definition lookupFile :: "lib \<Rightarrow> tid \<Rightarrow> int \<Rightarrow> engine \<Rightarrow> (tracked \<times> nat) result" where
  "lookupFile L k fileIndex e = (case lookup k e of
     Inl err \<Rightarrow> Inl err
   | Inr tr \<Rightarrow>
      (let v = vw L e (tr_t tr); files = filesOrNil v in
       if \<not> tv_hasInfo v then Inl ''torrent metadata not available yet''
       else if fileIndex < 0 \<or> int (List.length files) \<le> fileIndex
       then Inl (index_error fileIndex (List.length files))
       else Inr (tr, nat fileIndex)))"

definition file_info :: "nat \<Rightarrow> fview \<Rightarrow> FileInfo" where
  "file_info i f = \<lparr>file_Index = i, file_Path = fv_path f, file_Length = fv_length f,
     file_Completed = fv_completed f, file_Priority = fromLibPriority (fv_priority f)\<rparr>"

definition OpenFile :: "lib \<Rightarrow> tid \<Rightarrow> int \<Rightarrow> engine \<Rightarrow> FileInfo result" where
  "OpenFile L k fileIndex e = (case lookupFile L k fileIndex e of
     Inl err \<Rightarrow> Inl err
   | Inr (tr, i) \<Rightarrow> Inr (file_info i (tv_files (vw L e (tr_t tr)) ! i)))"

definition PrepareStream :: "lib \<Rightarrow> machine \<Rightarrow> tid \<Rightarrow> int \<Rightarrow> engine \<Rightarrow> unit result \<times> engine" where
  "PrepareStream L mc k fileIndex e = (case lookupFile L k fileIndex e of
     Inl err \<Rightarrow> (Inl err, e)
   | Inr (tr, i) \<Rightarrow>
      (case (if tr_paused tr then SetPaused L mc k False e else (Inr (), e)) of
         (Inl err, e1) \<Rightarrow> (Inl (''resume for streaming: '' @ err), e1)
       | (Inr _, e1) \<Rightarrow>
          (if priority_num (fromLibPriority (fv_priority (tv_files (vw L e1 (tr_t tr)) ! i)))
              < priority_num PriorityHigh
           then (case SetFilePriority L mc k fileIndex PriorityHigh e1 of
                   (Inl err, e2) \<Rightarrow> (Inl (''raise priority for streaming: '' @ err), e2)
                 | (Inr _, e2) \<Rightarrow> (Inr (), e2))
           else (Inr (), e1))))"

subsection \<open>Limits\<close>

definition SetGlobalUploadLimit :: "int \<Rightarrow> engine \<Rightarrow> engine" where
  "SetGlobalUploadLimit bps e = e\<lparr>e_upLimiter := limiter_of bps\<rparr>"

definition SetGlobalDownloadLimit :: "int \<Rightarrow> engine \<Rightarrow> engine" where
  "SetGlobalDownloadLimit bps e = e\<lparr>e_downLimiter := limiter_of bps\<rparr>"

definition SetTorrentRateLimit :: "lib \<Rightarrow> machine \<Rightarrow> tid \<Rightarrow> int \<Rightarrow> int \<Rightarrow> engine \<Rightarrow> unit result \<times> engine" where
  "SetTorrentRateLimit L mc k uploadBps downloadBps e = (case lookup k e of
     Inl err \<Rightarrow> (Inl err, e)
   | Inr tr \<Rightarrow>
      (let e1 = upd_tr k (\<lambda>tr.
             let tr1 = (if uploadBps \<ge> 0 then tr\<lparr>tr_upLimit := uploadBps\<rparr> else tr)
             in if downloadBps \<ge> 0 then tr1\<lparr>tr_downLimit := downloadBps\<rparr> else tr1) e
       in (Inr (), snapshotAndBroadcastNow L mc (persist L mc e1))))"

subsection \<open>Details\<close>

fun peerSourceName :: "peer_source \<Rightarrow> string" where
  "peerSourceName PSTracker = ''tracker''"
| "peerSourceName PSIncoming = ''incoming''"
| "peerSourceName PSDhtGetPeers = ''dht''"
| "peerSourceName PSDhtAnnouncePeer = ''dht''"
| "peerSourceName PSPex = ''pex''"
| "peerSourceName PSUtHolepunch = ''holepunch''"
| "peerSourceName PSDirect = ''direct''"
| "peerSourceName (PSOther s) = s"

definition clientName :: "string option \<Rightarrow> string \<Rightarrow> string" where
  "clientName v peerID = (case v of Some s \<Rightarrow> if s \<noteq> [] then s else peerID | None \<Rightarrow> peerID)"

definition peerIDPrefix :: "string \<Rightarrow> string" where
  "peerIDPrefix pid = map (\<lambda>b. if of_char b < (0x20 :: nat) \<or> 0x7e < (of_char b :: nat)
     then CHR ''.'' else b) (take 8 pid)"

definition peer_rates :: "tracked \<Rightarrow> f64 \<Rightarrow> conn_view \<Rightarrow> f64 \<times> f64" where
  "peer_rates tr elapsed pc = (case map_of (tr_lastPeers tr) (cv_addr pc) of
     None \<Rightarrow> (Fin 0, Fin 0)
   | Some prev \<Rightarrow> if f64_lt (Fin 0) elapsed
       then (speed (cv_read pc) (pb_down prev) elapsed, speed (cv_written pc) (pb_up prev) elapsed)
       else (pb_downBPS prev, pb_upBPS prev))"

definition peer_row :: "tracked \<Rightarrow> f64 \<Rightarrow> int \<Rightarrow> conn_view \<Rightarrow> PeerInfo" where
  "peer_row tr elapsed numPieces pc =
     (let (downBPS, upBPS) = peer_rates tr elapsed pc; pid = peerIDPrefix (cv_peerID pc)
      in \<lparr>peer_Addr = cv_addr pc, peer_Client = clientName (cv_client pc) pid, peer_PeerID = pid,
          peer_Source = peerSourceName (cv_source pc), peer_DownloadBPS = downBPS,
          peer_UploadBPS = upBPS, peer_PiecesHave = cv_remotePieces pc,
          peer_PiecesTotal = numPieces,
          peer_Progress = (if numPieces > 0
            then f64_div (f64_of_int (cv_remotePieces pc)) (f64_of_int numPieces) else Fin 0),
          peer_Encrypted = cv_encrypted pc\<rparr>)"

definition peer_bytes :: "tracked \<Rightarrow> f64 \<Rightarrow> conn_view \<Rightarrow> peerBytes" where
  "peer_bytes tr elapsed pc = (let (downBPS, upBPS) = peer_rates tr elapsed pc
     in \<lparr>pb_down = cv_read pc, pb_up = cv_written pc, pb_downBPS = downBPS, pb_upBPS = upBPS\<rparr>)"

definition peer_elapsed :: "machine \<Rightarrow> tracked \<Rightarrow> f64" where
  "peer_elapsed mc tr = (if is_zero_time (tr_lastPeersAt tr) then Fin 0
     else seconds_of (time_sub (m_now mc) (tr_lastPeersAt tr)))"

definition peerInfo :: "machine \<Rightarrow> conn_view list \<Rightarrow> int \<Rightarrow> tracked \<Rightarrow> PeerInfo list \<times> tracked" where
  "peerInfo mc conns numPieces tr =
     (let elapsed = peer_elapsed mc tr;
          current = foldl (\<lambda>m pc. AList.update (cv_addr pc) (peer_bytes tr elapsed pc) m) [] conns
      in (map (peer_row tr elapsed numPieces) conns,
          tr\<lparr>tr_lastPeers := current, tr_lastPeersAt := m_now mc\<rparr>))"

fun tier_rows :: "nat \<Rightarrow> string list list \<Rightarrow> TrackerInfo list" where
  "tier_rows n [] = []"
| "tier_rows n (urls # rest) =
     map (\<lambda>u. \<lparr>tracker_URL = u, tracker_Tier = n\<rparr>) urls @ tier_rows (Suc n) rest"

definition tracker_rows :: "tview \<Rightarrow> TrackerInfo list" where
  "tracker_rows v = (let rows = tier_rows 0 (tv_announceList v)
     in if rows = [] \<and> tv_announce v \<noteq> []
        then [\<lparr>tracker_URL = tv_announce v, tracker_Tier = 0\<rparr>] else rows)"

definition piece_row :: "run_view \<Rightarrow> PieceRun" where
  "piece_row r = \<lparr>run_Length = rv_length r, run_Known = rv_ok r,
     run_Complete = (rv_ok r \<and> rv_complete r), run_Partial = rv_partial r,
     run_Checking = (rv_hashing r \<or> rv_queued r)\<rparr>"

definition TorrentDetail :: "lib \<Rightarrow> machine \<Rightarrow> tid \<Rightarrow> engine \<Rightarrow> TorrentDetail result \<times> engine" where
  "TorrentDetail L mc k e = (case lookup k e of
     Inl err \<Rightarrow> (Inl err, e)
   | Inr tr \<Rightarrow>
      (let v = vw L e (tr_t tr);
           numPieces = (if tv_hasInfo v then tv_numPieces v else 0);
           look = peerInfo mc (tv_conns v) numPieces
       in (Inr \<lparr>detail_Snapshot = snapshotLocked L e k tr,
                detail_Files = map (\<lambda>(i, f). file_info i f) (indexed 0 (filesOrNil v)),
                detail_Peers = fst (look tr),
                detail_Trackers = tracker_rows v,
                detail_Pieces = (if tv_hasInfo v then map piece_row (tv_runs v) else []),
                detail_NumPieces = numPieces,
                detail_PieceLength = (if tv_hasInfo v then tv_pieceLength v else 0)\<rparr>,
           upd_tr k (\<lambda>tr. snd (look tr)) e)))"

subsection \<open>What the pieces leave alone\<close>

lemma close_storage_simps [simp]:
  "e_torrents (close_storage own e) = e_torrents e"
  "e_cfg (close_storage own e) = e_cfg e"
  "e_subs (close_storage own e) = e_subs e"
  "e_blocked (close_storage own e) = e_blocked e"
  "e_lowDisk (close_storage own e) = e_lowDisk e"
  "e_vpn (close_storage own e) = e_vpn e"
  "e_disk (close_storage own e) = e_disk e"
  "e_fs (close_storage own e) = e_fs e"
  "e_log (close_storage own e) = e_log e"
  "e_restoring (close_storage own e) = e_restoring e"
  "e_waiting (close_storage own e) = e_waiting e"
  "e_nextCheck (close_storage own e) = e_nextCheck e"
  "e_nextSid (close_storage own e) = e_nextSid e"
  "e_closed (close_storage own e) = e_closed e"
  "e_completions (close_storage own e) = e_completions e"
  "e_nextSub (close_storage own e) = e_nextSub e"
  by (simp_all add: close_storage_def split: option.splits)

lemma open_storage_simps [simp]:
  "e_torrents (snd (open_storage dir e)) = e_torrents e"
  "e_cfg (snd (open_storage dir e)) = e_cfg e"
  "e_subs (snd (open_storage dir e)) = e_subs e"
  "e_blocked (snd (open_storage dir e)) = e_blocked e"
  "e_lowDisk (snd (open_storage dir e)) = e_lowDisk e"
  "e_vpn (snd (open_storage dir e)) = e_vpn e"
  "e_disk (snd (open_storage dir e)) = e_disk e"
  "e_fs (snd (open_storage dir e)) = e_fs e"
  "e_log (snd (open_storage dir e)) = e_log e"
  "e_restoring (snd (open_storage dir e)) = e_restoring e"
  "e_waiting (snd (open_storage dir e)) = e_waiting e"
  "e_nextCheck (snd (open_storage dir e)) = e_nextCheck e"
  "e_closed (snd (open_storage dir e)) = e_closed e"
  "e_completions (snd (open_storage dir e)) = e_completions e"
  "e_nextSub (snd (open_storage dir e)) = e_nextSub e"
  by (simp_all add: open_storage_def cmd_def)

lemma open_storage_new [simp]:
  "fst (open_storage dir e) = e_nextSid e" "e_nextSid (snd (open_storage dir e)) = Suc (e_nextSid e)"
  "e_cmds (snd (open_storage dir e)) = NewFile (e_nextSid e) dir # e_cmds e"
  by (simp_all add: open_storage_def cmd_def)

lemma set_priorities_simps [simp]:
  "e_torrents (set_priorities t ps e) = e_torrents e"
  "e_cfg (set_priorities t ps e) = e_cfg e"
  "e_subs (set_priorities t ps e) = e_subs e"
  "e_blocked (set_priorities t ps e) = e_blocked e"
  "e_lowDisk (set_priorities t ps e) = e_lowDisk e"
  "e_vpn (set_priorities t ps e) = e_vpn e"
  "e_disk (set_priorities t ps e) = e_disk e"
  "e_fs (set_priorities t ps e) = e_fs e"
  "e_log (set_priorities t ps e) = e_log e"
  "e_restoring (set_priorities t ps e) = e_restoring e"
  "e_waiting (set_priorities t ps e) = e_waiting e"
  "e_nextCheck (set_priorities t ps e) = e_nextCheck e"
  "e_nextSid (set_priorities t ps e) = e_nextSid e"
  "e_closed (set_priorities t ps e) = e_closed e"
  "e_completions (set_priorities t ps e) = e_completions e"
  "e_nextSub (set_priorities t ps e) = e_nextSub e"
  by (induction t ps e rule: set_priorities.induct) simp_all

lemma downloadUnchosenFiles_simps [simp]:
  "e_torrents (downloadUnchosenFiles L t ch e) = e_torrents e"
  "e_cfg (downloadUnchosenFiles L t ch e) = e_cfg e"
  "e_subs (downloadUnchosenFiles L t ch e) = e_subs e"
  "e_blocked (downloadUnchosenFiles L t ch e) = e_blocked e"
  "e_lowDisk (downloadUnchosenFiles L t ch e) = e_lowDisk e"
  "e_vpn (downloadUnchosenFiles L t ch e) = e_vpn e"
  "e_disk (downloadUnchosenFiles L t ch e) = e_disk e"
  "e_fs (downloadUnchosenFiles L t ch e) = e_fs e"
  "e_log (downloadUnchosenFiles L t ch e) = e_log e"
  "e_restoring (downloadUnchosenFiles L t ch e) = e_restoring e"
  "e_waiting (downloadUnchosenFiles L t ch e) = e_waiting e"
  "e_nextCheck (downloadUnchosenFiles L t ch e) = e_nextCheck e"
  "e_nextSid (downloadUnchosenFiles L t ch e) = e_nextSid e"
  "e_closed (downloadUnchosenFiles L t ch e) = e_closed e"
  "e_completions (downloadUnchosenFiles L t ch e) = e_completions e"
  "e_nextSub (downloadUnchosenFiles L t ch e) = e_nextSub e"
  by (simp_all add: downloadUnchosenFiles_def)

lemma downloadAllFiles_simps [simp]:
  "e_torrents (downloadAllFiles L t e) = e_torrents e"
  "e_cfg (downloadAllFiles L t e) = e_cfg e"
  "e_subs (downloadAllFiles L t e) = e_subs e"
  "e_blocked (downloadAllFiles L t e) = e_blocked e"
  "e_lowDisk (downloadAllFiles L t e) = e_lowDisk e"
  "e_vpn (downloadAllFiles L t e) = e_vpn e"
  "e_disk (downloadAllFiles L t e) = e_disk e"
  "e_fs (downloadAllFiles L t e) = e_fs e"
  "e_log (downloadAllFiles L t e) = e_log e"
  "e_restoring (downloadAllFiles L t e) = e_restoring e"
  "e_waiting (downloadAllFiles L t e) = e_waiting e"
  "e_nextCheck (downloadAllFiles L t e) = e_nextCheck e"
  "e_nextSid (downloadAllFiles L t e) = e_nextSid e"
  "e_closed (downloadAllFiles L t e) = e_closed e"
  "e_completions (downloadAllFiles L t e) = e_completions e"
  "e_nextSub (downloadAllFiles L t e) = e_nextSub e"
  by (simp_all add: downloadAllFiles_def)

lemma applyFilePriorities_simps [simp]:
  "e_torrents (applyFilePriorities L t ps e) = e_torrents e"
  "e_cfg (applyFilePriorities L t ps e) = e_cfg e"
  "e_subs (applyFilePriorities L t ps e) = e_subs e"
  "e_blocked (applyFilePriorities L t ps e) = e_blocked e"
  "e_lowDisk (applyFilePriorities L t ps e) = e_lowDisk e"
  "e_vpn (applyFilePriorities L t ps e) = e_vpn e"
  "e_disk (applyFilePriorities L t ps e) = e_disk e"
  "e_fs (applyFilePriorities L t ps e) = e_fs e"
  "e_log (applyFilePriorities L t ps e) = e_log e"
  "e_restoring (applyFilePriorities L t ps e) = e_restoring e"
  "e_waiting (applyFilePriorities L t ps e) = e_waiting e"
  "e_nextCheck (applyFilePriorities L t ps e) = e_nextCheck e"
  "e_nextSid (applyFilePriorities L t ps e) = e_nextSid e"
  "e_closed (applyFilePriorities L t ps e) = e_closed e"
  "e_completions (applyFilePriorities L t ps e) = e_completions e"
  "e_nextSub (applyFilePriorities L t ps e) = e_nextSub e"
  by (simp_all add: applyFilePriorities_def)

lemma select_files_simps [simp]:
  "e_torrents (select_files t pats fs e) = e_torrents e"
  "e_cfg (select_files t pats fs e) = e_cfg e"
  "e_subs (select_files t pats fs e) = e_subs e"
  "e_blocked (select_files t pats fs e) = e_blocked e"
  "e_lowDisk (select_files t pats fs e) = e_lowDisk e"
  "e_vpn (select_files t pats fs e) = e_vpn e"
  "e_disk (select_files t pats fs e) = e_disk e"
  "e_fs (select_files t pats fs e) = e_fs e"
  "e_log (select_files t pats fs e) = e_log e"
  "e_restoring (select_files t pats fs e) = e_restoring e"
  "e_waiting (select_files t pats fs e) = e_waiting e"
  "e_nextCheck (select_files t pats fs e) = e_nextCheck e"
  "e_nextSid (select_files t pats fs e) = e_nextSid e"
  "e_closed (select_files t pats fs e) = e_closed e"
  "e_completions (select_files t pats fs e) = e_completions e"
  "e_nextSub (select_files t pats fs e) = e_nextSub e"
  by (induction t pats fs e rule: select_files.induct) simp_all

text \<open>Setting priorities turns no switch and opens no storage.\<close>

definition only_priorities :: "libcmd list \<Rightarrow> libcmd list \<Rightarrow> bool" where
  "only_priorities cs cs' \<longleftrightarrow> (\<exists>ps. cs' = map (\<lambda>(t, i, p). SetPriority t i p) ps @ cs)"

lemma only_priorities_same:
  assumes "only_priorities cs cs'"
  shows "down_allowed cs' = down_allowed cs" "up_allowed cs' = up_allowed cs"
    "open_storages cs' = open_storages cs"
proof -
  have d: "down_allowed (map (\<lambda>(t, i, p). SetPriority t i p) ps @ cs) h = down_allowed cs h" for ps h
    by (induction ps) (simp_all split: prod.splits)
  have u: "up_allowed (map (\<lambda>(t, i, p). SetPriority t i p) ps @ cs) h = up_allowed cs h" for ps h
    by (induction ps) (simp_all split: prod.splits)
  have o: "open_storages (map (\<lambda>(t, i, p). SetPriority t i p) ps @ cs) = open_storages cs" for ps
    by (induction ps) (simp_all split: prod.splits)
  show "down_allowed cs' = down_allowed cs" "up_allowed cs' = up_allowed cs"
    "open_storages cs' = open_storages cs"
    using assms d u o by (auto simp: only_priorities_def)
qed

lemma only_priorities_refl: "only_priorities cs cs"
  unfolding only_priorities_def by (rule exI [of _ "[]"]) simp

lemma only_priorities_Cons: "only_priorities cs (SetPriority t i p # cs)"
  unfolding only_priorities_def by (rule exI [of _ "[(t, i, p)]"]) simp

lemma only_priorities_trans:
  "only_priorities a b \<Longrightarrow> only_priorities b c \<Longrightarrow> only_priorities a c"
proof -
  assume "only_priorities a b" "only_priorities b c"
  then obtain ps qs where "b = map (\<lambda>(t, i, p). SetPriority t i p) ps @ a"
      "c = map (\<lambda>(t, i, p). SetPriority t i p) qs @ b"
    unfolding only_priorities_def by blast
  then have "c = map (\<lambda>(t, i, p). SetPriority t i p) (qs @ ps) @ a" by simp
  then show ?thesis unfolding only_priorities_def by blast
qed

lemma set_priorities_only: "only_priorities (e_cmds e) (e_cmds (set_priorities t ps e))"
proof (induction t ps e rule: set_priorities.induct)
  case (2 t i p ps e)
  then show ?case
    using only_priorities_trans [OF only_priorities_Cons [of "e_cmds e" t i p]] by simp
qed (simp add: only_priorities_refl)

lemma select_files_only: "only_priorities (e_cmds e) (e_cmds (select_files t pats fs e))"
proof (induction t pats fs e rule: select_files.induct)
  case (2 t pats i f fs e)
  then show ?case by (simp only: select_files.simps cmd_simps)
      (rule only_priorities_trans [OF only_priorities_Cons])
qed (simp add: only_priorities_refl)

lemmas priorities_keep_switches [simp] =
  only_priorities_same [OF set_priorities_only] only_priorities_same [OF select_files_only]

lemma downloadUnchosenFiles_switches [simp]:
  "down_allowed (e_cmds (downloadUnchosenFiles L t ch e)) = down_allowed (e_cmds e)"
  "up_allowed (e_cmds (downloadUnchosenFiles L t ch e)) = up_allowed (e_cmds e)"
  "open_storages (e_cmds (downloadUnchosenFiles L t ch e)) = open_storages (e_cmds e)"
  by (simp_all add: downloadUnchosenFiles_def)

lemma downloadAllFiles_switches [simp]:
  "down_allowed (e_cmds (downloadAllFiles L t e)) = down_allowed (e_cmds e)"
  "up_allowed (e_cmds (downloadAllFiles L t e)) = up_allowed (e_cmds e)"
  "open_storages (e_cmds (downloadAllFiles L t e)) = open_storages (e_cmds e)"
  by (simp_all add: downloadAllFiles_def)

lemma applyFilePriorities_switches [simp]:
  "down_allowed (e_cmds (applyFilePriorities L t ps e)) = down_allowed (e_cmds e)"
  "up_allowed (e_cmds (applyFilePriorities L t ps e)) = up_allowed (e_cmds e)"
  "open_storages (e_cmds (applyFilePriorities L t ps e)) = open_storages (e_cmds e)"
  by (simp_all add: applyFilePriorities_def)

lemma close_storage_switches [simp]:
  "down_allowed (e_cmds (close_storage own e)) = down_allowed (e_cmds e)"
  "up_allowed (e_cmds (close_storage own e)) = up_allowed (e_cmds e)"
  "open_storages (e_cmds (close_storage own e)) = open_storages (e_cmds e) - set_option own"
  by (auto simp: close_storage_def fun_eq_iff split: option.splits)

text \<open>A priority that was set reads back as the last one set.\<close>

lemma last_priority_set:
  "distinct (map fst ps) \<Longrightarrow> last_priority (e_cmds (set_priorities t ps e)) t' i =
     (if t' = t then (case map_of ps i of Some p \<Rightarrow> p | None \<Rightarrow> last_priority (e_cmds e) t i)
      else last_priority (e_cmds e) t' i)"
proof (induction t ps e rule: set_priorities.induct)
  case (2 t j p ps e)
  then show ?case by (auto split: option.splits dest: map_of_SomeD) (force dest: map_of_SomeD)+
qed simp

end
