(* ===== verification/MovePurge.thy ===== *)
theory MovePurge
  imports EngineOps
begin

text \<open>
  The two operations of \<^verbatim>\<open>internal/engine/ops.go\<close> that drop the library's torrent and add a fresh
  one: \<^verbatim>\<open>PurgeData\<close> deletes a torrent's data and keeps the torrent, \<^verbatim>\<open>MoveStorage\<close> takes its data
  elsewhere.
\<close>

definition foldCounters :: "tview \<Rightarrow> tracked \<Rightarrow> tracked" where
  "foldCounters v tr = tr\<lparr>tr_baseDownloaded := wrap64 (tr_baseDownloaded tr + st_read (tv_stats v)),
     tr_baseUploaded := wrap64 (tr_baseUploaded tr + st_written (tv_stats v)),
     tr_lastDownloaded := 0, tr_lastUploaded := 0\<rparr>"

definition respec :: "handle \<Rightarrow> tview \<Rightarrow> sid option \<Rightarrow> tspec" where
  "respec t v own = \<lparr>sp_source = FromMetainfo t, sp_storage = own,
     sp_layersCleared = (tv_pieceLayers v = 0)\<rparr>"

subsection \<open>Purging\<close>

definition purgeFailed :: "lib \<Rightarrow> machine \<Rightarrow> tid \<Rightarrow> string \<Rightarrow> engine \<Rightarrow> unit result \<times> engine" where
  "purgeFailed L mc k err e =
     (let e1 = upd_tr k (\<lambda>tr. tr\<lparr>tr_lastErr := err, tr_holdData := False\<rparr>) e;
          e2 = persist L mc (logf (PurgeFailed k err) e1)
      in (Inl err, snapshotAndBroadcastNow L mc e2))"

text \<open>Pause and hold the torrent, drop it, delete its data.\<close>

definition purge_drop :: "lib \<Rightarrow> tid \<Rightarrow> tracked \<Rightarrow> engine \<Rightarrow> engine" where
  "purge_drop L k tr e =
     (let t = tr_t tr;
          e1 = flow_tr k (upd_tr k (\<lambda>tr. tr\<lparr>tr_paused := True, tr_holdData := True\<rparr>) e);
          v = vw L e1 t;
          paths = dataPaths (tr_savePath tr) v;
          e2 = upd_tr k (foldCounters v) e1;
          e3 = close_storage (tr_ownStorage tr) (cmd (DropTorrent t) e2)
      in e3\<lparr>e_fs := removeEmptyDirs (tr_savePath tr) paths (deleteFiles paths (e_fs e3))\<rparr>)"

text \<open>A torrent that had a storage of its own gets a new one on the same path.\<close>

definition new_storage :: "tracked \<Rightarrow> engine \<Rightarrow> sid option \<times> engine" where
  "new_storage tr e = (if tr_ownStorage tr \<noteq> None
     then (Some (e_nextSid e), snd (open_storage (tr_savePath tr) e)) else (None, e))"

definition purgeNow :: "lib \<Rightarrow> machine \<Rightarrow> tid \<Rightarrow> tracked \<Rightarrow> engine \<Rightarrow> unit result \<times> engine" where
  "purgeNow L mc k tr e =
     (let v = vw L e (tr_t tr) in
      if \<not> tv_hasInfo v then (Inl ''torrent metadata not available yet'', e)
      else let e1 = purge_drop L k tr e in
        case tv_specErr v of
          Some err \<Rightarrow> purgeFailed L mc k (''rebuild spec: '' @ err) e1
        | None \<Rightarrow>
           (let (own, e2) = new_storage tr e1; spec = respec (tr_t tr) v own in
            case lib_add L (e_cmds e2) spec of
              Inl err \<Rightarrow> purgeFailed L mc k (''re-add torrent after purge: '' @ err) (close_storage own e2)
            | Inr fresh \<Rightarrow>
               (let e3 = upd_tr k (\<lambda>tr. tr\<lparr>tr_t := fresh, tr_ownStorage := own, tr_holdData := False\<rparr>)
                           (cmd (AddTorrentSpec spec) e2);
                    e4 = logf (DataDeleted k) (flow_tr k e3)
                in (Inr (), snapshotAndBroadcastNow L mc (persist L mc e4)))))"

definition PurgeData :: "lib \<Rightarrow> machine \<Rightarrow> tid \<Rightarrow> engine \<Rightarrow> unit result \<times> engine" where
  "PurgeData L mc k e = quiesced L mc k (purgeNow L mc k) e"

subsection \<open>Moving\<close>

definition moveFailed :: "lib \<Rightarrow> machine \<Rightarrow> tid \<Rightarrow> string \<Rightarrow> engine \<Rightarrow> unit result \<times> engine" where
  "moveFailed L mc k err e =
     (let e1 = upd_tr k (\<lambda>tr. tr\<lparr>tr_lastErr := err, tr_holdData := False\<rparr>) e;
          e2 = logf (MoveFailed k err) (flow_tr k e1)
      in (Inl err, snapshotAndBroadcastNow L mc e2))"

text \<open>One file, under both of the names it can have.\<close>

definition move_one :: "string \<Rightarrow> string \<Rightarrow> string \<Rightarrow> fs \<Rightarrow> unit result \<times> fs" where
  "move_one oldPath newDir path f0 =
     (let dst = path_join newDir path in
      case os_mkdirAll (path_dir dst) f0 of
        (False, f1) \<Rightarrow> (Inl (''create '' @ path_dir dst), f1)
      | (True, f1) \<Rightarrow>
         (case moveFile (path_join oldPath path) dst f1 of
            (Inl err, f2) \<Rightarrow> (Inl (''move '' @ path @ '': '' @ err), f2)
          | (Inr _, f2) \<Rightarrow>
             (case moveFile (path_join oldPath path @ partFileSuffix) (dst @ partFileSuffix) f2 of
                (Inl err, f3) \<Rightarrow> (Inl (''move '' @ path @ partFileSuffix @ '': '' @ err), f3)
              | (Inr _, f3) \<Rightarrow> (Inr (), f3))))"

fun move_all :: "string \<Rightarrow> string \<Rightarrow> string list \<Rightarrow> fs \<Rightarrow> unit result \<times> fs" where
  "move_all oldPath newDir [] f = (Inr (), f)"
| "move_all oldPath newDir (p # ps) f = (case move_one oldPath newDir p f of
     (Inl err, f1) \<Rightarrow> (Inl err, f1)
   | (Inr _, f1) \<Rightarrow> move_all oldPath newDir ps f1)"

text \<open>The part after the files are where they should be: drop, re-add, verify.\<close>

definition readd_moved :: "lib \<Rightarrow> machine \<Rightarrow> tid \<Rightarrow> tracked \<Rightarrow> string \<Rightarrow> priority list \<Rightarrow> engine \<Rightarrow> unit result \<times> engine" where
  "readd_moved L mc k tr newDir oldPriorities e =
     (let t = tr_t tr; v = vw L e t in
      case tv_specErr v of
        Some err \<Rightarrow> moveFailed L mc k (''rebuild spec: '' @ err) e
      | None \<Rightarrow>
         (let new = e_nextSid e; e1 = snd (open_storage newDir e);
              spec = respec t v (Some new);
              e2 = upd_tr k (foldCounters v) e1;
              e3 = close_storage (tr_ownStorage tr) (cmd (DropTorrent t) e2)
          in case lib_add L (e_cmds e3) spec of
               Inl err \<Rightarrow>
                 (let e4 = upd_tr k (tr_savePath_update (\<lambda>_. newDir)) (close_storage (Some new) e3)
                  in moveFailed L mc k (''re-add torrent at new location: '' @ err) (persist L mc e4))
             | Inr fresh \<Rightarrow>
                 (let e4 = cmd (AddTorrentSpec spec) e3;
                      e5 = (if oldPriorities \<noteq> [] then applyFilePriorities L fresh oldPriorities e4
                            else if \<not> tr_paused tr then downloadAllFiles L fresh e4 else e4);
                      tot = tv_numPieces (vw L e5 fresh);
                      e6 = upd_tr k (\<lambda>tr. tr\<lparr>tr_t := fresh, tr_savePath := newDir,
                                             tr_ownStorage := Some new\<rparr>) e5;
                      e7 = snd (beginCheck k AfterMove tot e6)
                  in (Inr (), snapshotAndBroadcastNow L mc e7))))"

definition moveNow :: "lib \<Rightarrow> machine \<Rightarrow> tid \<Rightarrow> string \<Rightarrow> tracked \<Rightarrow> engine \<Rightarrow> unit result \<times> engine" where
  "moveNow L mc k newDir tr e =
     (if \<not> tv_hasInfo (vw L e (tr_t tr)) then (Inl ''torrent metadata not available yet'', e)
      else case os_mkdirAll newDir (e_fs e) of
        (False, f) \<Rightarrow> (Inl (''create '' @ newDir), e\<lparr>e_fs := f\<rparr>)
      | (True, f) \<Rightarrow>
         (let e1 = flow_tr k (upd_tr k (tr_holdData_update (\<lambda>_. True)) (e\<lparr>e_fs := f\<rparr>));
              files = tv_files (vw L e1 (tr_t tr));
              oldPriorities = map (\<lambda>f. fromLibPriority (fv_priority f)) files
          in case move_all (tr_savePath tr) newDir (map fv_path files) f of
               (Inl err, f') \<Rightarrow> moveFailed L mc k err (e1\<lparr>e_fs := f'\<rparr>)
             | (Inr _, f') \<Rightarrow> readd_moved L mc k tr newDir oldPriorities (e1\<lparr>e_fs := f'\<rparr>)))"

definition MoveStorage :: "lib \<Rightarrow> machine \<Rightarrow> tid \<Rightarrow> string \<Rightarrow> engine \<Rightarrow> unit result \<times> engine" where
  "MoveStorage L mc k newDir e = quiesced L mc k (moveNow L mc k newDir) e"

end
