(* ===== verification/Restore.thy ===== *)
theory Restore
  imports EngineOps
begin

text \<open>
  Reading the session back: \<^verbatim>\<open>RestoreSession\<close> and \<^verbatim>\<open>restoreOne\<close> of \<^verbatim>\<open>internal/engine/session.go\<close>.
\<close>

definition sessionPath :: "engine \<Rightarrow> string" where
  "sessionPath e = path_join (cfg_StateDir (e_cfg e)) ''session.json''"

definition metainfoPath :: "tid \<Rightarrow> engine \<Rightarrow> string" where
  "metainfoPath k e = path_join (cfg_StateDir (e_cfg e)) (''torrents/'' @ k @ ''.torrent'')"

fun restore_priorities :: "lib \<Rightarrow> machine \<Rightarrow> tid \<Rightarrow> filePriorityRecord list \<Rightarrow> engine \<Rightarrow> engine" where
  "restore_priorities L mc k [] e = e"
| "restore_priorities L mc k (fp # fps) e = restore_priorities L mc k fps
     (case ParsePriority (fpr_Priority fp) of
        None \<Rightarrow> logf (UnknownPriority k (fpr_Index fp) (fpr_Priority fp)) e
      | Some prio \<Rightarrow> (case SetFilePriority L mc k (fpr_Index fp) prio e of
          (Inl err, e1) \<Rightarrow> logf (PriorityNotRestored k (fpr_Index fp) err) e1
        | (Inr _, e1) \<Rightarrow> e1))"

definition restore_fields :: "torrentRecord \<Rightarrow> tracked \<Rightarrow> tracked" where
  "restore_fields rec tr =
     tr\<lparr>tr_addedAt := (if is_zero_time (rec_AddedAt rec) then tr_addedAt tr else rec_AddedAt rec),
        tr_baseDownloaded := rec_Downloaded rec, tr_baseUploaded := rec_Uploaded rec,
        tr_seedRatio := rec_SeedRatio rec, tr_seedTime := rec_SeedTime rec,
        tr_completedAt := rec_CompletedAt rec, tr_label := rec_Label rec,
        tr_completeLogged := (\<not> is_zero_time (rec_CompletedAt rec))\<rparr>"

definition restore_opts :: "Config \<Rightarrow> torrentRecord \<Rightarrow> AddOpts" where
  "restore_opts cfg rec =
     \<lparr>opt_SavePath = (if rec_SavePath rec \<noteq> [] \<and> rec_SavePath rec \<noteq> cfg_DataDir cfg
                      then rec_SavePath rec else []),
      opt_Paused = rec_Paused rec, opt_Files = []\<rparr>"

definition restoreOne :: "lib \<Rightarrow> machine \<Rightarrow> torrentRecord \<Rightarrow> engine \<Rightarrow> unit result \<times> engine" where
  "restoreOne L mc rec e =
     (let opts = restore_opts (e_cfg e) rec in
      case (if rec_InfoHash rec \<in> set (sd_metainfo (e_disk e))
            then AddTorrentFile L mc (metainfoPath (rec_InfoHash rec) e) opts e
            else if rec_Magnet rec \<noteq> [] then AddMagnet L mc (rec_Magnet rec) opts e
            else (Inl ''no metainfo file and no magnet uri to re-add from'', e)) of
        (Inl err, e1) \<Rightarrow> (Inl err, e1)
      | (Inr k, e1) \<Rightarrow>
         (case (if rec_UpLimit rec \<noteq> 0 \<or> rec_DownLimit rec \<noteq> 0
                then SetTorrentRateLimit L mc k (rec_UpLimit rec) (rec_DownLimit rec) e1
                else (Inr (), e1)) of
            (Inl err, e2) \<Rightarrow> (Inl (''restore rate limits: '' @ err), e2)
          | (Inr _, e2) \<Rightarrow>
             (let e3 = restore_priorities L mc k (rec_FilePriorities rec) e2
              in (Inr (), upd_tr k (restore_fields rec) e3))))"

fun restore_all :: "lib \<Rightarrow> machine \<Rightarrow> torrentRecord list \<Rightarrow> nat \<Rightarrow> engine \<Rightarrow> nat \<times> engine" where
  "restore_all L mc [] n e = (n, e)"
| "restore_all L mc (rec # recs) n e = (case restoreOne L mc rec e of
     (Inl err, e1) \<Rightarrow> restore_all L mc recs n (logf (RestoreFailed (rec_InfoHash rec) err) e1)
   | (Inr _, e1) \<Rightarrow> restore_all L mc recs (Suc n) e1)"

definition RestoreSession :: "lib \<Rightarrow> machine \<Rightarrow> engine \<Rightarrow> nat result \<times> engine" where
  "RestoreSession L mc e =
     (if cfg_StateDir (e_cfg e) = [] then (Inr 0, e)
      else case sd_session (e_disk e) of
        NoSession \<Rightarrow> (Inr 0, e)
      | SessionUnreadable err \<Rightarrow> (Inl (''read session: '' @ err), e)
      | SessionCorrupt err \<Rightarrow> (Inl (''parse session '' @ sessionPath e @ '': '' @ err), e)
      | SessionOk sf \<Rightarrow>
          if sessionVersion < ses_Version sf
          then (Inl (''session '' @ sessionPath e @ '' was written by a newer version ('' @
                     itoa (ses_Version sf) @ '')''), e)
          else let (n, e1) = restore_all L mc (ses_Torrents sf) 0 (e\<lparr>e_restoring := True\<rparr>)
               in (Inr n, persist L mc (e1\<lparr>e_restoring := False\<rparr>)))"

end
