(* ===== verification/Tick.thy ===== *)
theory Tick
  imports EngineOps
begin

text \<open>
  The tick and the shutdown of \<^verbatim>\<open>internal/engine/engine.go\<close>.
\<close>

record seedLimitDecision =
  sl_id :: tid
  sl_name :: string
  sl_why :: string
  sl_ratio :: f64

fun seedLimitsReachedLocked ::
  "TorrentSnapshot list \<Rightarrow> gotime \<Rightarrow> engine \<Rightarrow> seedLimitDecision list \<times> bool \<times> engine" where
  "seedLimitsReachedLocked [] now e = ([], False, e)"
| "seedLimitsReachedLocked (snap # snaps) now e =
     (case map_of (e_torrents e) (snap_ID snap) of
        None \<Rightarrow> seedLimitsReachedLocked snaps now e
      | Some tr \<Rightarrow>
         (let (started, tr1) = markCompleted snap now tr;
              e1 = upd_tr (snap_ID snap) (\<lambda>_. tr1) e;
              (out, clock, e2) = seedLimitsReachedLocked snaps now e1
          in ((case seedLimitReached (e_cfg e) tr1 snap now of
                 None \<Rightarrow> out
               | Some why \<Rightarrow> \<lparr>sl_id = snap_ID snap, sl_name = snap_Name snap, sl_why = why,
                              sl_ratio = snap_Ratio snap\<rparr> # out),
              started \<or> clock, e2)))"

definition newly_complete :: "lib \<Rightarrow> engine \<Rightarrow> tracked \<Rightarrow> bool" where
  "newly_complete L e tr \<longleftrightarrow>
     \<not> (tr_completeLogged tr \<or> \<not> tv_hasInfo (vw L e (tr_t tr)) \<or> \<not> tv_complete (vw L e (tr_t tr)))"

definition newlyCompleteLocked :: "lib \<Rightarrow> engine \<Rightarrow> TorrentSnapshot list \<times> engine" where
  "newlyCompleteLocked L e =
     (map (\<lambda>(k, tr). snapshotLocked L e k tr)
        (filter (\<lambda>(k, tr). newly_complete L e tr) (e_torrents e)),
      e\<lparr>e_torrents := map_vals (\<lambda>_ tr. if newly_complete L e tr
          then tr\<lparr>tr_completeLogged := True\<rparr> else tr) (e_torrents e)\<rparr>)"

fun apply_flows :: "(handle \<times> bool \<times> bool) list \<Rightarrow> engine \<Rightarrow> engine" where
  "apply_flows [] e = e"
| "apply_flows (d # ds) e = apply_flows ds (applyFlow d e)"

fun stop_seeding :: "lib \<Rightarrow> machine \<Rightarrow> seedLimitDecision list \<Rightarrow> engine \<Rightarrow> engine" where
  "stop_seeding L mc [] e = e"
| "stop_seeding L mc (s # ss) e = stop_seeding L mc ss
     (case SetPaused L mc (sl_id s) True e of
        (Inl err, e1) \<Rightarrow> logf (SeedStopFailed (sl_id s) err) e1
      | (Inr _, e1) \<Rightarrow> logf (SeedingFinished (sl_id s) (sl_why s)) e1)"

fun report_complete :: "TorrentSnapshot list \<Rightarrow> engine \<Rightarrow> engine" where
  "report_complete [] e = e"
| "report_complete (s # ss) e = report_complete ss
     (let e1 = logf (TorrentComplete (snap_ID s)) e
      in if cfg_OnComplete (e_cfg e1) then e1\<lparr>e_completions := s # e_completions e1\<rparr> else e1)"

definition tick_elapsed :: "machine \<Rightarrow> engine \<Rightarrow> f64" where
  "tick_elapsed mc e = (let elapsed = seconds_of (time_sub (m_now mc) (e_lastTick e))
     in if f64_le elapsed (Fin 0) then Fin 1 else elapsed)"

text \<open>The locked half of a tick: rates, the clock, and what to do once the lock is released.\<close>

definition tick_rates :: "lib \<Rightarrow> machine \<Rightarrow> engine \<Rightarrow> engine" where
  "tick_rates L mc e =
     (let elapsed = tick_elapsed mc e
      in e\<lparr>e_lastTick := m_now mc,
           e_torrents := map_vals (\<lambda>_ tr. updateRates (vw L e (tr_t tr)) elapsed tr) (e_torrents e)\<rparr>)"

definition tick :: "lib \<Rightarrow> machine \<Rightarrow> engine \<Rightarrow> engine" where
  "tick L mc e =
     (let e1 = refreshDisk mc (refreshVPN mc e);
          e2 = tick_rates L mc e1;
          flows = map (\<lambda>(_, tr). flowDecision (guardsLocked e2) tr) (e_torrents e2);
          ev = eventLocked L mc e2;
          (finishedNow, e3) = newlyCompleteLocked L e2;
          (stop, clockStarted, e4) = seedLimitsReachedLocked (ev_Torrents ev) (m_now mc) e3;
          e5 = (if clockStarted then persist L mc e4 else e4);
          e6 = apply_flows flows e5;
          e7 = stop_seeding L mc stop e6;
          e8 = report_complete finishedNow e7
      in broadcast ev e8)"

subsection \<open>Shutdown\<close>

definition cancel_all :: "engine \<Rightarrow> engine" where
  "cancel_all e = e\<lparr>e_torrents := map_vals (\<lambda>_. cancelCheckLocked) (e_torrents e)\<rparr>"

fun drain_all :: "lib \<Rightarrow> machine \<Rightarrow> tid list \<Rightarrow> engine \<Rightarrow> engine" where
  "drain_all L mc [] e = e"
| "drain_all L mc (k # ks) e = drain_all L mc ks
     (case map_of (e_torrents e) k of None \<Rightarrow> e | Some tr \<Rightarrow> drain L mc k (tr_checks tr) e)"

definition closeNow :: "lib \<Rightarrow> machine \<Rightarrow> engine \<Rightarrow> engine" where
  "closeNow L mc e =
     (let e1 = cancel_all (persist L mc e);
          e2 = e1\<lparr>e_closed := True, e_waiting := []\<rparr>;
          e3 = drain_all L mc (map fst (e_torrents e2)) e2
      in e3\<lparr>e_subs := []\<rparr>)"

definition Close :: "lib \<Rightarrow> machine \<Rightarrow> engine \<Rightarrow> engine" where
  "Close L mc e = (if e_closed e then e else closeNow L mc e)"

end
