(* ===== verification/EngineInv.thy ===== *)
theory EngineInv
  imports MovePurge Restore Tick
begin

text \<open>
  The engine as a transition system: one constructor of \<open>eop\<close> per operation a caller, the tick or a
  goroutine can perform, and what every sequence of them keeps. What holds of each torrent's
  bookkeeping on its own is proved once, in the locale \<open>tracked_inv\<close>, for any predicate that the
  handful of assignments to a \<^verbatim>\<open>tracked\<close> in the source keep.
\<close>

subsection \<open>Operations\<close>

datatype eop =
    OAddMagnet string AddOpts
  | OAddFile string AddOpts
  | OMetadata waiting
  | ORemove tid bool
  | OSetPaused tid bool
  | OSetFilePriority tid int priority
  | OPrepareStream tid int
  | OSetLabel tid string
  | OSetSeedLimit tid f64 duration
  | OUploadLimit int
  | ODownloadLimit int
  | ORateLimit tid int int
  | ORecheck tid
  | OStepCheck tid nat
  | OPurge tid
  | OMove tid string
  | ODetail tid
  | OTick
  | ORestore
  | OSave
  | OSubscribe
  | OUnsubscribe nat
  | OReceive nat
  | OClose

fun exec :: "lib \<Rightarrow> machine \<Rightarrow> eop \<Rightarrow> engine \<Rightarrow> engine" where
  "exec L mc (OAddMagnet uri opts) e = snd (AddMagnet L mc uri opts e)"
| "exec L mc (OAddFile path opts) e = snd (AddTorrentFile L mc path opts e)"
| "exec L mc (OMetadata w) e = metadataArrived L mc w e"
| "exec L mc (ORemove k d) e = snd (RemoveTorrent L mc k d e)"
| "exec L mc (OSetPaused k b) e = snd (SetPaused L mc k b e)"
| "exec L mc (OSetFilePriority k i p) e = snd (SetFilePriority L mc k i p e)"
| "exec L mc (OPrepareStream k i) e = snd (PrepareStream L mc k i e)"
| "exec L mc (OSetLabel k l) e = snd (SetLabel L mc k l e)"
| "exec L mc (OSetSeedLimit k r t) e = snd (SetSeedLimit L mc k r t e)"
| "exec L mc (OUploadLimit n) e = SetGlobalUploadLimit n e"
| "exec L mc (ODownloadLimit n) e = SetGlobalDownloadLimit n e"
| "exec L mc (ORateLimit k u d) e = snd (SetTorrentRateLimit L mc k u d e)"
| "exec L mc (ORecheck k) e = snd (ForceRecheck L mc k e)"
| "exec L mc (OStepCheck k c) e = stepCheck L mc k c e"
| "exec L mc (OPurge k) e = snd (PurgeData L mc k e)"
| "exec L mc (OMove k d) e = snd (MoveStorage L mc k d e)"
| "exec L mc (ODetail k) e = snd (TorrentDetail L mc k e)"
| "exec L mc OTick e = tick L mc e"
| "exec L mc ORestore e = snd (RestoreSession L mc e)"
| "exec L mc OSave e = snd (SaveSession L mc e)"
| "exec L mc OSubscribe e = subscribed L mc e"
| "exec L mc (OUnsubscribe n) e = unsubscribe n e"
| "exec L mc (OReceive n) e = snd (receive n e)"
| "exec L mc OClose e = Close L mc e"

text \<open>
  A step is an operation with what the library and the machine say while it runs; the states an
  engine can be in are those a run from \<^verbatim>\<open>New\<close> reaches.
\<close>

type_synonym estep = "lib \<times> machine \<times> eop"

definition engine_step :: "estep \<Rightarrow> engine \<Rightarrow> engine" where
  "engine_step x e = (case x of (L, mc, op) \<Rightarrow> exec L mc op e)"

inductive reachable :: "engine \<Rightarrow> bool" where
  start: "New bind mc cfg disk files = Inr e \<Longrightarrow> reachable e"
| step: "reachable e \<Longrightarrow> reachable (engine_step x e)"

inductive_cases reachableE: "reachable e"

lemma reachable_run: "reachable e \<Longrightarrow> reachable (run_steps engine_step xs e)"
  by (induction xs arbitrary: e) (auto intro: reachable.step)

subsection \<open>What the torrents go through\<close>

lemma New_ok:
  assumes "New bind mc cfg disk files = Inr e"
  shows "e_torrents e = []" "e_cmds e = []" "e_nextSid e = 0" "e_nextCheck e = 0"
    "e_subs e = []" "e_waiting e = []" "e_restoring e = False"
  using assms by (auto simp: New_def split: bool.splits prod.splits sum.splits if_splits)

lemma e_torrents_finish_check:
  "e_torrents (finish_check L mc k ck out n e) =
     AList.map_entry k (\<lambda>tr. let tr1 = check_done (ck_id ck) tr;
         tr2 = (case out of Broken err \<Rightarrow> tr1\<lparr>tr_lastErr := (case ck_kind ck of
                    Recheck \<Rightarrow> ''recheck failed: '' @ err
                  | AfterMove \<Rightarrow> ''verify after move failed: '' @ err)\<rparr> | _ \<Rightarrow> tr1)
       in (case ck_kind ck of Recheck \<Rightarrow> tr2 | AfterMove \<Rightarrow> tr2\<lparr>tr_holdData := False\<rparr>))
     (e_torrents e)"
proof -
  have map_entry_twice: "AList.map_entry k f (AList.map_entry k g m) = AList.map_entry k (f \<circ> g) m"
    for f g :: "tracked \<Rightarrow> tracked" and m
    by (induction m) auto
  show ?thesis
    by (cases "ck_kind ck"; cases out)
       (simp_all add: finish_check_def Let_def map_entry_twice comp_def)
qed

locale tracked_inv =
  fixes P :: "nat \<Rightarrow> tracked \<Rightarrow> bool"
  assumes later: "P n tr \<Longrightarrow> P (Suc n) tr"
    and new: "P n (new_tracked t now magnet paused savePath own)"
    and paused: "P n tr \<Longrightarrow> P n (tr\<lparr>tr_paused := b\<rparr>)"
    and hold: "P n tr \<Longrightarrow> P n (tr\<lparr>tr_holdData := b\<rparr>)"
    and err: "P n tr \<Longrightarrow> P n (tr\<lparr>tr_lastErr := s\<rparr>)"
    and label: "P n tr \<Longrightarrow> P n (tr\<lparr>tr_label := s\<rparr>)"
    and chosen: "P n tr \<Longrightarrow> P n (tr\<lparr>tr_chosenFiles := is\<rparr>)"
    and seed: "P n tr \<Longrightarrow> P n (tr\<lparr>tr_seedRatio := r, tr_seedTime := d\<rparr>)"
    and up: "P n tr \<Longrightarrow> 0 \<le> x \<Longrightarrow> P n (tr\<lparr>tr_upLimit := x\<rparr>)"
    and down: "P n tr \<Longrightarrow> 0 \<le> x \<Longrightarrow> P n (tr\<lparr>tr_downLimit := x\<rparr>)"
    and rates: "P n tr \<Longrightarrow> 0 < el \<Longrightarrow> P n (updateRates v (Fin el) tr)"
    and counters: "P n tr \<Longrightarrow> P n (foldCounters v tr)"
    and swap: "P n tr \<Longrightarrow> P n (tr\<lparr>tr_t := t, tr_ownStorage := own\<rparr>)"
    and path: "P n tr \<Longrightarrow> P n (tr\<lparr>tr_savePath := s\<rparr>)"
    and cancel: "P n tr \<Longrightarrow> P n (cancelCheckLocked tr)"
    and begins: "P n tr \<Longrightarrow> P (Suc n) (beginCheck_tr n kind tot tr)"
    and ends: "P n tr \<Longrightarrow> P n (check_done c tr)"
    and piece: "P n tr \<Longrightarrow> P n ((advance c tr)\<lparr>tr_checkDone := x\<rparr>)"
    and peers: "P n tr \<Longrightarrow> P n (tr\<lparr>tr_lastPeers := ps, tr_lastPeersAt := now\<rparr>)"
    and restored: "P n tr \<Longrightarrow> P n (restore_fields rec tr)"
    and completed: "P n tr \<Longrightarrow> P n (tr\<lparr>tr_completedAt := now\<rparr>)"
    and logged: "P n tr \<Longrightarrow> P n (tr\<lparr>tr_completeLogged := b\<rparr>)"
begin

definition inv_on :: "(tid, tracked) gomap \<Rightarrow> nat \<Rightarrow> bool" where
  "inv_on ts n \<longleftrightarrow> distinct_keys ts \<and> (\<forall>k tr. map_of ts k = Some tr \<longrightarrow> P n tr)"

abbreviation inv :: "engine \<Rightarrow> bool" where
  "inv e \<equiv> inv_on (e_torrents e) (e_nextCheck e)"

lemma inv_Nil: "inv_on [] n"
  by (simp add: inv_on_def)

lemma inv_entry:
  "inv_on ts n \<Longrightarrow> (\<And>tr. P n tr \<Longrightarrow> P n (f tr)) \<Longrightarrow> inv_on (AList.map_entry k f ts) n"
  by (auto simp: inv_on_def)

lemma inv_vals:
  "inv_on ts n \<Longrightarrow> (\<And>k tr. P n tr \<Longrightarrow> P n (f k tr)) \<Longrightarrow> inv_on (map_vals f ts) n"
  by (auto simp: inv_on_def)

lemma inv_update: "inv_on ts n \<Longrightarrow> P n tr \<Longrightarrow> inv_on (AList.update k tr ts) n"
  by (simp add: inv_on_def)

lemma inv_delete: "inv_on ts n \<Longrightarrow> inv_on (AList.delete k ts) n"
  by (simp add: inv_on_def)

lemma inv_begin:
  "inv_on ts n \<Longrightarrow> inv_on (AList.map_entry k (beginCheck_tr n kind tot) ts) (Suc n)"
  by (auto simp: inv_on_def intro: begins later)

lemma inv_lookup: "inv_on ts n \<Longrightarrow> map_of ts k = Some tr \<Longrightarrow> P n tr"
  by (simp add: inv_on_def)

lemma inv_finish: "inv e \<Longrightarrow> inv (finish_check L mc k ck out m e)"
proof -
  assume e: "inv e"
  have n: "e_nextCheck (finish_check L mc k ck out m e) = e_nextCheck e"
    by (simp add: finish_check_def Let_def split: check_kind.splits check_outcome.splits)
  show ?thesis unfolding e_torrents_finish_check n
    by (rule inv_entry [OF e])
       (auto simp: Let_def intro: ends err hold split: check_kind.splits check_outcome.splits)
qed

lemma inv_drain: "inv e \<Longrightarrow> inv (drain L mc k cks e)"
  by (induction L mc k cks e rule: drain.induct) (simp_all add: runCheck_def inv_finish split: prod.splits)

lemma inv_quiesce: "inv e \<Longrightarrow> inv (quiesceCheck L mc k e)"
proof -
  assume "inv e"
  then have "inv (upd_tr k cancelCheckLocked e)" by (simp add: inv_entry cancel)
  then show ?thesis by (simp add: quiesceCheck_def Let_def inv_drain split: option.splits)
qed

text \<open>One lemma an operation, each the composition of the ones above.\<close>

lemma inv_own_storage: "own_storage opts e = (r, e1) \<Longrightarrow> inv e1 = inv e"
  by (auto simp: own_storage_def split: if_splits prod.splits bool.splits)

lemma inv_enter_torrent: "inv e \<Longrightarrow> inv (enter_torrent mc k t opts uri own e)"
  by (auto simp: enter_torrent_def Let_def intro!: inv_entry inv_update new paused split: option.splits)

lemma inv_addSpec: "inv e \<Longrightarrow> inv (snd (addSpec L mc src opts uri e))"
  using inv_enter_torrent
  by (auto simp: addSpec_def Let_def dest!: inv_own_storage split: sum.splits prod.splits)

lemma inv_AddMagnet: "inv e \<Longrightarrow> inv (snd (AddMagnet L mc uri opts e))"
  by (simp add: AddMagnet_def inv_addSpec split: option.splits)

lemma inv_AddTorrentFile: "inv e \<Longrightarrow> inv (snd (AddTorrentFile L mc path opts e))"
  by (simp add: AddTorrentFile_def inv_addSpec split: option.splits)

lemma inv_metadataArrived: "inv e \<Longrightarrow> inv (metadataArrived L mc w e)"
  by (auto simp: metadataArrived_def applyFileSelection_def Let_def intro!: inv_entry chosen)

lemma inv_RemoveTorrent: "inv e \<Longrightarrow> inv (snd (RemoveTorrent L mc k d e))"
  unfolding RemoveTorrent_def
  by (rule quiesced_rule) (simp_all add: inv_quiesce removeNow_def Let_def inv_delete)

lemma inv_SetPaused: "inv e \<Longrightarrow> inv (snd (SetPaused L mc k b e))"
  by (auto simp: SetPaused_def Let_def intro!: inv_entry paused cancel split: sum.splits)

lemma inv_SetFilePriority: "inv e \<Longrightarrow> inv (snd (SetFilePriority L mc k i p e))"
  by (auto simp: SetFilePriority_def choose_file_def Let_def intro!: inv_entry chosen split: sum.splits)

lemma inv_PrepareStream: "inv e \<Longrightarrow> inv (snd (PrepareStream L mc k i e))"
proof -
  assume e: "inv e"
  have sp: "inv e1" if "SetPaused L mc k False e = (r, e1)" for r e1
    using inv_SetPaused [OF e, of L mc k False] that by simp
  have fp: "inv e2" if "SetFilePriority L mc k i PriorityHigh e1 = (r, e2)" "inv e1" for r e1 e2
    using inv_SetFilePriority [OF that(2), of L mc k i PriorityHigh] that(1) by simp
  show ?thesis
    using e by (auto simp: PrepareStream_def intro: sp fp split: sum.splits prod.splits)
qed

lemma inv_SetTorrentRateLimit: "inv e \<Longrightarrow> inv (snd (SetTorrentRateLimit L mc k u d e))"
  by (auto simp: SetTorrentRateLimit_def Let_def intro!: inv_entry up down split: sum.splits)

lemma inv_ForceRecheck: "inv e \<Longrightarrow> inv (snd (ForceRecheck L mc k e))"
  by (auto simp: ForceRecheck_def beginCheck_def Let_def intro!: inv_begin split: sum.splits)

lemma inv_stepCheck: "inv e \<Longrightarrow> inv (stepCheck L mc k c e)"
  by (auto simp: stepCheck_def intro!: inv_entry piece inv_finish split: option.splits)

lemma inv_close [simp]: "inv (close_storage own e) = inv e"
  by simp

lemma inv_purgeFailed: "inv e \<Longrightarrow> inv (snd (purgeFailed L mc k s e))"
  by (auto simp: purgeFailed_def Let_def intro!: inv_entry hold err)

lemma inv_moveFailed: "inv e \<Longrightarrow> inv (snd (moveFailed L mc k s e))"
  by (auto simp: moveFailed_def Let_def intro!: inv_entry hold err)

lemma inv_purge_drop: "inv e \<Longrightarrow> inv (purge_drop L k tr e)"
  by (auto simp: purge_drop_def Let_def intro!: inv_entry paused hold counters)

lemma inv_purgeNow: "inv e \<Longrightarrow> inv (snd (purgeNow L mc k tr e))"
  using inv_purge_drop [of e L k tr]
  by (auto simp: purgeNow_def new_storage_def Let_def intro!: inv_entry inv_purgeFailed hold swap
      split: sum.splits option.splits)

lemma inv_PurgeData: "inv e \<Longrightarrow> inv (snd (PurgeData L mc k e))"
  unfolding PurgeData_def by (rule quiesced_rule) (simp_all add: inv_quiesce inv_purgeNow)

lemma swap_path: "P n tr \<Longrightarrow> P n (tr\<lparr>tr_t := t, tr_savePath := s, tr_ownStorage := own\<rparr>)"
proof -
  have "tr\<lparr>tr_t := t, tr_savePath := s, tr_ownStorage := own\<rparr> =
      tr\<lparr>tr_savePath := s, tr_t := t, tr_ownStorage := own\<rparr>" by simp
  then show "P n tr \<Longrightarrow> ?thesis" by (simp only: swap path)
qed

lemma inv_readd_moved: "inv e \<Longrightarrow> inv (snd (readd_moved L mc k tr dir ps e))"
  by (auto simp: readd_moved_def Let_def beginCheck_def
      intro!: inv_entry inv_begin inv_moveFailed counters swap_path path split: sum.splits option.splits)

lemma inv_moveNow: "inv e \<Longrightarrow> inv (snd (moveNow L mc k dir tr e))"
  by (auto simp: moveNow_def Let_def intro!: inv_entry inv_moveFailed inv_readd_moved hold
      split: sum.splits prod.splits bool.splits)

lemma inv_MoveStorage: "inv e \<Longrightarrow> inv (snd (MoveStorage L mc k dir e))"
  unfolding MoveStorage_def by (rule quiesced_rule) (simp_all add: inv_quiesce inv_moveNow)

lemma inv_TorrentDetail: "inv e \<Longrightarrow> inv (snd (TorrentDetail L mc k e))"
  by (auto simp: TorrentDetail_def peerInfo_def Let_def intro!: inv_entry peers split: sum.splits)

lemma inv_restore_priorities: "inv e \<Longrightarrow> inv (restore_priorities L mc k fps e)"
proof (induction L mc k fps e rule: restore_priorities.induct)
  case (2 L mc k fp fps e)
  have "inv e1" if "SetFilePriority L mc k (fpr_Index fp) prio e = (r, e1)" for prio r e1
    using inv_SetFilePriority [OF 2(2), of L mc k "fpr_Index fp" prio] that by simp
  then show ?case using 2 by (simp split: option.split prod.split sum.split)
qed simp

lemma inv_restoreOne: "inv e \<Longrightarrow> inv (snd (restoreOne L mc rec e))"
proof -
  assume e: "inv e"
  have a: "inv e1" if "AddTorrentFile L mc p opts e = (r, e1)" for p opts r e1
    using inv_AddTorrentFile [OF e, of L mc p opts] that by simp
  have b: "inv e1" if "AddMagnet L mc uri opts e = (r, e1)" for uri opts r e1
    using inv_AddMagnet [OF e, of L mc uri opts] that by simp
  have c: "inv e2" if "SetTorrentRateLimit L mc k u d e1 = (r, e2)" "inv e1" for k u d r e1 e2
    using inv_SetTorrentRateLimit [OF that(2), of L mc k u d] that(1) by simp
  show ?thesis
    using e by (auto simp: restoreOne_def Let_def intro: a b c
        intro!: inv_entry restored inv_restore_priorities split: sum.splits prod.splits if_splits)
qed

lemma inv_restore_all: "inv e \<Longrightarrow> inv (snd (restore_all L mc recs n e))"
proof (induction L mc recs n e rule: restore_all.induct)
  case (2 L mc rec recs n e)
  have "inv e1" if "restoreOne L mc rec e = (r, e1)" for r e1
    using inv_restoreOne [OF 2(3), of L mc rec] that by simp
  then show ?case using 2 by (auto split: sum.splits prod.splits)
qed simp

lemma inv_RestoreSession: "inv e \<Longrightarrow> inv (snd (RestoreSession L mc e))"
proof -
  assume "inv e"
  then have "inv e1" if "restore_all L mc recs 0 (e\<lparr>e_restoring := True\<rparr>) = (n, e1)" for recs n e1
    using inv_restore_all [of "e\<lparr>e_restoring := True\<rparr>" L mc recs 0] that by simp
  then show ?thesis using \<open>inv e\<close>
    by (simp add: RestoreSession_def split: session_content.split prod.split)
qed

lemma inv_seedLimits: "inv e \<Longrightarrow> seedLimitsReachedLocked snaps now e = (out, b, e') \<Longrightarrow> inv e'"
proof (induction snaps now e arbitrary: out b e' rule: seedLimitsReachedLocked.induct)
  case (2 snap snaps now e)
  show ?case
  proof (cases "map_of (e_torrents e) (snap_ID snap)")
    case None
    then show ?thesis using 2 by simp
  next
    case (Some tr)
    let ?e = "upd_tr (snap_ID snap) (\<lambda>_. snd (markCompleted snap now tr)) e"
    have "P (e_nextCheck e) (snd (markCompleted snap now tr))"
      using inv_lookup [OF 2(3) Some] by (auto simp: markCompleted_def intro: completed)
    then have "inv ?e" using 2(3) by (auto intro: inv_entry)
    then show ?thesis using 2(2) [OF Some] 2(4) Some
      by (auto simp: Let_def split: prod.splits)
  qed
qed simp

lemma inv_apply_flows [simp]: "inv (apply_flows ds e) = inv e"
  by (induction ds e rule: apply_flows.induct) simp_all

lemma inv_stop_seeding: "inv e \<Longrightarrow> inv (stop_seeding L mc ss e)"
proof (induction L mc ss e rule: stop_seeding.induct)
  case (2 L mc s ss e)
  have "inv e1" if "SetPaused L mc (sl_id s) True e = (r, e1)" for r e1
    using inv_SetPaused [OF 2(2), of L mc "sl_id s" True] that by simp
  then show ?case using 2 by (simp split: sum.split prod.split)
qed simp

lemma inv_report_complete [simp]: "inv (report_complete ss e) = inv e"
  by (induction ss e rule: report_complete.induct) (simp_all add: Let_def)

lemma inv_tick_rates: "inv e \<Longrightarrow> inv (tick_rates L mc e)"
proof -
  have "in_int64 (time_sub (m_now mc) (e_lastTick e))"
    by (simp add: time_sub_def in_int64_def min_int64_def max_int64_def)
  then obtain r where r: "seconds_of (time_sub (m_now mc) (e_lastTick e)) = Fin r"
    using seconds_of_finite by blast
  then obtain s where "tick_elapsed mc e = Fin s" "0 < s"
    by (cases "r \<le> 0") (auto simp: tick_elapsed_def Let_def)
  then show "inv e \<Longrightarrow> inv (tick_rates L mc e)"
    by (auto simp: tick_rates_def Let_def intro!: inv_vals rates)
qed

lemma inv_tick: "inv e \<Longrightarrow> inv (tick L mc e)"
proof -
  assume "inv e"
  then have "inv (tick_rates L mc (refreshDisk mc (refreshVPN mc e)))"
    by (intro inv_tick_rates) simp
  then have "inv (snd (newlyCompleteLocked L (tick_rates L mc (refreshDisk mc (refreshVPN mc e)))))"
    by (auto simp: newlyCompleteLocked_def intro!: inv_vals logged)
  then show ?thesis
    by (auto simp: tick_def Let_def dest: inv_seedLimits intro!: inv_stop_seeding split: prod.splits)
qed

lemma inv_drain_all: "inv e \<Longrightarrow> inv (drain_all L mc ks e)"
  by (induction L mc ks e rule: drain_all.induct) (auto simp: inv_drain split: option.splits)

lemma inv_Close: "inv e \<Longrightarrow> inv (Close L mc e)"
  by (auto simp: Close_def closeNow_def cancel_all_def Let_def intro!: inv_drain_all inv_vals cancel)

lemma inv_simple:
  "inv e \<Longrightarrow> inv (snd (SetLabel L mc k l e))"
  "inv e \<Longrightarrow> inv (snd (SetSeedLimit L mc k r d e))"
  "inv (SetGlobalUploadLimit n e) = inv e" "inv (SetGlobalDownloadLimit n e) = inv e"
  "inv (snd (SaveSession L mc e)) = inv e" "inv (subscribed L mc e) = inv e"
  "inv (unsubscribe ch e) = inv e" "inv (snd (receive ch e)) = inv e"
  by (auto simp: SetLabel_def SetSeedLimit_def SetGlobalUploadLimit_def SetGlobalDownloadLimit_def
      Subscribe_def subscribed_def unsubscribe_def receive_def Let_def intro!: inv_entry label seed
      split: sum.splits option.splits)

lemma inv_exec: "inv e \<Longrightarrow> inv (exec L mc op e)"
  by (cases op)
     (simp_all add: inv_AddMagnet inv_AddTorrentFile inv_metadataArrived inv_RemoveTorrent
      inv_SetPaused inv_SetFilePriority inv_PrepareStream inv_SetTorrentRateLimit inv_ForceRecheck
      inv_stepCheck inv_PurgeData inv_MoveStorage inv_TorrentDetail inv_tick inv_RestoreSession
      inv_Close inv_simple)

lemma inv_reachable: "reachable e \<Longrightarrow> inv e"
  by (induction rule: reachable.induct)
     (auto simp: New_ok inv_Nil engine_step_def intro: inv_exec split: prod.splits)

end

subsection \<open>What the locale gives\<close>

text \<open>
  Verification: the ids of the running checks are distinct and were handed out; a torrent is shown
  as checking exactly when it holds a cancel function, and the check that function cancels runs.
\<close>

definition check_ok :: "nat \<Rightarrow> tracked \<Rightarrow> bool" where
  "check_ok n tr \<longleftrightarrow>
     distinct (map ck_id (tr_checks tr)) \<and> list_all (\<lambda>c. c < n) (map ck_id (tr_checks tr)) \<and>
     (tr_checking tr \<longleftrightarrow> tr_cancelCheck tr \<noteq> None) \<and>
     set_option (tr_cancelCheck tr) \<subseteq> set (map ck_id (tr_checks tr))"

definition rates_ok :: "nat \<Rightarrow> tracked \<Rightarrow> bool" where
  "rates_ok n tr \<longleftrightarrow> f64_nonneg (tr_lastDownBPS tr) \<and> f64_nonneg (tr_lastUpBPS tr)"

definition limits_ok :: "nat \<Rightarrow> tracked \<Rightarrow> bool" where
  "limits_ok n tr \<longleftrightarrow> 0 \<le> tr_upLimit tr \<and> 0 \<le> tr_downLimit tr"

lemma ids_advance [simp]: "map ck_id (tr_checks (advance c tr)) = map ck_id (tr_checks tr)"
  by (auto simp: advance_def)

lemma ids_advance_set [simp]: "ck_id ` set (tr_checks (advance c tr)) = ck_id ` set (tr_checks tr)"
  by (metis ids_advance list.set_map)

lemma advance_simps [simp]:
  "tr_checking (advance c tr) = tr_checking tr" "tr_cancelCheck (advance c tr) = tr_cancelCheck tr"
  by (simp_all add: advance_def)

interpretation checks: tracked_inv check_ok
proof unfold_locales
  fix n tr kind tot
  assume "check_ok n tr"
  then show "check_ok (Suc n) (beginCheck_tr n kind tot tr)"
    by (auto simp: check_ok_def list_all_iff)
next
  fix n tr c
  assume "check_ok n tr"
  then show "check_ok n (check_done c tr)"
    by (auto simp: check_ok_def list_all_iff intro: distinct_map_filter)
next
  fix n tr c x
  assume "check_ok n tr"
  then show "check_ok n ((advance c tr)\<lparr>tr_checkDone := x\<rparr>)"
    by (simp add: check_ok_def)
next
  fix n tr
  assume "check_ok n tr"
  then show "check_ok n (cancelCheckLocked tr)" by (simp add: check_ok_def)
qed (auto simp: check_ok_def list_all_iff new_tracked_def restore_fields_def foldCounters_def
    intro: less_SucI)

interpretation rates: tracked_inv rates_ok
proof unfold_locales
  fix n tr el v
  assume "rates_ok n tr" "0 < (el :: rat)"
  then show "rates_ok n (updateRates v (Fin el) tr)"
    by (simp add: rates_ok_def updateRates_def Let_def speed_nonneg)
qed (auto simp: rates_ok_def new_tracked_def restore_fields_def foldCounters_def f64_nonneg_def
    cancelCheckLocked_def mark_cancelled_def beginCheck_tr_def check_done_def advance_def Let_def
    split: option.splits)

interpretation limits: tracked_inv limits_ok
  by unfold_locales
     (auto simp: limits_ok_def new_tracked_def restore_fields_def foldCounters_def updateRates_def
      cancelCheckLocked_def mark_cancelled_def beginCheck_tr_def check_done_def advance_def Let_def
      split: option.splits)

interpretation checked_runs: invariant_ops engine_step
    "\<lambda>e. checks.inv_on (e_torrents e) (e_nextCheck e)"
  by unfold_locales (simp add: engine_step_def checks.inv_exec split: prod.split)

lemma reachable_tracked:
  assumes "reachable e" "map_of (e_torrents e) k = Some tr"
  shows "check_ok (e_nextCheck e) tr" "rates_ok (e_nextCheck e) tr" "limits_ok (e_nextCheck e) tr"
  using assms checks.inv_reachable rates.inv_reachable limits.inv_reachable
  by (auto simp: checks.inv_on_def rates.inv_on_def limits.inv_on_def)

lemma reachable_distinct: "reachable e \<Longrightarrow> distinct_keys (e_torrents e)"
  using limits.inv_reachable [of e] by (simp add: limits.inv_on_def)

end
