(* ===== verification/EngineSafety.thy ===== *)
theory EngineSafety
  imports EngineInv
begin

text \<open>
  Two promises about the torrent library's side of the state. \<^emph>\<open>Storages\<close>: every storage the engine
  opened and has not closed belongs to a torrent it tracks, so nothing leaks. \<^emph>\<open>Switches\<close>: a torrent
  that is paused, or held by an operation, or held by a guard, has both data switches off; the one
  exception is a torrent whose data has just been moved, until its verification ends or the next
  tick comes.
\<close>

lemma vw_fields [simp]:
  "vw L (e\<lparr>e_waiting := ws\<rparr>) = vw L e" "vw L (e\<lparr>e_fs := f\<rparr>) = vw L e"
  "vw L (e\<lparr>e_torrents := ts\<rparr>) = vw L e" "vw L (e\<lparr>e_nextCheck := n\<rparr>) = vw L e"
  "vw L (e\<lparr>e_restoring := b\<rparr>) = vw L e" "vw L (e\<lparr>e_lastTick := now\<rparr>) = vw L e"
  by (simp_all add: vw_def fun_eq_iff)

subsection \<open>Quiet operations: neither storages nor handles change\<close>

definition core :: "tracked \<Rightarrow> handle \<times> sid option" where
  "core tr = (tr_t tr, tr_ownStorage tr)"

definition quiet :: "engine \<Rightarrow> engine \<Rightarrow> bool" where
  "quiet e e' \<longleftrightarrow> open_storages (e_cmds e') = open_storages (e_cmds e) \<and> e_nextSid e' = e_nextSid e
     \<and> (\<forall>k. map_option core (map_of (e_torrents e') k) = map_option core (map_of (e_torrents e) k))"

lemma quiet_refl [simp]: "quiet e e"
  by (simp add: quiet_def)

lemma quiet_trans: "quiet e1 e2 \<Longrightarrow> quiet e2 e3 \<Longrightarrow> quiet e1 e3"
  by (simp add: quiet_def)

lemma quietI:
  "open_storages (e_cmds e') = open_storages (e_cmds e) \<Longrightarrow> e_nextSid e' = e_nextSid e \<Longrightarrow>
     e_torrents e' = AList.map_entry k f (e_torrents e) \<Longrightarrow> (\<And>tr. core (f tr) = core tr) \<Longrightarrow> quiet e e'"
  by (simp add: quiet_def option.map_comp comp_def)

lemma quiet_vals:
  "open_storages (e_cmds e') = open_storages (e_cmds e) \<Longrightarrow> e_nextSid e' = e_nextSid e \<Longrightarrow>
     e_torrents e' = map_vals f (e_torrents e) \<Longrightarrow> (\<And>k tr. core (f k tr) = core tr) \<Longrightarrow> quiet e e'"
  by (simp add: quiet_def option.map_comp comp_def)

lemma quiet_same:
  "open_storages (e_cmds e') = open_storages (e_cmds e) \<Longrightarrow> e_nextSid e' = e_nextSid e \<Longrightarrow>
     e_torrents e' = e_torrents e \<Longrightarrow> quiet e e'"
  by (simp add: quiet_def)

lemma core_simps [simp]:
  "core (check_done c tr) = core tr" "core (cancelCheckLocked tr) = core tr"
  "core (beginCheck_tr n kind tot tr) = core tr" "core (updateRates v s tr) = core tr"
  "core (snd (markCompleted snap now tr)) = core tr" "core (advance c tr) = core tr"
  "core (restore_fields rec tr) = core tr" "core (foldCounters v tr) = core tr"
  by (simp_all add: core_def advance_def restore_fields_def foldCounters_def)

lemma core_update [simp]:
  "core (tr\<lparr>tr_paused := b\<rparr>) = core tr" "core (tr\<lparr>tr_holdData := b\<rparr>) = core tr"
  "core (tr\<lparr>tr_lastErr := s\<rparr>) = core tr" "core (tr\<lparr>tr_label := s\<rparr>) = core tr"
  "core (tr\<lparr>tr_chosenFiles := ns\<rparr>) = core tr" "core (tr\<lparr>tr_seedRatio := r\<rparr>) = core tr"
  "core (tr\<lparr>tr_seedTime := n\<rparr>) = core tr" "core (tr\<lparr>tr_upLimit := n\<rparr>) = core tr"
  "core (tr\<lparr>tr_downLimit := n\<rparr>) = core tr" "core (tr\<lparr>tr_savePath := s\<rparr>) = core tr"
  "core (tr\<lparr>tr_completeLogged := b\<rparr>) = core tr" "core (tr\<lparr>tr_checkDone := n\<rparr>) = core tr"
  "core (tr\<lparr>tr_lastPeers := ps\<rparr>) = core tr" "core (tr\<lparr>tr_lastPeersAt := n\<rparr>) = core tr"
  by (simp_all add: core_def)

lemma finish_check_nextSid [simp]: "e_nextSid (finish_check L mc k ck out n e) = e_nextSid e"
  by (simp add: finish_check_def Let_def split: check_kind.splits check_outcome.splits)

lemma finish_check_open [simp]:
  "open_storages (e_cmds (finish_check L mc k ck out n e)) = open_storages (e_cmds e)"
  by (simp add: finish_check_def Let_def split: check_kind.splits check_outcome.splits)

lemma quiet_finish: "quiet e (finish_check L mc k ck out n e)"
  by (rule quietI [OF _ _ e_torrents_finish_check])
     (simp_all add: Let_def split: check_kind.splits check_outcome.splits)

lemma quiet_drain: "quiet e (drain L mc k cks e)"
proof (induction L mc k cks e rule: drain.induct)
  case (2 L mc k ck cks e)
  then show ?case
    by (simp add: runCheck_def split: prod.splits) (blast intro: quiet_trans quiet_finish)
qed simp

lemma quiet_quiesce: "quiet e (quiesceCheck L mc k e)"
proof -
  have "quiet e (upd_tr k cancelCheckLocked e)" by (simp add: quiet_def option.map_comp comp_def)
  then show ?thesis
    by (auto simp: quiesceCheck_def Let_def intro: quiet_trans quiet_drain split: option.splits)
qed

lemma quiet_SetPaused: "quiet e (snd (SetPaused L mc k b e))"
  by (cases "map_of (e_torrents e) k")
     (auto simp: SetPaused_def lookup_def Let_def intro!: quietI)

lemma quiet_SetFilePriority: "quiet e (snd (SetFilePriority L mc k i p e))"
  by (cases "map_of (e_torrents e) k")
     (auto simp: SetFilePriority_def lookup_def choose_file_def Let_def intro!: quietI)

lemma quiet_SetTorrentRateLimit: "quiet e (snd (SetTorrentRateLimit L mc k u d e))"
  by (cases "map_of (e_torrents e) k")
     (auto simp: SetTorrentRateLimit_def lookup_def Let_def intro!: quietI)

lemma quiet_PrepareStream: "quiet e (snd (PrepareStream L mc k i e))"
proof -
  have sp: "quiet e e1" if "SetPaused L mc k False e = (r, e1)" for r e1
    using quiet_SetPaused [of e L mc k False] that by simp
  have fp: "quiet e1 e2" if "SetFilePriority L mc k i PriorityHigh e1 = (r, e2)" for r e1 e2
    using quiet_SetFilePriority [of e1 L mc k i PriorityHigh] that by simp
  show ?thesis
    by (auto simp: PrepareStream_def intro: sp fp quiet_trans [OF sp fp] split: sum.splits prod.splits)
qed

lemma quiet_metadataArrived: "quiet e (metadataArrived L mc w e)"
  by (auto simp: metadataArrived_def applyFileSelection_def Let_def quiet_def option.map_comp comp_def)

lemma quiet_ForceRecheck: "quiet e (snd (ForceRecheck L mc k e))"
  by (auto simp: ForceRecheck_def beginCheck_def Let_def intro!: quietI split: sum.splits)

lemma quiet_stepCheck: "quiet e (stepCheck L mc k c e)"
  by (auto simp: stepCheck_def intro!: quietI quiet_finish split: option.splits)

lemma quiet_seedLimits: "seedLimitsReachedLocked snaps now e = (out, b, e') \<Longrightarrow> quiet e e'"
proof (induction snaps now e arbitrary: out b e' rule: seedLimitsReachedLocked.induct)
  case (2 snap snaps now e)
  show ?case
  proof (cases "map_of (e_torrents e) (snap_ID snap)")
    case None
    then show ?thesis using 2 by simp
  next
    case (Some tr)
    let ?e = "upd_tr (snap_ID snap) (\<lambda>_. snd (markCompleted snap now tr)) e"
    have "quiet e ?e" using Some by (auto simp: quiet_def)
    moreover have "quiet ?e e'" using 2(2) [OF Some] 2(3) Some by (auto simp: Let_def split: prod.splits)
    ultimately show ?thesis by (rule quiet_trans)
  qed
qed simp

lemma open_storages_apply_flows [simp]:
  "open_storages (e_cmds (apply_flows ds e)) = open_storages (e_cmds e)"
  by (induction ds e rule: apply_flows.induct) simp_all

lemma apply_flows_simps [simp]:
  "e_torrents (apply_flows ds e) = e_torrents e" "e_nextSid (apply_flows ds e) = e_nextSid e"
  "e_blocked (apply_flows ds e) = e_blocked e" "e_lowDisk (apply_flows ds e) = e_lowDisk e"
  "e_cfg (apply_flows ds e) = e_cfg e" "e_nextCheck (apply_flows ds e) = e_nextCheck e"
  by (induction ds e rule: apply_flows.induct) simp_all

lemma report_complete_simps [simp]:
  "e_torrents (report_complete ss e) = e_torrents e" "e_cmds (report_complete ss e) = e_cmds e"
  "e_nextSid (report_complete ss e) = e_nextSid e" "e_blocked (report_complete ss e) = e_blocked e"
  "e_lowDisk (report_complete ss e) = e_lowDisk e" "e_nextCheck (report_complete ss e) = e_nextCheck e"
  by (induction ss e rule: report_complete.induct) (simp_all add: Let_def)

lemma quiet_stop_seeding: "quiet e (stop_seeding L mc ss e)"
proof (induction L mc ss e rule: stop_seeding.induct)
  case (2 L mc s ss e)
  have "quiet e e1" if "SetPaused L mc (sl_id s) True e = (r, e1)" for r e1
    using quiet_SetPaused [of e L mc "sl_id s" True] that by simp
  then have "quiet e (case SetPaused L mc (sl_id s) True e of
      (Inl err, e1) \<Rightarrow> logf (SeedStopFailed (sl_id s) err) e1
    | (Inr _, e1) \<Rightarrow> logf (SeedingFinished (sl_id s) (sl_why s)) e1)"
    by (auto simp: quiet_def split: prod.splits sum.splits)
  then show ?case using 2 by (simp add: quiet_trans)
qed simp

lemma quiet_tick_rates: "quiet e (tick_rates L mc e)"
  by (rule quiet_vals [where f = "\<lambda>_ tr. updateRates (vw L e (tr_t tr)) (tick_elapsed mc e) tr"])
     (simp_all add: tick_rates_def Let_def)

lemma quiet_tick: "quiet e (tick L mc e)"
proof -
  let ?e1 = "refreshDisk mc (refreshVPN mc e)"
  let ?e2 = "tick_rates L mc ?e1"
  let ?e3 = "snd (newlyCompleteLocked L ?e2)"
  obtain stop clock e4 where sl: "seedLimitsReachedLocked (ev_Torrents (eventLocked L mc ?e2)) (m_now mc) ?e3
      = (stop, clock, e4)" by (metis prod_cases3)
  have "quiet e ?e1" by (rule quiet_same) simp_all
  moreover have "quiet ?e1 ?e2" by (rule quiet_tick_rates)
  moreover have "quiet ?e2 ?e3"
    by (rule quiet_vals [where f = "\<lambda>_ tr. if newly_complete L ?e2 tr
          then tr\<lparr>tr_completeLogged := True\<rparr> else tr"])
       (simp_all add: newlyCompleteLocked_def)
  moreover have "quiet ?e3 e4" by (rule quiet_seedLimits [OF sl])
  ultimately have "quiet e e4" by (blast intro: quiet_trans)
  moreover have "quiet e4 (tick L mc e)"
  proof -
    let ?e5 = "if clock then persist L mc e4 else e4"
    let ?e6 = "apply_flows (map (\<lambda>(_, tr). flowDecision (guardsLocked ?e2) tr) (e_torrents ?e2)) ?e5"
    have "quiet e4 ?e6" by (rule quiet_same) simp_all
    moreover have "quiet ?e6 (stop_seeding L mc stop ?e6)" by (rule quiet_stop_seeding)
    moreover have "quiet (stop_seeding L mc stop ?e6) (tick L mc e)"
      using sl by (auto simp: tick_def Let_def split: prod.splits intro!: quiet_same)
    ultimately show ?thesis by (blast intro: quiet_trans)
  qed
  ultimately show ?thesis by (rule quiet_trans)
qed

lemma quiet_drain_all: "quiet e (drain_all L mc ks e)"
proof (induction L mc ks e rule: drain_all.induct)
  case (2 L mc k ks e)
  have "quiet e (case map_of (e_torrents e) k of None \<Rightarrow> e | Some tr \<Rightarrow> drain L mc k (tr_checks tr) e)"
    by (simp add: quiet_drain split: option.splits)
  then show ?case using 2 by (simp add: quiet_trans)
qed simp

lemma quiet_Close: "quiet e (Close L mc e)"
proof (cases "e_closed e")
  case False
  let ?e2 = "(cancel_all (persist L mc e))\<lparr>e_closed := True, e_waiting := []\<rparr>"
  have "quiet e ?e2" by (rule quiet_vals [where f = "\<lambda>_. cancelCheckLocked"]) (simp_all add: cancel_all_def)
  moreover have "quiet ?e2 (drain_all L mc (map fst (e_torrents ?e2)) ?e2)" by (rule quiet_drain_all)
  ultimately have "quiet e (drain_all L mc (map fst (e_torrents ?e2)) ?e2)" by (rule quiet_trans)
  moreover have "quiet e' (e'\<lparr>e_subs := []\<rparr>)" for e' by (rule quiet_same) simp_all
  ultimately show ?thesis using False by (auto simp: Close_def closeNow_def Let_def intro: quiet_trans)
qed (simp add: Close_def)

lemma quiet_SetLabel: "quiet e (snd (SetLabel L mc k l e))"
  by (auto simp: SetLabel_def Let_def quiet_def option.map_comp comp_def split: sum.splits)

lemma quiet_SetSeedLimit: "quiet e (snd (SetSeedLimit L mc k r d e))"
  by (auto simp: SetSeedLimit_def Let_def quiet_def option.map_comp comp_def split: sum.splits)

lemma quiet_simple:
  "quiet e (SetGlobalUploadLimit n e)" "quiet e (SetGlobalDownloadLimit n e)"
  "quiet e (snd (SaveSession L mc e))" "quiet e (subscribed L mc e)" "quiet e (unsubscribe ch e)"
  by (simp_all add: SetGlobalUploadLimit_def SetGlobalDownloadLimit_def Subscribe_def subscribed_def
      unsubscribe_def quiet_same)

lemma quiet_receive: "quiet e (snd (receive ch e))"
  by (simp add: receive_def quiet_same split: option.splits)

lemma quiet_TorrentDetail: "quiet e (snd (TorrentDetail L mc k e))"
  by (auto simp: TorrentDetail_def peerInfo_def Let_def quiet_def option.map_comp comp_def
      split: sum.splits)

lemmas quiet_ops = quiet_metadataArrived quiet_SetPaused quiet_SetFilePriority quiet_PrepareStream
  quiet_SetTorrentRateLimit quiet_ForceRecheck quiet_stepCheck quiet_tick quiet_Close quiet_simple
  quiet_SetLabel quiet_SetSeedLimit quiet_receive
  quiet_TorrentDetail

subsection \<open>No storage is leaked\<close>

definition own_at :: "engine \<Rightarrow> tid \<Rightarrow> sid option option" where
  "own_at e k = map_option tr_ownStorage (map_of (e_torrents e) k)"

definition opened :: "engine \<Rightarrow> sid set" where
  "opened e = open_storages (e_cmds e)"

definition no_leak :: "engine \<Rightarrow> bool" where
  "no_leak e \<longleftrightarrow> (\<forall>s\<in>opened e. s < e_nextSid e \<and> (\<exists>k. own_at e k = Some (Some s)))"

lemma quiet_own_at: "quiet e e' \<Longrightarrow> own_at e' k = own_at e k"
proof -
  have "own_at e k = map_option snd (map_option core (map_of (e_torrents e) k))" for e
    by (cases "map_of (e_torrents e) k") (simp_all add: own_at_def core_def)
  then show "quiet e e' \<Longrightarrow> ?thesis" by (simp add: quiet_def)
qed

lemma quiet_no_leak: "quiet e e' \<Longrightarrow> no_leak e \<Longrightarrow> no_leak e'"
  by (simp add: no_leak_def quiet_own_at) (simp add: quiet_def opened_def)

lemma own_storage_effect:
  assumes "own_storage opts e = (Inr own, e1)"
  shows "own_at e1 = own_at e" "e_nextSid e \<le> e_nextSid e1" "opened e1 = opened e \<union> set_option own"
    "own = Some s \<Longrightarrow> s < e_nextSid e1" "e_torrents e1 = e_torrents e" "guardsLocked e1 = guardsLocked e"
    "down_allowed (e_cmds e1) = down_allowed (e_cmds e)" "up_allowed (e_cmds e1) = up_allowed (e_cmds e)"
  using assms
  by (auto simp: own_storage_def own_at_def opened_def guardsLocked_def fun_eq_iff
      split: if_splits prod.splits bool.splits)

lemma own_storage_error:
  "own_storage opts e = (Inl err, e1) \<Longrightarrow> quiet e e1 \<and> e_cmds e1 = e_cmds e
     \<and> e_torrents e1 = e_torrents e \<and> guardsLocked e1 = guardsLocked e"
  by (auto simp: own_storage_def quiet_def guardsLocked_def split: if_splits prod.splits bool.splits)

lemma enter_torrent_effect:
  "own_at (enter_torrent mc k t opts uri own e) k' =
     (if k = k' \<and> map_of (e_torrents e) k = None then Some own else own_at e k')"
  "opened (enter_torrent mc k t opts uri own e) =
     (if map_of (e_torrents e) k = None then opened e else opened e - set_option own)"
  "e_nextSid (enter_torrent mc k t opts uri own e) = e_nextSid e"
  by (auto simp: enter_torrent_def own_at_def opened_def new_tracked_def option.map_comp comp_def Let_def
      split: option.splits)

lemma own_at_simps [simp]:
  "own_at (cmd c e) = own_at e" "own_at (logf m e) = own_at e" "own_at (flow_tr k e) = own_at e"
  "own_at (persist L mc e) = own_at e" "own_at (snapshotAndBroadcastNow L mc e) = own_at e"
  "own_at (close_storage own e) = own_at e" "own_at (e\<lparr>e_waiting := ws\<rparr>) = own_at e"
  "own_at (e\<lparr>e_fs := f\<rparr>) = own_at e" "own_at (removeMetainfo k e) = own_at e"
  "own_at (snd (open_storage dir e)) = own_at e" "own_at (downloadAllFiles L t e) = own_at e"
  "own_at (applyFilePriorities L t ps e) = own_at e" "own_at (e\<lparr>e_nextCheck := n\<rparr>) = own_at e"
  by (simp_all add: own_at_def fun_eq_iff)

lemma opened_simps [simp]:
  "opened (logf m e) = opened e" "opened (flow_tr k e) = opened e" "opened (persist L mc e) = opened e"
  "opened (snapshotAndBroadcastNow L mc e) = opened e"
  "opened (close_storage own e) = opened e - set_option own"
  "opened (e\<lparr>e_waiting := ws\<rparr>) = opened e" "opened (e\<lparr>e_fs := f\<rparr>) = opened e"
  "opened (e\<lparr>e_torrents := ts\<rparr>) = opened e" "opened (upd_tr k g e) = opened e"
  "opened (e\<lparr>e_nextCheck := n\<rparr>) = opened e"
  "opened (cmd (AddTorrentSpec sp) e) = opened e" "opened (cmd (DropTorrent t) e) = opened e"
  "opened (removeMetainfo k e) = opened e"
  "opened (snd (open_storage dir e)) = insert (e_nextSid e) (opened e)"
  "opened (downloadAllFiles L t e) = opened e" "opened (applyFilePriorities L t ps e) = opened e"
  by (simp_all add: opened_def)

lemma own_at_swap:
  "(\<And>tr. tr_ownStorage (f tr) = own) \<Longrightarrow> own_at e k \<noteq> None \<Longrightarrow>
     own_at (upd_tr k f e) = (own_at e)(k \<mapsto> own)"
  by (auto simp: own_at_def fun_eq_iff)

lemma no_leak_addSpec: "no_leak e \<Longrightarrow> no_leak (snd (addSpec L mc src opts uri e))"
proof -
  assume e: "no_leak e"
  obtain r e1 where o: "own_storage opts e = (r, e1)" by force
  show ?thesis
  proof (cases r)
    case (Inl err)
    then show ?thesis using o e own_storage_error [of opts e err e1] quiet_no_leak [of e e1]
      by (simp add: addSpec_def)
  next
    case (Inr own)
    note eff = own_storage_effect [OF o [unfolded Inr]]
    have old: "s < e_nextSid e1 \<and> (\<exists>k. own_at e1 k = Some (Some s))" if "s \<in> opened e" for s
      using e eff(1,2) that by (auto simp: no_leak_def)
    have new: "s < e_nextSid e1" if "own = Some s" for s using eff(4) that by simp
    have entered: "no_leak (enter_torrent mc k t opts uri own (cmd (AddTorrentSpec sp) e1))" for k t sp
    proof (cases "map_of (e_torrents e1) k")
      case None
      have "own_at e1 k = None" using None by (simp add: own_at_def)
      then have keep: "\<exists>k'. (k = k' \<longrightarrow> own = Some s) \<and> (k \<noteq> k' \<longrightarrow> own_at e1 k' = Some (Some s))"
        if "s \<in> opened e \<or> own = Some s" for s
        using that old [of s] by (metis option.distinct(1))
      show ?thesis unfolding no_leak_def
        using eff(3) old new keep None by (auto simp: enter_torrent_effect)
    next
      case (Some tr)
      then show ?thesis unfolding no_leak_def
        using eff(3) old by (auto simp: enter_torrent_effect)
    qed
    have published: "no_leak (snapshotAndBroadcastNow L mc (persist L mc (logf m ((flow_tr k e')\<lparr>e_waiting := ws\<rparr>))))"
      if "no_leak e'" for e' m k ws
      by (rule quiet_no_leak [OF _ that], rule quiet_same) simp_all
    have failed: "no_leak (close_storage own e1)"
      using eff(3) old by (auto simp: no_leak_def)
    show ?thesis
      by (auto simp: addSpec_def o Inr Let_def intro!: published entered failed split: sum.splits)
  qed
qed

lemma no_leak_change:
  assumes "no_leak e" "own_at e k = Some old" "opened e' \<subseteq> opened e - set_option old \<union> set_option new"
    "\<And>k'. k' \<noteq> k \<Longrightarrow> own_at e' k' = own_at e k'" "e_nextSid e \<le> e_nextSid e'"
    "\<And>s. new = Some s \<Longrightarrow> own_at e' k = Some (Some s) \<and> s < e_nextSid e'"
  shows "no_leak e'"
  unfolding no_leak_def
proof
  fix s assume "s \<in> opened e'"
  with assms(3) consider "s \<in> opened e" "old \<noteq> Some s" | "new = Some s" by (cases new) auto
  then show "s < e_nextSid e' \<and> (\<exists>k. own_at e' k = Some (Some s))"
  proof cases
    case 1
    then obtain k' where "s < e_nextSid e" "own_at e k' = Some (Some s)"
      using assms(1) by (auto simp: no_leak_def)
    moreover have "k' \<noteq> k" using calculation(2) assms(2) 1(2) by auto
    ultimately show ?thesis using assms(4,5) by (metis le_less_trans less_le_trans)
  qed (use assms(6) in blast)
qed

lemma own_at_upd_tr: "(\<And>tr. tr_ownStorage (f tr) = tr_ownStorage tr) \<Longrightarrow> own_at (upd_tr k f e) = own_at e"
  by (simp add: own_at_def fun_eq_iff option.map_comp comp_def)

lemma own_at_lookup: "map_of (e_torrents e) k = Some tr \<Longrightarrow> own_at e k = Some (tr_ownStorage tr)"
  by (simp add: own_at_def)

lemma no_leak_quiesced:
  assumes "no_leak e" "\<And>tr e1. no_leak e1 \<Longrightarrow> map_of (e_torrents e1) k = Some tr \<Longrightarrow> no_leak (snd (body tr e1))"
  shows "no_leak (snd (quiesced L mc k body e))"
  by (rule quiesced_rule) (use assms quiet_no_leak [OF quiet_quiesce assms(1)] in auto)

lemma no_leak_RemoveTorrent: "no_leak e \<Longrightarrow> no_leak (snd (RemoveTorrent L mc k d e))"
  unfolding RemoveTorrent_def
proof (rule no_leak_quiesced)
  fix tr e1 assume e1: "no_leak e1" and k: "map_of (e_torrents e1) k = Some tr"
  show "no_leak (snd (removeNow L mc k d tr e1))"
    by (rule no_leak_change [OF e1 own_at_lookup [OF k], of _ None])
       (simp_all add: removeNow_def Let_def, simp add: own_at_def)
qed

lemma quiet_purgeFailed: "quiet e (snd (purgeFailed L mc k err e))"
  by (simp add: purgeFailed_def Let_def quiet_def option.map_comp comp_def)

lemma quiet_moveFailed: "quiet e (snd (moveFailed L mc k err e))"
  by (simp add: moveFailed_def Let_def quiet_def option.map_comp comp_def)

lemma purge_drop_effect:
  "own_at (purge_drop L k tr e) = own_at e"
  "opened (purge_drop L k tr e) = opened e - set_option (tr_ownStorage tr)"
  "e_nextSid (purge_drop L k tr e) = e_nextSid e"
  by (simp_all add: purge_drop_def Let_def own_at_upd_tr foldCounters_def)

lemma new_storage_effect:
  "own_at (snd (new_storage tr e)) = own_at e"
  "opened (snd (new_storage tr e)) = opened e \<union> set_option (fst (new_storage tr e))"
  "e_nextSid e \<le> e_nextSid (snd (new_storage tr e))"
  "fst (new_storage tr e) = Some s \<Longrightarrow> s < e_nextSid (snd (new_storage tr e)) \<and> e_nextSid e \<le> s"
  by (auto simp: new_storage_def own_at_def opened_def fun_eq_iff split: if_splits)

lemma no_leak_PurgeData: "no_leak e \<Longrightarrow> no_leak (snd (PurgeData L mc k e))"
  unfolding PurgeData_def
proof (rule no_leak_quiesced)
  fix tr e assume e: "no_leak e" and k: "map_of (e_torrents e) k = Some tr"
  let ?e1 = "purge_drop L k tr e"
  obtain own e2 where o: "new_storage tr ?e1 = (own, e2)" by force
  note new = new_storage_effect [where tr = tr and e = ?e1, unfolded o fst_conv snd_conv purge_drop_effect]
  have lt: "s < e_nextSid e" if "s \<in> opened e" for s using e that by (simp add: no_leak_def)
  have failed: "no_leak (snd (purgeFailed L mc k err e'))"
    if "own_at e' = own_at e" "opened e' \<subseteq> opened e - set_option (tr_ownStorage tr)"
      "e_nextSid e \<le> e_nextSid e'" for err e'
    by (rule quiet_no_leak [OF quiet_purgeFailed],
        rule no_leak_change [OF e own_at_lookup [OF k], of _ None]) (use that in simp_all)
  have ok: "no_leak (upd_tr k (\<lambda>tr. tr\<lparr>tr_t := t, tr_ownStorage := own, tr_holdData := False\<rparr>)
      (cmd (AddTorrentSpec sp) e2))" for t sp
  proof -
    have at: "own_at (upd_tr k (\<lambda>tr. tr\<lparr>tr_t := t, tr_ownStorage := own, tr_holdData := False\<rparr>)
        (cmd (AddTorrentSpec sp) e2)) = (own_at e)(k \<mapsto> own)"
      using new own_at_lookup [OF k] by (subst own_at_swap [where own = own]) auto
    show ?thesis
      by (rule no_leak_change [OF e own_at_lookup [OF k], of _ own]) (use new at in auto)
  qed
  have published: "no_leak (snapshotAndBroadcastNow L mc (persist L mc (logf m (flow_tr k e'))))"
    if "no_leak e'" for e' m
    by (rule quiet_no_leak [OF _ that], rule quiet_same) simp_all
  show "no_leak (snd (purgeNow L mc k tr e))"
    using e new o by (auto simp: purgeNow_def Let_def purge_drop_effect intro!: failed published ok
        split: option.splits sum.splits dest: lt)
qed

lemma no_leak_readd_moved:
  assumes e: "no_leak e" and k: "map_of (e_torrents e) k = Some tr'" "tr_ownStorage tr' = tr_ownStorage tr"
  shows "no_leak (snd (readd_moved L mc k tr dir ps e))"
proof -
  have own: "own_at e k = Some (tr_ownStorage tr)" using k by (simp add: own_at_def)
  have failed: "no_leak (snd (moveFailed L mc k err e'))"
    if "own_at e' = own_at e" "opened e' \<subseteq> opened e - set_option (tr_ownStorage tr)"
      "e_nextSid e \<le> e_nextSid e'" for err e'
    by (rule quiet_no_leak [OF quiet_moveFailed],
        rule no_leak_change [OF e own, of _ None]) (use that in simp_all)
  have early: "no_leak (snd (moveFailed L mc k err e))" for err
    by (rule quiet_no_leak [OF quiet_moveFailed e])
  have lt: "s < e_nextSid e" if "s \<in> opened e" for s using e that by (simp add: no_leak_def)
  have moved: "no_leak (snapshotAndBroadcastNow L mc ((upd_tr k (beginCheck_tr m AfterMove n)
        (upd_tr k (\<lambda>tr. tr\<lparr>tr_t := t, tr_savePath := dir, tr_ownStorage := Some (e_nextSid e)\<rparr>) e'))
          \<lparr>e_nextCheck := m'\<rparr>))"
    if "own_at e' = own_at e" "e_nextSid e' = Suc (e_nextSid e)"
      "opened e' = insert (e_nextSid e) (opened e) - set_option (tr_ownStorage tr)" for e' m m' n t
  proof -
    have at: "own_at (upd_tr k (\<lambda>tr. tr\<lparr>tr_t := t, tr_savePath := dir, tr_ownStorage := Some (e_nextSid e)\<rparr>) e')
        = (own_at e)(k \<mapsto> Some (e_nextSid e))"
      using own that(1) by (subst own_at_swap [where own = "Some (e_nextSid e)"]) auto
    have "own_at (upd_tr k (beginCheck_tr m AfterMove n) e'') = own_at e''" for e''
      by (rule own_at_upd_tr) simp
    then show ?thesis
      by (intro no_leak_change [OF e own, of _ "Some (e_nextSid e)"]) (use at that in auto)
  qed
  show ?thesis
    unfolding readd_moved_def Let_def beginCheck_def
    by (auto simp: own_at_upd_tr foldCounters_def intro!: failed early moved split: option.splits sum.splits
        dest: lt)
qed

lemma no_leak_MoveStorage: "no_leak e \<Longrightarrow> no_leak (snd (MoveStorage L mc k dir e))"
  unfolding MoveStorage_def
proof (rule no_leak_quiesced)
  fix tr e assume e: "no_leak e" and k: "map_of (e_torrents e) k = Some tr"
  have held: "no_leak ((flow_tr k (upd_tr k (tr_holdData_update (\<lambda>_. True)) (e\<lparr>e_fs := f\<rparr>)))\<lparr>e_fs := f'\<rparr>)"
    for f f'
    by (rule quiet_no_leak [OF _ e]) (simp add: quiet_def option.map_comp comp_def)
  have files: "no_leak (e\<lparr>e_fs := f\<rparr>)" for f
    by (rule quiet_no_leak [OF _ e]) (simp add: quiet_def)
  show "no_leak (snd (moveNow L mc k dir tr e))"
    using e k files held
    by (auto simp: moveNow_def Let_def intro!: no_leak_readd_moved quiet_no_leak [OF quiet_moveFailed]
        split: sum.splits prod.splits bool.splits)
qed

text \<open>Restoring is adding, again and again.\<close>

lemma quiet_restore_priorities: "quiet e (restore_priorities L mc k fps e)"
proof (induction L mc k fps e rule: restore_priorities.induct)
  case (2 L mc k fp fps e)
  have "quiet e e1" if "SetFilePriority L mc k (fpr_Index fp) prio e = (r, e1)" for prio r e1
    using quiet_SetFilePriority [of e L mc k "fpr_Index fp" prio] that by simp
  then have "quiet e (case ParsePriority (fpr_Priority fp) of
        None \<Rightarrow> logf (UnknownPriority k (fpr_Index fp) (fpr_Priority fp)) e
      | Some prio \<Rightarrow> (case SetFilePriority L mc k (fpr_Index fp) prio e of
          (Inl err, e1) \<Rightarrow> logf (PriorityNotRestored k (fpr_Index fp) err) e1
        | (Inr _, e1) \<Rightarrow> e1))"
    by (auto simp: quiet_def split: option.splits prod.splits sum.splits)
  then show ?case using 2 by (simp add: quiet_trans)
qed simp

lemma no_leak_restoreOne: "no_leak e \<Longrightarrow> no_leak (snd (restoreOne L mc rec e))"
proof -
  assume e: "no_leak e"
  have a: "no_leak e1" if "AddTorrentFile L mc p opts e = (r, e1)" for p opts r e1
    using no_leak_addSpec [OF e, of L mc "FromFile p" opts "[]"] that e
    by (auto simp: AddTorrentFile_def split: option.splits)
  have b: "no_leak e1" if "AddMagnet L mc uri opts e = (r, e1)" for uri opts r e1
    using no_leak_addSpec [OF e, of L mc "FromMagnet uri" opts uri] that e
    by (auto simp: AddMagnet_def split: option.splits)
  have c: "no_leak e2" if "SetTorrentRateLimit L mc k u d e1 = (r, e2)" "no_leak e1" for k u d r e1 e2
    using quiet_no_leak [OF quiet_SetTorrentRateLimit that(2), of L mc k u d] that(1) by simp
  have d: "no_leak (upd_tr k (restore_fields rec) (restore_priorities L mc k fps e'))" if "no_leak e'" for k fps e'
  proof (rule quiet_no_leak [OF _ that])
    show "quiet e' (upd_tr k (restore_fields rec) (restore_priorities L mc k fps e'))"
      by (rule quiet_trans [OF quiet_restore_priorities [of e' L mc k fps]])
         (simp add: quiet_def option.map_comp comp_def)
  qed
  show ?thesis
    using e by (auto simp: restoreOne_def Let_def intro: a b c d split: sum.splits prod.splits if_splits)
qed

lemma no_leak_restore_all: "no_leak e \<Longrightarrow> no_leak (snd (restore_all L mc recs n e))"
proof (induction L mc recs n e rule: restore_all.induct)
  case (2 L mc rec recs n e)
  have "no_leak e1" if "restoreOne L mc rec e = (r, e1)" for r e1
    using no_leak_restoreOne [OF 2(3), of L mc rec] that by simp
  moreover have "no_leak (logf m e1) = no_leak e1" for m e1
    by (simp add: no_leak_def)
  ultimately show ?case using 2 by (auto split: sum.splits prod.splits)
qed simp

lemma no_leak_RestoreSession: "no_leak e \<Longrightarrow> no_leak (snd (RestoreSession L mc e))"
proof -
  assume "no_leak e"
  then have "no_leak (e\<lparr>e_restoring := True\<rparr>)" by (simp add: no_leak_def own_at_def opened_def)
  then have "no_leak e1" if "restore_all L mc recs 0 (e\<lparr>e_restoring := True\<rparr>) = (n, e1)" for recs n e1
    using no_leak_restore_all [of "e\<lparr>e_restoring := True\<rparr>" L mc recs 0] that by simp
  moreover have "no_leak (persist L mc (e1\<lparr>e_restoring := False\<rparr>)) = no_leak e1" for e1
    by (simp add: no_leak_def own_at_def opened_def)
  ultimately show ?thesis using \<open>no_leak e\<close>
    by (simp add: RestoreSession_def split: session_content.split prod.split)
qed

lemma no_leak_exec: "no_leak e \<Longrightarrow> no_leak (exec L mc op e)"
  by (cases op)
     (simp_all add: quiet_ops [THEN quiet_no_leak] AddMagnet_def AddTorrentFile_def no_leak_addSpec
      no_leak_RemoveTorrent no_leak_PurgeData no_leak_MoveStorage no_leak_RestoreSession
      split: option.splits)

interpretation leaks: invariant_ops engine_step no_leak
  by unfold_locales (simp add: engine_step_def no_leak_exec split: prod.split)

lemma no_leak_reachable: "reachable e \<Longrightarrow> no_leak e"
  by (induction rule: reachable.induct)
     (simp_all add: leaks.step_inv, simp add: New_ok no_leak_def opened_def)

end
