(* ===== verification/EngineSwitches.thy ===== *)
theory EngineSwitches
  imports EngineSafety
begin

text \<open>
  The promise of \<^verbatim>\<open>dataFlow\<close>, carried through every operation: whoever asked for a torrent to stand
  still - the user, an operation, the VPN guard, the free-space guard - its switches in the torrent
  library are off. The one gap is a torrent that has just been moved: the library allows a fresh
  instance both directions, and \<^verbatim>\<open>MoveStorage\<close> leaves it so until the next tick or the end of the
  verification. Two facts of the library are hypotheses: a torrent object keeps its infohash, and
  adding a torrent from its own metainfo gives an object with the same one.
\<close>

subsection \<open>The promise\<close>

definition off :: "libcmd list \<Rightarrow> handle \<Rightarrow> bool" where
  "off cs t \<longleftrightarrow> \<not> down_allowed cs t \<and> \<not> up_allowed cs t"

definition held :: "engine \<Rightarrow> tracked \<Rightarrow> bool" where
  "held e tr \<longleftrightarrow> tr_paused tr \<or> tr_holdData tr \<or> e_blocked e \<or> e_lowDisk e"

definition just_moved :: "tracked \<Rightarrow> bool" where
  "just_moved tr \<longleftrightarrow> AfterMove \<in> set (map ck_kind (tr_checks tr))"

definition switches_ok :: "(tracked \<Rightarrow> bool) \<Rightarrow> engine \<Rightarrow> bool" where
  "switches_ok X e \<longleftrightarrow> (\<forall>k tr. map_of (e_torrents e) k = Some tr \<longrightarrow> held e tr \<longrightarrow> \<not> X tr \<longrightarrow>
     off (e_cmds e) (tr_t tr))"

definition handles_ok :: "(handle \<Rightarrow> tid) \<Rightarrow> engine \<Rightarrow> bool" where
  "handles_ok ih e \<longleftrightarrow> (\<forall>k tr. map_of (e_torrents e) k = Some tr \<longrightarrow> ih (tr_t tr) = k)"

definition lib_ok :: "(handle \<Rightarrow> tid) \<Rightarrow> lib \<Rightarrow> bool" where
  "lib_ok ih L \<longleftrightarrow> (\<forall>cs t. tv_infohash (lib_view L cs t) = ih t) \<and>
     (\<forall>cs spec t t'. lib_add L cs spec = Inr t' \<longrightarrow> sp_source spec = FromMetainfo t \<longrightarrow> ih t' = ih t)"

subsection \<open>Steps that turn nothing on\<close>

definition same_or_calmer :: "(tracked \<Rightarrow> bool) \<Rightarrow> tracked \<Rightarrow> tracked \<Rightarrow> bool" where
  "same_or_calmer X tr tr' \<longleftrightarrow> tr_t tr' = tr_t tr \<and> (tr_paused tr' \<longrightarrow> tr_paused tr) \<and>
     (tr_holdData tr' \<longrightarrow> tr_holdData tr) \<and> (X tr \<longrightarrow> X tr')"

definition calm_but :: "(tracked \<Rightarrow> bool) \<Rightarrow> tid option \<Rightarrow> engine \<Rightarrow> engine \<Rightarrow> bool" where
  "calm_but X kx e e' \<longleftrightarrow> (\<forall>t. off (e_cmds e) t \<longrightarrow> off (e_cmds e') t) \<and>
     (e_blocked e' \<longrightarrow> e_blocked e) \<and> (e_lowDisk e' \<longrightarrow> e_lowDisk e) \<and>
     (\<forall>k tr'. kx \<noteq> Some k \<longrightarrow> map_of (e_torrents e') k = Some tr' \<longrightarrow>
        (\<exists>tr. map_of (e_torrents e) k = Some tr \<and> same_or_calmer X tr tr'))"

abbreviation calm :: "(tracked \<Rightarrow> bool) \<Rightarrow> engine \<Rightarrow> engine \<Rightarrow> bool" where
  "calm X \<equiv> calm_but X None"

lemma same_or_calmer_refl [simp]: "same_or_calmer X tr tr"
  by (simp add: same_or_calmer_def)

lemma same_or_calmer_trans:
  "same_or_calmer X a b \<Longrightarrow> same_or_calmer X b c \<Longrightarrow> same_or_calmer X a c"
  by (auto simp: same_or_calmer_def)

text \<open>A torrent such a step did not except is off after it if it has to be.\<close>

lemma calm_but_off:
  assumes "calm_but X kx e e'" "switches_ok X e" "map_of (e_torrents e') k = Some tr'"
    "kx \<noteq> Some k" "held e' tr'" "\<not> X tr'"
  shows "off (e_cmds e') (tr_t tr')"
proof -
  obtain tr where tr: "map_of (e_torrents e) k = Some tr" "same_or_calmer X tr tr'"
    using assms(1,3,4) unfolding calm_but_def by blast
  have "held e tr" "\<not> X tr"
    using assms(1,5,6) tr(2) by (auto simp: held_def calm_but_def same_or_calmer_def)
  then have "off (e_cmds e) (tr_t tr')"
    using assms(2) tr by (auto simp: switches_ok_def same_or_calmer_def)
  then show ?thesis using assms(1) by (simp add: calm_but_def)
qed

lemma calm_ok: "calm X e e' \<Longrightarrow> switches_ok X e \<Longrightarrow> switches_ok X e'"
  unfolding switches_ok_def [of X e']
proof (intro allI impI)
  fix k tr' assume "calm X e e'" "switches_ok X e" "map_of (e_torrents e') k = Some tr'"
    "held e' tr'" "\<not> X tr'"
  then show "off (e_cmds e') (tr_t tr')" by (intro calm_but_off [of X None e e' k tr']) simp_all
qed

lemma calm_refl [simp]: "calm_but X kx e e"
  by (auto simp: calm_but_def)

lemma calm_trans: "calm_but X kx e1 e2 \<Longrightarrow> calm_but X kx e2 e3 \<Longrightarrow> calm_but X kx e1 e3"
  unfolding calm_but_def by (meson same_or_calmer_trans)

lemma calm_weaken: "calm X e e' \<Longrightarrow> calm_but X kx e e'"
  unfolding calm_but_def by (meson option.distinct(1))

lemma calm_same:
  "(\<And>t. off (e_cmds e) t \<Longrightarrow> off (e_cmds e') t) \<Longrightarrow> e_blocked e' = e_blocked e \<Longrightarrow>
     e_lowDisk e' = e_lowDisk e \<Longrightarrow> e_torrents e' = e_torrents e \<Longrightarrow> calm_but X kx e e'"
  by (auto simp: calm_but_def)

lemma calm_entry:
  "(\<And>t. off (e_cmds e) t \<Longrightarrow> off (e_cmds e') t) \<Longrightarrow> e_blocked e' = e_blocked e \<Longrightarrow>
     e_lowDisk e' = e_lowDisk e \<Longrightarrow> e_torrents e' = AList.map_entry k f (e_torrents e) \<Longrightarrow>
     (\<And>tr. map_of (e_torrents e) k = Some tr \<Longrightarrow> kx \<noteq> Some k \<Longrightarrow> same_or_calmer X tr (f tr)) \<Longrightarrow>
     calm_but X kx e e'"
  by (auto simp: calm_but_def)

lemma calm_vals:
  "(\<And>t. off (e_cmds e) t \<Longrightarrow> off (e_cmds e') t) \<Longrightarrow> e_blocked e' = e_blocked e \<Longrightarrow>
     e_lowDisk e' = e_lowDisk e \<Longrightarrow> e_torrents e' = map_vals f (e_torrents e) \<Longrightarrow>
     (\<And>k tr. same_or_calmer X tr (f k tr)) \<Longrightarrow> calm_but X kx e e'"
  by (auto simp: calm_but_def)

lemma handles_okD: "handles_ok ih e \<Longrightarrow> map_of (e_torrents e) k = Some tr \<Longrightarrow> ih (tr_t tr) = k"
  by (simp add: handles_ok_def)

text \<open>A step that touches one torrent and then turns that torrent's switches.\<close>

lemma switches_flow_tr:
  assumes c: "calm_but X (Some k) e e'" and h: "handles_ok ih e'" and ok: "switches_ok X e"
  shows "switches_ok X (flow_tr k e')"
  unfolding switches_ok_def
proof (intro allI impI)
  fix k' tr' assume k': "map_of (e_torrents (flow_tr k e')) k' = Some tr'"
    and held: "held (flow_tr k e') tr'" and nx: "\<not> X tr'"
  have k'': "map_of (e_torrents e') k' = Some tr'" and held': "held e' tr'"
    using k' held by (simp_all add: held_def)
  show "off (e_cmds (flow_tr k e')) (tr_t tr')"
  proof (cases "k' = k")
    case True
    have "dataFlow (guardsLocked e') tr' = (False, False)"
      using held' by (intro dataFlow_held) (auto simp: held_def guards_any_engine)
    then show ?thesis using True k'' by (simp add: off_def flow_tr_down flow_tr_up)
  next
    case False
    have o: "off (e_cmds e') (tr_t tr')"
      by (rule calm_but_off [OF c ok k'' _ held' nx]) (use False in simp)
    have "tr_t tr' \<noteq> tr_t tr2" if "map_of (e_torrents e') k = Some tr2" for tr2
      using handles_okD [OF h k''] handles_okD [OF h that] False by auto
    then show ?thesis using o
      by (cases "map_of (e_torrents e') k") (auto simp: off_def flow_tr_down flow_tr_up, simp_all add: flow_tr_def)
  qed
qed

lemma switches_exempt:
  assumes "calm_but X (Some k) e e'" "switches_ok X e"
    "\<And>tr. map_of (e_torrents e') k = Some tr \<Longrightarrow> X tr"
  shows "switches_ok X e'"
  unfolding switches_ok_def
proof (intro allI impI)
  fix k' tr' assume k': "map_of (e_torrents e') k' = Some tr'" and h: "held e' tr'" and nx: "\<not> X tr'"
  have "k' \<noteq> k" using assms(3) k' nx by auto
  then show "off (e_cmds e') (tr_t tr')"
    by (intro calm_but_off [OF assms(1,2) k' _ h nx]) simp
qed

subsection \<open>Handles\<close>

lemma handles_quiet: "quiet e e' \<Longrightarrow> handles_ok ih e \<Longrightarrow> handles_ok ih e'"
proof -
  assume q: "quiet e e'" and h: "handles_ok ih e"
  show "handles_ok ih e'" unfolding handles_ok_def
  proof (intro allI impI)
    fix k tr assume "map_of (e_torrents e') k = Some tr"
    then have "map_option core (map_of (e_torrents e) k) = Some (core tr)"
      using q by (metis quiet_def option.simps(9))
    then obtain tr0 where a: "map_of (e_torrents e) k = Some tr0" and b: "core tr0 = core tr" by auto
    show "ih (tr_t tr) = k" using handles_okD [OF h a] b by (simp add: core_def)
  qed
qed

lemma handles_entry:
  "handles_ok ih e \<Longrightarrow> e_torrents e' = AList.map_entry k f (e_torrents e) \<Longrightarrow>
     (\<And>tr. map_of (e_torrents e) k = Some tr \<Longrightarrow> ih (tr_t (f tr)) = k) \<Longrightarrow> handles_ok ih e'"
  by (auto simp: handles_ok_def)

lemma handles_same: "e_torrents e' = e_torrents e \<Longrightarrow> handles_ok ih e' = handles_ok ih e"
  by (simp add: handles_ok_def)

subsection \<open>Verification\<close>

text \<open>No other running check has this one's number and another purpose.\<close>

definition own_id :: "tid \<Rightarrow> check \<Rightarrow> engine \<Rightarrow> bool" where
  "own_id k ck e \<longleftrightarrow> (\<forall>tr. map_of (e_torrents e) k = Some tr \<longrightarrow>
     (\<forall>ck'\<in>set (tr_checks tr). ck_id ck' = ck_id ck \<longrightarrow> ck_kind ck' = ck_kind ck))"

definition safe :: "(handle \<Rightarrow> tid) \<Rightarrow> engine \<Rightarrow> bool" where
  "safe ih e \<longleftrightarrow> checks.inv e \<and> handles_ok ih e \<and> switches_ok just_moved e"

lemma safeI: "checks.inv e \<Longrightarrow> handles_ok ih e \<Longrightarrow> switches_ok just_moved e \<Longrightarrow> safe ih e"
  by (simp add: safe_def)

lemma safeD:
  "safe ih e \<Longrightarrow> checks.inv e" "safe ih e \<Longrightarrow> handles_ok ih e"
  "safe ih e \<Longrightarrow> switches_ok just_moved e"
  by (simp_all add: safe_def)

lemma own_id_of_check:
  assumes "checks.inv e" "map_of (e_torrents e) k = Some tr" "ck \<in> set (tr_checks tr)"
  shows "own_id k ck e"
proof -
  have "check_ok (e_nextCheck e) tr" using checks.inv_lookup assms(1,2) .
  then have "distinct (map ck_id (tr_checks tr))" by (simp add: check_ok_def)
  then have "inj_on ck_id (set (tr_checks tr))" by (simp add: distinct_map)
  then show ?thesis using assms(2,3) by (auto simp: own_id_def dest: inj_onD)
qed

lemma just_moved_update [simp]:
  "just_moved (tr\<lparr>tr_paused := b\<rparr>) = just_moved tr" "just_moved (tr\<lparr>tr_holdData := b\<rparr>) = just_moved tr"
  "just_moved (tr\<lparr>tr_lastErr := s\<rparr>) = just_moved tr" "just_moved (tr\<lparr>tr_label := s\<rparr>) = just_moved tr"
  "just_moved (tr\<lparr>tr_chosenFiles := ns\<rparr>) = just_moved tr"
  "just_moved (tr\<lparr>tr_seedRatio := r, tr_seedTime := n\<rparr>) = just_moved tr"
  "just_moved (tr\<lparr>tr_upLimit := n\<rparr>) = just_moved tr" "just_moved (tr\<lparr>tr_downLimit := n\<rparr>) = just_moved tr"
  "just_moved (tr\<lparr>tr_checkDone := n\<rparr>) = just_moved tr"
  "just_moved (tr\<lparr>tr_lastPeers := ps, tr_lastPeersAt := n\<rparr>) = just_moved tr"
  "just_moved (foldCounters v tr) = just_moved tr" "just_moved (restore_fields rec tr) = just_moved tr"
  by (simp_all add: just_moved_def foldCounters_def restore_fields_def)

lemma kinds_checks [simp]:
  "map ck_kind (tr_checks (cancelCheckLocked tr)) = map ck_kind (tr_checks tr)"
  "map ck_kind (tr_checks (advance c tr)) = map ck_kind (tr_checks tr)"
  by (auto simp: cancelCheckLocked_def mark_cancelled_def advance_def split: option.splits)

lemma just_moved_checks [simp]:
  "just_moved (cancelCheckLocked tr) = just_moved tr" "just_moved (advance c tr) = just_moved tr"
  by (simp_all add: just_moved_def del: set_map list.set_map)

lemma just_moved_begin [simp]:
  "just_moved (beginCheck_tr n kind tot tr) = (just_moved tr \<or> kind = AfterMove)"
proof -
  have "just_moved (beginCheck_tr n kind tot tr) = (just_moved (cancelCheckLocked tr) \<or> kind = AfterMove)"
    by (auto simp: beginCheck_tr_def Let_def just_moved_def)
  then show ?thesis by simp
qed

lemma finish_check_frames [simp]:
  "e_blocked (finish_check L mc k ck out n e) = e_blocked e"
  "e_lowDisk (finish_check L mc k ck out n e) = e_lowDisk e"
  by (simp_all add: finish_check_def Let_def split: check_kind.splits check_outcome.splits)

lemma switches_finish:
  assumes "safe ih e" "own_id k ck e"
  shows "switches_ok just_moved (finish_check L mc k ck out n e)"
proof (cases "ck_kind ck")
  case Recheck
  have "just_moved (check_done (ck_id ck) tr)" if "just_moved tr" "map_of (e_torrents e) k = Some tr" for tr
    using that assms(2) Recheck by (auto simp: just_moved_def own_id_def)
  then have "calm just_moved e (finish_check L mc k ck out n e)"
    by (intro calm_entry [OF _ _ _ e_torrents_finish_check])
       (auto simp: finish_check_def Recheck Let_def same_or_calmer_def split: check_outcome.splits)
  then show ?thesis using assms(1) by (blast intro: calm_ok dest: safeD)
next
  case AfterMove
  let ?e1 = "upd_tr k (check_done (ck_id ck)) e"
  let ?e2 = "case out of Broken err \<Rightarrow>
      upd_tr k (tr_lastErr_update (\<lambda>_. ''verify after move failed: '' @ err)) ?e1 | _ \<Rightarrow> ?e1"
  let ?e3 = "upd_tr k (tr_holdData_update (\<lambda>_. False)) ?e2"
  have "calm_but just_moved (Some k) e ?e3"
    by (auto simp: calm_but_def split: check_outcome.splits if_splits)
  moreover have "handles_ok ih ?e3"
    using safeD(2) [OF assms(1)] by (auto simp: handles_ok_def split: check_outcome.splits)
  ultimately have "switches_ok just_moved (flow_tr k ?e3)"
    using safeD(3) [OF assms(1)] by (rule switches_flow_tr)
  then show ?thesis
    by (simp add: finish_check_def AfterMove Let_def switches_ok_def held_def)
qed

lemma safe_finish: "safe ih e \<Longrightarrow> own_id k ck e \<Longrightarrow> safe ih (finish_check L mc k ck out n e)"
  by (intro safeI checks.inv_finish handles_quiet [OF quiet_finish] switches_finish) (auto dest: safeD)

lemma checks_finish:
  "map_of (e_torrents (finish_check L mc k ck out n e)) k = Some tr \<Longrightarrow>
     \<exists>tr0. map_of (e_torrents e) k = Some tr0 \<and>
       tr_checks tr = filter (\<lambda>c. ck_id c \<noteq> ck_id ck) (tr_checks tr0)"
  by (cases "ck_kind ck"; cases out) (auto simp: e_torrents_finish_check Let_def)

lemma own_id_finish: "own_id k ck' e \<Longrightarrow> own_id k ck' (finish_check L mc k ck out n e)"
  unfolding own_id_def by (auto dest!: checks_finish)

lemma safe_drain: "safe ih e \<Longrightarrow> \<forall>ck\<in>set cks. own_id k ck e \<Longrightarrow> safe ih (drain L mc k cks e)"
proof (induction cks arbitrary: e)
  case (Cons ck cks)
  then show ?case
    by (simp add: runCheck_def safe_finish own_id_finish split: prod.splits)
qed simp

lemma safe_calm: "safe ih e \<Longrightarrow> checks.inv e' \<Longrightarrow> quiet e e' \<Longrightarrow> calm just_moved e e' \<Longrightarrow> safe ih e'"
  by (intro safeI) (auto dest: safeD intro: handles_quiet calm_ok)

lemma safe_quiesce: "safe ih e \<Longrightarrow> safe ih (quiesceCheck L mc k e)"
proof -
  assume e: "safe ih e"
  let ?e = "upd_tr k cancelCheckLocked e"
  have s: "safe ih ?e"
  proof (rule safe_calm [OF e])
    show "checks.inv ?e" using safeD(1) [OF e] by (simp add: checks.inv_entry checks.cancel)
    show "quiet e ?e" by (simp add: quiet_def option.map_comp comp_def)
    show "calm just_moved e ?e"
      by (rule calm_entry [where f = cancelCheckLocked]) (simp_all add: same_or_calmer_def)
  qed
  then show ?thesis
    by (auto simp: quiesceCheck_def Let_def split: option.splits
        intro!: safe_drain own_id_of_check dest: safeD(1))
qed

end
