(* ===== verification/EngineHolds.thy ===== *)
theory EngineHolds
  imports EngineSwitches
begin

text \<open>
  Every operation keeps the promise of \<open>EngineSwitches\<close>, and a tick keeps it without exception.
\<close>

subsection \<open>Rules\<close>

lemma off_Cons [simp]:
  "off (SetPriority t' i p # cs) t = off cs t" "off (AddTorrentSpec sp # cs) t = off cs t"
  "off (DropTorrent t' # cs) t = off cs t" "off (NewFile s d # cs) t = off cs t"
  "off (CloseStorage s # cs) t = off cs t"
  by (simp_all add: off_def)

lemma off_pieces [simp]:
  "off (e_cmds (downloadUnchosenFiles L t ch e)) t' = off (e_cmds e) t'"
  "off (e_cmds (downloadAllFiles L t ch')) t' = off (e_cmds ch') t'"
  "off (e_cmds (applyFilePriorities L t ps e)) t' = off (e_cmds e) t'"
  "off (e_cmds (set_priorities t qs e)) t' = off (e_cmds e) t'"
  "off (e_cmds (select_files t pats fs e)) t' = off (e_cmds e) t'"
  "off (e_cmds (close_storage own e)) t' = off (e_cmds e) t'"
  by (simp_all add: off_def)

lemma safe_same:
  "safe ih e \<Longrightarrow> e_torrents e' = e_torrents e \<Longrightarrow> e_nextCheck e' = e_nextCheck e \<Longrightarrow>
     e_blocked e' = e_blocked e \<Longrightarrow> e_lowDisk e' = e_lowDisk e \<Longrightarrow>
     (\<And>t. off (e_cmds e') t = off (e_cmds e) t) \<Longrightarrow> safe ih e'"
  by (simp add: safe_def handles_ok_def switches_ok_def held_def)

lemma safe_published:
  "safe ih e \<Longrightarrow> safe ih (snapshotAndBroadcastNow L mc e)"
  "safe ih e \<Longrightarrow> safe ih (persist L mc e)" "safe ih e \<Longrightarrow> safe ih (logf m e)"
  "safe ih e \<Longrightarrow> safe ih (removeMetainfo k e)" "safe ih e \<Longrightarrow> safe ih (close_storage own e)"
  "safe ih e \<Longrightarrow> safe ih (e\<lparr>e_fs := f\<rparr>)" "safe ih e \<Longrightarrow> safe ih (e\<lparr>e_waiting := ws\<rparr>)"
  "safe ih e \<Longrightarrow> safe ih (downloadUnchosenFiles L t ch e)"
  "safe ih e \<Longrightarrow> safe ih (cmd (AddTorrentSpec sp) e)" "safe ih e \<Longrightarrow> safe ih (cmd (DropTorrent t) e)"
  "safe ih e \<Longrightarrow> safe ih (snd (open_storage d e))"
  "safe ih e \<Longrightarrow> safe ih (cmd (SetPriority t i p) e)"
  "safe ih e \<Longrightarrow> safe ih (select_files t pats fvs e)"
  by (rule safe_same; simp)+

lemma safe_entry:
  assumes e: "safe ih e"
    and "\<And>n tr. check_ok n tr \<Longrightarrow> check_ok n (f tr)" "\<And>tr. same_or_calmer just_moved tr (f tr)"
  shows "safe ih (upd_tr k f e)"
proof (rule safeI)
  show "checks.inv (upd_tr k f e)" using safeD(1) [OF e] assms(2) by (simp add: checks.inv_entry)
  show "handles_ok ih (upd_tr k f e)"
    by (rule handles_entry [OF safeD(2) [OF e], where f = f and k = k])
       (use assms(3) handles_okD [OF safeD(2) [OF e]] in \<open>auto simp: same_or_calmer_def\<close>)
  show "switches_ok just_moved (upd_tr k f e)"
    by (rule calm_ok [OF _ safeD(3) [OF e]], rule calm_entry [where f = f and k = k]) (simp_all add: assms(3))
qed

lemma safe_then_flow:
  assumes e: "safe ih e" and c: "checks.inv e'" and h: "handles_ok ih e'"
    and calm: "calm_but just_moved (Some k) e e'"
  shows "safe ih (flow_tr k e')"
  by (rule safeI)
     (use c h switches_flow_tr [OF calm h safeD(3) [OF e]] handles_same [of "flow_tr k e'" e' ih] in simp_all)

lemma safe_entry_flow:
  assumes e: "safe ih e" and "\<And>n tr. check_ok n tr \<Longrightarrow> check_ok n (f tr)" "\<And>tr. tr_t (f tr) = tr_t tr"
  shows "safe ih (flow_tr k (upd_tr k f e))"
proof (rule safe_then_flow [OF e])
  show "checks.inv (upd_tr k f e)" using safeD(1) [OF e] assms(2) by (simp add: checks.inv_entry)
  show "handles_ok ih (upd_tr k f e)"
    by (rule handles_entry [OF safeD(2) [OF e], where f = f and k = k])
       (use assms(3) handles_okD [OF safeD(2) [OF e]] in auto)
  show "calm_but just_moved (Some k) e (upd_tr k f e)"
    by (rule calm_entry [where f = f and k = k]) simp_all
qed

lemma safe_quiesced:
  assumes "safe ih e" "\<And>tr e1. safe ih e1 \<Longrightarrow> map_of (e_torrents e1) k = Some tr \<Longrightarrow> safe ih (snd (body tr e1))"
  shows "safe ih (snd (quiesced L mc k body e))"
  by (rule quiesced_rule) (use assms safe_quiesce in auto)

subsection \<open>Operation by operation\<close>

lemma safe_SetPaused [safe_ops]: "safe ih e \<Longrightarrow> safe ih (snd (SetPaused L mc k b e))"
  by (auto simp: SetPaused_def Let_def intro!: safe_published safe_entry_flow checks.paused checks.cancel
      split: sum.splits)

lemma safe_SetFilePriority [safe_ops]: "safe ih e \<Longrightarrow> safe ih (snd (SetFilePriority L mc k i p e))"
  by (auto simp: SetFilePriority_def choose_file_def Let_def same_or_calmer_def
      intro!: safe_published safe_entry checks.chosen split: sum.splits)

lemma safe_SetTorrentRateLimit [safe_ops]: "safe ih e \<Longrightarrow> safe ih (snd (SetTorrentRateLimit L mc k u d e))"
  by (auto simp: SetTorrentRateLimit_def Let_def same_or_calmer_def
      intro!: safe_published safe_entry checks.up checks.down split: sum.splits)

lemma safe_PrepareStream [safe_ops]: "safe ih e \<Longrightarrow> safe ih (snd (PrepareStream L mc k i e))"
proof -
  assume e: "safe ih e"
  have sp: "safe ih e1" if "SetPaused L mc k False e = (r, e1)" for r e1
    using safe_SetPaused [OF e, of L mc k False] that by simp
  have fp: "safe ih e2" if "SetFilePriority L mc k i PriorityHigh e1 = (r, e2)" "safe ih e1" for r e1 e2
    using safe_SetFilePriority [OF that(2), of L mc k i PriorityHigh] that(1) by simp
  show ?thesis
    using e by (auto simp: PrepareStream_def intro: sp fp split: sum.splits prod.splits)
qed

lemma safe_SetLabel [safe_ops]: "safe ih e \<Longrightarrow> safe ih (snd (SetLabel L mc k l e))"
  by (auto simp: SetLabel_def Let_def same_or_calmer_def intro!: safe_published safe_entry checks.label
      split: sum.splits)

lemma safe_SetSeedLimit [safe_ops]: "safe ih e \<Longrightarrow> safe ih (snd (SetSeedLimit L mc k r d e))"
  by (auto simp: SetSeedLimit_def Let_def same_or_calmer_def intro!: safe_published safe_entry checks.seed
      split: sum.splits)

lemma safe_simple [safe_ops]:
  "safe ih e \<Longrightarrow> safe ih (SetGlobalUploadLimit n e)" "safe ih e \<Longrightarrow> safe ih (SetGlobalDownloadLimit n e)"
  "safe ih e \<Longrightarrow> safe ih (snd (SaveSession L mc e))"
  "safe ih e \<Longrightarrow> safe ih (unsubscribe ch e)"
  by (rule safe_same; simp add: SetGlobalUploadLimit_def SetGlobalDownloadLimit_def unsubscribe_def)+

lemma safe_subscribed [safe_ops]: "safe ih e \<Longrightarrow> safe ih (subscribed L mc e)"
  by (rule safe_same [of ih e]) (simp_all add: subscribed_def Subscribe_def)

lemma safe_receive [safe_ops]: "safe ih e \<Longrightarrow> safe ih (snd (receive ch e))"
  by (rule safe_same [of ih e]) (simp_all add: receive_def split: option.splits)

lemma safe_metadataArrived [safe_ops]: "safe ih e \<Longrightarrow> safe ih (metadataArrived L mc w e)"
  by (auto simp: metadataArrived_def applyFileSelection_def Let_def same_or_calmer_def
      intro!: safe_published safe_entry checks.chosen)

lemma safe_TorrentDetail [safe_ops]: "safe ih e \<Longrightarrow> safe ih (snd (TorrentDetail L mc k e))"
  by (auto simp: TorrentDetail_def peerInfo_def Let_def same_or_calmer_def
      intro!: safe_entry checks.peers split: sum.splits)

lemma safe_ForceRecheck [safe_ops]: "safe ih e \<Longrightarrow> safe ih (snd (ForceRecheck L mc k e))"
proof -
  assume e: "safe ih e"
  have "safe ih ((upd_tr k (beginCheck_tr (e_nextCheck e) Recheck n) e)\<lparr>e_nextCheck := Suc (e_nextCheck e)\<rparr>)" for n
  proof (rule safe_calm [OF e])
    show "checks.inv ((upd_tr k (beginCheck_tr (e_nextCheck e) Recheck n) e)\<lparr>e_nextCheck := Suc (e_nextCheck e)\<rparr>)"
      using safeD(1) [OF e] by (simp add: checks.inv_begin)
    show "quiet e ((upd_tr k (beginCheck_tr (e_nextCheck e) Recheck n) e)\<lparr>e_nextCheck := Suc (e_nextCheck e)\<rparr>)"
      by (simp add: quiet_def option.map_comp comp_def)
    show "calm just_moved e ((upd_tr k (beginCheck_tr (e_nextCheck e) Recheck n) e)\<lparr>e_nextCheck := Suc (e_nextCheck e)\<rparr>)"
      by (rule calm_entry [where f = "beginCheck_tr (e_nextCheck e) Recheck n" and k = k])
         (simp_all add: same_or_calmer_def)
  qed
  then show ?thesis using e
    by (auto simp: ForceRecheck_def beginCheck_def Let_def intro!: safe_published split: sum.splits)
qed

lemma safe_stepCheck [safe_ops]: "safe ih e \<Longrightarrow> safe ih (stepCheck L mc k c e)"
proof -
  assume e: "safe ih e"
  have "safe ih (upd_tr k (\<lambda>tr. (advance c tr)\<lparr>tr_checkDone := n\<rparr>) e)" for n
    by (rule safe_entry [OF e]) (simp_all add: checks.piece same_or_calmer_def, simp_all add: advance_def)
  moreover have "own_id k ck e" if "map_of (e_torrents e) k = Some tr"
      "List.find (\<lambda>ck. ck_id ck = c) (tr_checks tr) = Some ck" for tr ck
    using own_id_of_check [OF safeD(1) [OF e] that(1)] that(2) by (auto simp: find_Some_iff)
  ultimately show ?thesis using e
    by (auto simp: stepCheck_def intro!: safe_finish split: option.splits)
qed

lemma safe_RemoveTorrent [safe_ops]: "safe ih e \<Longrightarrow> safe ih (snd (RemoveTorrent L mc k d e))"
  unfolding RemoveTorrent_def
proof (rule safe_quiesced)
  fix tr e1 assume e: "safe ih e1" and k: "map_of (e_torrents e1) k = Some tr"
  have "safe ih (e1\<lparr>e_torrents := AList.delete k (e_torrents e1)\<rparr>)"
  proof (rule safeI)
    show "switches_ok just_moved (e1\<lparr>e_torrents := AList.delete k (e_torrents e1)\<rparr>)"
      using safeD(3) [OF e] by (simp add: switches_ok_def held_def)
  qed (use safeD(1,2) [OF e] in \<open>simp_all add: checks.inv_delete handles_ok_def\<close>)
  then show "safe ih (snd (removeNow L mc k d tr e1))"
    by (auto simp: removeNow_def Let_def intro!: safe_published)
qed

subsection \<open>Adding\<close>

lemma lib_ok_view: "lib_ok ih L \<Longrightarrow> tv_infohash (vw L e t) = ih t"
  by (simp add: lib_ok_def vw_def)

lemma safe_own_storage: "safe ih e \<Longrightarrow> own_storage opts e = (r, e1) \<Longrightarrow> safe ih e1"
  by (rule safe_same [of ih e]) (auto simp: own_storage_def split: if_splits prod.splits bool.splits)

lemma safe_enter:
  assumes e: "safe ih e" and t: "ih t = k"
  shows "safe ih (flow_tr k (enter_torrent mc k t opts uri own e))"
proof (rule safe_then_flow [OF e])
  show "checks.inv (enter_torrent mc k t opts uri own e)"
    by (rule checks.inv_enter_torrent [OF safeD(1) [OF e]])
  show "handles_ok ih (enter_torrent mc k t opts uri own e)"
  proof (cases "map_of (e_torrents e) k")
    case None
    then show ?thesis using safeD(2) [OF e] t
      by (auto simp: enter_torrent_def handles_ok_def new_tracked_def Let_def)
  next
    case (Some tr)
    have h: "ih (tr_t tr) = k" by (rule handles_okD [OF safeD(2) [OF e] Some])
    show ?thesis using safeD(2) [OF e] Some h
      by (auto simp: enter_torrent_def handles_ok_def Let_def)
  qed
  show "calm_but just_moved (Some k) e (enter_torrent mc k t opts uri own e)"
    by (auto simp: enter_torrent_def calm_but_def Let_def split: option.splits if_splits)
qed

lemma safe_addSpec [safe_ops]:
  assumes e: "safe ih e" and L: "lib_ok ih L"
  shows "safe ih (snd (addSpec L mc src opts uri e))"
proof -
  obtain r e1 where o: "own_storage opts e = (r, e1)" by force
  have e1: "safe ih e1" by (rule safe_own_storage [OF e o])
  show ?thesis
    using e1 o
    by (auto simp: addSpec_def Let_def lib_ok_view [OF L] intro!: safe_published safe_enter
        split: sum.splits)
qed

subsection \<open>Dropping and adding again\<close>

lemma safe_purgeFailed: "safe ih e \<Longrightarrow> safe ih (snd (purgeFailed L mc k s e))"
  by (auto simp: purgeFailed_def Let_def same_or_calmer_def
      intro!: safe_published safe_entry checks.err checks.hold)

lemma safe_moveFailed: "safe ih e \<Longrightarrow> safe ih (snd (moveFailed L mc k s e))"
  by (auto simp: moveFailed_def Let_def intro!: safe_published safe_entry_flow checks.err checks.hold)

lemma safe_purge_drop: "safe ih e \<Longrightarrow> safe ih (purge_drop L k tr e)"
  by (auto simp: purge_drop_def Let_def same_or_calmer_def foldCounters_def [of _ tr]
      intro!: safe_published safe_entry safe_entry_flow checks.paused checks.hold checks.counters)
     (simp_all add: foldCounters_def)

lemma safe_new_storage: "safe ih e \<Longrightarrow> safe ih (snd (new_storage tr e))"
  by (simp add: new_storage_def safe_published)

lemma safe_swapped:
  assumes e: "safe ih e" and f: "\<And>n tr. check_ok n tr \<Longrightarrow> check_ok n (f tr)" "\<And>tr. ih (tr_t (f tr)) = k"
  shows "safe ih (flow_tr k (upd_tr k f e))"
proof (rule safe_then_flow [OF e])
  show "checks.inv (upd_tr k f e)" using safeD(1) [OF e] f(1) by (simp add: checks.inv_entry)
  show "handles_ok ih (upd_tr k f e)"
    by (rule handles_entry [OF safeD(2) [OF e], where f = f and k = k]) (simp_all add: f(2))
  show "calm_but just_moved (Some k) e (upd_tr k f e)"
    by (rule calm_entry [where f = f and k = k]) simp_all
qed

lemma safe_PurgeData [safe_ops]:
  assumes e: "safe ih e" and L: "lib_ok ih L"
  shows "safe ih (snd (PurgeData L mc k e))"
  unfolding PurgeData_def
proof (rule safe_quiesced [OF e])
  fix tr e1 assume e1: "safe ih e1" and k: "map_of (e_torrents e1) k = Some tr"
  have h: "ih (tr_t tr) = k" by (rule handles_okD [OF safeD(2) [OF e1] k])
  have d: "safe ih (purge_drop L k tr e1)" by (rule safe_purge_drop [OF e1])
  obtain own e2 where o: "new_storage tr (purge_drop L k tr e1) = (own, e2)" by force
  have e2: "safe ih e2" using safe_new_storage [OF d, of tr] o by simp
  have fresh: "ih t = k" if "lib_add L cs (respec (tr_t tr) v own') = Inr t" for cs v own' t
    using L that h by (simp add: lib_ok_def respec_def)
  show "safe ih (snd (purgeNow L mc k tr e1))"
    using e1 d e2 o fresh
    by (auto simp: purgeNow_def Let_def
        intro!: safe_published safe_purgeFailed safe_swapped checks.hold checks.swap
        split: option.splits sum.splits)
qed

lemma safe_readd_moved:
  assumes e: "safe ih e" and L: "lib_ok ih L" and h: "ih (tr_t tr) = k"
  shows "safe ih (snd (readd_moved L mc k tr dir ps e))"
proof -
  have fresh: "ih t = k" if "lib_add L cs (respec (tr_t tr) v own') = Inr t" for cs v own' t
    using L that h by (simp add: lib_ok_def respec_def)
  have counted: "safe ih (upd_tr k (foldCounters v) e')" if "safe ih e'" for v e'
    by (rule safe_entry [OF that]) (simp_all add: checks.counters same_or_calmer_def, simp_all add: foldCounters_def)
  have pathed: "safe ih (upd_tr k (tr_savePath_update (\<lambda>_. dir)) e')" if "safe ih e'" for e'
    by (rule safe_entry [OF that]) (simp_all add: checks.path same_or_calmer_def just_moved_def)
  have prios: "safe ih (applyFilePriorities L t qs e')" "safe ih (downloadAllFiles L t e')"
    if "safe ih e'" for t qs e'
    by (rule safe_same [OF that]; simp)+
  have moved: "safe ih ((upd_tr k (beginCheck_tr c AfterMove n)
      (upd_tr k (\<lambda>tr. tr\<lparr>tr_t := t, tr_savePath := dir, tr_ownStorage := own\<rparr>) e'))
        \<lparr>e_nextCheck := Suc c\<rparr>)" (is "safe ih ?m")
    if s: "safe ih e'" and t: "ih t = k" and c: "c = e_nextCheck e'" for e' n t own c
  proof (rule safeI)
    show "checks.inv ?m" using safeD(1) [OF s] c
      by (simp add: checks.inv_begin checks.inv_entry checks.swap_path)
    show "handles_ok ih ?m" using safeD(2) [OF s] t by (auto simp: handles_ok_def)
    have "calm_but just_moved (Some k) e' ?m"
      by (auto simp: calm_but_def)
    then show "switches_ok just_moved ?m"
      by (rule switches_exempt [OF _ safeD(3) [OF s]]) (auto split: if_splits)
  qed
  show ?thesis
    unfolding readd_moved_def Let_def beginCheck_def
    using e fresh
    by (auto intro!: safe_published safe_moveFailed counted pathed prios moved
        split: option.splits sum.splits)
qed

lemma safe_MoveStorage [safe_ops]:
  assumes e: "safe ih e" and L: "lib_ok ih L"
  shows "safe ih (snd (MoveStorage L mc k dir e))"
  unfolding MoveStorage_def
proof (rule safe_quiesced [OF e])
  fix tr e1 assume e1: "safe ih e1" and k: "map_of (e_torrents e1) k = Some tr"
  have h: "ih (tr_t tr) = k" by (rule handles_okD [OF safeD(2) [OF e1] k])
  show "safe ih (snd (moveNow L mc k dir tr e1))"
    using e1 h L
    by (auto simp: moveNow_def Let_def
        intro!: safe_published safe_moveFailed safe_readd_moved safe_entry_flow checks.hold
        split: sum.splits prod.splits bool.splits)
qed

subsection \<open>Restoring\<close>

lemma safe_restore_priorities: "safe ih e \<Longrightarrow> safe ih (restore_priorities L mc k fps e)"
proof (induction L mc k fps e rule: restore_priorities.induct)
  case (2 L mc k fp fps e)
  have "safe ih e1" if "SetFilePriority L mc k (fpr_Index fp) prio e = (r, e1)" for prio r e1
    using safe_SetFilePriority [OF 2(2), of L mc k "fpr_Index fp" prio] that by simp
  then show ?case using 2 by (simp add: safe_published split: option.split prod.split sum.split)
qed simp

lemma safe_restoreOne:
  assumes e: "safe ih e" and L: "lib_ok ih L"
  shows "safe ih (snd (restoreOne L mc rec e))"
proof -
  have a: "safe ih e1" if "AddTorrentFile L mc p opts e = (r, e1)" for p opts r e1
    using safe_addSpec [OF e L, of mc "FromFile p" opts "[]"] that e
    by (auto simp: AddTorrentFile_def split: option.splits)
  have b: "safe ih e1" if "AddMagnet L mc uri opts e = (r, e1)" for uri opts r e1
    using safe_addSpec [OF e L, of mc "FromMagnet uri" opts uri] that e
    by (auto simp: AddMagnet_def split: option.splits)
  have c: "safe ih e2" if "SetTorrentRateLimit L mc k u d e1 = (r, e2)" "safe ih e1" for k u d r e1 e2
    using safe_SetTorrentRateLimit [OF that(2), of L mc k u d] that(1) by simp
  have d: "safe ih (upd_tr k (restore_fields rec) e')" if "safe ih e'" for k e'
    by (rule safe_entry [OF that]) (simp_all add: checks.restored same_or_calmer_def, simp_all add: restore_fields_def)
  show ?thesis
    using e by (auto simp: restoreOne_def Let_def intro: a b c intro!: d safe_restore_priorities
        split: sum.splits prod.splits if_splits)
qed

lemma safe_restore_all: "safe ih e \<Longrightarrow> lib_ok ih L \<Longrightarrow> safe ih (snd (restore_all L mc recs n e))"
proof (induction L mc recs n e rule: restore_all.induct)
  case (2 L mc rec recs n e)
  have "safe ih e1" if "restoreOne L mc rec e = (r, e1)" for r e1
    using safe_restoreOne [OF 2(3,4), of mc rec] that by simp
  then show ?case using 2 by (auto simp: safe_published split: sum.splits prod.splits)
qed simp

lemma safe_RestoreSession [safe_ops]:
  assumes e: "safe ih e" and L: "lib_ok ih L"
  shows "safe ih (snd (RestoreSession L mc e))"
proof -
  have flag: "safe ih (e'\<lparr>e_restoring := b\<rparr>)" if "safe ih e'" for e' b
    by (rule safe_same [OF that]) simp_all
  have start: "safe ih (e\<lparr>e_restoring := True\<rparr>)" by (rule flag [OF e])
  have "safe ih e1" if "restore_all L mc recs 0 (e\<lparr>e_restoring := True\<rparr>) = (n, e1)" for recs n e1
    using safe_restore_all [OF start L, of mc recs 0] that by simp
  then show ?thesis using e flag
    by (simp add: RestoreSession_def safe_published split: session_content.split prod.split)
qed

subsection \<open>The tick\<close>

lemma apply_flows_other:
  "t \<notin> fst ` set ds \<Longrightarrow> off (e_cmds (apply_flows ds e)) t = off (e_cmds e) t"
  by (induction ds e rule: apply_flows.induct) (auto simp: off_def)

lemma apply_flows_off:
  "distinct (map fst ds) \<Longrightarrow> (t, False, False) \<in> set ds \<Longrightarrow> off (e_cmds (apply_flows ds e)) t"
proof (induction ds e rule: apply_flows.induct)
  case (2 d ds e)
  show ?case
  proof (cases "d = (t, False, False)")
    case True
    then have "t \<notin> fst ` set ds" using 2(2) by simp
    then show ?thesis using True by (simp add: apply_flows_other) (simp add: off_def)
  next
    case False
    then show ?thesis using 2 by simp
  qed
qed simp

lemma distinct_handles:
  assumes "handles_ok ih e" "distinct_keys (e_torrents e)"
  shows "distinct (map (\<lambda>(_, tr). tr_t tr) (e_torrents e))"
proof -
  have eq: "map ih (map (\<lambda>(_, tr). tr_t tr) (e_torrents e)) = map fst (e_torrents e)"
    using assms by (auto simp: handles_ok_def map_of_mem [OF assms(2), symmetric])
  have "distinct (map ih (map (\<lambda>(_, tr). tr_t tr) (e_torrents e)))"
    unfolding eq using assms(2) by (simp add: distinct_keys_def)
  then show ?thesis using distinct_map [of ih "map (\<lambda>(_, tr). tr_t tr) (e_torrents e)"] by blast
qed

lemma flows_off:
  assumes h: "handles_ok ih e" and d: "distinct_keys (e_torrents e)"
    and tr: "map_of (e_torrents e) k = Some tr" "held e tr"
  shows "off (e_cmds (apply_flows (map (\<lambda>(_, tr). flowDecision (guardsLocked e) tr) (e_torrents e)) e')) (tr_t tr)"
proof (rule apply_flows_off)
  have eq: "map fst (map (\<lambda>(_, tr). flowDecision (guardsLocked e) tr) (e_torrents e)) =
      map (\<lambda>(_, tr). tr_t tr) (e_torrents e)"
    by (auto simp: flowDecision_def split: prod.splits)
  show "distinct (map fst (map (\<lambda>(_, tr). flowDecision (guardsLocked e) tr) (e_torrents e)))"
    unfolding eq by (rule distinct_handles [OF h d])
  have "dataFlow (guardsLocked e) tr = (False, False)"
    using tr(2) by (intro dataFlow_held) (auto simp: held_def guards_any_engine)
  then have "flowDecision (guardsLocked e) tr = (tr_t tr, False, False)" by (simp add: flowDecision_def)
  moreover have "(k, tr) \<in> set (e_torrents e)" using tr(1) by (rule map_of_SomeD)
  ultimately show "(tr_t tr, False, False) \<in> set (map (\<lambda>(_, tr). flowDecision (guardsLocked e) tr) (e_torrents e))"
    by (force simp: image_iff)
qed

lemma calm_seedLimits:
  "seedLimitsReachedLocked snaps now e = (out, b, e') \<Longrightarrow> calm (\<lambda>_. False) e e'"
proof (induction snaps now e arbitrary: out b e' rule: seedLimitsReachedLocked.induct)
  case (2 snap snaps now e)
  show ?case
  proof (cases "map_of (e_torrents e) (snap_ID snap)")
    case None
    then show ?thesis using 2 by simp
  next
    case (Some tr)
    let ?e = "upd_tr (snap_ID snap) (\<lambda>_. snd (markCompleted snap now tr)) e"
    have "calm (\<lambda>_. False) e ?e"
      by (rule calm_entry [where f = "\<lambda>_. snd (markCompleted snap now tr)" and k = "snap_ID snap"])
         (use Some in \<open>auto simp: same_or_calmer_def\<close>)
    moreover have "calm (\<lambda>_. False) ?e e'"
      using 2(2) [OF Some] 2(3) Some by (auto simp: Let_def split: prod.splits)
    ultimately show ?thesis by (rule calm_trans)
  qed
qed simp

definition all_off :: "(handle \<Rightarrow> tid) \<Rightarrow> engine \<Rightarrow> bool" where
  "all_off ih e \<longleftrightarrow> handles_ok ih e \<and> switches_ok (\<lambda>_. False) e"

lemma all_off_same:
  "all_off ih e \<Longrightarrow> e_torrents e' = e_torrents e \<Longrightarrow> e_blocked e' = e_blocked e \<Longrightarrow>
     e_lowDisk e' = e_lowDisk e \<Longrightarrow> (\<And>t. off (e_cmds e') t = off (e_cmds e) t) \<Longrightarrow> all_off ih e'"
  by (simp add: all_off_def handles_ok_def switches_ok_def held_def)

lemma all_off_SetPaused: "all_off ih e \<Longrightarrow> all_off ih (snd (SetPaused L mc k b e))"
proof (cases "map_of (e_torrents e) k")
  case (Some tr)
  assume e: "all_off ih e"
  let ?f = "\<lambda>tr. let tr1 = tr\<lparr>tr_paused := b\<rparr> in if b then cancelCheckLocked tr1 else tr1"
  have h: "handles_ok ih (upd_tr k ?f e)"
    by (rule handles_entry [of ih e _ k ?f])
       (use e in \<open>auto simp: all_off_def Let_def dest: handles_okD\<close>)
  have c: "calm_but (\<lambda>_. False) (Some k) e (upd_tr k ?f e)"
    by (rule calm_entry [where f = ?f and k = k]) simp_all
  have "all_off ih (flow_tr k (upd_tr k ?f e))"
    using switches_flow_tr [OF c h] e h handles_same [of "flow_tr k (upd_tr k ?f e)" "upd_tr k ?f e" ih]
    by (simp add: all_off_def)
  then show ?thesis
    by (rule all_off_same) (simp_all add: SetPaused_def lookup_def Some Let_def)
qed (simp add: SetPaused_def lookup_def)

lemma all_off_stop_seeding: "all_off ih e \<Longrightarrow> all_off ih (stop_seeding L mc ss e)"
proof (induction L mc ss e rule: stop_seeding.induct)
  case (2 L mc s ss e)
  have "all_off ih e1" if "SetPaused L mc (sl_id s) True e = (r, e1)" for r e1
    using all_off_SetPaused [OF 2(2), of L mc "sl_id s" True] that by simp
  moreover have "all_off ih (logf m e1) = all_off ih e1" for m e1
    by (simp add: all_off_def handles_ok_def switches_ok_def held_def)
  ultimately show ?case using 2 by (simp split: sum.split prod.split)
qed simp

text \<open>After a tick there is no exception: the verdict just read is in force for every torrent.\<close>

lemma tick_all_off:
  assumes h: "handles_ok ih e" and d: "distinct_keys (e_torrents e)"
  shows "all_off ih (tick L mc e)"
proof -
  let ?e1 = "refreshDisk mc (refreshVPN mc e)"
  let ?e2 = "tick_rates L mc ?e1"
  let ?e3 = "snd (newlyCompleteLocked L ?e2)"
  let ?flows = "map (\<lambda>(_, tr). flowDecision (guardsLocked ?e2) tr) (e_torrents ?e2)"
  obtain stop clock e4 where sl: "seedLimitsReachedLocked (ev_Torrents (eventLocked L mc ?e2)) (m_now mc) ?e3
      = (stop, clock, e4)" by (metis prod_cases3)
  let ?e5 = "if clock then persist L mc e4 else e4"
  have h2: "handles_ok ih ?e2"
    using h by (intro handles_quiet [OF quiet_tick_rates]) (simp add: handles_ok_def)
  have d2: "distinct_keys (e_torrents ?e2)" using d by (simp add: tick_rates_def Let_def)
  have "calm (\<lambda>_. False) ?e2 ?e3"
    by (rule calm_vals [where f = "\<lambda>_ tr. if newly_complete L ?e2 tr then tr\<lparr>tr_completeLogged := True\<rparr> else tr"])
       (simp_all add: newlyCompleteLocked_def same_or_calmer_def)
  then have "calm (\<lambda>_. False) ?e2 e4" using calm_seedLimits [OF sl] by (rule calm_trans)
  moreover have "calm (\<lambda>_. False) e4 ?e5" by (rule calm_same) simp_all
  ultimately have c: "calm (\<lambda>_. False) ?e2 ?e5" by (rule calm_trans)
  have "quiet ?e2 ?e3"
    by (rule quiet_vals [where f = "\<lambda>_ tr. if newly_complete L ?e2 tr then tr\<lparr>tr_completeLogged := True\<rparr> else tr"])
       (simp_all add: newlyCompleteLocked_def)
  then have "quiet ?e2 ?e5"
    using quiet_seedLimits [OF sl] by (auto intro: quiet_trans simp: quiet_def)
  then have h5: "handles_ok ih (apply_flows ?flows ?e5)"
    using handles_quiet [OF _ h2] handles_same [of "apply_flows ?flows ?e5" ?e5 ih] by simp
  have "switches_ok (\<lambda>_. False) (apply_flows ?flows ?e5)"
    unfolding switches_ok_def
  proof (intro allI impI)
    fix k tr' assume "map_of (e_torrents (apply_flows ?flows ?e5)) k = Some tr'"
      and hl: "held (apply_flows ?flows ?e5) tr'"
    then obtain tr where tr: "map_of (e_torrents ?e2) k = Some tr" "same_or_calmer (\<lambda>_. False) tr tr'"
      using c unfolding calm_but_def by (metis apply_flows_simps(1) option.distinct(1))
    have "held ?e2 tr"
      using hl tr(2) c unfolding held_def same_or_calmer_def calm_but_def apply_flows_simps by blast
    then have "off (e_cmds (apply_flows ?flows ?e5)) (tr_t tr)" by (rule flows_off [OF h2 d2 tr(1)])
    then show "off (e_cmds (apply_flows ?flows ?e5)) (tr_t tr')" using tr(2) by (simp add: same_or_calmer_def)
  qed
  then have "all_off ih (stop_seeding L mc stop (apply_flows ?flows ?e5))"
    using h5 by (intro all_off_stop_seeding) (simp add: all_off_def)
  moreover have "tick L mc e = broadcast (eventLocked L mc ?e2)
      (report_complete (fst (newlyCompleteLocked L ?e2)) (stop_seeding L mc stop (apply_flows ?flows ?e5)))"
    using sl by (simp add: tick_def Let_def case_prod_beta)
  ultimately show ?thesis by (auto intro: all_off_same)
qed

lemma safe_tick [safe_ops]: "safe ih e \<Longrightarrow> safe ih (tick L mc e)"
proof -
  assume e: "safe ih e"
  then have "distinct_keys (e_torrents e)" by (auto simp: safe_def checks.inv_on_def)
  then have "all_off ih (tick L mc e)" using e by (intro tick_all_off) (auto dest: safeD)
  then show ?thesis using checks.inv_tick [OF safeD(1) [OF e]]
    by (auto simp: safe_def all_off_def switches_ok_def)
qed

subsection \<open>Shutdown, and every run\<close>

lemma safe_drain_all: "safe ih e \<Longrightarrow> safe ih (drain_all L mc ks e)"
proof (induction L mc ks e rule: drain_all.induct)
  case (2 L mc k ks e)
  have "safe ih (case map_of (e_torrents e) k of None \<Rightarrow> e | Some tr \<Rightarrow> drain L mc k (tr_checks tr) e)"
    using 2(2) by (auto split: option.splits intro!: safe_drain own_id_of_check dest: safeD(1))
  then show ?case using 2(1) by simp
qed simp

lemma safe_Close [safe_ops]: "safe ih e \<Longrightarrow> safe ih (Close L mc e)"
proof (cases "e_closed e")
  case False
  assume e: "safe ih e"
  let ?e2 = "(cancel_all (persist L mc e))\<lparr>e_closed := True, e_waiting := []\<rparr>"
  have "safe ih ?e2"
  proof (rule safe_calm [OF e])
    show "checks.inv ?e2" using safeD(1) [OF e] by (simp add: cancel_all_def checks.inv_vals checks.cancel)
    show "quiet e ?e2" by (rule quiet_vals [where f = "\<lambda>_. cancelCheckLocked"]) (simp_all add: cancel_all_def)
    show "calm just_moved e ?e2"
      by (rule calm_vals [where f = "\<lambda>_. cancelCheckLocked"]) (simp_all add: cancel_all_def same_or_calmer_def)
  qed
  then have "safe ih (drain_all L mc (map fst (e_torrents ?e2)) ?e2)" by (rule safe_drain_all)
  then show ?thesis
    using False by (auto simp: Close_def closeNow_def Let_def intro: safe_same)
qed (simp add: Close_def)

lemma safe_exec: "safe ih e \<Longrightarrow> lib_ok ih L \<Longrightarrow> safe ih (exec L mc op e)"
  by (cases op) (simp_all add: AddMagnet_def AddTorrentFile_def safe_ops split: option.splits)

lemma safe_run:
  "safe ih e \<Longrightarrow> list_all (\<lambda>(L, _, _). lib_ok ih L) xs \<Longrightarrow> safe ih (run_steps engine_step xs e)"
  by (induction xs arbitrary: e) (auto simp: engine_step_def safe_exec)

lemma safe_New: "New bind mc cfg disk files = Inr e \<Longrightarrow> safe ih e"
  by (simp add: safe_def handles_ok_def switches_ok_def New_ok checks.inv_Nil)

end
