(* ===== verification/TickFacts.thy ===== *)
theory TickFacts
  imports EngineHolds
begin

text \<open>
  What one tick does, field by field: which torrents there are afterwards, which verdicts are in
  force, what the completion hook was called with, and which torrents the seeding limits stopped.
\<close>

subsection \<open>The parts of a tick\<close>

definition same_but_torrents :: "engine \<Rightarrow> engine \<Rightarrow> bool" where
  "same_but_torrents e e' \<longleftrightarrow> map fst (e_torrents e') = map fst (e_torrents e) \<and>
     e_blocked e' = e_blocked e \<and> e_lowDisk e' = e_lowDisk e \<and>
     e_completions e' = e_completions e \<and> e_cfg e' = e_cfg e"

lemma same_but_torrents_trans:
  "same_but_torrents e1 e2 \<Longrightarrow> same_but_torrents e2 e3 \<Longrightarrow> same_but_torrents e1 e3"
  by (simp add: same_but_torrents_def)

lemma set_priorities_completions [simp]: "e_completions (set_priorities t ps e) = e_completions e"
  by (induction t ps e rule: set_priorities.induct) simp_all

lemma SetPaused_same: "same_but_torrents e (snd (SetPaused L mc k b e))"
  by (simp add: same_but_torrents_def SetPaused_def downloadUnchosenFiles_def Let_def split: sum.splits)

lemma apply_flows_completions [simp]: "e_completions (apply_flows ds e) = e_completions e"
  by (induction ds e rule: apply_flows.induct) simp_all

lemma stop_seeding_same: "same_but_torrents e (stop_seeding L mc ss e)"
proof (induction L mc ss e rule: stop_seeding.induct)
  case (1 L mc e)
  then show ?case by (simp add: same_but_torrents_def)
next
  case (2 L mc s ss e)
  obtain r e1 where s: "SetPaused L mc (sl_id s) True e = (r, e1)" by force
  have "same_but_torrents e (logf m e1)" for m
    using SetPaused_same [of e L mc "sl_id s" True] s by (simp add: same_but_torrents_def)
  moreover obtain m where "stop_seeding L mc (s # ss) e = stop_seeding L mc ss (logf m e1)"
      "same_but_torrents (logf m e1) (stop_seeding L mc ss (logf m e1))"
    using 2 s by (cases r) auto
  ultimately show ?case by (metis same_but_torrents_trans)
qed

lemma seedLimits_same:
  "seedLimitsReachedLocked snaps now e = (out, b, e') \<Longrightarrow> same_but_torrents e e'"
proof (induction snaps now e arbitrary: out b e' rule: seedLimitsReachedLocked.induct)
  case (1 now e)
  then show ?case by (simp add: same_but_torrents_def)
next
  case (2 snap snaps now e)
  show ?case
  proof (cases "map_of (e_torrents e) (snap_ID snap)")
    case None
    then show ?thesis using 2 by simp
  next
    case (Some tr)
    let ?e = "upd_tr (snap_ID snap) (\<lambda>_. snd (markCompleted snap now tr)) e"
    obtain out' b' e2 where r: "seedLimitsReachedLocked snaps now ?e = (out', b', e2)"
      by (metis prod_cases3)
    then have "e' = e2" using 2(3) Some by (simp add: Let_def split: prod.splits)
    moreover have "same_but_torrents ?e e2"
      using 2(2) [OF Some _ refl refl] r by (auto simp: prod_eq_iff)
    moreover have "same_but_torrents e ?e" by (simp add: same_but_torrents_def)
    ultimately show ?thesis by (metis same_but_torrents_trans)
  qed
qed

lemma report_complete_same [simp]:
  "e_torrents (report_complete ss e) = e_torrents e"
  "e_blocked (report_complete ss e) = e_blocked e" "e_lowDisk (report_complete ss e) = e_lowDisk e"
  "e_cmds (report_complete ss e) = e_cmds e"
  by (induction ss e rule: report_complete.induct; simp add: Let_def)+

lemma report_complete_completions:
  "e_completions (report_complete ss e) =
     (if cfg_OnComplete (e_cfg e) then rev ss @ e_completions e else e_completions e)"
  by (induction ss e rule: report_complete.induct) (simp_all add: Let_def)

text \<open>The names the source's tick gives its intermediate results.\<close>

lemma tick_parts:
  obtains e2 stop clock e4 where
    "e2 = tick_rates L mc (refreshDisk mc (refreshVPN mc e))"
    "seedLimitsReachedLocked (ListTorrents L e2) (m_now mc) (snd (newlyCompleteLocked L e2)) = (stop, clock, e4)"
    "tick L mc e = broadcast (eventLocked L mc e2)
       (report_complete (fst (newlyCompleteLocked L e2))
         (stop_seeding L mc stop (apply_flows
            (map (\<lambda>(_, tr). flowDecision (guardsLocked e2) tr) (e_torrents e2))
            (if clock then persist L mc e4 else e4))))"
proof -
  let ?e2 = "tick_rates L mc (refreshDisk mc (refreshVPN mc e))"
  obtain stop clock e4 where sl: "seedLimitsReachedLocked (ListTorrents L ?e2) (m_now mc)
      (snd (newlyCompleteLocked L ?e2)) = (stop, clock, e4)" by (metis prod_cases3)
  moreover have "ev_Torrents (eventLocked L mc ?e2) = ListTorrents L ?e2"
    by (simp add: eventLocked_def Let_def)
  ultimately show thesis using that [OF refl sl] by (simp add: tick_def Let_def case_prod_beta)
qed

lemma guards_same [simp]:
  "e_torrents (refreshVPN mc e) = e_torrents e" "e_torrents (refreshDisk mc e) = e_torrents e"
  "e_lowDisk (refreshVPN mc e) = e_lowDisk e" "e_blocked (refreshDisk mc e) = e_blocked e"
  "e_completions (refreshVPN mc e) = e_completions e" "e_completions (refreshDisk mc e) = e_completions e"
  "e_cfg (refreshVPN mc e) = e_cfg e" "e_cfg (refreshDisk mc e) = e_cfg e"
  "e_cmds (refreshVPN mc e) = e_cmds e" "e_cmds (refreshDisk mc e) = e_cmds e"
  by (simp_all add: refreshVPN_def refreshDisk_def Let_def split: sum.splits prod.splits)

lemma tick_same:
  "map fst (e_torrents (tick L mc e)) = map fst (e_torrents e) \<and>
   e_blocked (tick L mc e) = e_blocked (refreshVPN mc e) \<and>
   e_lowDisk (tick L mc e) = e_lowDisk (refreshDisk mc (refreshVPN mc e)) \<and>
   e_completions (tick L mc e) =
     (if cfg_OnComplete (e_cfg e)
      then rev (fst (newlyCompleteLocked L (tick_rates L mc (refreshDisk mc (refreshVPN mc e))))) @ e_completions e
      else e_completions e)"
proof (rule tick_parts [of L mc e])
  fix e2 stop clock e4
  let ?e5 = "if clock then persist L mc e4 else e4"
  let ?e7 = "stop_seeding L mc stop (apply_flows (map (\<lambda>(_, tr). flowDecision (guardsLocked e2) tr) (e_torrents e2)) ?e5)"
  assume e2: "e2 = tick_rates L mc (refreshDisk mc (refreshVPN mc e))"
    and sl: "seedLimitsReachedLocked (ListTorrents L e2) (m_now mc) (snd (newlyCompleteLocked L e2)) = (stop, clock, e4)"
    and t: "tick L mc e = broadcast (eventLocked L mc e2) (report_complete (fst (newlyCompleteLocked L e2)) ?e7)"
  have "same_but_torrents e4 ?e7"
    using stop_seeding_same [of "apply_flows (map (\<lambda>(_, tr). flowDecision (guardsLocked e2) tr) (e_torrents e2)) ?e5" L mc stop]
    by (simp add: same_but_torrents_def)
  with seedLimits_same [OF sl] have s: "same_but_torrents (snd (newlyCompleteLocked L e2)) ?e7"
    by (rule same_but_torrents_trans)
  have "map fst (e_torrents e2) = map fst (e_torrents e) \<and> e_blocked e2 = e_blocked (refreshVPN mc e) \<and>
      e_lowDisk e2 = e_lowDisk (refreshDisk mc (refreshVPN mc e)) \<and>
      e_completions e2 = e_completions e \<and> e_cfg e2 = e_cfg e"
    by (simp add: e2 tick_rates_def Let_def)
  then show ?thesis using s
    by (simp add: t e2 [symmetric] same_but_torrents_def report_complete_completions newlyCompleteLocked_def)
qed

end
