(* ===== verification/Demo.thy ===== *)
theory Demo
  imports TickFacts
begin

text \<open>
  Concrete inputs for the witnesses: a torrent library with one two-file torrent, a machine with
  plenty of disk and no VPN, a configuration, and an engine started from them. A magnet gives the
  library's first object, whose infohash is \<open>a1\<close>; adding it again from its own metainfo gives the
  next object with the same infohash.
\<close>

definition demo_file :: "string \<Rightarrow> piece_priority \<Rightarrow> fview" where
  "demo_file path p = \<lparr>fv_path = path, fv_length = 100, fv_completed = 100, fv_priority = p\<rparr>"

definition demo_view :: "libcmd list \<Rightarrow> handle \<Rightarrow> tview" where
  "demo_view cs t =
     \<lparr>tv_hasInfo = True, tv_name = ''show'', tv_infohash = ''a1'', tv_length = 200, tv_completed = 200,
      tv_complete = True, tv_numPieces = 2, tv_pieceLength = 100,
      tv_files = [demo_file ''show/a.mkv'' (last_priority cs t 0),
                  demo_file ''show/b.nfo'' (last_priority cs t 1)],
      tv_stats = \<lparr>st_read = 0, st_written = 0, st_activePeers = 0, st_seeders = 0\<rparr>,
      tv_runs = [], tv_conns = [], tv_announceList = [], tv_announce = [], tv_specErr = None,
      tv_pieceLayers = 0\<rparr>"

definition demo_add :: "libcmd list \<Rightarrow> tspec \<Rightarrow> handle result" where
  "demo_add cs sp = (case sp_source sp of FromMetainfo t \<Rightarrow> Inr (Suc t) | _ \<Rightarrow> Inr 0)"

definition demo_lib :: lib where
  "demo_lib = \<lparr>lib_view = demo_view, lib_add = demo_add, lib_parse_magnet = (\<lambda>_. None),
     lib_load_file = (\<lambda>_. None), lib_spec_of_file = (\<lambda>_. None), lib_verify = (\<lambda>_ _ _. None),
     lib_port = (\<lambda>_. 6881), lib_dhtNodes = (\<lambda>_. [])\<rparr>"

definition demo_machine :: "bool \<Rightarrow> machine" where
  "demo_machine vpn = \<lparr>m_now = 1000, m_statfs = (\<lambda>_. Inr (1000, 2000, 4096)),
     m_vpn = \<lparr>vpn_Active = vpn, vpn_Interface = ''wg0'', vpn_Reason = ''''\<rparr>\<rparr>"

definition demo_config :: Config where
  "demo_config = \<lparr>cfg_DataDir = ''/d'', cfg_ListenPortLow = 0, cfg_ListenPortHigh = 0,
     cfg_RequireVPN = True, cfg_VPNCheck = True, cfg_UploadRateLimit = 0, cfg_DownloadRateLimit = 0,
     cfg_OnComplete = True, cfg_SeedRatio = Fin 2, cfg_SeedTime = 0, cfg_MinFreeSpace = 0,
     cfg_StateDir = ''/s'', cfg_Version = ''1''\<rparr>"

definition demo_disk :: statedir where
  "demo_disk = \<lparr>sd_session = NoSession, sd_metainfo = [], sd_mkdirFault = None,
     sd_metainfoFault = (\<lambda>_. None), sd_writeFault = None\<rparr>"

definition demo_fs :: fs where
  "demo_fs = \<lparr>fs_nodes = [(''/'', DirNode), (''/d'', DirNode), (''/d/show'', DirNode),
     (''/d/show/a.mkv'', FileNode ''film''), (''/d/show/b.nfo.part'', FileNode ''note''),
     (''/d/other'', FileNode ''keep'')], fs_denied = [], fs_otherDev = []\<rparr>"

definition demo_opts :: "bool \<Rightarrow> AddOpts" where
  "demo_opts paused = \<lparr>opt_SavePath = [], opt_Paused = paused, opt_Files = []\<rparr>"

definition demo_engine :: "bool \<Rightarrow> engine" where
  "demo_engine vpn = projr (New (\<lambda>_. None) (demo_machine vpn) demo_config demo_disk demo_fs)"

text \<open>The same engine with the torrent added, and its metadata arrived.\<close>

definition demo_added :: "bool \<Rightarrow> bool \<Rightarrow> engine" where
  "demo_added vpn paused =
     snd (AddMagnet demo_lib (demo_machine vpn) ''magnet:a1'' (demo_opts paused) (demo_engine vpn))"

lemma demo_lib_ok: "lib_ok (\<lambda>_. ''a1'') demo_lib"
  by (simp add: lib_ok_def demo_lib_def demo_view_def)

lemma demo_started: "New (\<lambda>_. None) (demo_machine vpn) demo_config demo_disk demo_fs = Inr (demo_engine vpn)"
proof -
  have mk: "os_mkdirAll ''/d'' demo_fs = (True, demo_fs)" by code_simp
  show ?thesis
    by (simp add: demo_engine_def New_def demo_config_def mk newClientOnPortRange_def)
qed

lemma demo_engine_fields:
  "e_torrents (demo_engine vpn) = []" "e_cmds (demo_engine vpn) = []" "e_cfg (demo_engine vpn) = demo_config"
  "e_blocked (demo_engine vpn) = (\<not> vpn)" "e_lowDisk (demo_engine vpn) = False" 
  "e_waiting (demo_engine vpn) = []" "e_subs (demo_engine vpn) = []" "e_disk (demo_engine vpn) = demo_disk"
  "e_fs (demo_engine vpn) = demo_fs" "e_restoring (demo_engine vpn) = False"
proof -
  have mk: "os_mkdirAll ''/d'' demo_fs = (True, demo_fs)" by code_simp
  have e: "demo_engine vpn = projr (New (\<lambda>_. None) (demo_machine vpn) demo_config demo_disk demo_fs)"
    by (simp add: demo_engine_def)
  show "e_torrents (demo_engine vpn) = []" "e_cmds (demo_engine vpn) = []" "e_cfg (demo_engine vpn) = demo_config"
  "e_blocked (demo_engine vpn) = (\<not> vpn)" "e_lowDisk (demo_engine vpn) = False" 
  "e_waiting (demo_engine vpn) = []" "e_subs (demo_engine vpn) = []" "e_disk (demo_engine vpn) = demo_disk"
  "e_fs (demo_engine vpn) = demo_fs" "e_restoring (demo_engine vpn) = False"
    by (simp_all add: e New_def refreshVPN_def refreshDisk_def demo_config_def demo_machine_def Let_def mk newClientOnPortRange_def)
qed

lemma demo_torrents:
  "e_torrents (demo_added vpn paused) =
     [(''a1'', new_tracked 0 1000 ''magnet:a1'' paused ''/d'' None)]"
  by (simp add: demo_added_def AddMagnet_def addSpec_def own_storage_def Let_def demo_engine_fields enter_torrent_def vw_def
     demo_lib_def demo_opts_def demo_add_def demo_view_def demo_machine_def demo_config_def)

lemma demo_cfg: "e_cfg (demo_added vpn paused) = demo_config"
  by (simp add: demo_added_def AddMagnet_def addSpec_def own_storage_def Let_def demo_engine_fields enter_torrent_def
     demo_lib_def demo_opts_def demo_add_def split: option.splits)

lemma demo_cmds: "e_cmds (demo_added vpn paused) =
  (if vpn \<and> \<not> paused then [AllowDataUpload 0, AllowDataDownload 0] else [DisallowDataUpload 0, DisallowDataDownload 0])
  @ [AddTorrentSpec \<lparr>sp_source = FromMagnet ''magnet:a1'', sp_storage = None, sp_layersCleared = False\<rparr>]"
  by (simp add: demo_added_def AddMagnet_def addSpec_def own_storage_def Let_def demo_engine_fields enter_torrent_def vw_def
     demo_lib_def demo_opts_def demo_add_def demo_view_def demo_machine_def demo_config_def flow_tr_def flowDecision_def 
     dataFlow_def guardsLocked_def guards_any_def applyFlow_def new_tracked_def)

lemma demo_fs: "e_fs (demo_added vpn paused) = demo_fs"
  by (simp add: demo_added_def AddMagnet_def addSpec_def own_storage_def Let_def demo_engine_fields enter_torrent_def
     demo_lib_def demo_opts_def demo_add_def split: option.splits)

lemma demo_quiesce: "quiesceCheck L mc ''a1'' (demo_added vpn paused) = upd_tr ''a1'' cancelCheckLocked (demo_added vpn paused)"
  by (simp add: quiesceCheck_def Let_def demo_torrents new_tracked_def cancelCheckLocked_def)

lemma demo_view_of: "vw demo_lib e t = demo_view (e_cmds e) t"
  by (simp add: vw_def demo_lib_def)

lemma demo_move_all:
  "fst (os_mkdirAll ''/m'' demo_fs)"
  "fst (move_all ''/d'' ''/m'' [''show/a.mkv'', ''show/b.nfo''] (snd (os_mkdirAll ''/m'' demo_fs))) = Inr ()"
  by code_simp+

lemma demo_moved:
  "let r = MoveStorage demo_lib (demo_machine True) ''a1'' ''/m'' (demo_added True True) in
    fst r = Inr () \<and> (\<exists>tr. map_of (e_torrents (snd r)) ''a1'' = Some tr \<and> tr_t tr = 1 \<and> tr_paused tr)"
proof -
  obtain f where f: "os_mkdirAll ''/m'' demo_fs = (True, f)" using demo_move_all(1) by (cases "os_mkdirAll ''/m'' demo_fs") auto
  obtain f2 where g: "move_all ''/d'' ''/m'' [''show/a.mkv'', ''show/b.nfo''] f = (Inr (), f2)"
    using demo_move_all(2) f by (cases "move_all ''/d'' ''/m'' [''show/a.mkv'', ''show/b.nfo''] f") auto
  show ?thesis
    by (simp add: Let_def MoveStorage_def quiesced_def lookup_def demo_quiesce demo_torrents moveNow_def demo_view_of demo_fs f
        demo_view_def demo_file_def g readd_moved_def new_tracked_def del: move_all.simps)
       (simp add: demo_lib_def demo_add_def respec_def beginCheck_def foldCounters_def beginCheck_tr_def Let_def demo_torrents
          new_tracked_def cancelCheckLocked_def)
qed

lemma demo_reachable: "e = run_steps engine_step xs (demo_engine vpn) \<Longrightarrow> reachable e"
  using reachable_run [OF reachable.start [OF demo_started]] by metis

lemma save_pending_faults [simp]:
  "sd_mkdirFault (e_disk (save_pending ks e)) = sd_mkdirFault (e_disk e)"
  by (induction ks arbitrary: e) (simp_all split: option.splits)

lemma persist_faults [simp]:
  "sd_mkdirFault (e_disk (persist L mc e)) = sd_mkdirFault (e_disk e)"
  "sd_writeFault (e_disk (persist L mc e)) = sd_writeFault (e_disk e)"
  by (simp_all add: persist_def SaveSession_def saveMetainfo_def writeFileAtomic_def Let_def
      split: prod.splits option.splits sum.splits)

lemma demo_faults:
  "sd_mkdirFault (e_disk (demo_added vpn paused)) = None"
  "sd_writeFault (e_disk (demo_added vpn paused)) = None"
  by (simp_all add: demo_added_def AddMagnet_def addSpec_def own_storage_def Let_def demo_engine_fields
     enter_torrent_def demo_lib_def demo_opts_def demo_add_def demo_disk_def)

lemma demo_saves: "fst (SaveSession demo_lib mc (demo_added vpn paused)) = Inr ()"
proof -
  have "f64_finite (Fin x)" for x by (simp add: f64_finite_def)
  then have "\<nexists>err. json_records (map (\<lambda>(k, tr). recordLocked demo_lib (demo_added vpn paused) k tr)
      (e_torrents (demo_added vpn paused))) = Inl err"
    unfolding json_records_Inl by (simp add: demo_torrents new_tracked_def)
  then show ?thesis
    by (auto simp: SaveSession_def demo_cfg demo_config_def demo_faults writeFileAtomic_def Let_def saveMetainfo_disk
        split: sum.splits)
qed

subsection \<open>Facts on verifications and switches\<close>

text \<open>
  Facts the properties of the engine rest on: what waiting for the verifications of a torrent leaves,
  and which switches it can touch.
\<close>

lemma switches_all:
  "distinct_keys (e_torrents e) \<Longrightarrow> switches_ok X e \<Longrightarrow>
     list_all (\<lambda>(_, tr). \<not> held e tr \<or> X tr \<or> off (e_cmds e) (tr_t tr)) (e_torrents e)"
  unfolding switches_ok_def list_all_iff by (metis (no_types, lifting) case_prodI2 map_of_mem)

lemma checks_drain:
  "map_of (e_torrents (drain L mc k cks e)) k = Some tr \<Longrightarrow>
     \<exists>tr0. map_of (e_torrents e) k = Some tr0 \<and> tr_t tr = tr_t tr0 \<and>
       tr_checks tr = filter (\<lambda>c. ck_id c \<notin> ck_id ` set cks) (tr_checks tr0)"
proof (induction cks arbitrary: e)
  case (Cons ck cks)
  obtain out n where r: "drain L mc k (ck # cks) e = drain L mc k cks (finish_check L mc k ck out n e)"
    by (simp add: runCheck_def case_prod_beta)
  obtain tr1 where tr1: "map_of (e_torrents (finish_check L mc k ck out n e)) k = Some tr1"
      "tr_t tr = tr_t tr1" "tr_checks tr = filter (\<lambda>c. ck_id c \<notin> ck_id ` set cks) (tr_checks tr1)"
    using Cons.IH Cons.prems unfolding r by blast
  obtain tr0 where "map_of (e_torrents e) k = Some tr0" "tr_t tr1 = tr_t tr0"
      "tr_checks tr1 = filter (\<lambda>c. ck_id c \<noteq> ck_id ck) (tr_checks tr0)"
    using tr1(1) by (cases "ck_kind ck"; cases out) (auto simp: e_torrents_finish_check Let_def)
  then show ?case using tr1 by (auto intro!: filter_cong)
qed auto

lemma checks_quiesce:
  assumes "map_of (e_torrents (quiesceCheck L mc k e)) k = Some tr"
  shows "tr_checks tr = [] \<and> (\<exists>tr0. map_of (e_torrents e) k = Some tr0 \<and> tr_t tr = tr_t tr0)"
proof (cases "map_of (e_torrents e) k")
  case None
  then show ?thesis using assms by (simp add: quiesceCheck_def Let_def)
next
  case (Some tr0)
  then have "map_of (e_torrents (drain L mc k (tr_checks (cancelCheckLocked tr0)) (upd_tr k cancelCheckLocked e))) k = Some tr"
    using assms by (simp add: quiesceCheck_def Let_def)
  from checks_drain [OF this] Some obtain
    "tr_t tr = tr_t tr0" "tr_checks tr = filter (\<lambda>c. ck_id c \<notin> ck_id ` set (tr_checks (cancelCheckLocked tr0)))
       (tr_checks (cancelCheckLocked tr0))" by (auto simp del: ids_cancelCheckLocked)
  moreover have "filter (\<lambda>c. ck_id c \<notin> ck_id ` set cks) cks = []" for cks
    by (simp add: filter_empty_conv)
  ultimately show ?thesis using Some by (simp del: ids_cancelCheckLocked)
qed

lemma down_drain:
  "map_of (e_torrents e) k = Some tr0 \<Longrightarrow> t \<noteq> tr_t tr0 \<Longrightarrow>
     down_allowed (e_cmds (drain L mc k cks e)) t = down_allowed (e_cmds e) t"
proof (induction cks arbitrary: e tr0)
  case (Cons ck cks)
  obtain out n where r: "drain L mc k (ck # cks) e = drain L mc k cks (finish_check L mc k ck out n e)"
    by (simp add: runCheck_def case_prod_beta)
  obtain tr1 where tr1: "map_of (e_torrents (finish_check L mc k ck out n e)) k = Some tr1" "tr_t tr1 = tr_t tr0"
    using Cons.prems(1) by (cases "ck_kind ck"; cases out) (auto simp: e_torrents_finish_check Let_def)
  have "down_allowed (e_cmds (finish_check L mc k ck out n e)) t = down_allowed (e_cmds e) t"
    using Cons.prems
    by (cases "ck_kind ck"; cases out) (simp_all add: finish_check_def Let_def flow_tr_down)
  then show ?case using Cons.IH [OF tr1(1)] tr1(2) Cons.prems(2) r by simp
qed simp

lemma down_quiesce:
  "map_of (e_torrents e) k = Some tr0 \<Longrightarrow> t \<noteq> tr_t tr0 \<Longrightarrow>
     down_allowed (e_cmds (quiesceCheck L mc k e)) t = down_allowed (e_cmds e) t"
  by (simp add: quiesceCheck_def Let_def down_drain)

end
