(* ===== verification/RestoreFacts.thy ===== *)
theory RestoreFacts
  imports Demo
begin

text \<open>
  What \<^verbatim>\<open>restoreOne\<close> does, entry by entry: the torrent it adds has the fields of its record, and a
  file the record calls \<^verbatim>\<open>none\<close> is one the user chose from then on.
\<close>

subsection \<open>What JSON does to a string\<close>

lemma json_str_Nil_iff: "json_str s = [] \<longleftrightarrow> s = []"
proof (cases s)
  case (Cons c cs)
  obtain r n where f: "first_rune c cs = (r, n)" by force
  have "json_str s \<noteq> []"
    unfolding Cons json_str_def utf8.simps f Let_def by (simp add: replacement_def)
  then show ?thesis using Cons by simp
qed (simp add: json_str_def)

text \<open>A string that is UTF-8 already comes back as it was.\<close>

definition valid_utf8 :: "string \<Rightarrow> bool" where
  "valid_utf8 s \<longleftrightarrow> list_all (\<lambda>(r, bs). r \<noteq> rune_error \<or> List.length bs \<noteq> 1) (utf8 s)"

lemma json_str_valid: "valid_utf8 s \<Longrightarrow> json_str s = s"
proof -
  assume v: "valid_utf8 s"
  have "map (\<lambda>(r, bs). if r = rune_error \<and> List.length bs = 1 then replacement else bs) (utf8 s) = map snd (utf8 s)"
    using v by (intro map_cong) (auto simp: valid_utf8_def list_all_iff)
  then show "json_str s = s" unfolding json_str_def by (simp only: unchunk_utf8 [unfolded unchunk_def])
qed

lemma json_str_ascii: "list_all (\<lambda>c. of_char c < (128::nat)) s \<Longrightarrow> json_str s = s"
  by (rule json_str_valid) (auto simp: valid_utf8_def utf8_ascii list_all_iff rune_error_def)

subsection \<open>The entry a restore leaves\<close>

lemma own_storage_torrents: "own_storage opts e = (r, e1) \<Longrightarrow> e_torrents e1 = e_torrents e \<and> e_cfg e1 = e_cfg e"
  by (auto simp: own_storage_def split: if_splits prod.splits bool.splits)

lemma addSpec_parts:
  assumes "addSpec L mc src opts uri e = (Inr k, e1)"
  obtains own e0 t where "e_torrents e0 = e_torrents e" "e_cfg e0 = e_cfg e" "e_cfg e1 = e_cfg e"
    "e_torrents e1 = e_torrents (enter_torrent mc k t opts uri own e0)"
proof -
  obtain r e0 where o: "own_storage opts e = (r, e0)" by force
  obtain own where r: "r = Inr own" using assms o by (cases r) (auto simp: addSpec_def)
  let ?spec = "\<lparr>sp_source = src, sp_storage = own, sp_layersCleared = False\<rparr>"
  obtain t where t: "lib_add L (e_cmds e0) ?spec = Inr t"
    using assms o r by (cases "lib_add L (e_cmds e0) ?spec") (auto simp: addSpec_def Let_def)
  have c: "e_cfg (enter_torrent mc k' t opts uri own e') = e_cfg e'" for k' e'
    by (simp add: enter_torrent_def Let_def split: option.splits)
  have "k = tv_infohash (vw L (cmd (AddTorrentSpec ?spec) e0) t)" "e_cfg e1 = e_cfg e0"
    "e_torrents e1 = e_torrents (enter_torrent mc k t opts uri own (cmd (AddTorrentSpec ?spec) e0))"
    using assms o r t c by (auto simp: addSpec_def Let_def)
  then show thesis using that [of "cmd (AddTorrentSpec ?spec) e0" t own] own_storage_torrents [OF o] by simp
qed

lemma addSpec_entry:
  assumes "addSpec L mc src opts uri e = (Inr k, e1)"
  shows "e_cfg e1 = e_cfg e" "k' \<noteq> k \<Longrightarrow> map_of (e_torrents e1) k' = map_of (e_torrents e) k'"
    "map_of (e_torrents e) k = None \<Longrightarrow> \<exists>t own. map_of (e_torrents e1) k =
       Some (new_tracked t (m_now mc) uri (opt_Paused opts)
         (if opt_SavePath opts \<noteq> [] then opt_SavePath opts else cfg_DataDir (e_cfg e)) own)"
proof -
  obtain own e0 t where e: "e_torrents e0 = e_torrents e" "e_cfg e0 = e_cfg e" "e_cfg e1 = e_cfg e"
    "e_torrents e1 = e_torrents (enter_torrent mc k t opts uri own e0)"
    by (rule addSpec_parts [OF assms])
  show "e_cfg e1 = e_cfg e" by (rule e(3))
  show "k' \<noteq> k \<Longrightarrow> map_of (e_torrents e1) k' = map_of (e_torrents e) k'"
    using e by (cases "map_of (e_torrents e) k") (simp_all add: enter_torrent_def Let_def)
  show "\<exists>t own. map_of (e_torrents e1) k = Some (new_tracked t (m_now mc) uri (opt_Paused opts)
      (if opt_SavePath opts \<noteq> [] then opt_SavePath opts else cfg_DataDir (e_cfg e)) own)"
    if "map_of (e_torrents e) k = None"
    using e that by (auto simp: enter_torrent_def Let_def)
qed

text \<open>An entry to which only choices of files were added.\<close>

definition only_choices :: "tid \<Rightarrow> engine \<Rightarrow> engine \<Rightarrow> bool" where
  "only_choices k e e' \<longleftrightarrow> e_cfg e' = e_cfg e \<and>
     (\<forall>k'. k' \<noteq> k \<longrightarrow> map_of (e_torrents e') k' = map_of (e_torrents e) k') \<and>
     map_option (tr_chosenFiles_update (\<lambda>_. [])) (map_of (e_torrents e') k) =
     map_option (tr_chosenFiles_update (\<lambda>_. [])) (map_of (e_torrents e) k)"

lemma only_choices_refl [simp]: "only_choices k e e"
  by (simp add: only_choices_def)

lemma only_choices_trans: "only_choices k e1 e2 \<Longrightarrow> only_choices k e2 e3 \<Longrightarrow> only_choices k e1 e3"
  by (simp add: only_choices_def)

lemma SetFilePriority_choices: "only_choices k e (snd (SetFilePriority L mc k i p e))"
  by (auto simp: SetFilePriority_def Let_def choose_file_def only_choices_def split: sum.splits)

lemma logf_choices [simp]: "only_choices k e (logf m e') = only_choices k e e'"
  by (simp add: only_choices_def)

lemma restore_priorities_choices: "only_choices k e (restore_priorities L mc k fps e)"
proof (induction L mc k fps e rule: restore_priorities.induct)
  case (2 L mc k fp fps e)
  let ?e1 = "case ParsePriority (fpr_Priority fp) of
        None \<Rightarrow> logf (UnknownPriority k (fpr_Index fp) (fpr_Priority fp)) e
      | Some prio \<Rightarrow> (case SetFilePriority L mc k (fpr_Index fp) prio e of
          (Inl err, e1) \<Rightarrow> logf (PriorityNotRestored k (fpr_Index fp) err) e1
        | (Inr _, e1) \<Rightarrow> e1)"
  have "only_choices k e ?e1"
    using only_choices_refl SetFilePriority_choices [of k e L mc "fpr_Index fp"]
    by (auto split: option.splits sum.splits prod.splits) (metis snd_conv)+
  then show ?case using 2 by (auto intro: only_choices_trans)
qed (simp add: only_choices_refl)

text \<open>What a record restores, field by field.\<close>

definition has_record :: "machine \<Rightarrow> Config \<Rightarrow> torrentRecord \<Rightarrow> tracked \<Rightarrow> bool" where
  "has_record mc cfg rec tr \<longleftrightarrow> tr_paused tr = rec_Paused rec \<and>
     tr_savePath tr = (if rec_SavePath rec = [] then cfg_DataDir cfg else rec_SavePath rec) \<and>
     tr_upLimit tr = rec_UpLimit rec \<and> tr_downLimit tr = rec_DownLimit rec \<and>
     tr_baseDownloaded tr = rec_Downloaded rec \<and> tr_baseUploaded tr = rec_Uploaded rec \<and>
     tr_seedRatio tr = rec_SeedRatio rec \<and> tr_seedTime tr = rec_SeedTime rec \<and>
     tr_completedAt tr = rec_CompletedAt rec \<and> tr_label tr = rec_Label rec \<and>
     tr_completeLogged tr = (rec_CompletedAt rec \<noteq> 0) \<and>
     tr_addedAt tr = (if rec_AddedAt rec = 0 then m_now mc else rec_AddedAt rec)"

lemma restoreOne_parts:
  assumes "restoreOne L mc rec e = (Inr u, e')"
  obtains k e1 e2 src uri where
    "addSpec L mc src (restore_opts (e_cfg e) rec) uri e = (Inr k, e1)"
    "e2 = (if rec_UpLimit rec \<noteq> 0 \<or> rec_DownLimit rec \<noteq> 0
           then snd (SetTorrentRateLimit L mc k (rec_UpLimit rec) (rec_DownLimit rec) e1) else e1)"
    "e' = upd_tr k (restore_fields rec) (restore_priorities L mc k (rec_FilePriorities rec) e2)"
  using assms
  by (auto simp: restoreOne_def Let_def AddTorrentFile_def AddMagnet_def
      split: if_splits sum.splits prod.splits option.splits)

lemma SetTorrentRateLimit_entry:
  "map_of (e_torrents e) k = Some tr \<Longrightarrow> 0 \<le> u \<Longrightarrow> 0 \<le> d \<Longrightarrow>
     map_of (e_torrents (snd (SetTorrentRateLimit L mc k u d e))) k = Some (tr\<lparr>tr_upLimit := u, tr_downLimit := d\<rparr>)"
  by (simp add: SetTorrentRateLimit_def lookup_def Let_def)

lemma SetTorrentRateLimit_other:
  "k' \<noteq> k \<Longrightarrow> map_of (e_torrents (snd (SetTorrentRateLimit L mc k u d e))) k' = map_of (e_torrents e) k'"
  by (simp add: SetTorrentRateLimit_def Let_def split: sum.splits)

lemma restored_key:
  assumes "addSpec L mc src opts uri e = (Inr k1, e1)"
    "e2 = (if b then snd (SetTorrentRateLimit L mc k1 u d e1) else e1)"
    "e' = upd_tr k1 f (restore_priorities L mc k1 fps e2)"
    "map_of (e_torrents e) k = None" "map_of (e_torrents e') k = Some tr"
  shows "k = k1"
proof (rule ccontr)
  assume "k \<noteq> k1"
  then have "map_of (e_torrents e') k = map_of (e_torrents e) k"
    using restore_priorities_choices [of k1 e2 L mc fps] addSpec_entry(2) [OF assms(1)] SetTorrentRateLimit_other
    by (simp add: assms(2,3) only_choices_def)
  then show False using assms(4,5) by simp
qed

lemma tr_chosen_eqE:
  "tr\<lparr>tr_chosenFiles := cs\<rparr> = tr'\<lparr>tr_chosenFiles := cs\<rparr> \<Longrightarrow> (tr_t tr = tr_t tr' \<Longrightarrow> P) \<Longrightarrow> P"
  by (metis tracked.ext_inject tracked.surjective tracked.update_convs(8))

lemma restoreOne_record:
  assumes "restoreOne L mc rec e = (Inr u, e')" "map_of (e_torrents e) k = None"
    "map_of (e_torrents e') k = Some tr" "0 \<le> rec_UpLimit rec" "0 \<le> rec_DownLimit rec"
  shows "has_record mc (e_cfg e) rec tr"
proof -
  obtain k1 e1 e2 src uri where
    a: "addSpec L mc src (restore_opts (e_cfg e) rec) uri e = (Inr k1, e1)" and
    l: "e2 = (if rec_UpLimit rec \<noteq> 0 \<or> rec_DownLimit rec \<noteq> 0
           then snd (SetTorrentRateLimit L mc k1 (rec_UpLimit rec) (rec_DownLimit rec) e1) else e1)" and
    e': "e' = upd_tr k1 (restore_fields rec) (restore_priorities L mc k1 (rec_FilePriorities rec) e2)"
    by (rule restoreOne_parts [OF assms(1)])
  let ?e3 = "restore_priorities L mc k1 (rec_FilePriorities rec) e2"
  have c: "only_choices k1 e2 ?e3" by (rule restore_priorities_choices)
  have k: "k = k1" by (rule restored_key [OF a l e' assms(2,3)])
  obtain t own where tr1: "map_of (e_torrents e1) k = Some (new_tracked t (m_now mc) uri (rec_Paused rec)
      (if opt_SavePath (restore_opts (e_cfg e) rec) \<noteq> [] then opt_SavePath (restore_opts (e_cfg e) rec)
       else cfg_DataDir (e_cfg e)) own)"
    using addSpec_entry(3) [OF a] assms(2) k by (auto simp: restore_opts_def)
  define tr1 where "tr1 = new_tracked t (m_now mc) uri (rec_Paused rec)
      (if rec_SavePath rec = [] then cfg_DataDir (e_cfg e) else rec_SavePath rec) own"
  have sp: "(if opt_SavePath (restore_opts (e_cfg e) rec) \<noteq> [] then opt_SavePath (restore_opts (e_cfg e) rec)
       else cfg_DataDir (e_cfg e)) = (if rec_SavePath rec = [] then cfg_DataDir (e_cfg e) else rec_SavePath rec)"
    by (simp add: restore_opts_def)
  have "map_of (e_torrents e2) k = Some (tr1\<lparr>tr_upLimit := rec_UpLimit rec, tr_downLimit := rec_DownLimit rec\<rparr>)"
    using tr1 SetTorrentRateLimit_entry [of e1 k tr1 "rec_UpLimit rec" "rec_DownLimit rec" L mc] assms(4,5)
    unfolding l sp k [symmetric] tr1_def [symmetric] by (auto simp: tr1_def new_tracked_def)
  then obtain tr3 where tr3: "map_of (e_torrents ?e3) k = Some tr3"
      "tr3\<lparr>tr_chosenFiles := []\<rparr> = tr1\<lparr>tr_upLimit := rec_UpLimit rec, tr_downLimit := rec_DownLimit rec, tr_chosenFiles := []\<rparr>"
    using c k by (cases "map_of (e_torrents ?e3) k") (auto simp: only_choices_def)
  have "tr = restore_fields rec tr3" using assms(3) tr3(1) e' k by simp
  moreover have "has_record mc (e_cfg e) rec (restore_fields rec (tr3\<lparr>tr_chosenFiles := []\<rparr>))"
    unfolding tr3(2) by (simp add: has_record_def restore_fields_def tr1_def new_tracked_def)
  ultimately show ?thesis by (auto simp: has_record_def restore_fields_def split: if_splits)
qed

subsection \<open>Priorities through a restart\<close>

lemma file_records_none:
  "i < List.length fs \<Longrightarrow> fv_priority (fs ! i) = PPNone \<Longrightarrow>
     \<lparr>fpr_Index = int i, fpr_Priority = ''none''\<rparr> \<in> set (file_records fs)"
  by (force simp: file_records_def set_indexed Let_def fromLibPriority_def)

lemma file_records_distinct: "distinct (map fpr_Index (file_records fs))"
proof -
  define g :: "nat \<times> fview \<Rightarrow> filePriorityRecord list" where "g = (\<lambda>(i, f). let prio = fromLibPriority (fv_priority f)
     in if prio = PriorityNormal then []
        else [\<lparr>fpr_Index = int i, fpr_Priority = priority_String prio\<rparr>])"
  have "distinct (map fpr_Index (concat (map g (indexed n fs)))) \<and>
      (\<forall>x\<in>set (concat (map g (indexed n fs))). int n \<le> fpr_Index x)" for n
  proof (induction fs arbitrary: n)
    case (Cons f fs)
    let ?tl = "concat (map g (indexed (Suc n) fs))"
    have tl1: "distinct (map fpr_Index ?tl)" and ge: "\<forall>x\<in>set ?tl. int (Suc n) \<le> fpr_Index x"
      using Cons.IH [of "Suc n"] by blast+
    have tl2: "int n < fpr_Index x" if "x \<in> set ?tl" for x
      using bspec [OF ge that] by simp
    note tl = tl1 tl2
    have hd: "g (n, f) = [] \<or> (\<exists>p. g (n, f) = [\<lparr>fpr_Index = int n, fpr_Priority = p\<rparr>])"
      by (simp add: g_def Let_def)
    have "int n \<notin> fpr_Index ` set ?tl" using tl(2) by force
    then have "distinct (map fpr_Index (g (n, f) @ ?tl))" using hd tl(1) by (elim disjE exE) simp_all
    moreover have "\<forall>x\<in>set (g (n, f) @ ?tl). int n \<le> fpr_Index x"
      using hd tl(2) by (elim disjE exE) force+
    ultimately show ?case by simp
  qed simp
  then show ?thesis unfolding file_records_def g_def by blast
qed

lemma json_record_priorities:
  "json_record r = Inr r' \<Longrightarrow> rec_FilePriorities r' = rec_FilePriorities r"
  by (auto simp: json_record_def split: option.splits)

text \<open>The library has a file \<open>i\<close> in that torrent, whatever else it is told.\<close>

definition has_file :: "lib \<Rightarrow> handle \<Rightarrow> nat \<Rightarrow> bool" where
  "has_file L t i \<longleftrightarrow> (\<forall>cs. tv_hasInfo (lib_view L cs t) \<and> i < List.length (tv_files (lib_view L cs t)))"

lemma has_file_vw: "has_file L t i \<Longrightarrow> filesOrNil (vw L e t) = tv_files (vw L e t) \<and> tv_hasInfo (vw L e t) \<and> i < List.length (tv_files (vw L e t))"
  by (simp add: has_file_def vw_def filesOrNil_def)

lemma SetFilePriority_last:
  "map_of (e_torrents e) k = Some tr \<Longrightarrow> nat j \<noteq> i \<or> j < 0 \<Longrightarrow>
     last_priority (e_cmds (snd (SetFilePriority L mc k j p e))) t i = last_priority (e_cmds e) t i"
  by (auto simp: SetFilePriority_def Let_def split: sum.splits)

lemma SetFilePriority_sets:
  "map_of (e_torrents e) k = Some tr \<Longrightarrow> has_file L (tr_t tr) i \<Longrightarrow>
     (\<exists>e1. SetFilePriority L mc k (int i) p e = (Inr (), e1) \<and>
        last_priority (e_cmds e1) (tr_t tr) i = toLibPriority p \<and>
        map_of (e_torrents e1) k = Some (choose_file i tr))"
  using has_file_vw [of L "tr_t tr" i e] by (simp add: SetFilePriority_def lookup_def Let_def)

lemma SetFilePriority_keeps:
  "map_of (e_torrents e) k = Some tr \<Longrightarrow>
     \<exists>tr'. map_of (e_torrents (snd (SetFilePriority L mc k j p e))) k = Some tr' \<and> tr_t tr' = tr_t tr \<and>
       set (tr_chosenFiles tr) \<subseteq> set (tr_chosenFiles tr')"
  by (auto simp: SetFilePriority_def Let_def choose_file_def split: sum.splits)

text \<open>A file restored as \<^verbatim>\<open>none\<close> is chosen from then on, and has no priority.\<close>

lemma restore_priorities_keeps:
  "map_of (e_torrents e) k = Some tr \<Longrightarrow> int i \<notin> fpr_Index ` set fps \<Longrightarrow>
     \<exists>tr'. map_of (e_torrents (restore_priorities L mc k fps e)) k = Some tr' \<and> tr_t tr' = tr_t tr \<and>
       set (tr_chosenFiles tr) \<subseteq> set (tr_chosenFiles tr') \<and>
       last_priority (e_cmds (restore_priorities L mc k fps e)) t i = last_priority (e_cmds e) t i"
proof (induction L mc k fps e arbitrary: tr rule: restore_priorities.induct)
  case (2 L mc k fp fps e)
  let ?e1 = "case ParsePriority (fpr_Priority fp) of
        None \<Rightarrow> logf (UnknownPriority k (fpr_Index fp) (fpr_Priority fp)) e
      | Some prio \<Rightarrow> (case SetFilePriority L mc k (fpr_Index fp) prio e of
          (Inl err, e1) \<Rightarrow> logf (PriorityNotRestored k (fpr_Index fp) err) e1
        | (Inr _, e1) \<Rightarrow> e1)"
  have j: "nat (fpr_Index fp) \<noteq> i \<or> fpr_Index fp < 0" using 2(3) by auto
  have "\<exists>tr1. map_of (e_torrents ?e1) k = Some tr1 \<and> tr_t tr1 = tr_t tr \<and>
      set (tr_chosenFiles tr) \<subseteq> set (tr_chosenFiles tr1) \<and>
      last_priority (e_cmds ?e1) t i = last_priority (e_cmds e) t i"
  proof (cases "ParsePriority (fpr_Priority fp)")
    case (Some prio)
    obtain r e1 where s: "SetFilePriority L mc k (fpr_Index fp) prio e = (r, e1)" by force
    then have e1: "e1 = snd (SetFilePriority L mc k (fpr_Index fp) prio e)" by simp
    show ?thesis
      using SetFilePriority_keeps [OF 2(2), of L mc "fpr_Index fp" prio] SetFilePriority_last [OF 2(2) j, of L mc prio t]
      unfolding e1 [symmetric] by (cases r) (simp_all add: Some s)
  qed (use 2(2) in auto)
  then obtain tr1 where tr1: "map_of (e_torrents ?e1) k = Some tr1" "tr_t tr1 = tr_t tr"
      "set (tr_chosenFiles tr) \<subseteq> set (tr_chosenFiles tr1)"
      "last_priority (e_cmds ?e1) t i = last_priority (e_cmds e) t i" by blast
  have "int i \<notin> fpr_Index ` set fps" using 2(3) by auto
  from 2(1) [OF tr1(1) this] tr1 show ?case by auto
qed auto

lemma restore_priorities_none:
  assumes "map_of (e_torrents e) k = Some tr" "has_file L (tr_t tr) i" "distinct (map fpr_Index fps)"
    "\<lparr>fpr_Index = int i, fpr_Priority = ''none''\<rparr> \<in> set fps"
  shows "\<exists>tr'. map_of (e_torrents (restore_priorities L mc k fps e)) k = Some tr' \<and> tr_t tr' = tr_t tr \<and>
    i \<in> set (tr_chosenFiles tr') \<and>
    last_priority (e_cmds (restore_priorities L mc k fps e)) (tr_t tr) i = PPNone"
  using assms
proof (induction fps arbitrary: e tr)
  case (Cons fp fps)
  show ?case
  proof (cases "fp = \<lparr>fpr_Index = int i, fpr_Priority = ''none''\<rparr>")
    case True
    obtain e1 where s: "SetFilePriority L mc k (int i) PriorityNone e = (Inr (), e1)"
        "last_priority (e_cmds e1) (tr_t tr) i = PPNone" "map_of (e_torrents e1) k = Some (choose_file i tr)"
      using SetFilePriority_sets [OF Cons.prems(1,2), of mc PriorityNone] by auto
    have "int i \<notin> fpr_Index ` set fps" using Cons.prems(3) True by auto
    from restore_priorities_keeps [OF s(3) this, of L mc "tr_t tr"] s(1,2) True
    show ?thesis by (auto simp: ParsePriority_def choose_file_def)
  next
    case False
    then have "\<lparr>fpr_Index = int i, fpr_Priority = ''none''\<rparr> \<in> set fps" using Cons.prems(4) by auto
    then have "int i \<in> fpr_Index ` set fps" by (metis filePriorityRecord.select_convs(1) imageI)
    then have j: "int i \<noteq> fpr_Index fp" using Cons.prems(3) by auto
    have "\<exists>tr1. map_of (e_torrents (restore_priorities L mc k [fp] e)) k = Some tr1 \<and> tr_t tr1 = tr_t tr"
      using restore_priorities_keeps [OF Cons.prems(1), of i "[fp]" L mc] j by auto
    then obtain tr1 where tr1: "map_of (e_torrents (restore_priorities L mc k [fp] e)) k = Some tr1" "tr_t tr1 = tr_t tr"
      by blast
    have "restore_priorities L mc k (fp # fps) e = restore_priorities L mc k fps (restore_priorities L mc k [fp] e)"
      by simp
    then show ?thesis using Cons.IH [OF tr1(1)] Cons.prems False tr1(2) by auto
  qed
qed simp

text \<open>What resuming does to a file nobody chose, and to one somebody did.\<close>

lemma resume_priorities:
  assumes "map_of (e_torrents e) k = Some tr" "has_file L (tr_t tr) i"
  shows "last_priority (e_cmds (snd (SetPaused L mc k False e))) (tr_t tr) i =
    (if i \<in> set (tr_chosenFiles tr) then last_priority (e_cmds e) (tr_t tr) i else PPNormal)"
proof -
  let ?ch = "tr_chosenFiles tr"
  have d: "last_priority (e_cmds (downloadUnchosenFiles L (tr_t tr) ?ch e')) (tr_t tr) i =
      (if i \<in> set ?ch then last_priority (e_cmds e') (tr_t tr) i else PPNormal)" for e'
  proof -
    let ?ps = "map (\<lambda>i. (i, PPNormal)) (filter (\<lambda>i. i \<notin> set ?ch) [0..<List.length (filesOrNil (vw L e' (tr_t tr)))])"
    have "distinct (map fst ?ps)" by (simp add: comp_def)
    moreover have "map_of ?ps i = (if i \<notin> set ?ch \<and> i < List.length (filesOrNil (vw L e' (tr_t tr))) then Some PPNormal else None)"
      by (auto simp: map_of_eq_None_iff map_of_map_restrict restrict_map_def)
    ultimately show ?thesis
      using has_file_vw [OF assms(2), of e'] by (simp add: downloadUnchosenFiles_def last_priority_set)
  qed
  show ?thesis
    using assms(1) by (simp add: SetPaused_def lookup_def Let_def d chosenFilesOf_def)
qed
end
