(* ===== verification/SessionProps.thy ===== *)
theory SessionProps
  imports RestoreFacts
begin

text \<open>
  The properties of the session file: what a save leaves on disk, what stops it, and what comes back
  from it.
\<close>

subsection \<open>Saving\<close>





subsection \<open>Restoring\<close>

text \<open>C5. What is saved comes back. A torrent restored from the record a save wrote is paused exactly
  if it was, with the same save path, rate limits, seeding limits, label and completion time; what it
  had transferred in total is what its counters start from, and it is not announced as complete
  again if it had been.\<close>

theorem session_round_trip:
  assumes "json_record (recordLocked L0 e0 k0 tr0) = Inr rec"
    and "0 \<le> tr_upLimit tr0" and "0 \<le> tr_downLimit tr0"
    and "restoreOne L mc rec e = (Inr (), e1)"
    and "map_of (e_torrents e) k = None" and "map_of (e_torrents e1) k = Some tr"
  shows "tr_paused tr = tr_paused tr0 \<and>
    tr_savePath tr = (if tr_savePath tr0 = [] then cfg_DataDir (e_cfg e) else json_str (tr_savePath tr0)) \<and>
    tr_upLimit tr = tr_upLimit tr0 \<and> tr_downLimit tr = tr_downLimit tr0 \<and>
    tr_baseDownloaded tr = total_downloaded (vw L0 e0 (tr_t tr0)) tr0 \<and>
    tr_baseUploaded tr = total_uploaded (vw L0 e0 (tr_t tr0)) tr0 \<and>
    tr_seedRatio tr = tr_seedRatio tr0 \<and> tr_seedTime tr = tr_seedTime tr0 \<and>
    tr_label tr = json_str (tr_label tr0) \<and> tr_completedAt tr = tr_completedAt tr0 \<and>
    tr_completeLogged tr = (tr_completedAt tr0 \<noteq> 0) \<and>
    tr_addedAt tr = (if tr_addedAt tr0 = 0 then m_now mc else tr_addedAt tr0)"
proof -
  have rec: "rec = (recordLocked L0 e0 k0 tr0)\<lparr>rec_InfoHash := json_str k0,
      rec_Name := json_str (rec_Name (recordLocked L0 e0 k0 tr0)),
      rec_Magnet := json_str (tr_magnet tr0), rec_SavePath := json_str (tr_savePath tr0),
      rec_Label := json_str (tr_label tr0)\<rparr>"
    using assms(1) by (auto simp: json_record_def recordLocked_def Let_def split: option.splits)
  have "has_record mc (e_cfg e) rec tr"
    using assms(2,3) by (intro restoreOne_record [OF assms(4,5,6)]) (simp_all add: rec recordLocked_def Let_def)
  then show ?thesis
    by (auto simp: has_record_def rec recordLocked_def Let_def json_str_Nil_iff)
qed

text \<open>The torrent of \<open>demo_added\<close>, saved by one engine and restored by another.\<close>

definition demo_record :: torrentRecord where
  "demo_record = projr (json_record (recordLocked demo_lib (demo_added True True) ''a1''
     (new_tracked 0 1000 ''magnet:a1'' True ''/d'' None)))"

lemma demo_record_ok:
  "json_record (recordLocked demo_lib (demo_added True True) ''a1''
     (new_tracked 0 1000 ''magnet:a1'' True ''/d'' None)) = Inr demo_record"
  by (simp add: demo_record_def json_record_def new_tracked_def json_float_err_def)

lemma demo_record_fields:
  "rec_Magnet demo_record = ''magnet:a1''" "rec_SavePath demo_record = ''/d''" "rec_UpLimit demo_record = 0"
  "rec_DownLimit demo_record = 0" "rec_InfoHash demo_record = ''a1''"
proof -
  have j: "json_str ''magnet:a1'' = ''magnet:a1''" "json_str ''/d'' = ''/d''" "json_str ''a1'' = ''a1''"
    by (simp_all add: json_str_ascii)
  show "rec_Magnet demo_record = ''magnet:a1''" "rec_SavePath demo_record = ''/d''" "rec_UpLimit demo_record = 0"
    "rec_DownLimit demo_record = 0" "rec_InfoHash demo_record = ''a1''"
    by (simp_all add: demo_record_def json_record_def recordLocked_def new_tracked_def Let_def j json_float_err_def)
qed

lemma demo_restored:
  obtains e1 tr where "restoreOne demo_lib (demo_machine True) demo_record (demo_engine True) = (Inr (), e1)"
    "map_of (e_torrents e1) ''a1'' = Some tr"
proof -
  let ?r = "restoreOne demo_lib (demo_machine True) demo_record (demo_engine True)"
  have o: "restore_opts demo_config demo_record = \<lparr>opt_SavePath = [], opt_Paused = rec_Paused demo_record, opt_Files = []\<rparr>"
    by (simp add: restore_opts_def demo_record_fields demo_config_def)
  have "\<exists>k e1. addSpec demo_lib (demo_machine True) (FromMagnet uri) \<lparr>opt_SavePath = [], opt_Paused = p, opt_Files = []\<rparr>
      uri (demo_engine True) = (Inr k, e1)" for uri p
    by (simp add: addSpec_def own_storage_def demo_lib_def demo_add_def Let_def)
  then obtain k0 e0 where "addSpec demo_lib (demo_machine True) (FromMagnet ''magnet:a1'')
      \<lparr>opt_SavePath = [], opt_Paused = rec_Paused demo_record, opt_Files = []\<rparr> ''magnet:a1'' (demo_engine True) = (Inr k0, e0)"
    by blast
  moreover have "lib_parse_magnet demo_lib = (\<lambda>_. None)" by (simp add: demo_lib_def)
  ultimately have f: "fst ?r = Inr ()"
    by (simp add: restoreOne_def demo_engine_fields demo_record_fields demo_disk_def AddMagnet_def o Let_def)
  then obtain e1 where r: "?r = (Inr (), e1)" by (cases ?r) auto
  obtain k1 e0 e2 src uri where
    a: "addSpec demo_lib (demo_machine True) src (restore_opts (e_cfg (demo_engine True)) demo_record) uri (demo_engine True) = (Inr k1, e0)" and
    l: "e2 = (if rec_UpLimit demo_record \<noteq> 0 \<or> rec_DownLimit demo_record \<noteq> 0
       then snd (SetTorrentRateLimit demo_lib (demo_machine True) k1 (rec_UpLimit demo_record) (rec_DownLimit demo_record) e0) else e0)" and
    e1: "e1 = upd_tr k1 (restore_fields demo_record) (restore_priorities demo_lib (demo_machine True) k1 (rec_FilePriorities demo_record) e2)"
    by (rule restoreOne_parts [OF r])
  have "k1 = ''a1''" using a
    by (auto simp: addSpec_def Let_def demo_view_of demo_view_def split: sum.splits prod.splits)
  moreover have "map_of (e_torrents (demo_engine True)) k1 = None" by (simp add: demo_engine_fields)
  ultimately have "map_of (e_torrents e2) ''a1'' \<noteq> None"
    using addSpec_entry(3) [OF a] by (auto simp: l demo_record_fields)
  then have "map_of (e_torrents e1) ''a1'' \<noteq> None"
    using restore_priorities_choices [of "''a1''" e2 demo_lib "demo_machine True" "rec_FilePriorities demo_record"] \<open>k1 = ''a1''\<close>
    by (auto simp: e1 only_choices_def)
  then show thesis using that r by blast
qed

theorem session_round_trip_witness:
  "\<exists>e1 tr. restoreOne demo_lib (demo_machine True) demo_record (demo_engine True) = (Inr (), e1) \<and>
     map_of (e_torrents e1) ''a1'' = Some tr \<and> tr_paused tr \<and> tr_savePath tr = json_str ''/d'' \<and> tr_addedAt tr = 1000"
proof -
  obtain e1 tr where r: "restoreOne demo_lib (demo_machine True) demo_record (demo_engine True) = (Inr (), e1)"
    "map_of (e_torrents e1) ''a1'' = Some tr" by (rule demo_restored)
  have n: "map_of (e_torrents (demo_engine True)) ''a1'' = None" by (simp add: demo_engine_fields)
  from session_round_trip [OF demo_record_ok _ _ r(1) n r(2)] r show ?thesis
    by (auto simp: new_tracked_def)
qed

text \<open>A restart turns files nobody touched into files nobody wants. Before it, resuming a paused
  torrent asks for every file without a choice of its own; a save records such a file as \<^verbatim>\<open>none\<close>, the
  restore takes that for a choice, and resuming the restored torrent leaves the file unwanted.\<close>

theorem a_restart_forgets_that_a_file_was_untouched:
  assumes "map_of (e_torrents e0) k0 = Some tr0" and "has_file L0 (tr_t tr0) i" and "i \<notin> set (tr_chosenFiles tr0)"
    and "fv_priority (tv_files (vw L0 e0 (tr_t tr0)) ! i) = PPNone"
    and "json_record (recordLocked L0 e0 k0 tr0) = Inr rec"
    and "restoreOne L mc rec e = (Inr (), e1)"
    and "map_of (e_torrents e) k = None" and "map_of (e_torrents e1) k = Some tr" and "has_file L (tr_t tr) i"
  shows "last_priority (e_cmds (snd (SetPaused L0 mc k0 False e0))) (tr_t tr0) i = PPNormal \<and>
    last_priority (e_cmds (snd (SetPaused L mc k False e1))) (tr_t tr) i = PPNone"
proof
  show "last_priority (e_cmds (snd (SetPaused L0 mc k0 False e0))) (tr_t tr0) i = PPNormal"
    using resume_priorities [OF assms(1,2)] assms(3) by simp
  have "rec_FilePriorities rec = file_records (tv_files (vw L0 e0 (tr_t tr0)))"
    using json_record_priorities [OF assms(5)] has_file_vw [OF assms(2), of e0]
    by (simp add: recordLocked_def Let_def)
  then have fps: "distinct (map fpr_Index (rec_FilePriorities rec))"
    "\<lparr>fpr_Index = int i, fpr_Priority = ''none''\<rparr> \<in> set (rec_FilePriorities rec)"
    using file_records_distinct file_records_none [OF _ assms(4)] has_file_vw [OF assms(2), of e0] by simp_all
  obtain k1 e2 e3 src uri where
    a: "addSpec L mc src (restore_opts (e_cfg e) rec) uri e = (Inr k1, e2)" and
    l: "e3 = (if rec_UpLimit rec \<noteq> 0 \<or> rec_DownLimit rec \<noteq> 0
           then snd (SetTorrentRateLimit L mc k1 (rec_UpLimit rec) (rec_DownLimit rec) e2) else e2)" and
    e1: "e1 = upd_tr k1 (restore_fields rec) (restore_priorities L mc k1 (rec_FilePriorities rec) e3)"
    by (rule restoreOne_parts [OF assms(6)])
  have k: "k = k1" by (rule restored_key [OF a l e1 assms(7,8)])
  let ?e4 = "restore_priorities L mc k (rec_FilePriorities rec) e3"
  obtain tr4 where tr4: "map_of (e_torrents ?e4) k = Some tr4" "tr = restore_fields rec tr4"
    using assms(8) e1 k by auto
  then obtain tr3 where tr3: "map_of (e_torrents e3) k = Some tr3" "tr_t tr3 = tr_t tr4"
    using restore_priorities_choices [of k e3 L mc "rec_FilePriorities rec"] 
    by (cases "map_of (e_torrents e3) k") (auto simp: only_choices_def elim!: tr_chosen_eqE)
  have t: "tr_t tr4 = tr_t tr" by (simp add: tr4(2) restore_fields_def)
  have "i \<in> set (tr_chosenFiles tr4) \<and> last_priority (e_cmds ?e4) (tr_t tr) i = PPNone"
    using restore_priorities_none [OF tr3(1) _ fps, of L mc] assms(9) tr4(1) tr3(2) t by auto
  then show "last_priority (e_cmds (snd (SetPaused L mc k False e1))) (tr_t tr) i = PPNone"
    using resume_priorities [OF assms(8,9)] e1 k tr4(2) by (simp add: restore_fields_def)
qed

theorem a_restart_forgets_that_a_file_was_untouched_witness:
  "\<exists>e1 tr. restoreOne demo_lib (demo_machine True) demo_record (demo_engine True) = (Inr (), e1) \<and>
     map_of (e_torrents e1) ''a1'' = Some tr \<and>
     last_priority (e_cmds (snd (SetPaused demo_lib (demo_machine True) ''a1'' False (demo_added True True)))) 0 0 = PPNormal \<and>
     last_priority (e_cmds (snd (SetPaused demo_lib (demo_machine True) ''a1'' False e1))) (tr_t tr) 0 = PPNone"
proof -
  obtain e1 tr where r: "restoreOne demo_lib (demo_machine True) demo_record (demo_engine True) = (Inr (), e1)"
    "map_of (e_torrents e1) ''a1'' = Some tr" by (rule demo_restored)
  have n: "map_of (e_torrents (demo_engine True)) ''a1'' = None" by (simp add: demo_engine_fields)
  have h: "has_file demo_lib t 0" for t by (simp add: has_file_def demo_lib_def demo_view_def)
  have m: "map_of (e_torrents (demo_added True True)) ''a1'' = Some (new_tracked 0 1000 ''magnet:a1'' True ''/d'' None)"
    by (simp add: demo_torrents)
  have "last_priority (e_cmds (snd (SetPaused demo_lib (demo_machine True) ''a1'' False (demo_added True True)))) 0 0 = PPNormal \<and>
     last_priority (e_cmds (snd (SetPaused demo_lib (demo_machine True) ''a1'' False e1))) (tr_t tr) 0 = PPNone"
    using a_restart_forgets_that_a_file_was_untouched [OF m h _ _ demo_record_ok r(1) n r(2) h]
    by (simp add: new_tracked_def demo_view_of demo_view_def demo_file_def demo_cmds)
  then show ?thesis using r by blast
qed

end
