(* ===== verification/ParseFloat.thy ===== *)
theory ParseFloat
  imports GoStrings Float64
begin

text \<open>
  What the program uses of the standard library to read numbers: \<^verbatim>\<open>strconv.ParseFloat\<close> with its
  decimal and hexadecimal syntax, underscores and the special values, and \<^verbatim>\<open>time.ParseDuration\<close>. A
  value is computed exactly and rounded once (\<open>rnd\<close>), which is what both of the library's
  algorithms compute; \<open>None\<close> stands for every error.
\<close>

subsection \<open>Digits\<close>

definition is_hex :: "char \<Rightarrow> bool" where
  "is_hex c \<longleftrightarrow> is_digit c \<or> lower_char c \<in> set ''abcdef''"

definition hex_val :: "char \<Rightarrow> nat" where
  "hex_val c = (if is_digit c then of_char c - 48 else of_char (lower_char c) - 87)"

text \<open>What has been read of a mantissa: its value, the digits after the point, whether there were
  digits, a point, underscores.\<close>

record mantissa =
  mt_value :: nat
  mt_frac :: nat
  mt_digits :: bool
  mt_dot :: bool
  mt_under :: bool

fun read_mantissa :: "bool \<Rightarrow> mantissa \<Rightarrow> string \<Rightarrow> mantissa \<times> string" where
  "read_mantissa hex m [] = (m, [])"
| "read_mantissa hex m (c # s) =
     (if c = CHR ''_'' then read_mantissa hex (m\<lparr>mt_under := True\<rparr>) s
      else if c = CHR ''.'' then (if mt_dot m then (m, c # s) else read_mantissa hex (m\<lparr>mt_dot := True\<rparr>) s)
      else if is_digit c \<or> hex \<and> is_hex c
      then read_mantissa hex (m\<lparr>mt_value := (if hex then 16 else 10) * mt_value m + hex_val c,
             mt_frac := (if mt_dot m then Suc (mt_frac m) else mt_frac m), mt_digits := True\<rparr>) s
      else (m, c # s))"

text \<open>The digits of an exponent, which stops growing once it has five digits.\<close>

fun read_exp :: "nat \<Rightarrow> bool \<Rightarrow> string \<Rightarrow> nat \<times> bool \<times> string" where
  "read_exp e us [] = (e, us, [])"
| "read_exp e us (c # s) =
     (if c = CHR ''_'' then read_exp e True s
      else if is_digit c then read_exp (if e < 10000 then 10 * e + (of_char c - 48) else e) us s
      else (e, us, c # s))"

text \<open>\<^verbatim>\<open>underscoreOK\<close>: underscores stand between digits, or between a base prefix and a digit.\<close>

fun underscores_from :: "bool \<Rightarrow> char \<Rightarrow> string \<Rightarrow> bool" where
  "underscores_from hex saw [] = (saw \<noteq> CHR ''_'')"
| "underscores_from hex saw (c # s) =
     (if is_digit c \<or> hex \<and> is_hex c then underscores_from hex (CHR ''0'') s
      else if c = CHR ''_'' then saw = CHR ''0'' \<and> underscores_from hex (CHR ''_'') s
      else saw \<noteq> CHR ''_'' \<and> underscores_from hex (CHR ''!'') s)"

definition cut_sign :: "string \<Rightarrow> bool \<times> string" where
  "cut_sign s = (case s of
     c # t \<Rightarrow> if c = CHR ''-'' then (True, t) else if c = CHR ''+'' then (False, t) else (False, s)
   | [] \<Rightarrow> (False, []))"

definition has_base :: "string \<Rightarrow> string \<Rightarrow> bool" where
  "has_base s bases = (case s of
     a # b # _ \<Rightarrow> a = CHR ''0'' \<and> lower_char b \<in> set bases | _ \<Rightarrow> False)"

definition underscoreOK :: "string \<Rightarrow> bool" where
  "underscoreOK s = (let t = snd (cut_sign s) in
     if has_base t ''box'' then underscores_from (has_base t ''x'') (CHR ''0'') (drop 2 t)
     else underscores_from False (CHR ''^'') t)"

subsection \<open>strconv.ParseFloat\<close>

definition special_float :: "string \<Rightarrow> f64 option" where
  "special_float s = (let (neg, t) = cut_sign s in
     if to_lower t \<in> {''inf'', ''infinity''} then Some (if neg then NegInf else PosInf)
     else if to_lower s = ''nan'' then Some NaN else None)"

text \<open>The exponent part: \<open>None\<close> for one that is cut short.\<close>

definition read_exponent :: "bool \<Rightarrow> string \<Rightarrow> (int \<times> bool \<times> string) option" where
  "read_exponent hex s = (case s of
     c # t \<Rightarrow>
       if lower_char c = (if hex then CHR ''p'' else CHR ''e'')
       then let (neg, u) = cut_sign t in
            (case u of
               d # _ \<Rightarrow> if is_digit d then (let (e, us, v) = read_exp 0 False u
                          in Some (if neg then - int e else int e, us, v)) else None
             | [] \<Rightarrow> None)
       else if hex then None else Some (0, False, s)
   | [] \<Rightarrow> if hex then None else Some (0, False, s))"

definition fits :: "rat \<Rightarrow> f64 option" where
  "fits q = (case rnd q of Fin a \<Rightarrow> Some (Fin a) | _ \<Rightarrow> None)"

definition scaled :: "bool \<Rightarrow> nat \<Rightarrow> nat \<Rightarrow> int \<Rightarrow> rat" where
  "scaled hex m fr e =
     (if hex then of_nat m * two_pow (e - 4 * int fr)
      else if 0 \<le> e - int fr then of_nat m * 10 ^ nat (e - int fr)
      else of_nat m / 10 ^ nat (int fr - e))"

definition ParseFloat :: "string \<Rightarrow> f64 option" where
  "ParseFloat s = (case special_float s of
     Some v \<Rightarrow> Some v
   | None \<Rightarrow>
      (let (neg, t) = cut_sign s;
           hex = (has_base t ''x'' \<and> 2 < List.length t);
           (m, u) = read_mantissa hex \<lparr>mt_value = 0, mt_frac = 0, mt_digits = False, mt_dot = False, mt_under = False\<rparr>
                      (if hex then drop 2 t else t)
       in if \<not> mt_digits m then None
          else (case read_exponent hex u of
              None \<Rightarrow> None
            | Some (e, us, v) \<Rightarrow>
                if v \<noteq> [] \<or> (mt_under m \<or> us) \<and> \<not> underscoreOK s then None
                else let q = scaled hex (mt_value m) (mt_frac m) e in fits (if neg then - q else q))))"

subsection \<open>time.ParseDuration\<close>

fun leadingInt :: "nat \<Rightarrow> string \<Rightarrow> (nat \<times> string) option" where
  "leadingInt x [] = Some (x, [])"
| "leadingInt x (c # s) =
     (if \<not> is_digit c then Some (x, c # s)
      else if 2 ^ 63 div 10 < x then None
      else let y = x * 10 + (of_char c - 48) in if 2 ^ 63 < y then None else leadingInt y s)"

fun leadingFraction :: "bool \<Rightarrow> nat \<Rightarrow> f64 \<Rightarrow> string \<Rightarrow> nat \<times> f64 \<times> string" where
  "leadingFraction over x scale [] = (x, scale, [])"
| "leadingFraction over x scale (c # s) =
     (if \<not> is_digit c then (x, scale, c # s)
      else if over then leadingFraction True x scale s
      else if (2 ^ 63 - 1) div 10 < x then leadingFraction True x scale s
      else let y = x * 10 + (of_char c - 48)
           in if 2 ^ 63 < y then leadingFraction True x scale s
              else leadingFraction False y (f64_mul scale (Fin 10)) s)"

definition unit_of :: "string \<Rightarrow> nat option" where
  "unit_of u =
     (if u = ''ns'' then Some 1
      else if u = ''us'' \<or> u = [CHR 0xC2, CHR 0xB5, CHR ''s''] \<or> u = [CHR 0xCE, CHR 0xBC, CHR ''s'']
      then Some 1000
      else if u = ''ms'' then Some 1000000
      else if u = ''s'' then Some 1000000000
      else if u = ''m'' then Some 60000000000
      else if u = ''h'' then Some 3600000000000
      else None)"

definition unit_char :: "char \<Rightarrow> bool" where
  "unit_char c \<longleftrightarrow> c \<noteq> CHR ''.'' \<and> \<not> is_digit c"

text \<open>One number with its unit: the nanoseconds and what is left.\<close>

definition duration_part :: "string \<Rightarrow> (nat \<times> string) option" where
  "duration_part s = (case leadingInt 0 s of
     None \<Rightarrow> None
   | Some (v, s1) \<Rightarrow>
      (let pre = (List.length s1 \<noteq> List.length s);
           dot = (s1 \<noteq> [] \<and> hd s1 = CHR ''.'');
           (f, scale, s2) = (if dot then leadingFraction False 0 (Fin 1) (tl s1) else (0, Fin 1, s1));
           post = (dot \<and> List.length s2 \<noteq> List.length (tl s1));
           u = takeWhile unit_char s2; rest = dropWhile unit_char s2
       in if \<not> pre \<and> \<not> post \<or> u = [] then None
          else (case unit_of u of
              None \<Rightarrow> None
            | Some un \<Rightarrow>
                if 2 ^ 63 div un < v then None
                else let w = (if 0 < f then v * un + nat (int_of_f64 (f64_mul (f64_of_int (int f))
                                (f64_div (Fin (of_nat un)) scale))) else v * un)
                     in if 2 ^ 63 < w then None else Some (w, rest))))"

lemma leadingInt_shorter: "leadingInt x s = Some (v, t) \<Longrightarrow> List.length t \<le> List.length s"
  by (induction x s rule: leadingInt.induct) (auto simp: Let_def split: if_splits)

lemma leadingFraction_shorter: "leadingFraction b x sc s = (f, sc', t) \<Longrightarrow> List.length t \<le> List.length s"
proof (induction b x sc s rule: leadingFraction.induct)
  case (2 over x scale c s)
  show ?case
  proof (cases "is_digit c")
    case True
    then show ?thesis
      using 2 by (simp add: Let_def del: diff_add_assoc diff_add_assoc2 split: if_split_asm) linarith+
  qed (use 2 in auto)
qed simp

lemma length_dropWhile_takeWhile:
  "takeWhile P s \<noteq> [] \<Longrightarrow> List.length (dropWhile P s) < List.length s"
  by (metis append_Nil dropWhile_eq_drop length_dropWhile_le nat_less_le takeWhile_dropWhile_id
      append_eq_conv_conj length_drop diff_less length_greater_0_conv takeWhile_eq_Nil_iff)

lemma duration_part_shorter: "duration_part s = Some (w, rest) \<Longrightarrow> List.length rest < List.length s"
proof -
  assume a: "duration_part s = Some (w, rest)"
  then obtain v s1 where s1: "leadingInt 0 s = Some (v, s1)"
    by (auto simp: duration_part_def split: option.splits)
  obtain f sc s2 where s2: "(if s1 \<noteq> [] \<and> hd s1 = CHR ''.'' then leadingFraction False 0 (Fin 1) (tl s1)
      else (0, Fin 1, s1)) = (f, sc, s2)" by (metis prod_cases3)
  have "List.length s2 \<le> List.length s1"
    using s2 leadingFraction_shorter [of False 0 "Fin 1" "tl s1" f sc s2] by (auto split: if_splits)
  moreover have "takeWhile unit_char s2 \<noteq> []" "rest = dropWhile unit_char s2"
    using a s1 s2 by (auto simp: duration_part_def Let_def split: if_splits option.splits)
  ultimately show ?thesis
    using leadingInt_shorter [OF s1] length_dropWhile_takeWhile [of unit_char s2] by simp
qed

function duration_parts :: "nat \<Rightarrow> string \<Rightarrow> nat option" where
  "duration_parts d s =
     (if s = [] then Some d
      else if hd s \<noteq> CHR ''.'' \<and> \<not> is_digit (hd s) then None
      else case duration_part s of
        None \<Rightarrow> None
      | Some (w, rest) \<Rightarrow> if 2 ^ 63 < d + w then None else duration_parts (d + w) rest)"
  by pat_completeness auto
termination
  by (relation "measure (\<lambda>(d, s). List.length s)") (auto simp: duration_part_shorter)

declare duration_parts.simps [simp del]

definition time_ParseDuration :: "string \<Rightarrow> duration option" where
  "time_ParseDuration orig = (let (neg, s) = cut_sign orig in
     if s = ''0'' then Some 0
     else if s = [] then None
     else (case duration_parts 0 s of
         None \<Rightarrow> None
       | Some d \<Rightarrow> if neg then Some (- int d) else if 2 ^ 63 - 1 < d then None else Some (int d)))"

end
