(* ===== verification/Quantities.thy ===== *)
theory Quantities
  imports ParseFloat
begin

text \<open>
  Quantities as people read and write them: \<^verbatim>\<open>internal/format/format.go\<close> and
  \<^verbatim>\<open>internal/config/rate.go\<close>, \<^verbatim>\<open>size.go\<close>, \<^verbatim>\<open>duration.go\<close>, with \<^verbatim>\<open>parseSeedRatio\<close> and
  \<^verbatim>\<open>parseSeedTime\<close> of \<^verbatim>\<open>cmd/torrnado/seedlimitcmd.go\<close>. \<^verbatim>\<open>format.Bytes\<close> calls itself on the negated
  number, so it is a partial function: \<open>None\<close> is a call that does not return.
\<close>

subsection \<open>Printing numbers\<close>

text \<open>\<^verbatim>\<open>%.*f\<close> of a value that is not negative.\<close>

definition pad_zeros :: "nat \<Rightarrow> string \<Rightarrow> string" where
  "pad_zeros w s = replicate (w - List.length s) (CHR ''0'') @ s"

definition fixed :: "nat \<Rightarrow> rat \<Rightarrow> string" where
  "fixed prec q = (let n = nat (round_half_even (q * 10 ^ prec))
     in nat_digits (n div 10 ^ prec) @ ''.'' @ pad_zeros prec (nat_digits (n mod 10 ^ prec)))"

definition float_text :: "nat \<Rightarrow> f64 \<Rightarrow> string" where
  "float_text prec x = (case x of
     Fin q \<Rightarrow> if q < 0 then CHR ''-'' # fixed prec (- q) else fixed prec q
   | PosInf \<Rightarrow> ''+Inf'' | NegInf \<Rightarrow> ''-Inf'' | NaN \<Rightarrow> ''NaN'')"

subsection \<open>format.go\<close>

function bytes_unit :: "int \<Rightarrow> int \<Rightarrow> nat \<Rightarrow> int \<times> nat" where
  "bytes_unit m dv e =
     (if 1024 \<le> m then bytes_unit (go_div m 1024) (wrap64 (dv * 1024)) (Suc e) else (dv, e))"
  by pat_completeness auto
termination
  by (relation "measure (\<lambda>(m, _, _). nat m)") (auto simp: go_div_nonneg)

declare bytes_unit.simps [simp del]

definition bytes_text :: "int \<Rightarrow> string" where
  "bytes_text n =
     (if n < 1024 then itoa n @ ''B''
      else let (dv, e) = bytes_unit (go_div n 1024) 1024 0
           in float_text 1 (f64_div (f64_of_int n) (f64_of_int dv)) @ [''KMGTPE'' ! e] @ ''iB'')"

partial_function (option) Bytes :: "int \<Rightarrow> string option" where
  "Bytes n =
     (if n < 0 then Option.bind (Bytes (wrap64 (- n))) (\<lambda>s. Some (CHR ''-'' # s))
      else Some (bytes_text n))"

definition format_Rate :: "f64 \<Rightarrow> string option" where
  "format_Rate bps = map_option (\<lambda>s. s @ ''/s'') (Bytes (int_of_f64 bps))"

definition format_Count :: "int \<Rightarrow> string" where
  "format_Count n = (if n < 0 then ''-'' else itoa n)"

definition format_Ratio :: "f64 \<Rightarrow> string" where
  "format_Ratio r = (if r = PosInf then [CHR 0xE2, CHR 0x88, CHR 0x9E] else float_text 2 r)"

text \<open>\<^verbatim>\<open>Duration.Hours\<close> and its kin are truncated at once, so they are whole numbers here.\<close>

definition format_ETA :: "duration \<Rightarrow> string" where
  "format_ETA d =
     (if d \<le> 0 then [CHR 0xE2, CHR 0x80, CHR 0x93]
      else if 99 * hour < d then ''>99h''
      else let h = d div hour; m = d div minute mod 60; s = d div second mod 60
           in if 0 < h then itoa h @ ''h'' @ pad_zeros 2 (itoa m) @ ''m''
              else if 0 < m then itoa m @ ''m'' @ pad_zeros 2 (itoa s) @ ''s''
              else itoa s @ ''s'')"

subsection \<open>rate.go and size.go\<close>

definition rate_unit :: "char \<Rightarrow> int option" where
  "rate_unit c = (if lower_char c = CHR ''k'' then Some (2 ^ 10)
     else if lower_char c = CHR ''m'' then Some (2 ^ 20)
     else if lower_char c = CHR ''g'' then Some (2 ^ 30)
     else if lower_char c = CHR ''b'' then Some 1 else None)"

definition ParseRate :: "string \<Rightarrow> int result" where
  "ParseRate raw = (let s = trim_space raw in
     if s = [] \<or> equal_fold s ''unlimited'' \<or> equal_fold s ''none'' then Inr 0
     else let (mult, numPart) = (case rate_unit (last s) of
                Some m \<Rightarrow> (m, butlast s) | None \<Rightarrow> (1, s))
          in case ParseFloat (trim_space numPart) of
               None \<Rightarrow> Inl (''invalid rate '' @ quoted s @ '': expected a number optionally suffixed with k/M/G, or \"unlimited\"'')
             | Some f \<Rightarrow> if f64_lt f (Fin 0) then Inl (''invalid rate '' @ quoted s @ '': must not be negative'')
                 else Inr (int_of_f64 (f64_mul f (f64_of_int mult))))"

definition Rate_String :: "int \<Rightarrow> string option" where
  "Rate_String r = (if r \<le> 0 then Some ''unlimited'' else format_Rate (f64_of_int r))"

definition Rate_MarshalText :: "int \<Rightarrow> string" where
  "Rate_MarshalText r = (if r \<le> 0 then ''unlimited'' else itoa r)"

definition Size_String :: "int \<Rightarrow> string option" where
  "Size_String n = (if n \<le> 0 then Some ''none'' else Bytes n)"

definition Size_MarshalText :: "int \<Rightarrow> string" where
  "Size_MarshalText n = (if n \<le> 0 then ''none'' else itoa n)"

subsection \<open>duration.go\<close>

text \<open>\<^verbatim>\<open>fmtFrac\<close>: the last \<open>prec\<close> digits as a fraction, without the zeros at its end.\<close>

definition frac_text :: "nat \<Rightarrow> nat \<Rightarrow> string" where
  "frac_text prec v = (let ds = trim_right_char (CHR ''0'') (pad_zeros prec (nat_digits (v mod 10 ^ prec)))
     in if ds = [] then [] else CHR ''.'' # ds)"

definition decimal :: "nat \<Rightarrow> nat \<Rightarrow> string" where
  "decimal prec v = nat_digits (v div 10 ^ prec) @ frac_text prec v"

text \<open>\<^verbatim>\<open>time.Duration.String\<close>.\<close>

definition duration_text :: "duration \<Rightarrow> string" where
  "duration_text d = (let u = nat \<bar>d\<bar> in
     (if d < 0 then ''-'' else []) @
     (if u = 0 then ''0s''
      else if u < 1000 then nat_digits u @ ''ns''
      else if u < 1000000 then decimal 3 u @ [CHR 0xC2, CHR 0xB5, CHR ''s'']
      else if u < 1000000000 then decimal 6 u @ ''ms''
      else let secs = u div 1000000000; mins = secs div 60; hours = mins div 60
           in (if 0 < hours then nat_digits hours @ ''h'' else []) @
              (if 0 < mins then nat_digits (mins mod 60) @ ''m'' else []) @
              nat_digits (secs mod 60) @ frac_text 9 u @ ''s''))"

definition Duration_String :: "duration \<Rightarrow> string" where
  "Duration_String d = (if d \<le> 0 then ''none'' else duration_text d)"

text \<open>The token \<^verbatim>\<open>fmt.Sscanf\<close> reads for \<^verbatim>\<open>%g\<close>. Its input is lower case and starts with no space.\<close>

definition accept :: "string \<Rightarrow> string \<Rightarrow> string \<times> string" where
  "accept cs s = (if s \<noteq> [] \<and> hd s \<in> set cs then ([hd s], tl s) else ([], s))"

definition accept_all :: "(char \<Rightarrow> bool) \<Rightarrow> string \<Rightarrow> string \<times> string" where
  "accept_all P s = (takeWhile P s, dropWhile P s)"

text \<open>The digits, the point and the exponent, after a sign.\<close>

definition float_body :: "string \<Rightarrow> string" where
  "float_body s =
     (let hex = has_prefix s ''0x'';
          pre = (if hex then ''0x'' else []);
          isd = (\<lambda>c. c = CHR ''_'' \<or> (if hex then is_hex c else is_digit c));
          (whole, s1) = accept_all isd (drop (List.length pre) s);
          (dot, s2) = accept ''.'' s1;
          (fr, s3) = (if dot = [] then ([], s2) else accept_all isd s2);
          (ex, s4) = accept (if hex then ''p'' else ''ep'') s3;
          (sg, s5) = (if ex = [] then ([], s4) else accept ''+-'' s4);
          (ds, _) = (if ex = [] then ([], s5) else accept_all (\<lambda>c. c = CHR ''_'' \<or> is_digit c) s5)
      in pre @ whole @ dot @ fr @ ex @ sg @ ds)"

definition floatToken :: "string \<Rightarrow> string" where
  "floatToken s =
     (if has_prefix s ''nan'' then ''nan''
      else let (sg, t) = (if has_prefix s ''n'' then ([], s) else accept ''+-'' s)
           in sg @ (if has_prefix t ''inf'' then ''inf'' else float_body t))"

text \<open>
  \<^verbatim>\<open>convertFloat\<close>: a decimal mantissa with a binary exponent is put together with \<^verbatim>\<open>math.Ldexp\<close>.
\<close>

definition ldexp :: "f64 \<Rightarrow> int \<Rightarrow> f64" where
  "ldexp x n = (case x of Fin q \<Rightarrow> rnd (q * two_pow n) | _ \<Rightarrow> x)"

definition convertFloat :: "string \<Rightarrow> f64 option" where
  "convertFloat str = (case str_index str ''p'' of
     None \<Rightarrow> ParseFloat str
   | Some p \<Rightarrow> if contains str ''x'' then ParseFloat str
       else (case (ParseFloat (take p str), atoi (drop (Suc p) str)) of
           (Some f, Some m) \<Rightarrow> Some (ldexp f m) | _ \<Rightarrow> None))"

definition scan_float :: "string \<Rightarrow> f64 option" where
  "scan_float s = (if s = [] then None else convertFloat (floatToken s))"

definition ParseDuration :: "string \<Rightarrow> duration result" where
  "ParseDuration raw = (let s = trim_space raw in
     if s = [] \<or> equal_fold s ''none'' \<or> equal_fold s ''unlimited'' then Inr 0
     else case (if has_suffix (to_lower s) ''d'' then scan_float (butlast (to_lower s)) else None) of
       Some days \<Rightarrow> Inr (int_of_f64 (f64_mul (f64_mul days (Fin 24)) (Fin (of_int hour))))
     | None \<Rightarrow> (case time_ParseDuration s of
           Some d \<Rightarrow> Inr d
         | None \<Rightarrow> Inl (''invalid duration '' @ quoted s @ '' (want e.g. 48h, 30m, 7d, or none)'')))"

subsection \<open>seedlimitcmd.go\<close>

definition ratio_refused :: "string \<Rightarrow> f64 result" where
  "ratio_refused s = Inl (''--ratio must be a positive number, \"none\" or \"default\", got '' @ quoted s)"

definition parseSeedRatio :: "string \<Rightarrow> f64 result" where
  "parseSeedRatio s = (let w = to_lower (trim_space s) in
     if w \<in> {[], ''default''} then Inr (Fin 0)
     else if w \<in> {''none'', ''unlimited''} then Inr (Fin (- 1))
     else case ParseFloat (trim_space s) of
       None \<Rightarrow> ratio_refused s
     | Some r \<Rightarrow> if f64_le r (Fin 0) then ratio_refused s else Inr r)"

definition parseSeedTime :: "string \<Rightarrow> duration result" where
  "parseSeedTime s = (let w = to_lower (trim_space s) in
     if w \<in> {[], ''default''} then Inr 0
     else if w \<in> {''none'', ''unlimited''} then Inr (- 1)
     else case ParseDuration s of
       Inl err \<Rightarrow> Inl err
     | Inr d \<Rightarrow> if d \<le> 0 then Inl (''--time must be positive, \"none\" or \"default\", got '' @ quoted s) else Inr d)"

end
