(* ===== verification/Indexer.thy ===== *)
theory Indexer
  imports ParseFloat
begin

text \<open>
  The parts of \<^verbatim>\<open>internal/indexer\<close> every source shares: results and tokens (\<^verbatim>\<open>indexer.go\<close>,
  \<^verbatim>\<open>token.go\<close>), errors (\<^verbatim>\<open>errors.go\<close>), the numbers of the wire format (\<^verbatim>\<open>wire.go\<close>), the cache
  (\<^verbatim>\<open>cache.go\<close>), and the ordering and merging of results (\<^verbatim>\<open>multi.go\<close>). Sorting with
  \<^verbatim>\<open>sort.SliceStable\<close> is the library's stable sort by key.
\<close>

subsection \<open>Results and tokens\<close>

definition Unknown :: int where "Unknown = - 1"

record Result =
  res_Title :: string
  res_Size :: int
  res_Seeders :: int
  res_Leechers :: int
  res_Tracker :: string
  res_Link :: string

definition IsMagnet :: "Result \<Rightarrow> bool" where
  "IsMagnet r \<longleftrightarrow> has_prefix (res_Link r) ''magnet:''"

definition tokenSep :: string where "tokenSep = '':''"

definition Token :: "string \<Rightarrow> string \<Rightarrow> string" where
  "Token source i = source @ tokenSep @ i"

definition is_lower :: "char \<Rightarrow> bool" where
  "is_lower c \<longleftrightarrow> 97 \<le> (of_char c :: nat) \<and> (of_char c :: nat) \<le> 122"

definition is_upper :: "char \<Rightarrow> bool" where
  "is_upper c \<longleftrightarrow> 65 \<le> (of_char c :: nat) \<and> (of_char c :: nat) \<le> 90"

definition name_char :: "char \<Rightarrow> bool" where
  "name_char c \<longleftrightarrow> is_lower c \<or> is_digit c"

definition id_char :: "char \<Rightarrow> bool" where
  "id_char c \<longleftrightarrow> is_lower c \<or> is_upper c \<or> is_digit c \<or> c \<in> set ''._-''"

definition ParseToken :: "string \<Rightarrow> (string \<times> string) option" where
  "ParseToken s = (case str_cut s tokenSep of
     None \<Rightarrow> None
   | Some (name, rest) \<Rightarrow>
       if name = [] \<or> rest = [] then None
       else if 32 < List.length name \<or> 128 < List.length rest then None
       else if \<not> list_all name_char name then None
       else if \<not> list_all id_char rest then None
       else Some (name, rest))"

subsection \<open>Errors\<close>

text \<open>What the code asks of a transport error.\<close>

record xerr =
  xe_msg :: string
  xe_deadline :: bool
  xe_canceled :: bool
  xe_timeout :: bool
  xe_refused :: bool

datatype Kind = KindUnreachable | KindAuth | KindStatus | KindTimeout | KindDecode

record IndexerError =
  ie_Kind :: Kind
  ie_Backend :: string
  ie_URL :: string
  ie_Status :: int
  ie_Err :: "xerr option"

definition cause :: "IndexerError \<Rightarrow> string" where
  "cause e = (case ie_Err e of None \<Rightarrow> ''<nil>'' | Some x \<Rightarrow> xe_msg x)"

definition Error_text :: "IndexerError \<Rightarrow> string" where
  "Error_text e = (case ie_Kind e of
     KindUnreachable \<Rightarrow>
       (let refused = (case ie_Err e of None \<Rightarrow> False | Some x \<Rightarrow> xe_refused x);
            reason = (if refused then ''connection refused'' else cause e)
        in ie_Backend e @ '': cannot reach '' @ ie_URL e @ '' ('' @ reason @
           '') - is it running, and is search.'' @ ie_Backend e @ ''.url right?'')
   | KindAuth \<Rightarrow> ie_Backend e @ '': '' @ ie_URL e @ '' rejected the API key (HTTP '' @ itoa (ie_Status e) @
       '') - check search.'' @ ie_Backend e @ ''.api_key''
   | KindStatus \<Rightarrow> ie_Backend e @ '': '' @ ie_URL e @ '' returned HTTP '' @ itoa (ie_Status e)
   | KindTimeout \<Rightarrow> ie_Backend e @ '': no reply from '' @ ie_URL e @ '': '' @ cause e
   | KindDecode \<Rightarrow> ie_Backend e @ '': could not read the reply from '' @ ie_URL e @ '': '' @ cause e)"

text \<open>An error of the package, or one of the plain messages.\<close>

datatype search_err = Typed IndexerError | Plain string

fun err_text :: "search_err \<Rightarrow> string" where
  "err_text (Typed e) = Error_text e"
| "err_text (Plain s) = s"

definition classify :: "string \<Rightarrow> string \<Rightarrow> xerr \<Rightarrow> IndexerError" where
  "classify backend url err = \<lparr>ie_Kind = (if xe_deadline err \<or> xe_timeout err then KindTimeout else KindUnreachable),
     ie_Backend = backend, ie_URL = url, ie_Status = 0, ie_Err = Some err\<rparr>"

subsection \<open>Numbers on the wire\<close>

definition str :: "string option \<Rightarrow> string" where
  "str p = (case p of None \<Rightarrow> [] | Some s \<Rightarrow> s)"

fun firstNonEmpty :: "string option list \<Rightarrow> string" where
  "firstNonEmpty [] = []"
| "firstNonEmpty (p # ps) = (if p \<noteq> None \<and> p \<noteq> Some [] then the p else firstNonEmpty ps)"

definition json_number :: "int \<Rightarrow> string option \<Rightarrow> int" where
  "json_number missing p = (case p of
     None \<Rightarrow> missing
   | Some s \<Rightarrow> (case atoi s of
       Some i \<Rightarrow> i
     | None \<Rightarrow> (case ParseFloat s of Some f \<Rightarrow> int_of_f64 f | None \<Rightarrow> missing)))"

definition numInt64 :: "string option \<Rightarrow> int" where
  "numInt64 p = json_number 0 p"

definition numCount :: "string option \<Rightarrow> int" where
  "numCount p = json_number Unknown p"

subsection \<open>The cache\<close>

record cacheEntry =
  ce_results :: "Result list"
  ce_expires :: gotime

type_synonym cache = "(string, cacheEntry) gomap"

definition maxCacheEntries :: nat where "maxCacheEntries = 64"

definition cache_get :: "string \<Rightarrow> gotime \<Rightarrow> cache \<Rightarrow> Result list option" where
  "cache_get key now c = (case map_of c key of
     None \<Rightarrow> None
   | Some e \<Rightarrow> if now < ce_expires e then Some (ce_results e) else None)"

text \<open>The loop over the entries for the one that expires soonest.\<close>

fun soonest :: "string \<Rightarrow> gotime \<Rightarrow> cache \<Rightarrow> string" where
  "soonest k oldest [] = k"
| "soonest k oldest ((k', e) # es) =
     (if is_zero_time oldest \<or> ce_expires e < oldest then soonest k' (ce_expires e) es
      else soonest k oldest es)"

definition cache_put :: "string \<Rightarrow> Result list \<Rightarrow> gotime \<Rightarrow> duration \<Rightarrow> cache \<Rightarrow> cache" where
  "cache_put key results expires ttl c =
     (if ttl < 0 then c
      else let c1 = (if map_of c key = None \<and> maxCacheEntries \<le> List.length c
                     then AList.delete (soonest [] 0 c) c else c)
           in AList.update key \<lparr>ce_results = results, ce_expires = expires\<rparr> c1)"

subsection \<open>Ordering and merging\<close>

definition sortResults :: "Result list \<Rightarrow> Result list" where
  "sortResults rs = sort_key (\<lambda>r. - res_Seeders r) rs"

definition marker :: string where "marker = ''xt=urn:btih:''"

definition infoHash :: "string \<Rightarrow> string" where
  "infoHash link = (case str_index (to_lower link) marker of
     None \<Rightarrow> []
   | Some i \<Rightarrow> to_lower (takeWhile (\<lambda>c. c \<notin> set ''&/?'') (drop (i + List.length marker) link)))"

fun dedupe_from :: "string list \<Rightarrow> Result list \<Rightarrow> Result list" where
  "dedupe_from seen [] = []"
| "dedupe_from seen (r # rs) = (let h = infoHash (res_Link r) in
     if h = [] then r # dedupe_from seen rs
     else if h \<in> set seen then dedupe_from seen rs
     else r # dedupe_from (h # seen) rs)"

definition dedupe :: "Result list \<Rightarrow> Result list" where
  "dedupe rs = dedupe_from [] rs"

definition nameError :: "string list \<Rightarrow> string \<Rightarrow> string" where
  "nameError names msg =
     (if list_ex (\<lambda>n. has_prefix msg (n @ '':'')) names then msg
      else str_join names '', '' @ '': '' @ msg)"

subsection \<open>Lemmas\<close>

text \<open>Results in the order a caller expects them: the most seeders first.\<close>

definition best_first :: "Result list \<Rightarrow> bool" where
  "best_first rs \<longleftrightarrow> sorted_wrt (\<lambda>a b. res_Seeders b \<le> res_Seeders a) rs"

lemma best_first_sortResults [simp]: "best_first (sortResults rs)"
proof -
  have "sorted (map (\<lambda>r. - res_Seeders r) (sortResults rs))" by (simp add: sortResults_def)
  then show ?thesis by (simp add: best_first_def sorted_wrt_map)
qed

lemma best_first_Nil [simp]: "best_first []"
  by (simp add: best_first_def)

lemma set_sortResults [simp]: "set (sortResults rs) = set rs"
  by (simp add: sortResults_def)

text \<open>Ties keep the order they came in.\<close>

lemma sortResults_stable:
  "filter (\<lambda>r. res_Seeders r = n) (sortResults rs) = filter (\<lambda>r. res_Seeders r = n) rs"
proof -
  have "filter (\<lambda>r. - res_Seeders r = - n) (sort_key (\<lambda>r. - res_Seeders r) rs) = filter (\<lambda>r. - res_Seeders r = - n) rs"
    by (rule sort_key_stable)
  then show ?thesis by (simp add: sortResults_def)
qed

lemma dedupe_from_hashes:
  "h \<in> infoHash ` res_Link ` set (dedupe_from seen rs) \<Longrightarrow> h \<noteq> [] \<Longrightarrow> h \<notin> set seen"
  by (induction seen rs rule: dedupe_from.induct) (auto simp: Let_def split: if_splits)

lemma set_dedupe_from: "set (dedupe_from seen rs) \<subseteq> set rs"
  by (induction rs arbitrary: seen) (simp_all add: Let_def subset_insertI2)

lemma dedupe_from_keeps:
  "r \<in> set rs \<Longrightarrow> infoHash (res_Link r) \<in> set seen \<union> infoHash ` res_Link ` set (dedupe_from seen rs)"
  by (induction seen rs rule: dedupe_from.induct) (auto simp: Let_def)

lemma dedupe_from_no_magnet:
  "filter (\<lambda>r. infoHash (res_Link r) = []) (dedupe_from seen rs) = filter (\<lambda>r. infoHash (res_Link r) = []) rs"
  by (induction seen rs rule: dedupe_from.induct) (auto simp: Let_def)

lemma dedupe_from_distinct:
  "distinct (filter (\<lambda>h. h \<noteq> []) (map (infoHash \<circ> res_Link) (dedupe_from seen rs)))"
proof (induction seen rs rule: dedupe_from.induct)
  case (2 seen r rs)
  have "infoHash (res_Link r) \<notin> infoHash ` res_Link ` set (dedupe_from (infoHash (res_Link r) # seen) rs)"
    if "infoHash (res_Link r) \<noteq> []"
    using dedupe_from_hashes [OF _ that, of "infoHash (res_Link r) # seen" rs] by auto
  then show ?case using 2 by (auto simp: Let_def image_iff)
qed simp

lemma soonest_mem: "soonest k o' es = k \<or> soonest k o' es \<in> fst ` set es"
  by (induction k o' es rule: soonest.induct) auto

lemma length_delete_mem: "distinct_keys c \<Longrightarrow> k \<in> fst ` set c \<Longrightarrow> Suc (List.length (AList.delete k c)) = List.length c"
proof (induction c)
  case (Cons p c)
  then have d: "fst p \<notin> fst ` set c" "distinct_keys c" by (auto simp: distinct_keys_def)
  show ?case
  proof (cases "fst p = k")
    case True
    then have "AList.delete k (p # c) = c"
      using d(1) by (cases p) (auto simp: AList.delete_eq intro!: filter_True, force)
    then show ?thesis by simp
  qed (use Cons d in \<open>cases p; auto\<close>)
qed simp

text \<open>The cache never holds more than its cap.\<close>

lemma cache_put_bounded:
  assumes "distinct_keys c" "List.length c \<le> maxCacheEntries"
  shows "List.length (cache_put key rs t ttl c) \<le> maxCacheEntries"
proof (cases "map_of c key")
  case (Some e)
  then show ?thesis using assms by (simp add: cache_put_def length_update_present)
next
  case None
  let ?k = "soonest [] 0 c"
  have k: "?k \<in> fst ` set c" if "maxCacheEntries \<le> List.length c"
  proof (cases c)
    case (Cons p c')
    then show ?thesis using soonest_mem [of "fst p" "ce_expires (snd p)" c'] by (cases p) auto
  qed (use that in \<open>simp add: maxCacheEntries_def\<close>)
  show ?thesis
  proof (cases "maxCacheEntries \<le> List.length c")
    case True
    then have "Suc (List.length (AList.delete ?k c)) = List.length c" using length_delete_mem [OF assms(1) k] by simp
    then show ?thesis using None assms(2) True by (simp add: cache_put_def length_update_absent)
  qed (use None assms in \<open>simp add: cache_put_def length_update_absent\<close>)
qed

lemma cache_put_distinct: "distinct_keys c \<Longrightarrow> distinct_keys (cache_put key rs t ttl c)"
  by (simp add: cache_put_def)

lemma cache_put_entry:
  "map_of (cache_put key rs t ttl c) k = Some e \<Longrightarrow> map_of c k = Some e \<or> k = key \<and> ce_results e = rs"
  by (auto simp: cache_put_def split: if_splits)

lemma cache_put_get: "0 \<le> ttl \<Longrightarrow> now < t \<Longrightarrow> cache_get key now (cache_put key rs t ttl c) = Some rs"
  by (simp add: cache_put_def cache_get_def)

end
