(* ===== verification/IndexerClient.thy ===== *)
theory IndexerClient
  imports Indexer
begin

text \<open>
  The client of one aggregator: \<^verbatim>\<open>internal/indexer/indexer.go\<close> with its two back ends
  \<^verbatim>\<open>jackett.go\<close> and \<^verbatim>\<open>prowlarr.go\<close>. The network is a value handed to each call: whether a request
  can be built, what each attempt at it gives, whether the caller gives up while it waits, and what
  \<^verbatim>\<open>json.Unmarshal\<close> makes of a body. \<open>do_from\<close> also returns what it did, in order.
\<close>

subsection \<open>Requests\<close>

datatype backend = Jackett | Prowlarr

fun backend_name :: "backend \<Rightarrow> string" where
  "backend_name Jackett = ''jackett''"
| "backend_name Prowlarr = ''prowlarr''"

record http_request =
  rq_url :: string
  rq_header :: "(string \<times> string) list"

text \<open>\<^verbatim>\<open>url.QueryEscape\<close>, and \<^verbatim>\<open>Values.Encode\<close> of pairs already in the order of their keys.\<close>

definition hex_digit :: "nat \<Rightarrow> char" where
  "hex_digit d = (if d < 10 then char_of (48 + d) else char_of (55 + d))"

definition escape_char :: "char \<Rightarrow> string" where
  "escape_char c =
     (if is_lower c \<or> is_upper c \<or> is_digit c \<or> c \<in> set ''-_.~'' then [c]
      else if c = CHR '' '' then ''+''
      else [CHR ''%'', hex_digit (of_char c div 16), hex_digit (of_char c mod 16)])"

definition QueryEscape :: "string \<Rightarrow> string" where
  "QueryEscape s = concat (map escape_char s)"

definition values_Encode :: "(string \<times> string) list \<Rightarrow> string" where
  "values_Encode kvs = str_join (map (\<lambda>(k, v). QueryEscape k @ ''='' @ QueryEscape v) kvs) ''&''"

definition healthProbeIndexer :: string where "healthProbeIndexer = ''torrnado_health_probe''"

definition torrentIndexers :: string where "torrentIndexers = ''-2''"

definition prowlarr_key :: "string \<Rightarrow> (string \<times> string) list" where
  "prowlarr_key apiKey = [(''X-Api-Key'', apiKey)]"

fun searchRequest :: "backend \<Rightarrow> string \<Rightarrow> string \<Rightarrow> string \<Rightarrow> http_request" where
  "searchRequest Jackett base apiKey query =
     \<lparr>rq_url = base @ ''/api/v2.0/indexers/all/results?'' @
        values_Encode [(''apikey'', apiKey), (''query'', query)], rq_header = []\<rparr>"
| "searchRequest Prowlarr base apiKey query =
     \<lparr>rq_url = base @ ''/api/v1/search?'' @
        values_Encode [(''indexerIds'', torrentIndexers), (''query'', query)],
      rq_header = prowlarr_key apiKey\<rparr>"

fun healthRequest :: "backend \<Rightarrow> string \<Rightarrow> string \<Rightarrow> http_request" where
  "healthRequest Jackett base apiKey =
     \<lparr>rq_url = base @ ''/api/v2.0/indexers/'' @ healthProbeIndexer @ ''/results?'' @
        values_Encode [(''apikey'', apiKey)], rq_header = []\<rparr>"
| "healthRequest Prowlarr base apiKey =
     \<lparr>rq_url = base @ ''/api/v1/health'', rq_header = prowlarr_key apiKey\<rparr>"

fun healthOK :: "backend \<Rightarrow> int \<Rightarrow> string \<Rightarrow> bool" where
  "healthOK Jackett status body = (status = 500 \<and> contains body healthProbeIndexer)"
| "healthOK Prowlarr status body = (200 \<le> status \<and> status \<le> 299)"

subsection \<open>Replies\<close>

record jackettResult =
  jr_Title :: "string option"
  jr_Size :: "string option"
  jr_Seeders :: "string option"
  jr_Peers :: "string option"
  jr_Tracker :: "string option"
  jr_MagnetUri :: "string option"
  jr_Link :: "string option"

record prowlarrResult =
  pr_Title :: "string option"
  pr_Size :: "string option"
  pr_Seeders :: "string option"
  pr_Leechers :: "string option"
  pr_Indexer :: "string option"
  pr_MagnetURL :: "string option"
  pr_DownloadURL :: "string option"

definition jackett_row :: "jackettResult \<Rightarrow> Result" where
  "jackett_row r = \<lparr>res_Title = str (jr_Title r), res_Size = numInt64 (jr_Size r),
     res_Seeders = numCount (jr_Seeders r), res_Leechers = numCount (jr_Peers r),
     res_Tracker = str (jr_Tracker r), res_Link = firstNonEmpty [jr_MagnetUri r, jr_Link r]\<rparr>"

definition prowlarr_row :: "prowlarrResult \<Rightarrow> Result" where
  "prowlarr_row r = \<lparr>res_Title = str (pr_Title r), res_Size = numInt64 (pr_Size r),
     res_Seeders = numCount (pr_Seeders r), res_Leechers = numCount (pr_Leechers r),
     res_Tracker = str (pr_Indexer r), res_Link = firstNonEmpty [pr_MagnetURL r, pr_DownloadURL r]\<rparr>"

text \<open>The network, as one call sees it.\<close>

record net =
  nt_build :: "http_request \<Rightarrow> xerr option"
  nt_send :: "http_request \<Rightarrow> nat \<Rightarrow> xerr + (int \<times> string)"
  nt_giveUp :: "nat \<Rightarrow> xerr option"
  nt_jackett :: "string \<Rightarrow> xerr + jackettResult list"
  nt_prowlarr :: "string \<Rightarrow> xerr + prowlarrResult list"
  nt_start :: gotime
  nt_end :: gotime

definition wrapped :: "string \<Rightarrow> xerr \<Rightarrow> xerr" where
  "wrapped pre e = e\<lparr>xe_msg := pre @ '': '' @ xe_msg e\<rparr>"

fun parse :: "backend \<Rightarrow> net \<Rightarrow> string \<Rightarrow> xerr + Result list" where
  "parse Jackett N body = (case nt_jackett N body of
     Inl err \<Rightarrow> Inl (wrapped ''jackett sent something that is not its usual JSON'' err)
   | Inr rs \<Rightarrow> Inr (map jackett_row rs))"
| "parse Prowlarr N body = (case nt_prowlarr N body of
     Inl err \<Rightarrow> Inl (wrapped ''prowlarr sent something that is not its usual JSON'' err)
   | Inr rs \<Rightarrow> Inr (map prowlarr_row rs))"

subsection \<open>The client\<close>

record Options =
  op_Backend :: string
  op_URL :: string
  op_APIKey :: string
  op_Timeout :: duration
  op_Attempts :: int
  op_CacheTTL :: duration

record Client =
  cl_backend :: backend
  cl_url :: string
  cl_apiKey :: string
  cl_timeout :: duration
  cl_attempts :: nat
  cl_ttl :: duration
  cl_cache :: cache

definition DefaultTimeout :: duration where "DefaultTimeout = 10 * second"
definition DefaultCacheTTL :: duration where "DefaultCacheTTL = 5 * minute"
definition defaultAttempts :: int where "defaultAttempts = 3"
definition baseBackoff :: duration where "baseBackoff = 500 * millisecond"

definition Backends :: "string list" where "Backends = [''jackett'', ''prowlarr'']"

definition backend_of :: "string \<Rightarrow> backend option" where
  "backend_of s = (let k = to_lower (trim_space s) in
     if k = ''jackett'' then Some Jackett else if k = ''prowlarr'' then Some Prowlarr else None)"

definition trim_url :: "string \<Rightarrow> string" where
  "trim_url u = trim_right_char (CHR ''/'') (trim_space u)"

definition Client_New :: "Options \<Rightarrow> Client result" where
  "Client_New opts = (case backend_of (op_Backend opts) of
     None \<Rightarrow> Inl (''unknown indexer backend '' @ quoted (op_Backend opts) @ '' (known: '' @
               str_join Backends '', '' @ '')'')
   | Some b \<Rightarrow> Inr \<lparr>cl_backend = b, cl_url = trim_url (op_URL opts), cl_apiKey = op_APIKey opts,
       cl_timeout = (if op_Timeout opts \<le> 0 then DefaultTimeout else op_Timeout opts),
       cl_attempts = nat (if op_Attempts opts \<le> 0 then defaultAttempts else op_Attempts opts),
       cl_ttl = (if op_CacheTTL opts = 0 then DefaultCacheTTL else op_CacheTTL opts),
       cl_cache = []\<rparr>)"

text \<open>What \<^verbatim>\<open>do\<close> did: waited between two attempts, or sent the request.\<close>

datatype attempt_step = Waited duration | Sent

definition failed :: "Client \<Rightarrow> Kind \<Rightarrow> int \<Rightarrow> xerr option \<Rightarrow> IndexerError" where
  "failed c k status err =
     \<lparr>ie_Kind = k, ie_Backend = backend_name (cl_backend c), ie_URL = cl_url c,
      ie_Status = status, ie_Err = err\<rparr>"

text \<open>Attempt number \<open>i\<close>, with \<open>n\<close> left and the last timeout so far.\<close>

fun do_from :: "Client \<Rightarrow> net \<Rightarrow> http_request \<Rightarrow> nat \<Rightarrow> nat \<Rightarrow> IndexerError \<Rightarrow>
    (IndexerError + (int \<times> string)) \<times> attempt_step list" where
  "do_from c N rq i 0 lst = (Inl lst, [])"
| "do_from c N rq i (Suc n) lst =
     (let w = (if i = 0 then [] else [Waited (wrap64 (baseBackoff * 2 ^ (i - 1)))]) in
      case (if i = 0 then None else nt_giveUp N i) of
        Some err \<Rightarrow> (Inl (classify (backend_name (cl_backend c)) (cl_url c) err), w)
      | None \<Rightarrow> (case nt_build N rq of
          Some err \<Rightarrow> (Inl (failed c KindUnreachable 0 (Some err)), w)
        | None \<Rightarrow> (case nt_send N rq i of
            Inl err \<Rightarrow>
              (let e = classify (backend_name (cl_backend c)) (cl_url c) err in
               if ie_Kind e \<noteq> KindTimeout then (Inl e, w @ [Sent])
               else let (r, steps) = do_from c N rq (Suc i) n e in (r, w @ Sent # steps))
          | Inr (status, body) \<Rightarrow>
              if status = 401 \<or> status = 403 then (Inl (failed c KindAuth status None), w @ [Sent])
              else (Inr (status, body), w @ [Sent]))))"

definition do_request :: "Client \<Rightarrow> net \<Rightarrow> http_request \<Rightarrow> (IndexerError + (int \<times> string)) \<times> attempt_step list" where
  "do_request c N rq = do_from c N rq 0 (cl_attempts c) (failed c KindUnreachable 0 None)"

definition Client_Search :: "net \<Rightarrow> string \<Rightarrow> Client \<Rightarrow> (search_err + Result list \<times> string list) \<times> Client" where
  "Client_Search N query c =
     (let key = to_lower (trim_space query) in
      if key = [] then (Inl (Plain ''find: needs a query''), c)
      else case cache_get key (nt_start N) (cl_cache c) of
        Some hit \<Rightarrow> (Inr (hit, []), c)
      | None \<Rightarrow> (case fst (do_request c N (searchRequest (cl_backend c) (cl_url c) (cl_apiKey c) query)) of
          Inl err \<Rightarrow> (Inl (Typed err), c)
        | Inr (status, body) \<Rightarrow>
            if status < 200 \<or> 299 < status then (Inl (Typed (failed c KindStatus status None)), c)
            else (case parse (cl_backend c) N body of
                Inl err \<Rightarrow> (Inl (Typed (failed c KindDecode 0 (Some err))), c)
              | Inr rs \<Rightarrow>
                  (let results = sortResults rs
                   in (Inr (results, []),
                       c\<lparr>cl_cache := cache_put key results (nt_end N + cl_ttl c) (cl_ttl c) (cl_cache c)\<rparr>)))))"

definition Health :: "net \<Rightarrow> Client \<Rightarrow> IndexerError option" where
  "Health N c = (case fst (do_request c N (healthRequest (cl_backend c) (cl_url c) (cl_apiKey c))) of
     Inl err \<Rightarrow> Some err
   | Inr (status, body) \<Rightarrow>
       if healthOK (cl_backend c) status body then None else Some (failed c KindStatus status None))"

definition Client_Sources :: "Client \<Rightarrow> string list" where
  "Client_Sources c = [backend_name (cl_backend c)]"

subsection \<open>Lemmas\<close>

lemma do_from_steps:
  "length (filter (\<lambda>s. s = Sent) (snd (do_from c N rq i n lst))) \<le> n"
proof (induction n arbitrary: i lst)
  case (Suc n)
  have "length (filter (\<lambda>s. s = Sent) (snd (do_from c N rq (Suc i) n e))) \<le> n" for e
    by (rule Suc.IH)
  then show ?case by (cases "i = 0") (simp_all add: Let_def case_prod_beta split: option.split sum.split)
qed simp

text \<open>Only a timeout is followed by another attempt.\<close>

lemma do_from_retries:
  "0 < n \<Longrightarrow> nt_send N rq i = Inl err \<Longrightarrow> \<not> xe_deadline err \<Longrightarrow> \<not> xe_timeout err \<Longrightarrow>
     length (filter (\<lambda>s. s = Sent) (snd (do_from c N rq i n lst))) \<le> 1"
  by (cases n) (auto simp: Let_def classify_def split: option.splits)

lemma do_from_reply:
  "0 < n \<Longrightarrow> nt_send N rq i = Inr sb \<Longrightarrow>
     length (filter (\<lambda>s. s = Sent) (snd (do_from c N rq i n lst))) \<le> 1"
  by (cases n) (auto simp: Let_def split: option.splits prod.splits)

lemma do_from_timeout:
  assumes "nt_send N rq i = Inl err" "xe_deadline err \<or> xe_timeout err" "nt_giveUp N i = None" "nt_build N rq = None"
  shows "\<exists>w e. do_from c N rq i (Suc n) lst =
      (fst (do_from c N rq (Suc i) n e), w @ Sent # snd (do_from c N rq (Suc i) n e)) \<and>
    ie_Kind e = KindTimeout \<and> filter (\<lambda>s. s = Sent) w = []"
proof -
  have "ie_Kind (classify (backend_name (cl_backend c)) (cl_url c) err) = KindTimeout"
    using assms(2) by (simp add: classify_def)
  then show ?thesis using assms
    by (intro exI [of _ "if i = 0 then [] else [Waited (wrap64 (baseBackoff * 2 ^ (i - 1)))]"]
          exI [of _ "classify (backend_name (cl_backend c)) (cl_url c) err"]; cases i)
       (simp_all add: Let_def case_prod_beta)
qed

lemma do_from_all_timeouts:
  assumes "\<forall>j. nt_giveUp N j = None" "nt_build N rq = None"
    "\<forall>j. \<exists>err. nt_send N rq j = Inl err \<and> (xe_deadline err \<or> xe_timeout err)" "0 < n \<or> ie_Kind lst = KindTimeout"
  shows "(\<exists>e. fst (do_from c N rq i n lst) = Inl e \<and> ie_Kind e = KindTimeout) \<and>
     length (filter (\<lambda>s. s = Sent) (snd (do_from c N rq i n lst))) = n"
  using assms(4)
proof (induction n arbitrary: i lst)
  case (Suc n)
  obtain err where "nt_send N rq i = Inl err" "xe_deadline err \<or> xe_timeout err" using assms(3) by blast
  then obtain w e where "do_from c N rq i (Suc n) lst =
      (fst (do_from c N rq (Suc i) n e), w @ Sent # snd (do_from c N rq (Suc i) n e))"
    "ie_Kind e = KindTimeout" "filter (\<lambda>s. s = Sent) w = []"
    using do_from_timeout assms(1,2) by metis
  then show ?case using Suc.IH [of e "Suc i"] by simp
qed simp

text \<open>The state a client keeps: cached results are best first, the cache is bounded.\<close>

definition client_ok :: "Client \<Rightarrow> bool" where
  "client_ok c \<longleftrightarrow> distinct_keys (cl_cache c) \<and> List.length (cl_cache c) \<le> maxCacheEntries \<and>
     (\<forall>k e. map_of (cl_cache c) k = Some e \<longrightarrow> best_first (ce_results e))"

lemma client_ok_New: "Client_New opts = Inr c \<Longrightarrow> client_ok c \<and> 0 < cl_attempts c"
  by (auto simp: Client_New_def client_ok_def defaultAttempts_def split: option.splits)

lemma cache_get_Some: "cache_get key now c = Some rs \<Longrightarrow> \<exists>e. map_of c key = Some e \<and> ce_results e = rs"
  by (auto simp: cache_get_def split: option.splits if_splits)

lemma Client_Search_cases:
  "snd (Client_Search N q c) = c \<or>
   (\<exists>rs. fst (Client_Search N q c) = Inr (sortResults rs, []) \<and>
      snd (Client_Search N q c) = c\<lparr>cl_cache := cache_put (to_lower (trim_space q)) (sortResults rs)
         (nt_end N + cl_ttl c) (cl_ttl c) (cl_cache c)\<rparr>)"
  by (auto simp: Client_Search_def Let_def split: option.splits sum.splits prod.splits)

lemma client_ok_put:
  "client_ok c \<Longrightarrow> client_ok (c\<lparr>cl_cache := cache_put k (sortResults rs) t ttl (cl_cache c)\<rparr>)"
  by (auto simp: client_ok_def cache_put_bounded cache_put_distinct dest!: cache_put_entry)

lemma client_ok_Search: "client_ok c \<Longrightarrow> client_ok (snd (Client_Search N q c))"
  using Client_Search_cases [of N q c] client_ok_put by auto

lemma Client_Search_best_first:
  "client_ok c \<Longrightarrow> fst (Client_Search N q c) = Inr (rs, ws) \<Longrightarrow> best_first rs \<and> ws = []"
  by (auto simp: Client_Search_def Let_def client_ok_def
      split: option.splits sum.splits prod.splits if_splits dest!: cache_get_Some)

end
