(* ===== verification/FlareSolverr.thy ===== *)
theory FlareSolverr
  imports Quantities Indexer
begin

text \<open>
  The client of a FlareSolverr server, \<^verbatim>\<open>internal/flaresolverr\<close>, and the adapter \<^verbatim>\<open>browser\<close> of
  \<^verbatim>\<open>cmd/torrnado/browser.go\<close> that makes it the fetcher a site plugin reads pages through. The server
  is a parameter: what it answers to a command, given the commands it was sent before (newest
  first). What \<^verbatim>\<open>url.Parse\<close> makes of an address, a scheme and a host, is one too.
\<close>

subsection \<open>Commands and replies\<close>

record Cookie =
  ck_Name :: string
  ck_Value :: string
  ck_Domain :: string
  ck_Path :: string

record Page =
  pg_URL :: string
  pg_Status :: int
  pg_HTML :: string
  pg_Cookies :: "Cookie list"
  pg_UserAgent :: string

fun Page_Cookie :: "string \<Rightarrow> Cookie list \<Rightarrow> string option" where
  "Page_Cookie name [] = None"
| "Page_Cookie name (c # cs) = (if ck_Name c = name then Some (ck_Value c) else Page_Cookie name cs)"

record fl_options =
  fo_Session :: string
  fo_Cookies :: "Cookie list"

record command =
  cm_Cmd :: string
  cm_URL :: string
  cm_Session :: string
  cm_MaxTimeout :: int
  cm_Cookies :: "Cookie list"
  cm_PostData :: string

record solution =
  so_URL :: string
  so_Status :: int
  so_Response :: string
  so_Cookies :: "Cookie list"
  so_UserAgent :: string

record response =
  rp_Status :: string
  rp_Message :: string
  rp_Session :: string
  rp_Solution :: "solution option"

text \<open>What posting a command can come to.\<close>

datatype outcome = Unbuilt xerr | NoAnswer xerr | Undecodable int xerr | Answer int response

type_synonym flare_server = "command list \<Rightarrow> command \<Rightarrow> outcome"

subsection \<open>Errors\<close>

datatype flKind = FlUnreachable | FlTimeout | FlCanceled | FlServer | FlBadReply

record flError =
  fe_Kind :: flKind
  fe_URL :: string
  fe_Status :: int
  fe_Msg :: string
  fe_Timeout :: duration
  fe_Err :: "xerr option"

definition fl_cause :: "flError \<Rightarrow> string" where
  "fl_cause e = (case fe_Err e of None \<Rightarrow> ''<nil>'' | Some x \<Rightarrow> xe_msg x)"

definition flError_text :: "flError \<Rightarrow> string" where
  "flError_text e = (case fe_Kind e of
     FlUnreachable \<Rightarrow> ''flaresolverr: cannot reach '' @ fe_URL e @ '' ('' @ fl_cause e @
       '') - is it running, and is the url right?''
   | FlTimeout \<Rightarrow> ''flaresolverr: no reply from '' @ fe_URL e @ '' after '' @ duration_text (fe_Timeout e) @
       '' - a hard challenge can take longer, try raising the timeout''
   | FlCanceled \<Rightarrow> ''flaresolverr: '' @ fe_URL e @ '': cancelled''
   | FlServer \<Rightarrow>
       if fe_Msg e = [] then ''flaresolverr: '' @ fe_URL e @ '': failed without saying why (HTTP '' @
         itoa (fe_Status e) @ '')''
       else ''flaresolverr: '' @ fe_URL e @ '': '' @ fe_Msg e
   | FlBadReply \<Rightarrow> ''flaresolverr: '' @ fe_URL e @ '': '' @ fe_Msg e @ '' (HTTP '' @ itoa (fe_Status e) @
       ''): '' @ fl_cause e)"

definition fl_classify :: "string \<Rightarrow> duration \<Rightarrow> xerr \<Rightarrow> flError" where
  "fl_classify url waited err =
     \<lparr>fe_Kind = (if xe_canceled err then FlCanceled
        else if xe_deadline err \<or> xe_timeout err then FlTimeout else FlUnreachable),
      fe_URL = url, fe_Status = 0, fe_Msg = [], fe_Timeout = waited, fe_Err = Some err\<rparr>"

subsection \<open>The client\<close>

record FlareClient =
  fl_url :: string
  fl_timeout :: duration
  fl_slack :: duration

definition fl_DefaultTimeout :: duration where "fl_DefaultTimeout = 60 * second"
definition clientSlack :: duration where "clientSlack = 15 * second"

type_synonym url_parser = "string \<Rightarrow> (string \<times> string) option"

text \<open>The check both the configuration and this client make of an address.\<close>

definition http_url :: "url_parser \<Rightarrow> string \<Rightarrow> bool" where
  "http_url U u = (case U u of None \<Rightarrow> False
     | Some (scheme, host) \<Rightarrow> (scheme = ''http'' \<or> scheme = ''https'') \<and> host \<noteq> [])"

definition Flare_New :: "url_parser \<Rightarrow> string \<Rightarrow> duration \<Rightarrow> duration \<Rightarrow> FlareClient result" where
  "Flare_New U url timeout slack =
     (let base = trim_right_char (CHR ''/'') (trim_space url) in
      if base = [] then Inl ''flaresolverr: no url configured''
      else if \<not> http_url U base
      then Inl (''flaresolverr: '' @ quoted url @ '' must be an http(s) URL, e.g. http://localhost:8191'')
      else Inr \<lparr>fl_url = base, fl_timeout = (if timeout \<le> 0 then fl_DefaultTimeout else timeout),
                fl_slack = (if slack \<le> 0 then clientSlack else slack)\<rparr>)"

definition fl_error :: "FlareClient \<Rightarrow> flKind \<Rightarrow> int \<Rightarrow> string \<Rightarrow> xerr option \<Rightarrow> flError" where
  "fl_error c k status msg err = \<lparr>fe_Kind = k, fe_URL = fl_url c, fe_Status = status, fe_Msg = msg,
     fe_Timeout = 0, fe_Err = err\<rparr>"

definition fl_send :: "flare_server \<Rightarrow> FlareClient \<Rightarrow> command list \<Rightarrow> command \<Rightarrow> flError + response" where
  "fl_send S c h cm = (case S h cm of
     Unbuilt err \<Rightarrow> Inl (fl_error c FlBadReply 0 ''could not build the request'' (Some err))
   | NoAnswer err \<Rightarrow> Inl (fl_classify (fl_url c) (wrap64 (fl_timeout c + fl_slack c)) err)
   | Undecodable status err \<Rightarrow> Inl (fl_error c FlBadReply status ''could not read the reply'' (Some err))
   | Answer status r \<Rightarrow>
       if rp_Status r \<noteq> ''ok'' then Inl (fl_error c FlServer status (rp_Message r) None) else Inr r)"

definition fl_do :: "flare_server \<Rightarrow> FlareClient \<Rightarrow> command list \<Rightarrow> command \<Rightarrow> flError + Page" where
  "fl_do S c h cm = (case fl_send S c h cm of
     Inl err \<Rightarrow> Inl err
   | Inr r \<Rightarrow> (case rp_Solution r of
       None \<Rightarrow> Inl (fl_error c FlServer 0 (''no page came back: '' @ rp_Message r) None)
     | Some s \<Rightarrow> Inr \<lparr>pg_URL = so_URL s, pg_Status = so_Status s, pg_HTML = so_Response s,
         pg_Cookies = so_Cookies s, pg_UserAgent = so_UserAgent s\<rparr>))"

definition get_command :: "FlareClient \<Rightarrow> string \<Rightarrow> fl_options \<Rightarrow> command" where
  "get_command c pageURL opts = \<lparr>cm_Cmd = ''request.get'', cm_URL = pageURL, cm_Session = fo_Session opts,
     cm_MaxTimeout = go_div (fl_timeout c) millisecond, cm_Cookies = fo_Cookies opts, cm_PostData = []\<rparr>"

definition post_command :: "FlareClient \<Rightarrow> string \<Rightarrow> string \<Rightarrow> fl_options \<Rightarrow> command" where
  "post_command c pageURL form opts = \<lparr>cm_Cmd = ''request.post'', cm_URL = pageURL, cm_Session = fo_Session opts,
     cm_MaxTimeout = go_div (fl_timeout c) millisecond, cm_Cookies = fo_Cookies opts, cm_PostData = form\<rparr>"

definition session_command :: "string \<Rightarrow> string \<Rightarrow> command" where
  "session_command cmd session = \<lparr>cm_Cmd = cmd, cm_URL = [], cm_Session = session,
     cm_MaxTimeout = 0, cm_Cookies = [], cm_PostData = []\<rparr>"

definition NewSession :: "flare_server \<Rightarrow> FlareClient \<Rightarrow> command list \<Rightarrow> flError + string" where
  "NewSession S c h = (case fl_send S c h (session_command ''sessions.create'' []) of
     Inl err \<Rightarrow> Inl err
   | Inr r \<Rightarrow> if rp_Session r = []
       then Inl (fl_error c FlServer 0 ''created a session but got no id back'' None)
       else Inr (rp_Session r))"

definition DestroySession :: "flare_server \<Rightarrow> FlareClient \<Rightarrow> command list \<Rightarrow> string \<Rightarrow> flError option" where
  "DestroySession S c h session = (case fl_send S c h (session_command ''sessions.destroy'' session) of
     Inl err \<Rightarrow> Some err | Inr _ \<Rightarrow> None)"

subsection \<open>The browser a site plugin reads through\<close>

text \<open>What a plugin asks of its fetcher: a page, or a form submitted.\<close>

datatype fetch = FetchGet string "(string \<times> string) list" | FetchPost string string "(string \<times> string) list"

type_synonym fetcher = "fetch list \<Rightarrow> fetch \<Rightarrow> string result"

record browser =
  br_fs :: FlareClient
  br_session :: string

definition newBrowser :: "flare_server \<Rightarrow> FlareClient \<Rightarrow> command list \<Rightarrow> browser" where
  "newBrowser S fs h = \<lparr>br_fs = fs, br_session = (case NewSession S fs h of Inl _ \<Rightarrow> [] | Inr s \<Rightarrow> s)\<rparr>"

definition close_browser :: "flare_server \<Rightarrow> browser \<Rightarrow> command list \<Rightarrow> browser \<times> command list" where
  "close_browser S b h = (if br_session b = [] then (b, h)
     else (b\<lparr>br_session := []\<rparr>, session_command ''sessions.destroy'' (br_session b) # h))"

definition browser_options :: "browser \<Rightarrow> (string \<times> string) list \<Rightarrow> fl_options" where
  "browser_options b cookies = \<lparr>fo_Session = br_session b,
     fo_Cookies = map (\<lambda>(n, v). \<lparr>ck_Name = n, ck_Value = v, ck_Domain = [], ck_Path = []\<rparr>) cookies\<rparr>"

fun browser_command :: "browser \<Rightarrow> fetch \<Rightarrow> command" where
  "browser_command b (FetchGet u cookies) = get_command (br_fs b) u (browser_options b cookies)"
| "browser_command b (FetchPost u form cookies) = post_command (br_fs b) u form (browser_options b cookies)"

definition browser_fetch :: "flare_server \<Rightarrow> browser \<Rightarrow> command list \<Rightarrow> fetcher" where
  "browser_fetch S b h0 fs f =
     (case fl_do S (br_fs b) (map (browser_command b) fs @ h0) (browser_command b f) of
        Inl err \<Rightarrow> Inl (flError_text err) | Inr page \<Rightarrow> Inr (pg_HTML page))"

text \<open>Nothing is injected under another domain, and every page is read in the one session.\<close>

lemma browser_command_simps:
  "cm_Session (browser_command b f) = br_session b"
  "c \<in> set (cm_Cookies (browser_command b f)) \<Longrightarrow> ck_Domain c = []"
  by (cases f; auto simp: get_command_def post_command_def browser_options_def)+

lemma browser_fetch_Inr:
  "browser_fetch S b h0 fs f = Inr page \<Longrightarrow>
     \<exists>status r s. S (map (browser_command b) fs @ h0) (browser_command b f) = Answer status r \<and>
       rp_Status r = ''ok'' \<and> rp_Solution r = Some s \<and> page = so_Response s"
  by (auto simp: browser_fetch_def fl_do_def fl_send_def split: sum.splits outcome.splits option.splits if_splits)

end
