(* ===== verification/Rutracker.thy ===== *)
theory Rutracker
  imports IndexerClient FlareSolverr
begin

text \<open>
  The site plugin, \<^verbatim>\<open>internal/indexer/rutracker.go\<close> and \<^verbatim>\<open>rutracker_parse.go\<close>. A page is the tree
  \<^verbatim>\<open>golang.org/x/net/html\<close> parses it into, and that parser is a parameter; so is the fetcher, which
  answers from what it was asked before. The plugin's own state is its session cookie, its cache and
  the requests it has made (newest first).
\<close>

subsection \<open>The page\<close>

datatype html = Element string "(string \<times> string) list" "html list" | TextNode string | OtherNode "html list"

fun kids :: "html \<Rightarrow> html list" where
  "kids (Element t as ks) = ks"
| "kids (TextNode s) = []"
| "kids (OtherNode ks) = ks"

fun is_element :: "html \<Rightarrow> bool" where
  "is_element (Element t as ks) = True"
| "is_element n = False"

fun tag_of :: "html \<Rightarrow> string" where
  "tag_of (Element t as ks) = t"
| "tag_of (TextNode s) = s"
| "tag_of (OtherNode ks) = []"

text \<open>
  \<^verbatim>\<open>walk\<close>: the visitor sees a node before its children and says whether to go into them; going on to
  the next sibling is not its to stop.
\<close>

fun walk :: "(html \<Rightarrow> 's \<Rightarrow> 's \<times> bool) \<Rightarrow> html \<Rightarrow> 's \<Rightarrow> 's"
  and walk_all :: "(html \<Rightarrow> 's \<Rightarrow> 's \<times> bool) \<Rightarrow> html list \<Rightarrow> 's \<Rightarrow> 's" where
  "walk v (Element t as ks) s = (let (s1, go) = v (Element t as ks) s in if go then walk_all v ks s1 else s1)"
| "walk v (OtherNode ks) s = (let (s1, go) = v (OtherNode ks) s in if go then walk_all v ks s1 else s1)"
| "walk v (TextNode x) s = fst (v (TextNode x) s)"
| "walk_all v [] s = s"
| "walk_all v (k # ks) s = walk_all v ks (walk v k s)"

fun attr :: "html \<Rightarrow> string \<Rightarrow> string" where
  "attr (Element t as ks) name = (case map_of as name of None \<Rightarrow> [] | Some v \<Rightarrow> v)"
| "attr n name = []"

definition numAttr :: "html \<Rightarrow> string \<Rightarrow> int" where
  "numAttr n name = (case atoi (trim_space (attr n name)) of None \<Rightarrow> 0 | Some v \<Rightarrow> v)"

definition hasClass :: "html \<Rightarrow> string \<Rightarrow> bool" where
  "hasClass n class = list_ex (\<lambda>c. c = class) (GoStrings.fields (attr n ''class''))"

definition elementByID :: "html \<Rightarrow> string \<Rightarrow> html option" where
  "elementByID base i = walk (\<lambda>n found.
     if is_element n \<and> attr n ''id'' = i then (Some n, False) else (found, True)) base None"

definition elementsByClass :: "html \<Rightarrow> string \<Rightarrow> string \<Rightarrow> html list" where
  "elementsByClass base tag class = walk (\<lambda>n out.
     (if is_element n \<and> tag_of n = tag \<and> hasClass n class then out @ [n] else out, True)) base []"

definition findByClass :: "html \<Rightarrow> string \<Rightarrow> html option" where
  "findByClass base class = walk (\<lambda>n found.
     if is_element n \<and> hasClass n class then (Some n, False) else (found, True)) base None"

definition children :: "html \<Rightarrow> string \<Rightarrow> html list" where
  "children n tag = filter (\<lambda>c. is_element c \<and> tag_of c = tag) (kids n)"

definition text_of :: "html \<Rightarrow> string" where
  "text_of n = str_join (GoStrings.fields (walk (\<lambda>x b. case x of TextNode d \<Rightarrow> (b @ d, True) | _ \<Rightarrow> (b, True)) n [])) '' ''"

definition findMagnet :: "html \<Rightarrow> string" where
  "findMagnet doc = walk (\<lambda>n found.
     if is_element n \<and> tag_of n = ''a'' \<and> has_prefix (attr n ''href'') ''magnet:''
     then (attr n ''href'', False) else (found, True)) doc []"

subsection \<open>Rows\<close>

definition RutrackerName :: string where "RutrackerName = ''rutracker''"

definition rowClass :: string where "rowClass = ''hl-tr''"
definition topicAttr :: string where "topicAttr = ''data-topic_id''"
definition sortAttr :: string where "sortAttr = ''data-ts_text''"
definition sizeClass :: string where "sizeClass = ''tor-size''"
definition leechClass :: string where "leechClass = ''leechmed''"
definition titleClass :: string where "titleClass = ''t-title''"

definition clampCount :: "int \<Rightarrow> string \<Rightarrow> int" where
  "clampCount n cellText = (if n < 0 then (if trim_space cellText = [] then Unknown else 0) else n)"

definition countFromText :: "string \<Rightarrow> int" where
  "countFromText s = (case atoi (trim_space s) of None \<Rightarrow> Unknown | Some n \<Rightarrow> if n < 0 then Unknown else n)"

text \<open>The cell before the one being read is handed on.\<close>

fun read_cells :: "html option \<Rightarrow> html list \<Rightarrow> Result \<Rightarrow> Result" where
  "read_cells prev [] r = r"
| "read_cells prev (td # tds) r =
     read_cells (Some td) tds
       (if hasClass td titleClass \<or> findByClass td titleClass \<noteq> None
        then (if res_Title r = [] then r\<lparr>res_Title := trim_space (text_of td)\<rparr> else r)
        else if hasClass td sizeClass then r\<lparr>res_Size := numAttr td sortAttr\<rparr>
        else if hasClass td leechClass
        then (let r1 = r\<lparr>res_Leechers := countFromText (text_of td)\<rparr>
              in case prev of
                   None \<Rightarrow> r1
                 | Some p \<Rightarrow> r1\<lparr>res_Seeders := clampCount (numAttr p sortAttr) (text_of p)\<rparr>)
        else r)"

definition rowResult :: "html \<Rightarrow> Result option" where
  "rowResult row =
     (let i = attr row topicAttr; cells = children row ''td'' in
      if i = [] then None
      else if List.length cells < 8 then None
      else let r = read_cells None cells
             \<lparr>res_Title = [], res_Size = 0, res_Seeders = Unknown, res_Leechers = Unknown,
              res_Tracker = RutrackerName, res_Link = Token RutrackerName i\<rparr>
           in if res_Title r = [] then None else Some r)"

definition parseRutracker :: "html \<Rightarrow> Result list result" where
  "parseRutracker doc = (case elementByID doc ''tor-tbl'' of
     None \<Rightarrow> Inl ''no result table on the page''
   | Some table \<Rightarrow> Inr (List.map_filter rowResult (elementsByClass table ''tr'' rowClass)))"

subsection \<open>The source\<close>

record RutrackerOptions =
  ro_Session :: string
  ro_Username :: string
  ro_Password :: string
  ro_CacheTTL :: duration

record Rutracker =
  rt_opts :: RutrackerOptions
  rt_cache :: cache
  rt_session :: string
  rt_fetched :: "fetch list"

record world =
  wo_fetch :: fetcher
  wo_parse :: "string \<Rightarrow> html result"
  wo_start :: gotime
  wo_end :: gotime

definition rutrackerBase :: string where "rutrackerBase = ''https://rutracker.org/forum/''"
definition rutrackerSearch :: string where "rutrackerSearch = rutrackerBase @ ''tracker.php?nm=''"
definition rutrackerTopic :: string where "rutrackerTopic = rutrackerBase @ ''viewtopic.php?t=''"
definition rutrackerLogin :: string where "rutrackerLogin = rutrackerBase @ ''login.php''"
definition sessionCookie :: string where "sessionCookie = ''bb_session''"

definition NewRutracker :: "bool \<Rightarrow> RutrackerOptions \<Rightarrow> Rutracker result" where
  "NewRutracker hasFetcher opts =
     (if \<not> hasFetcher then Inl (RutrackerName @ '' needs a flaresolverr server: set flaresolverr.url'')
      else if ro_Session opts = [] \<and> (ro_Username opts = [] \<or> ro_Password opts = [])
      then Inl (RutrackerName @ '' needs search.'' @ RutrackerName @ ''.session, or both search.'' @ RutrackerName @
             ''.username and search.'' @ RutrackerName @ ''.password'')
      else Inr \<lparr>rt_opts = opts, rt_cache = [], rt_session = ro_Session opts, rt_fetched = []\<rparr>)"

definition loggedOut :: "string \<Rightarrow> bool" where
  "loggedOut body \<longleftrightarrow> \<not> contains body ''logged-in-username''"

definition hasCaptcha :: "string \<Rightarrow> bool" where
  "hasCaptcha body \<longleftrightarrow> contains body ''cap_sid'' \<or> contains body ''captcha''"

definition ask :: "world \<Rightarrow> fetch \<Rightarrow> Rutracker \<Rightarrow> string result \<times> Rutracker" where
  "ask W f r = (wo_fetch W (rt_fetched r) f, r\<lparr>rt_fetched := f # rt_fetched r\<rparr>)"

definition login_form :: "RutrackerOptions \<Rightarrow> string" where
  "login_form opts = values_Encode
     [(''login'', map char_of [0xD0, 0xB2, 0xD1, 0x85, 0xD0, 0xBE, 0xD0, 0xB4 :: nat]),
      (''login_password'', ro_Password opts), (''login_username'', ro_Username opts)]"

definition login :: "world \<Rightarrow> Rutracker \<Rightarrow> unit result \<times> Rutracker" where
  "login W r =
     (if ro_Username (rt_opts r) = [] then (Inl (RutrackerName @ '': no session and no credentials - set search.'' @ RutrackerName @
       ''.session or search.'' @ RutrackerName @ ''.username and .password''), r)
      else case ask W (FetchPost rutrackerLogin (login_form (rt_opts r)) []) r of
        (Inl err, r1) \<Rightarrow> (Inl (RutrackerName @ '': logging in failed: '' @ err), r1)
      | (Inr body, r1) \<Rightarrow>
          (if hasCaptcha body then (Inl (RutrackerName @ '': the login form is asking for a captcha, which this cannot answer - '' @
             ''log in with a browser and copy its '' @ sessionCookie @ '' cookie into search.'' @ RutrackerName @ ''.session''), r1)
           else if loggedOut body then (Inl (RutrackerName @ '': the login was rejected - check search.'' @ RutrackerName @
             ''.username and search.'' @ RutrackerName @ ''.password''), r1)
           else (Inr (), r1)))"

definition get_page :: "world \<Rightarrow> string \<Rightarrow> Rutracker \<Rightarrow> string result \<times> Rutracker" where
  "get_page W pageURL r = (case ask W (FetchGet pageURL [(sessionCookie, rt_session r)]) r of
     (Inl err, r1) \<Rightarrow> (Inl (RutrackerName @ '': '' @ err), r1)
   | (Inr body, r1) \<Rightarrow> (Inr body, r1))"

definition fetchAs :: "world \<Rightarrow> string \<Rightarrow> Rutracker \<Rightarrow> string result \<times> Rutracker" where
  "fetchAs W pageURL r =
     (if rt_session r = []
      then (case login W r of (Inl err, r1) \<Rightarrow> (Inl err, r1) | (Inr _, r1) \<Rightarrow> get_page W pageURL r1)
      else get_page W pageURL r)"

definition parse_page :: "world \<Rightarrow> string \<Rightarrow> html result" where
  "parse_page W body = (case wo_parse W body of
     Inl err \<Rightarrow> Inl (RutrackerName @ '': parsing the page failed: '' @ err) | Inr doc \<Rightarrow> Inr doc)"

definition page :: "world \<Rightarrow> string \<Rightarrow> Rutracker \<Rightarrow> html result \<times> Rutracker" where
  "page W pageURL r = (case fetchAs W pageURL r of
     (Inl err, r1) \<Rightarrow> (Inl err, r1)
   | (Inr body, r1) \<Rightarrow>
      (if \<not> loggedOut body then (parse_page W body, r1)
       else if ro_Username (rt_opts r1) = []
       then (Inl (RutrackerName @ '': the session cookie has expired - paste a fresh one into search.'' @
             RutrackerName @ ''.session''), r1)
       else case login W r1 of
         (Inl err, r2) \<Rightarrow> (Inl err, r2)
       | (Inr _, r2) \<Rightarrow>
          (case fetchAs W pageURL r2 of
             (Inl err, r3) \<Rightarrow> (Inl err, r3)
           | (Inr body2, r3) \<Rightarrow>
              (if loggedOut body2
               then (Inl (RutrackerName @ '': logged in but the next page was still the login page''), r3)
               else (parse_page W body2, r3)))))"

definition Rutracker_Search :: "world \<Rightarrow> string \<Rightarrow> Rutracker \<Rightarrow> (search_err + Result list \<times> string list) \<times> Rutracker" where
  "Rutracker_Search W raw r =
     (let query = trim_space raw; key = to_lower query;
          ttl = (if ro_CacheTTL (rt_opts r) = 0 then DefaultCacheTTL else ro_CacheTTL (rt_opts r)) in
      if query = [] then (Inl (Plain (RutrackerName @ '': search needs a query'')), r)
      else case cache_get key (wo_start W) (rt_cache r) of
        Some hit \<Rightarrow> (Inr (hit, []), r)
      | None \<Rightarrow> (case page W (rutrackerSearch @ QueryEscape query) r of
          (Inl err, r1) \<Rightarrow> (Inl (Plain err), r1)
        | (Inr doc, r1) \<Rightarrow> (case parseRutracker doc of
            Inl err \<Rightarrow> (Inl (Plain (RutrackerName @ '': '' @ err)), r1)
          | Inr rs \<Rightarrow>
              (let results = sortResults rs
               in (Inr (results, []),
                   r1\<lparr>rt_cache := cache_put key results (wo_end W + ttl) ttl (rt_cache r1)\<rparr>)))))"

definition Resolve :: "world \<Rightarrow> string \<Rightarrow> Rutracker \<Rightarrow> string result \<times> Rutracker" where
  "Resolve W i r = (case atoi i of
     None \<Rightarrow> (Inl (RutrackerName @ '': '' @ quoted i @ '' is not a topic id''), r)
   | Some _ \<Rightarrow> (case page W (rutrackerTopic @ i) r of
       (Inl err, r1) \<Rightarrow> (Inl err, r1)
     | (Inr doc, r1) \<Rightarrow>
         (let magnet = findMagnet doc in
          if magnet = [] then (Inl (RutrackerName @ '': topic '' @ i @ '' has no magnet link''), r1)
          else (Inr magnet, r1))))"

definition Rutracker_Sources :: "string list" where
  "Rutracker_Sources = [RutrackerName]"

end
