(* ===== verification/Sources.thy ===== *)
theory Sources
  imports Rutracker
begin

text \<open>
  Several sources behind one interface, \<^verbatim>\<open>internal/indexer/multi.go\<close>. What a caller relies on, results
  with the most seeders first, is the contract \<open>best_first_source\<close>, proved of the client, of the site
  plugin, of any source and of several searched together. The sources of a \<open>Multi\<close> are asked
  concurrently; each has its own state and its own surroundings, so the order does not matter.
\<close>

subsection \<open>What the site plugin keeps\<close>

lemma ask_frame [simp]:
  "rt_session (snd (ask W f r)) = rt_session r" "rt_opts (snd (ask W f r)) = rt_opts r"
  "rt_cache (snd (ask W f r)) = rt_cache r" "rt_fetched (snd (ask W f r)) = f # rt_fetched r"
  by (simp_all add: ask_def)

text \<open>Nothing a page costs touches the session, the options or the cache.\<close>

definition gets :: "fetch list \<Rightarrow> nat" where
  "gets fs = List.length (filter (\<lambda>f. case f of FetchGet _ _ \<Rightarrow> True | _ \<Rightarrow> False) fs)"

definition with_cookie :: "string \<Rightarrow> fetch list \<Rightarrow> bool" where
  "with_cookie s fs = list_all (\<lambda>f. case f of FetchGet u cs \<Rightarrow> cs = [(sessionCookie, s)] | _ \<Rightarrow> True) fs"

definition asked :: "nat \<Rightarrow> Rutracker \<Rightarrow> Rutracker \<Rightarrow> bool" where
  "asked n r r' \<longleftrightarrow> rt_session r' = rt_session r \<and> rt_opts r' = rt_opts r \<and> rt_cache r' = rt_cache r \<and>
     (\<exists>fs. rt_fetched r' = fs @ rt_fetched r \<and> with_cookie (rt_session r) fs \<and> gets fs \<le> n)"

lemma asked_refl [simp]: "asked n r r"
  by (auto simp: asked_def with_cookie_def gets_def)

lemma asked_trans:
  assumes "asked m r1 r2" "asked n r2 r3" shows "asked (m + n) r1 r3"
proof -
  obtain fs gs where fs: "rt_fetched r2 = fs @ rt_fetched r1" "with_cookie (rt_session r1) fs" "gets fs \<le> m"
    and gs: "rt_fetched r3 = gs @ rt_fetched r2" "with_cookie (rt_session r1) gs" "gets gs \<le> n"
    using assms unfolding asked_def by metis
  have "rt_fetched r3 = (gs @ fs) @ rt_fetched r1" using fs(1) gs(1) by simp
  moreover have "with_cookie (rt_session r1) (gs @ fs)" using fs(2) gs(2) by (simp add: with_cookie_def)
  moreover have "gets (gs @ fs) \<le> m + n" using fs(3) gs(3) by (simp add: gets_def)
  ultimately have "\<exists>hs. rt_fetched r3 = hs @ rt_fetched r1 \<and> with_cookie (rt_session r1) hs \<and> gets hs \<le> m + n" by blast
  then show ?thesis using assms by (simp add: asked_def)
qed

lemma asked_login: "asked 0 r (snd (login W r))"
  by (auto simp: login_def ask_def asked_def with_cookie_def gets_def split: sum.splits)

lemma asked_get: "asked 1 r (snd (get_page W u r))"
  by (auto simp: get_page_def ask_def asked_def with_cookie_def gets_def split: sum.splits)

lemma asked_fetchAs: "asked 1 r (snd (fetchAs W u r))"
proof -
  have "asked 1 r (snd (get_page W u r1))" if "login W r = (x, r1)" for x r1
    using asked_trans [OF asked_login [of r W] asked_get [of _ W u]] that by simp
  moreover have "asked 1 r (snd (login W r))"
    using asked_trans [OF asked_login [of r W] asked_refl [of 1]] by simp
  ultimately show ?thesis using asked_get [of r W u]
    by (auto simp: fetchAs_def split: prod.splits sum.splits)
qed

lemma asked_page: "asked 2 r (snd (page W u r))"
proof -
  obtain b1 r1 where 1: "fetchAs W u r = (b1, r1)" by force
  obtain l r2 where 2: "login W r1 = (l, r2)" by force
  obtain b3 r3 where 3: "fetchAs W u r2 = (b3, r3)" by force
  have a1: "asked 1 r r1" using asked_fetchAs [of r W u] 1 by simp
  have a2: "asked 1 r r2" using asked_trans [OF a1 asked_login [of r1 W]] 2 by simp
  have a3: "asked 2 r r3" using asked_trans [OF a2 asked_fetchAs [of r2 W u]] 3 by (simp add: numeral_2_eq_2)
  have w: "asked 1 r x \<Longrightarrow> asked 2 r x" for x
    using asked_trans [of 1 r x 1 x] by (simp add: numeral_2_eq_2)
  show ?thesis using w [OF a1] w [OF a2] a3 1 2 3
    by (auto simp: page_def split: sum.splits)
qed

definition rutracker_ok :: "Rutracker \<Rightarrow> bool" where
  "rutracker_ok r \<longleftrightarrow> distinct_keys (rt_cache r) \<and> List.length (rt_cache r) \<le> maxCacheEntries \<and>
     (\<forall>k e. map_of (rt_cache r) k = Some e \<longrightarrow> best_first (ce_results e))"

lemma page_cache [simp]: "rt_cache (snd (page W u r)) = rt_cache r"
  using asked_page by (simp add: asked_def)

lemma Rutracker_Search_cases:
  "rt_cache (snd (Rutracker_Search W q r)) = rt_cache r \<or>
   (\<exists>rs k t ttl. rt_cache (snd (Rutracker_Search W q r)) = cache_put k (sortResults rs) t ttl (rt_cache r))"
proof -
  obtain p r1 where p: "page W (rutrackerSearch @ QueryEscape (trim_space q)) r = (p, r1)" by force
  then have "rt_cache r1 = rt_cache r" using page_cache by (metis snd_conv)
  then show ?thesis using p
    by (auto simp: Rutracker_Search_def Let_def split: option.split sum.split)
qed

lemma rutracker_ok_Search: "rutracker_ok r \<Longrightarrow> rutracker_ok (snd (Rutracker_Search W q r))"
  using Rutracker_Search_cases [of W q r]
  by (auto simp: rutracker_ok_def cache_put_bounded cache_put_distinct dest!: cache_put_entry)

lemma Rutracker_Search_best_first:
  "rutracker_ok r \<Longrightarrow> fst (Rutracker_Search W q r) = Inr (rs, ws) \<Longrightarrow> best_first rs"
  by (auto simp: Rutracker_Search_def Let_def rutracker_ok_def
      split: option.splits sum.splits prod.splits if_splits dest!: cache_get_Some)

subsection \<open>The contract\<close>

locale best_first_source =
  fixes search :: "'e \<Rightarrow> string \<Rightarrow> 's \<Rightarrow> (search_err + Result list \<times> string list) \<times> 's"
    and inv :: "'s \<Rightarrow> bool"
  assumes keeps: "inv s \<Longrightarrow> inv (snd (search e q s))"
    and ordered: "inv s \<Longrightarrow> fst (search e q s) = Inr (rs, ws) \<Longrightarrow> best_first rs"
begin

definition after :: "('e \<times> string) list \<Rightarrow> 's \<Rightarrow> 's" where
  "after qs s = run_steps (\<lambda>(e, q) s. snd (search e q s)) qs s"

lemma after_inv: "inv s \<Longrightarrow> inv (after qs s)"
  unfolding after_def by (induction qs arbitrary: s) (auto simp: keeps)

lemma always_ordered: "inv s \<Longrightarrow> fst (search e q (after qs s)) = Inr (rs, ws) \<Longrightarrow> best_first rs"
  using after_inv ordered by blast

end

interpretation client: best_first_source Client_Search client_ok
  by unfold_locales (auto intro: client_ok_Search dest: Client_Search_best_first)

interpretation site: best_first_source Rutracker_Search rutracker_ok
  by unfold_locales (auto intro: rutracker_ok_Search Rutracker_Search_best_first)

subsection \<open>One source, several, none\<close>

datatype source = ClientS Client | RutrackerS Rutracker

record surroundings =
  su_net :: net
  su_world :: world

type_synonym answer = "search_err + Result list \<times> string list"

fun source_search :: "surroundings \<Rightarrow> string \<Rightarrow> source \<Rightarrow> answer \<times> source" where
  "source_search E q (ClientS c) = map_prod id ClientS (Client_Search (su_net E) q c)"
| "source_search E q (RutrackerS r) = map_prod id RutrackerS (Rutracker_Search (su_world E) q r)"

fun Sources :: "source \<Rightarrow> string list" where
  "Sources (ClientS c) = Client_Sources c"
| "Sources (RutrackerS r) = Rutracker_Sources"

text \<open>Only the site plugin is a \<^verbatim>\<open>Resolver\<close>.\<close>

fun source_Resolve :: "surroundings \<Rightarrow> string \<Rightarrow> source \<Rightarrow> (string result \<times> source) option" where
  "source_Resolve E i (ClientS c) = None"
| "source_Resolve E i (RutrackerS r) = Some (map_prod id RutrackerS (Resolve (su_world E) i r))"

datatype searcher = NoSearcher | One source | Multi "source list"

definition NewMulti :: "source list \<Rightarrow> searcher" where
  "NewMulti ss = (case ss of [] \<Rightarrow> NoSearcher | [s] \<Rightarrow> One s | _ \<Rightarrow> Multi ss)"

fun searcher_Sources :: "searcher \<Rightarrow> string list" where
  "searcher_Sources NoSearcher = []"
| "searcher_Sources (One s) = Sources s"
| "searcher_Sources (Multi ss) = concat (map Sources ss)"

subsection \<open>Searching them together\<close>

text \<open>The answers, in the order of the sources: what was found, the warnings, how many failed.\<close>

fun gather :: "(source \<times> answer) list \<Rightarrow> Result list \<times> string list \<times> nat" where
  "gather [] = ([], [], 0)"
| "gather ((s, a) # rest) = (let (rs, ws, n) = gather rest in
     (case a of
        Inl err \<Rightarrow> (rs, nameError (Sources s) (err_text err) # ws, Suc n)
      | Inr (found, warned) \<Rightarrow> (found @ rs, warned @ ws, n)))"

definition Multi_Search :: "(nat \<Rightarrow> surroundings) \<Rightarrow> string \<Rightarrow> source list \<Rightarrow> answer \<times> source list" where
  "Multi_Search E q ss =
     (let asked = map (\<lambda>(i, s). source_search (E i) q s) (enumerate 0 ss);
          (merged, warnings, nfailed) = gather (zip ss (map fst asked))
      in (if nfailed = List.length ss
          then Inl (Plain (''every indexer failed: '' @ str_join warnings ''; ''))
          else Inr (sortResults (dedupe merged), warnings), map snd asked))"

fun searcher_Search :: "(nat \<Rightarrow> surroundings) \<Rightarrow> string \<Rightarrow> searcher \<Rightarrow> answer \<times> searcher" where
  "searcher_Search E q NoSearcher = (Inl (Plain ''no source configured''), NoSearcher)"
| "searcher_Search E q (One s) = map_prod id One (source_search (E 0) q s)"
| "searcher_Search E q (Multi ss) = map_prod id Multi (Multi_Search E q ss)"

subsection \<open>Resolving a token\<close>

fun route :: "(nat \<Rightarrow> surroundings) \<Rightarrow> nat \<Rightarrow> string \<Rightarrow> string \<Rightarrow> source list \<Rightarrow> string result \<times> source list" where
  "route E n source i [] = (Inl (''no source named '' @ quoted source @ '' is configured''), [])"
| "route E n source i (s # ss) =
     (if source \<notin> set (Sources s)
      then (let (r, ss') = route E (Suc n) source i ss in (r, s # ss'))
      else case source_Resolve (E n) i s of
        None \<Rightarrow> (Inl (source @ '' does not use links that need resolving''), s # ss)
      | Some (r, s') \<Rightarrow> (r, s' # ss))"

definition not_searching :: "string \<Rightarrow> string \<Rightarrow> string" where
  "not_searching token source = quoted token @ '' needs source '' @ quoted source @ '', which this daemon is not searching''"

definition ResolveToken :: "(nat \<Rightarrow> surroundings) \<Rightarrow> string \<Rightarrow> searcher \<Rightarrow> string result \<times> searcher" where
  "ResolveToken E token s = (case ParseToken token of
     None \<Rightarrow> (Inl (quoted token @ '' is not a source token''), s)
   | Some (source, i) \<Rightarrow>
      (case s of
         NoSearcher \<Rightarrow> (Inl (not_searching token source), s)
       | Multi ss \<Rightarrow> map_prod id Multi (route E 0 source i ss)
       | One src \<Rightarrow>
           (if source \<notin> set (Sources src) then (Inl (not_searching token source), s)
            else case source_Resolve (E 0) i src of
              None \<Rightarrow> (Inl (source @ '' does not use links that need resolving''), s)
            | Some (r, src') \<Rightarrow> (r, One src'))))"

subsection \<open>The contract, for every searcher\<close>

fun source_ok :: "source \<Rightarrow> bool" where
  "source_ok (ClientS c) = client_ok c"
| "source_ok (RutrackerS r) = rutracker_ok r"

fun searcher_ok :: "searcher \<Rightarrow> bool" where
  "searcher_ok NoSearcher = True"
| "searcher_ok (One s) = source_ok s"
| "searcher_ok (Multi ss) = list_all source_ok ss"

interpretation any_source: best_first_source source_search source_ok
proof
  show "source_ok s \<Longrightarrow> source_ok (snd (source_search e q s))" for e q s
    by (cases s) (auto intro: client.keeps site.keeps)
  show "source_ok s \<Longrightarrow> fst (source_search e q s) = Inr (rs, ws) \<Longrightarrow> best_first rs" for e q s rs ws
    by (cases s) (auto dest: client.ordered site.ordered)
qed

lemma Multi_Search_keeps: "list_all source_ok ss \<Longrightarrow> list_all source_ok (snd (Multi_Search E q ss))"
  by (auto simp: Multi_Search_def Let_def list_all_iff case_prod_beta in_set_enumerate_eq intro: any_source.keeps)

interpretation searcher: best_first_source searcher_Search searcher_ok
proof
  show "searcher_ok s \<Longrightarrow> searcher_ok (snd (searcher_Search e q s))" for e q s
    by (cases s) (auto intro: any_source.keeps Multi_Search_keeps)
  show "searcher_ok s \<Longrightarrow> fst (searcher_Search e q s) = Inr (rs, ws) \<Longrightarrow> best_first rs" for e q s rs ws
    by (cases s) (auto simp: Multi_Search_def Let_def split: prod.splits if_splits dest: any_source.ordered)
qed

end
