(* ===== verification/ConfigFile.thy ===== *)
theory ConfigFile
  imports Quantities FileSys Sources "HOL-Library.List_Lexorder" "HOL-Library.Char_ord"
begin

text \<open>
  The configuration file: \<^verbatim>\<open>internal/config/config.go\<close> and \<^verbatim>\<open>paths.go\<close>, and what \<^verbatim>\<open>cmd/torrnado\<close>
  builds from it (\<^verbatim>\<open>newSearcher\<close> of \<^verbatim>\<open>find.go\<close>, the engine's configuration of \<^verbatim>\<open>daemon.go\<close>). The TOML
  decoder and \<^verbatim>\<open>url.Parse\<close> are parameters; the environment is the variables the code reads. Checks
  that return at the first failure are a list of checks, \<open>first_error\<close>, in the order of the source.
\<close>

subsection \<open>The tables of the file\<close>

record PortRange =
  pr_Low :: int
  pr_High :: int

record RateLimits =
  rl_Upload :: int
  rl_Download :: int

record Network =
  nw_DHT :: bool
  nw_PEX :: bool
  nw_Encryption :: bool
  nw_Seed :: bool

record SeedLimits =
  sl_Ratio :: f64
  sl_Time :: duration

record VPN =
  vpn_Required :: bool
  vpn_Interfaces :: "string list"

record Logging =
  lg_Level :: string
  lg_LibraryLevel :: string
  lg_File :: string

record Aggregator =
  ag_URL :: string
  ag_APIKey :: string

record RutrackerTable =
  ru_Username :: string
  ru_Password :: string
  ru_Session :: string

record SearchTable =
  sr_Jackett :: Aggregator
  sr_Prowlarr :: Aggregator
  sr_Rutracker :: RutrackerTable

record FlareSolverrTable =
  fs_URL :: string
  fs_MaxTimeout :: duration

record fileConfig =
  c_DownloadDir :: string
  c_DaemonSocket :: string
  c_WatchDir :: string
  c_MinFreeSpace :: int
  c_StateDir :: string
  c_Theme :: string
  c_Player :: string
  c_Opener :: string
  c_OnComplete :: string
  c_RateLimit :: RateLimits
  c_SeedLimit :: SeedLimits
  c_Port :: PortRange
  c_Network :: Network
  c_Search :: SearchTable
  c_FlareSolverr :: FlareSolverrTable
  c_VPN :: VPN
  c_Log :: Logging
  c_Keybinds :: "(string \<times> string) list"

definition Aggregator_Enabled :: "Aggregator \<Rightarrow> bool" where
  "Aggregator_Enabled a \<longleftrightarrow> ag_URL a \<noteq> [] \<or> ag_APIKey a \<noteq> []"

definition Rutracker_Enabled :: "RutrackerTable \<Rightarrow> bool" where
  "Rutracker_Enabled r \<longleftrightarrow> ru_Session r \<noteq> [] \<or> ru_Username r \<noteq> [] \<or> ru_Password r \<noteq> []"

definition FlareSolverr_Enabled :: "FlareSolverrTable \<Rightarrow> bool" where
  "FlareSolverr_Enabled f \<longleftrightarrow> fs_URL f \<noteq> []"

definition Search_Enabled :: "SearchTable \<Rightarrow> string list" where
  "Search_Enabled s = (if Aggregator_Enabled (sr_Jackett s) then [''jackett''] else []) @
     (if Aggregator_Enabled (sr_Prowlarr s) then [''prowlarr''] else []) @
     (if Rutracker_Enabled (sr_Rutracker s) then [''rutracker''] else [])"

subsection \<open>Paths\<close>

record environ =
  ev_ConfigHome :: string
  ev_DataHome :: string
  ev_Home :: string
  ev_Darwin :: bool

definition UserHomeDir :: "environ \<Rightarrow> string result" where
  "UserHomeDir V = (if ev_Home V = [] then Inl ''$HOME is not defined'' else Inr (ev_Home V))"

definition in_dir :: "string result \<Rightarrow> string \<Rightarrow> string result" where
  "in_dir dir rest = map_sum id (\<lambda>d. path_join d rest) dir"

definition xdgConfigHome :: "environ \<Rightarrow> string result" where
  "xdgConfigHome V = (if ev_ConfigHome V \<noteq> [] then Inr (ev_ConfigHome V) else in_dir (UserHomeDir V) ''.config'')"

definition xdgDataHome :: "environ \<Rightarrow> string result" where
  "xdgDataHome V = (if ev_DataHome V \<noteq> [] then Inr (ev_DataHome V) else in_dir (UserHomeDir V) ''.local/share'')"

definition DefaultPath :: "environ \<Rightarrow> string result" where
  "DefaultPath V = in_dir (xdgConfigHome V) ''torrnado/config.toml''"

definition DefaultThemesDir :: "environ \<Rightarrow> string result" where
  "DefaultThemesDir V = in_dir (xdgConfigHome V) ''torrnado/themes''"

definition DefaultSocketPath :: "environ \<Rightarrow> string result" where
  "DefaultSocketPath V = in_dir (xdgDataHome V) ''torrnado/daemon.sock''"

definition DefaultDataDir :: "environ \<Rightarrow> string result" where
  "DefaultDataDir V = in_dir (xdgDataHome V) ''torrnado''"

definition DefaultDownloadDir :: "environ \<Rightarrow> string result" where
  "DefaultDownloadDir V = in_dir (UserHomeDir V) ''Downloads/torrnado''"

definition ExpandHome :: "environ \<Rightarrow> string \<Rightarrow> string result" where
  "ExpandHome V p =
     (if p \<noteq> ''~'' \<and> \<not> has_prefix p ''~/'' then Inr p
      else case UserHomeDir V of
        Inl err \<Rightarrow> Inl (''resolve '' @ quoted p @ '': '' @ err)
      | Inr home \<Rightarrow> Inr (if p = ''~'' then home else path_join home (drop 2 p)))"

fun expand_each :: "environ \<Rightarrow> string list \<Rightarrow> string list result" where
  "expand_each V [] = Inr []"
| "expand_each V (p # ps) = (case ExpandHome V p of
     Inl err \<Rightarrow> Inl err
   | Inr q \<Rightarrow> (case expand_each V ps of Inl err \<Rightarrow> Inl err | Inr qs \<Rightarrow> Inr (q # qs)))"

definition named_paths :: "fileConfig \<Rightarrow> string list" where
  "named_paths c = [c_DownloadDir c, c_DaemonSocket c, c_StateDir c, lg_File (c_Log c), c_WatchDir c]"

definition expandPaths :: "environ \<Rightarrow> fileConfig \<Rightarrow> fileConfig result" where
  "expandPaths V c = (case expand_each V (named_paths c) of
     Inr [a, b, d, e, f] \<Rightarrow> Inr (c\<lparr>c_DownloadDir := a, c_DaemonSocket := b, c_StateDir := d,
       c_Log := (c_Log c)\<lparr>lg_File := e\<rparr>, c_WatchDir := f\<rparr>)
   | Inr _ \<Rightarrow> Inr c
   | Inl err \<Rightarrow> Inl err)"

subsection \<open>Defaults\<close>

definition LogLevels :: "string list" where
  "LogLevels = [''debug'', ''info'', ''warn'', ''error'']"

definition validLogLevel :: "string \<Rightarrow> bool" where
  "validLogLevel s = list_ex (\<lambda>l. s = l) LogLevels"

definition KnownActions :: "string list" where
  "KnownActions = [''up'', ''down'', ''top'', ''bottom'', ''select'', ''remove'', ''remove_data'', ''purge'',
     ''pause'', ''recheck'', ''search'', ''command'', ''detail'', ''back'', ''quit'', ''help'', ''help_alt'',
     ''preview'', ''open'', ''find'', ''focus_next'', ''focus_prev'', ''tab_next'', ''tab_prev'',
     ''tab_pieces'', ''tab_peers'', ''tab_files'', ''toggle_mouse'', ''filter_next'', ''filter_prev'']"

definition defaultOpener :: "environ \<Rightarrow> string" where
  "defaultOpener V = (if ev_Darwin V then ''open'' else ''xdg-open'')"

definition no_aggregator :: Aggregator where
  "no_aggregator = \<lparr>ag_URL = [], ag_APIKey = []\<rparr>"

definition default_with :: "environ \<Rightarrow> string \<Rightarrow> string \<Rightarrow> string \<Rightarrow> fileConfig" where
  "default_with V downloadDir socket stateDir =
     \<lparr>c_DownloadDir = downloadDir, c_DaemonSocket = socket, c_WatchDir = [], c_MinFreeSpace = 0,
      c_StateDir = stateDir, c_Theme = ''terminal'', c_Player = ''mpv'', c_Opener = defaultOpener V,
      c_OnComplete = [], c_RateLimit = \<lparr>rl_Upload = 0, rl_Download = 0\<rparr>,
      c_SeedLimit = \<lparr>sl_Ratio = Fin 0, sl_Time = 0\<rparr>, c_Port = \<lparr>pr_Low = 51413, pr_High = 51433\<rparr>,
      c_Network = \<lparr>nw_DHT = True, nw_PEX = True, nw_Encryption = True, nw_Seed = False\<rparr>,
      c_Search = \<lparr>sr_Jackett = no_aggregator, sr_Prowlarr = no_aggregator,
        sr_Rutracker = \<lparr>ru_Username = [], ru_Password = [], ru_Session = []\<rparr>\<rparr>,
      c_FlareSolverr = \<lparr>fs_URL = [], fs_MaxTimeout = 0\<rparr>,
      c_VPN = \<lparr>vpn_Required = False, vpn_Interfaces = []\<rparr>,
      c_Log = \<lparr>lg_Level = ''info'', lg_LibraryLevel = ''warn'', lg_File = []\<rparr>, c_Keybinds = []\<rparr>"

definition Default :: "environ \<Rightarrow> fileConfig result" where
  "Default V = (case DefaultDownloadDir V of Inl err \<Rightarrow> Inl err | Inr downloadDir \<Rightarrow>
     (case DefaultSocketPath V of Inl err \<Rightarrow> Inl err | Inr socket \<Rightarrow>
     (case DefaultDataDir V of Inl err \<Rightarrow> Inl err | Inr stateDir \<Rightarrow>
        Inr (default_with V downloadDir socket stateDir))))"

subsection \<open>Validation\<close>

text \<open>A check is whether it fails and what it says then.\<close>

fun first_error :: "(bool \<times> string) list \<Rightarrow> unit result" where
  "first_error [] = Inr ()"
| "first_error ((bad, msg) # cs) = (if bad then Inl msg else first_error cs)"

definition must_not_be_empty :: "string \<Rightarrow> string \<Rightarrow> bool \<times> string" where
  "must_not_be_empty key v = (v = [], key @ '': must not be empty'')"

definition must_not_be_negative :: "string \<Rightarrow> bool \<Rightarrow> bool \<times> string" where
  "must_not_be_negative key negative = (negative, key @ '': must not be negative'')"

definition level_check :: "string \<Rightarrow> string \<Rightarrow> bool \<times> string" where
  "level_check key v = (\<not> validLogLevel v, key @ '': '' @ quoted v @ '' is not one of '' @ str_join LogLevels '', '')"

definition port_checks :: "PortRange \<Rightarrow> (bool \<times> string) list" where
  "port_checks p = (let out = (\<lambda>n. n < 1 \<or> 65535 < n) in
     if pr_Low p = 0 \<and> pr_High p = 0 then []
     else [(out (pr_Low p), ''port.low: '' @ itoa (pr_Low p) @ '' is out of range 1-65535''),
           (out (pr_High p), ''port.high: '' @ itoa (pr_High p) @ '' is out of range 1-65535''),
           (pr_High p < pr_Low p, ''port.high ('' @ itoa (pr_High p) @ '') must be >= port.low ('' @ itoa (pr_Low p) @ '')'')])"

definition interface_checks :: "string list \<Rightarrow> (bool \<times> string) list" where
  "interface_checks names = map (\<lambda>(i, name).
     (trim_space name = [], ''vpn.interfaces['' @ itoa (int i) @ '']: must not be empty'')) (enumerate 0 names)"

definition aggregator_checks :: "url_parser \<Rightarrow> string \<Rightarrow> Aggregator \<Rightarrow> (bool \<times> string) list" where
  "aggregator_checks U key a =
     (if \<not> Aggregator_Enabled a then []
      else [(ag_URL a = [], key @ ''.url: must be set, e.g. http://localhost:9117''),
            (\<not> http_url U (ag_URL a), key @ ''.url: '' @ quoted (ag_URL a) @ '' must be an http(s) URL, e.g. http://localhost:9117''),
            (ag_APIKey a = [], key @ ''.api_key: must be set (from the aggregator's settings page)'')])"

definition rutracker_checks :: "RutrackerTable \<Rightarrow> FlareSolverrTable \<Rightarrow> (bool \<times> string) list" where
  "rutracker_checks r f =
     (if \<not> Rutracker_Enabled r then []
      else [(ru_Session r = [] \<and> (ru_Username r = [] \<or> ru_Password r = []),
             ''search.rutracker: needs search.rutracker.session, or both search.rutracker.username and search.rutracker.password''),
            (\<not> FlareSolverr_Enabled f, ''search.rutracker: needs flaresolverr.url (the site is behind a Cloudflare '' @
               ''challenge, which needs a real browser)'')])"

definition flaresolverr_checks :: "url_parser \<Rightarrow> FlareSolverrTable \<Rightarrow> (bool \<times> string) list" where
  "flaresolverr_checks U f =
     [(FlareSolverr_Enabled f \<and> \<not> http_url U (fs_URL f),
       ''flaresolverr.url: '' @ quoted (fs_URL f) @ '' must be an http(s) URL, e.g. http://localhost:8191''),
      must_not_be_negative ''flaresolverr.max_timeout'' (fs_MaxTimeout f < 0)]"

definition keybind_checks :: "(string \<times> string) list \<Rightarrow> (bool \<times> string) list" where
  "keybind_checks binds = concat (map (\<lambda>(action, key).
     [(action \<notin> set KnownActions,
       ''keybinds.'' @ action @ '': unknown action (known actions: '' @ str_join KnownActions '', '' @ '')''),
      must_not_be_empty (''keybinds.'' @ action) key]) binds)"

definition checks_of :: "url_parser \<Rightarrow> fileConfig \<Rightarrow> (bool \<times> string) list" where
  "checks_of U c =
     [must_not_be_empty ''download_dir'' (c_DownloadDir c),
      must_not_be_empty ''daemon_socket'' (c_DaemonSocket c),
      must_not_be_empty ''theme'' (c_Theme c),
      must_not_be_empty ''player'' (trim_space (c_Player c)),
      must_not_be_empty ''opener'' (trim_space (c_Opener c)),
      must_not_be_empty ''state_dir'' (c_StateDir c),
      level_check ''log.level'' (lg_Level (c_Log c)),
      level_check ''log.library_level'' (lg_LibraryLevel (c_Log c)),
      must_not_be_negative ''seed_limit.ratio'' (f64_lt (sl_Ratio (c_SeedLimit c)) (Fin 0)),
      must_not_be_negative ''seed_limit.time'' (sl_Time (c_SeedLimit c) < 0),
      must_not_be_negative ''min_free_space'' (c_MinFreeSpace c < 0),
      must_not_be_negative ''rate_limit.upload'' (rl_Upload (c_RateLimit c) < 0),
      must_not_be_negative ''rate_limit.download'' (rl_Download (c_RateLimit c) < 0)] @
     port_checks (c_Port c) @ interface_checks (vpn_Interfaces (c_VPN c)) @
     aggregator_checks U ''search.jackett'' (sr_Jackett (c_Search c)) @
     aggregator_checks U ''search.prowlarr'' (sr_Prowlarr (c_Search c)) @
     rutracker_checks (sr_Rutracker (c_Search c)) (c_FlareSolverr c) @
     flaresolverr_checks U (c_FlareSolverr c) @ keybind_checks (c_Keybinds c)"

definition Validate :: "url_parser \<Rightarrow> fileConfig \<Rightarrow> unit result" where
  "Validate U c = first_error (checks_of U c)"

subsection \<open>Loading\<close>

datatype file_read = NoFile | Unreadable string | Contents string

type_synonym toml_decoder = "string \<Rightarrow> fileConfig \<Rightarrow> (fileConfig \<times> string list) result"

definition Load :: "environ \<Rightarrow> url_parser \<Rightarrow> toml_decoder \<Rightarrow> (string \<Rightarrow> file_read) \<Rightarrow> string \<Rightarrow> fileConfig result" where
  "Load V U T files path = (case Default V of
     Inl err \<Rightarrow> Inl err
   | Inr cfg \<Rightarrow> (case files path of
       NoFile \<Rightarrow> Inr cfg
     | Unreadable err \<Rightarrow> Inl (''read config '' @ path @ '': '' @ err)
     | Contents data \<Rightarrow> (case T data cfg of
         Inl err \<Rightarrow> Inl (''parse config '' @ path @ '': '' @ err)
       | Inr (cfg1, undecoded) \<Rightarrow>
           if undecoded \<noteq> []
           then Inl (''config '' @ path @ '': unknown key(s): '' @ str_join (sort undecoded) '', '')
           else (case expandPaths V cfg1 of
               Inl err \<Rightarrow> Inl (''config '' @ path @ '': '' @ err)
             | Inr cfg2 \<Rightarrow> (case Validate U cfg2 of
                 Inl err \<Rightarrow> Inl (''config '' @ path @ '': '' @ err)
               | Inr _ \<Rightarrow> Inr cfg2)))))"

definition loadConfig :: "environ \<Rightarrow> url_parser \<Rightarrow> toml_decoder \<Rightarrow> (string \<Rightarrow> file_read) \<Rightarrow> string \<Rightarrow> (fileConfig \<times> string) result" where
  "loadConfig V U T files flag = (case (if flag = [] then DefaultPath V else Inr flag) of
     Inl err \<Rightarrow> Inl err
   | Inr path \<Rightarrow> map_sum id (\<lambda>cfg. (cfg, path)) (Load V U T files path))"

subsection \<open>What is built from it\<close>

fun add_aggregators :: "(string \<times> Aggregator) list \<Rightarrow> source list result" where
  "add_aggregators [] = Inr []"
| "add_aggregators ((name, a) # rest) =
     (if \<not> Aggregator_Enabled a then add_aggregators rest
      else case Client_New \<lparr>op_Backend = name, op_URL = ag_URL a, op_APIKey = ag_APIKey a, op_Timeout = 0,
                             op_Attempts = 0, op_CacheTTL = 0\<rparr> of
        Inl err \<Rightarrow> Inl (''search.'' @ name @ '': '' @ err)
      | Inr c \<Rightarrow> map_sum id (\<lambda>ss. ClientS c # ss) (add_aggregators rest))"

definition add_site :: "url_parser \<Rightarrow> fileConfig \<Rightarrow> source list \<Rightarrow> source list result" where
  "add_site U c ss = (let r = sr_Rutracker (c_Search c) in
     if \<not> Rutracker_Enabled r then Inr ss
     else case Flare_New U (fs_URL (c_FlareSolverr c)) (fs_MaxTimeout (c_FlareSolverr c)) 0 of
       Inl err \<Rightarrow> Inl (''flaresolverr: '' @ err)
     | Inr _ \<Rightarrow> map_sum id (\<lambda>s. ss @ [RutrackerS s])
         (NewRutracker True \<lparr>ro_Session = ru_Session r, ro_Username = ru_Username r, ro_Password = ru_Password r,
                             ro_CacheTTL = 0\<rparr>))"

definition newSearcher :: "url_parser \<Rightarrow> fileConfig \<Rightarrow> searcher result" where
  "newSearcher U c = (case add_aggregators [(''jackett'', sr_Jackett (c_Search c)), (''prowlarr'', sr_Prowlarr (c_Search c))] of
     Inl err \<Rightarrow> Inl err
   | Inr ss \<Rightarrow> map_sum id NewMulti (add_site U c ss))"

end
