(* ===== verification/Launch.thy ===== *)
theory Launch
  imports FileSys
begin

text \<open>
  Starting a program of the user's, \<^verbatim>\<open>internal/launch/launch.go\<close>: the configured command is split on
  spaces, the path put where it asks for it, and no shell is involved.
\<close>

definition PathPlaceholder :: string where "PathPlaceholder = ''%f''"

definition launch_parse :: "string \<Rightarrow> string \<times> string list" where
  "launch_parse command = (case GoStrings.fields command of [] \<Rightarrow> ([], []) | w # ws \<Rightarrow> (w, ws))"

definition withPath :: "string list \<Rightarrow> string \<Rightarrow> string list" where
  "withPath args path =
     map (\<lambda>a. if contains a PathPlaceholder then replace_all a PathPlaceholder path else a) args @
     (if list_ex (\<lambda>a. contains a PathPlaceholder) args then [] else [path])"

text \<open>What is run: the program, its arguments, and what is added to the environment.\<close>

record launched =
  la_Name :: string
  la_Args :: "string list"
  la_Env :: "string list"

text \<open>\<open>starts\<close> is what the kernel answers to the start: nothing, or why it failed.\<close>

definition DetachedEnv :: "(launched \<Rightarrow> string option) \<Rightarrow> string \<Rightarrow> string \<Rightarrow> string list \<Rightarrow> launched result" where
  "DetachedEnv starts command path extraEnv = (let (name, args) = launch_parse command in
     if name = [] then Inl ''no command configured''
     else let l = \<lparr>la_Name = name, la_Args = withPath args path, la_Env = extraEnv\<rparr> in
       case starts l of Some err \<Rightarrow> Inl (''launch '' @ name @ '': '' @ err) | None \<Rightarrow> Inr l)"

definition Detached :: "(launched \<Rightarrow> string option) \<Rightarrow> string \<Rightarrow> string \<Rightarrow> launched result" where
  "Detached starts command path = DetachedEnv starts command path []"

subsection \<open>Lemmas\<close>

text \<open>Where a placeholder was, the path is.\<close>

lemma contains_iff: "contains s p \<longleftrightarrow> (\<exists>u v. s = u @ p @ v)"
proof
  assume "contains s p"
  then obtain i where "str_index s p = Some i" by (auto simp: contains_def)
  from str_index_Some_prefix [OF this] obtain t where "drop i s = p @ t" by (auto simp: has_prefix_iff)
  then have "s = take i s @ p @ t" by (metis append_take_drop_id)
  then show "\<exists>u v. s = u @ p @ v" by blast
next
  assume "\<exists>u v. s = u @ p @ v"
  then obtain u v where "s = u @ p @ v" by blast
  moreover have "str_index (p @ v) p = Some 0" by (cases "p @ v") (auto simp del: append_eq_Cons_conv, metis has_prefix_append)
  then have "str_index (u @ p @ v) p \<noteq> None" by (induction u) auto
  ultimately show "contains s p" by (simp add: contains_def)
qed

lemma replace_all_contains: "contains s p \<Longrightarrow> p \<noteq> [] \<Longrightarrow> contains (replace_all s p r) r"
proof (induction s p r rule: replace_all.induct)
  case (1 s p r)
  then obtain u v where s: "s = u @ p @ v" by (auto simp: contains_iff)
  show ?case
  proof (cases "has_prefix s p")
    case True
    then show ?thesis using 1(4) s
      by (subst replace_all.simps) (auto simp: contains_iff intro: exI [of _ "[]"])
  next
    case False
    then obtain c u' where u: "u = c # u'" using s by (cases u) auto
    then have "contains (replace_all (tl s) p r) r" using 1 False s by (auto simp: contains_iff)
    then show ?thesis using False 1(4) s u
      by (subst replace_all.simps) (auto simp: contains_iff, metis append_Cons)
  qed
qed

lemma withPath_length:
  "List.length (withPath args path) = List.length args + (if list_ex (\<lambda>a. contains a PathPlaceholder) args then 0 else 1)"
  by (simp add: withPath_def)

end
