(* ===== verification/WatchDir.thy ===== *)
theory WatchDir
  imports FileSys
begin

text \<open>
  The watch directory, \<^verbatim>\<open>cmd/torrnado/watch.go\<close>. The directory is a map from names to entries, read in
  the order of \<^verbatim>\<open>os.ReadDir\<close> (the order of the map); a rename onto a file replaces it, onto a directory
  it fails, and \<open>wd_stuck\<close> lists the names the kernel will not rename. The engine is whatever state
  \<open>add\<close>, the call that adds a file, threads through.
\<close>

datatype wentry = WDir | WFile string

record watched_dir =
  wd_readable :: bool
  wd_entries :: "(string, wentry) gomap"
  wd_stuck :: "string list"

definition addedSuffix :: string where "addedSuffix = ''.added''"
definition failedSuffix :: string where "failedSuffix = ''.failed''"
definition watchInterval :: duration where "watchInterval = 2 * second"

datatype watch_log =
    NotReadable
  | WatchedNotAdded string string
  | WatchedAdded string
  | NotMarked string

record watcher =
  w_dir :: string
  w_sizes :: "(string, int) gomap"
  w_log :: "watch_log list"

definition newWatcher :: "string \<Rightarrow> watcher" where
  "newWatcher dir = \<lparr>w_dir = dir, w_sizes = [], w_log = []\<rparr>"

type_synonym 's adder = "string \<Rightarrow> 's \<Rightarrow> string option \<times> 's"

text \<open>\<^verbatim>\<open>os.Rename\<close> within the directory, by name.\<close>

definition rename_entry :: "string \<Rightarrow> string \<Rightarrow> watched_dir \<Rightarrow> bool \<times> watched_dir" where
  "rename_entry old new d = (case map_of (wd_entries d) old of
     None \<Rightarrow> (False, d)
   | Some x \<Rightarrow>
      if old \<in> set (wd_stuck d) \<or> map_of (wd_entries d) new = Some WDir then (False, d)
      else (True, d\<lparr>wd_entries := AList.update new x (AList.delete old (wd_entries d))\<rparr>))"

definition watch_rename :: "string \<Rightarrow> string \<Rightarrow> watcher \<times> watched_dir \<Rightarrow> watcher \<times> watched_dir" where
  "watch_rename name suffix wd = (let (w, d) = wd; (ok, d1) = rename_entry name (name @ suffix) d
     in (if ok then w else w\<lparr>w_log := NotMarked (path_join (w_dir w) name) # w_log w\<rparr>, d1))"

definition take_file :: "'s adder \<Rightarrow> string \<Rightarrow> watcher \<times> watched_dir \<times> 's \<Rightarrow> watcher \<times> watched_dir \<times> 's" where
  "take_file add name st = (let (w, d, s) = st; path = path_join (w_dir w) name; (err, s1) = add path s;
       (entry, suffix) = (case err of Some e \<Rightarrow> (WatchedNotAdded path e, failedSuffix)
                                    | None \<Rightarrow> (WatchedAdded path, addedSuffix));
       (w1, d1) = watch_rename name suffix (w\<lparr>w_log := entry # w_log w\<rparr>, d)
     in (w1, d1, s1))"

definition is_candidate :: "string \<times> wentry \<Rightarrow> bool" where
  "is_candidate p \<longleftrightarrow> snd p \<noteq> WDir \<and> equal_fold (path_ext (fst p)) ''.torrent''"

text \<open>What \<^verbatim>\<open>ent.Info\<close> says of a candidate now: its size, unless it is gone.\<close>

definition entry_size :: "string \<Rightarrow> watched_dir \<Rightarrow> int option" where
  "entry_size name d = (case map_of (wd_entries d) name of
     None \<Rightarrow> None | Some WDir \<Rightarrow> Some 4096 | Some (WFile s) \<Rightarrow> Some (int (List.length s)))"

text \<open>The loop over the entries, with the sizes seen so far.\<close>

fun scan_entries :: "'s adder \<Rightarrow> (string, int) gomap \<Rightarrow> (string \<times> wentry) list \<Rightarrow> (string, int) gomap \<Rightarrow>
    watcher \<times> watched_dir \<times> 's \<Rightarrow> (string, int) gomap \<times> watcher \<times> watched_dir \<times> 's" where
  "scan_entries add sizes [] seen st = (seen, st)"
| "scan_entries add sizes (p # ps) seen st =
     (if \<not> is_candidate p then scan_entries add sizes ps seen st
      else case entry_size (fst p) (fst (snd st)) of
        None \<Rightarrow> scan_entries add sizes ps seen st
      | Some n \<Rightarrow> (let path = path_join (w_dir (fst st)) (fst p); seen1 = AList.update path n seen in
          if map_of sizes path \<noteq> Some n then scan_entries add sizes ps seen1 st
          else scan_entries add sizes ps (AList.delete path seen1) (take_file add (fst p) st)))"

definition scan :: "'s adder \<Rightarrow> watcher \<times> watched_dir \<times> 's \<Rightarrow> watcher \<times> watched_dir \<times> 's" where
  "scan add st = (case st of (w, d, s) \<Rightarrow>
     if \<not> wd_readable d then (w\<lparr>w_log := NotReadable # w_log w\<rparr>, d, s)
     else case scan_entries add (w_sizes w) (wd_entries d) [] (w, d, s) of
       (seen, w1, d1, s1) \<Rightarrow> (w1\<lparr>w_sizes := seen\<rparr>, d1, s1))"

subsection \<open>Lemmas\<close>

text \<open>A file that was taken does not count as one to take.\<close>

lemma path_ext_suffix: "path_ext (n @ addedSuffix) = addedSuffix" "path_ext (n @ failedSuffix) = failedSuffix"
  by (simp_all add: path_ext_def addedSuffix_def failedSuffix_def slash_def)

definition torrent_name :: "string \<Rightarrow> bool" where
  "torrent_name n \<longleftrightarrow> equal_fold (path_ext n) ''.torrent''"

lemma marked_no_torrent: "\<not> torrent_name (n @ addedSuffix)" "\<not> torrent_name (n @ failedSuffix)"
  unfolding torrent_name_def path_ext_suffix by code_simp+

text \<open>What a take does: the file is gone from its name, and nothing else that is a candidate changes.\<close>

definition free_markers :: "watched_dir \<Rightarrow> bool" where
  "free_markers d \<longleftrightarrow> wd_stuck d = [] \<and>
     (\<forall>n. torrent_name n \<longrightarrow> map_of (wd_entries d) (n @ addedSuffix) \<noteq> Some WDir \<and>
                              map_of (wd_entries d) (n @ failedSuffix) \<noteq> Some WDir)"

definition marked :: "string \<Rightarrow> wentry \<Rightarrow> watched_dir \<Rightarrow> bool" where
  "marked n x d \<longleftrightarrow> map_of (wd_entries d) (n @ addedSuffix) = Some x \<or> map_of (wd_entries d) (n @ failedSuffix) = Some x"

lemma take_file_entries:
  assumes "map_of (wd_entries d) n = Some x" "free_markers d" "torrent_name n" "x \<noteq> WDir"
    and "take_file add n (w, d, s) = (w', d', s')"
  shows "map_of (wd_entries d') n = None" "marked n x d'" "free_markers d'"
    "torrent_name m \<Longrightarrow> m \<noteq> n \<Longrightarrow> map_of (wd_entries d') m = map_of (wd_entries d) m"
    "m \<noteq> n \<Longrightarrow> marked m y d \<Longrightarrow> marked m y d'"
    "w_dir w' = w_dir w" "wd_readable d' = wd_readable d"
proof -
  obtain suffix where suf: "suffix = addedSuffix \<or> suffix = failedSuffix"
    and d': "d' = d\<lparr>wd_entries := AList.update (n @ suffix) x (AList.delete n (wd_entries d))\<rparr>" and w: "w_dir w' = w_dir w"
  proof -
    have "\<exists>suffix. (suffix = addedSuffix \<or> suffix = failedSuffix) \<and>
       d' = d\<lparr>wd_entries := AList.update (n @ suffix) x (AList.delete n (wd_entries d))\<rparr> \<and> w_dir w' = w_dir w"
      using assms by (auto simp: take_file_def watch_rename_def rename_entry_def free_markers_def Let_def
          split: prod.splits option.splits if_splits)
    then show thesis using that by blast
  qed
  have ne: "n @ suffix \<noteq> n" using suf by (auto simp: addedSuffix_def failedSuffix_def)
  have nt: "\<not> torrent_name (n @ suffix)" using suf marked_no_torrent by auto
  have un: "m @ sf = n @ suffix \<longleftrightarrow> m = n \<and> sf = suffix" if "sf = addedSuffix \<or> sf = failedSuffix" for m sf
    using that suf by (auto simp: addedSuffix_def failedSuffix_def)
  show "map_of (wd_entries d') n = None" "w_dir w' = w_dir w" "wd_readable d' = wd_readable d"
    using ne by (simp_all add: d' w)
  show "marked n x d'" using suf by (auto simp: marked_def d')
  show "torrent_name m \<Longrightarrow> m \<noteq> n \<Longrightarrow> map_of (wd_entries d') m = map_of (wd_entries d) m"
    using nt by (auto simp: d')
  show "m \<noteq> n \<Longrightarrow> marked m y d \<Longrightarrow> marked m y d'"
    using un assms(3) marked_no_torrent by (auto simp: marked_def d')
  show "free_markers d'" using assms(2,3,4) marked_no_torrent by (auto simp: free_markers_def d')
qed

end
