(* ===== verification/Stream.thy ===== *)
theory Stream
  imports EngineOps
begin

text \<open>
  The stream server, \<^verbatim>\<open>internal/stream/stream.go\<close>: what URL a file has, which path is which file, and
  what a request is answered with. Serving the bytes, \<^verbatim>\<open>http.ServeContent\<close>, is the library's; the answer
  records what it is asked to serve.
\<close>

definition readahead :: int where "readahead = 8 * 2 ^ 20"
definition streamPrefix :: string where "streamPrefix = ''stream''"

record stream_server =
  st_addr :: string
  st_token :: string

text \<open>\<^verbatim>\<open>hex.EncodeToString\<close>.\<close>

definition hex_string :: "string \<Rightarrow> string" where
  "hex_string s = concat (map (\<lambda>c. [hex_char (of_char c div 16), hex_char (of_char c mod 16)]) s)"

text \<open>The listener's address, or why there is none, and the 32 random bytes.\<close>

definition stream_Serve :: "string result \<Rightarrow> string result \<Rightarrow> stream_server result" where
  "stream_Serve listen random = (case listen of
     Inl err \<Rightarrow> Inl (''listen for stream server: '' @ err)
   | Inr addr \<Rightarrow> (case random of
       Inl err \<Rightarrow> Inl (''generate stream token: '' @ err)
     | Inr tok \<Rightarrow> Inr \<lparr>st_addr = addr, st_token = hex_string tok\<rparr>))"

definition stream_URL :: "stream_server \<Rightarrow> tid \<Rightarrow> int \<Rightarrow> string" where
  "stream_URL s k fileIndex = ''http://'' @ st_addr s @ ''/'' @ streamPrefix @ ''/'' @ st_token s @ ''/'' @ k @ ''/'' @ itoa fileIndex"

definition parsePath :: "stream_server \<Rightarrow> string \<Rightarrow> (tid \<times> int) option" where
  "parsePath s p = (case str_split slash (trim_prefix p ''/'') of
     [a, token, k, n] \<Rightarrow>
       if a \<noteq> streamPrefix then None
       else if token \<noteq> st_token s then None
       else (case atoi n of None \<Rightarrow> None | Some i \<Rightarrow> Some (k, i))
   | _ \<Rightarrow> None)"

datatype stream_answer =
    PageNotFound
  | HttpError string int
  | Serves (sv_name: string) (sv_file: FileInfo) (sv_readahead: int)

definition handleStream :: "lib \<Rightarrow> stream_server \<Rightarrow> string \<Rightarrow> engine \<Rightarrow> stream_answer" where
  "handleStream L s p e = (case parsePath s p of
     None \<Rightarrow> PageNotFound
   | Some (k, i) \<Rightarrow> (case OpenFile L k i e of
       Inl err \<Rightarrow> HttpError err 404
     | Inr info \<Rightarrow> Serves (path_base (file_Path info)) info readahead))"

subsection \<open>Lemmas\<close>

text \<open>Splitting is the inverse of joining pieces without the separator.\<close>

lemma split_join: "ws \<noteq> [] \<Longrightarrow> list_all (\<lambda>w. d \<notin> set w) ws \<Longrightarrow> str_split d (str_join ws [d]) = ws"
  by (induction ws "[d]" rule: str_join.induct) (auto simp: str_split_no_sep str_split_sep)

lemma str_split_pieces: "list_all (\<lambda>w. d \<notin> set w) (str_split d s)"
  by (induction s) (auto split: list.splits)

lemma str_split_iff: "str_split d s = ws \<longleftrightarrow> ws \<noteq> [] \<and> list_all (\<lambda>w. d \<notin> set w) ws \<and> s = str_join ws [d]"
  using split_join str_split_pieces join_split str_split_not_Nil by metis

lemma hex_char_no_slash: "d < 16 \<Longrightarrow> hex_char d \<noteq> slash"
  by (auto simp: hex_char_def slash_def char_of_eq_iff take_bit_nat_eq_self)

lemma hex_string_no_slash: "slash \<notin> set (hex_string s)"
proof -
  have "slash \<noteq> hex_char (of_char c div 16)" "slash \<noteq> hex_char (of_char c mod 16)" for c :: char
    using hex_char_no_slash [of "of_char c div 16"] hex_char_no_slash [of "of_char c mod 16"] nat_of_char_less_256 [of c]
    by (auto simp: less_mult_imp_div_less)
  then show ?thesis by (simp add: hex_string_def)
qed

lemma itoa_no_slash: "slash \<notin> set (itoa n)"
proof -
  have "c \<noteq> slash" if "is_digit c" for c using that by (auto simp: is_digit_def slash_def)
  then show ?thesis using nat_digits_digits by (auto simp: itoa_def list_all_iff slash_def)
qed

lemma stream_Serve_token: "stream_Serve listen random = Inr s \<Longrightarrow> slash \<notin> set (st_token s)"
  by (auto simp: stream_Serve_def hex_string_no_slash split: sum.splits)

text \<open>Which paths name a file.\<close>

lemma parsePath_iff:
  assumes "slash \<notin> set (st_token s)"
  shows "parsePath s p = Some (k, i) \<longleftrightarrow>
    (\<exists>n. trim_prefix p ''/'' = streamPrefix @ ''/'' @ st_token s @ ''/'' @ k @ ''/'' @ n \<and>
       slash \<notin> set k \<and> slash \<notin> set n \<and> atoi n = Some i)"
proof -
  have j: "streamPrefix @ ''/'' @ t @ ''/'' @ k @ ''/'' @ n = str_join [streamPrefix, t, k, n] [slash]" for t k n
    by (simp add: slash_def)
  have "parsePath s p = Some (k, i) \<longleftrightarrow>
    (\<exists>n. str_split slash (trim_prefix p ''/'') = [streamPrefix, st_token s, k, n] \<and> atoi n = Some i)"
    by (auto simp: parsePath_def split: list.splits option.splits if_splits)
  also have "\<dots> \<longleftrightarrow> (\<exists>n. trim_prefix p ''/'' = str_join [streamPrefix, st_token s, k, n] [slash] \<and>
       slash \<notin> set k \<and> slash \<notin> set n \<and> atoi n = Some i)"
  proof -
    have "list_all (\<lambda>w. slash \<notin> set w) [streamPrefix, st_token s, k, n] \<longleftrightarrow> slash \<notin> set k \<and> slash \<notin> set n" for n
      using assms by (simp add: streamPrefix_def slash_def)
    then show ?thesis unfolding str_split_iff by blast
  qed
  finally show ?thesis by (simp only: j)
qed

subsection \<open>The properties\<close>

text \<open>C26. The path of a stream URL is read back as the torrent and the file it was made for, and nothing else is: a
  path is accepted exactly when it is the prefix, this server's token, an id and a number, so without the token no
  file is served.\<close>

theorem stream_urls_are_read_back:
  assumes "stream_Serve listen random = Inr s"
  shows "(slash \<notin> set k \<and> 0 \<le> i \<and> in_int64 i \<longrightarrow>
      (\<exists>p. stream_URL s k i = ''http://'' @ st_addr s @ p \<and> parsePath s p = Some (k, i))) \<and>
    (\<forall>v name info. handleStream L s p e = Serves name info v \<longrightarrow>
      has_prefix (trim_prefix p ''/'') (''stream/'' @ st_token s @ ''/''))"
proof (intro conjI impI allI)
  note tok = stream_Serve_token [OF assms]
  assume "slash \<notin> set k \<and> 0 \<le> i \<and> in_int64 i"
  then have "parsePath s (''/stream/'' @ st_token s @ ''/'' @ k @ ''/'' @ itoa i) = Some (k, i)"
    using itoa_no_slash [of i] atoi_itoa [of i]
    by (auto simp: parsePath_iff [OF tok] trim_prefix_def streamPrefix_def intro!: exI [of _ "itoa i"])
  then show "\<exists>p. stream_URL s k i = ''http://'' @ st_addr s @ p \<and> parsePath s p = Some (k, i)"
    by (intro exI [of _ "''/stream/'' @ st_token s @ ''/'' @ k @ ''/'' @ itoa i"]) (simp add: stream_URL_def streamPrefix_def)
next
  note tok = stream_Serve_token [OF assms]
  fix v name info
  assume "handleStream L s p e = Serves name info v"
  then obtain k i where "parsePath s p = Some (k, i)" by (auto simp: handleStream_def split: option.splits)
  then show "has_prefix (trim_prefix p ''/'') (''stream/'' @ st_token s @ ''/'')"
    by (auto simp: parsePath_iff [OF tok] streamPrefix_def has_prefix_iff)
qed

definition demo_stream :: stream_server where
  "demo_stream = \<lparr>st_addr = ''127.0.0.1:4000'', st_token = ''6162''\<rparr>"

lemma stream_urls_are_read_back_witness:
  "\<exists>p. stream_URL demo_stream ''ab'' 3 = ''http://'' @ st_addr demo_stream @ p \<and> parsePath demo_stream p = Some (''ab'', 3)"
proof -
  have s: "stream_Serve (Inr ''127.0.0.1:4000'') (Inr ''ab'') = Inr demo_stream" by code_simp
  show ?thesis using stream_urls_are_read_back [OF s, of "''ab''" 3]
    by (simp add: slash_def in_int64_def min_int64_def max_int64_def)
qed

text \<open>A wrong token and a torrent that is not there are answered differently, though the source means to hide which of
  the two it was.\<close>

lemma a_wrong_token_shows:
  assumes "map_of (e_torrents e) ''ab'' = None"
  shows "handleStream L demo_stream ''/stream/bad/ab/3'' e = PageNotFound \<and>
    handleStream L demo_stream ''/stream/6162/ab/3'' e = HttpError ''torrent not found'' 404"
proof -
  have "parsePath demo_stream ''/stream/bad/ab/3'' = None" "parsePath demo_stream ''/stream/6162/ab/3'' = Some (''ab'', 3)"
    by code_simp+
  then show ?thesis using assms by (simp add: handleStream_def OpenFile_def lookupFile_def lookup_None)
qed

end
