(* ===== verification/Logging.thy ===== *)
theory Logging
  imports FileSys
begin

text \<open>
  The daemon's log, \<^verbatim>\<open>internal/logging/logging.go\<close>, and the filter the torrent library's records go
  through, \<^verbatim>\<open>internal/engine/logbridge.go\<close>. A file handle is the number of the open that gave it; what
  was written is a history of sinks and lines, newest first. A level is slog's number.
\<close>

definition LevelDebug :: int where "LevelDebug = - 4"
definition LevelInfo :: int where "LevelInfo = 0"
definition LevelWarn :: int where "LevelWarn = 4"
definition LevelError :: int where "LevelError = 8"

definition ParseLevel :: "string \<Rightarrow> int result" where
  "ParseLevel s = (let k = to_lower (trim_space s) in
     if k = ''debug'' then Inr LevelDebug
     else if k = [] \<or> k = ''info'' then Inr LevelInfo
     else if k = ''warn'' \<or> k = ''warning'' then Inr LevelWarn
     else if k = ''error'' then Inr LevelError
     else Inl (''unknown log level '' @ quoted s @ '' (want debug, info, warn or error)''))"

subsection \<open>The writer whose file can change\<close>

datatype sink = Stderr | ToFile nat

record swappableWriter =
  sw_w :: "sink option"
  sw_f :: "nat option"

definition swap :: "nat option \<Rightarrow> swappableWriter \<Rightarrow> nat option \<times> swappableWriter" where
  "swap f s = (sw_f s, s\<lparr>sw_f := f, sw_w := (case f of
     Some h \<Rightarrow> Some (ToFile h)
   | None \<Rightarrow> if sw_f s \<noteq> None then Some Stderr else sw_w s)\<rparr>)"

record logger =
  lo_level :: int
  lo_path :: string
  lo_out :: swappableWriter
  lo_opened :: nat
  lo_closed :: "nat list"
  lo_written :: "(sink \<times> string) list"

text \<open>\<open>fault\<close> is why the file cannot be opened, if it cannot.\<close>

definition openLogFile :: "string \<Rightarrow> string option \<Rightarrow> nat \<Rightarrow> nat result" where
  "openLogFile path fault n = (case fault of
     Some err \<Rightarrow> Inl (''open log file '' @ path @ '': '' @ err) | None \<Rightarrow> Inr n)"

definition logger_New :: "string \<Rightarrow> string \<Rightarrow> string option \<Rightarrow> logger result" where
  "logger_New level path fault = (case ParseLevel level of
     Inl err \<Rightarrow> Inl err
   | Inr lvl \<Rightarrow>
       let l = \<lparr>lo_level = lvl, lo_path = path, lo_out = \<lparr>sw_w = Some Stderr, sw_f = None\<rparr>,
                lo_opened = 0, lo_closed = [], lo_written = []\<rparr> in
       if path = [] then Inr l
       else (case openLogFile path fault 0 of
          Inl err \<Rightarrow> Inl err
        | Inr h \<Rightarrow> Inr (l\<lparr>lo_out := \<lparr>sw_w = Some (ToFile h), sw_f = Some h\<rparr>, lo_opened := 1\<rparr>)))"

definition close_old :: "nat option \<Rightarrow> logger \<Rightarrow> logger" where
  "close_old old l = (case old of None \<Rightarrow> l | Some h \<Rightarrow> l\<lparr>lo_closed := h # lo_closed l\<rparr>)"

definition Reopen :: "string option \<Rightarrow> logger \<Rightarrow> unit result \<times> logger" where
  "Reopen fault l =
     (if lo_path l = [] then (Inr (), l)
      else case openLogFile (lo_path l) fault (lo_opened l) of
        Inl err \<Rightarrow> (Inl err, l)
      | Inr h \<Rightarrow> (let (old, out) = swap (Some h) (lo_out l)
          in (Inr (), close_old old (l\<lparr>lo_out := out, lo_opened := Suc (lo_opened l)\<rparr>))))"

definition logger_Close :: "logger \<Rightarrow> logger" where
  "logger_Close l = (let (old, out) = swap None (lo_out l) in close_old old (l\<lparr>lo_out := out\<rparr>))"

definition logger_Write :: "string \<Rightarrow> logger \<Rightarrow> logger" where
  "logger_Write p l = (case sw_w (lo_out l) of
     None \<Rightarrow> l | Some s \<Rightarrow> l\<lparr>lo_written := (s, p) # lo_written l\<rparr>)"

text \<open>A record of the daemon's own, which the handler drops below its level.\<close>

definition logger_log :: "int \<Rightarrow> string \<Rightarrow> logger \<Rightarrow> logger" where
  "logger_log lvl line l = (if lo_level l \<le> lvl then logger_Write line l else l)"

subsection \<open>The library's records\<close>

record log_record =
  lr_level :: int
  lr_attrs :: "(string \<times> string) list"
  lr_line :: string

definition library_Enabled :: "int \<Rightarrow> int \<Rightarrow> bool" where
  "library_Enabled least lvl \<longleftrightarrow> least \<le> lvl"

definition library_tagged :: "log_record \<Rightarrow> log_record" where
  "library_tagged r = r\<lparr>lr_attrs := lr_attrs r @ [(''src'', ''torrent'')]\<rparr>"

text \<open>\<open>render\<close> is the text handler's; it is called whatever the daemon's own level is.\<close>

definition library_Handle :: "(log_record \<Rightarrow> string) \<Rightarrow> int \<Rightarrow> log_record \<Rightarrow> logger \<Rightarrow> logger" where
  "library_Handle render least r l =
     (if library_Enabled least (lr_level r) then logger_Write (render (library_tagged r)) l else l)"

subsection \<open>The invariant\<close>

datatype log_op = LogLine int string | LibLine "log_record \<Rightarrow> string" int log_record | LogReopen "string option" | LogClose

fun log_step :: "log_op \<Rightarrow> logger \<Rightarrow> logger" where
  "log_step (LogLine lvl line) l = logger_log lvl line l"
| "log_step (LibLine render least r) l = library_Handle render least r l"
| "log_step (LogReopen fault) l = snd (Reopen fault l)"
| "log_step LogClose l = logger_Close l"

text \<open>Lines go to the file that is open, or to stderr when none is; of the files opened all but that one are closed.\<close>

definition handles_ok :: "nat option \<Rightarrow> nat \<Rightarrow> nat list \<Rightarrow> bool" where
  "handles_ok f n closed \<longleftrightarrow> distinct closed \<and> (\<forall>h \<in> set closed. h < n) \<and> (\<forall>h. f = Some h \<longrightarrow> h < n) \<and>
     (\<forall>h. h < n \<longrightarrow> (f = Some h) \<noteq> (h \<in> set closed))"

definition logger_ok :: "logger \<Rightarrow> bool" where
  "logger_ok l \<longleftrightarrow> sw_w (lo_out l) = Some (case sw_f (lo_out l) of None \<Rightarrow> Stderr | Some h \<Rightarrow> ToFile h) \<and>
     handles_ok (sw_f (lo_out l)) (lo_opened l) (lo_closed l)"

lemma handles_open: "handles_ok f n closed \<Longrightarrow> handles_ok (Some n) (Suc n) (case f of None \<Rightarrow> closed | Some h \<Rightarrow> h # closed)"
  unfolding handles_ok_def by (cases f) (force simp: less_Suc_eq)+

lemma handles_close: "handles_ok f n closed \<Longrightarrow> handles_ok None n (case f of None \<Rightarrow> closed | Some h \<Rightarrow> h # closed)"
  unfolding handles_ok_def by (cases f) force+

lemma logger_Write_ok: "logger_ok l \<Longrightarrow> logger_ok (logger_Write p l)"
  by (auto simp: logger_ok_def logger_Write_def)

lemma logger_New_ok: "logger_New level path fault = Inr l \<Longrightarrow> logger_ok l"
  by (auto simp: logger_New_def openLogFile_def logger_ok_def handles_ok_def Let_def split: sum.splits if_splits option.splits)

lemma Reopen_ok: "logger_ok l \<Longrightarrow> logger_ok (snd (Reopen fault l))"
  using handles_open [of "sw_f (lo_out l)" "lo_opened l" "lo_closed l"]
  by (cases "sw_f (lo_out l)") (simp_all add: Reopen_def openLogFile_def swap_def close_old_def logger_ok_def split: option.splits)

lemma logger_Close_ok: "logger_ok l \<Longrightarrow> logger_ok (logger_Close l)"
  using handles_close [of "sw_f (lo_out l)" "lo_opened l" "lo_closed l"]
  by (cases "sw_f (lo_out l)") (simp_all add: logger_Close_def swap_def close_old_def logger_ok_def)

interpretation logs: invariant_ops log_step logger_ok
proof
  fix l x
  assume "logger_ok l"
  then show "logger_ok (log_step x l)"
    by (cases x) (simp_all add: logger_log_def library_Handle_def logger_Write_ok Reopen_ok logger_Close_ok)
qed

subsection \<open>The properties\<close>

text \<open>The log never writes into a file it has closed and never leaks one: after any sequence of lines, of its own
  and of the library's, of reopenings that work or fail and of closings, the sink is the one file that is open, or
  stderr when none is, and every other file that was opened has been closed exactly once.\<close>

theorem the_log_has_one_open_file:
  assumes "logger_New level path fault = Inr l0"
  shows "let l = run_steps log_step xs l0; current = sw_f (lo_out l) in
    sw_w (lo_out l) = Some (case current of None \<Rightarrow> Stderr | Some h \<Rightarrow> ToFile h) \<and>
    distinct (lo_closed l) \<and>
    list_all (\<lambda>h. (current = Some h) \<noteq> (h \<in> set (lo_closed l))) [0..<lo_opened l]"
proof -
  have "logger_ok (run_steps log_step xs l0)" by (rule logs.run_inv [OF logger_New_ok [OF assms]])
  then show ?thesis by (simp add: logger_ok_def handles_ok_def Let_def list_all_iff)
qed

definition demo_logger :: logger where
  "demo_logger = \<lparr>lo_level = LevelInfo, lo_path = ''/l'', lo_out = \<lparr>sw_w = Some (ToFile 0), sw_f = Some 0\<rparr>,
     lo_opened = 1, lo_closed = [], lo_written = []\<rparr>"

definition demo_log_ops :: "log_op list" where
  "demo_log_ops = [LogLine LevelInfo ''a'', LogReopen None, LogLine LevelDebug ''b'', LogLine LevelError ''c'', LogClose,
     LogLine LevelInfo ''d'']"

lemma the_log_has_one_open_file_witness:
  "let l = run_steps log_step demo_log_ops demo_logger in
     lo_closed l = [1, 0] \<and> lo_written l = [(Stderr, ''d''), (ToFile 1, ''c''), (ToFile 0, ''a'')] \<and> distinct (lo_closed l)"
proof -
  have "to_lower (trim_space ''info'') = ''info''"
    by (simp add: trim_space_ascii is_space_def) code_simp
  then have n: "logger_New ''info'' ''/l'' None = Inr demo_logger"
    by (simp add: logger_New_def ParseLevel_def openLogFile_def Let_def demo_logger_def)
  have "lo_closed (run_steps log_step demo_log_ops demo_logger) = [1, 0]"
    "lo_written (run_steps log_step demo_log_ops demo_logger) = [(Stderr, ''d''), (ToFile 1, ''c''), (ToFile 0, ''a'')]"
    by (simp_all add: demo_log_ops_def demo_logger_def logger_log_def logger_Write_def LevelInfo_def LevelDebug_def
        LevelError_def Reopen_def openLogFile_def swap_def close_old_def logger_Close_def)
  then show ?thesis using the_log_has_one_open_file [OF n, of demo_log_ops] by (simp add: Let_def)
qed

end
