(* ===== verification/Wire.thy ===== *)
theory Wire
  imports EngineInv Sources "HOL-Library.Word"
begin

text \<open>
  What crosses the socket, \<^verbatim>\<open>internal/ipc/protocol.go\<close>: requests, responses and the envelope they and
  the pushed events travel in. A sequence number is a \<^verbatim>\<open>uint64\<close>, kept as a 64-bit word. A method is a
  string in the source; one no constant names is \<open>MethodOther\<close>.
\<close>

datatype rpc_method =
    MethodPing | MethodAddMagnet | MethodAddTorrentFile | MethodAddBatch | MethodRemove
  | MethodPurgeData | MethodSetPaused | MethodForceRecheck | MethodSetFilePriority
  | MethodSetGlobalUploadLimit | MethodSetGlobalDownloadLimit | MethodSetTorrentRateLimit
  | MethodSetSeedLimit | MethodMoveStorage | MethodList | MethodDetail | MethodPreviewURL
  | MethodSetLabel | MethodSearch | MethodSearchSources | MethodResolveLink | MethodShutdown
  | MethodOther string

fun method_name :: "rpc_method \<Rightarrow> string" where
  "method_name MethodPing = ''Ping''"
| "method_name MethodAddMagnet = ''AddMagnet''"
| "method_name MethodAddTorrentFile = ''AddTorrentFile''"
| "method_name MethodAddBatch = ''AddBatch''"
| "method_name MethodRemove = ''Remove''"
| "method_name MethodPurgeData = ''PurgeData''"
| "method_name MethodSetPaused = ''SetPaused''"
| "method_name MethodForceRecheck = ''ForceRecheck''"
| "method_name MethodSetFilePriority = ''SetFilePriority''"
| "method_name MethodSetGlobalUploadLimit = ''SetGlobalUploadLimit''"
| "method_name MethodSetGlobalDownloadLimit = ''SetGlobalDownloadLimit''"
| "method_name MethodSetTorrentRateLimit = ''SetTorrentRateLimit''"
| "method_name MethodSetSeedLimit = ''SetSeedLimit''"
| "method_name MethodMoveStorage = ''MoveStorage''"
| "method_name MethodList = ''List''"
| "method_name MethodDetail = ''Detail''"
| "method_name MethodPreviewURL = ''PreviewURL''"
| "method_name MethodSetLabel = ''SetLabel''"
| "method_name MethodSearch = ''Search''"
| "method_name MethodSearchSources = ''SearchSources''"
| "method_name MethodResolveLink = ''ResolveLink''"
| "method_name MethodShutdown = ''Shutdown''"
| "method_name (MethodOther s) = s"

record Request =
  rq_Seq :: "64 word"
  rq_Method :: rpc_method
  rq_ID :: string
  rq_Source :: string
  rq_Sources :: "string list"
  rq_Opts :: AddOpts
  rq_DeleteData :: bool
  rq_Paused :: bool
  rq_FileIndex :: int
  rq_Priority :: priority
  rq_UploadBps :: int
  rq_DownloadBps :: int
  rq_SeedRatio :: f64
  rq_SeedTime :: duration
  rq_Label :: string
  rq_NewDir :: string
  rq_Query :: string
  rq_Token :: string

record Response =
  rsp_Seq :: "64 word"
  rsp_OK :: bool
  rsp_Err :: string
  rsp_ID :: string
  rsp_IDs :: "string list"
  rsp_Errs :: "string list"
  rsp_Snapshot :: "TorrentSnapshot list"
  rsp_Detail :: "EngineTypes.TorrentDetail option"
  rsp_URL :: string
  rsp_Results :: "Result list"
  rsp_Sources :: "string list"
  rsp_Link :: string

datatype msgKind = kindCall | kindReply | kindEvent

record message =
  msg_Kind :: msgKind
  msg_Req :: "Request option"
  msg_Resp :: "Response option"
  msg_Event :: "Event option"

text \<open>A request with only its method set, and a response with only its sequence number.\<close>

definition blank :: "rpc_method \<Rightarrow> Request" where
  "blank meth = \<lparr>rq_Seq = 0, rq_Method = meth, rq_ID = [], rq_Source = [], rq_Sources = [],
     rq_Opts = \<lparr>opt_SavePath = [], opt_Paused = False, opt_Files = []\<rparr>, rq_DeleteData = False,
     rq_Paused = False, rq_FileIndex = 0, rq_Priority = PriorityNone, rq_UploadBps = 0,
     rq_DownloadBps = 0, rq_SeedRatio = Fin 0, rq_SeedTime = 0, rq_Label = [], rq_NewDir = [],
     rq_Query = [], rq_Token = []\<rparr>"

definition response_to :: "64 word \<Rightarrow> Response" where
  "response_to n = \<lparr>rsp_Seq = n, rsp_OK = False, rsp_Err = [], rsp_ID = [], rsp_IDs = [], rsp_Errs = [],
     rsp_Snapshot = [], rsp_Detail = None, rsp_URL = [], rsp_Results = [], rsp_Sources = [],
     rsp_Link = []\<rparr>"

definition call_msg :: "Request \<Rightarrow> message" where
  "call_msg rq = \<lparr>msg_Kind = kindCall, msg_Req = Some rq, msg_Resp = None, msg_Event = None\<rparr>"

definition reply_msg :: "Response \<Rightarrow> message" where
  "reply_msg r = \<lparr>msg_Kind = kindReply, msg_Req = None, msg_Resp = Some r, msg_Event = None\<rparr>"

definition event_msg :: "Event \<Rightarrow> message" where
  "event_msg ev = \<lparr>msg_Kind = kindEvent, msg_Req = None, msg_Resp = None, msg_Event = Some ev\<rparr>"

definition callTimeout :: duration where "callTimeout = 30 * second"
definition searchTimeout :: duration where "searchTimeout = 120 * second"

lemma message_simps [simp]:
  "msg_Kind (call_msg rq) = kindCall" "msg_Req (call_msg rq) = Some rq" "msg_Resp (call_msg rq) = None"
  "msg_Kind (reply_msg r) = kindReply" "msg_Resp (reply_msg r) = Some r" "msg_Req (reply_msg r) = None"
  "msg_Kind (event_msg ev) = kindEvent" "msg_Event (event_msg ev) = Some ev" "msg_Resp (event_msg ev) = None"
  "rsp_Seq (response_to n) = n"
  by (simp_all add: call_msg_def reply_msg_def event_msg_def response_to_def)

end
