(* ===== verification/IpcServer.thy ===== *)
theory IpcServer
  imports Wire
begin

text \<open>
  The daemon's end of the socket, \<^verbatim>\<open>internal/ipc/server.go\<close>: what one request does, which connections
  are being served, and the lock that makes a process the only daemon of its socket
  (\<^verbatim>\<open>lock_unix.go\<close>). A request reaches the engine only through its public operations, and the lemma
  \<open>dispatch_run\<close> says so: it is a run of the engine's own steps.
\<close>

subsection \<open>One request\<close>

record daemon =
  d_engine :: engine
  d_searcher :: searcher
  d_previewURL :: "(tid \<Rightarrow> int \<Rightarrow> string) option"

definition noSearcherMsg :: string where
  "noSearcherMsg = ''no indexer configured: set search.jackett.url and search.jackett.api_key (or search.prowlarr.*) in config.toml''"

definition refused :: "Request \<Rightarrow> string \<Rightarrow> Response" where
  "refused req err = (response_to (rq_Seq req))\<lparr>rsp_Err := err\<rparr>"

definition accepted :: "Request \<Rightarrow> Response" where
  "accepted req = (response_to (rq_Seq req))\<lparr>rsp_OK := True\<rparr>"

text \<open>The shape most cases have: call the engine, turn its error into text, or say OK.\<close>

definition engine_call :: "Request \<Rightarrow> 'a result \<times> engine \<Rightarrow> ('a \<Rightarrow> Response \<Rightarrow> Response) \<Rightarrow> daemon \<Rightarrow> Response \<times> daemon" where
  "engine_call req out fill d = (let d1 = d\<lparr>d_engine := snd out\<rparr> in
     case fst out of
       Inl err \<Rightarrow> (refused req err, d1)
     | Inr x \<Rightarrow> (fill x (accepted req), d1))"

definition plain_call :: "Request \<Rightarrow> unit result \<times> engine \<Rightarrow> daemon \<Rightarrow> Response \<times> daemon" where
  "plain_call req out d = engine_call req out (\<lambda>_ r. r) d"

definition add_source :: "lib \<Rightarrow> machine \<Rightarrow> AddOpts \<Rightarrow> string \<Rightarrow> engine \<Rightarrow> tid result \<times> engine" where
  "add_source L mc opts src e =
     (if has_prefix src ''magnet:'' then AddMagnet L mc src opts e else AddTorrentFile L mc src opts e)"

fun add_batch :: "lib \<Rightarrow> machine \<Rightarrow> AddOpts \<Rightarrow> string list \<Rightarrow> engine \<Rightarrow> string list \<times> string list \<times> engine" where
  "add_batch L mc opts [] e = ([], [], e)"
| "add_batch L mc opts (src # srcs) e =
     (let (r, e1) = add_source L mc opts src e; (ids, errs, e2) = add_batch L mc opts srcs e1 in
      case r of
        Inl err \<Rightarrow> (ids, (src @ '': '' @ err) # errs, e2)
      | Inr k \<Rightarrow> (k # ids, errs, e2))"

definition search_call :: "Request \<Rightarrow> answer \<Rightarrow> Response" where
  "search_call req a = (case a of
     Inl err \<Rightarrow> refused req (err_text err)
   | Inr (results, warnings) \<Rightarrow> (accepted req)\<lparr>rsp_Results := results, rsp_Errs := warnings\<rparr>)"

definition dispatch :: "lib \<Rightarrow> machine \<Rightarrow> (nat \<Rightarrow> surroundings) \<Rightarrow> Request \<Rightarrow> daemon \<Rightarrow> Response \<times> daemon" where
  "dispatch L mc E req d = (let e = d_engine d in
     case rq_Method req of
       MethodPing \<Rightarrow> (accepted req, d)
     | MethodAddMagnet \<Rightarrow>
         engine_call req (AddMagnet L mc (rq_Source req) (rq_Opts req) e) (\<lambda>k r. r\<lparr>rsp_ID := k\<rparr>) d
     | MethodAddTorrentFile \<Rightarrow>
         engine_call req (AddTorrentFile L mc (rq_Source req) (rq_Opts req) e) (\<lambda>k r. r\<lparr>rsp_ID := k\<rparr>) d
     | MethodAddBatch \<Rightarrow>
         (let (ids, errs, e1) = add_batch L mc (rq_Opts req) (rq_Sources req) e
          in ((accepted req)\<lparr>rsp_IDs := ids, rsp_Errs := errs\<rparr>, d\<lparr>d_engine := e1\<rparr>))
     | MethodRemove \<Rightarrow> plain_call req (RemoveTorrent L mc (rq_ID req) (rq_DeleteData req) e) d
     | MethodPurgeData \<Rightarrow> plain_call req (PurgeData L mc (rq_ID req) e) d
     | MethodSetPaused \<Rightarrow> plain_call req (SetPaused L mc (rq_ID req) (rq_Paused req) e) d
     | MethodForceRecheck \<Rightarrow> plain_call req (ForceRecheck L mc (rq_ID req) e) d
     | MethodSetFilePriority \<Rightarrow>
         plain_call req (SetFilePriority L mc (rq_ID req) (rq_FileIndex req) (rq_Priority req) e) d
     | MethodSetGlobalUploadLimit \<Rightarrow>
         (accepted req, d\<lparr>d_engine := SetGlobalUploadLimit (rq_UploadBps req) e\<rparr>)
     | MethodSetGlobalDownloadLimit \<Rightarrow>
         (accepted req, d\<lparr>d_engine := SetGlobalDownloadLimit (rq_DownloadBps req) e\<rparr>)
     | MethodSetTorrentRateLimit \<Rightarrow>
         plain_call req (SetTorrentRateLimit L mc (rq_ID req) (rq_UploadBps req) (rq_DownloadBps req) e) d
     | MethodSetSeedLimit \<Rightarrow>
         plain_call req (SetSeedLimit L mc (rq_ID req) (rq_SeedRatio req) (rq_SeedTime req) e) d
     | MethodMoveStorage \<Rightarrow> plain_call req (MoveStorage L mc (rq_ID req) (rq_NewDir req) e) d
     | MethodList \<Rightarrow> ((accepted req)\<lparr>rsp_Snapshot := ListTorrents L e\<rparr>, d)
     | MethodDetail \<Rightarrow>
         engine_call req (TorrentDetail L mc (rq_ID req) e) (\<lambda>x r. r\<lparr>rsp_Detail := Some x\<rparr>) d
     | MethodPreviewURL \<Rightarrow> (case d_previewURL d of
         None \<Rightarrow> (refused req ''streaming is not enabled on this daemon'', d)
       | Some url \<Rightarrow> engine_call req (PrepareStream L mc (rq_ID req) (rq_FileIndex req) e)
           (\<lambda>_ r. r\<lparr>rsp_URL := url (rq_ID req) (rq_FileIndex req)\<rparr>) d)
     | MethodResolveLink \<Rightarrow>
         (if d_searcher d = NoSearcher then (refused req noSearcherMsg, d)
          else let (r, s) = ResolveToken E (rq_Token req) (d_searcher d) in
            (case r of
               Inl err \<Rightarrow> (refused req err, d\<lparr>d_searcher := s\<rparr>)
             | Inr link \<Rightarrow> ((accepted req)\<lparr>rsp_Link := link\<rparr>, d\<lparr>d_searcher := s\<rparr>)))
     | MethodSearch \<Rightarrow>
         (if d_searcher d = NoSearcher then (refused req noSearcherMsg, d)
          else let (a, s) = searcher_Search E (rq_Query req) (d_searcher d)
               in (search_call req a, d\<lparr>d_searcher := s\<rparr>))
     | MethodSearchSources \<Rightarrow> ((accepted req)\<lparr>rsp_Sources := searcher_Sources (d_searcher d)\<rparr>, d)
     | MethodSetLabel \<Rightarrow> plain_call req (SetLabel L mc (rq_ID req) (rq_Label req) e) d
     | MethodShutdown \<Rightarrow> (accepted req, d)
     | MethodOther name \<Rightarrow> (refused req (''unknown method '' @ quoted name), d))"

subsection \<open>Connections\<close>

record server =
  sv_conns :: "nat list"
  sv_closing :: bool
  sv_hungUp :: "nat list"
  sv_shutdown :: bool

definition track :: "nat \<Rightarrow> server \<Rightarrow> bool \<times> server" where
  "track c s = (if sv_closing s then (False, s)
     else (True, s\<lparr>sv_conns := List.insert c (sv_conns s)\<rparr>))"

definition untrack :: "nat \<Rightarrow> server \<Rightarrow> server" where
  "untrack c s = s\<lparr>sv_conns := removeAll c (sv_conns s)\<rparr>"

definition closeConns :: "server \<Rightarrow> server" where
  "closeConns s = s\<lparr>sv_closing := True, sv_hungUp := sv_conns s @ sv_hungUp s\<rparr>"

definition requestShutdown :: "server \<Rightarrow> server" where
  "requestShutdown s = s\<lparr>sv_shutdown := True\<rparr>"

text \<open>The start of \<^verbatim>\<open>handleConn\<close>: a connection that comes too late is hung up on at once.\<close>

definition accept_conn :: "nat \<Rightarrow> server \<Rightarrow> server" where
  "accept_conn c s = (case track c s of
     (False, s1) \<Rightarrow> s1\<lparr>sv_hungUp := c # sv_hungUp s1\<rparr> | (True, s1) \<Rightarrow> s1)"

subsection \<open>The lock\<close>

datatype flock = Locked | WouldBlock | LockFault string

definition lock_attempts :: nat where "lock_attempts = 5"

text \<open>The loop of \<^verbatim>\<open>acquireDaemonLock\<close>: what the kernel says to each try, and the naps between them.\<close>

fun lock_from :: "(nat \<Rightarrow> flock) \<Rightarrow> string \<Rightarrow> nat \<Rightarrow> nat \<Rightarrow> unit result \<times> duration list" where
  "lock_from k path i 0 = (Inl (''another daemon already holds '' @ path), [])"
| "lock_from k path i (Suc n) = (case k i of
     Locked \<Rightarrow> (Inr (), [])
   | LockFault err \<Rightarrow> (Inl (''lock '' @ path @ '': '' @ err), [])
   | WouldBlock \<Rightarrow>
       if n = 0 then (Inl (''another daemon already holds '' @ path), [])
       else let (r, naps) = lock_from k path (Suc i) n in (r, 40 * millisecond # naps))"

definition lock_path :: "string \<Rightarrow> string" where
  "lock_path socketPath = socketPath @ ''.lock''"

definition lock_pid_text :: "int \<Rightarrow> string" where
  "lock_pid_text pid = itoa pid @ [CHR 0x0A]"

text \<open>The file's content: truncated, then written; either can fail and is not reported.\<close>

definition writeLockPID :: "bool \<Rightarrow> bool \<Rightarrow> int \<Rightarrow> string \<Rightarrow> string" where
  "writeLockPID truncates writes pid content =
     (if \<not> truncates then content else if \<not> writes then [] else lock_pid_text pid)"

definition acquireDaemonLock :: "string result \<Rightarrow> (nat \<Rightarrow> flock) \<Rightarrow> bool \<Rightarrow> bool \<Rightarrow> int \<Rightarrow> string \<Rightarrow> string result \<times> duration list" where
  "acquireDaemonLock opened k truncates writes pid socketPath = (case opened of
     Inl err \<Rightarrow> (Inl (''open daemon lock '' @ lock_path socketPath @ '': '' @ err), [])
   | Inr content \<Rightarrow> (case lock_from k (lock_path socketPath) 0 lock_attempts of
       (Inl err, naps) \<Rightarrow> (Inl err, naps)
     | (Inr _, naps) \<Rightarrow> (Inr (writeLockPID truncates writes pid content), naps)))"

definition readLockPID :: "string \<Rightarrow> int" where
  "readLockPID content = (case atoi (trim_space (take 32 content)) of
     None \<Rightarrow> 0 | Some pid \<Rightarrow> if pid \<le> 0 then 0 else pid)"

record DaemonStatus =
  ds_Running :: bool
  ds_PID :: int
  ds_LockPath :: string

datatype lock_file = NoLockFile | LockUnreadable string | LockFile string flock

definition DaemonInfo :: "string \<Rightarrow> lock_file \<Rightarrow> DaemonStatus \<times> string option" where
  "DaemonInfo socketPath f =
     (let st = \<lparr>ds_Running = False, ds_PID = 0, ds_LockPath = lock_path socketPath\<rparr> in
      case f of
        NoLockFile \<Rightarrow> (st, None)
      | LockUnreadable err \<Rightarrow> (st, Some (''open daemon lock '' @ lock_path socketPath @ '': '' @ err))
      | LockFile content answer \<Rightarrow> (case answer of
          Locked \<Rightarrow> (st, None)
        | LockFault err \<Rightarrow> (st, Some (''lock '' @ lock_path socketPath @ '': '' @ err))
        | WouldBlock \<Rightarrow> (st\<lparr>ds_Running := True, ds_PID := readLockPID content\<rparr>, None)))"

subsection \<open>Lemmas\<close>

lemma response_simps [simp]:
  "rsp_Seq (refused req err) = rq_Seq req" "rsp_Seq (accepted req) = rq_Seq req"
  "\<not> rsp_OK (refused req err)" "rsp_OK (accepted req)" "rsp_Err (refused req err) = err" "rsp_Err (accepted req) = []"
  by (simp_all add: refused_def accepted_def response_to_def)

lemma search_call_simps [simp]:
  "rsp_Seq (search_call req a) = rq_Seq req" "rsp_OK (search_call req a) \<longleftrightarrow> (\<exists>x. a = Inr x)"
  by (auto simp: search_call_def split: sum.splits)

lemma engine_call_simps [simp]:
  "d_engine (snd (engine_call req out fill d)) = snd out"
  "d_searcher (snd (engine_call req out fill d)) = d_searcher d"
  by (auto simp: engine_call_def Let_def split: sum.splits)

lemma engine_call_Seq:
  "(\<And>x r. rsp_Seq (fill x r) = rsp_Seq r) \<Longrightarrow> rsp_Seq (fst (engine_call req out fill d)) = rq_Seq req"
  by (auto simp: engine_call_def Let_def split: sum.splits)

text \<open>An answer carries the sequence number it answers.\<close>

lemma dispatch_Seq: "rsp_Seq (fst (dispatch L mc E req d)) = rq_Seq req"
  by (simp add: dispatch_def Let_def plain_call_def engine_call_Seq case_prod_beta
      split: rpc_method.split option.split sum.split)

text \<open>
  What a request asks of the engine, as operations of its transition system. This is the contract
  the switch of \<^verbatim>\<open>dispatch\<close> implements.
\<close>

definition add_op :: "AddOpts \<Rightarrow> string \<Rightarrow> eop" where
  "add_op opts src = (if has_prefix src ''magnet:'' then OAddMagnet src opts else OAddFile src opts)"

definition engine_ops :: "daemon \<Rightarrow> Request \<Rightarrow> eop list" where
  "engine_ops d req = (let k = rq_ID req in case rq_Method req of
     MethodAddMagnet \<Rightarrow> [OAddMagnet (rq_Source req) (rq_Opts req)]
   | MethodAddTorrentFile \<Rightarrow> [OAddFile (rq_Source req) (rq_Opts req)]
   | MethodAddBatch \<Rightarrow> map (add_op (rq_Opts req)) (rq_Sources req)
   | MethodRemove \<Rightarrow> [ORemove k (rq_DeleteData req)]
   | MethodPurgeData \<Rightarrow> [OPurge k]
   | MethodSetPaused \<Rightarrow> [OSetPaused k (rq_Paused req)]
   | MethodForceRecheck \<Rightarrow> [ORecheck k]
   | MethodSetFilePriority \<Rightarrow> [OSetFilePriority k (rq_FileIndex req) (rq_Priority req)]
   | MethodSetGlobalUploadLimit \<Rightarrow> [OUploadLimit (rq_UploadBps req)]
   | MethodSetGlobalDownloadLimit \<Rightarrow> [ODownloadLimit (rq_DownloadBps req)]
   | MethodSetTorrentRateLimit \<Rightarrow> [ORateLimit k (rq_UploadBps req) (rq_DownloadBps req)]
   | MethodSetSeedLimit \<Rightarrow> [OSetSeedLimit k (rq_SeedRatio req) (rq_SeedTime req)]
   | MethodMoveStorage \<Rightarrow> [OMove k (rq_NewDir req)]
   | MethodDetail \<Rightarrow> [ODetail k]
   | MethodPreviewURL \<Rightarrow> if d_previewURL d = None then [] else [OPrepareStream k (rq_FileIndex req)]
   | MethodSetLabel \<Rightarrow> [OSetLabel k (rq_Label req)]
   | _ \<Rightarrow> [])"

definition run_ops :: "lib \<Rightarrow> machine \<Rightarrow> eop list \<Rightarrow> engine \<Rightarrow> engine" where
  "run_ops L mc ops e = run_steps engine_step (map (\<lambda>op. (L, mc, op)) ops) e"

lemma run_ops_simps [simp]:
  "run_ops L mc [] e = e" "run_ops L mc (op # ops) e = run_ops L mc ops (exec L mc op e)"
  by (simp_all add: run_ops_def engine_step_def)

lemma add_source_exec: "snd (add_source L mc opts src e) = exec L mc (add_op opts src) e"
  by (simp add: add_source_def add_op_def)

lemma add_batch_run: "snd (snd (add_batch L mc opts srcs e)) = run_ops L mc (map (add_op opts) srcs) e"
proof (induction srcs arbitrary: e)
  case (Cons src srcs)
  then show ?case by (simp add: case_prod_beta add_source_exec split: sum.split)
qed simp

lemma dispatch_run: "d_engine (snd (dispatch L mc E req d)) = run_ops L mc (engine_ops d req) (d_engine d)"
  by (cases "rq_Method req")
     (simp_all add: dispatch_def engine_ops_def Let_def plain_call_def add_batch_run case_prod_beta split: option.split sum.split)

lemma add_batch_lengths:
  "List.length (fst (add_batch L mc opts srcs e)) + List.length (fst (snd (add_batch L mc opts srcs e))) = List.length srcs"
  by (induction srcs arbitrary: e) (auto simp: case_prod_beta split: sum.split)

end
