(* ===== verification/Vpn.thy ===== *)
theory Vpn
  imports GoStrings EngineTypes FileSys
begin

text \<open>
  \<^verbatim>\<open>internal/vpn\<close>: which interface traffic would leave by, and whether it is a tunnel
  (\<^verbatim>\<open>vpn.go\<close>, and the Linux classification \<^verbatim>\<open>classify_linux.go\<close>), with the closure \<^verbatim>\<open>vpnChecker\<close> of
  \<^verbatim>\<open>cmd/torrnado/daemon.go\<close> that hands the verdict to the engine. What the kernel answers is a value:
  the local address a UDP socket gets for each probe, the interfaces with their addresses, and the
  files under \<^verbatim>\<open>/sys/class/net\<close>. An address is its bytes, as \<^verbatim>\<open>net.IP\<close> is.
\<close>

subsection \<open>Addresses\<close>

type_synonym ip = "nat list"

definition v4InV6Prefix :: ip where
  "v4InV6Prefix = [0, 0, 0, 0, 0, 0, 0, 0, 0, 0, 255, 255]"

text \<open>\<^verbatim>\<open>IP.Equal\<close>: an IPv4 address and that same address in IPv6 form are equal.\<close>

definition ip_Equal :: "ip \<Rightarrow> ip \<Rightarrow> bool" where
  "ip_Equal a b =
     (if List.length a = List.length b then a = b
      else if List.length a = 4 \<and> List.length b = 16 then take 12 b = v4InV6Prefix \<and> a = drop 12 b
      else if List.length a = 16 \<and> List.length b = 4 then take 12 a = v4InV6Prefix \<and> drop 12 a = b
      else False)"

definition ip_IsUnspecified :: "ip \<Rightarrow> bool" where
  "ip_IsUnspecified a \<longleftrightarrow> ip_Equal a (v4InV6Prefix @ replicate 4 0) \<or> ip_Equal a (replicate 16 0)"

lemma ip_Equal_refl [simp]: "ip_Equal a a"
  by (simp add: ip_Equal_def)

lemma ip_Equal_sym: "ip_Equal a b \<longleftrightarrow> ip_Equal b a"
  by (auto simp: ip_Equal_def)

subsection \<open>What the machine answers\<close>

text \<open>
  The type of an interface's address says whether it carries an IP; \<^verbatim>\<open>addrIP\<close> gives nil for any
  other kind, and so does \<open>OtherAddr\<close>.
\<close>

datatype net_addr = IPNet ip | IPAddr ip | OtherAddr

record interface =
  if_Name :: string
  if_Addrs :: "net_addr list result"

datatype local_addr = UDPAddr ip | NotUDP

record netview =
  net_dial :: "string \<Rightarrow> string \<Rightarrow> local_addr result"
  net_interfaces :: "interface list result"
  net_readFile :: "string \<Rightarrow> string result"
  net_exists :: "string \<Rightarrow> bool"

text \<open>A reason keeps what the source's message is formatted from.\<close>

datatype vpn_reason = NoReason | NoRoute | NoInterfaceHolds ip | CannotTell string string
  | LeavesBy string string

record Status =
  vs_Active :: bool
  vs_Interface :: string
  vs_IP :: ip
  vs_Reason :: vpn_reason

subsection \<open>The outbound interface\<close>

definition probeAddrs :: "(string \<times> string) list" where
  "probeAddrs = [(''udp4'', ''192.0.2.1:9''), (''udp6'', ''[2001:db8::1]:9'')]"

fun probe :: "netview \<Rightarrow> (string \<times> string) list \<Rightarrow> string \<Rightarrow> ip result" where
  "probe N [] lastErr = Inl (''finding the outbound address: '' @ lastErr)"
| "probe N ((network, addr) # ps) lastErr = (case net_dial N network addr of
     Inl err \<Rightarrow> probe N ps err
   | Inr NotUDP \<Rightarrow> probe N ps (''no local address for a '' @ network @ '' route'')
   | Inr (UDPAddr a) \<Rightarrow>
       if a = [] \<or> ip_IsUnspecified a then probe N ps (''no local address for a '' @ network @ '' route'')
       else Inr a)"

definition outboundIP :: "netview \<Rightarrow> ip result" where
  "outboundIP N = probe N probeAddrs []"

fun addrIP :: "net_addr \<Rightarrow> ip" where
  "addrIP (IPNet a) = a"
| "addrIP (IPAddr a) = a"
| "addrIP OtherAddr = []"

definition holds_ip :: "ip \<Rightarrow> interface \<Rightarrow> bool" where
  "holds_ip a i = (case if_Addrs i of
     Inl _ \<Rightarrow> False | Inr addrs \<Rightarrow> list_ex (\<lambda>x. ip_Equal (addrIP x) a) addrs)"

definition interfaceForIP :: "netview \<Rightarrow> ip \<Rightarrow> interface result" where
  "interfaceForIP N a = (case net_interfaces N of
     Inl err \<Rightarrow> Inl (''listing interfaces: '' @ err)
   | Inr ifaces \<Rightarrow> (case List.find (holds_ip a) ifaces of
       Some i \<Rightarrow> Inr i
     | None \<Rightarrow> Inl ''no interface has address''))"

definition named :: "string \<Rightarrow> string list \<Rightarrow> bool" where
  "named name extra \<longleftrightarrow> name \<in> set extra"

subsection \<open>Is it a tunnel?\<close>

definition sysClassNet :: string where "sysClassNet = ''/sys/class/net''"

definition arphrdPPP :: int where "arphrdPPP = 512"
definition arphrdTunnel :: int where "arphrdTunnel = 768"
definition arphrdTunnel6 :: int where "arphrdTunnel6 = 769"
definition arphrdNone :: int where "arphrdNone = 65534"

definition tunnelDevTypes :: "string list" where
  "tunnelDevTypes = [''wireguard'', ''vti'', ''vti6'', ''xfrm'', ''gre'', ''ppp'']"

text \<open>
  \<^verbatim>\<open>bufio.Scanner\<close> yields the lines without their end and gives up on one that does not fit its
  64 KiB buffer.
\<close>

fun scan_value :: "string \<Rightarrow> string list \<Rightarrow> string result" where
  "scan_value p [] = Inr []"
| "scan_value p (l # ls) =
     (if ls = [] \<and> l = [] then Inr []
      else if 65536 \<le> List.length l then Inl ''bufio.Scanner: token too long''
      else if has_prefix (drop_cr l) p then Inr (trim_prefix (drop_cr l) p)
      else scan_value p ls)"

definition ueventValue :: "netview \<Rightarrow> string \<Rightarrow> string \<Rightarrow> string result" where
  "ueventValue N path key = (case net_readFile N path of
     Inl err \<Rightarrow> Inl err
   | Inr s \<Rightarrow> scan_value (key @ ''='') (str_split (CHR 0x0A) s))"

definition intFile :: "netview \<Rightarrow> string \<Rightarrow> int result" where
  "intFile N path = (case net_readFile N path of
     Inl err \<Rightarrow> Inl err
   | Inr s \<Rightarrow> (case atoi (trim_space s) of
       None \<Rightarrow> Inl (''strconv.Atoi: parsing '' @ quoted (trim_space s) @ '': invalid syntax'') | Some n \<Rightarrow> Inr n))"

definition isTunnel :: "netview \<Rightarrow> interface \<Rightarrow> (bool \<times> string) result" where
  "isTunnel N iface =
     (let dir = path_join sysClassNet (if_Name iface) in
      case ueventValue N (path_join dir ''uevent'') ''DEVTYPE'' of
        Inl err \<Rightarrow> Inl err
      | Inr devType \<Rightarrow>
          if devType \<in> set tunnelDevTypes then Inr (True, [])
          else if net_exists N (path_join dir ''tun_flags'') then Inr (True, [])
          else (case intFile N (path_join dir ''type'') of
              Inl err \<Rightarrow> Inl err
            | Inr hwType \<Rightarrow>
                if hwType \<in> {arphrdNone, arphrdPPP, arphrdTunnel, arphrdTunnel6} then Inr (True, [])
                else Inr (False, ''which is a physical device'')))"

subsection \<open>The verdict\<close>

definition Detect :: "netview \<Rightarrow> string list \<Rightarrow> Status \<times> string option" where
  "Detect N extra = (case outboundIP N of
     Inl err \<Rightarrow> (\<lparr>vs_Active = False, vs_Interface = [], vs_IP = [], vs_Reason = NoRoute\<rparr>, Some err)
   | Inr ip \<Rightarrow> (case interfaceForIP N ip of
       Inl err \<Rightarrow>
         (\<lparr>vs_Active = False, vs_Interface = [], vs_IP = ip, vs_Reason = NoInterfaceHolds ip\<rparr>, Some err)
     | Inr iface \<Rightarrow>
        (let st = \<lparr>vs_Active = False, vs_Interface = if_Name iface, vs_IP = ip, vs_Reason = NoReason\<rparr> in
         if named (if_Name iface) extra then (st\<lparr>vs_Active := True\<rparr>, None)
         else (case isTunnel N iface of
             Inl err \<Rightarrow> (st\<lparr>vs_Reason := CannotTell (if_Name iface) err\<rparr>, Some err)
           | Inr (tunnel, why) \<Rightarrow>
               if \<not> tunnel then (st\<lparr>vs_Reason := LeavesBy (if_Name iface) why\<rparr>, None)
               else (st\<lparr>vs_Active := True\<rparr>, None)))))"

text \<open>\<^verbatim>\<open>Status.String\<close>; how an address prints is the standard library's, a parameter.\<close>

definition reason_text :: "(ip \<Rightarrow> string) \<Rightarrow> vpn_reason \<Rightarrow> string" where
  "reason_text pr r = (case r of
     NoReason \<Rightarrow> []
   | NoRoute \<Rightarrow> ''no route to the internet''
   | NoInterfaceHolds ip \<Rightarrow> ''no interface holds '' @ pr ip
   | CannotTell name err \<Rightarrow> ''cannot tell what '' @ name @ '' is: '' @ err
   | LeavesBy name why \<Rightarrow> ''traffic leaves by '' @ name @ '', '' @ why)"

definition Status_String :: "(ip \<Rightarrow> string) \<Rightarrow> Status \<Rightarrow> string" where
  "Status_String pr st =
     (if vs_Active st then ''on '' @ vs_Interface st
      else if reason_text pr (vs_Reason st) \<noteq> [] then reason_text pr (vs_Reason st)
      else ''no VPN'')"

definition vpnChecker :: "(ip \<Rightarrow> string) \<Rightarrow> netview \<Rightarrow> string list \<Rightarrow> VPNStatus" where
  "vpnChecker pr N interfaces =
     (let st = fst (Detect N interfaces)
      in \<lparr>vpn_Active = vs_Active st, vpn_Interface = vs_Interface st,
          vpn_Reason = Status_String pr st\<rparr>)"

subsection \<open>Lemmas\<close>

lemma interfaceForIP_Inr:
  "interfaceForIP N a = Inr i \<longleftrightarrow>
     (\<exists>is. net_interfaces N = Inr is \<and> List.find (holds_ip a) is = Some i)"
  by (auto simp: interfaceForIP_def split: sum.splits option.splits)

lemma probe_Inr:
  "probe N ps err = Inr a \<Longrightarrow>
     a \<noteq> [] \<and> \<not> ip_IsUnspecified a \<and> (\<exists>(nw, to)\<in>set ps. net_dial N nw to = Inr (UDPAddr a))"
  by (induction N ps err rule: probe.induct) (auto split: sum.splits local_addr.splits if_splits)

text \<open>The verdict is \<^emph>\<open>on a VPN\<close> exactly when everything was read and says so.\<close>

lemma Detect_active:
  "vs_Active (fst (Detect N extra)) \<longleftrightarrow>
     (\<exists>a i. outboundIP N = Inr a \<and> interfaceForIP N a = Inr i \<and>
       (if_Name i \<in> set extra \<or> (\<exists>why. isTunnel N i = Inr (True, why))))"
  by (auto simp: Detect_def named_def Let_def split: sum.splits prod.splits)

lemma Detect_error: "snd (Detect N extra) \<noteq> None \<Longrightarrow> \<not> vs_Active (fst (Detect N extra))"
  by (auto simp: Detect_def Let_def split: sum.splits prod.splits if_splits)

lemma Detect_interface:
  "vs_Active (fst (Detect N extra)) \<Longrightarrow> outboundIP N = Inr a \<Longrightarrow> interfaceForIP N a = Inr i \<Longrightarrow>
     vs_Interface (fst (Detect N extra)) = if_Name i"
  by (auto simp: Detect_def Let_def split: sum.splits prod.splits if_splits)

lemma isTunnel_physical:
  "isTunnel N i = Inr (False, why) \<Longrightarrow>
     \<not> net_exists N (path_join (path_join sysClassNet (if_Name i)) ''tun_flags'') \<and>
     (\<exists>n. intFile N (path_join (path_join sysClassNet (if_Name i)) ''type'') = Inr n \<and>
        n \<notin> {arphrdNone, arphrdPPP, arphrdTunnel, arphrdTunnel6})"
  by (auto simp: isTunnel_def Let_def split: sum.splits if_splits)

end
