(* ===== verification/EngineConfig.thy ===== *)
theory EngineConfig
  imports EngineInv
begin

text \<open>
  No operation of the engine changes its configuration: what the daemon was started with holds for as
  long as it runs.
\<close>

lemma cfg_small [simp]:
  "e_cfg (snapshotAndBroadcastNow L mc e) = e_cfg e" "e_cfg (broadcast ev e) = e_cfg e" "e_cfg (flow_tr k e) = e_cfg e"
  "e_cfg (persist L mc e) = e_cfg e" "e_cfg (snd (SaveSession L mc e)) = e_cfg e" "e_cfg (refreshVPN mc e) = e_cfg e"
  "e_cfg (refreshDisk mc e) = e_cfg e" "e_cfg (snd (receive n e)) = e_cfg e" "e_cfg (unsubscribe n e) = e_cfg e"
  "e_cfg (subscribed L mc e) = e_cfg e"
  by (simp_all add: snapshotAndBroadcastNow_def broadcast_def flow_tr_def refreshVPN_def refreshDisk_def receive_def Let_def
      unsubscribe_def subscribed_def Subscribe_def split: option.split sum.split prod.split)

lemma cfg_checks [simp]:
  "e_cfg (finish_check L mc k ck out n e) = e_cfg e" "e_cfg (stepCheck L mc k c e) = e_cfg e"
  "e_cfg (snd (beginCheck k kind tot e)) = e_cfg e"
  by (auto simp: finish_check_def stepCheck_def beginCheck_def Let_def split: option.split check_kind.split check_outcome.split)

lemma cfg_drain [simp]: "e_cfg (drain L mc k cks e) = e_cfg e"
  by (induction cks arbitrary: e) (simp_all add: runCheck_def case_prod_beta)

lemma cfg_quiesce [simp]: "e_cfg (quiesceCheck L mc k e) = e_cfg e"
  by (simp add: quiesceCheck_def Let_def split: option.split)

lemma cfg_quiesced:
  assumes "\<And>tr e. e_cfg (snd (body tr e)) = e_cfg e"
  shows "e_cfg (snd (quiesced L mc k body e)) = e_cfg e"
  using assms by (simp add: quiesced_def Let_def split: sum.split)

lemma cfg_add [simp]: "e_cfg (snd (addSpec L mc src opts uri e)) = e_cfg e"
proof -
  have o: "e_cfg (snd (own_storage opts e)) = e_cfg e"
    by (simp add: own_storage_def split: prod.split bool.split)
  have n: "e_cfg (enter_torrent mc k t opts uri own e1) = e_cfg e1" for k t own e1
    by (simp add: enter_torrent_def Let_def split: option.split)
  obtain r e1 where "own_storage opts e = (r, e1)" by force
  with o show ?thesis by (simp add: addSpec_def n Let_def split: sum.split)
qed

lemma cfg_adds [simp]:
  "e_cfg (snd (AddMagnet L mc uri opts e)) = e_cfg e" "e_cfg (snd (AddTorrentFile L mc path opts e)) = e_cfg e"
  "e_cfg (metadataArrived L mc w e) = e_cfg e"
  by (simp_all add: AddMagnet_def AddTorrentFile_def metadataArrived_def applyFileSelection_def Let_def
      case_prod_beta split: option.split sum.split)

lemma cfg_torrent [simp]:
  "e_cfg (snd (RemoveTorrent L mc k d e)) = e_cfg e" "e_cfg (snd (SetPaused L mc k b e)) = e_cfg e"
  "e_cfg (snd (SetFilePriority L mc k i p e)) = e_cfg e" "e_cfg (snd (SetLabel L mc k l e)) = e_cfg e"
  "e_cfg (snd (SetSeedLimit L mc k r t e)) = e_cfg e" "e_cfg (SetGlobalUploadLimit n e) = e_cfg e"
  "e_cfg (SetGlobalDownloadLimit n e) = e_cfg e" "e_cfg (snd (SetTorrentRateLimit L mc k u d' e)) = e_cfg e"
  "e_cfg (snd (ForceRecheck L mc k e)) = e_cfg e" "e_cfg (snd (TorrentDetail L mc k e)) = e_cfg e"
  by (simp_all add: RemoveTorrent_def removeNow_def cfg_quiesced SetPaused_def SetFilePriority_def SetLabel_def SetSeedLimit_def
      SetGlobalUploadLimit_def SetGlobalDownloadLimit_def SetTorrentRateLimit_def ForceRecheck_def TorrentDetail_def Let_def
      case_prod_beta split: sum.split option.split)

lemma cfg_stream [simp]: "e_cfg (snd (PrepareStream L mc k i e)) = e_cfg e"
  by (simp add: PrepareStream_def case_prod_beta split: sum.split)

lemma cfg_purge [simp]: "e_cfg (snd (PurgeData L mc k e)) = e_cfg e"
  unfolding PurgeData_def
  by (rule cfg_quiesced) (simp add: purgeNow_def purgeFailed_def purge_drop_def new_storage_def Let_def split: option.split sum.split)

lemma cfg_move [simp]: "e_cfg (snd (MoveStorage L mc k d e)) = e_cfg e"
  unfolding MoveStorage_def
  by (rule cfg_quiesced) (simp add: moveNow_def readd_moved_def moveFailed_def Let_def split: option.split sum.split prod.split bool.split)

lemma cfg_tick [simp]: "e_cfg (tick L mc e) = e_cfg e"
proof -
  have a: "e_cfg (apply_flows ds e) = e_cfg e" for ds e
    by (induction ds arbitrary: e) simp_all
  have s: "e_cfg (stop_seeding L mc ss e) = e_cfg e" for ss e
  proof (induction ss arbitrary: e)
    case (Cons d ss)
    obtain r e1 where p: "SetPaused L mc (sl_id d) True e = (r, e1)" by force
    then have "e_cfg e1 = e_cfg e" using cfg_torrent(2) [of L mc "sl_id d" True e] by simp
    then show ?case by (simp add: p Cons.IH split: sum.split)
  qed simp
  have r: "e_cfg (report_complete ss e) = e_cfg e" for ss e
    by (induction ss arbitrary: e) (simp_all add: Let_def)
  have l: "e_cfg (snd (snd (seedLimitsReachedLocked sns now e))) = e_cfg e" for sns now e
    by (induction sns arbitrary: e) (simp_all add: Let_def case_prod_beta split: option.split)
  have c: "e_cfg (snd (newlyCompleteLocked L e)) = e_cfg e" "e_cfg (tick_rates L mc e) = e_cfg e" for e
    by (simp_all add: newlyCompleteLocked_def tick_rates_def Let_def)
  show ?thesis by (simp add: tick_def Let_def case_prod_beta a s r l c)
qed

lemma cfg_close [simp]: "e_cfg (Close L mc e) = e_cfg e"
proof -
  have "e_cfg (drain_all L mc ks e) = e_cfg e" for ks e
    by (induction ks arbitrary: e) (simp_all split: option.split)
  then show ?thesis by (simp add: Close_def closeNow_def cancel_all_def Let_def)
qed

lemma cfg_restore [simp]: "e_cfg (snd (RestoreSession L mc e)) = e_cfg e"
proof -
  have p: "e_cfg (restore_priorities L mc k fps e) = e_cfg e" for k fps e
  proof (induction fps arbitrary: e)
    case (Cons fp fps)
    have "e_cfg (case SetFilePriority L mc k (fpr_Index fp) prio e of
        (Inl err, e1) \<Rightarrow> logf (PriorityNotRestored k (fpr_Index fp) err) e1 | (Inr _, e1) \<Rightarrow> e1) = e_cfg e" for prio
      using cfg_torrent(3) [of L mc k "fpr_Index fp" prio e] by (simp add: case_prod_beta split: sum.split)
    then show ?case by (simp add: Cons.IH split: option.split)
  qed simp
  have o: "e_cfg (snd (restoreOne L mc rec e)) = e_cfg e" for rec e
    by (auto simp: restoreOne_def p Let_def case_prod_beta split: option.splits sum.splits if_splits)
  have "e_cfg (snd (restore_all L mc recs n e)) = e_cfg e" for recs n e
    by (induction recs arbitrary: n e) (auto simp: o case_prod_beta split: sum.splits)
  then show ?thesis by (auto simp: RestoreSession_def Let_def case_prod_beta split: session_content.splits)
qed

lemma cfg_exec: "e_cfg (exec L mc op e) = e_cfg e"
  by (cases op) simp_all

lemma cfg_run: "e_cfg (run_steps engine_step xs e) = e_cfg e"
  by (induction xs arbitrary: e) (simp_all add: engine_step_def cfg_exec case_prod_beta)

lemma cfg_New: "New bind mc cfg disk files = Inr e \<Longrightarrow> e_cfg e = cfg"
  by (auto simp: New_def split: if_splits sum.splits prod.splits bool.splits)

end
