(* ===== verification/Daemon.thy ===== *)
theory Daemon
  imports ConfigFile Launch WatchDir Stream Logging IpcServer Vpn EngineConfig
begin

text \<open>
  The daemon process, \<^verbatim>\<open>cmd/torrnado/daemon.go\<close>: how it is put together from the configuration, what
  it does while it runs, and how it ends. What it finds on its host is a record; what happens while it
  runs is a sequence of steps, each with what the library, the machine and the network say during it. Its
  goroutines share nothing but the engine and the searcher, whose operations are atomic.
\<close>

subsection \<open>The configuration of the engine\<close>

definition engine_config :: "fileConfig \<Rightarrow> string \<Rightarrow> Config" where
  "engine_config c version =
     \<lparr>cfg_DataDir = c_DownloadDir c, cfg_ListenPortLow = pr_Low (c_Port c), cfg_ListenPortHigh = pr_High (c_Port c),
      cfg_RequireVPN = vpn_Required (c_VPN c), cfg_VPNCheck = True,
      cfg_UploadRateLimit = rl_Upload (c_RateLimit c), cfg_DownloadRateLimit = rl_Download (c_RateLimit c),
      cfg_OnComplete = (trim_space (c_OnComplete c) \<noteq> []), cfg_SeedRatio = sl_Ratio (c_SeedLimit c),
      cfg_SeedTime = sl_Time (c_SeedLimit c), cfg_MinFreeSpace = c_MinFreeSpace c, cfg_StateDir = c_StateDir c,
      cfg_Version = version\<rparr>"

text \<open>What a torrent's completion starts, if anything is configured.\<close>

definition completion_env :: "TorrentSnapshot \<Rightarrow> string list" where
  "completion_env s = [''TORRNADO_ID='' @ snap_ID s, ''TORRNADO_NAME='' @ snap_Name s,
     ''TORRNADO_PATH='' @ snap_DataDir s, ''TORRNADO_SIZE='' @ itoa (snap_TotalLength s)]"

definition completionHook :: "(launched \<Rightarrow> string option) \<Rightarrow> string \<Rightarrow> TorrentSnapshot \<Rightarrow> launched result option" where
  "completionHook starts command s =
     (if trim_space command = [] then None
      else Some (DetachedEnv starts command (snap_DataDir s) (completion_env s)))"

subsection \<open>Starting\<close>

record host =
  h_env :: environ
  h_urls :: url_parser
  h_toml :: toml_decoder
  h_files :: "string \<Rightarrow> file_read"
  h_flag :: string
  h_version :: string
  h_logFault :: "string option"
  h_lib :: lib
  h_machine :: machine
  h_bind :: "int \<Rightarrow> string option"
  h_disk :: statedir
  h_fs :: fs
  h_listen :: "string result"
  h_random :: "string result"
  h_socket :: "string \<Rightarrow> unit result"
  h_mkWatch :: "string \<Rightarrow> string option"
  h_dir :: "string \<Rightarrow> watched_dir"

record running =
  rn_config :: fileConfig
  rn_path :: string
  rn_log :: logger
  rn_libLevel :: int
  rn_daemon :: daemon
  rn_stream :: stream_server
  rn_watch :: "watcher option"
  rn_dir :: watched_dir

text \<open>The watch directory, made if it is not there; \<open>h_mkWatch\<close> is why it cannot be, if so.\<close>

definition start_watch :: "(string \<Rightarrow> string option) \<Rightarrow> fileConfig \<Rightarrow> watcher option result" where
  "start_watch fault c =
     (if c_WatchDir c = [] then Inr None
      else case fault (c_WatchDir c) of
        Some err \<Rightarrow> Inl (''create watch dir '' @ c_WatchDir c @ '': '' @ err)
      | None \<Rightarrow> Inr (Some (newWatcher (c_WatchDir c))))"

text \<open>The parts in the order they start; the first that fails ends the process.\<close>

definition start_parts :: "host \<Rightarrow> fileConfig \<Rightarrow> string \<Rightarrow> logger \<Rightarrow> int \<Rightarrow> engine \<Rightarrow> running result" where
  "start_parts H c path lg libLevel e =
     (case stream_Serve (h_listen H) (h_random H) of
        Inl err \<Rightarrow> Inl (''start stream server: '' @ err)
      | Inr stm \<Rightarrow> (case newSearcher (h_urls H) c of
          Inl err \<Rightarrow> Inl (''configure indexer: '' @ err)
        | Inr srch \<Rightarrow> (case h_socket H (c_DaemonSocket c) of
            Inl err \<Rightarrow> Inl (''start ipc server: '' @ err)
          | Inr _ \<Rightarrow> (case start_watch (h_mkWatch H) c of
              Inl err \<Rightarrow> Inl err
            | Inr w \<Rightarrow> Inr
                \<lparr>rn_config = c, rn_path = path, rn_log = lg, rn_libLevel = libLevel,
                 rn_daemon = \<lparr>d_engine = e, d_searcher = srch, d_previewURL = Some (stream_URL stm)\<rparr>,
                 rn_stream = stm, rn_watch = w, rn_dir = h_dir H (c_WatchDir c)\<rparr>))))"

definition start_daemon :: "host \<Rightarrow> running result" where
  "start_daemon H =
     (case loadConfig (h_env H) (h_urls H) (h_toml H) (h_files H) (h_flag H) of
        Inl err \<Rightarrow> Inl err
      | Inr (c, path) \<Rightarrow> (case logger_New (lg_Level (c_Log c)) (lg_File (c_Log c)) (h_logFault H) of
          Inl err \<Rightarrow> Inl err
        | Inr lg \<Rightarrow> (case ParseLevel (lg_LibraryLevel (c_Log c)) of
            Inl err \<Rightarrow> Inl err
          | Inr libLevel \<Rightarrow>
             (case New (h_bind H) (h_machine H) (engine_config c (h_version H)) (h_disk H) (h_fs H) of
                Inl err \<Rightarrow> Inl (''start engine: '' @ err)
              | Inr e \<Rightarrow> start_parts H c path lg libLevel (snd (RestoreSession (h_lib H) (h_machine H) e))))))"

subsection \<open>Running\<close>

text \<open>What surrounds a step. The VPN verdict is the one of the check the daemon gave its engine.\<close>

record outside =
  o_lib :: lib
  o_machine :: machine
  o_net :: netview
  o_ipText :: "ip \<Rightarrow> string"
  o_search :: "nat \<Rightarrow> surroundings"

definition checked_machine :: "outside \<Rightarrow> fileConfig \<Rightarrow> machine" where
  "checked_machine X c = (o_machine X)\<lparr>m_vpn := vpnChecker (o_ipText X) (o_net X) (vpn_Interfaces (c_VPN c))\<rparr>"

definition default_opts :: AddOpts where
  "default_opts = \<lparr>opt_SavePath = [], opt_Paused = False, opt_Files = []\<rparr>"

text \<open>The call the watcher adds a file with.\<close>

definition watch_add :: "lib \<Rightarrow> machine \<Rightarrow> engine adder" where
  "watch_add L mc path e = (case AddTorrentFile L mc path default_opts e of
     (Inl err, e1) \<Rightarrow> (Some err, e1) | (Inr _, e1) \<Rightarrow> (None, e1))"

datatype dstep = DServe Request | DEngine eop | DScan | DDrop watched_dir

definition set_engine :: "engine \<Rightarrow> running \<Rightarrow> running" where
  "set_engine e r = r\<lparr>rn_daemon := (rn_daemon r)\<lparr>d_engine := e\<rparr>\<rparr>"

definition daemon_step :: "outside \<times> dstep \<Rightarrow> running \<Rightarrow> running" where
  "daemon_step x r = (case x of (X, s) \<Rightarrow>
     let L = o_lib X; mc = checked_machine X (rn_config r) in
     case s of
       DServe req \<Rightarrow> r\<lparr>rn_daemon := snd (dispatch L mc (o_search X) req (rn_daemon r))\<rparr>
     | DEngine op \<Rightarrow> set_engine (exec L mc op (d_engine (rn_daemon r))) r
     | DScan \<Rightarrow> (case rn_watch r of
         None \<Rightarrow> r
       | Some w \<Rightarrow> (let (w1, dir1, e1) = scan (watch_add L mc) (w, rn_dir r, d_engine (rn_daemon r))
           in set_engine e1 (r\<lparr>rn_watch := Some w1, rn_dir := dir1\<rparr>)))
     | DDrop dir \<Rightarrow> r\<lparr>rn_dir := dir\<rparr>)"

subsection \<open>Ending\<close>

datatype daemon_signal = SIGINT | SIGTERM | SIGHUP "string option"
datatype daemon_event = AskedOverSocket | Signalled daemon_signal

text \<open>The wait at the end: a hangup reopens the log, anything else ends it.\<close>

fun daemon_wait :: "daemon_event list \<Rightarrow> logger \<Rightarrow> string option \<times> logger" where
  "daemon_wait [] lg = (None, lg)"
| "daemon_wait (AskedOverSocket # es) lg = (Some ''asked over the socket'', lg)"
| "daemon_wait (Signalled SIGINT # es) lg = (Some ''interrupt'', lg)"
| "daemon_wait (Signalled SIGTERM # es) lg = (Some ''terminated'', lg)"
| "daemon_wait (Signalled (SIGHUP fault) # es) lg = daemon_wait es (snd (Reopen fault lg))"

text \<open>The deferred calls, last in first out: the watcher and the server stop, then the engine, then the log.\<close>

definition stop_daemon :: "outside \<Rightarrow> running \<Rightarrow> running" where
  "stop_daemon X r = (let r1 = r\<lparr>rn_watch := None\<rparr>;
       r2 = set_engine (Close (o_lib X) (checked_machine X (rn_config r)) (d_engine (rn_daemon r1))) r1
     in r2\<lparr>rn_log := logger_Close (rn_log r2)\<rparr>)"

subsection \<open>Lemmas\<close>

lemma watch_add_exec: "snd (watch_add L mc path e) = exec L mc (OAddFile path default_opts) e"
  by (simp add: watch_add_def case_prod_beta split: sum.split)

lemma run_ops_append: "run_ops L mc (as @ bs) e = run_ops L mc bs (run_ops L mc as e)"
  by (simp add: run_ops_def run_steps_append)

text \<open>A scan reaches the engine through additions only.\<close>

lemma take_file_run:
  "\<exists>ops. snd (snd (take_file (watch_add L mc) n (w, d, e))) = run_ops L mc ops e"
proof -
  have "snd (snd (take_file (watch_add L mc) n (w, d, e))) = run_ops L mc [OAddFile (path_join (w_dir w) n) default_opts] e"
    by (simp add: take_file_def Let_def case_prod_beta watch_add_exec split: option.split)
  then show ?thesis by blast
qed

lemma scan_entries_run:
  "\<exists>ops. snd (snd (snd (scan_entries (watch_add L mc) sizes ps seen (w, d, e)))) = run_ops L mc ops e"
proof (induction ps arbitrary: seen w d e)
  case Nil
  show ?case by (rule exI [of _ "[]"]) simp
next
  case (Cons p ps)
  obtain w1 d1 e1 where t: "take_file (watch_add L mc) (fst p) (w, d, e) = (w1, d1, e1)"
    by (cases "take_file (watch_add L mc) (fst p) (w, d, e)") auto
  obtain ops where o: "e1 = run_ops L mc ops e" using take_file_run [of L mc "fst p" w d e] t by auto
  have "\<exists>ops. snd (snd (snd (scan_entries (watch_add L mc) sizes ps s (w1, d1, e1)))) = run_ops L mc ops e" for s
    using Cons.IH [of s w1 d1 e1] by (metis o run_ops_append)
  then show ?case using Cons.IH by (auto simp: t Let_def split: option.split)
qed

lemma scan_run: "\<exists>ops. snd (snd (scan (watch_add L mc) (w, d, e))) = run_ops L mc ops e"
proof (cases "wd_readable d")
  case True
  then show ?thesis using scan_entries_run [of L mc "w_sizes w" "wd_entries d" "[]" w d e]
    by (simp add: scan_def case_prod_beta)
next
  case False
  then show ?thesis by (intro exI [of _ "[]"]) (simp add: scan_def)
qed

text \<open>So every step of the daemon is a run of the engine's operations under what surrounds it.\<close>

lemma daemon_step_run:
  "\<exists>ops. d_engine (rn_daemon (daemon_step (X, s) r)) = run_ops (o_lib X) (checked_machine X (rn_config r)) ops (d_engine (rn_daemon r))"
proof (cases s)
  case (DServe req)
  then show ?thesis by (auto simp: daemon_step_def Let_def dispatch_run)
next
  case (DEngine op)
  then show ?thesis by (intro exI [of _ "[op]"]) (simp add: daemon_step_def set_engine_def)
next
  case DScan
  show ?thesis
  proof (cases "rn_watch r")
    case None
    with DScan show ?thesis by (intro exI [of _ "[]"]) (simp add: daemon_step_def)
  next
    case (Some w)
    with DScan scan_run [of "o_lib X" "checked_machine X (rn_config r)" w "rn_dir r" "d_engine (rn_daemon r)"]
    show ?thesis by (auto simp: daemon_step_def set_engine_def Let_def case_prod_beta)
  qed
next
  case (DDrop d)
  then show ?thesis by (intro exI [of _ "[]"]) (simp add: daemon_step_def)
qed

lemma daemon_step_config [simp]: "rn_config (daemon_step x r) = rn_config r"
  by (simp add: daemon_step_def set_engine_def Let_def case_prod_beta split: dstep.split option.split)

lemma run_ops_steps: "run_ops L mc ops e = run_steps engine_step (map (\<lambda>op. (L, mc, op)) ops) e"
  by (simp add: run_ops_def)

lemma daemon_run:
  "rn_config (run_steps daemon_step xs r) = rn_config r \<and>
   (\<exists>ys. d_engine (rn_daemon (run_steps daemon_step xs r)) = run_steps engine_step ys (d_engine (rn_daemon r)) \<and>
      list_all (\<lambda>(L, _, _). L \<in> o_lib ` fst ` set xs) ys)"
proof (induction xs arbitrary: r)
  case Nil
  show ?case by (auto intro: exI [of _ "[]"])
next
  case (Cons x xs)
  obtain X s where x: "x = (X, s)" by force
  obtain ops where o: "d_engine (rn_daemon (daemon_step (X, s) r)) =
      run_steps engine_step (map (\<lambda>op. (o_lib X, checked_machine X (rn_config r), op)) ops) (d_engine (rn_daemon r))"
    using daemon_step_run [of X s r] by (auto simp: run_ops_steps)
  obtain ys where ys: "d_engine (rn_daemon (run_steps daemon_step xs (daemon_step x r))) =
      run_steps engine_step ys (d_engine (rn_daemon (daemon_step x r)))" "list_all (\<lambda>(L, _, _). L \<in> o_lib ` fst ` set xs) ys"
    using Cons.IH by blast
  let ?zs = "map (\<lambda>op. (o_lib X, checked_machine X (rn_config r), op)) ops @ ys"
  have "d_engine (rn_daemon (run_steps daemon_step (x # xs) r)) = run_steps engine_step ?zs (d_engine (rn_daemon r))"
    using o ys(1) by (simp add: x run_steps_append)
  moreover have "list_all (\<lambda>(L, _, _). L \<in> o_lib ` fst ` set (x # xs)) ?zs"
    using ys(2) by (force simp: list_all_iff x)
  moreover have "rn_config (run_steps daemon_step (x # xs) r) = rn_config r" using Cons.IH by simp
  ultimately show ?case by blast
qed

end
