(* ===== verification/ConfigProps.thy ===== *)
theory ConfigProps
  imports ConfigFile
begin

text \<open>
  The properties of the configuration: what a file that loads is known to be, and that everything built
  from it can be built.
\<close>

subsection \<open>Validation, declared\<close>

lemma first_error_ok: "first_error cs = Inr () \<longleftrightarrow> list_all (\<lambda>(bad, _). \<not> bad) cs"
  by (induction cs rule: first_error.induct) auto

lemma must_not_simps [simp]:
  "fst (must_not_be_empty k v) \<longleftrightarrow> v = []" "fst (must_not_be_negative k b) \<longleftrightarrow> b" "fst (level_check k v) \<longleftrightarrow> \<not> validLogLevel v"
  by (simp_all add: must_not_be_empty_def must_not_be_negative_def level_check_def)

definition port_ok :: "PortRange \<Rightarrow> bool" where
  "port_ok p \<longleftrightarrow> (pr_Low p = 0 \<and> pr_High p = 0) \<or> (1 \<le> pr_Low p \<and> pr_Low p \<le> pr_High p \<and> pr_High p \<le> 65535)"

definition aggregator_ok :: "url_parser \<Rightarrow> Aggregator \<Rightarrow> bool" where
  "aggregator_ok U a \<longleftrightarrow> (ag_URL a = [] \<and> ag_APIKey a = []) \<or> (ag_URL a \<noteq> [] \<and> http_url U (ag_URL a) \<and> ag_APIKey a \<noteq> [])"

definition site_ok :: "RutrackerTable \<Rightarrow> FlareSolverrTable \<Rightarrow> bool" where
  "site_ok r f \<longleftrightarrow> (ru_Session r = [] \<and> ru_Username r = [] \<and> ru_Password r = []) \<or>
     ((ru_Session r \<noteq> [] \<or> ru_Username r \<noteq> [] \<and> ru_Password r \<noteq> []) \<and> fs_URL f \<noteq> [])"

definition config_ok :: "url_parser \<Rightarrow> fileConfig \<Rightarrow> bool" where
  "config_ok U c \<longleftrightarrow>
     c_DownloadDir c \<noteq> [] \<and> c_DaemonSocket c \<noteq> [] \<and> c_Theme c \<noteq> [] \<and>
     trim_space (c_Player c) \<noteq> [] \<and> trim_space (c_Opener c) \<noteq> [] \<and> c_StateDir c \<noteq> [] \<and>
     List.member LogLevels (lg_Level (c_Log c)) \<and> List.member LogLevels (lg_LibraryLevel (c_Log c)) \<and>
     \<not> f64_lt (sl_Ratio (c_SeedLimit c)) (Fin 0) \<and> 0 \<le> sl_Time (c_SeedLimit c) \<and> 0 \<le> c_MinFreeSpace c \<and>
     0 \<le> rl_Upload (c_RateLimit c) \<and> 0 \<le> rl_Download (c_RateLimit c) \<and> port_ok (c_Port c) \<and>
     list_all (\<lambda>n. trim_space n \<noteq> []) (vpn_Interfaces (c_VPN c)) \<and>
     aggregator_ok U (sr_Jackett (c_Search c)) \<and> aggregator_ok U (sr_Prowlarr (c_Search c)) \<and>
     site_ok (sr_Rutracker (c_Search c)) (c_FlareSolverr c) \<and>
     (fs_URL (c_FlareSolverr c) = [] \<or> http_url U (fs_URL (c_FlareSolverr c))) \<and> 0 \<le> fs_MaxTimeout (c_FlareSolverr c) \<and>
     list_all (\<lambda>(action, key). List.member KnownActions action \<and> key \<noteq> []) (c_Keybinds c)"

abbreviation none_bad :: "(bool \<times> string) list \<Rightarrow> bool" where
  "none_bad cs \<equiv> list_all (\<lambda>(bad, _). \<not> bad) cs"

lemma validLogLevel_iff: "validLogLevel v \<longleftrightarrow> List.member LogLevels v"
  by (auto simp: validLogLevel_def list_ex_iff)

lemma port_checks_ok: "none_bad (port_checks p) \<longleftrightarrow> port_ok p"
  by (auto simp: port_checks_def port_ok_def Let_def)

lemma interface_checks_ok: "none_bad (interface_checks ns) \<longleftrightarrow> list_all (\<lambda>n. trim_space n \<noteq> []) ns"
proof -
  have "none_bad (map (\<lambda>(i, name). (trim_space name = [], f i)) (enumerate k ns)) \<longleftrightarrow> list_all (\<lambda>n. trim_space n \<noteq> []) ns"
    for f :: "nat \<Rightarrow> string" and k
    by (induction ns arbitrary: k) auto
  then show ?thesis by (simp add: interface_checks_def)
qed

lemma aggregator_checks_ok: "none_bad (aggregator_checks U k a) \<longleftrightarrow> aggregator_ok U a"
  by (auto simp: aggregator_checks_def aggregator_ok_def Aggregator_Enabled_def)

lemma rutracker_checks_ok: "none_bad (rutracker_checks r f) \<longleftrightarrow> site_ok r f"
  by (auto simp: rutracker_checks_def site_ok_def Rutracker_Enabled_def FlareSolverr_Enabled_def)

lemma flaresolverr_checks_ok: "none_bad (flaresolverr_checks U f) \<longleftrightarrow> (fs_URL f = [] \<or> http_url U (fs_URL f)) \<and> 0 \<le> fs_MaxTimeout f"
  by (auto simp: flaresolverr_checks_def FlareSolverr_Enabled_def must_not_be_negative_def)

lemma keybind_checks_ok: "none_bad (keybind_checks binds) \<longleftrightarrow> list_all (\<lambda>(action, key). List.member KnownActions action \<and> key \<noteq> []) binds"
  by (induction binds) (auto simp: keybind_checks_def must_not_be_empty_def)

lemmas checks_ok = port_checks_ok interface_checks_ok aggregator_checks_ok rutracker_checks_ok flaresolverr_checks_ok keybind_checks_ok

lemma Validate_iff: "Validate U c = Inr () \<longleftrightarrow> config_ok U c"
proof -
  have "Validate U c = Inr () \<longleftrightarrow> none_bad (checks_of U c)" by (simp add: Validate_def first_error_ok)
  also have "\<dots> \<longleftrightarrow> config_ok U c"
    by (simp add: checks_of_def checks_ok validLogLevel_iff config_ok_def not_less
        must_not_be_empty_def must_not_be_negative_def level_check_def)
  finally show ?thesis .
qed

subsection \<open>Loading\<close>

lemma path_clean_not_Nil: "path_clean p \<noteq> []"
  by (simp add: path_clean_def Let_def)

lemma path_join_not_Nil: "b \<noteq> [] \<Longrightarrow> path_join a b \<noteq> []"
  by (simp add: path_join_def path_clean_not_Nil)

lemma trim_space_default: "trim_space ''mpv'' = ''mpv''" "trim_space ''open'' = ''open''" "trim_space ''xdg-open'' = ''xdg-open''"
  by (simp_all add: trim_space_ascii is_space_def)

lemma Default_ok: "Default V = Inr c \<Longrightarrow> config_ok U c"
  by (auto simp: Default_def default_with_def DefaultDownloadDir_def DefaultSocketPath_def DefaultDataDir_def in_dir_def
      config_ok_def path_join_not_Nil trim_space_default defaultOpener_def port_ok_def aggregator_ok_def no_aggregator_def
      site_ok_def LogLevels_def map_sum_Inr_iff split: sum.splits if_splits)

lemma Load_cases:
  assumes "Load V U T files path = Inr c"
  shows "(files path = NoFile \<and> Default V = Inr c) \<or>
    (\<exists>data c0 c1. files path = Contents data \<and> Default V = Inr c0 \<and> T data c0 = Inr (c1, []) \<and>
      expandPaths V c1 = Inr c \<and> Validate U c = Inr ())"
  using assms by (auto simp: Load_def split: sum.splits file_read.splits prod.splits if_splits)

lemma a_valid_load:
  assumes "Load V U T files path = Inr c"
  shows "config_ok U c"
  using Load_cases [OF assms]
proof (elim disjE exE conjE)
  assume "Default V = Inr c"
  then show ?thesis by (rule Default_ok)
next
  assume "Validate U c = Inr ()"
  then show ?thesis by (rule iffD1 [OF Validate_iff])
qed

text \<open>A configuration that loads is a good one, whether it came from a file or there was none: no path the program
  needs is empty, the levels are levels, no limit is negative, the ports are unset or a range within 1 to 65535, every
  source that is configured has all it needs, and keys are bound to actions that exist. Not-a-number as the seed ratio is
  not excluded.\<close>

theorem a_loaded_configuration_is_valid:
  assumes "Load V U T files path = Inr c"
  shows "config_ok U c"
  by (rule a_valid_load [OF assms])

subsection \<open>Searching\<close>

text \<open>What \<^verbatim>\<open>url.Parse\<close> is relied on for: a URL stays one without the spaces and slashes around it.\<close>

definition trims_urls :: "url_parser \<Rightarrow> bool" where
  "trims_urls U \<longleftrightarrow> \<not> http_url U [] \<and>
     (\<forall>u. http_url U u \<longrightarrow> http_url U (trim_right_char (CHR ''/'') (trim_space u)))"

lemma backend_of_names: "backend_of ''jackett'' = Some Jackett" "backend_of ''prowlarr'' = Some Prowlarr"
  "backend_name Jackett = ''jackett''" "backend_name Prowlarr = ''prowlarr''"
proof -
  have "trim_space ''jackett'' = ''jackett''" "trim_space ''prowlarr'' = ''prowlarr''"
    by (simp_all add: trim_space_ascii is_space_def)
  moreover have "to_lower ''jackett'' = ''jackett''" "to_lower ''prowlarr'' = ''prowlarr''" by code_simp+
  ultimately show "backend_of ''jackett'' = Some Jackett" "backend_of ''prowlarr'' = Some Prowlarr" by (simp_all add: backend_of_def)
  show "backend_name Jackett = ''jackett''" "backend_name Prowlarr = ''prowlarr''" by code_simp+
qed

lemma add_aggregators_total:
  assumes "list_all (\<lambda>(name, _). name = ''jackett'' \<or> name = ''prowlarr'') as"
  shows "\<exists>ss. add_aggregators as = Inr ss \<and> concat (map Sources ss) = map fst (filter (\<lambda>(_, a). Aggregator_Enabled a) as)"
  using assms
proof (induction as)
  case (Cons p as)
  obtain name a where p: "p = (name, a)" by force
  obtain ss where ss: "add_aggregators as = Inr ss" "concat (map Sources ss) = map fst (filter (\<lambda>(_, a). Aggregator_Enabled a) as)"
    using Cons by auto
  have "\<exists>c. Client_New \<lparr>op_Backend = name, op_URL = u, op_APIKey = k, op_Timeout = 0, op_Attempts = 0, op_CacheTTL = 0\<rparr> = Inr c \<and>
     Client_Sources c = [name]" for u k
    using Cons.prems p backend_of_names by (auto simp: Client_New_def Client_Sources_def)
  then obtain c where "Client_New \<lparr>op_Backend = name, op_URL = ag_URL a, op_APIKey = ag_APIKey a, op_Timeout = 0,
      op_Attempts = 0, op_CacheTTL = 0\<rparr> = Inr c" "Client_Sources c = [name]" by blast
  then show ?case using ss p by auto
qed simp

lemma newSearcher_sources:
  assumes "Load V U T files path = Inr c" and "trims_urls U"
  shows "\<exists>s. newSearcher U c = Inr s \<and> searcher_Sources s = Search_Enabled (c_Search c)"
proof -
  have ok: "config_ok U c" by (rule a_valid_load [OF assms(1)])
  let ?as = "[(''jackett'', sr_Jackett (c_Search c)), (''prowlarr'', sr_Prowlarr (c_Search c))]"
  obtain ss where ss: "add_aggregators ?as = Inr ss" "concat (map Sources ss) = map fst (filter (\<lambda>(_, a). Aggregator_Enabled a) ?as)"
    using add_aggregators_total [of ?as] by auto
  let ?r = "sr_Rutracker (c_Search c)"
  have "\<exists>ss'. add_site U c ss = Inr ss' \<and> concat (map Sources ss') = concat (map Sources ss) @ (if Rutracker_Enabled ?r then [''rutracker''] else [])"
  proof (cases "Rutracker_Enabled ?r")
    case True
    then have site: "ru_Session ?r \<noteq> [] \<or> ru_Username ?r \<noteq> [] \<and> ru_Password ?r \<noteq> []" and "fs_URL (c_FlareSolverr c) \<noteq> []"
      using ok by (auto simp: config_ok_def site_ok_def Rutracker_Enabled_def)
    then have "http_url U (fs_URL (c_FlareSolverr c))" using ok by (simp add: config_ok_def)
    then have u: "http_url U (trim_right_char (CHR ''/'') (trim_space (fs_URL (c_FlareSolverr c))))"
      "trim_right_char (CHR ''/'') (trim_space (fs_URL (c_FlareSolverr c))) \<noteq> []"
      using assms(2) by (auto simp: trims_urls_def)
    then obtain f where "Flare_New U (fs_URL (c_FlareSolverr c)) (fs_MaxTimeout (c_FlareSolverr c)) 0 = Inr f"
      by (simp add: Flare_New_def)
    moreover obtain s where "NewRutracker True \<lparr>ro_Session = ru_Session ?r, ro_Username = ru_Username ?r,
        ro_Password = ru_Password ?r, ro_CacheTTL = 0\<rparr> = Inr s"
      using site by (auto simp: NewRutracker_def)
    ultimately show ?thesis using True by (auto simp: add_site_def Let_def Rutracker_Sources_def RutrackerName_def)
  qed (simp add: add_site_def Let_def)
  then obtain ss' where "add_site U c ss = Inr ss'"
    "concat (map Sources ss') = concat (map Sources ss) @ (if Rutracker_Enabled ?r then [''rutracker''] else [])" by blast
  moreover have "searcher_Sources (NewMulti ss') = concat (map Sources ss')"
    by (auto simp: NewMulti_def split: list.splits)
  ultimately show ?thesis using ss by (simp add: newSearcher_def Search_Enabled_def)
qed

text \<open>Whoever's configuration loads can search: the daemon's searcher is built without an error, and it asks
  exactly the sources the file turns on, in the order the program lists them.\<close>

theorem a_loaded_configuration_gives_its_searcher:
  assumes "Load V U T files path = Inr c" and "trims_urls U"
  shows "\<exists>s. newSearcher U c = Inr s \<and> searcher_Sources s = Search_Enabled (c_Search c)"
  by (rule newSearcher_sources [OF assms])

subsection \<open>Witnesses\<close>

text \<open>A file with an aggregator and a site to search.\<close>

definition demo_env :: environ where
  "demo_env = \<lparr>ev_ConfigHome = ''/c'', ev_DataHome = ''/x'', ev_Home = ''/h'', ev_Darwin = False\<rparr>"

definition demo_urls :: url_parser where
  "demo_urls u = (if u = ''http://j'' \<or> u = ''http://f'' then Some (''http'', ''h'') else None)"

definition demo_search :: "fileConfig \<Rightarrow> fileConfig" where
  "demo_search c = c\<lparr>c_Search := \<lparr>sr_Jackett = \<lparr>ag_URL = ''http://j'', ag_APIKey = ''k''\<rparr>, sr_Prowlarr = no_aggregator,
     sr_Rutracker = \<lparr>ru_Username = ''u'', ru_Password = ''p'', ru_Session = []\<rparr>\<rparr>,
     c_FlareSolverr := \<lparr>fs_URL = ''http://f'', fs_MaxTimeout = 0\<rparr>, c_WatchDir := ''~/w'',
     c_VPN := \<lparr>vpn_Required = True, vpn_Interfaces = [''wg0'']\<rparr>\<rparr>"

definition demo_decoder :: toml_decoder where
  "demo_decoder data c = (if data = ''search'' then Inr (demo_search c, []) else Inl ''not TOML'')"

definition demo_files :: "string \<Rightarrow> file_read" where
  "demo_files path = (if path = ''/c/torrnado/config.toml'' then Contents ''search'' else NoFile)"

definition demo_fileConfig :: fileConfig where
  "demo_fileConfig = (demo_search (default_with demo_env ''/h/Downloads/torrnado'' ''/x/torrnado/daemon.sock'' ''/x/torrnado''))
     \<lparr>c_WatchDir := ''/h/w''\<rparr>"

lemma demo_joins: "path_join ''/h'' ''Downloads/torrnado'' = ''/h/Downloads/torrnado''" "path_join ''/h'' ''w'' = ''/h/w''"
  "path_join ''/x'' ''torrnado/daemon.sock'' = ''/x/torrnado/daemon.sock''" "path_join ''/x'' ''torrnado'' = ''/x/torrnado''"
  by code_simp+

lemma trim_space_wg0: "trim_space ''wg0'' = ''wg0''"
  by (simp add: trim_space_ascii is_space_def)

lemma demo_config_ok: "config_ok demo_urls demo_fileConfig"
  by (simp add: trim_space_wg0 config_ok_def demo_fileConfig_def demo_search_def default_with_def trim_space_default defaultOpener_def demo_env_def
      port_ok_def aggregator_ok_def no_aggregator_def site_ok_def LogLevels_def http_url_def demo_urls_def)

lemma demo_Load: "Load demo_env demo_urls demo_decoder demo_files ''/c/torrnado/config.toml'' = Inr demo_fileConfig"
proof -
  have d: "Default demo_env = Inr (default_with demo_env ''/h/Downloads/torrnado'' ''/x/torrnado/daemon.sock'' ''/x/torrnado'')"
    by (simp add: Default_def DefaultDownloadDir_def DefaultSocketPath_def DefaultDataDir_def in_dir_def xdgDataHome_def
        UserHomeDir_def demo_joins demo_env_def)
  have "expandPaths demo_env (demo_search (default_with demo_env ''/h/Downloads/torrnado'' ''/x/torrnado/daemon.sock'' ''/x/torrnado'')) =
     Inr demo_fileConfig"
    by (simp add: expandPaths_def named_paths_def ExpandHome_def demo_search_def default_with_def UserHomeDir_def demo_joins
        demo_fileConfig_def demo_env_def has_prefix_def)
  then show ?thesis using demo_config_ok
    by (simp add: Load_def d demo_files_def demo_decoder_def Validate_iff [THEN iffD2])
qed

lemma a_loaded_configuration_is_valid_witness: "config_ok demo_urls demo_fileConfig"
  by (rule a_loaded_configuration_is_valid [OF demo_Load])

lemma demo_trims: "trims_urls demo_urls"
proof -
  have "trim_right_char (CHR ''/'') (trim_space u) = u" if "u = ''http://j'' \<or> u = ''http://f''" for u
    using that by (auto simp: trim_space_ascii is_space_def trim_right_char_def)
  then show ?thesis by (auto simp: trims_urls_def http_url_def demo_urls_def)
qed

lemma a_loaded_configuration_gives_its_searcher_witness:
  "\<exists>s. newSearcher demo_urls demo_fileConfig = Inr s \<and> searcher_Sources s = [''jackett'', ''rutracker'']"
  using a_loaded_configuration_gives_its_searcher [OF demo_Load demo_trims]
  by (simp add: Search_Enabled_def demo_fileConfig_def demo_search_def Aggregator_Enabled_def Rutracker_Enabled_def no_aggregator_def)

text \<open>A ratio that is not a number passes.\<close>

lemma nan_passes_validation:
  "config_ok U c \<Longrightarrow> Validate U (c\<lparr>c_SeedLimit := (c_SeedLimit c)\<lparr>sl_Ratio := NaN\<rparr>\<rparr>) = Inr ()"
  by (simp add: Validate_iff config_ok_def)

end
