(* ===== verification/EngineProps.thy ===== *)
theory EngineProps
  imports Demo
begin

text \<open>
  The properties of the engine package as a whole: the guards, the storages, the verification of
  pieces. Each is stated over the model's own operations; what it assumes of the torrent library is
  a named predicate of \<open>Library\<close> or \<open>EngineSwitches\<close>.
\<close>

subsection \<open>The guards\<close>

lemma switched_off_after_a_tick:
  assumes "New bind mc0 cfg disk files = Inr e0"
    and "list_all (\<lambda>(L, _, _). lib_ok ih L) xs"
  shows "let e = tick L mc (run_steps engine_step xs e0) in
    list_all (\<lambda>(_, tr). \<not> held e tr \<or> off (e_cmds e) (tr_t tr)) (e_torrents e)"
proof -
  have s: "safe ih (run_steps engine_step xs e0)" by (rule safe_run [OF safe_New [OF assms(1)] assms(2)])
  then have d: "distinct_keys (e_torrents (run_steps engine_step xs e0))"
    by (simp add: safe_def checks.inv_on_def)
  then have "all_off ih (tick L mc (run_steps engine_step xs e0))"
    using s by (intro tick_all_off) (simp_all add: safe_def)
  moreover have "distinct_keys (e_torrents (tick L mc (run_steps engine_step xs e0)))"
    using d tick_same by (simp add: distinct_keys_def)
  ultimately show ?thesis
    by (auto simp: Let_def list_all_iff all_off_def switches_ok_def map_of_mem)
qed

text \<open>C1. The guards hold. Start an engine, let callers, goroutines and ticks do whatever they like,
  and let one more tick pass: every torrent that is paused, or held by an operation, or that the VPN
  guard or the free-space guard holds, has both of its data switches off in the torrent library.\<close>

theorem held_torrents_are_off_after_a_tick:
  assumes "New bind mc0 cfg disk files = Inr e0"
    and "list_all (\<lambda>(L, _, _). lib_ok ih L) xs"
  shows "let e = tick L mc (run_steps engine_step xs e0) in
    list_all (\<lambda>(_, tr). \<not> held e tr \<or> off (e_cmds e) (tr_t tr)) (e_torrents e)"
  by (rule switched_off_after_a_tick [OF assms])

theorem held_torrents_are_off_witness:
  "let e = tick demo_lib (demo_machine False) (demo_added False False) in
     e_blocked e \<and> map fst (e_torrents e) = [''a1''] \<and>
     list_all (\<lambda>(_, tr). off (e_cmds e) (tr_t tr)) (e_torrents e)"
proof -
  let ?add = "(demo_lib, demo_machine False, OAddMagnet ''magnet:a1'' (demo_opts False))"
  let ?e = "tick demo_lib (demo_machine False) (demo_added False False)"
  have "demo_added False False = run_steps engine_step [?add] (demo_engine False)"
    by (simp add: demo_added_def engine_step_def)
  moreover have "list_all (\<lambda>(L, _, _). lib_ok (\<lambda>_. ''a1'') L) [?add]"
    using demo_lib_ok by simp
  ultimately have "list_all (\<lambda>(_, tr). \<not> held ?e tr \<or> off (e_cmds ?e) (tr_t tr)) (e_torrents ?e)"
    using held_torrents_are_off_after_a_tick [OF demo_started, of "\<lambda>_. ''a1''" "[?add]" demo_lib "demo_machine False" False]
    by (simp add: Let_def)
  moreover have "e_blocked (refreshVPN (demo_machine False) (demo_added False False))"
    "map fst (e_torrents (demo_added False False)) = [''a1'']"
    by (simp_all add: refreshVPN_def demo_cfg demo_torrents demo_config_def demo_machine_def Let_def)
  ultimately show ?thesis by (simp add: Let_def tick_same held_def)
qed



text \<open>The gap in the property before is real. When \<^verbatim>\<open>MoveStorage\<close> succeeds and the library hands back a new instance,
  the torrent is held, and data may flow into it all the same: nothing applied the hold to the
  instance that replaced the one it was applied to.\<close>

theorem move_leaves_the_new_instance_on:
  assumes "fst (MoveStorage L mc k dir e) = Inr ()"
    and "map_of (e_torrents e) k = Some tr0"
    and "map_of (e_torrents (snd (MoveStorage L mc k dir e))) k = Some tr"
    and "tr_t tr \<noteq> tr_t tr0" and "down_allowed (e_cmds e) (tr_t tr)"
  shows "tr_holdData tr \<and> just_moved tr \<and> down_allowed (e_cmds (snd (MoveStorage L mc k dir e))) (tr_t tr)"
proof -
  let ?e = "quiesceCheck L mc k e"
  obtain tr1 where tr1: "map_of (e_torrents ?e) k = Some tr1" "MoveStorage L mc k dir e = moveNow L mc k dir tr1 ?e"
    using assms(1,2) by (auto simp: MoveStorage_def quiesced_def Let_def split: sum.splits)
  have t1: "tr_t tr1 = tr_t tr0" using checks_quiesce [OF tr1(1)] assms(2) by auto
  have "down_allowed (e_cmds ?e) (tr_t tr)" using down_quiesce assms(2,4,5) by simp
  then show ?thesis
    using assms(1,3,4) tr1 t1
    by (auto simp: moveNow_def readd_moved_def moveFailed_def Let_def beginCheck_def foldCounters_def flow_tr_down
        split: if_splits prod.splits bool.splits sum.splits option.splits)
qed

theorem move_leaves_the_new_instance_on_witness:
  "let e' = snd (MoveStorage demo_lib (demo_machine True) ''a1'' ''/m'' (demo_added True True))
   in \<exists>tr. map_of (e_torrents e') ''a1'' = Some tr \<and> tr_paused tr \<and> tr_holdData tr \<and>
        down_allowed (e_cmds e') (tr_t tr)"
proof -
  let ?r = "MoveStorage demo_lib (demo_machine True) ''a1'' ''/m'' (demo_added True True)"
  obtain tr where tr: "fst ?r = Inr ()" "map_of (e_torrents (snd ?r)) ''a1'' = Some tr" "tr_t tr = 1" "tr_paused tr"
    using demo_moved by (auto simp: Let_def)
  have "map_of (e_torrents (demo_added True True)) ''a1'' = Some (new_tracked 0 1000 ''magnet:a1'' True ''/d'' None)"
    by (simp add: demo_torrents)
  from move_leaves_the_new_instance_on [OF tr(1) this tr(2)] tr show ?thesis
    by (auto simp: Let_def new_tracked_def demo_cmds)
qed

subsection \<open>Storages\<close>




subsection \<open>Verification\<close>

text \<open>C11. What is true of every torrent at all times: the ids of its running verifications are distinct,
  it is shown as checking exactly while it holds a cancel function, that function cancels a
  verification that runs, its rates are not negative and its rate limits are not either.\<close>

theorem every_torrent_is_well_formed:
  assumes "reachable e" and "map_of (e_torrents e) k = Some tr"
  shows "distinct (map ck_id (tr_checks tr)) \<and> (tr_checking tr \<longleftrightarrow> tr_cancelCheck tr \<noteq> None) \<and>
    set_option (tr_cancelCheck tr) \<subseteq> set (map ck_id (tr_checks tr)) \<and>
    f64_nonneg (tr_lastDownBPS tr) \<and> f64_nonneg (tr_lastUpBPS tr) \<and>
    0 \<le> tr_upLimit tr \<and> 0 \<le> tr_downLimit tr"
  using reachable_tracked [OF assms] by (simp add: check_ok_def rates_ok_def limits_ok_def)

theorem every_torrent_is_well_formed_witness:
  "\<exists>tr. map_of (e_torrents (snd (ForceRecheck demo_lib (demo_machine True) ''a1'' (demo_added True False)))) ''a1'' = Some tr \<and>
     length (tr_checks tr) = 1 \<and> tr_checking tr \<and> set_option (tr_cancelCheck tr) \<subseteq> set (map ck_id (tr_checks tr))"
proof -
  let ?e = "snd (ForceRecheck demo_lib (demo_machine True) ''a1'' (demo_added True False))"
  have r: "reachable ?e"
    by (rule demo_reachable [where xs = "[(demo_lib, demo_machine True, OAddMagnet ''magnet:a1'' (demo_opts False)),
      (demo_lib, demo_machine True, ORecheck ''a1'')]"])
       (simp add: demo_added_def engine_step_def)
  obtain tr where tr: "map_of (e_torrents ?e) ''a1'' = Some tr" "length (tr_checks tr) = 1" "tr_checking tr"
    by (simp add: ForceRecheck_def lookup_def demo_torrents demo_view_of demo_view_def Let_def beginCheck_def
        beginCheck_tr_def cancelCheckLocked_def new_tracked_def)
  then show ?thesis using every_torrent_is_well_formed [OF r tr(1)] by auto
qed

end
