(* ===== verification/VpnProps.thy ===== *)
theory VpnProps
  imports EngineProps Vpn
begin

text \<open>
  The VPN guard from end to end: what \<^verbatim>\<open>internal/vpn\<close> concludes from the machine, and what the engine
  does with the conclusion.
\<close>

text \<open>The verdict fails closed. The guard is told the machine is on a VPN exactly when a local
  address for the internet was found, an interface that holds it was found, and that interface is
  one the user named or one the kernel says is a tunnel; whatever could not be read counts against.\<close>

theorem guard_is_open_exactly_on_a_tunnel:
  "vpn_Active (vpnChecker pr N extra) \<longleftrightarrow>
     (\<exists>a i. outboundIP N = Inr a \<and> interfaceForIP N a = Inr i \<and>
       (if_Name i \<in> set extra \<or> (\<exists>why. isTunnel N i = Inr (True, why))))"
  by (simp add: vpnChecker_def Let_def Detect_active)

definition on_tunnel :: "netview \<Rightarrow> string list \<Rightarrow> bool" where
  "on_tunnel N extra = (case outboundIP N of
     Inl _ \<Rightarrow> False
   | Inr a \<Rightarrow> (case interfaceForIP N a of
       Inl _ \<Rightarrow> False
     | Inr i \<Rightarrow> named (if_Name i) extra \<or> (case isTunnel N i of Inl _ \<Rightarrow> False | Inr (tunnel, _) \<Rightarrow> tunnel)))"

lemma on_tunnel_Detect: "on_tunnel N extra \<longleftrightarrow> vs_Active (fst (Detect N extra))"
  by (auto simp: on_tunnel_def Detect_def Let_def split: sum.splits prod.splits)

lemma blocked_tick:
  assumes "New bind mc0 cfg disk files = Inr e0"
    and "list_all (\<lambda>(L, _, _). lib_ok ih L) xs"
    and "cfg_RequireVPN (e_cfg (run_steps engine_step xs e0))"
    and "m_vpn mc = vpnChecker pr N extra" and "\<not> on_tunnel N extra"
  shows "let e = tick L mc (run_steps engine_step xs e0) in
    e_blocked e \<and> list_all (\<lambda>(_, tr). off (e_cmds e) (tr_t tr)) (e_torrents e)"
proof -
  let ?e = "tick L mc (run_steps engine_step xs e0)"
  have "\<not> vpn_Active (m_vpn mc)"
    using assms(4,5) by (simp add: vpnChecker_def Let_def on_tunnel_Detect)
  then have "e_blocked ?e"
    using assms(3) by (auto simp: tick_same refreshVPN_def Let_def)
  then show ?thesis
    using switched_off_after_a_tick [OF assms(1,2), of L mc] by (simp add: held_def Let_def)
qed

text \<open>C13. No tunnel, no transfer. When the configuration requires a VPN and the machine's routes do
  not lead through one, or that could not be established, then after the next tick every torrent the
  engine has is switched off in both directions, paused or not.\<close>

theorem without_a_tunnel_nothing_transfers:
  assumes "New bind mc0 cfg disk files = Inr e0"
    and "list_all (\<lambda>(L, _, _). lib_ok ih L) xs"
    and "cfg_RequireVPN (e_cfg (run_steps engine_step xs e0))"
    and "m_vpn mc = vpnChecker pr N extra" and "\<not> on_tunnel N extra"
  shows "let e = tick L mc (run_steps engine_step xs e0) in
    e_blocked e \<and> list_all (\<lambda>(_, tr). off (e_cmds e) (tr_t tr)) (e_torrents e)"
  by (rule blocked_tick [OF assms])

text \<open>A machine whose only route to the internet is its Ethernet card.\<close>

definition demo_net :: netview where
  "demo_net = \<lparr>net_dial = (\<lambda>_ _. Inr (UDPAddr [192, 168, 1, 2])),
     net_interfaces = Inr [\<lparr>if_Name = ''eth0'', if_Addrs = Inr [IPNet [192, 168, 1, 2]]\<rparr>],
     net_readFile = (\<lambda>_. Inr ''1''),
     net_exists = (\<lambda>_. False)\<rparr>"

lemma demo_net_reads: "intFile demo_net p = Inr 1" "ueventValue demo_net p ''DEVTYPE'' = Inr []"
proof -
  have "trim_space ''1'' = ''1''" by (rule trim_space_ascii) (simp_all add: is_space_def)
  moreover have "atoi ''1'' = Some 1"
    by (simp add: atoi_def is_digit_def digits_val_def in_int64_def min_int64_def max_int64_def)
  ultimately have a: "trim_space ''1'' = ''1''" "atoi ''1'' = Some 1" by simp_all
  show "intFile demo_net p = Inr 1" by (simp add: intFile_def demo_net_def a)
  have s: "scan_value ''DEVTYPE='' (str_split (CHR 0x0A) ''1'') = Inr []"
    by (simp add: drop_cr_def has_prefix_def)
  show "ueventValue demo_net p ''DEVTYPE'' = Inr []" using s by (simp add: ueventValue_def demo_net_def del: scan_value.simps str_split.simps)
qed

lemma demo_net_direct: "\<not> on_tunnel demo_net [''wg0'']"
proof -
  have u: "\<not> ip_IsUnspecified [192, 168, 1, 2]" by code_simp
  have "outboundIP demo_net = Inr [192, 168, 1, 2]"
    by (simp add: outboundIP_def probeAddrs_def demo_net_def u [simplified])
  moreover have "interfaceForIP demo_net [192, 168, 1, 2] = Inr \<lparr>if_Name = ''eth0'', if_Addrs = Inr [IPNet [192, 168, 1, 2]]\<rparr>"
    by (simp add: interfaceForIP_def demo_net_def holds_ip_def)
  moreover have "isTunnel demo_net \<lparr>if_Name = ''eth0'', if_Addrs = x\<rparr> = Inr (False, ''which is a physical device'')" for x
    by (simp add: isTunnel_def Let_def demo_net_reads tunnelDevTypes_def
        arphrdNone_def arphrdPPP_def arphrdTunnel_def arphrdTunnel6_def demo_net_def [THEN arg_cong, of net_exists])
  ultimately show ?thesis by (simp add: on_tunnel_def named_def)
qed

theorem without_a_tunnel_nothing_transfers_witness:
  "\<not> on_tunnel demo_net [''wg0''] \<and>
   (let mc = demo_machine True\<lparr>m_vpn := vpnChecker (\<lambda>_. []) demo_net [''wg0'']\<rparr>;
        e = tick demo_lib mc (demo_added True False) in
      map fst (e_torrents e) = [''a1''] \<and> list_all (\<lambda>(_, tr). off (e_cmds e) (tr_t tr)) (e_torrents e))"
proof -
  let ?add = "(demo_lib, demo_machine True, OAddMagnet ''magnet:a1'' (demo_opts False))"
  let ?mc = "demo_machine True\<lparr>m_vpn := vpnChecker (\<lambda>_. []) demo_net [''wg0'']\<rparr>"
  have n: "\<not> on_tunnel demo_net [''wg0'']" by (rule demo_net_direct)
  have r: "demo_added True False = run_steps engine_step [?add] (demo_engine True)"
    by (simp add: demo_added_def engine_step_def)
  moreover have "list_all (\<lambda>(L, _, _). lib_ok (\<lambda>_. ''a1'') L) [?add]" using demo_lib_ok by simp
  moreover have "cfg_RequireVPN (e_cfg (demo_added True False))" by (simp add: demo_cfg demo_config_def)
  ultimately have "list_all (\<lambda>(_, tr). off (e_cmds (tick demo_lib ?mc (demo_added True False))) (tr_t tr))
      (e_torrents (tick demo_lib ?mc (demo_added True False)))"
    using without_a_tunnel_nothing_transfers [OF demo_started, of "\<lambda>_. ''a1''" "[?add]" True ?mc "\<lambda>_. []" demo_net "[''wg0'']" demo_lib] n
    unfolding r [symmetric] by (simp add: Let_def)
  moreover have "map fst (e_torrents (tick demo_lib ?mc (demo_added True False))) = [''a1'']"
    by (simp add: tick_same demo_torrents)
  ultimately show ?thesis using n by simp
qed

end
