(* ===== verification/DaemonProps.thy ===== *)
theory DaemonProps
  imports Daemon ConfigProps VpnProps
begin

text \<open>
  The properties of the daemon as a whole: what the configuration file says is what runs, and what a
  torrent may do, whoever asks.
\<close>

lemma start_daemon_cases:
  assumes "start_daemon H = Inr r"
  obtains path e where "loadConfig (h_env H) (h_urls H) (h_toml H) (h_files H) (h_flag H) = Inr (rn_config r, path)"
    "New (h_bind H) (h_machine H) (engine_config (rn_config r) (h_version H)) (h_disk H) (h_fs H) = Inr e"
    "d_engine (rn_daemon r) = exec (h_lib H) (h_machine H) ORestore e"
    "newSearcher (h_urls H) (rn_config r) = Inr (d_searcher (rn_daemon r))"
    "stream_Serve (h_listen H) (h_random H) = Inr (rn_stream r)" "d_previewURL (rn_daemon r) = Some (stream_URL (rn_stream r))"
    "logger_New (lg_Level (c_Log (rn_config r))) (lg_File (c_Log (rn_config r))) (h_logFault H) = Inr (rn_log r)"
  using assms by (auto simp: start_daemon_def start_parts_def split: sum.splits prod.splits)


definition lib_ok_steps :: "(handle \<Rightarrow> tid) \<Rightarrow> lib \<Rightarrow> (outside \<times> dstep) list \<Rightarrow> bool" where
  "lib_ok_steps ih L xs \<longleftrightarrow> lib_ok ih L \<and> list_all (\<lambda>(X, _). lib_ok ih (o_lib X)) xs"

text \<open>A daemon that has run is an engine that has run from \<^verbatim>\<open>New\<close>.\<close>

lemma daemon_engine_run:
  assumes "start_daemon H = Inr r" "lib_ok_steps ih (h_lib H) xs"
  obtains e ys where "New (h_bind H) (h_machine H) (engine_config (rn_config r) (h_version H)) (h_disk H) (h_fs H) = Inr e"
    "d_engine (rn_daemon (run_steps daemon_step xs r)) = run_steps engine_step ys e"
    "list_all (\<lambda>(L, _, _). lib_ok ih L) ys"
proof -
  obtain path e where e: "New (h_bind H) (h_machine H) (engine_config (rn_config r) (h_version H)) (h_disk H) (h_fs H) = Inr e"
    "d_engine (rn_daemon r) = exec (h_lib H) (h_machine H) ORestore e"
    using start_daemon_cases [OF assms(1)] by metis
  obtain ys where ys: "d_engine (rn_daemon (run_steps daemon_step xs r)) = run_steps engine_step ys (d_engine (rn_daemon r))"
    "list_all (\<lambda>(L, _, _). L \<in> o_lib ` fst ` set xs) ys" using daemon_run [of xs r] by blast
  let ?zs = "(h_lib H, h_machine H, ORestore) # ys"
  have "d_engine (rn_daemon (run_steps daemon_step xs r)) = run_steps engine_step ?zs e"
    using e(2) ys(1) by (simp add: engine_step_def)
  moreover have "list_all (\<lambda>(L, _, _). lib_ok ih L) ?zs"
    using assms(2) ys(2) by (fastforce simp: lib_ok_steps_def list_all_iff)
  ultimately show thesis using that e(1) by blast
qed


text \<open>C23. The guard the file asks for holds from end to end. When the configuration requires a VPN, then whatever has
  been asked over the socket, restored, ticked or dropped in the watch directory: at a tick while the routes of the
  machine do not lead through a tunnel or an interface the file names, every torrent the daemon has is switched off in
  both directions.\<close>

theorem a_required_vpn_is_enforced:
  assumes "start_daemon H = Inr r" and "vpn_Required (c_VPN (rn_config r))"
    and "lib_ok_steps ih (h_lib H) xs" and "\<not> on_tunnel (o_net X) (vpn_Interfaces (c_VPN (rn_config r)))"
  shows "let e = d_engine (rn_daemon (daemon_step (X, DEngine OTick) (run_steps daemon_step xs r))) in
    list_all (\<lambda>(_, tr). off (e_cmds e) (tr_t tr)) (e_torrents e)"
proof -
  obtain e ys where e: "New (h_bind H) (h_machine H) (engine_config (rn_config r) (h_version H)) (h_disk H) (h_fs H) = Inr e"
    "d_engine (rn_daemon (run_steps daemon_step xs r)) = run_steps engine_step ys e" "list_all (\<lambda>(L, _, _). lib_ok ih L) ys"
    by (rule daemon_engine_run [OF assms(1,3)])
  have c: "rn_config (run_steps daemon_step xs r) = rn_config r" using daemon_run by blast
  have "cfg_RequireVPN (e_cfg (run_steps engine_step ys e))"
    using assms(2) cfg_New [OF e(1)] by (simp add: cfg_run engine_config_def)
  from blocked_tick [OF e(1,3) this _ assms(4), of "checked_machine X (rn_config r)" "o_ipText X" "o_lib X"]
  show ?thesis by (simp add: daemon_step_def set_engine_def e(2) c checked_machine_def Let_def)
qed

subsection \<open>Witnesses\<close>

text \<open>A host with that configuration, a VPN required, and no way out but the Ethernet card.\<close>

definition demo_host :: host where
  "demo_host = \<lparr>h_env = demo_env, h_urls = demo_urls, h_toml = demo_decoder, h_files = demo_files, h_flag = [],
     h_version = ''1'', h_logFault = None, h_lib = demo_lib, h_machine = demo_machine True, h_bind = (\<lambda>_. None),
     h_disk = demo_disk, h_fs = \<lparr>fs_nodes = [(''/'', DirNode)], fs_denied = [], fs_otherDev = []\<rparr>,
     h_listen = Inr ''127.0.0.1:4000'', h_random = Inr ''ab'', h_socket = (\<lambda>_. Inr ()), h_mkWatch = (\<lambda>_. None),
     h_dir = (\<lambda>_. \<lparr>wd_readable = True, wd_entries = [], wd_stuck = []\<rparr>)\<rparr>"

lemma demo_fileConfig_simps:
  "c_DownloadDir demo_fileConfig = ''/h/Downloads/torrnado''" "c_Port demo_fileConfig = \<lparr>pr_Low = 51413, pr_High = 51433\<rparr>"
  "c_VPN demo_fileConfig = \<lparr>vpn_Required = True, vpn_Interfaces = [''wg0'']\<rparr>" "c_MinFreeSpace demo_fileConfig = 0"
  "c_Log demo_fileConfig = \<lparr>lg_Level = ''info'', lg_LibraryLevel = ''warn'', lg_File = []\<rparr>"
  "c_WatchDir demo_fileConfig = ''/h/w''" "c_StateDir demo_fileConfig = ''/x/torrnado''"
  by (simp_all add: demo_fileConfig_def demo_search_def default_with_def)

lemma demo_levels: "ParseLevel ''info'' = Inr LevelInfo" "ParseLevel ''warn'' = Inr LevelWarn"
proof -
  have "to_lower (trim_space ''info'') = ''info''" "to_lower (trim_space ''warn'') = ''warn''"
    by (simp add: trim_space_ascii is_space_def, code_simp)+
  then show "ParseLevel ''info'' = Inr LevelInfo" "ParseLevel ''warn'' = Inr LevelWarn" by (simp_all add: ParseLevel_def)
qed

lemma demo_loadConfig:
  "loadConfig demo_env demo_urls demo_decoder demo_files [] = Inr (demo_fileConfig, ''/c/torrnado/config.toml'')"
proof -
  have "path_join ''/c'' ''torrnado/config.toml'' = ''/c/torrnado/config.toml''" by code_simp
  then have "DefaultPath demo_env = Inr ''/c/torrnado/config.toml''"
    by (simp add: DefaultPath_def in_dir_def xdgConfigHome_def demo_env_def)
  then show ?thesis by (simp add: loadConfig_def demo_Load)
qed

lemma demo_host_starts: "\<exists>r. start_daemon demo_host = Inr r \<and> rn_config r = demo_fileConfig"
proof -
  have "fst (os_mkdirAll ''/h/Downloads/torrnado'' (h_fs demo_host))" by code_simp
  then obtain f where f: "os_mkdirAll ''/h/Downloads/torrnado'' (h_fs demo_host) = (True, f)"
    by (cases "os_mkdirAll ''/h/Downloads/torrnado'' (h_fs demo_host)") auto
  have "[51413 .. 51433 :: int] = 51413 # [51414..51433]" by (simp add: upto_rec1)
  then have p: "newClientOnPortRange (\<lambda>_. None) 51413 51433 = Inr 51413" by (simp add: newClientOnPortRange_def)
  have "\<exists>e. New (h_bind demo_host) (h_machine demo_host) (engine_config demo_fileConfig ''1'') (h_disk demo_host) (h_fs demo_host) = Inr e"
    using f p by (simp add: New_def engine_config_def demo_fileConfig_simps demo_host_def)
  then obtain e where e: "New (h_bind demo_host) (h_machine demo_host) (engine_config demo_fileConfig ''1'') (h_disk demo_host) (h_fs demo_host) = Inr e"
    by blast
  obtain s where "newSearcher demo_urls demo_fileConfig = Inr s"
    using newSearcher_sources [OF demo_Load demo_trims] by blast
  with e show ?thesis
    by (simp add: start_daemon_def start_parts_def start_watch_def demo_loadConfig demo_host_def logger_New_def demo_fileConfig_simps
        demo_levels stream_Serve_def Let_def)
qed

definition demo_running :: running where
  "demo_running = projr (start_daemon demo_host)"

lemma demo_daemon_starts: "start_daemon demo_host = Inr demo_running" "rn_config demo_running = demo_fileConfig"
  using demo_host_starts by (auto simp: demo_running_def)


text \<open>A torrent added to it, with the VPN up, and a tick after the VPN went down.\<close>

definition demo_outside :: "(nat \<Rightarrow> surroundings) \<Rightarrow> outside" where
  "demo_outside S = \<lparr>o_lib = demo_lib, o_machine = demo_machine True, o_net = demo_net, o_ipText = (\<lambda>_. []),
     o_search = S\<rparr>"

definition demo_steps :: "(nat \<Rightarrow> surroundings) \<Rightarrow> (outside \<times> dstep) list" where
  "demo_steps S = [(demo_outside S, DEngine (OAddMagnet ''magnet:a1'' (demo_opts False)))]"

lemma demo_host_version: "h_version demo_host = ''1''"
  by (simp add: demo_host_def)

lemma demo_running_engine: "e_torrents (d_engine (rn_daemon demo_running)) = []"
proof -
  obtain e where e: "New (h_bind demo_host) (h_machine demo_host) (engine_config demo_fileConfig ''1'') (h_disk demo_host) (h_fs demo_host) = Inr e"
    "d_engine (rn_daemon demo_running) = exec (h_lib demo_host) (h_machine demo_host) ORestore e"
    using start_daemon_cases [OF demo_daemon_starts(1)] demo_daemon_starts(2) by (metis demo_host_version)
  have "sd_session (e_disk e) = NoSession"
    using e(1) by (auto simp: New_def demo_host_def demo_disk_def refreshDisk_def refreshVPN_def Let_def
        split: if_splits sum.splits prod.splits bool.splits)
  then show ?thesis using New_ok(1) [OF e(1)] e(2) by (simp add: RestoreSession_def)
qed

lemma demo_tunnel: "\<not> on_tunnel (o_net (demo_outside S)) (vpn_Interfaces (c_VPN (rn_config demo_running)))"
  using demo_net_direct by (simp add: demo_outside_def demo_daemon_starts(2) demo_fileConfig_simps)

lemma a_required_vpn_is_enforced_witness:
  "\<forall>S. let e = d_engine (rn_daemon (daemon_step (demo_outside S, DEngine OTick) (run_steps daemon_step (demo_steps S) demo_running)))
     in map fst (e_torrents e) = [''a1''] \<and> list_all (\<lambda>(_, tr). off (e_cmds e) (tr_t tr)) (e_torrents e)"
proof
  fix S
  have l: "lib_ok_steps (\<lambda>_. ''a1'') (h_lib demo_host) (demo_steps S)"
    by (simp add: lib_ok_steps_def demo_steps_def demo_outside_def demo_host_def demo_lib_ok)
  have "map fst (e_torrents (d_engine (rn_daemon (run_steps daemon_step (demo_steps S) demo_running)))) = [''a1'']"
    by (simp add: demo_steps_def daemon_step_def set_engine_def Let_def AddMagnet_def addSpec_def own_storage_def enter_torrent_def
        demo_outside_def demo_running_engine vw_def demo_lib_def demo_opts_def demo_add_def demo_view_def)
  then have "map fst (e_torrents (d_engine (rn_daemon (daemon_step (demo_outside S, DEngine OTick)
      (run_steps daemon_step (demo_steps S) demo_running))))) = [''a1'']"
    by (simp add: daemon_step_def set_engine_def Let_def tick_same)
  then show "let e = d_engine (rn_daemon (daemon_step (demo_outside S, DEngine OTick) (run_steps daemon_step (demo_steps S) demo_running)))
     in map fst (e_torrents e) = [''a1''] \<and> list_all (\<lambda>(_, tr). off (e_cmds e) (tr_t tr)) (e_torrents e)"
    using a_required_vpn_is_enforced [OF demo_daemon_starts(1) _ l demo_tunnel [of S]]
    by (simp add: Let_def demo_daemon_starts(2) demo_fileConfig_simps)
qed

end
