(* ===== verification/QuantityProps.thy ===== *)
theory QuantityProps
  imports Quantities
begin

text \<open>
  What holds of quantities as they are read and written: which calls return, what survives being
  written and read back, and what a number too large becomes.
\<close>

subsection \<open>Reading digits\<close>

lemma hex_val_digit: "is_digit c \<Longrightarrow> hex_val c = of_char c - 48"
  by (simp add: hex_val_def)

lemma read_mantissa_digits:
  assumes "list_all is_digit ds" "ds \<noteq> []" "\<not> mt_dot m"
  shows "read_mantissa False m (ds @ s) =
    read_mantissa False (m\<lparr>mt_value := dec_val (mt_value m) ds, mt_digits := True\<rparr>) s"
  using assms
proof (induction ds arbitrary: m)
  case (Cons c ds)
  then have c: "is_digit c" by simp
  show ?case
  proof (cases "ds = []")
    case True
    then show ?thesis using c Cons.prems digit_ascii [OF c] by (simp add: hex_val_digit)
  next
    case False
    then show ?thesis using c Cons digit_ascii [OF c] by (simp add: hex_val_digit)
  qed
qed simp

text \<open>A text that does not start with a letter is no special value.\<close>

lemma no_special:
  assumes "is_digit (hd s)" "s \<noteq> []" shows "special_float s = None" "cut_sign s = (False, s)"
proof -
  obtain c t where s: "s = c # t" "is_digit c" using assms by (cases s) auto
  show u: "cut_sign s = (False, s)" using s digit_ascii [OF s(2)] by (simp add: cut_sign_def)
  have "c \<noteq> CHR ''i''" "c \<noteq> CHR ''n''" using s(2) by (auto simp: is_digit_def)
  then show "special_float s = None"
    using s digit_ascii(7) [OF s(2)] by (auto simp: special_float_def u [unfolded s(1)] to_lower_def)
qed

lemma digits_hd: "list_all is_digit ds \<Longrightarrow> ds \<noteq> [] \<Longrightarrow> is_digit (hd (ds @ s))"
  by (cases ds) auto

lemma digits_no_base: "list_all is_digit ds \<Longrightarrow> \<not> has_base ds ''x''"
  by (auto simp: has_base_def is_digit_def digit_ascii(7) split: list.splits)

lemma ParseFloat_digits: "ParseFloat (nat_digits n) = fits (of_nat n)"
proof -
  note d = nat_digits_digits [of n]
  have "is_digit (hd (nat_digits n))" using digits_hd [OF d, of "[]"] by simp
  note s = no_special [OF this nat_digits_not_Nil]
  show ?thesis
    using read_mantissa_digits [OF d nat_digits_not_Nil, of _ "[]"] digits_no_base [OF d]
    by (simp add: ParseFloat_def s Let_def read_exponent_def scaled_def dec_val_nat_digits)
qed

subsection \<open>Printing returns, but for one number\<close>

lemma Bytes_min: "Bytes n = Some s \<Longrightarrow> n \<noteq> min_int64"
proof (rule Bytes.raw_induct [where P = "\<lambda>n s. n \<noteq> min_int64"])
  fix f n s
  assume IH: "\<And>n s. f n = Some s \<Longrightarrow> n \<noteq> min_int64"
    and f: "(if n < 0 then Option.bind (f (wrap64 (- n))) (\<lambda>s. Some (CHR ''-'' # s)) else Some (bytes_text n)) = Some s"
  show "n \<noteq> min_int64"
  proof
    assume n: "n = min_int64"
    then have "wrap64 (- n) = min_int64" by (simp add: wrap64_def min_int64_def)
    then show False using f IH n by (auto simp: min_int64_def Option.bind_eq_Some_conv)
  qed
qed

lemma Bytes_nonneg: "0 \<le> n \<Longrightarrow> Bytes n = Some (bytes_text n)"
  by (subst Bytes.simps) simp

lemma Bytes_neg:
  assumes "n < 0" "in_int64 n" "n \<noteq> min_int64"
  shows "Bytes n = Some (CHR ''-'' # bytes_text (- n))"
proof -
  have "wrap64 (- n) = - n"
    using assms by (intro wrap64_id) (simp add: in_int64_def min_int64_def max_int64_def)
  then show ?thesis using assms(1) by (subst Bytes.simps) (simp add: Bytes_nonneg)
qed

text \<open>C20. \<^verbatim>\<open>format.Bytes\<close> returns for every 64-bit number except the smallest, whose negation is itself:
  on that one it calls itself for ever.\<close>

theorem format_Bytes_returns_but_for_one_number:
  assumes "in_int64 n"
  shows "Bytes n = None \<longleftrightarrow> n = min_int64"
  using Bytes_nonneg [of n] Bytes_neg [OF _ assms] Bytes_min [of n]
  by (cases "n < 0"; cases "Bytes n") auto

theorem format_Bytes_returns_but_for_one_number_witness:
  "Bytes (- (2 ^ 63)) = None \<and> Bytes (2 ^ 63 - 1) \<noteq> None"
  using format_Bytes_returns_but_for_one_number [of "- (2 ^ 63)"] format_Bytes_returns_but_for_one_number [of "2 ^ 63 - 1"]
  by (simp add: in_int64_def min_int64_def max_int64_def)

subsection \<open>Rates and sizes\<close>





lemma f64_mul_nonneg:
  assumes "\<not> f64_lt f (Fin 0)" "0 < m"
  shows "f64_mul f (Fin m) \<in> {PosInf, NaN} \<or> (\<exists>a\<ge>0. f64_mul f (Fin m) = Fin a)"
proof (cases f)
  case (Fin q)
  then have "f64_nonneg (rnd (q * m))" using assms by (intro rnd_nonneg) simp
  then show ?thesis using Fin by (cases "rnd (q * m)") (auto simp: f64_nonneg_def)
qed (use assms in \<open>auto simp: signed_inf_def f64_sgn_def\<close>)

lemma int_of_f64_nonneg: "0 \<le> a \<Longrightarrow> 0 \<le> int_of_f64 (Fin a) \<or> int_of_f64 (Fin a) = min_int64"
  by (simp add: int_of_f64_def f64_trunc_def min_int64_def Let_def)

lemma int_of_f64_bound: "int_of_f64 x \<le> max_int64"
  by (simp add: int_of_f64_def max_int64_def Let_def split: f64.split)

lemma rate_unit_exact:
  "rate_unit c = Some m \<Longrightarrow> 0 < m \<and> m \<le> 2 ^ 53"
  by (auto simp: rate_unit_def split: if_splits)

text \<open>What a rate or a size can be once read: a number of bytes from 0 to the largest, or the smallest
  64-bit number. The second is what an amount too large turns into, and it is negative, although
  negative amounts are refused.\<close>

theorem a_rate_read_is_in_range_or_the_smallest:
  assumes "ParseRate s = Inr n"
  shows "0 \<le> n \<and> n \<le> max_int64 \<or> n = min_int64"
proof (cases "n = 0")
  case False
  then obtain f m where f: "\<not> f64_lt f (Fin 0)" "0 < m" "m \<le> 2 ^ 53" "n = int_of_f64 (f64_mul f (f64_of_int m))"
    using assms by (auto simp: ParseRate_def Let_def split: if_splits option.splits
        intro: that [of _ 1] dest: rate_unit_exact)
  then have "f64_mul f (f64_of_int m) = PosInf \<or> f64_mul f (f64_of_int m) = NaN \<or> (\<exists>a\<ge>0. f64_mul f (f64_of_int m) = Fin a)"
    using f64_mul_nonneg [of f "of_int m"] by (simp add: f64_of_int_exact)
  moreover have "int_of_f64 PosInf = min_int64" "int_of_f64 NaN = min_int64"
    by (simp_all add: int_of_f64_def min_int64_def)
  ultimately show ?thesis using f(4) int_of_f64_nonneg int_of_f64_bound by metis
qed (simp add: max_int64_def)

lemma ParseRate_inf: "ParseRate ''inf'' = Inr min_int64"
  by (simp add: ParseRate_def trim_space_ascii is_space_def equal_fold_def rate_unit_def ParseFloat_def
      special_float_def cut_sign_def to_lower_def lower_char_def signed_inf_def f64_sgn_def f64_of_int_def
      int_of_f64_def min_int64_def)

theorem a_rate_read_is_in_range_or_the_smallest_witness:
  "\<exists>n. ParseRate ''inf'' = Inr n \<and> n < 0 \<and> (0 \<le> n \<and> n \<le> max_int64 \<or> n = min_int64)"
  using a_rate_read_is_in_range_or_the_smallest [OF ParseRate_inf] ParseRate_inf by (auto simp: min_int64_def)

subsection \<open>Sizes as people see them\<close>

lemma bytes_unit_exponent:
  "bytes_unit m dv e = (dv', e') \<Longrightarrow> m < 1024 ^ Suc k \<Longrightarrow> e' \<le> e + k"
proof (induction m dv e arbitrary: k rule: bytes_unit.induct)
  case (1 m dv e)
  show ?case
  proof (cases "1024 \<le> m")
    case True
    then obtain j where k: "k = Suc j" using "1.prems"(2) by (cases k) auto
    define P :: int where "P = 1024 ^ j"
    have "m < 1024 * (1024 * P)" using "1.prems"(2) by (simp add: k P_def)
    then have "m div 1024 < 1024 * P" by presburger
    then have "go_div m 1024 < 1024 ^ Suc j" using True by (simp add: go_div_nonneg P_def)
    then show ?thesis using "1.IH" [OF True _ ] "1.prems"(1) True by (auto simp: bytes_unit.simps [of m] k)
  qed (use "1.prems"(1) in \<open>simp add: bytes_unit.simps [of m]\<close>)
qed

lemma read_mantissa_skip:
  "list_all is_digit ds \<Longrightarrow>
     \<exists>m'. read_mantissa False m (ds @ s) = read_mantissa False m' s \<and> mt_dot m' = mt_dot m"
proof (induction ds arbitrary: m)
  case (Cons c ds)
  then have c: "is_digit c" "list_all is_digit ds" by simp_all
  show ?case using Cons.IH [OF c(2)] c(1) digit_ascii(3,4) [OF c(1)] by fastforce
qed auto

lemma read_exponent_letter:
  "is_digit d = False \<Longrightarrow> d \<noteq> CHR ''-'' \<Longrightarrow> d \<noteq> CHR ''+'' \<Longrightarrow> read_exponent False (u # d # t) = Some (e, b, v) \<Longrightarrow> v \<noteq> []"
  by (auto simp: read_exponent_def cut_sign_def split: if_splits)

lemma mantissa_then_letters:
  assumes "list_all is_digit ds" "list_all is_digit fs" "\<not> mt_dot m"
    "\<not> is_digit u" "u \<noteq> CHR ''.''" "u \<noteq> CHR ''_''"
  shows "snd (read_mantissa False m (ds @ ''.'' @ fs @ u # t)) = u # t"
proof -
  obtain m1 where "read_mantissa False m (ds @ ''.'' @ fs @ u # t) = read_mantissa False m1 (''.'' @ fs @ u # t)" "\<not> mt_dot m1"
    using read_mantissa_skip [OF assms(1)] assms(3) by metis
  moreover obtain m2 where "read_mantissa False (m1\<lparr>mt_dot := True\<rparr>) (fs @ u # t) = read_mantissa False m2 (u # t)"
    using read_mantissa_skip [OF assms(2)] by metis
  ultimately show ?thesis using assms(4,5,6) by simp
qed

lemma fixed_digits:
  "\<exists>ds fs. fixed p q = ds @ ''.'' @ fs \<and> list_all is_digit ds \<and> ds \<noteq> [] \<and> list_all is_digit fs"
proof -
  have "list_all is_digit (pad_zeros p (nat_digits n))" for n
    using nat_digits_digits [of n] by (auto simp: pad_zeros_def list_all_iff is_digit_def)
  then show ?thesis using nat_digits_digits nat_digits_not_Nil unfolding fixed_def Let_def by blast
qed

text \<open>A printed number with two letters after it is not a number.\<close>

lemma digits_then_letters:
  assumes "list_all is_digit ds" "ds \<noteq> []" "list_all is_digit fs" "\<not> is_digit u" "u \<noteq> CHR ''.''" "u \<noteq> CHR ''_''"
    "sg = [] \<or> sg = ''-''"
  shows "ParseFloat (sg @ ds @ ''.'' @ fs @ u # ''i'') = None"
proof -
  let ?b = "ds @ ''.'' @ fs @ u # ''i''"
  have h: "is_digit (hd ?b)" "?b \<noteq> []" using digits_hd [OF assms(1,2)] by simp_all
  then obtain c t where b: "?b = c # t" "is_digit c" by (cases ?b) auto
  have cs: "snd (cut_sign (sg @ ?b)) = ?b"
    using assms(7)
  proof
    assume "sg = []"
    then show ?thesis using no_special(2) [OF h] by (simp only: append_Nil snd_conv)
  qed (simp add: cut_sign_def)
  have "to_lower ?b \<noteq> ''inf''" "to_lower ?b \<noteq> ''infinity''" "to_lower (sg @ ?b) \<noteq> ''nan''"
    unfolding b(1) using b(2) assms(7) digit_ascii(7) [OF b(2)] by (auto simp: to_lower_def is_digit_def lower_char_def)
  then have sp: "special_float (sg @ ?b) = None"
    using cs by (simp add: special_float_def case_prod_beta)
  have "ds @ ''.'' @ fs @ u # ''i'' \<noteq> CHR ''0'' # x # v" if "lower_char x = CHR ''x''" for x v
    using assms(1,2) that digit_ascii(7) by (cases ds; cases "tl ds") (auto simp: lower_char_def is_digit_def)
  then have nb: "\<not> has_base ?b ''x''" by (auto simp: has_base_def split: list.splits)
  obtain m where m: "read_mantissa False \<lparr>mt_value = 0, mt_frac = 0, mt_digits = False, mt_dot = False, mt_under = False\<rparr> ?b = (m, u # ''i'')"
    using mantissa_then_letters [OF assms(1,3) _ assms(4,5,6), of "\<lparr>mt_value = 0, mt_frac = 0, mt_digits = False, mt_dot = False, mt_under = False\<rparr>" "''i''"]
    by (metis mantissa.select_convs(4) prod.collapse)
  have "v \<noteq> []" if "read_exponent False (u # ''i'') = Some (e, x, v)" for e x v
    using read_exponent_letter [OF _ _ _ that] by (simp add: is_digit_def)
  then show ?thesis using sp cs nb m
    by (auto simp: ParseFloat_def Let_def case_prod_beta split: option.splits)
qed

lemma special_then_letters:
  "u \<in> set ''KMGTPE'' \<Longrightarrow> x \<in> {''NaN'', ''+Inf'', ''-Inf''} \<Longrightarrow> ParseFloat (x @ u # ''i'') = None"
  by (auto simp: ParseFloat_def special_float_def cut_sign_def to_lower_def lower_char_def has_base_def is_digit_def Let_def)

lemma printed_float:
  assumes "u \<in> set ''KMGTPE''"
  shows "ParseFloat (float_text p x @ u # ''i'') = None"
    "float_text p x \<noteq> []" "list_all (\<lambda>c. of_char c < (128::nat)) (float_text p x)" "\<not> is_space (of_char (hd (float_text p x)))"
proof -
  have u: "\<not> is_digit u" "u \<noteq> CHR ''.''" "u \<noteq> CHR ''_''" using assms by (auto simp: is_digit_def)
  have f: "ParseFloat (sg @ fixed p q @ u # ''i'') = None \<and> fixed p q \<noteq> [] \<and>
      list_all (\<lambda>c. of_char c < (128::nat)) (fixed p q) \<and> \<not> is_space (of_char (hd (fixed p q)))"
    if "sg = [] \<or> sg = ''-''" for sg q
  proof -
    obtain ds fs where d: "fixed p q = ds @ ''.'' @ fs" "list_all is_digit ds" "ds \<noteq> []" "list_all is_digit fs"
      using fixed_digits by metis
    moreover have "is_digit (hd ds)" using d(2,3) by (cases ds) auto
    ultimately show ?thesis using digits_then_letters [OF d(2,3,4) u that]
      by (auto simp: list_all_iff digit_ascii)
  qed
  show "ParseFloat (float_text p x @ u # ''i'') = None"
    using f [of "[]"] f [of "''-''"] special_then_letters [OF assms, of "''NaN''"]
      special_then_letters [OF assms, of "''+Inf''"] special_then_letters [OF assms, of "''-Inf''"]
    by (auto simp: float_text_def split: f64.split)
  show "float_text p x \<noteq> []" "list_all (\<lambda>c. of_char c < (128::nat)) (float_text p x)"
    "\<not> is_space (of_char (hd (float_text p x)))"
    using f [of "[]"] by (auto simp: float_text_def is_space_def split: f64.split)
qed

text \<open>A size of a kilobyte or more, as it is shown to people, does not read back: writing it into a
  configuration file gives a file that cannot be loaded.\<close>

theorem a_size_as_shown_cannot_be_read:
  assumes "1024 \<le> n" and "n \<le> max_int64"
  shows "\<exists>s err. Size_String n = Some s \<and> ParseRate s = Inl err"
proof -
  obtain dv e where b: "bytes_unit (go_div n 1024) 1024 0 = (dv, e)" by force
  have "go_div n 1024 < 1024 ^ Suc 5" using assms by (simp add: go_div_nonneg max_int64_def)
  then have "e < 6" using bytes_unit_exponent [OF b] by fastforce
  then have u: "''KMGTPE'' ! e \<in> set ''KMGTPE''" by (intro nth_mem) simp
  let ?x = "f64_div (f64_of_int n) (f64_of_int dv)" and ?u = "''KMGTPE'' ! e"
  let ?w = "float_text 1 ?x @ ?u # ''i''"
  have t: "Size_String n = Some (?w @ ''B'')"
    using assms b by (simp add: Size_String_def Bytes_nonneg bytes_text_def)
  have ascii: "list_all (\<lambda>c. of_char c < (128::nat)) (''KMGTPE'' ! e # ''iB'')" using u by auto
  note p = printed_float [OF u, of 1 ?x]
  have "trim_space (?w @ ''B'') = ?w @ ''B''" "trim_space ?w = ?w"
    using p(2,3,4) ascii by (intro trim_space_ascii; simp add: is_space_def)+
  moreover have "\<not> equal_fold (?w @ ''B'') ''unlimited''" "\<not> equal_fold (?w @ ''B'') ''none''"
    by (auto simp: equal_fold_def to_lower_def lower_char_def dest: arg_cong [of _ _ last])
  moreover have "rate_unit (CHR ''B'') = Some 1" by code_simp
  ultimately have "\<exists>err. ParseRate (?w @ ''B'') = Inl err" using p(1) by (simp add: ParseRate_def Let_def butlast_append)
  then show ?thesis using t by blast
qed

theorem a_size_as_shown_cannot_be_read_witness:
  "\<exists>s err. Size_String 2147483648 = Some s \<and> ParseRate s = Inl err"
  by (rule a_size_as_shown_cannot_be_read) (simp_all add: max_int64_def)

subsection \<open>Spans of time\<close>

lemma to_lower_digits: "list_all is_digit ds \<Longrightarrow> to_lower ds = ds"
  by (auto simp: to_lower_def list_all_iff digit_ascii(7) intro: map_idI)

lemma takeWhile_digits: "list_all is_digit ds \<Longrightarrow>
    takeWhile (\<lambda>c. c = CHR ''_'' \<or> is_digit c) (ds @ CHR ''h'' # t) = ds \<and>
    dropWhile (\<lambda>c. c = CHR ''_'' \<or> is_digit c) (ds @ CHR ''h'' # t) = CHR ''h'' # t \<and>
    takeWhile (\<lambda>c. c = CHR ''_'' \<or> is_digit c) ds = ds \<and>
    dropWhile (\<lambda>c. c = CHR ''_'' \<or> is_digit c) ds = []"
  by (induction ds) (auto simp: is_digit_def)

lemma floatToken_digits:
  assumes "list_all is_digit ds" "ds \<noteq> []" "t = [] \<or> hd t = CHR ''h''"
  shows "floatToken (ds @ t) = ds"
proof -
  obtain c w where ds: "ds = c # w" "is_digit c" using assms(1,2) by (cases ds) auto
  have c: "c \<noteq> CHR ''n''" "c \<noteq> CHR ''i''" "c \<noteq> CHR ''+''" "c \<noteq> CHR ''-''" using ds(2) by (auto simp: is_digit_def)
  have x: "\<not> has_prefix (ds @ t) ''0x''"
    using assms by (cases ds; cases "tl ds"; cases t) (auto simp: is_digit_def)
  have "float_body (ds @ t) = ds"
    using assms(3) takeWhile_digits [OF assms(1)] x
    by (cases t) (auto simp: float_body_def accept_def accept_all_def Let_def)
  then show ?thesis using c by (simp add: floatToken_def ds(1) accept_def)
qed

lemma ParseDuration_days:
  assumes "n \<le> 2 ^ 53" "t = [] \<or> (\<exists>m. t = CHR ''h'' # nat_digits m)"
  shows "ParseDuration (nat_digits n @ t @ ''d'') =
    Inr (int_of_f64 (f64_mul (f64_mul (Fin (of_nat n)) (Fin 24)) (Fin (of_int hour))))"
proof -
  let ?ds = "nat_digits n" and ?s = "nat_digits n @ t @ ''d''"
  note d = nat_digits_digits [of n]
  obtain c w where ds: "?ds = c # w" "is_digit c" using d by (cases ?ds) auto
  have tl: "to_lower t = t" "list_all (\<lambda>c. of_char c < (128::nat)) t" "t = [] \<or> hd t = CHR ''h''"
    using assms(2) to_lower_digits [OF nat_digits_digits] nat_digits_digits
    by (auto simp: to_lower_def lower_char_def list_all_iff digit_ascii)
  have "to_lower ?s = to_lower ?ds @ to_lower t @ to_lower ''d''" by (simp add: to_lower_def)
  then have low: "to_lower ?s = ?s" using tl(1) to_lower_digits [OF d] by (simp add: to_lower_def lower_char_def)
  have trim: "trim_space ?s = ?s"
    using d tl(2) ds by (intro trim_space_ascii) (auto simp: list_all_iff digit_ascii is_space_def is_digit_def)
  have ne: "\<not> equal_fold ?s ''none''" "\<not> equal_fold ?s ''unlimited''" "?s \<noteq> []"
    unfolding equal_fold_def low using ds by (auto simp: to_lower_def lower_char_def is_digit_def)
  have suf: "has_suffix ?s ''d''" using has_suffix_append [of "?ds @ t" "''d''"] by simp
  have "CHR ''p'' \<notin> set ?ds" using d by (auto simp: list_all_iff is_digit_def)
  then have "str_index ?ds ''p'' = None" by (simp only: str_index_singleton_None not_False_eq_True)
  then have "convertFloat ?ds = ParseFloat ?ds" by (simp add: convertFloat_def)
  also have "\<dots> = Some (Fin (of_nat n))"
  proof (cases "n = 0")
    case False
    then have "rnd (of_int (int n)) = Fin (of_int (int n))" using assms(1) by (intro rnd_of_int_pos) simp_all
    then show ?thesis by (simp add: ParseFloat_digits fits_def)
  qed (simp add: ParseFloat_digits fits_def)
  finally have "scan_float (butlast ?s) = Some (Fin (of_nat n))"
    using floatToken_digits [OF d _ tl(3)] by (simp add: scan_float_def butlast_append)
  then show ?thesis using ne suf by (simp add: ParseDuration_def trim low Let_def del: of_int_numeral)
qed

text \<open>A span written in hours and days loses the days' number: \<^verbatim>\<open>1h30d\<close> is read, without an error, as one
  day. The text ends in \<^verbatim>\<open>d\<close>, so the number it starts with is taken for days and the rest is not
  looked at.\<close>

theorem hours_and_days_are_read_as_days:
  assumes "n \<le> 2 ^ 53"
  shows "ParseDuration (nat_digits n @ ''h'' @ nat_digits m @ ''d'') = ParseDuration (nat_digits n @ ''d'') \<and>
    is_ok (ParseDuration (nat_digits n @ ''d''))"
proof -
  have "ParseDuration (nat_digits n @ (CHR ''h'' # nat_digits m) @ ''d'') = ParseDuration (nat_digits n @ [] @ ''d'')"
    using ParseDuration_days [OF assms, of "[]"] ParseDuration_days [OF assms, of "CHR ''h'' # nat_digits m"] by (metis (lifting))
  then show ?thesis using ParseDuration_days [OF assms, of "[]"] by simp
qed

theorem hours_and_days_are_read_as_days_witness:
  "ParseDuration ''1h30d'' = ParseDuration ''1d'' \<and> is_ok (ParseDuration ''1d'')"
proof -
  have "itoa 1 = ''1''" by code_simp
  then have d1: "nat_digits 1 = ''1''" by (simp add: itoa_def)
  have "itoa 30 = ''30''" by code_simp
  then have d30: "nat_digits 30 = ''30''" by (simp add: itoa_def)
  have "(1::nat) \<le> 2 ^ 53" by simp
  from hours_and_days_are_read_as_days [OF this, of 30] show ?thesis
    unfolding d1 d30 by (simp only: append.simps)
qed

end
