(* ===== verification/IndexerProps.thy ===== *)
theory IndexerProps
  imports Sources "HOL-Library.Multiset"
begin

text \<open>
  The properties of searching: what a token is, the order results come in, what merging several sources
  keeps, how often a request is sent, when the cache answers, and what the site plugin does about its
  session.
\<close>

subsection \<open>Tokens\<close>

lemma str_cut_sep: "CHR '':'' \<notin> set a \<Longrightarrow> str_cut (a @ tokenSep @ b) tokenSep = Some (a, b)"
  by (simp add: str_cut_def tokenSep_def str_index_singleton)

lemma str_cut_Some: "str_cut s p = Some (a, b) \<Longrightarrow> s = a @ p @ b"
  using str_index_Some_prefix [of s p]
  by (auto simp: str_cut_def has_prefix_iff drop_drop split: option.splits)
     (metis append_take_drop_id append_eq_conv_conj drop_drop add.commute)

text \<open>A client of a Prowlarr that finds two torrents, the better seeded one last.\<close>

definition demo_row :: "string \<Rightarrow> string \<Rightarrow> prowlarrResult" where
  "demo_row title seeders = \<lparr>pr_Title = Some title, pr_Size = Some ''1'', pr_Seeders = Some seeders,
     pr_Leechers = None, pr_Indexer = None, pr_MagnetURL = None, pr_DownloadURL = None\<rparr>"

definition demo_client :: Client where
  "demo_client = \<lparr>cl_backend = Prowlarr, cl_url = ''http://p'', cl_apiKey = ''k'', cl_timeout = DefaultTimeout,
     cl_attempts = 3, cl_ttl = DefaultCacheTTL, cl_cache = []\<rparr>"

definition demo_network :: "gotime \<Rightarrow> net" where
  "demo_network now = \<lparr>nt_build = (\<lambda>_. None), nt_send = (\<lambda>_ _. Inr (200, [])), nt_giveUp = (\<lambda>_. None),
     nt_jackett = (\<lambda>_. Inr []), nt_prowlarr = (\<lambda>_. Inr [demo_row ''a'' ''1'', demo_row ''b'' ''5'']),
     nt_start = now, nt_end = now + 1\<rparr>"

definition demo_found :: "Result list" where
  "demo_found = [prowlarr_row (demo_row ''b'' ''5''), prowlarr_row (demo_row ''a'' ''1'')]"

lemma demo_counts: "atoi ''1'' = Some 1" "atoi ''5'' = Some 5"
  by (simp_all add: atoi_def is_digit_def digits_val_def in_int64_def min_int64_def max_int64_def)

lemma demo_query: "to_lower (trim_space ''x'') = ''x''" "to_lower (trim_space '' X'') = ''x''"
proof -
  have "trim_space ''x'' = ''x''" by (rule trim_space_ascii) (simp_all add: is_space_def)
  then show "to_lower (trim_space ''x'') = ''x''" by (simp add: to_lower_def lower_char_def Let_def)
  have "utf8 '' X'' = [(32, '' ''), (88, ''X'')]" by (subst utf8_ascii) simp_all
  then have "trim_space '' X'' = ''X''" unfolding trim_space_def by (simp only:) (simp add: trim_chunks_def is_space_def)
  moreover have "char_of (120 :: nat) = CHR ''x''" by code_simp
  ultimately show "to_lower (trim_space '' X'') = ''x''" by (simp add: to_lower_def lower_char_def Let_def)
qed

lemma demo_search:
  "Client_Search (demo_network now) ''x'' demo_client = (Inr (demo_found, []),
     demo_client\<lparr>cl_cache := [(''x'', \<lparr>ce_results = demo_found, ce_expires = now + 1 + DefaultCacheTTL\<rparr>)]\<rparr>)"
proof -
  have "sortResults [prowlarr_row (demo_row ''a'' ''1''), prowlarr_row (demo_row ''b'' ''5'')] = demo_found"
    by (simp add: sortResults_def demo_found_def prowlarr_row_def demo_row_def numCount_def json_number_def demo_counts)
  then show ?thesis
    by (simp add: Client_Search_def demo_query demo_client_def demo_network_def cache_get_def do_request_def eval_nat_numeral
        cache_put_def maxCacheEntries_def DefaultCacheTTL_def)
qed

text \<open>C19. A token is what \<^verbatim>\<open>Token\<close> builds, and nothing else. \<^verbatim>\<open>ParseToken\<close> reads a string as a source and an id
  exactly when it is the token of the two, both are non-empty and within their bounds, and neither has
  a character it may not have: so a token read is a token written, and every such token reads back.\<close>

theorem a_token_is_what_Token_builds:
  "ParseToken s = Some (name, i) \<longleftrightarrow>
     s = Token name i \<and> 0 < List.length name \<and> List.length name \<le> 32 \<and> 0 < List.length i \<and> List.length i \<le> 128 \<and>
     list_all name_char name \<and> list_all id_char i"
proof
  assume p: "ParseToken s = Some (name, i)"
  then have "str_cut s tokenSep = Some (name, i)"
    by (auto simp: ParseToken_def split: option.splits if_splits)
  from str_cut_Some [OF this] p show "s = Token name i \<and> 0 < List.length name \<and> List.length name \<le> 32 \<and>
     0 < List.length i \<and> List.length i \<le> 128 \<and> list_all name_char name \<and> list_all id_char i"
    by (auto simp: ParseToken_def Token_def not_less split: option.splits if_splits)
next
  assume p: "s = Token name i \<and> 0 < List.length name \<and> List.length name \<le> 32 \<and> 0 < List.length i \<and>
     List.length i \<le> 128 \<and> list_all name_char name \<and> list_all id_char i"
  then have "CHR '':'' \<notin> set name" by (auto simp: list_all_iff name_char_def is_lower_def is_digit_def)
  then show "ParseToken s = Some (name, i)" using p by (simp add: ParseToken_def Token_def str_cut_sep)
qed

subsection \<open>Searching\<close>

definition fresh_source :: "source \<Rightarrow> bool" where
  "fresh_source s = (case s of
     ClientS c \<Rightarrow> cl_cache c = [] | RutrackerS r \<Rightarrow> rt_cache r = [])"

lemma fresh_source_source_ok: "fresh_source s \<Longrightarrow> source_ok s"
  by (cases s) (simp_all add: fresh_source_def client_ok_def rutracker_ok_def maxCacheEntries_def)

lemma fresh_source_ok: "list_all fresh_source ss \<Longrightarrow> searcher_ok (NewMulti ss)"
  by (auto simp: NewMulti_def list_all_iff fresh_source_source_ok split: list.splits)

lemma New_sources_fresh:
  "Client_New opts = Inr c \<Longrightarrow> fresh_source (ClientS c)"
  "NewRutracker hasFetcher ropts = Inr r \<Longrightarrow> fresh_source (RutrackerS r)"
  by (auto simp: fresh_source_def Client_New_def NewRutracker_def split: option.splits if_splits)

definition searched :: "((nat \<Rightarrow> surroundings) \<times> string) list \<Rightarrow> searcher \<Rightarrow> searcher" where
  "searched qs s = run_steps (\<lambda>(E, q) s. snd (searcher_Search E q s)) qs s"

text \<open>C14. Results come with the most seeders first, always: from one source, from several searched
  together, from the network or from a cache, after whatever searches came before.\<close>

theorem results_come_best_first:
  assumes "list_all fresh_source ss"
    and "fst (searcher_Search E q (searched qs (NewMulti ss))) = Inr (rs, ws)"
  shows "sorted_wrt (\<lambda>a b. res_Seeders b \<le> res_Seeders a) rs"
  using searcher.always_ordered [OF fresh_source_ok [OF assms(1)], of E q qs rs ws] assms(2)
  by (simp add: searched_def searcher.after_def best_first_def)

definition demo_surroundings :: "nat \<Rightarrow> surroundings" where
  "demo_surroundings = (\<lambda>_. \<lparr>su_net = demo_network 1, su_world = undefined\<rparr>)"

lemma demo_fresh: "list_all fresh_source [ClientS demo_client]"
  by (simp add: fresh_source_def demo_client_def)

theorem results_come_best_first_witness:
  "fst (searcher_Search demo_surroundings ''x'' (NewMulti [ClientS demo_client])) = Inr (demo_found, []) \<and>
   sorted_wrt (\<lambda>a b. res_Seeders b \<le> res_Seeders a) demo_found \<and> List.length demo_found = 2"
proof -
  have f: "fst (searcher_Search demo_surroundings ''x'' (NewMulti [ClientS demo_client])) = Inr (demo_found, [])"
    by (simp add: NewMulti_def demo_surroundings_def demo_search)
  then show ?thesis using results_come_best_first [OF demo_fresh, of demo_surroundings "''x''" "[]" demo_found "[]"]
    by (simp add: searched_def demo_found_def)
qed

definition found_in :: "answer \<Rightarrow> Result list" where
  "found_in a = (case a of Inl _ \<Rightarrow> [] | Inr (rs, _) \<Rightarrow> rs)"

lemma gather_facts:
  "fst (gather ps) = concat (map (found_in \<circ> snd) ps)"
  "snd (snd (gather ps)) = List.length (filter (isl \<circ> snd) ps)"
  by (induction ps rule: gather.induct) (auto simp: found_in_def case_prod_beta split: sum.splits)

lemma dedupe_facts:
  "distinct (filter (\<lambda>h. h \<noteq> []) (map (infoHash \<circ> res_Link) (dedupe rs)))"
  "set (dedupe rs) \<subseteq> set rs"
  "list_all (\<lambda>r. infoHash (res_Link r) \<in> infoHash ` res_Link ` set (dedupe rs)) rs"
  "filter (\<lambda>r. infoHash (res_Link r) = []) (dedupe rs) = filter (\<lambda>r. infoHash (res_Link r) = []) rs"
  using dedupe_from_distinct [of "[]" rs] set_dedupe_from [of "[]" rs] dedupe_from_keeps [of _ rs "[]"]
    dedupe_from_no_magnet [of "[]" rs]
  by (simp_all add: dedupe_def list_all_iff)

lemma filter_all_length: "List.length (filter P xs) = List.length xs \<longleftrightarrow> list_all P xs"
proof (induction xs)
  case (Cons x xs)
  then show ?case using length_filter_le [of P xs] by (auto simp: less_Suc_eq_le [symmetric])
qed simp

lemma mset_distinct: "mset xs = mset ys \<Longrightarrow> distinct xs \<longleftrightarrow> distinct ys"
  unfolding distinct_count_atmost_1 by (metis set_mset_mset)

lemma distinct_hashes_sorted:
  "distinct (filter P (map f (sortResults rs))) \<longleftrightarrow> distinct (filter P (map f rs))"
  by (rule mset_distinct) (simp add: sortResults_def filter_map)

text \<open>C15. Searching several sources together fails only if every one of them failed. Otherwise nothing that
  was found is lost and no torrent is listed twice: no two results have the same info hash, every
  result found has its info hash among those returned, and the results without one are all there.\<close>

theorem merged_results_lose_nothing_and_repeat_nothing:
  "let answers = map (\<lambda>(i, s). fst (source_search (E i) q s)) (enumerate 0 ss);
       found = concat (map found_in answers)
   in case fst (Multi_Search E q ss) of
        Inl _ \<Rightarrow> list_all isl answers
      | Inr (rs, ws) \<Rightarrow> list_ex (\<lambda>a. \<not> isl a) answers \<and>
          distinct (filter (\<lambda>h. h \<noteq> []) (map (infoHash \<circ> res_Link) rs)) \<and> set rs \<subseteq> set found \<and>
          list_all (\<lambda>r. infoHash (res_Link r) \<in> infoHash ` res_Link ` set rs) found \<and>
          mset (filter (\<lambda>r. infoHash (res_Link r) = []) rs) = mset (filter (\<lambda>r. infoHash (res_Link r) = []) found)"
proof -
  define answers where "answers = map (\<lambda>(i, s). fst (source_search (E i) q s)) (enumerate 0 ss)"
  define found where "found = concat (map found_in answers)"
  have len: "List.length answers = List.length ss" by (simp add: answers_def)
  let ?g = "gather (zip ss answers)"
  have as: "map fst (map (\<lambda>(i, s). source_search (E i) q s) (enumerate 0 ss)) = answers"
    by (simp add: answers_def comp_def case_prod_beta)
  have snds: "map (h \<circ> snd) (zip ss answers) = map h answers" for h :: "answer \<Rightarrow> 'x"
    using len by (metis map_map map_snd_zip)
  have f: "fst ?g = found" unfolding gather_facts found_def using snds [of found_in] by simp
  have "snd (snd ?g) = List.length (filter isl (map snd (zip ss answers)))"
    by (simp add: gather_facts filter_map)
  then have n: "snd (snd ?g) = List.length (filter isl answers)" using len by simp
  have all: "List.length (filter isl answers) = List.length ss \<longleftrightarrow> list_all isl answers"
    unfolding len [symmetric] by (rule filter_all_length)
  have m: "fst (Multi_Search E q ss) = (if list_all isl answers
      then Inl (Plain (''every indexer failed: '' @ str_join (fst (snd ?g)) ''; ''))
      else Inr (sortResults (dedupe found), fst (snd ?g)))"
    unfolding Multi_Search_def Let_def as using f n all by (simp add: case_prod_beta)
  have "mset (filter P (sortResults (dedupe found))) = mset (filter P (dedupe found))" for P
    by (simp add: sortResults_def)
  then have "mset (filter (\<lambda>r. infoHash (res_Link r) = []) (sortResults (dedupe found))) =
      mset (filter (\<lambda>r. infoHash (res_Link r) = []) found)"
    by (metis dedupe_facts(4))
  then show ?thesis using dedupe_facts(1-3) [of found] m
    unfolding Let_def answers_def [symmetric] found_def [symmetric]
    by (auto simp: distinct_hashes_sorted list_ex_iff list_all_iff)
qed

subsection \<open>Requests and the cache\<close>

text \<open>A request is sent at most as often as the client is configured to try; it is sent once only unless
  the first try timed out; and if every try times out, all of them are made and the error is a
  timeout.\<close>

theorem only_a_timeout_is_tried_again:
  "List.length (filter (\<lambda>s. s = Sent) (snd (do_request c N rq))) \<le>
     (case nt_send N rq 0 of
        Inr _ \<Rightarrow> 1
      | Inl err \<Rightarrow> if xe_deadline err \<or> xe_timeout err then cl_attempts c else 1)"
proof (cases "cl_attempts c")
  case (Suc n)
  then show ?thesis
    using do_from_steps [of c N rq 0 "cl_attempts c" "failed c KindUnreachable 0 None"]
      do_from_retries [of "cl_attempts c" N rq 0 _ c "failed c KindUnreachable 0 None"]
      do_from_reply [of "cl_attempts c" N rq 0 _ c "failed c KindUnreachable 0 None"]
    by (auto simp: do_request_def split: sum.split simp del: do_from.simps)
qed (simp add: do_request_def split: sum.split)

lemma Client_Search_cached:
  "cache_get (to_lower (trim_space q)) (nt_start N) (cl_cache c) = Some rs \<Longrightarrow> to_lower (trim_space q) \<noteq> [] \<Longrightarrow>
     Client_Search N q c = (Inr (rs, []), c)"
  by (simp add: Client_Search_def)

text \<open>C16. What a search found is what the same search finds again, without a request, until it expires:
  the query is compared without its case and the spaces around it.\<close>

theorem the_cache_answers_until_it_expires:
  assumes "fst (Client_Search N q c) = Inr (rs, ws)"
    and "cache_get (to_lower (trim_space q)) (nt_start N) (cl_cache c) = None"
    and "0 \<le> cl_ttl c" and "nt_start N' < nt_end N + cl_ttl c"
    and "to_lower (trim_space q') = to_lower (trim_space q)"
  shows "Client_Search N' q' (snd (Client_Search N q c)) = (Inr (rs, []), snd (Client_Search N q c))"
proof -
  let ?key = "to_lower (trim_space q)"
  let ?c = "snd (Client_Search N q c)"
  have k: "?key \<noteq> []" using assms(1) by (auto simp: Client_Search_def)
  have c: "?c = c\<lparr>cl_cache := cache_put ?key rs (nt_end N + cl_ttl c) (cl_ttl c) (cl_cache c)\<rparr>"
    using assms(1,2) k by (auto simp: Client_Search_def Let_def split: sum.splits prod.splits if_splits)
  then have "cache_get ?key (nt_start N') (cl_cache ?c) = Some rs"
    using cache_put_get [OF assms(3,4)] by simp
  then show ?thesis using k assms(5) Client_Search_cached by metis
qed

theorem the_cache_answers_until_it_expires_witness:
  "Client_Search (demo_network 9) '' X'' (snd (Client_Search (demo_network 1) ''x'' demo_client)) =
     (Inr (demo_found, []), snd (Client_Search (demo_network 1) ''x'' demo_client))"
proof (rule the_cache_answers_until_it_expires)
  show "fst (Client_Search (demo_network 1) ''x'' demo_client) = Inr (demo_found, [])" by (simp add: demo_search)
qed (simp_all add: demo_client_def cache_get_def demo_network_def demo_query DefaultCacheTTL_def)

definition remembered :: "searcher \<Rightarrow> nat list" where
  "remembered s = map (\<lambda>src. case src of
       ClientS c \<Rightarrow> List.length (cl_cache c) | RutrackerS r \<Rightarrow> List.length (rt_cache r))
     (case s of NoSearcher \<Rightarrow> [] | One src \<Rightarrow> [src] | Multi ss \<Rightarrow> ss)"

text \<open>C17. A cache is bounded: whatever is searched for, no client and no site plugin ever remembers more
  than 64 searches.\<close>

theorem caches_stay_bounded:
  assumes "list_all fresh_source ss"
  shows "list_all (\<lambda>n. n \<le> 64) (remembered (searched qs (NewMulti ss)))"
proof -
  have "searcher_ok (searched qs (NewMulti ss))"
    using searcher.after_inv [OF fresh_source_ok [OF assms], of qs] by (simp add: searched_def searcher.after_def)
  moreover have "source_ok s \<Longrightarrow> (case s of ClientS c \<Rightarrow> List.length (cl_cache c) | RutrackerS r \<Rightarrow> List.length (rt_cache r)) \<le> 64"
    for s by (cases s) (simp_all add: client_ok_def rutracker_ok_def maxCacheEntries_def)
  ultimately show ?thesis
    by (cases "searched qs (NewMulti ss)") (auto simp: remembered_def list_all_iff)
qed

theorem caches_stay_bounded_witness:
  "remembered (searched [(demo_surroundings, ''x'')] (NewMulti [ClientS demo_client])) = [1] \<and>
   list_all (\<lambda>n. n \<le> 64) (remembered (searched [(demo_surroundings, ''x'')] (NewMulti [ClientS demo_client])))"
  using caches_stay_bounded [OF demo_fresh, of "[(demo_surroundings, ''x'')]"]
  by (simp add: searched_def NewMulti_def demo_surroundings_def demo_search remembered_def)

subsection \<open>The session of the site plugin\<close>

lemma asked_Search: "asked 2 r (r'\<lparr>rt_cache := rt_cache r\<rparr>)" if "r' = snd (Rutracker_Search W q r)"
proof -
  obtain p r1 where p: "page W (rutrackerSearch @ QueryEscape (trim_space q)) r = (p, r1)" by force
  then have "asked 2 r r1" using asked_page by (metis snd_conv)
  moreover have "r' = r \<or> r' = r1 \<or> (\<exists>c. r' = r1\<lparr>rt_cache := c\<rparr>)"
    using that p by (auto simp: Rutracker_Search_def Let_def split: option.splits sum.splits)
  ultimately show ?thesis
    by (elim disjE exE) (auto simp: asked_def with_cookie_def gets_def)
qed

lemma asked_Resolve: "asked 2 r (snd (Resolve W i r))"
proof -
  obtain p r1 where p: "page W (rutrackerTopic @ i) r = (p, r1)" by force
  then have "asked 2 r r1" using asked_page by (metis snd_conv)
  then show ?thesis using p by (auto simp: Resolve_def Let_def split: option.split sum.split)
qed

text \<open>What is asked of the plugin: a search, or a link to resolve.\<close>

datatype site_op = SiteSearch string | SiteResolve string

fun site_step :: "world \<times> site_op \<Rightarrow> Rutracker \<Rightarrow> Rutracker" where
  "site_step (W, SiteSearch q) r = snd (Rutracker_Search W q r)"
| "site_step (W, SiteResolve i) r = snd (Resolve W i r)"

definition kept_session :: "string \<Rightarrow> Rutracker \<Rightarrow> bool" where
  "kept_session s r \<longleftrightarrow> rt_session r = s \<and> with_cookie s (rt_fetched r)"

lemma kept_session_asked: "asked n r r' \<Longrightarrow> kept_session s r \<Longrightarrow> kept_session s r'"
  unfolding asked_def kept_session_def with_cookie_def by (metis list_all_append)

lemma kept_session_step: "kept_session s r \<Longrightarrow> kept_session s (site_step x r)"
proof (induction x r rule: site_step.induct)
  case (1 W q r)
  from kept_session_asked [OF asked_Search [OF refl] this] show ?case by (simp add: kept_session_def)
next
  case (2 W i r)
  from kept_session_asked [OF asked_Resolve this] show ?case by simp
qed

interpretation site_sessions: invariant_ops site_step "kept_session s"
  by unfold_locales (rule kept_session_step)

text \<open>C18. The site plugin never learns a session. Whatever it searches for and resolves, and however often
  it logs in, every page it gets is asked for with the cookie it was configured with; without one,
  that is an empty cookie, also right after a login that succeeded.\<close>

theorem the_session_is_never_replaced:
  assumes "NewRutracker hasFetcher opts = Inr r0"
  shows "let r = run_steps site_step xs r0 in rt_session r = ro_Session opts \<and>
    list_all (\<lambda>f. case f of FetchGet u cookies \<Rightarrow> cookies = [(''bb_session'', ro_Session opts)] | _ \<Rightarrow> True) (rt_fetched r)"
proof -
  have "kept_session (ro_Session opts) r0"
    using assms by (auto simp: NewRutracker_def kept_session_def with_cookie_def split: if_splits)
  from site_sessions.run_inv [OF this, of xs] show ?thesis
    unfolding kept_session_def with_cookie_def sessionCookie_def Let_def by argo
qed

text \<open>A site that accepts the login and then shows a page with the name of the user on it.\<close>

definition demo_world :: world where
  "demo_world = \<lparr>wo_fetch = (\<lambda>_ _. Inr ''logged-in-username''), wo_parse = (\<lambda>_. Inl ''no''), wo_start = 1, wo_end = 2\<rparr>"

definition demo_site :: Rutracker where
  "demo_site = \<lparr>rt_opts = \<lparr>ro_Session = [], ro_Username = ''u'', ro_Password = ''p'', ro_CacheTTL = 0\<rparr>,
     rt_cache = [], rt_session = [], rt_fetched = []\<rparr>"

theorem the_session_is_never_replaced_witness:
  "case rt_fetched (site_step (demo_world, SiteResolve ''7'') demo_site) of
     [FetchGet u cookies, FetchPost l form _] \<Rightarrow> cookies = [(''bb_session'', [])] | _ \<Rightarrow> False"
proof -
  have n: "NewRutracker True \<lparr>ro_Session = [], ro_Username = ''u'', ro_Password = ''p'', ro_CacheTTL = 0\<rparr> = Inr demo_site"
    by (simp add: NewRutracker_def demo_site_def)
  have "atoi ''7'' = Some 7" by (simp add: atoi_def is_digit_def digits_val_def in_int64_def min_int64_def max_int64_def)
  moreover have "\<not> loggedOut ''logged-in-username''" "\<not> hasCaptcha ''logged-in-username''"
    by code_simp+
  ultimately have "\<exists>u c l f d. rt_fetched (site_step (demo_world, SiteResolve ''7'') demo_site) = [FetchGet u c, FetchPost l f d]"
    by (simp add: Resolve_def page_def fetchAs_def login_def get_page_def ask_def demo_world_def demo_site_def parse_page_def)
  then show ?thesis using the_session_is_never_replaced [OF n, of "[(demo_world, SiteResolve ''7'')]"]
    by (auto simp: Let_def)
qed

end
