(* ===== verification/IpcClient.thy ===== *)
theory IpcClient
  imports IpcServer
begin

text \<open>
  The client's end of the socket, \<^verbatim>\<open>internal/ipc/client.go\<close>: the sequence counter, the calls that wait
  for an answer, the one-slot channel of pushed events, and the method for each request. A method is
  written over \<open>call\<close>, the function \<^verbatim>\<open>callFor\<close> is to it, with the state it changes threaded through.
\<close>

subsection \<open>Calls that wait\<close>

record ipc_client =
  ic_seq :: "64 word"
  ic_pending :: "(64 word, unit) gomap"
  ic_events :: "Event option"
  ic_eventsClosed :: bool

definition Dial :: ipc_client where
  "Dial = \<lparr>ic_seq = 0, ic_pending = [], ic_events = None, ic_eventsClosed = False\<rparr>"

text \<open>The first half of \<^verbatim>\<open>callFor\<close>: the number, the entry that waits, the request to send.\<close>

definition begin_call :: "Request \<Rightarrow> ipc_client \<Rightarrow> Request \<times> ipc_client" where
  "begin_call req c = (let n = ic_seq c + 1
     in (req\<lparr>rq_Seq := n\<rparr>, c\<lparr>ic_seq := n, ic_pending := AList.update n () (ic_pending c)\<rparr>))"

definition abandon :: "64 word \<Rightarrow> ipc_client \<Rightarrow> ipc_client" where
  "abandon n c = c\<lparr>ic_pending := AList.delete n (ic_pending c)\<rparr>"

text \<open>What the read loop does with a reply: the caller it is handed to, if one still waits.\<close>

definition on_reply :: "Response \<Rightarrow> ipc_client \<Rightarrow> (64 word \<times> Response) list \<times> ipc_client" where
  "on_reply r c = ((if map_of (ic_pending c) (rsp_Seq r) = None then [] else [(rsp_Seq r, r)]),
     abandon (rsp_Seq r) c)"

text \<open>A channel with one slot: a send that does not block, and a receive that does not.\<close>

definition try_send :: "Event \<Rightarrow> Event option \<Rightarrow> bool \<times> Event option" where
  "try_send ev slot = (case slot of None \<Rightarrow> (True, Some ev) | Some x \<Rightarrow> (False, Some x))"

definition try_receive :: "Event option \<Rightarrow> Event option" where
  "try_receive slot = None"

definition pushEvent :: "Event \<Rightarrow> Event option \<Rightarrow> Event option" where
  "pushEvent ev slot = (let (sent, s1) = try_send ev slot
     in if sent then s1 else snd (try_send ev (try_receive s1)))"

definition failAllPending :: "string \<Rightarrow> ipc_client \<Rightarrow> (64 word \<times> Response) list \<times> ipc_client" where
  "failAllPending err c = (map (\<lambda>(n, _). (n, (response_to n)\<lparr>rsp_Err := err\<rparr>)) (ic_pending c),
     c\<lparr>ic_pending := []\<rparr>)"

text \<open>One turn of \<^verbatim>\<open>readLoop\<close>, and its end: who is answered, and the client after.\<close>

definition on_message :: "message \<Rightarrow> ipc_client \<Rightarrow> (64 word \<times> Response) list \<times> ipc_client" where
  "on_message m c = (case msg_Kind m of
     kindReply \<Rightarrow> (case msg_Resp m of None \<Rightarrow> ([], c) | Some r \<Rightarrow> on_reply r c)
   | kindEvent \<Rightarrow> (case msg_Event m of
       None \<Rightarrow> ([], c) | Some ev \<Rightarrow> ([], c\<lparr>ic_events := pushEvent ev (ic_events c)\<rparr>))
   | kindCall \<Rightarrow> ([], c))"

definition on_disconnect :: "string \<Rightarrow> ipc_client \<Rightarrow> (64 word \<times> Response) list \<times> ipc_client" where
  "on_disconnect err c =
     (let (out, c1) = failAllPending (''daemon connection closed: '' @ err) c
      in (out, c1\<lparr>ic_eventsClosed := True\<rparr>))"

text \<open>The second half of \<^verbatim>\<open>callFor\<close>: what the caller makes of what it waited for.\<close>

datatype waited = SendFailed string | Answered Response | ClientClosed | TimedOut

definition end_call :: "rpc_method \<Rightarrow> duration \<Rightarrow> waited \<Rightarrow> Response result" where
  "end_call meth timeout w = (case w of
     SendFailed err \<Rightarrow> Inl (''send '' @ method_name meth @ '': '' @ err)
   | Answered r \<Rightarrow>
       if rsp_Err r \<noteq> [] then Inl (method_name meth @ '': '' @ rsp_Err r) else Inr r
   | ClientClosed \<Rightarrow> Inl (method_name meth @ '': client closed'')
   | TimedOut \<Rightarrow> Inl (method_name meth @ '': timed out after '' @ duration_text timeout))"

interpretation event_slot: newest_mailbox pushEvent
  by unfold_locales (simp add: pushEvent_def try_send_def try_receive_def split: option.split)

subsection \<open>The methods\<close>

type_synonym 's caller = "Request \<Rightarrow> duration \<Rightarrow> 's \<Rightarrow> Response result \<times> 's"

definition ok_only :: "Response result \<times> 's \<Rightarrow> unit result \<times> 's" where
  "ok_only p = (case fst p of Inl err \<Rightarrow> Inl err | Inr _ \<Rightarrow> Inr (), snd p)"

definition reading :: "(Response \<Rightarrow> 'a) \<Rightarrow> Response result \<times> 's \<Rightarrow> 'a result \<times> 's" where
  "reading f p = (case fst p of Inl err \<Rightarrow> Inl err | Inr r \<Rightarrow> Inr (f r), snd p)"

definition c_Ping :: "'s caller \<Rightarrow> 's \<Rightarrow> unit result \<times> 's" where
  "c_Ping call s = ok_only (call (blank MethodPing) callTimeout s)"

definition c_AddMagnet :: "'s caller \<Rightarrow> string \<Rightarrow> AddOpts \<Rightarrow> 's \<Rightarrow> tid result \<times> 's" where
  "c_AddMagnet call uri opts s =
     reading rsp_ID (call ((blank MethodAddMagnet)\<lparr>rq_Source := uri, rq_Opts := opts\<rparr>) callTimeout s)"

definition c_AddTorrentFile :: "'s caller \<Rightarrow> string \<Rightarrow> AddOpts \<Rightarrow> 's \<Rightarrow> tid result \<times> 's" where
  "c_AddTorrentFile call path opts s =
     reading rsp_ID (call ((blank MethodAddTorrentFile)\<lparr>rq_Source := path, rq_Opts := opts\<rparr>) callTimeout s)"

definition c_AddBatch :: "'s caller \<Rightarrow> string list \<Rightarrow> AddOpts \<Rightarrow> 's \<Rightarrow> (tid list \<times> string list) result \<times> 's" where
  "c_AddBatch call sources opts s = reading (\<lambda>r. (rsp_IDs r, rsp_Errs r))
     (call ((blank MethodAddBatch)\<lparr>rq_Sources := sources, rq_Opts := opts\<rparr>) callTimeout s)"

definition c_Remove :: "'s caller \<Rightarrow> tid \<Rightarrow> bool \<Rightarrow> 's \<Rightarrow> unit result \<times> 's" where
  "c_Remove call k deleteData s =
     ok_only (call ((blank MethodRemove)\<lparr>rq_ID := k, rq_DeleteData := deleteData\<rparr>) callTimeout s)"

definition c_PurgeData :: "'s caller \<Rightarrow> tid \<Rightarrow> 's \<Rightarrow> unit result \<times> 's" where
  "c_PurgeData call k s = ok_only (call ((blank MethodPurgeData)\<lparr>rq_ID := k\<rparr>) callTimeout s)"

definition c_SetPaused :: "'s caller \<Rightarrow> tid \<Rightarrow> bool \<Rightarrow> 's \<Rightarrow> unit result \<times> 's" where
  "c_SetPaused call k paused s =
     ok_only (call ((blank MethodSetPaused)\<lparr>rq_ID := k, rq_Paused := paused\<rparr>) callTimeout s)"

definition c_ForceRecheck :: "'s caller \<Rightarrow> tid \<Rightarrow> 's \<Rightarrow> unit result \<times> 's" where
  "c_ForceRecheck call k s = ok_only (call ((blank MethodForceRecheck)\<lparr>rq_ID := k\<rparr>) callTimeout s)"

definition c_SetFilePriority :: "'s caller \<Rightarrow> tid \<Rightarrow> int \<Rightarrow> priority \<Rightarrow> 's \<Rightarrow> unit result \<times> 's" where
  "c_SetFilePriority call k i prio s = ok_only (call
     ((blank MethodSetFilePriority)\<lparr>rq_ID := k, rq_FileIndex := i, rq_Priority := prio\<rparr>) callTimeout s)"

definition c_SetGlobalUploadLimit :: "'s caller \<Rightarrow> int \<Rightarrow> 's \<Rightarrow> unit result \<times> 's" where
  "c_SetGlobalUploadLimit call bps s =
     ok_only (call ((blank MethodSetGlobalUploadLimit)\<lparr>rq_UploadBps := bps\<rparr>) callTimeout s)"

definition c_SetGlobalDownloadLimit :: "'s caller \<Rightarrow> int \<Rightarrow> 's \<Rightarrow> unit result \<times> 's" where
  "c_SetGlobalDownloadLimit call bps s =
     ok_only (call ((blank MethodSetGlobalDownloadLimit)\<lparr>rq_DownloadBps := bps\<rparr>) callTimeout s)"

definition c_SetTorrentRateLimit :: "'s caller \<Rightarrow> tid \<Rightarrow> int \<Rightarrow> int \<Rightarrow> 's \<Rightarrow> unit result \<times> 's" where
  "c_SetTorrentRateLimit call k u d s = ok_only (call
     ((blank MethodSetTorrentRateLimit)\<lparr>rq_ID := k, rq_UploadBps := u, rq_DownloadBps := d\<rparr>) callTimeout s)"

definition c_SetSeedLimit :: "'s caller \<Rightarrow> tid \<Rightarrow> f64 \<Rightarrow> duration \<Rightarrow> 's \<Rightarrow> unit result \<times> 's" where
  "c_SetSeedLimit call k ratio seedTime s = ok_only (call
     ((blank MethodSetSeedLimit)\<lparr>rq_ID := k, rq_SeedRatio := ratio, rq_SeedTime := seedTime\<rparr>) callTimeout s)"

definition c_SetLabel :: "'s caller \<Rightarrow> tid \<Rightarrow> string \<Rightarrow> 's \<Rightarrow> unit result \<times> 's" where
  "c_SetLabel call k label s =
     ok_only (call ((blank MethodSetLabel)\<lparr>rq_ID := k, rq_Label := label\<rparr>) callTimeout s)"

definition c_MoveStorage :: "'s caller \<Rightarrow> tid \<Rightarrow> string \<Rightarrow> 's \<Rightarrow> unit result \<times> 's" where
  "c_MoveStorage call k newDir s =
     ok_only (call ((blank MethodMoveStorage)\<lparr>rq_ID := k, rq_NewDir := newDir\<rparr>) callTimeout s)"

definition c_List :: "'s caller \<Rightarrow> 's \<Rightarrow> TorrentSnapshot list result \<times> 's" where
  "c_List call s = reading rsp_Snapshot (call (blank MethodList) callTimeout s)"

definition c_Search :: "'s caller \<Rightarrow> string \<Rightarrow> 's \<Rightarrow> (Result list \<times> string list) result \<times> 's" where
  "c_Search call query s = reading (\<lambda>r. (rsp_Results r, rsp_Errs r))
     (call ((blank MethodSearch)\<lparr>rq_Query := query\<rparr>) searchTimeout s)"

definition c_ResolveLink :: "'s caller \<Rightarrow> string \<Rightarrow> 's \<Rightarrow> string result \<times> 's" where
  "c_ResolveLink call token s =
     reading rsp_Link (call ((blank MethodResolveLink)\<lparr>rq_Token := token\<rparr>) searchTimeout s)"

fun c_ResolveLinks :: "'s caller \<Rightarrow> string list \<Rightarrow> 's \<Rightarrow> string list result \<times> 's" where
  "c_ResolveLinks call [] s = (Inr [], s)"
| "c_ResolveLinks call (arg # args) s =
     (if ParseToken arg = None
      then (case c_ResolveLinks call args s of
              (Inl err, s1) \<Rightarrow> (Inl err, s1) | (Inr out, s1) \<Rightarrow> (Inr (arg # out), s1))
      else (case c_ResolveLink call arg s of
              (Inl err, s1) \<Rightarrow> (Inl (arg @ '': '' @ err), s1)
            | (Inr link, s1) \<Rightarrow> (case c_ResolveLinks call args s1 of
                (Inl err, s2) \<Rightarrow> (Inl err, s2) | (Inr out, s2) \<Rightarrow> (Inr (link # out), s2))))"

definition c_SearchSources :: "'s caller \<Rightarrow> 's \<Rightarrow> string list result \<times> 's" where
  "c_SearchSources call s = reading rsp_Sources (call (blank MethodSearchSources) callTimeout s)"

definition c_PreviewURL :: "'s caller \<Rightarrow> tid \<Rightarrow> int \<Rightarrow> 's \<Rightarrow> string result \<times> 's" where
  "c_PreviewURL call k i s =
     (case call ((blank MethodPreviewURL)\<lparr>rq_ID := k, rq_FileIndex := i\<rparr>) callTimeout s of
        (Inl err, s1) \<Rightarrow> (Inl err, s1)
      | (Inr r, s1) \<Rightarrow> (if rsp_URL r = [] then Inl ''empty preview url response'' else Inr (rsp_URL r), s1))"

definition c_Detail :: "'s caller \<Rightarrow> tid \<Rightarrow> 's \<Rightarrow> EngineTypes.TorrentDetail result \<times> 's" where
  "c_Detail call k s = (case call ((blank MethodDetail)\<lparr>rq_ID := k\<rparr>) callTimeout s of
     (Inl err, s1) \<Rightarrow> (Inl err, s1)
   | (Inr r, s1) \<Rightarrow> (case rsp_Detail r of None \<Rightarrow> Inl ''empty detail response'' | Some d \<Rightarrow> Inr d, s1))"

definition c_Shutdown :: "'s caller \<Rightarrow> 's \<Rightarrow> unit result \<times> 's" where
  "c_Shutdown call s = ok_only (call (blank MethodShutdown) callTimeout s)"

text \<open>A call over a connection nothing disturbs: the daemon's answer to the request itself.\<close>

definition direct_call :: "lib \<Rightarrow> machine \<Rightarrow> (nat \<Rightarrow> surroundings) \<Rightarrow> daemon caller" where
  "direct_call L mc E req timeout d = (let (r, d1) = dispatch L mc E req d
     in (end_call (rq_Method req) timeout (Answered r), d1))"

subsection \<open>Lemmas\<close>

lemma pushEvent_newest [simp]: "pushEvent ev slot = Some ev"
  by (rule event_slot.offer_newest)

lemma begin_call_simps [simp]:
  "ic_seq (snd (begin_call req c)) = ic_seq c + 1" "rq_Seq (fst (begin_call req c)) = ic_seq c + 1"
  "rq_Method (fst (begin_call req c)) = rq_Method req"
  "ic_pending (snd (begin_call req c)) = AList.update (ic_seq c + 1) () (ic_pending c)"
  by (simp_all add: begin_call_def Let_def)

lemma on_message_seq [simp]: "ic_seq (snd (on_message m c)) = ic_seq c"
  by (simp add: on_message_def on_reply_def abandon_def split: msgKind.split option.split)

lemma on_message_answers:
  "(n, r) \<in> set (fst (on_message m c)) \<Longrightarrow>
     msg_Kind m = kindReply \<and> msg_Resp m = Some r \<and> rsp_Seq r = n \<and> map_of (ic_pending c) n \<noteq> None"
  by (auto simp: on_message_def on_reply_def split: msgKind.splits option.splits if_splits)

lemma on_message_pending:
  "map_of (ic_pending (snd (on_message m c))) n \<noteq> None \<Longrightarrow> map_of (ic_pending c) n \<noteq> None"
  by (auto simp: on_message_def on_reply_def abandon_def split: msgKind.splits option.splits if_splits)

lemma on_disconnect_answers:
  "(n, r) \<in> set (fst (on_disconnect err c)) \<Longrightarrow> rsp_Seq r = n \<and> rsp_Err r \<noteq> [] \<and> map_of (ic_pending c) n \<noteq> None"
  by (force simp: on_disconnect_def failAllPending_def map_of_eq_None_iff)

lemma ResolveLinks_no_tokens:
  "list_all (\<lambda>a. ParseToken a = None) args \<Longrightarrow> c_ResolveLinks call args s = (Inr args, s)"
  by (induction args) auto

lemma ResolveLinks_length:
  "c_ResolveLinks call args s = (Inr out, s') \<Longrightarrow> List.length out = List.length args"
  by (induction args arbitrary: s out) (auto split: if_splits prod.splits sum.splits)

subsection \<open>The engine at the other end\<close>

text \<open>What a call returns to the client when the engine's operation returned this.\<close>

definition at_a_distance :: "string \<Rightarrow> daemon \<Rightarrow> unit result \<times> engine \<Rightarrow> unit result \<times> daemon" where
  "at_a_distance name d out = (case fst out of
       Inl err \<Rightarrow> if err = [] then Inr () else Inl (name @ '': '' @ err)
     | Inr _ \<Rightarrow> Inr (), d\<lparr>d_engine := snd out\<rparr>)"

lemma direct_plain:
  "ok_only (let (r, d1) = plain_call req out d in (end_call meth timeout (Answered r), d1)) =
     at_a_distance (method_name meth) d out"
  by (simp add: ok_only_def plain_call_def engine_call_def at_a_distance_def end_call_def Let_def split: sum.split)

lemmas remote_defs = direct_call_def dispatch_def Let_def blank_def direct_plain [unfolded Let_def]

lemma remote_calls:
  "c_Remove (direct_call L mc E) k del d = at_a_distance ''Remove'' d (RemoveTorrent L mc k del (d_engine d))"
  "c_PurgeData (direct_call L mc E) k d = at_a_distance ''PurgeData'' d (PurgeData L mc k (d_engine d))"
  "c_SetPaused (direct_call L mc E) k p d = at_a_distance ''SetPaused'' d (SetPaused L mc k p (d_engine d))"
  "c_ForceRecheck (direct_call L mc E) k d = at_a_distance ''ForceRecheck'' d (ForceRecheck L mc k (d_engine d))"
  "c_SetFilePriority (direct_call L mc E) k i prio d = at_a_distance ''SetFilePriority'' d (SetFilePriority L mc k i prio (d_engine d))"
  "c_SetTorrentRateLimit (direct_call L mc E) k u w d = at_a_distance ''SetTorrentRateLimit'' d (SetTorrentRateLimit L mc k u w (d_engine d))"
  "c_SetSeedLimit (direct_call L mc E) k ratio t d = at_a_distance ''SetSeedLimit'' d (SetSeedLimit L mc k ratio t (d_engine d))"
  "c_SetLabel (direct_call L mc E) k l d = at_a_distance ''SetLabel'' d (SetLabel L mc k l (d_engine d))"
  "c_MoveStorage (direct_call L mc E) k dir d = at_a_distance ''MoveStorage'' d (MoveStorage L mc k dir (d_engine d))"
  by (simp_all add: c_Remove_def c_PurgeData_def c_SetPaused_def c_ForceRecheck_def c_SetFilePriority_def
      c_SetTorrentRateLimit_def c_SetSeedLimit_def c_SetLabel_def c_MoveStorage_def remote_defs)

end
