(* ===== verification/RpcLink.thy ===== *)
theory RpcLink
  imports IpcClient
begin

text \<open>
  One client and the daemon, with the connection between them as two queues of messages. A step is a
  call begun, a turn of the daemon's read loop, a search that finishes, an event pushed, a message
  read, a call given up, the connection lost, or anything else that happens to the engine meanwhile
  (\<^verbatim>\<open>handleConn\<close> of \<^verbatim>\<open>server.go\<close> and \<^verbatim>\<open>readLoop\<close>, \<^verbatim>\<open>callFor\<close> of \<^verbatim>\<open>client.go\<close>). Four lists only
  record: the calls begun, the requests carried out, what was put on the wire to the client, and the
  answers handed to callers.
\<close>

record link =
  lk_client :: ipc_client
  lk_up :: "message list"
  lk_down :: "message list"
  lk_slow :: "Request list"
  lk_daemon :: daemon
  lk_server :: server
  lk_serving :: bool
  lk_calls :: "Request list"
  lk_served :: "Request list"
  lk_written :: "message list"
  lk_answers :: "(64 word \<times> Response) list"

definition link_start :: "daemon \<Rightarrow> link" where
  "link_start d = \<lparr>lk_client = Dial, lk_up = [], lk_down = [], lk_slow = [], lk_daemon = d,
     lk_server = \<lparr>sv_conns = [0], sv_closing = False, sv_hungUp = [], sv_shutdown = False\<rparr>,
     lk_serving = True, lk_calls = [], lk_served = [], lk_written = [], lk_answers = []\<rparr>"

definition send_down :: "message \<Rightarrow> link \<Rightarrow> link" where
  "send_down m s = s\<lparr>lk_down := lk_down s @ [m], lk_written := m # lk_written s\<rparr>"

definition is_slow :: "rpc_method \<Rightarrow> bool" where
  "is_slow meth \<longleftrightarrow> meth = MethodSearch \<or> meth = MethodResolveLink"

text \<open>Answer one request, and after the reply has gone out see whether it asked for a shutdown.\<close>

definition answer_now :: "lib \<Rightarrow> machine \<Rightarrow> (nat \<Rightarrow> surroundings) \<Rightarrow> Request \<Rightarrow> link \<Rightarrow> link" where
  "answer_now L mc E rq s = (let (r, d) = dispatch L mc E rq (lk_daemon s);
       s1 = send_down (reply_msg r) (s\<lparr>lk_daemon := d, lk_served := rq # lk_served s\<rparr>)
     in if rq_Method rq = MethodShutdown \<and> rsp_OK r
        then s1\<lparr>lk_server := requestShutdown (lk_server s1), lk_serving := False\<rparr> else s1)"

text \<open>A turn of the daemon's read loop.\<close>

definition serve_turn :: "lib \<Rightarrow> machine \<Rightarrow> (nat \<Rightarrow> surroundings) \<Rightarrow> link \<Rightarrow> link" where
  "serve_turn L mc E s = (case lk_up s of
     [] \<Rightarrow> s
   | m # ms \<Rightarrow> (let s1 = s\<lparr>lk_up := ms\<rparr> in
      if \<not> lk_serving s then s
      else (case msg_Req m of
          None \<Rightarrow> s1
        | Some rq \<Rightarrow>
            if msg_Kind m \<noteq> kindCall then s1
            else if is_slow (rq_Method rq) then s1\<lparr>lk_slow := rq # lk_slow s1\<rparr>
            else answer_now L mc E rq s1)))"

text \<open>The goroutine of a search, at its end.\<close>

definition slow_turn :: "lib \<Rightarrow> machine \<Rightarrow> (nat \<Rightarrow> surroundings) \<Rightarrow> Request \<Rightarrow> link \<Rightarrow> link" where
  "slow_turn L mc E rq s = (if rq \<notin> set (lk_slow s) then s
     else let (r, d) = dispatch L mc E rq (lk_daemon s)
          in send_down (reply_msg r) (s\<lparr>lk_daemon := d, lk_slow := remove1 rq (lk_slow s), lk_served := rq # lk_served s\<rparr>))"

definition call_turn :: "Request \<Rightarrow> bool \<Rightarrow> link \<Rightarrow> link" where
  "call_turn req sent s = (let (rq, c) = begin_call req (lk_client s) in
     if sent then s\<lparr>lk_client := c, lk_calls := rq # lk_calls s, lk_up := lk_up s @ [call_msg rq]\<rparr>
     else s\<lparr>lk_client := abandon (rq_Seq rq) c, lk_calls := rq # lk_calls s\<rparr>)"

definition read_turn :: "link \<Rightarrow> link" where
  "read_turn s = (case lk_down s of
     [] \<Rightarrow> s
   | m # ms \<Rightarrow> (let (out, c) = on_message m (lk_client s)
       in s\<lparr>lk_client := c, lk_down := ms, lk_answers := out @ lk_answers s\<rparr>))"

definition lost :: "string \<Rightarrow> link \<Rightarrow> link" where
  "lost err s = (let (out, c) = on_disconnect err (lk_client s)
     in s\<lparr>lk_client := c, lk_down := [], lk_serving := False, lk_answers := out @ lk_answers s\<rparr>)"

inductive link_step :: "link \<Rightarrow> link \<Rightarrow> bool" where
  Call: "link_step s (call_turn req sent s)"
| Serve: "link_step s (serve_turn L mc E s)"
| Slow: "link_step s (slow_turn L mc E rq s)"
| Push: "link_step s (send_down (event_msg ev) s)"
| Read: "link_step s (read_turn s)"
| GiveUp: "link_step s (s\<lparr>lk_client := abandon n (lk_client s)\<rparr>)"
| Lost: "link_step s (lost err s)"
| Engine: "link_step s (s\<lparr>lk_daemon := lk_daemon s\<lparr>d_engine := engine_step x (d_engine (lk_daemon s))\<rparr>\<rparr>)"

inductive linked :: "daemon \<Rightarrow> link \<Rightarrow> bool" for d where
  start: "linked d (link_start d)"
| step: "linked d s \<Longrightarrow> link_step s s' \<Longrightarrow> linked d s'"

inductive_cases link_stepE: "link_step s s'"

subsection \<open>Invariants of a connection\<close>

text \<open>A response the daemon made to one of these requests.\<close>

definition genuine :: "Request list \<Rightarrow> Response \<Rightarrow> bool" where
  "genuine rqs r \<longleftrightarrow> (\<exists>rq\<in>set rqs. \<exists>L mc E d. r = fst (dispatch L mc E rq d))"

definition hung_up :: "64 word \<Rightarrow> Response \<Rightarrow> bool" where
  "hung_up n r \<longleftrightarrow> (\<exists>err. r = (response_to n)\<lparr>rsp_Err := ''daemon connection closed: '' @ err\<rparr>)"

text \<open>What is on its way is a call that was begun or an answer to one.\<close>

definition traffic_ok :: "link \<Rightarrow> bool" where
  "traffic_ok s \<longleftrightarrow> (\<forall>m\<in>set (lk_up s). \<exists>rq\<in>set (lk_calls s). m = call_msg rq) \<and>
     set (lk_slow s) \<subseteq> set (lk_calls s) \<and>
     (\<forall>m\<in>set (lk_down s). \<forall>r. msg_Resp m = Some r \<longrightarrow> genuine (lk_calls s) r) \<and>
     (\<forall>(n, r)\<in>set (lk_answers s). rsp_Seq r = n \<and> (hung_up n r \<or> genuine (lk_calls s) r))"

text \<open>Calls are numbered in the order they are begun.\<close>

definition numbered :: "link \<Rightarrow> bool" where
  "numbered s \<longleftrightarrow> ic_seq (lk_client s) = of_nat (List.length (lk_calls s)) \<and>
     map rq_Seq (lk_calls s) = map of_nat (rev [1..<Suc (List.length (lk_calls s))])"

text \<open>Nobody is answered twice, and who still waits has not been answered.\<close>

definition answered_once :: "link \<Rightarrow> bool" where
  "answered_once s \<longleftrightarrow> distinct_keys (ic_pending (lk_client s)) \<and>
     fst ` set (ic_pending (lk_client s)) \<subseteq> rq_Seq ` set (lk_calls s) \<and>
     fst ` set (lk_answers s) \<subseteq> rq_Seq ` set (lk_calls s) \<and>
     distinct (map fst (lk_answers s)) \<and>
     fst ` set (lk_answers s) \<inter> fst ` set (ic_pending (lk_client s)) = {}"

lemma genuine_mono: "genuine rqs r \<Longrightarrow> genuine (rq # rqs) r"
  by (auto simp: genuine_def)

lemma genuine_dispatch: "rq \<in> set rqs \<Longrightarrow> genuine rqs (fst (dispatch L mc E rq d))"
  unfolding genuine_def by blast

lemma send_down_simps [simp]:
  "lk_up (send_down m s) = lk_up s" "lk_down (send_down m s) = lk_down s @ [m]" "lk_slow (send_down m s) = lk_slow s"
  "lk_calls (send_down m s) = lk_calls s" "lk_answers (send_down m s) = lk_answers s"
  "lk_client (send_down m s) = lk_client s" "lk_daemon (send_down m s) = lk_daemon s"
  "lk_server (send_down m s) = lk_server s" "lk_serving (send_down m s) = lk_serving s"
  "lk_served (send_down m s) = lk_served s" "lk_written (send_down m s) = m # lk_written s"
  by (simp_all add: send_down_def)

lemma answer_now_simps [simp]:
  "lk_up (answer_now L mc E rq s) = lk_up s" "lk_slow (answer_now L mc E rq s) = lk_slow s"
  "lk_calls (answer_now L mc E rq s) = lk_calls s" "lk_answers (answer_now L mc E rq s) = lk_answers s"
  "lk_client (answer_now L mc E rq s) = lk_client s" "lk_served (answer_now L mc E rq s) = rq # lk_served s"
  "lk_down (answer_now L mc E rq s) = lk_down s @ [reply_msg (fst (dispatch L mc E rq (lk_daemon s)))]"
  "lk_daemon (answer_now L mc E rq s) = snd (dispatch L mc E rq (lk_daemon s))"
  "lk_written (answer_now L mc E rq s) = reply_msg (fst (dispatch L mc E rq (lk_daemon s))) # lk_written s"
  by (simp_all add: answer_now_def Let_def case_prod_beta)

lemma serve_turn_cases:
  "serve_turn L mc E s = s \<or>
   (\<exists>m ms. lk_up s = m # ms \<and> (serve_turn L mc E s = s\<lparr>lk_up := ms\<rparr> \<or>
      (\<exists>rq. msg_Req m = Some rq \<and>
        (serve_turn L mc E s = s\<lparr>lk_up := ms, lk_slow := rq # lk_slow s\<rparr> \<or>
         serve_turn L mc E s = answer_now L mc E rq (s\<lparr>lk_up := ms\<rparr>)))))"
  by (auto simp: serve_turn_def Let_def split: list.split option.split)

lemma traffic_answer:
  "traffic_ok s \<Longrightarrow> rq \<in> set (lk_calls s) \<Longrightarrow> traffic_ok (answer_now L mc E rq s)"
  by (auto simp: traffic_ok_def genuine_dispatch)

lemma traffic_serve: "traffic_ok s \<Longrightarrow> traffic_ok (serve_turn L mc E s)"
proof -
  assume ok: "traffic_ok s"
  show ?thesis using serve_turn_cases [of L mc E s]
  proof (elim disjE exE conjE)
    fix m ms rq assume m: "lk_up s = m # ms" "msg_Req m = Some rq"
      "serve_turn L mc E s = answer_now L mc E rq (s\<lparr>lk_up := ms\<rparr>)"
    have "rq \<in> set (lk_calls s)" using ok m(1,2) by (auto simp: traffic_ok_def)
    moreover have "traffic_ok (s\<lparr>lk_up := ms\<rparr>)" using ok m(1) by (auto simp: traffic_ok_def)
    ultimately show ?thesis using m(3) traffic_answer by simp
  qed (use ok in \<open>auto simp: traffic_ok_def\<close>)
qed

lemma traffic_step: "link_step s s' \<Longrightarrow> traffic_ok s \<Longrightarrow> traffic_ok s'"
proof (induction rule: link_step.cases)
  case (Call s req sent)
  then show ?case
    by (auto simp: traffic_ok_def call_turn_def Let_def case_prod_beta intro: genuine_mono)
next
  case (Slow s L mc E rq)
  then show ?case using set_remove1_subset [of rq "lk_slow s"]
    by (auto simp: traffic_ok_def slow_turn_def Let_def case_prod_beta intro!: genuine_dispatch)
next
  case (Read s)
  then show ?case
    by (auto simp: traffic_ok_def read_turn_def Let_def case_prod_beta dest!: on_message_answers split: list.splits)
next
  case (Lost s err)
  then show ?case
    by (auto simp: traffic_ok_def lost_def Let_def case_prod_beta on_disconnect_def failAllPending_def hung_up_def)
qed (auto simp: traffic_serve, auto simp: traffic_ok_def)


text \<open>A call is carried out at most once: what is on its way, being searched and done is all distinct.\<close>

definition on_the_way :: "link \<Rightarrow> Request list" where
  "on_the_way s = List.map_filter msg_Req (lk_up s) @ lk_slow s @ lk_served s"

definition served_once :: "link \<Rightarrow> bool" where
  "served_once s \<longleftrightarrow> distinct (on_the_way s) \<and> set (on_the_way s) \<subseteq> set (lk_calls s)"

text \<open>Once a shutdown was asked for, its answer is out and the read loop is over.\<close>

definition shut_ok :: "link \<Rightarrow> bool" where
  "shut_ok s \<longleftrightarrow> (sv_shutdown (lk_server s) \<longrightarrow> \<not> lk_serving s \<and>
     (\<exists>rq\<in>set (lk_calls s). rq_Method rq = MethodShutdown \<and> reply_msg (accepted rq) \<in> set (lk_written s)))"

lemma serve_turn_rest [simp]:
  "lk_calls (serve_turn L mc E s) = lk_calls s" "lk_client (serve_turn L mc E s) = lk_client s"
  "lk_answers (serve_turn L mc E s) = lk_answers s"
  using serve_turn_cases [of L mc E s] by auto

lemma slow_turn_rest [simp]:
  "lk_calls (slow_turn L mc E rq s) = lk_calls s" "lk_client (slow_turn L mc E rq s) = lk_client s"
  "lk_answers (slow_turn L mc E rq s) = lk_answers s" "lk_server (slow_turn L mc E rq s) = lk_server s"
  "lk_up (slow_turn L mc E rq s) = lk_up s" "lk_serving (slow_turn L mc E rq s) = lk_serving s"
  by (simp_all add: slow_turn_def case_prod_beta)

lemma read_turn_rest [simp]:
  "lk_calls (read_turn s) = lk_calls s" "lk_up (read_turn s) = lk_up s" "lk_slow (read_turn s) = lk_slow s"
  "lk_served (read_turn s) = lk_served s" "lk_daemon (read_turn s) = lk_daemon s"
  "lk_server (read_turn s) = lk_server s" "lk_written (read_turn s) = lk_written s"
  "lk_serving (read_turn s) = lk_serving s" "ic_seq (lk_client (read_turn s)) = ic_seq (lk_client s)"
  by (simp_all add: read_turn_def case_prod_beta split: list.split)

lemma lost_rest [simp]:
  "lk_calls (lost err s) = lk_calls s" "lk_up (lost err s) = lk_up s" "lk_slow (lost err s) = lk_slow s"
  "lk_served (lost err s) = lk_served s" "lk_daemon (lost err s) = lk_daemon s"
  "lk_server (lost err s) = lk_server s" "lk_written (lost err s) = lk_written s" "\<not> lk_serving (lost err s)"
  "ic_seq (lk_client (lost err s)) = ic_seq (lk_client s)" "ic_pending (lk_client (lost err s)) = []"
  by (simp_all add: lost_def case_prod_beta on_disconnect_def failAllPending_def)

lemma call_turn_rest [simp]:
  "lk_calls (call_turn req sent s) = fst (begin_call req (lk_client s)) # lk_calls s"
  "lk_slow (call_turn req sent s) = lk_slow s" "lk_served (call_turn req sent s) = lk_served s"
  "lk_daemon (call_turn req sent s) = lk_daemon s" "lk_server (call_turn req sent s) = lk_server s"
  "lk_written (call_turn req sent s) = lk_written s" "lk_serving (call_turn req sent s) = lk_serving s"
  "lk_answers (call_turn req sent s) = lk_answers s"
  "lk_up (call_turn req sent s) = lk_up s @ (if sent then [call_msg (fst (begin_call req (lk_client s)))] else [])"
  "ic_seq (lk_client (call_turn req sent s)) = ic_seq (lk_client s) + 1"
  by (simp_all add: call_turn_def case_prod_beta abandon_def)

lemma numbered_step: "link_step s s' \<Longrightarrow> numbered s \<Longrightarrow> numbered s'"
  by (induction rule: link_step.cases) (auto simp: numbered_def abandon_def)

text \<open>A number that is given out is new, until the counter wraps.\<close>

lemma word64_of_nat_inj: "i < 2 ^ 64 \<Longrightarrow> j < 2 ^ 64 \<Longrightarrow> (of_nat i :: 64 word) = of_nat j \<longleftrightarrow> i = j"
  by (simp add: word_of_nat_eq_iff take_bit_nat_eq_self)

lemma word64_of_nat_inj_on: "n < 2 ^ 64 \<Longrightarrow> inj_on (of_nat :: nat \<Rightarrow> 64 word) {..n}"
  by (auto simp: inj_on_def word64_of_nat_inj)

lemma numbered_distinct:
  assumes "numbered s" and "List.length (lk_calls s) < 2 ^ 64"
  shows "distinct (map rq_Seq (lk_calls s))"
proof -
  have "inj_on (of_nat :: nat \<Rightarrow> 64 word) {1..<Suc (List.length (lk_calls s))}"
    by (rule inj_on_subset [OF word64_of_nat_inj_on [OF assms(2)]]) auto
  then have "distinct (map (of_nat :: nat \<Rightarrow> 64 word) (rev [1..<Suc (List.length (lk_calls s))]))"
    by (simp add: distinct_map del: upt_Suc)
  then show ?thesis using assms(1) unfolding numbered_def by argo
qed

lemma numbered_fresh:
  assumes "numbered s" and "List.length (lk_calls s) + 1 < 2 ^ 64"
  shows "ic_seq (lk_client s) + 1 \<notin> rq_Seq ` set (lk_calls s)"
proof -
  let ?n = "List.length (lk_calls s)"
  have "map rq_Seq (lk_calls s) = map of_nat (rev [1..<Suc ?n])" using assms(1) by (simp only: numbered_def)
  then have "set (map rq_Seq (lk_calls s)) = set (map of_nat (rev [1..<Suc ?n]))" by (rule arg_cong)
  then have "rq_Seq ` set (lk_calls s) = of_nat ` {1..<Suc ?n}" by (simp del: upt_Suc)
  moreover have "ic_seq (lk_client s) + 1 = of_nat (Suc ?n)" using assms(1) by (simp add: numbered_def)
  moreover have "(of_nat (Suc ?n) :: 64 word) \<notin> of_nat ` {1..<Suc ?n}"
    using inj_on_image_mem_iff [OF word64_of_nat_inj_on, of "Suc ?n" "Suc ?n" "{1..<Suc ?n}"] assms(2)
    by (simp add: subset_iff del: of_nat_Suc)
  ultimately show ?thesis by metis
qed

lemma calls_grow: "link_step s s' \<Longrightarrow> List.length (lk_calls s) \<le> List.length (lk_calls s')"
  by (induction rule: link_step.cases) auto


lemma on_message_keys:
  "map fst (ic_pending (snd (on_message m c))) = fold removeAll (map fst (fst (on_message m c))) (map fst (ic_pending c)) \<and>
   set (map fst (fst (on_message m c))) \<subseteq> fst ` set (ic_pending c) \<and> distinct (map fst (fst (on_message m c)))"
  by (auto simp: on_message_def on_reply_def abandon_def delete_keys map_of_eq_None_iff
           split: msgKind.split option.split)

lemma on_disconnect_keys:
  "map fst (fst (on_disconnect err c)) = map fst (ic_pending c)"
  by (simp add: on_disconnect_def failAllPending_def comp_def case_prod_beta)

lemma fold_removeAll: "set (fold removeAll ks xs) = set xs - set ks"
  by (induction ks arbitrary: xs) auto

lemma distinct_fold_removeAll: "distinct xs \<Longrightarrow> distinct (fold removeAll ks xs)"
  by (induction ks arbitrary: xs) (auto simp: distinct_removeAll)

text \<open>Who waits, by number, and what a step does to it.\<close>

definition still_waiting :: "link \<Rightarrow> 64 word list" where
  "still_waiting s = map fst (ic_pending (lk_client s))"

lemma answered_once_alt:
  "answered_once s \<longleftrightarrow> distinct (still_waiting s) \<and> set (still_waiting s) \<subseteq> rq_Seq ` set (lk_calls s) \<and>
     set (map fst (lk_answers s)) \<subseteq> rq_Seq ` set (lk_calls s) \<and> distinct (map fst (lk_answers s)) \<and>
     set (map fst (lk_answers s)) \<inter> set (still_waiting s) = {}"
  by (simp add: answered_once_def still_waiting_def distinct_keys_def)

lemma answered_once_answer:
  assumes "answered_once s" and "lk_calls s' = lk_calls s"
    and "map fst (lk_answers s') = ks @ map fst (lk_answers s)" and "distinct ks" and "set ks \<subseteq> set (still_waiting s)"
    and "still_waiting s' = fold removeAll ks (still_waiting s)"
  shows "answered_once s'"
  using assms unfolding answered_once_alt
  by (auto simp: fold_removeAll distinct_fold_removeAll)

lemma answered_once_read: "answered_once s \<Longrightarrow> answered_once (read_turn s)"
proof (cases "lk_down s")
  case (Cons m ms)
  assume a: "answered_once s"
  show ?thesis
    by (rule answered_once_answer [OF a, where ks = "map fst (fst (on_message m (lk_client s)))"])
       (use on_message_keys [of m "lk_client s"] Cons in \<open>simp_all add: read_turn_def case_prod_beta still_waiting_def\<close>)
qed (simp add: read_turn_def)

lemma answered_once_lost: "answered_once s \<Longrightarrow> answered_once (lost err s)"
  by (auto simp: answered_once_alt lost_def case_prod_beta on_disconnect_keys still_waiting_def on_disconnect_def
           failAllPending_def comp_def)

lemma still_waiting_call:
  "still_waiting (call_turn req sent s) = (let n = ic_seq (lk_client s) + 1;
     w = (if n \<in> set (still_waiting s) then still_waiting s else still_waiting s @ [n]) in if sent then w else removeAll n w)"
  by (simp add: still_waiting_def call_turn_def case_prod_beta abandon_def begin_call_def Let_def update_keys delete_keys)

lemma answered_once_call:
  assumes "answered_once s" and "ic_seq (lk_client s) + 1 \<notin> rq_Seq ` set (lk_calls s)"
  shows "answered_once (call_turn req sent s)"
proof -
  let ?n = "ic_seq (lk_client s) + 1"
  have n: "?n \<notin> set (still_waiting s)" "?n \<notin> set (map fst (lk_answers s))"
    using assms unfolding answered_once_alt by blast+
  then have "set (still_waiting (call_turn req sent s)) \<subseteq> insert ?n (set (still_waiting s))" "distinct (still_waiting (call_turn req sent s))"
    using assms(1) by (auto simp: still_waiting_call Let_def answered_once_alt)
  then show ?thesis using assms n unfolding answered_once_alt
    by (simp only: call_turn_rest list.set image_insert begin_call_simps) blast
qed

lemma answered_once_step:
  assumes "link_step s s'" and "numbered s" and "List.length (lk_calls s') < 2 ^ 64" and "answered_once s"
  shows "answered_once s'"
  using assms
proof (induction rule: link_step.cases)
  case (Call s req sent)
  then show ?case using answered_once_call numbered_fresh by simp
next
  case (GiveUp s n)
  then show ?case by (auto simp: answered_once_alt still_waiting_def abandon_def delete_keys distinct_removeAll)
qed (auto simp: answered_once_read answered_once_lost, auto simp: answered_once_def)

lemma map_filter_append: "List.map_filter f (xs @ ys) = List.map_filter f xs @ List.map_filter f ys"
  by (simp add: map_filter_def)

lemma served_once_serve: "served_once s \<Longrightarrow> served_once (serve_turn L mc E s)"
  using serve_turn_cases [of L mc E s]
  by (elim disjE exE conjE)
     (auto simp: served_once_def on_the_way_def map_filter_simps split: option.splits)

lemma served_once_slow: "served_once s \<Longrightarrow> served_once (slow_turn L mc E rq s)"
  by (auto simp: served_once_def on_the_way_def slow_turn_def case_prod_beta set_remove1_eq)

lemma served_once_step:
  assumes "link_step s s'" and "numbered s" and "List.length (lk_calls s') < 2 ^ 64" and "served_once s"
  shows "served_once s'"
  using assms
proof (induction rule: link_step.cases)
  case (Call s req sent)
  then have "fst (begin_call req (lk_client s)) \<notin> set (lk_calls s)"
    using numbered_fresh [of s] by (force simp: image_iff)
  with Call show ?case
    by (auto simp: served_once_def on_the_way_def map_filter_append map_filter_simps)
qed (auto simp: served_once_serve served_once_slow, auto simp: served_once_def on_the_way_def)

lemma dispatch_Shutdown: "rq_Method rq = MethodShutdown \<Longrightarrow> fst (dispatch L mc E rq d) = accepted rq"
  by (simp add: dispatch_def)

lemma shut_ok_answer:
  "shut_ok s \<Longrightarrow> lk_serving s \<Longrightarrow> rq \<in> set (lk_calls s) \<Longrightarrow> shut_ok (answer_now L mc E rq s)"
  by (auto simp: shut_ok_def answer_now_def Let_def case_prod_beta dispatch_Shutdown)

lemma shut_ok_serve: "shut_ok s \<Longrightarrow> traffic_ok s \<Longrightarrow> shut_ok (serve_turn L mc E s)"
proof (cases "lk_up s")
  case (Cons m ms)
  assume a: "shut_ok s" "traffic_ok s"
  then obtain rq where rq: "rq \<in> set (lk_calls s)" "m = call_msg rq" using Cons by (auto simp: traffic_ok_def)
  have "shut_ok (s\<lparr>lk_up := ms\<rparr>)" using a by (simp add: shut_ok_def)
  then show ?thesis using Cons rq a(1) shut_ok_answer [of "s\<lparr>lk_up := ms\<rparr>" rq L mc E]
    by (auto simp: serve_turn_def Let_def shut_ok_def)
qed (simp add: serve_turn_def)

lemma shut_ok_slow: "shut_ok s \<Longrightarrow> shut_ok (slow_turn L mc E rq s)"
  by (auto simp: shut_ok_def slow_turn_def case_prod_beta)

lemma shut_ok_step: "link_step s s' \<Longrightarrow> traffic_ok s \<Longrightarrow> shut_ok s \<Longrightarrow> shut_ok s'"
  by (induction rule: link_step.cases)
     (auto simp: shut_ok_serve shut_ok_slow, auto simp: shut_ok_def)

text \<open>The engine behind a connection only ever makes its own steps.\<close>

lemma reachable_dispatch: "reachable (d_engine d) \<Longrightarrow> reachable (d_engine (snd (dispatch L mc E rq d)))"
  unfolding dispatch_run run_ops_def by (rule reachable_run)

lemma reachable_step: "link_step s s' \<Longrightarrow> reachable (d_engine (lk_daemon s)) \<Longrightarrow> reachable (d_engine (lk_daemon s'))"
proof (induction rule: link_step.cases)
  case (Serve s L mc E)
  then show ?case using serve_turn_cases [of L mc E s] reachable_dispatch by auto
next
  case (Slow s L mc E rq)
  then show ?case by (auto simp: slow_turn_def case_prod_beta reachable_dispatch)
qed (auto simp: reachable.step)

text \<open>All of it, of every state a connection can be in.\<close>

lemmas link_start_facts = link_start_def Dial_def numbered_def traffic_ok_def answered_once_def served_once_def
  on_the_way_def shut_ok_def

lemma linked_base: "linked d s \<Longrightarrow> traffic_ok s \<and> numbered s \<and> shut_ok s"
  by (induction rule: linked.induct)
     (simp add: link_start_facts map_filter_simps, blast intro: traffic_step numbered_step shut_ok_step)

lemma linked_once: "linked d s \<Longrightarrow> List.length (lk_calls s) < 2 ^ 64 \<Longrightarrow> answered_once s \<and> served_once s"
proof (induction rule: linked.induct)
  case start
  then show ?case by (simp add: link_start_facts map_filter_simps)
next
  case (step s s')
  then have "List.length (lk_calls s) < 2 ^ 64" using calls_grow by force
  then show ?case using step linked_base answered_once_step served_once_step by blast
qed

lemma linked_reachable: "linked d s \<Longrightarrow> reachable (d_engine d) \<Longrightarrow> reachable (d_engine (lk_daemon s))"
  by (induction rule: linked.induct) (auto simp: link_start_def intro: reachable_step)

end
