(* ===== verification/WatchProps.thy ===== *)
theory WatchProps
  imports WatchDir
begin

text \<open>
  The properties of the watch directory: a file is taken only once it has settled, a settled file is
  always taken, and what the marker of a taken file does to an older one.
\<close>

subsection \<open>One scan\<close>

text \<open>What a scan needs of the directory: names are names, each once, and markers can be made.\<close>

definition dir_ok :: "watched_dir \<Rightarrow> bool" where
  "dir_ok d \<longleftrightarrow> wd_readable d \<and> free_markers d \<and> distinct_keys (wd_entries d) \<and>
     list_all (\<lambda>(n, _). name_ok n) (wd_entries d)"

definition candidate :: "string \<Rightarrow> wentry \<Rightarrow> bool" where
  "candidate n x \<longleftrightarrow> x \<noteq> WDir \<and> torrent_name n"

definition wsize :: "wentry \<Rightarrow> int" where
  "wsize x = (case x of WDir \<Rightarrow> 4096 | WFile s \<Rightarrow> int (List.length s))"

lemma is_candidate_pair: "is_candidate (n, x) \<longleftrightarrow> candidate n x"
  by (simp add: is_candidate_def candidate_def torrent_name_def)

lemma entry_size_map: "map_of (wd_entries d) n = Some x \<Longrightarrow> entry_size n d = Some (wsize x)"
  by (simp add: entry_size_def wsize_def split: wentry.split)

text \<open>Was the file as large when the directory was last read?\<close>

definition settled :: "string \<Rightarrow> (string, int) gomap \<Rightarrow> string \<Rightarrow> wentry \<Rightarrow> bool" where
  "settled dir sizes n x \<longleftrightarrow> map_of sizes (path_join dir n) = Some (wsize x)"

definition taken_log :: "string \<Rightarrow> watch_log \<Rightarrow> bool" where
  "taken_log path l \<longleftrightarrow> l = WatchedAdded path \<or> (\<exists>err. l = WatchedNotAdded path err)"

lemma take_file_log:
  "take_file add n (w, d, s) = (w', d', s') \<Longrightarrow> l \<in> set (w_log w') \<Longrightarrow> taken_log path l \<Longrightarrow>
     l \<in> set (w_log w) \<or> path = path_join (w_dir w) n"
  by (auto simp: take_file_def watch_rename_def taken_log_def Let_def split: prod.splits option.splits if_splits)

text \<open>The state of the loop: what is still to be looked at is there, unchanged.\<close>

definition ahead :: "(string \<times> wentry) list \<Rightarrow> watched_dir \<Rightarrow> bool" where
  "ahead ps d \<longleftrightarrow> distinct (map fst ps) \<and> free_markers d \<and>
     list_all (\<lambda>(n, x). name_ok n \<and> (\<not> candidate n x \<or> map_of (wd_entries d) n = Some x)) ps"

lemma ahead_take:
  assumes "ahead ((n, x) # ps) d" "candidate n x" "take_file add n (w, d, s) = (w', d', s')"
  shows "ahead ps d'"
proof -
  have n: "map_of (wd_entries d) n = Some x" "free_markers d" "torrent_name n" "x \<noteq> WDir" "n \<notin> fst ` set ps"
    using assms(1,2) by (auto simp: ahead_def candidate_def)
  show ?thesis using assms(1) take_file_entries(3,4) [OF n(1-4) assms(3)] n(5)
    by (force simp: ahead_def list_all_iff candidate_def)
qed

text \<open>The loop, by whether its head is taken, passed over, or only measured.\<close>

lemma scan_entries_Cons:
  assumes "ahead ((n, x) # ps) d"
  shows "scan_entries add sizes ((n, x) # ps) seen (w, d, s) =
     (let path = path_join (w_dir w) n in
      if \<not> candidate n x then scan_entries add sizes ps seen (w, d, s)
      else if settled (w_dir w) sizes n x
      then scan_entries add sizes ps (AList.delete path (AList.update path (wsize x) seen)) (take_file add n (w, d, s))
      else scan_entries add sizes ps (AList.update path (wsize x) seen) (w, d, s))"
  using assms
  by (auto simp: ahead_def is_candidate_pair entry_size_map settled_def Let_def)

definition scanned :: "(string, int) gomap \<Rightarrow> string \<Rightarrow> (string \<times> wentry) list \<Rightarrow> watched_dir \<Rightarrow> (string, int) gomap \<Rightarrow>
    (string, int) gomap \<Rightarrow> watched_dir \<Rightarrow> bool" where
  "scanned sizes dir ps d seen seen' d' \<longleftrightarrow> wd_readable d' = wd_readable d \<and> free_markers d' \<and>
     (\<forall>m. torrent_name m \<longrightarrow> m \<notin> fst ` set ps \<longrightarrow> map_of (wd_entries d') m = map_of (wd_entries d) m) \<and>
     (\<forall>m y. m \<notin> fst ` set ps \<longrightarrow> marked m y d \<longrightarrow> marked m y d') \<and>
     (\<forall>m. name_ok m \<longrightarrow> m \<notin> fst ` set ps \<longrightarrow> map_of seen' (path_join dir m) = map_of seen (path_join dir m)) \<and>
     (\<forall>(n, x) \<in> set ps. candidate n x \<longrightarrow>
        (if settled dir sizes n x then map_of (wd_entries d') n = None \<and> marked n x d'
         else map_of (wd_entries d') n = Some x \<and> map_of seen' (path_join dir n) = Some (wsize x)))"

lemma scan_entries_scanned:
  assumes "ahead ps d" and "scan_entries add sizes ps seen (w, d, s) = (seen', w', d', s')" and "w_dir w \<noteq> []"
  shows "scanned sizes (w_dir w) ps d seen seen' d' \<and> w_dir w' = w_dir w"
  using assms
proof (induction ps arbitrary: seen w d s)
  case (Cons p ps)
  obtain n x where p: "p = (n, x)" by force
  note step = scan_entries_Cons [OF Cons.prems(1) [unfolded p], of add sizes seen w s]
  have head: "n \<notin> fst ` set ps" "name_ok n" "free_markers d" "candidate n x \<Longrightarrow> map_of (wd_entries d) n = Some x"
    "list_all (\<lambda>(m, _). name_ok m) ps"
    using Cons.prems(1) by (auto simp: ahead_def p list_all_iff)
  have tl: "ahead ps d" using Cons.prems(1) by (simp add: ahead_def p)
  have inj: "path_join (w_dir w) m = path_join (w_dir w) n \<longleftrightarrow> m = n" if "name_ok m" for m
    using path_join_inj Cons.prems(3) that head(2) by blast
  show ?case
  proof (cases "candidate n x")
    case False
    then have "scan_entries add sizes ps seen (w, d, s) = (seen', w', d', s')" using step Cons.prems(2) p by (simp del: scan_entries.simps)
    from Cons.IH [OF tl this Cons.prems(3)] False show ?thesis by (auto simp: scanned_def p)
  next
    case cand: True
    show ?thesis
    proof (cases "settled (w_dir w) sizes n x")
      case True
      obtain w1 d1 s1 where t: "take_file add n (w, d, s) = (w1, d1, s1)" by (cases "take_file add n (w, d, s)") auto
      let ?path = "path_join (w_dir w) n"
      have c: "torrent_name n" "x \<noteq> WDir" using cand by (auto simp: candidate_def)
      note te = take_file_entries [OF head(4) [OF cand] head(3) c t]
      have "scan_entries add sizes ps (AList.delete ?path (AList.update ?path (wsize x) seen)) (w1, d1, s1) = (seen', w', d', s')"
        using step Cons.prems(2) p cand True t by (simp add: Let_def del: scan_entries.simps)
      from Cons.IH [OF ahead_take [OF Cons.prems(1) [unfolded p] cand t] this] Cons.prems(3) te(6)
      have ih: "scanned sizes (w_dir w) ps d1 (AList.delete ?path (AList.update ?path (wsize x) seen)) seen' d'" "w_dir w' = w_dir w"
        by simp_all
      show ?thesis using ih te c head(1) inj True unfolding scanned_def p by auto
    next
      case False
      let ?path = "path_join (w_dir w) n"
      have "scan_entries add sizes ps (AList.update ?path (wsize x) seen) (w, d, s) = (seen', w', d', s')"
        using step Cons.prems(2) p cand False by (simp add: Let_def del: scan_entries.simps)
      from Cons.IH [OF tl this Cons.prems(3)]
      have ih: "scanned sizes (w_dir w) ps d (AList.update ?path (wsize x) seen) seen' d'" "w_dir w' = w_dir w" by simp_all
      show ?thesis using ih cand head inj False unfolding scanned_def p by (auto simp: candidate_def)
    qed
  qed
qed (auto simp: ahead_def scanned_def)

text \<open>A whole scan, file by file.\<close>

lemma dir_ok_ahead: "dir_ok d \<Longrightarrow> ahead (wd_entries d) d"
  by (auto simp: dir_ok_def ahead_def list_all_iff distinct_keys_def)

lemma scan_file:
  assumes "scan add (w, d, s) = (w1, d1, s1)" "dir_ok d" "w_dir w \<noteq> []" "map_of (wd_entries d) n = Some x" "candidate n x"
  shows "w_dir w1 = w_dir w" "if settled (w_dir w) (w_sizes w) n x then map_of (wd_entries d1) n = None \<and> marked n x d1
     else map_of (wd_entries d1) n = Some x \<and> settled (w_dir w) (w_sizes w1) n x"
proof -
  obtain seen w0 where e: "scan_entries add (w_sizes w) (wd_entries d) [] (w, d, s) = (seen, w0, d1, s1)" "w1 = w0\<lparr>w_sizes := seen\<rparr>"
    using assms(1,2) by (auto simp: scan_def dir_ok_def split: prod.splits)
  from scan_entries_scanned [OF dir_ok_ahead [OF assms(2)] e(1) assms(3)]
  have sc: "scanned (w_sizes w) (w_dir w) (wd_entries d) d [] seen d1" "w_dir w0 = w_dir w" by simp_all
  show "w_dir w1 = w_dir w" using sc(2) e(2) by simp
  have "(n, x) \<in> set (wd_entries d)" using assms(4) by (rule map_of_SomeD)
  with sc(1) assms(5) show "if settled (w_dir w) (w_sizes w) n x then map_of (wd_entries d1) n = None \<and> marked n x d1
     else map_of (wd_entries d1) n = Some x \<and> settled (w_dir w) (w_sizes w1) n x"
    by (auto simp: scanned_def e(2) settled_def split: if_splits)
qed

text \<open>What a scan logs as taken.\<close>

lemma scan_entries_log:
  assumes "ahead ps d" "scan_entries add sizes ps seen (w, d, s) = (seen', w', d', s')" "w_dir w \<noteq> []"
    "l \<in> set (w_log w')" "taken_log path l"
  shows "l \<in> set (w_log w) \<or>
    (\<exists>n x. (n, x) \<in> set ps \<and> path = path_join (w_dir w) n \<and> candidate n x \<and> settled (w_dir w) sizes n x)"
  using assms
proof (induction ps arbitrary: seen w d s)
  case (Cons p ps)
  obtain n x where p: "p = (n, x)" by force
  note step = scan_entries_Cons [OF Cons.prems(1) [unfolded p], of add sizes seen w s]
  have tl: "ahead ps d" using Cons.prems(1) by (simp add: ahead_def p)
  show ?case
  proof (cases "candidate n x \<and> settled (w_dir w) sizes n x")
    case False
    then obtain seen1 where "scan_entries add sizes ps seen1 (w, d, s) = (seen', w', d', s')"
      using step Cons.prems(2) p by (auto simp: Let_def split: if_splits simp del: scan_entries.simps)
    from Cons.IH [OF tl this Cons.prems(3-5)] show ?thesis by (auto simp: p)
  next
    case True
    obtain w1 d1 s1 where t: "take_file add n (w, d, s) = (w1, d1, s1)" by (cases "take_file add n (w, d, s)") auto
    obtain seen1 where e: "scan_entries add sizes ps seen1 (w1, d1, s1) = (seen', w', d', s')"
      using step Cons.prems(2) p True t by (auto simp: Let_def simp del: scan_entries.simps)
    have a: "ahead ps d1" "w_dir w1 = w_dir w"
      using ahead_take [OF Cons.prems(1) [unfolded p] _ t] True t
      by (auto simp: take_file_def watch_rename_def Let_def split: prod.splits option.splits)
    from Cons.IH [OF a(1) e] a(2) Cons.prems(3-5)
    have "l \<in> set (w_log w1) \<or> (\<exists>n x. (n, x) \<in> set ps \<and> path = path_join (w_dir w) n \<and> candidate n x \<and> settled (w_dir w) sizes n x)"
      by simp
    then show ?thesis using take_file_log [OF t _ Cons.prems(5)] True by (auto simp: p)
  qed
qed simp

subsection \<open>The properties\<close>

text \<open>C24. A file of the watch directory that is left alone is taken within two scans, whatever else happens to the
  directory and whatever the engine says of it: if it is there at one scan and no one has touched it when the next one
  starts, then after one of the two its name is free and a marker beside it holds its contents.\<close>

theorem settled_file_is_taken:
  assumes "scan add (w, d, s) = (w1, d1, s1)" "scan add (w1, d', s') = (w2, d2, s2)"
    and "dir_ok d" "dir_ok d'" "w_dir w \<noteq> []"
    and "map_of (wd_entries d) n = Some x" "candidate n x" "map_of (wd_entries d') n = map_of (wd_entries d1) n"
  shows "(map_of (wd_entries d1) n = None \<and> marked n x d1) \<or> (map_of (wd_entries d2) n = None \<and> marked n x d2)"
  using scan_file [OF assms(1,3,5-7)] scan_file [OF assms(2,4) _ _ assms(7)] assms(5,8)
  by (auto split: if_splits)

text \<open>A file is only taken once it has settled: whatever a scan logs as taken, successfully or not, is a
  \<^verbatim>\<open>.torrent\<close> of the directory whose size is the size it had at the previous scan.\<close>

theorem only_settled_files_are_taken:
  assumes "scan add (w, d, s) = (w1, d1, s1)" "dir_ok d" "w_dir w \<noteq> []"
    and "l \<in> set (w_log w1)" "l \<notin> set (w_log w)" "taken_log path l"
  shows "list_ex (\<lambda>(n, x). path = path_join (w_dir w) n \<and> candidate n x \<and>
    map_of (w_sizes w) path = Some (wsize x)) (wd_entries d)"
proof -
  obtain seen w0 where e: "scan_entries add (w_sizes w) (wd_entries d) [] (w, d, s) = (seen, w0, d1, s1)" "w1 = w0\<lparr>w_sizes := seen\<rparr>"
    using assms(1,2) by (auto simp: scan_def dir_ok_def split: prod.splits)
  from scan_entries_log [OF dir_ok_ahead [OF assms(2)] e(1) assms(3) _ assms(6)] assms(4,5) e(2)
  show ?thesis by (fastforce simp: list_ex_iff settled_def)
qed

text \<open>A directory to try them on: one file, and the marker of an older one of the same name.\<close>

definition demo_dir :: watched_dir where
  "demo_dir = \<lparr>wd_readable = True, wd_entries = [(''a.torrent'', WFile ''new''), (''a.torrent.added'', WFile ''old'')], wd_stuck = []\<rparr>"

definition demo_adder :: "nat adder" where
  "demo_adder path n = (None, Suc n)"

definition demo_first :: "watcher \<times> watched_dir \<times> nat" where "demo_first = scan demo_adder (newWatcher ''/w'', demo_dir, 0)"
definition demo_second :: "watcher \<times> watched_dir \<times> nat" where "demo_second = scan demo_adder demo_first"

lemma demo_scans:
  "demo_first = (\<lparr>w_dir = ''/w'', w_sizes = [(''/w/a.torrent'', 3)], w_log = []\<rparr>, demo_dir, 0)"
  "demo_second = (\<lparr>w_dir = ''/w'', w_sizes = [], w_log = [WatchedAdded ''/w/a.torrent'']\<rparr>,
     demo_dir\<lparr>wd_entries := [(''a.torrent.added'', WFile ''new'')]\<rparr>, 1)"
  by code_simp+

lemma demo_dir_ok: "dir_ok demo_dir" "candidate ''a.torrent'' (WFile ''new'')"
proof -
  have "\<not> torrent_name ''a.torrent.added''" by code_simp
  then show "dir_ok demo_dir"
    by (auto simp: dir_ok_def demo_dir_def free_markers_def distinct_keys_def name_ok_def slash_def)
  show "candidate ''a.torrent'' (WFile ''new'')" by code_simp
qed

lemma settled_file_is_taken_witness:
  "marked ''a.torrent'' (WFile ''new'') (fst (snd demo_second))"
  using settled_file_is_taken [OF demo_first_def [symmetric, unfolded demo_scans(1)]
      demo_second_def [symmetric, unfolded demo_scans] demo_dir_ok(1) demo_dir_ok(1) _ _ demo_dir_ok(2)]
  by (simp add: demo_scans newWatcher_def demo_dir_def marked_def addedSuffix_def failedSuffix_def)

lemma only_settled_files_are_taken_witness:
  "list_ex (\<lambda>(n, x). ''/w/a.torrent'' = path_join ''/w'' n \<and> candidate n x \<and> map_of [(''/w/a.torrent'', 3)] ''/w/a.torrent'' = Some (wsize x))
     (wd_entries demo_dir)"
  using only_settled_files_are_taken [OF demo_second_def [symmetric, unfolded demo_scans] demo_dir_ok(1),
      of "WatchedAdded ''/w/a.torrent''" "''/w/a.torrent''"]
  by (simp add: taken_log_def)

text \<open>The marker is not safe: taking a second file of the same name replaces the first one's marker, which the source
  keeps because it \<^verbatim>\<open>may be the only copy\<close>.\<close>

lemma marker_is_overwritten:
  "map_of (wd_entries demo_dir) ''a.torrent.added'' = Some (WFile ''old'') \<and>
   list_all (\<lambda>(_, x). x \<noteq> WFile ''old'') (wd_entries (fst (snd demo_second)))"
  by (simp add: demo_scans demo_dir_def)

end
