(* ===== verification/Batch.thy ===== *)
theory Batch
  imports FileSys
begin

text \<open>
  From the arguments of an addition to sources, \<^verbatim>\<open>internal/batch/expand.go\<close>. What the program sees of the
  outside is a record of functions: the file system, the glob matcher, and the answers to HTTP requests,
  whose redirects the client follows under the package's \<^verbatim>\<open>CheckRedirect\<close>. The temp files are a map
  from names to contents. A glob match is expanded again, so the recursion takes fuel.
\<close>

datatype web_answer =
    NoReply string
  | RedirectTo (red_scheme: string) (red_rest: string)
  | Reply (rsp_code: int) (rsp_status: string) (rsp_body: string) (rsp_broken: "string option")

record bview =
  bv_stat :: "string \<Rightarrow> bool option"
  bv_readDir :: "string \<Rightarrow> (string \<times> bool) list result"
  bv_read :: "string \<Rightarrow> (string \<times> string option) result"
  bv_glob :: "string \<Rightarrow> string list result"
  bv_http :: "string \<Rightarrow> web_answer"
  bv_createTemp :: "string list \<Rightarrow> string result"
  bv_removes :: "string \<Rightarrow> bool"

type_synonym tempdir = "(string, string) gomap"

text \<open>The state of an expander: the temp files it made, and the directory they are in.\<close>

type_synonym expander = "string list \<times> tempdir"

definition maxRedirects :: nat where "maxRedirects = 10"

definition is_torrent :: "string \<Rightarrow> bool" where
  "is_torrent p \<longleftrightarrow> equal_fold (path_ext p) ''.torrent''"

subsection \<open>Downloads\<close>

datatype fetched = FetchFailed string | ToMagnet string | Answered int string string "string option"

text \<open>\<^verbatim>\<open>client.Get\<close> after \<open>via\<close> requests.\<close>

function http_get :: "bview \<Rightarrow> nat \<Rightarrow> string \<Rightarrow> fetched" where
  "http_get B via url = (case bv_http B url of
     NoReply err \<Rightarrow> FetchFailed err
   | Reply code status body broken \<Rightarrow> Answered code status body broken
   | RedirectTo scheme rest \<Rightarrow>
       if scheme = ''magnet'' then ToMagnet (scheme @ '':'' @ rest)
       else if maxRedirects \<le> via then FetchFailed (''stopped after '' @ itoa (int maxRedirects) @ '' redirects'')
       else http_get B (Suc via) (scheme @ '':'' @ rest))"
  by pat_completeness auto
termination
  by (relation "measure (\<lambda>(_, via, _). maxRedirects - via)") auto

declare http_get.simps [simp del]

definition batch_fetch :: "bview \<Rightarrow> string \<Rightarrow> expander \<Rightarrow> string result \<times> expander" where
  "batch_fetch B url ex = (case http_get B 1 url of
     FetchFailed err \<Rightarrow> (Inl (''fetch '' @ url @ '': '' @ err), ex)
   | ToMagnet m \<Rightarrow> (Inr m, ex)
   | Answered code status body broken \<Rightarrow>
       if code \<noteq> 200 then (Inl (''fetch '' @ url @ '': server returned '' @ status), ex)
       else case ex of (tmp, dir) \<Rightarrow> (case bv_createTemp B (map fst dir) of
          Inl err \<Rightarrow> (Inl (''create temp file for '' @ url @ '': '' @ err), ex)
        | Inr name \<Rightarrow> (case broken of
             Some err \<Rightarrow> Inl (''save '' @ url @ '': '' @ err) | None \<Rightarrow> Inr name,
             (tmp @ [name], AList.update name body dir))))"

subsection \<open>Directories and lists\<close>

definition expandDir :: "bview \<Rightarrow> string \<Rightarrow> string list result" where
  "expandDir B dir = (case bv_readDir B dir of
     Inl err \<Rightarrow> Inl (''read directory '' @ dir @ '': '' @ err)
   | Inr entries \<Rightarrow> (let out = map (\<lambda>(n, _). path_join dir n) (filter (\<lambda>(n, d). \<not> d \<and> is_torrent n) entries)
       in if out = [] then Inl (dir @ '': no .torrent files found'') else Inr out))"

text \<open>The loop over the lines; the scanner gives up on one of 64 KiB.\<close>

fun magnet_lines :: "string \<Rightarrow> string list \<Rightarrow> string list result" where
  "magnet_lines path [] = Inr []"
| "magnet_lines path (l # ls) =
     (if ls = [] \<and> l = [] then Inr []
      else if 65536 \<le> List.length l then Inl (''read '' @ path @ '': bufio.Scanner: token too long'')
      else let line = trim_space (drop_cr l) in
        if line = [] \<or> has_prefix line ''#'' then magnet_lines path ls
        else if \<not> has_prefix line ''magnet:'' then Inl (path @ '': line '' @ quoted line @ '' is not a magnet uri'')
        else map_sum id ((#) line) (magnet_lines path ls))"

definition expandMagnetListFile :: "bview \<Rightarrow> string \<Rightarrow> string list result" where
  "expandMagnetListFile B path = (case bv_read B path of
     Inl err \<Rightarrow> Inl (''open '' @ path @ '': '' @ err)
   | Inr (text, broken) \<Rightarrow> (case magnet_lines path (str_split (CHR 0x0A) text) of
       Inl err \<Rightarrow> Inl err
     | Inr out \<Rightarrow> (case broken of
         Some err \<Rightarrow> Inl (''read '' @ path @ '': '' @ err)
       | None \<Rightarrow> if out = [] then Inl (path @ '': no magnet uris found'') else Inr out)))"

subsection \<open>Arguments\<close>

text \<open>A loop that collects the sources of its items and stops at the first error.\<close>

fun each_source :: "(string \<Rightarrow> expander \<Rightarrow> (string list result \<times> expander) option) \<Rightarrow> string list \<Rightarrow> expander \<Rightarrow>
    (string list result \<times> expander) option" where
  "each_source f [] ex = Some (Inr [], ex)"
| "each_source f (a # as) ex = (case f a ex of
     None \<Rightarrow> None
   | Some (Inl err, ex1) \<Rightarrow> Some (Inl err, ex1)
   | Some (Inr srcs, ex1) \<Rightarrow> map_option (\<lambda>(r, ex2). (map_sum id ((@) srcs) r, ex2)) (each_source f as ex1))"

fun expand_one :: "nat \<Rightarrow> bview \<Rightarrow> string \<Rightarrow> expander \<Rightarrow> (string list result \<times> expander) option" where
  "expand_one 0 B arg ex = None"
| "expand_one (Suc fuel) B arg ex =
     (if has_prefix arg ''magnet:'' then Some (Inr [arg], ex)
      else if has_prefix arg ''http://'' \<or> has_prefix arg ''https://''
      then (let (r, ex1) = batch_fetch B arg ex in Some (map_sum id (\<lambda>s. [s]) r, ex1))
      else case bv_stat B arg of
        Some True \<Rightarrow> Some (expandDir B arg, ex)
      | Some False \<Rightarrow> Some (if is_torrent arg then Inr [arg] else expandMagnetListFile B arg, ex)
      | None \<Rightarrow>
          if contains_any arg ''*?['' then (case bv_glob B arg of
             Inl err \<Rightarrow> Some (Inl (''bad glob pattern '' @ quoted arg @ '': '' @ err), ex)
           | Inr ms \<Rightarrow> if ms = [] then Some (Inl (''glob '' @ quoted arg @ '' matched no files''), ex)
               else each_source (expand_one fuel B) ms ex)
          else Some (Inl (arg @ '': no such file or directory''), ex))"

definition cleanup :: "bview \<Rightarrow> expander \<Rightarrow> tempdir" where
  "cleanup B ex = foldl (\<lambda>d p. if bv_removes B p then AList.delete p d else d) (snd ex) (fst ex)"

text \<open>The sources, the temp files the caller has to clean up, and the temp directory.\<close>

definition Expand :: "nat \<Rightarrow> bview \<Rightarrow> string list \<Rightarrow> tempdir \<Rightarrow> (string list result \<times> expander) option" where
  "Expand fuel B args dir = (case each_source (expand_one fuel B) args ([], dir) of
     None \<Rightarrow> None
   | Some (Inl err, ex) \<Rightarrow> Some (Inl err, [], cleanup B ex)
   | Some (Inr srcs, ex) \<Rightarrow> Some (Inr srcs, ex))"

subsection \<open>Lemmas\<close>

text \<open>What the outside promises: names are names, a temp file is new and named as asked, unlinking works.\<close>

definition bview_ok :: "bview \<Rightarrow> bool" where
  "bview_ok B \<longleftrightarrow> bv_stat B [] = None \<and>
     (\<forall>d es. bv_readDir B d = Inr es \<longrightarrow> list_all (\<lambda>(n, _). name_ok n) es) \<and>
     (\<forall>used n. bv_createTemp B used = Inr n \<longrightarrow> n \<notin> set used \<and> is_torrent n) \<and>
     (\<forall>p. bv_removes B p)"

definition addable :: "string \<Rightarrow> bool" where
  "addable s \<longleftrightarrow> has_prefix s ''magnet:'' \<or> is_torrent s"

text \<open>What every step of the expansion keeps: \<open>P\<close> of the files and of the sources made so far.\<close>

lemma each_source_keeps:
  assumes step: "\<And>a ex r ex'. P ex \<Longrightarrow> f a ex = Some (r, ex') \<Longrightarrow> P ex' \<and> (\<forall>srcs. r = Inr srcs \<longrightarrow> list_all S srcs)"
    and "P ex" "each_source f as ex = Some (r, ex')"
  shows "P ex' \<and> (\<forall>srcs. r = Inr srcs \<longrightarrow> list_all S srcs)"
  using assms(2,3)
proof (induction as arbitrary: ex r)
  case (Cons a as)
  obtain r1 ex1 where f: "f a ex = Some (r1, ex1)" using Cons.prems(2) by (auto split: option.splits)
  have p: "P ex1" "\<And>srcs. r1 = Inr srcs \<Longrightarrow> list_all S srcs" using step [OF Cons.prems(1) f] by auto
  show ?case
  proof (cases r1)
    case (Inl err)
    then show ?thesis using Cons.prems(2) f p by auto
  next
    case (Inr srcs)
    with Cons.prems(2) f obtain r2 where e: "each_source f as ex1 = Some (r2, ex')" "r = map_sum id ((@) srcs) r2"
      by auto
    from Cons.IH [OF p(1) e(1)] p(2) [OF Inr] e(2) show ?thesis by (cases r2) auto
  qed
qed auto

lemma expand_one_keeps:
  assumes fetch: "\<And>a ex r ex'. P ex \<Longrightarrow> batch_fetch B a ex = (r, ex') \<Longrightarrow> P ex' \<and> (\<forall>s. r = Inr s \<longrightarrow> S s)"
    and "\<And>a. has_prefix a ''magnet:'' \<Longrightarrow> S a"
    and "\<And>a. is_torrent a \<Longrightarrow> S a"
    and "\<And>d srcs. bv_stat B d = Some True \<Longrightarrow> expandDir B d = Inr srcs \<Longrightarrow> list_all S srcs"
    and "\<And>p srcs. expandMagnetListFile B p = Inr srcs \<Longrightarrow> list_all S srcs"
    and "P ex" "expand_one fuel B a ex = Some (r, ex')"
  shows "P ex' \<and> (\<forall>srcs. r = Inr srcs \<longrightarrow> list_all S srcs)"
  using assms(6,7)
proof (induction fuel arbitrary: a ex r ex')
  case (Suc fuel)
  have glob: "P ex' \<and> (\<forall>srcs. r = Inr srcs \<longrightarrow> list_all S srcs)" if "each_source (expand_one fuel B) ms ex = Some (r, ex')" for ms
    by (rule each_source_keeps [where P = P, OF _ Suc.prems(1) that]) (use Suc.IH in blast)
  show ?case using Suc.prems fetch [OF Suc.prems(1), of a] assms(2-5) glob
    by (auto split: if_splits option.splits bool.splits sum.splits prod.splits simp: map_sum_Inr_iff)
qed simp

text \<open>The temp files: those there before, and those the expander recorded, each made once.\<close>

definition temp_ok :: "tempdir \<Rightarrow> expander \<Rightarrow> bool" where
  "temp_ok dir0 ex \<longleftrightarrow> (\<forall>p. p \<notin> set (fst ex) \<longrightarrow> map_of (snd ex) p = map_of dir0 p) \<and>
     (\<forall>p \<in> set (fst ex). map_of dir0 p = None)"

lemma fetch_temp_ok:
  assumes "bview_ok B" "temp_ok dir0 ex" "batch_fetch B url ex = (r, ex')"
  shows "temp_ok dir0 ex'"
proof (cases "ex' = ex")
  case False
  then obtain tmp dir name body where ex: "ex = (tmp, dir)" "bv_createTemp B (map fst dir) = Inr name"
    "ex' = (tmp @ [name], AList.update name body dir)"
    using assms(3) by (auto simp: batch_fetch_def split: fetched.splits if_splits sum.splits option.splits prod.splits)
  have "name \<notin> set (map fst dir)" using assms(1) ex(2) unfolding bview_ok_def by blast
  then have "map_of dir name = None" by (simp add: map_of_eq_None_iff)
  with assms(2) show ?thesis by (auto simp: temp_ok_def ex split: if_splits)
qed (use assms in simp)

lemma cleanup_map_of:
  "(\<forall>p. bv_removes B p) \<Longrightarrow> map_of (cleanup B (tmp, dir)) p = (if p \<in> set tmp then None else map_of dir p)"
  by (induction tmp arbitrary: dir) (auto simp: cleanup_def)

lemma cleanup_temp_ok: "bview_ok B \<Longrightarrow> temp_ok dir0 ex \<Longrightarrow> map_of (cleanup B ex) = map_of dir0"
  by (cases ex) (auto simp: cleanup_map_of bview_ok_def temp_ok_def fun_eq_iff)

lemma fetch_source_ok:
  assumes "bview_ok B" "batch_fetch B url ex = (Inr s, ex')"
  shows "addable s"
proof -
  have "has_prefix m ''magnet:''" if "http_get B via url = ToMagnet m" for via m
    using that by (induction B via url rule: http_get.induct)
      (subst (asm) (2) http_get.simps, auto split: web_answer.splits if_splits simp: has_prefix_iff)
  then show ?thesis using assms
    by (auto simp: batch_fetch_def addable_def bview_ok_def split: fetched.splits if_splits sum.splits option.splits prod.splits)
qed

lemma magnet_lines_ok: "magnet_lines path ls = Inr srcs \<Longrightarrow> list_all addable srcs"
  by (induction path ls arbitrary: srcs rule: magnet_lines.induct)
    (auto simp: Let_def map_sum_Inr_iff addable_def split: if_splits)

lemma expandDir_ok:
  assumes "bview_ok B" "bv_stat B d = Some True" "expandDir B d = Inr srcs"
  shows "list_all addable srcs"
proof -
  have d: "d \<noteq> []" using assms(1,2) by (auto simp: bview_ok_def)
  obtain es where es: "bv_readDir B d = Inr es"
    "srcs = map (\<lambda>(n, _). path_join d n) (filter (\<lambda>(n, d). \<not> d \<and> is_torrent n) es)"
    using assms(3) by (auto simp: expandDir_def Let_def split: sum.splits if_splits)
  have "list_all (\<lambda>(n, _). name_ok n) es" using assms(1) es(1) unfolding bview_ok_def by blast
  then show ?thesis by (auto simp: es(2) list_all_iff addable_def is_torrent_def path_ext_join [OF d])
qed

lemma expandMagnetListFile_ok: "expandMagnetListFile B p = Inr srcs \<Longrightarrow> list_all addable srcs"
  using magnet_lines_ok by (auto simp: expandMagnetListFile_def split: sum.splits option.splits if_splits)

text \<open>Both together, for a list of arguments.\<close>

lemma each_source_ok:
  assumes "bview_ok B" "each_source (expand_one fuel B) args ([], dir) = Some (r, ex)"
  shows "temp_ok dir ex \<and> (\<forall>srcs. r = Inr srcs \<longrightarrow> list_all addable srcs)"
proof (rule each_source_keeps [where P = "temp_ok dir", OF _ _ assms(2)])
  show "temp_ok dir ([], dir)" by (simp add: temp_ok_def)
  fix a ex r ex'
  assume e: "temp_ok dir ex" "expand_one fuel B a ex = Some (r, ex')"
  show "temp_ok dir ex' \<and> (\<forall>srcs. r = Inr srcs \<longrightarrow> list_all addable srcs)"
    by (rule expand_one_keeps [where P = "temp_ok dir", OF _ _ _ _ _ e])
      (use assms(1) fetch_temp_ok fetch_source_ok expandDir_ok expandMagnetListFile_ok in \<open>blast | simp add: addable_def\<close>)+
qed

text \<open>When the recursion ends: a match that cannot be looked at is not a pattern itself.\<close>

definition glob_ok :: "bview \<Rightarrow> bool" where
  "glob_ok B \<longleftrightarrow> (\<forall>p ms. bv_glob B p = Inr ms \<longrightarrow>
     list_all (\<lambda>m. bv_stat B m \<noteq> None \<or> \<not> contains_any m ''*?['') ms)"

lemma each_source_returns: "(\<And>a ex. a \<in> set as \<Longrightarrow> f a ex \<noteq> None) \<Longrightarrow> each_source f as ex \<noteq> None"
  by (induction as arbitrary: ex) (force split: option.splits sum.splits)+

lemma expand_one_returns:
  assumes "glob_ok B"
  shows "expand_one (Suc (Suc fuel)) B a ex \<noteq> None"
proof -
  have "expand_one (Suc fuel) B m ex1 \<noteq> None" if "bv_glob B a = Inr ms" "m \<in> set ms" for m ms ex1
  proof (cases "bv_stat B m")
    case None
    then have "\<not> contains_any m ''*?[''" using assms that unfolding glob_ok_def list_all_iff by metis
    with None show ?thesis by (auto simp: Let_def split: prod.splits)
  qed (auto simp: Let_def split: bool.splits prod.splits)
  then have "bv_glob B a = Inr ms \<Longrightarrow> each_source (expand_one (Suc fuel) B) ms ex \<noteq> None" for ms
    by (rule each_source_returns)
  then show ?thesis
    by (subst expand_one.simps) (auto simp: Let_def simp del: expand_one.simps split: option.splits bool.splits prod.splits sum.splits)
qed

subsection \<open>The properties\<close>

text \<open>C25. What an addition is handed is of one of two kinds: every source is a magnet URI, or a path that ends in
  \<^verbatim>\<open>.torrent\<close>, in whatever case, whether it was named, found in a directory, matched, listed or downloaded.\<close>

theorem every_source_is_a_magnet_or_a_torrent_file:
  assumes "bview_ok B" "Expand fuel B args dir = Some (Inr srcs, ex)"
  shows "list_all (\<lambda>s. has_prefix s ''magnet:'' \<or> is_torrent s) srcs"
  using each_source_ok [OF assms(1)] assms(2)
  by (fastforce simp: Expand_def addable_def [abs_def, symmetric] split: option.splits sum.splits prod.splits)

text \<open>No temp file is left behind: after a failure the temp directory is as it was, and after a success it is so
  once the caller has called the cleanup it was given.\<close>

theorem no_download_is_left_behind:
  assumes "bview_ok B" "Expand fuel B args dir = Some (r, ex)"
  shows "map_of (cleanup B ex) = map_of dir \<and> (isl r \<longrightarrow> map_of (snd ex) = map_of dir)"
proof -
  obtain r1 ex1 where e: "each_source (expand_one fuel B) args ([], dir) = Some (r1, ex1)"
    using assms(2) by (auto simp: Expand_def split: option.splits)
  then have c: "map_of (cleanup B ex1) = map_of dir" using each_source_ok [OF assms(1) e] cleanup_temp_ok [OF assms(1)] by blast
  have "ex = (if isl r then ([], cleanup B ex1) else ex1)"
    using assms(2) e by (auto simp: Expand_def split: sum.splits)
  with c show ?thesis
    by (auto simp: cleanup_def)
qed

text \<open>The expansion returns, after two levels of recursion, provided that every name the glob matcher gives back
  can be looked at or is not a pattern itself.\<close>

theorem expansion_returns:
  assumes "glob_ok B"
  shows "Expand 2 B args dir \<noteq> None"
proof -
  have "each_source (expand_one 2 B) args ([], dir) \<noteq> None"
    using expand_one_returns [OF assms, of 0] by (intro each_source_returns) (simp add: numeral_2_eq_2)
  then show ?thesis by (auto simp: Expand_def split: sum.splits)
qed

text \<open>A pattern that matches a name of its own spelling which cannot be looked at, a link that points nowhere, is
  expanded into itself without end.\<close>

lemma a_dangling_match_never_returns:
  assumes "bv_stat B p = None" "contains_any p ''*?[''" "bv_glob B p = Inr (p # ms)"
    and "\<not> has_prefix p ''magnet:''" "\<not> has_prefix p ''http://''" "\<not> has_prefix p ''https://''"
  shows "expand_one fuel B p ex = None"
  using assms by (induction fuel arbitrary: ex) auto

subsection \<open>Witnesses\<close>

text \<open>A directory, a link that redirects to a magnet, one that is served, and one that breaks off.\<close>

definition demo_temp :: "string list \<Rightarrow> string" where
  "demo_temp used = concat used @ ''t.torrent''"

definition demo_bview :: bview where
  "demo_bview = \<lparr>bv_stat = (\<lambda>p. if p = ''d'' then Some True else None),
     bv_readDir = (\<lambda>p. if p = ''d'' then Inr [(''a.torrent'', False)] else Inl ''none''),
     bv_read = (\<lambda>p. Inl ''none''), bv_glob = (\<lambda>p. if p = ''*'' then Inr [''d''] else Inr []),
     bv_http = (\<lambda>u. if u = ''http://m'' then RedirectTo ''magnet'' ''?xt=x''
        else if u = ''http://t'' then Reply 200 ''200 OK'' ''data'' None
        else Reply 200 ''200 OK'' ''da'' (Some ''EOF'')),
     bv_createTemp = (\<lambda>used. Inr (demo_temp used)), bv_removes = (\<lambda>p. True)\<rparr>"

lemma demo_temp_new: "demo_temp used \<notin> set used"
proof
  assume "demo_temp used \<in> set used"
  then obtain as bs where "used = as @ demo_temp used # bs" by (meson split_list)
  then have "List.length (concat used) \<ge> List.length (demo_temp used)" by (metis concat.simps(2) concat_append le_add1 le_add2 le_trans length_append)
  then show False by (simp add: demo_temp_def)
qed

lemma demo_bview_ok: "bview_ok demo_bview" "glob_ok demo_bview"
proof -
  have "is_torrent (demo_temp used)" for used
  proof -
    have "path_ext (demo_temp used) = ''.torrent''" by (simp add: path_ext_def demo_temp_def slash_def)
    then show ?thesis by (simp add: is_torrent_def equal_fold_def)
  qed
  then show "bview_ok demo_bview" using demo_temp_new
    by (auto simp: bview_ok_def demo_bview_def name_ok_def slash_def)
  show "glob_ok demo_bview" by (auto simp: glob_ok_def demo_bview_def)
qed

definition demo_args :: "string list" where "demo_args = [''*'', ''http://m'', ''http://t'']"

lemma demo_expanded:
  "Expand 2 demo_bview demo_args [] = Some (Inr [''d/a.torrent'', ''magnet:?xt=x'', ''t.torrent''], [''t.torrent''], [(''t.torrent'', ''data'')])"
  "Expand 2 demo_bview [''http://t'', ''http://b''] [] = Some (Inl ''save http://b: EOF'', [], [])"
  by code_simp+

lemma every_source_is_a_magnet_or_a_torrent_file_witness:
  "list_all (\<lambda>s. has_prefix s ''magnet:'' \<or> is_torrent s) [''d/a.torrent'', ''magnet:?xt=x'', ''t.torrent'']"
  by (rule every_source_is_a_magnet_or_a_torrent_file [OF demo_bview_ok(1) demo_expanded(1)])

lemma no_download_is_left_behind_witness:
  "map_of (cleanup demo_bview ([''t.torrent''], [(''t.torrent'', ''data'')])) = map_of ([] :: tempdir)"
  using no_download_is_left_behind [OF demo_bview_ok(1) demo_expanded(1)] by blast

lemma expansion_returns_witness: "Expand 2 demo_bview demo_args [] \<noteq> None"
  by (rule expansion_returns [OF demo_bview_ok(2)])

end
