(* ===== verification/Ordering.thy ===== *)
theory Ordering
  imports GoStrings "HOL-Library.Multiset"
begin

text \<open>
  Go's package \<^verbatim>\<open>sort\<close> as the program uses it, and the byte order of strings.

  \<^verbatim>\<open>sort.SliceStable\<close> sorts blocks by insertion and merges them, and whenever it asks \<open>lt x y\<close> the
  element \<open>x\<close> came after \<open>y\<close> in its input. For a \<open>lt\<close> that is a strict weak order, and for the
  negation of one, all such sorts give the list insertion gives, which is what \<open>slice_stable\<close> does.
\<close>

subsection \<open>Strings\<close>

fun str_less :: "string \<Rightarrow> string \<Rightarrow> bool" where
  "str_less _ [] = False"
| "str_less [] (d # t) = True"
| "str_less (c # s) (d # t) =
     ((of_char c :: nat) < of_char d \<or> (c = d \<and> str_less s t))"

lemma str_less_irrefl [simp]: "\<not> str_less s s"
  by (induction s) auto

lemma str_less_trans: "str_less a b \<Longrightarrow> str_less b c \<Longrightarrow> str_less a c"
proof (induction a b arbitrary: c rule: str_less.induct)
  case (2 d t) then show ?case by (cases c) auto
next
  case (3 x s y t) then show ?case by (cases c) auto
qed simp

lemma str_less_linear: "str_less a b \<or> a = b \<or> str_less b a"
proof (induction a b rule: str_less.induct)
  case (3 c s d t)
  have "(of_char c :: nat) < of_char d \<or> c = d \<or> (of_char d :: nat) < of_char c"
    using linorder_less_linear [of "of_char c :: nat" "of_char d"] by auto
  then show ?case using 3 by auto
qed (auto elim: str_less.elims)

lemma str_less_asym: "str_less a b \<Longrightarrow> \<not> str_less b a"
  using str_less_trans str_less_irrefl by blast

subsection \<open>Sorting\<close>

text \<open>
  The sorted part of the slice is kept reversed: its last element is the head, and the new one moves
  past it while it is less.
\<close>

fun move_down :: "('a \<Rightarrow> 'a \<Rightarrow> bool) \<Rightarrow> 'a \<Rightarrow> 'a list \<Rightarrow> 'a list" where
  "move_down lt x [] = [x]"
| "move_down lt x (y # ys) = (if lt x y then y # move_down lt x ys else x # y # ys)"

definition slice_stable :: "('a \<Rightarrow> 'a \<Rightarrow> bool) \<Rightarrow> 'a list \<Rightarrow> 'a list" where
  "slice_stable lt xs = rev (foldl (\<lambda>ys x. move_down lt x ys) [] xs)"

lemma mset_move_down [simp]: "mset (move_down lt x ys) = add_mset x (mset ys)"
  by (induction ys) auto

lemma set_move_down [simp]: "set (move_down lt x ys) = insert x (set ys)"
  by (induction ys) auto

lemma mset_foldl_move_down:
  "mset (foldl (\<lambda>ys x. move_down lt x ys) zs xs) = mset zs + mset xs"
  by (induction xs arbitrary: zs) auto

lemma mset_slice_stable [simp]: "mset (slice_stable lt xs) = mset xs"
  by (simp add: slice_stable_def mset_foldl_move_down)

lemma set_slice_stable [simp]: "set (slice_stable lt xs) = set xs"
  using mset_eq_setD [OF mset_slice_stable] .

lemma length_slice_stable [simp]: "length (slice_stable lt xs) = length xs"
  using mset_eq_length [OF mset_slice_stable] .

lemma distinct_slice_stable [simp]: "distinct (slice_stable lt xs) = distinct xs"
  by (rule mset_eq_imp_distinct_iff [OF mset_slice_stable])

text \<open>
  What a comparison must promise for its sort to put the elements in the order \<open>before\<close>: \<open>before\<close>
  reads as ``comes before, or is level with''.
\<close>

locale sorts_by =
  fixes ok :: "'a \<Rightarrow> bool" and lt before :: "'a \<Rightarrow> 'a \<Rightarrow> bool"
  assumes lt_before: "ok x \<Longrightarrow> ok y \<Longrightarrow> lt x y \<Longrightarrow> before x y"
    and not_lt_before: "ok x \<Longrightarrow> ok y \<Longrightarrow> \<not> lt x y \<Longrightarrow> before y x"
    and before_trans: "ok x \<Longrightarrow> ok y \<Longrightarrow> ok z \<Longrightarrow> before x y \<Longrightarrow> before y z \<Longrightarrow> before x z"
begin

lemma move_down_sorted:
  "ok x \<Longrightarrow> list_all ok ys \<Longrightarrow> sorted_wrt (\<lambda>a b. before b a) ys \<Longrightarrow>
     sorted_wrt (\<lambda>a b. before b a) (move_down lt x ys)"
proof (induction ys)
  case (Cons y ys)
  then show ?case
    using Cons by (auto simp: list_all_iff intro: lt_before not_lt_before before_trans)
qed simp

lemma foldl_sorted:
  "list_all ok xs \<Longrightarrow> list_all ok ys \<Longrightarrow> sorted_wrt (\<lambda>a b. before b a) ys \<Longrightarrow>
     sorted_wrt (\<lambda>a b. before b a) (foldl (\<lambda>ys x. move_down lt x ys) ys xs)"
proof (induction xs arbitrary: ys)
  case (Cons x xs)
  have "list_all ok (move_down lt x ys)"
    using Cons.prems by (auto simp: list_all_iff)
  then show ?case using Cons by (auto intro: move_down_sorted)
qed simp

lemma sorted_slice: "list_all ok xs \<Longrightarrow> sorted_wrt before (slice_stable lt xs)"
  using foldl_sorted [of xs "[]"] by (simp add: slice_stable_def sorted_wrt_rev)

text \<open>When no two elements are level, the result does not depend on the order of the input.\<close>

lemma sorted_unique:
  assumes "sorted_wrt before xs" "sorted_wrt before ys" "mset xs = mset ys" "list_all ok xs"
    and "\<And>x y. x \<in> set xs \<Longrightarrow> y \<in> set xs \<Longrightarrow> before x y \<Longrightarrow> before y x \<Longrightarrow> x = y"
  shows "xs = ys"
  using assms
proof (induction xs arbitrary: ys)
  case (Cons x xs)
  then obtain y ys' where ys: "ys = y # ys'" by (cases ys) auto
  have s: "set (x # xs) = set ys" using Cons.prems(3) by (rule mset_eq_setD)
  have "x = y"
  proof (rule ccontr)
    assume "x \<noteq> y"
    then have "y \<in> set xs" "x \<in> set ys'" using s ys by auto
    then have "before x y" "before y x" using Cons.prems(1,2) ys by auto
    then show False using \<open>x \<noteq> y\<close> \<open>y \<in> set xs\<close> Cons.prems(5) by auto
  qed
  then show ?case using Cons.IH [of ys'] Cons.prems ys by auto
qed simp

lemma slice_stable_unique:
  assumes "mset xs = mset ys" "list_all ok xs"
    and "\<And>x y. x \<in> set xs \<Longrightarrow> y \<in> set xs \<Longrightarrow> before x y \<Longrightarrow> before y x \<Longrightarrow> x = y"
  shows "slice_stable lt xs = slice_stable lt ys"
proof (rule sorted_unique)
  have "set xs = set ys" using assms(1) by (rule mset_eq_setD)
  then show "sorted_wrt before (slice_stable lt xs)" "sorted_wrt before (slice_stable lt ys)"
    using assms(2) by (auto intro!: sorted_slice simp: list_all_iff)
qed (use assms in \<open>simp_all add: list_all_iff\<close>)

end

text \<open>Names, whatever case they are written in.\<close>

definition name_less :: "string \<Rightarrow> string \<Rightarrow> bool" where
  "name_less a b \<longleftrightarrow> str_less (to_lower a) (to_lower b)"

definition sort_strings :: "string list \<Rightarrow> string list" where
  "sort_strings = slice_stable str_less"

interpretation strings: sorts_by "\<lambda>_. True" str_less "\<lambda>a b. \<not> str_less b a"
  by unfold_locales (use str_less_asym str_less_linear str_less_trans in blast)+

interpretation names: sorts_by "\<lambda>_. True" name_less "\<lambda>a b. \<not> name_less b a"
  by unfold_locales (unfold name_less_def, (use str_less_asym str_less_linear str_less_trans in metis)+)

end
