(* ===== verification/Theme.thy ===== *)
theory Theme
  imports Ordering FileSys
begin

text \<open>
  Colour palettes, \<^verbatim>\<open>internal/theme\<close>: the built-in ones of \<^verbatim>\<open>builtin.go\<close>, and the loading of a
  user's own from a directory, \<^verbatim>\<open>theme.go\<close>. What the program sees of that directory, and what the TOML
  decoder makes of a file, is a record of functions. A colour is the string handed to the terminal library.
\<close>

record Theme =
  th_Name :: string
  th_Background :: string
  th_Foreground :: string
  th_Muted :: string
  th_Accent :: string
  th_Success :: string
  th_Warning :: string
  th_Error :: string
  th_Border :: string
  th_SelectedBg :: string
  th_SelectedFg :: string

text \<open>The colour that is the terminal's own.\<close>

definition Inherit :: string where "Inherit = ''default''"

definition missingFields :: "Theme \<Rightarrow> string list" where
  "missingFields t = map fst (filter (\<lambda>(_, v). v = [])
     [(''background'', th_Background t), (''foreground'', th_Foreground t), (''muted'', th_Muted t),
      (''accent'', th_Accent t), (''success'', th_Success t), (''warning'', th_Warning t),
      (''error'', th_Error t), (''border'', th_Border t), (''selected_bg'', th_SelectedBg t),
      (''selected_fg'', th_SelectedFg t)])"

definition theme_deref :: "string \<Rightarrow> string" where
  "theme_deref c = (if c = Inherit then [] else c)"

definition Resolved :: "Theme \<Rightarrow> Theme" where
  "Resolved t = t\<lparr>th_Background := theme_deref (th_Background t), th_Foreground := theme_deref (th_Foreground t),
     th_Muted := theme_deref (th_Muted t), th_Accent := theme_deref (th_Accent t),
     th_Success := theme_deref (th_Success t), th_Warning := theme_deref (th_Warning t),
     th_Error := theme_deref (th_Error t), th_Border := theme_deref (th_Border t),
     th_SelectedBg := theme_deref (th_SelectedBg t), th_SelectedFg := theme_deref (th_SelectedFg t)\<rparr>"

subsection \<open>The built-in palettes\<close>

fun theme_of :: "string \<Rightarrow> string list \<Rightarrow> Theme" where
  "theme_of name [bg, fg, mu, ac, su, wa, er, bo, sb, sf] =
     \<lparr>th_Name = name, th_Background = bg, th_Foreground = fg, th_Muted = mu, th_Accent = ac, th_Success = su,
      th_Warning = wa, th_Error = er, th_Border = bo, th_SelectedBg = sb, th_SelectedFg = sf\<rparr>"
| "theme_of name _ =
     \<lparr>th_Name = name, th_Background = [], th_Foreground = [], th_Muted = [], th_Accent = [], th_Success = [],
      th_Warning = [], th_Error = [], th_Border = [], th_SelectedBg = [], th_SelectedFg = []\<rparr>"

definition builtins :: "Theme list" where
  "builtins =
   [theme_of ''terminal'' [Inherit, Inherit, ''8'', ''6'', ''2'', ''3'', ''1'', ''8'', ''8'', Inherit],
    theme_of ''dracula'' [''#282a36'', ''#f8f8f2'', ''#6272a4'', ''#bd93f9'', ''#50fa7b'', ''#f1fa8c'', ''#ff5555'', ''#6272a4'', ''#44475a'', ''#f8f8f2''],
    theme_of ''alucard'' [''#fffbeb'', ''#1f1f1f'', ''#6c664b'', ''#644ac9'', ''#14710a'', ''#846e15'', ''#cb3a2a'', ''#6c664b'', ''#cfcfde'', ''#1f1f1f''],
    theme_of ''nord'' [''#2e3440'', ''#d8dee9'', ''#4c566a'', ''#88c0d0'', ''#a3be8c'', ''#ebcb8b'', ''#bf616a'', ''#4c566a'', ''#434c5e'', ''#eceff4''],
    theme_of ''gruvbox'' [''#282828'', ''#ebdbb2'', ''#928374'', ''#d3869b'', ''#b8bb26'', ''#fabd2f'', ''#fb4934'', ''#928374'', ''#3c3836'', ''#fbf1c7''],
    theme_of ''solarized-dark'' [''#002b36'', ''#839496'', ''#586e75'', ''#268bd2'', ''#859900'', ''#b58900'', ''#dc322f'', ''#586e75'', ''#073642'', ''#eee8d5''],
    theme_of ''solarized-light'' [''#fdf6e3'', ''#657b83'', ''#93a1a1'', ''#268bd2'', ''#859900'', ''#b58900'', ''#dc322f'', ''#93a1a1'', ''#eee8d5'', ''#586e75''],
    theme_of ''catppuccin'' [''#1e1e2e'', ''#cdd6f4'', ''#a6adc8'', ''#cba6f7'', ''#a6e3a1'', ''#f9e2af'', ''#f38ba8'', ''#a6adc8'', ''#45475a'', ''#cdd6f4''],
    theme_of ''tokyo-night'' [''#1a1b26'', ''#c0caf5'', ''#565f89'', ''#7aa2f7'', ''#9ece6a'', ''#e0af68'', ''#f7768e'', ''#565f89'', ''#292e42'', ''#c0caf5''],
    theme_of ''plain'' [''0'', ''7'', ''8'', ''14'', ''2'', ''3'', ''1'', ''8'', ''4'', ''15'']]"

definition theme_Names :: "string list" where
  "theme_Names = sort_strings (map th_Name builtins)"

definition builtin_named :: "string \<Rightarrow> Theme option" where
  "builtin_named name = map_of (map (\<lambda>t. (th_Name t, t)) builtins) name"

subsection \<open>A user's own\<close>

record theme_files =
  tf_readDir :: "string \<Rightarrow> (string \<times> bool) list option"
  tf_exists :: "string \<Rightarrow> bool"
  tf_read :: "string \<Rightarrow> string option"
  tf_decode :: "string \<Rightarrow> (Theme \<times> string list) result"

definition tomlExt :: string where "tomlExt = ''.toml''"

definition theme_Available :: "theme_files \<Rightarrow> string \<Rightarrow> string list" where
  "theme_Available F themesDir = (let
     own = (case tf_readDir F themesDir of None \<Rightarrow> []
       | Some entries \<Rightarrow> map (\<lambda>(n, _). trim_suffix n tomlExt)
           (filter (\<lambda>(n, d). \<not> d \<and> trim_suffix n tomlExt \<noteq> n) entries))
     in sort_strings (remdups (map th_Name builtins @ own)))"

definition IsUserTheme :: "theme_files \<Rightarrow> string \<Rightarrow> string \<Rightarrow> bool" where
  "IsUserTheme F name themesDir = tf_exists F (path_join themesDir (name @ tomlExt))"

text \<open>\<^verbatim>\<open>%v\<close> of a slice of strings.\<close>

definition list_text :: "string list \<Rightarrow> string" where
  "list_text xs = ''['' @ str_join xs '' '' @ '']''"

definition theme_Load :: "theme_files \<Rightarrow> string \<Rightarrow> string \<Rightarrow> Theme result" where
  "theme_Load F name0 themesDir = (let
     name = (if name0 = [] then ''terminal'' else name0);
     overridePath = path_join themesDir (name @ tomlExt);
     place = ''theme '' @ name @ '' ('' @ overridePath @ ''): ''
     in case tf_read F overridePath of
       Some data \<Rightarrow> (case tf_decode F data of
           Inl err \<Rightarrow> Inl (place @ err)
         | Inr (t, undecoded) \<Rightarrow>
             if undecoded \<noteq> [] then Inl (place @ ''unknown key(s): '' @ list_text undecoded)
             else let t1 = t\<lparr>th_Name := name\<rparr>; missing = missingFields t1
               in if missing \<noteq> [] then Inl (place @ ''missing required color(s): '' @ list_text missing)
                  else Inr t1)
     | None \<Rightarrow> (case builtin_named name of
           Some t \<Rightarrow> Inr t
         | None \<Rightarrow> Inl (''unknown theme '' @ quoted name @ '' (built-in themes: '' @ list_text theme_Names @
             ''; or place '' @ name @ ''.toml in '' @ themesDir @ '')'')))"

subsection \<open>Lemmas\<close>

lemma builtins_complete: "list_all (\<lambda>t. missingFields t = []) builtins"
  by (simp add: builtins_def missingFields_def Inherit_def)

lemma builtin_named_mem: "builtin_named name = Some t \<Longrightarrow> t \<in> set builtins \<and> th_Name t = name"
  unfolding builtin_named_def by (auto dest: map_of_SomeD)

lemma builtin_named_iff: "builtin_named name \<noteq> None \<longleftrightarrow> name \<in> set (map th_Name builtins)"
  by (simp add: builtin_named_def map_of_eq_None_iff image_image)

text \<open>Whatever loads is called what was asked for and has every colour.\<close>

lemma theme_Load_complete:
  assumes "theme_Load F name themesDir = Inr t"
  shows "missingFields t = []" "th_Name t = (if name = [] then ''terminal'' else name)"
  using assms builtins_complete builtin_named_mem
  by (auto simp: theme_Load_def Let_def list_all_iff split: option.splits sum.splits prod.splits if_splits)

lemma terminal_builtin: "''terminal'' \<in> set (map th_Name builtins)"
  by (simp add: builtins_def)

text \<open>A built-in loads unless a file of its name stands in for it.\<close>

lemma theme_Load_builtin:
  "name \<in> set (map th_Name builtins) \<Longrightarrow> name \<noteq> [] \<Longrightarrow>
     tf_read F (path_join themesDir (name @ tomlExt)) = None \<Longrightarrow> \<exists>t. theme_Load F name themesDir = Inr t"
  using builtin_named_iff [of name] by (auto simp: theme_Load_def Let_def)

lemma theme_Available_distinct: "distinct (theme_Available F themesDir)"
  by (simp add: theme_Available_def sort_strings_def Let_def)

lemma theme_Available_not_empty: "theme_Available F themesDir \<noteq> []"
proof -
  have "''terminal'' \<in> set (theme_Available F themesDir)"
    using terminal_builtin by (simp add: theme_Available_def sort_strings_def Let_def)
  then show ?thesis by auto
qed

end
