(* ===== verification/TuiTypes.thy ===== *)
theory TuiTypes
  imports Theme IpcClient ConfigFile
begin

text \<open>
  The state of the terminal interface, \<^verbatim>\<open>internal/tui/model.go\<close>, its messages (\<^verbatim>\<open>msg.go\<close>) and its
  key bindings (\<^verbatim>\<open>keymap.go\<close>). A \<^verbatim>\<open>tea.Cmd\<close> is data here: what the framework is asked to run, a batch
  of them a list, \<^verbatim>\<open>nil\<close> the empty one. The styles are left out of the model record: they are computed from the
  theme whenever it is set.
\<close>

subsection \<open>Panes, tabs, columns, modes\<close>

datatype paneFocus = focusList | focusDetail | focusSidebar

fun paneFocus_next :: "paneFocus \<Rightarrow> paneFocus" where
  "paneFocus_next focusList = focusDetail"
| "paneFocus_next focusDetail = focusSidebar"
| "paneFocus_next focusSidebar = focusList"

fun paneFocus_prev :: "paneFocus \<Rightarrow> paneFocus" where
  "paneFocus_prev focusList = focusSidebar"
| "paneFocus_prev focusDetail = focusList"
| "paneFocus_prev focusSidebar = focusDetail"

datatype detailTab = tabPieces | tabPeers | tabFiles

definition detailTabNames :: "(detailTab \<times> string) list" where
  "detailTabNames = [(tabPieces, ''Pieces''), (tabPeers, ''Peers''), (tabFiles, ''Files'')]"

fun detailTab_next :: "detailTab \<Rightarrow> detailTab" where
  "detailTab_next tabPieces = tabPeers"
| "detailTab_next tabPeers = tabFiles"
| "detailTab_next tabFiles = tabPieces"

fun detailTab_prev :: "detailTab \<Rightarrow> detailTab" where
  "detailTab_prev tabPieces = tabFiles"
| "detailTab_prev tabPeers = tabPieces"
| "detailTab_prev tabFiles = tabPeers"

datatype sortMode = sortName | sortSize | sortProgress | sortRatio | sortETA | sortAdded | sortDown | sortUp

definition ParseSortMode :: "string \<Rightarrow> sortMode option" where
  "ParseSortMode s = map_of
     [(''name'', sortName), (''size'', sortSize), (''progress'', sortProgress), (''ratio'', sortRatio),
      (''eta'', sortETA), (''added'', sortAdded), (''down'', sortDown), (''up'', sortUp)] s"

datatype inputMode = modeNormal | modeSearch | modeCommand | modeFind

datatype findState = findClosed | findLoading | findLoaded

datatype statusFilter = filterAll | filterDownloading | filterSeeding | filterCompleted | filterStopped

definition filterNames :: "(statusFilter \<times> string) list" where
  "filterNames = [(filterAll, ''All''), (filterDownloading, ''Downloading''), (filterSeeding, ''Seeding''),
     (filterCompleted, ''Completed''), (filterStopped, ''Stopped'')]"

definition filter_name :: "statusFilter \<Rightarrow> string" where
  "filter_name f = the (map_of filterNames f)"

subsection \<open>Keys\<close>

record KeyMap =
  k_Up :: string
  k_Down :: string
  k_Top :: string
  k_Bottom :: string
  k_Select :: string
  k_Remove :: string
  k_RemoveData :: string
  k_Purge :: string
  k_Pause :: string
  k_Recheck :: string
  k_Detail :: string
  k_Back :: string
  k_Quit :: string
  k_Search :: string
  k_Command :: string
  k_Help :: string
  k_HelpAlt :: string
  k_Preview :: string
  k_Open :: string
  k_Find :: string
  k_FocusNext :: string
  k_FocusPrev :: string
  k_TabNext :: string
  k_TabPrev :: string
  k_FilterNext :: string
  k_FilterPrev :: string
  k_ToggleMouse :: string
  k_TabPieces :: string
  k_TabPeers :: string
  k_TabFiles :: string

definition DefaultKeyMap :: KeyMap where
  "DefaultKeyMap = \<lparr>k_Up = ''k'', k_Down = ''j'', k_Top = ''g'', k_Bottom = ''G'', k_Select = '' '',
     k_Remove = ''x'', k_RemoveData = ''D'', k_Purge = ''X'', k_Pause = ''p'', k_Recheck = ''r'',
     k_Detail = ''enter'', k_Back = ''esc'', k_Quit = ''q'', k_Search = ''/'', k_Command = '':'',
     k_Help = ''h'', k_HelpAlt = ''?'', k_Preview = ''v'', k_Open = ''o'', k_Find = ''f'',
     k_FocusNext = ''tab'', k_FocusPrev = ''shift+tab'', k_TabNext = '']'', k_TabPrev = ''['',
     k_FilterNext = ''}'', k_FilterPrev = ''{'', k_ToggleMouse = ''m'',
     k_TabPieces = ''1'', k_TabPeers = ''2'', k_TabFiles = ''3''\<rparr>"

definition WithOverrides :: "(string, string) gomap \<Rightarrow> KeyMap \<Rightarrow> KeyMap" where
  "WithOverrides ov k = (let get = (\<lambda>old action. case map_of ov action of Some v \<Rightarrow> v | None \<Rightarrow> old) in
     \<lparr>k_Up = get (k_Up k) ''up'', k_Down = get (k_Down k) ''down'', k_Top = get (k_Top k) ''top'',
      k_Bottom = get (k_Bottom k) ''bottom'', k_Select = get (k_Select k) ''select'',
      k_Remove = get (k_Remove k) ''remove'', k_RemoveData = get (k_RemoveData k) ''remove_data'',
      k_Purge = get (k_Purge k) ''purge'', k_Pause = get (k_Pause k) ''pause'',
      k_Recheck = get (k_Recheck k) ''recheck'', k_Detail = get (k_Detail k) ''detail'',
      k_Back = get (k_Back k) ''back'', k_Quit = get (k_Quit k) ''quit'',
      k_Search = get (k_Search k) ''search'', k_Command = get (k_Command k) ''command'',
      k_Help = get (k_Help k) ''help'', k_HelpAlt = get (k_HelpAlt k) ''help_alt'',
      k_Preview = get (k_Preview k) ''preview'', k_Open = get (k_Open k) ''open'',
      k_Find = get (k_Find k) ''find'', k_FocusNext = get (k_FocusNext k) ''focus_next'',
      k_FocusPrev = get (k_FocusPrev k) ''focus_prev'', k_TabNext = get (k_TabNext k) ''tab_next'',
      k_TabPrev = get (k_TabPrev k) ''tab_prev'', k_FilterNext = get (k_FilterNext k) ''filter_next'',
      k_FilterPrev = get (k_FilterPrev k) ''filter_prev'',
      k_ToggleMouse = get (k_ToggleMouse k) ''toggle_mouse'',
      k_TabPieces = get (k_TabPieces k) ''tab_pieces'', k_TabPeers = get (k_TabPeers k) ''tab_peers'',
      k_TabFiles = get (k_TabFiles k) ''tab_files''\<rparr>)"

text \<open>A keystroke as the framework reports it: its type, the text it carries, and its name.\<close>

datatype keyType = KeyEnter | KeyEsc | KeyBackspace | KeySpace | KeyTab | KeyRunes | KeyOther

record keyMsg =
  key_Type :: keyType
  key_Runes :: string
  key_String :: string

datatype mouseButton = MouseLeft | MouseWheelUp | MouseWheelDown | MouseButtonOther

record mouseMsg =
  mo_X :: int
  mo_Y :: int
  mo_Button :: mouseButton
  mo_Press :: bool

subsection \<open>Messages and commands\<close>

record statusMsg =
  sm_text :: string
  sm_isErr :: bool

definition errStatus :: "string \<Rightarrow> statusMsg" where
  "errStatus err = \<lparr>sm_text = err, sm_isErr = True\<rparr>"

definition okStatus :: "string \<Rightarrow> statusMsg" where
  "okStatus txt = \<lparr>sm_text = txt, sm_isErr = False\<rparr>"

datatype tui_msg =
    WindowSize int int
  | EngineEvent Event
  | EngineClosed
  | TorrentsAdded string "tid list"
  | FindResults int string "(Result list \<times> string list) result"
  | StatusMsg string bool
  | ThemeCheck
  | StatusExpired int
  | DetailLoaded "EngineTypes.TorrentDetail result"
  | KeyPressed keyMsg
  | MouseEvent mouseMsg
  | OtherMsg

definition said :: "statusMsg \<Rightarrow> tui_msg" where
  "said s = StatusMsg (sm_text s) (sm_isErr s)"

datatype tcmd =
    QuitCmd | ListenForEvents | ThemeWatch duration | ExpireStatus int duration
  | LoadDetail tid
  | RemoveCmd "tid list" bool | PurgeCmd "tid list" | PauseCmd "TorrentSnapshot list" | RecheckCmd "tid list"
  | SetPausedCmd "tid list" bool | SetLabelCmd "tid list" string
  | SetPriorityCmd tid nat priority | PreviewCmd string tid FileInfo | OpenCmd string string string
  | FindCmd string int | AddBatchCmd "string list" | LimitCmd bool string | MoveCmd tid string
  | DisableMouse | EnableMouseCellMotion
  | Say statusMsg

subsection \<open>The model\<close>

type_synonym fileStamp = "gotime \<times> int"

record Model =
  u_torrents :: "TorrentSnapshot list"
  u_global :: GlobalStats
  u_daemonDown :: bool
  u_filter :: statusFilter
  u_sortBy :: sortMode
  u_sortDesc :: bool
  u_keymap :: KeyMap
  u_player :: string
  u_opener :: string
  u_cursor :: int
  u_selected :: "tid set"
  u_mode :: inputMode
  u_searchQuery :: string
  u_commandBuf :: string
  u_completions :: "string list"
  u_showHelp :: bool
  u_themePicker :: bool
  u_themeNames :: "string list"
  u_themeCursor :: int
  u_theme :: Theme
  u_themeSaved :: Theme
  u_themesDir :: string
  u_themeStamp :: fileStamp
  u_finder :: bool
  u_findState :: findState
  u_findQuery :: string
  u_findResults :: "Result list"
  u_findWarnings :: "string list"
  u_findCursor :: int
  u_findErr :: "string option"
  u_findSeq :: int
  u_findSources :: "string list"
  u_pendingDD :: bool
  u_pendingAt :: gotime
  u_focus :: paneFocus
  u_sidebarCursor :: int
  u_labelFilter :: string
  u_mouseOff :: bool
  u_pendingReveal :: "tid list"
  u_detail :: EngineTypes.TorrentDetail
  u_detailTab :: detailTab
  u_detailCursor :: int
  u_detailScroll :: int
  u_detailLoaded :: bool
  u_detailID :: tid
  u_status :: string
  u_statusIsErr :: bool
  u_statusSeq :: int
  u_width :: int
  u_height :: int
  u_quitting :: bool

text \<open>The zero value of the daemon's own numbers.\<close>

definition zero_global :: GlobalStats where
  "zero_global = \<lparr>glob_DownloadBPS = Fin 0, glob_UploadBPS = Fin 0, glob_TotalDownload = 0, glob_TotalUpload = 0,
     glob_NumTorrents = 0, glob_DiskFreeBytes = 0, glob_DiskTotalBytes = 0, glob_ListenPort = 0, glob_DhtNodes = 0,
     glob_VPNRequired = False, glob_VPNActive = False, glob_VPNInterface = [], glob_DiskLow = False,
     glob_MinFreeSpace = 0, glob_UploadLimit = 0, glob_DownloadLimit = 0, glob_Version = [], glob_StartedAt = 0\<rparr>"

text \<open>What a handler returns: the next model and what to run, or \<open>None\<close> for a Go panic.\<close>

type_synonym tui_step = "(Model \<times> tcmd list) option"

abbreviation quiet_step :: "Model \<Rightarrow> tui_step" where
  "quiet_step m \<equiv> Some (m, [])"

text \<open>Indexing, which panics out of range.\<close>

definition index_at :: "'a list \<Rightarrow> int \<Rightarrow> 'a option" where
  "index_at xs i = (if 0 \<le> i \<and> i < int (List.length xs) then Some (xs ! nat i) else None)"

text \<open>The styles of \<^verbatim>\<open>style.go\<close> text is drawn in.\<close>

datatype tui_style = BaseStyle | StatusBar | StatusErr | SelectedRow | RowStyle | CursorRow | CursorSelectedRow
  | ColHeader | ProgressTrack | MutedStyle | AccentStyle | SuccessStyle | WarningStyle | ErrorStyle | TitleStyle
  | TabActive | TabInactive | SidebarTitle | SidebarItem | SidebarItemActive

text \<open>What the interface sees of its host: how wide the terminal library says a text is and how it paints one,
  the clock, the theme files and their stamps, the environment, directories.\<close>

record tui_host =
  v_width :: "string \<Rightarrow> int"
  v_render :: "Theme \<Rightarrow> tui_style \<Rightarrow> string \<Rightarrow> string"
  v_now :: gotime
  v_themes :: theme_files
  v_stamp :: "string \<Rightarrow> fileStamp option"
  v_environ :: environ
  v_readDir :: "string \<Rightarrow> string list option"
  v_isDir :: "string \<Rightarrow> bool"

lemma index_at_Some: "index_at xs i = Some x \<longleftrightarrow> 0 \<le> i \<and> i < int (List.length xs) \<and> xs ! nat i = x"
  by (auto simp: index_at_def)

lemma index_at_not_None: "index_at xs i \<noteq> None \<longleftrightarrow> 0 \<le> i \<and> i < int (List.length xs)"
  by (simp add: index_at_def)

lemma ParseSortMode_names:
  "ParseSortMode s \<noteq> None \<longleftrightarrow>
     s \<in> {''name'', ''size'', ''progress'', ''ratio'', ''eta'', ''added'', ''down'', ''up''}"
  by (auto simp: ParseSortMode_def split: if_splits)

text \<open>The overridable actions are the ones the configuration knows, and what is not overridden stays.\<close>

lemma WithOverrides_none [simp]: "WithOverrides [] k = k"
  by (simp add: WithOverrides_def)

end
