(* ===== verification/TuiList.thy ===== *)
theory TuiList
  imports TuiTypes
begin

text \<open>
  What is on screen: the torrents a filter, a label and a search leave, in the chosen order, with the
  cursor in them (\<^verbatim>\<open>model.go\<close>, \<^verbatim>\<open>list.go\<close>), and the rows of the sidebar (\<^verbatim>\<open>sidebar.go\<close>,
  \<^verbatim>\<open>label.go\<close>).
\<close>

subsection \<open>The visible torrents\<close>

fun filter_matches :: "statusFilter \<Rightarrow> TorrentSnapshot \<Rightarrow> bool" where
  "filter_matches filterDownloading t = (snap_State t = StateDownloading)"
| "filter_matches filterSeeding t = (snap_State t = StateSeeding)"
| "filter_matches filterCompleted t = (0 < snap_TotalLength t \<and> snap_TotalLength t \<le> snap_Completed t)"
| "filter_matches filterStopped t = (snap_Paused t \<or> snap_State t = StateError
     \<or> snap_State t = StateBlocked \<or> snap_State t = StateLowDisk)"
| "filter_matches filterAll t = True"

definition search_text :: "Model \<Rightarrow> string" where
  "search_text m = to_lower (trim_space (u_searchQuery m))"

definition drawn :: "Model \<Rightarrow> TorrentSnapshot \<Rightarrow> bool" where
  "drawn m t \<longleftrightarrow> filter_matches (u_filter m) t
     \<and> (u_labelFilter m = [] \<or> snap_Label t = u_labelFilter m)
     \<and> (search_text m = [] \<or> contains (to_lower (snap_Name t)) (search_text m))"

fun column_less :: "sortMode \<Rightarrow> TorrentSnapshot \<Rightarrow> TorrentSnapshot \<Rightarrow> bool" where
  "column_less sortSize s t = (snap_TotalLength s < snap_TotalLength t)"
| "column_less sortProgress s t = f64_lt (snap_Progress s) (snap_Progress t)"
| "column_less sortRatio s t = f64_lt (snap_Ratio s) (snap_Ratio t)"
| "column_less sortETA s t = (snap_ETA s < snap_ETA t)"
| "column_less sortAdded s t = (snap_AddedAt s < snap_AddedAt t)"
| "column_less sortDown s t = f64_lt (snap_DownloadBPS s) (snap_DownloadBPS t)"
| "column_less sortUp s t = f64_lt (snap_UploadBPS s) (snap_UploadBPS t)"
| "column_less sortName s t = name_less (snap_Name s) (snap_Name t)"

definition row_less :: "sortMode \<Rightarrow> bool \<Rightarrow> TorrentSnapshot \<Rightarrow> TorrentSnapshot \<Rightarrow> bool" where
  "row_less by desc s t = (let lt = column_less by s t in if desc then \<not> lt else lt)"

definition visibleTorrents :: "Model \<Rightarrow> TorrentSnapshot list" where
  "visibleTorrents m = slice_stable (row_less (u_sortBy m) (u_sortDesc m)) (filter (drawn m) (u_torrents m))"

definition cursorTorrent :: "Model \<Rightarrow> TorrentSnapshot option" where
  "cursorTorrent m = index_at (visibleTorrents m) (u_cursor m)"

definition clamp_cursor :: "int \<Rightarrow> nat \<Rightarrow> int" where
  "clamp_cursor c n = (if n = 0 then 0 else let c1 = (if int n \<le> c then int n - 1 else c) in if c1 < 0 then 0 else c1)"

definition clampCursor :: "nat \<Rightarrow> Model \<Rightarrow> Model" where
  "clampCursor n m = m\<lparr>u_cursor := clamp_cursor (u_cursor m) n\<rparr>"

abbreviation clamped :: "Model \<Rightarrow> Model" where
  "clamped m \<equiv> clampCursor (List.length (visibleTorrents m)) m"

text \<open>What an action applies to. The slice of one row panics below the first.\<close>

definition tui_targets :: "TorrentSnapshot list \<Rightarrow> Model \<Rightarrow> TorrentSnapshot list option" where
  "tui_targets visible m =
     (if u_selected m \<noteq> {} then Some (filter (\<lambda>t. snap_ID t \<in> u_selected m) (u_torrents m))
      else if List.length visible = 0 \<or> int (List.length visible) \<le> u_cursor m then Some []
      else map_option (\<lambda>t. [t]) (index_at visible (u_cursor m)))"

definition zero_snapshot :: TorrentSnapshot where
  "zero_snapshot = \<lparr>snap_ID = [], snap_Name = [], snap_InfoHash = [], snap_TotalLength = 0, snap_Completed = 0,
     snap_Progress = Fin 0, snap_DownloadBPS = Fin 0, snap_UploadBPS = Fin 0, snap_Downloaded = 0, snap_Uploaded = 0,
     snap_Ratio = Fin 0, snap_NumPeers = 0, snap_NumSeeds = 0, snap_ETA = 0, snap_State = StateChecking,
     snap_Paused = False, snap_Checking = False, snap_CheckProgress = Fin 0, snap_SavePath = [], snap_DataDir = [],
     snap_AddedAt = 0, snap_Error = [], snap_DownloadLimit = 0, snap_UploadLimit = 0, snap_Label = []\<rparr>"

definition zero_detail :: EngineTypes.TorrentDetail where
  "zero_detail = \<lparr>detail_Snapshot = zero_snapshot, detail_Files = [], detail_Peers = [], detail_Trackers = [],
     detail_Pieces = [], detail_NumPieces = 0, detail_PieceLength = 0\<rparr>"

definition syncDetail :: "Model \<Rightarrow> Model \<times> tcmd list" where
  "syncDetail m = (case cursorTorrent m of
     None \<Rightarrow> (m\<lparr>u_detailLoaded := False, u_detail := zero_detail, u_detailID := []\<rparr>, [])
   | Some t \<Rightarrow>
       if snap_ID t \<noteq> u_detailID m
       then (m\<lparr>u_detailID := snap_ID t, u_detailLoaded := False, u_detailCursor := 0, u_detailScroll := 0\<rparr>,
             [LoadDetail (snap_ID t)])
       else (m\<lparr>u_detail := (u_detail m)\<lparr>detail_Snapshot := t\<rparr>\<rparr>, [LoadDetail (snap_ID t)]))"

subsection \<open>The status line\<close>

definition statusTTL :: duration where "statusTTL = 5 * second"
definition statusErrorTTL :: duration where "statusErrorTTL = 12 * second"

definition setStatus :: "statusMsg \<Rightarrow> Model \<Rightarrow> Model \<times> tcmd list" where
  "setStatus s m = (let m1 = m\<lparr>u_status := sm_text s, u_statusIsErr := sm_isErr s, u_statusSeq := u_statusSeq m + 1\<rparr>
     in (m1, [ExpireStatus (u_statusSeq m1) (if sm_isErr s then statusErrorTTL else statusTTL)]))"

definition clearStatus :: "int \<Rightarrow> Model \<Rightarrow> Model" where
  "clearStatus n m = (if n \<noteq> u_statusSeq m then m else m\<lparr>u_status := [], u_statusIsErr := False\<rparr>)"

subsection \<open>The sidebar\<close>

definition label_counts :: "TorrentSnapshot list \<Rightarrow> (string, nat) gomap" where
  "label_counts ts = foldl (\<lambda>counts t. if snap_Label t = [] then counts
     else AList.update (snap_Label t) (case map_of counts (snap_Label t) of None \<Rightarrow> 1 | Some n \<Rightarrow> n + 1) counts) [] ts"

definition label_less :: "string \<times> nat \<Rightarrow> string \<times> nat \<Rightarrow> bool" where
  "label_less a b = (if snd a \<noteq> snd b then snd b < snd a else str_less (fst a) (fst b))"

definition labelsInUse :: "Model \<Rightarrow> (string \<times> nat) list" where
  "labelsInUse m = slice_stable label_less (label_counts (u_torrents m))"

record sidebarEntry =
  se_label :: string
  se_status :: statusFilter
  se_count :: nat

definition isLabel :: "sidebarEntry \<Rightarrow> bool" where
  "isLabel e \<longleftrightarrow> se_label e \<noteq> []"

definition sidebarEntries :: "Model \<Rightarrow> sidebarEntry list" where
  "sidebarEntries m = map (\<lambda>(f, _). \<lparr>se_label = [], se_status = f, se_count = 0\<rparr>) filterNames
     @ map (\<lambda>(l, n). \<lparr>se_label = l, se_status = filterAll, se_count = n\<rparr>) (labelsInUse m)"

definition applyEntry :: "sidebarEntry \<Rightarrow> Model \<Rightarrow> Model" where
  "applyEntry e m = (if isLabel e then m\<lparr>u_labelFilter := se_label e, u_filter := filterAll\<rparr>
     else m\<lparr>u_labelFilter := [], u_filter := se_status e\<rparr>)"

text \<open>A row is the applied filter; the index of the first that is, or 0.\<close>

definition entryIsActive :: "Model \<Rightarrow> sidebarEntry \<Rightarrow> bool" where
  "entryIsActive m e = (if isLabel e then u_labelFilter m = se_label e
     else u_labelFilter m = [] \<and> se_status e = u_filter m)"

fun first_index :: "('a \<Rightarrow> bool) \<Rightarrow> 'a list \<Rightarrow> nat option" where
  "first_index P [] = None"
| "first_index P (x # xs) = (if P x then Some 0 else map_option Suc (first_index P xs))"

definition currentSidebarIndex :: "Model \<Rightarrow> int" where
  "currentSidebarIndex m = (case first_index
       (\<lambda>e. if u_labelFilter m \<noteq> [] then isLabel e \<and> se_label e = u_labelFilter m
            else \<not> isLabel e \<and> se_status e = u_filter m) (sidebarEntries m) of
     None \<Rightarrow> 0 | Some i \<Rightarrow> int i)"

definition dropVanishedLabelFilter :: "Model \<Rightarrow> Model" where
  "dropVanishedLabelFilter m =
     (if u_labelFilter m = [] then m
      else if u_labelFilter m \<in> set (map fst (labelsInUse m)) then m
      else m\<lparr>u_labelFilter := [], u_filter := filterAll, u_sidebarCursor := 0\<rparr>)"

text \<open>Which of the three filters hide one of the torrents just added.\<close>

definition hides :: "Model \<Rightarrow> (TorrentSnapshot \<Rightarrow> bool) \<Rightarrow> bool" where
  "hides m P = list_ex (\<lambda>k. case map_of (rev (map (\<lambda>t. (snap_ID t, t)) (u_torrents m))) k of
     None \<Rightarrow> False | Some t \<Rightarrow> P t) (u_pendingReveal m)"

definition revealJustAdded :: "Model \<Rightarrow> Model \<times> string list" where
  "revealJustAdded m =
     (if u_pendingReveal m = [] then (m, [])
      else if \<not> hides m (\<lambda>_. True) then (m, [])
      else let
        byStatus = hides m (\<lambda>t. \<not> filter_matches (u_filter m) t);
        byLabel = hides m (\<lambda>t. u_labelFilter m \<noteq> [] \<and> snap_Label t \<noteq> u_labelFilter m);
        bySearch = hides m (\<lambda>t. search_text m \<noteq> [] \<and> \<not> contains (to_lower (snap_Name t)) (search_text m));
        cleared = (if byLabel then [''the '' @ u_labelFilter m @ '' label''] else [])
          @ (if byStatus then [''the '' @ to_lower (filter_name (u_filter m)) @ '' filter''] else [])
          @ (if bySearch then [''the search''] else []);
        m1 = m\<lparr>u_pendingReveal := [],
               u_labelFilter := (if byLabel then [] else u_labelFilter m),
               u_filter := (if byStatus then filterAll else u_filter m),
               u_searchQuery := (if bySearch then [] else u_searchQuery m)\<rparr>
        in (if cleared \<noteq> [] then m1\<lparr>u_sidebarCursor := currentSidebarIndex m1\<rparr> else m1, cleared))"

definition joinClauses :: "string list \<Rightarrow> string" where
  "joinClauses parts = (case parts of [] \<Rightarrow> [] | [p] \<Rightarrow> p
     | _ \<Rightarrow> str_join (butlast parts) '', '' @ '' and '' @ last parts)"

subsection \<open>Lemmas\<close>

lemma clamp_cursor_bounds: "0 \<le> clamp_cursor c n \<and> (clamp_cursor c n < int n \<or> n = 0 \<and> clamp_cursor c n = 0)"
  by (auto simp: clamp_cursor_def Let_def)

lemma clamp_cursor_id: "0 \<le> c \<Longrightarrow> c < int n \<Longrightarrow> clamp_cursor c n = c"
  by (auto simp: clamp_cursor_def Let_def)

lemma visible_mset: "mset (visibleTorrents m) = mset (filter (drawn m) (u_torrents m))"
  by (simp add: visibleTorrents_def)

lemma set_visible: "set (visibleTorrents m) = {t \<in> set (u_torrents m). drawn m t}"
  by (auto simp: visibleTorrents_def)

text \<open>The list depends on these fields only.\<close>

lemma visible_cong:
  "u_torrents m = u_torrents m' \<Longrightarrow> u_filter m = u_filter m' \<Longrightarrow> u_labelFilter m = u_labelFilter m' \<Longrightarrow>
   u_searchQuery m = u_searchQuery m' \<Longrightarrow> u_sortBy m = u_sortBy m' \<Longrightarrow> u_sortDesc m = u_sortDesc m' \<Longrightarrow>
     visibleTorrents m = visibleTorrents m'"
proof -
  assume a: "u_torrents m = u_torrents m'" "u_filter m = u_filter m'" "u_labelFilter m = u_labelFilter m'"
    "u_searchQuery m = u_searchQuery m'" "u_sortBy m = u_sortBy m'" "u_sortDesc m = u_sortDesc m'"
  then have "drawn m = drawn m'" by (intro ext) (simp add: drawn_def search_text_def)
  then show ?thesis using a by (simp add: visibleTorrents_def)
qed

lemma labelsInUse_cong: "u_torrents m = u_torrents m' \<Longrightarrow> labelsInUse m = labelsInUse m'"
  by (simp add: labelsInUse_def)

lemma sidebarEntries_cong: "u_torrents m = u_torrents m' \<Longrightarrow> sidebarEntries m = sidebarEntries m'"
  by (simp add: sidebarEntries_def labelsInUse_cong [of m m'])

lemma sidebarEntries_not_empty [simp]: "sidebarEntries m \<noteq> []"
  by (simp add: sidebarEntries_def filterNames_def)

lemma first_index_Some:
  "first_index P xs = Some i \<Longrightarrow> i < length xs \<and> P (xs ! i) \<and> (\<forall>j<i. \<not> P (xs ! j))"
proof (induction xs arbitrary: i)
  case (Cons x xs)
  then show ?case by (auto split: if_splits simp: nth_Cons split: nat.splits)
qed simp

lemma first_index_None: "first_index P xs = None \<longleftrightarrow> list_all (\<lambda>x. \<not> P x) xs"
  by (induction xs) auto

end
