(* ===== verification/TuiLayout.thy ===== *)
theory TuiLayout
  imports TuiList
begin

text \<open>
  Where things are on the screen: the panes of \<^verbatim>\<open>internal/tui/layout.go\<close>, the columns and the scroll
  window of \<^verbatim>\<open>list.go\<close> and \<^verbatim>\<open>find.go\<close>, what is under the pointer (\<^verbatim>\<open>mouse.go\<close>), and texts cut or
  padded to a width (\<^verbatim>\<open>format.go\<close>), which is measured by the terminal library.
\<close>

subsection \<open>Panes\<close>

definition sidebarWidth :: int where "sidebarWidth = 20"
definition detailHeight :: int where "detailHeight = 12"
definition borderWidth :: int where "borderWidth = 2"
definition borderHeight :: int where "borderHeight = 2"
definition panePadX :: int where "panePadX = 1"
definition minWidth :: int where "minWidth = 60"
definition minHeight :: int where "minHeight = 15"
definition compactHeight :: int where "compactHeight = 24"

lemmas pane_sizes = sidebarWidth_def detailHeight_def borderWidth_def borderHeight_def panePadX_def minWidth_def
  minHeight_def compactHeight_def

record panes =
  p_sidebarW :: int
  p_sidebarH :: int
  p_listW :: int
  p_listH :: int
  p_detailW :: int
  p_detailH :: int
  p_footerW :: int
  p_sidebarBoxW :: int
  p_listBoxW :: int
  p_detailBoxW :: int
  p_sidebarContentW :: int
  p_sidebarContentH :: int
  p_listContentW :: int
  p_listContentH :: int
  p_detailContentW :: int
  p_detailContentH :: int

definition tui_layout :: "int \<Rightarrow> int \<Rightarrow> panes" where
  "tui_layout width height = (let
     bodyH = height - 1;
     d0 = (if height < compactHeight then 3 else detailHeight);
     detailH = (if bodyH - 4 < d0 then max 3 (bodyH - 4) else d0);
     sidebarW = (if go_div width 3 < sidebarWidth then max 10 (go_div width 3) else sidebarWidth);
     rightW = width - sidebarW; listH = bodyH - detailH;
     sidebarBoxW = sidebarW - borderWidth; rightBoxW = rightW - borderWidth
   in \<lparr>p_sidebarW = sidebarW, p_sidebarH = bodyH, p_listW = rightW, p_listH = listH, p_detailW = rightW,
       p_detailH = detailH, p_footerW = width,
       p_sidebarBoxW = sidebarBoxW, p_listBoxW = rightBoxW, p_detailBoxW = rightBoxW,
       p_sidebarContentW = max 0 (sidebarBoxW - 2 * panePadX), p_sidebarContentH = bodyH - borderHeight,
       p_listContentW = max 0 (rightBoxW - 2 * panePadX), p_listContentH = listH - borderHeight,
       p_detailContentW = max 0 (rightBoxW - 2 * panePadX), p_detailContentH = detailH - borderHeight\<rparr>)"

subsection \<open>Columns\<close>

definition colMark :: int where "colMark = 2"
definition colSize :: int where "colSize = 8"
definition colStatus :: int where "colStatus = 13"
definition colDown :: int where "colDown = 12"
definition colUp :: int where "colUp = 12"
definition colETA :: int where "colETA = 7"
definition colPercent :: int where "colPercent = 4"
definition minBarWidth :: int where "minBarWidth = 10"
definition maxBarWidth :: int where "maxBarWidth = 48"
definition nameTarget :: int where "nameTarget = 48"
definition colGap :: int where "colGap = 1"
definition rowLines :: int where "rowLines = 1"
definition minNameWidth :: int where "minNameWidth = 20"

lemmas column_sizes = colMark_def colSize_def colStatus_def colDown_def colUp_def colETA_def colPercent_def
  minBarWidth_def maxBarWidth_def nameTarget_def colGap_def rowLines_def minNameWidth_def

definition progressWidthWith :: "int \<Rightarrow> int" where
  "progressWidthWith bar = (if bar \<le> 0 then colPercent else bar + colGap + colPercent)"

definition fixedColumnsWith :: "int \<Rightarrow> int" where
  "fixedColumnsWith bar = colMark + 7 * colGap + progressWidthWith bar + colSize + colStatus + colDown + colUp + colETA"

definition barWidth :: "int \<Rightarrow> int" where
  "barWidth contentW = (let surplus = contentW - fixedColumnsWith 0 - nameTarget; bar = go_div surplus 2 in
     if surplus \<le> 0 then 0 else if bar < minBarWidth then 0 else min maxBarWidth bar)"

definition progressWidth :: "int \<Rightarrow> int" where
  "progressWidth contentW = progressWidthWith (barWidth contentW)"

definition progressHeading :: "int \<Rightarrow> string" where
  "progressHeading bar = (if bar \<le> 0 then ''%'' else ''Progress'')"

definition nameWidth :: "int \<Rightarrow> int \<times> bool" where
  "nameWidth contentW = (let w = contentW - fixedColumnsWith (barWidth contentW) in
     if w < minNameWidth then (max 1 (contentW - colMark - colGap - progressWidth contentW - colGap), False)
     else (w, True))"

definition colFindNum :: int where "colFindNum = 3"
definition colFindSize :: int where "colFindSize = 9"
definition colFindPeers :: int where "colFindPeers = 6"
definition colFindTracker :: int where "colFindTracker = 16"
definition minFindTitle :: int where "minFindTitle = 24"

lemmas find_sizes = colFindNum_def colFindSize_def colFindPeers_def colFindTracker_def minFindTitle_def

definition findColumns :: "int \<Rightarrow> int \<times> bool" where
  "findColumns contentW = (let
     fixd = colFindNum + 1 + colFindSize + 1 + colFindPeers + 1 + colFindPeers + 1 + colFindTracker + 1;
     w = contentW - fixd in
     if minFindTitle \<le> w then (w, True) else (max 1 (contentW - colFindNum - 1), False))"

text \<open>The rows a viewport of \<open>height\<close> rows shows of \<open>n\<close>.\<close>

definition scrollWindow :: "int \<Rightarrow> int \<Rightarrow> int \<Rightarrow> int \<times> int" where
  "scrollWindow cursor n height =
     (if height \<le> 0 \<or> n \<le> height then (0, n)
      else let s0 = cursor - go_div height 2; start = (if s0 < 0 then 0 else s0); stop = start + height
        in if n < stop then (n - height, n) else (start, stop))"

subsection \<open>The pointer\<close>

datatype mouseTarget = targetNone | targetSidebar | targetList | targetDetailTabs | targetDetailBody

definition hitTest :: "panes \<Rightarrow> int \<Rightarrow> int \<Rightarrow> mouseTarget \<times> int" where
  "hitTest p x y =
     (if x < p_sidebarW p then
        (let row = y - 1 in if row < 0 \<or> p_sidebarContentH p \<le> row then (targetNone, 0) else (targetSidebar, row))
      else if y < p_listH p then
        (let row = y - 1 in if row < 0 \<or> p_listContentH p \<le> row then (targetNone, 0) else (targetList, row))
      else if y < p_listH p + p_detailH p then
        (let row = y - p_listH p - 1 in
           if row < 0 \<or> p_detailContentH p \<le> row then (targetNone, 0)
           else if row = 0 then (targetDetailTabs, 0) else (targetDetailBody, row - 1))
      else (targetNone, 0))"

fun tab_spans :: "int \<Rightarrow> (detailTab \<times> string) list \<Rightarrow> (detailTab \<times> int \<times> int) list" where
  "tab_spans col [] = []"
| "tab_spans col ((t, name) # rest) = (let w = int (List.length name) + 2 in (t, col, w) # tab_spans (col + w + 2) rest)"

definition detailTabSpans :: "(detailTab \<times> int \<times> int) list" where
  "detailTabSpans = tab_spans 3 detailTabNames"

definition detailTabAt :: "int \<Rightarrow> detailTab option" where
  "detailTabAt col = map_option fst (find (\<lambda>(_, start, width). start \<le> col \<and> col < start + width) detailTabSpans)"

definition center_at :: "int \<Rightarrow> int \<Rightarrow> int \<Rightarrow> int \<Rightarrow> int \<times> int" where
  "center_at width height boxW boxH = (max 0 (go_div (width - boxW) 2), max 0 (go_div (height - boxH) 2))"

subsection \<open>Cutting and padding\<close>

definition ellipsis :: string where "ellipsis = map char_of [226, 128, 166 :: nat]"

text \<open>Characters go from the end of a text, or from its front, until what is left fits beside the
  ellipsis.\<close>

fun cut_end :: "(string \<Rightarrow> int) \<Rightarrow> int \<Rightarrow> string list \<Rightarrow> string" where
  "cut_end W width rs = (if rs = [] then ellipsis
     else let t = concat (butlast rs) in if W t + 1 \<le> width then t @ ellipsis else cut_end W width (butlast rs))"

declare cut_end.simps [simp del]

fun cut_front :: "(string \<Rightarrow> int) \<Rightarrow> int \<Rightarrow> string list \<Rightarrow> string" where
  "cut_front W width [] = ellipsis"
| "cut_front W width (r # rs) = (let t = concat rs in if W t + 1 \<le> width then ellipsis @ t else cut_front W width rs)"

definition rune_texts :: "string \<Rightarrow> string list" where
  "rune_texts s = map (\<lambda>c. json_str (snd c)) (utf8 s)"

definition tui_truncate :: "(string \<Rightarrow> int) \<Rightarrow> string \<Rightarrow> int \<Rightarrow> string" where
  "tui_truncate W s width = (if width \<le> 0 then [] else if W s \<le> width then s else if width = 1 then ellipsis
     else cut_end W width (rune_texts s))"

definition truncateTail :: "(string \<Rightarrow> int) \<Rightarrow> string \<Rightarrow> int \<Rightarrow> string" where
  "truncateTail W s width = (if width \<le> 0 then [] else if W s \<le> width then s else if width = 1 then ellipsis
     else cut_front W width (rune_texts s))"

definition blanks :: "int \<Rightarrow> string" where "blanks n = replicate (nat n) (CHR '' '')"

definition padRight :: "(string \<Rightarrow> int) \<Rightarrow> string \<Rightarrow> int \<Rightarrow> string" where
  "padRight W s0 width = (let s = tui_truncate W s0 width; pad = width - W s in if 0 < pad then s @ blanks pad else s)"

definition padLeft :: "(string \<Rightarrow> int) \<Rightarrow> string \<Rightarrow> int \<Rightarrow> string" where
  "padLeft W s0 width = (let s = tui_truncate W s0 width; pad = width - W s in if 0 < pad then blanks pad @ s else s)"

definition clampLines :: "'a list \<Rightarrow> int \<Rightarrow> 'a list" where
  "clampLines xs height = (if 0 < height \<and> height < int (List.length xs) then take (nat height) xs else xs)"

subsection \<open>Lemmas\<close>

lemma scrollWindow_bounds:
  assumes "0 \<le> n" "(start, stop) = scrollWindow cursor n height"
  shows "0 \<le> start" "start \<le> stop" "stop \<le> n" "0 < height \<Longrightarrow> stop - start \<le> height"
  using assms by (auto simp: scrollWindow_def Let_def go_div_nonneg split: if_splits)

lemma scrollWindow_has_cursor:
  assumes "0 \<le> cursor" "cursor < n" "(start, stop) = scrollWindow cursor n height"
  shows "start \<le> cursor" "cursor < stop"
  using assms by (auto simp: scrollWindow_def Let_def go_div_nonneg split: if_splits)

text \<open>The panes and the footer are the terminal, and everything in them has room.\<close>

lemma layout_tiles:
  assumes "minWidth \<le> w" "minHeight \<le> h" "p = tui_layout w h"
  shows "p_sidebarW p + p_listW p = w" "p_listH p + p_detailH p + 1 = h" "p_sidebarH p + 1 = h"
    "p_detailW p = p_listW p" "16 \<le> p_sidebarContentW p" "12 \<le> p_sidebarContentH p"
    "36 \<le> p_listContentW p" "9 \<le> p_listContentH p" "1 \<le> p_detailContentH p"
    "p_sidebarContentW p + borderWidth + 2 * panePadX = p_sidebarW p"
    "p_listContentW p + borderWidth + 2 * panePadX = p_listW p"
  using assms by (auto simp: tui_layout_def pane_sizes Let_def go_div_nonneg)

lemma barWidth_cases:
  "barWidth c = 0 \<or> 10 \<le> barWidth c \<and> barWidth c \<le> 48 \<and> 2 * barWidth c \<le> c - 113"
proof -
  have "barWidth c = (if c \<le> 113 then 0 else if go_div (c - 113) 2 < 10 then 0 else min 48 (go_div (c - 113) 2))"
    by (simp add: barWidth_def fixedColumnsWith_def progressWidthWith_def column_sizes Let_def)
  moreover have "113 < c \<Longrightarrow> go_div (c - 113) 2 = (c - 113) div 2" by (simp add: go_div_nonneg)
  ultimately show ?thesis by (auto simp: min_def)
qed

text \<open>A row of the list is as wide as the pane gives it room.\<close>

lemma list_row_fits:
  assumes "36 \<le> c" "(n, wide) = nameWidth c"
  shows "if wide then n + fixedColumnsWith (barWidth c) = c \<and> minNameWidth \<le> n
    else colMark + colGap + n + colGap + progressWidth c \<le> c"
  using barWidth_cases [of c] assms
  by (auto simp: nameWidth_def Let_def fixedColumnsWith_def progressWidth_def progressWidthWith_def
      column_sizes split: if_splits)

end
