(* ===== verification/TuiSidebar.thy ===== *)
theory TuiSidebar
  imports TuiLayout Quantities
begin

text \<open>
  The sidebar as it is drawn, and which of its rows can be picked: \<^verbatim>\<open>buildSidebar\<close> of
  \<^verbatim>\<open>internal/tui/sidebar.go\<close>. A row is a line and the entry it stands for, -1 for none.
\<close>

text \<open>A number of bytes as \<^verbatim>\<open>format.Bytes\<close> gives it; empty for the one number it does not return for.\<close>

definition formatBytes :: "int \<Rightarrow> string" where
  "formatBytes n = (case Bytes n of Some s \<Rightarrow> s | None \<Rightarrow> [])"

definition paint :: "tui_host \<Rightarrow> Model \<Rightarrow> tui_style \<Rightarrow> string \<Rightarrow> string" where
  "paint H m st s = v_render H (u_theme m) st s"

type_synonym sidebar_row = "string \<times> int"

definition renderSidebarRow :: "tui_host \<Rightarrow> Model \<Rightarrow> sidebarEntry \<Rightarrow> int \<Rightarrow> string \<Rightarrow> int \<Rightarrow> string" where
  "renderSidebarRow H m e i name w = (let
     active = entryIsActive m e; underCursor = (u_focus m = focusSidebar \<and> i = u_sidebarCursor m);
     style = (if active \<and> underCursor then CursorSelectedRow else if active then SidebarItemActive
              else if underCursor then CursorRow else SidebarItem)
   in paint H m style (padRight (v_width H) ((if underCursor then ''>'' else '' '') @ name) w))"

definition vpnLine :: "tui_host \<Rightarrow> Model \<Rightarrow> int \<Rightarrow> string option" where
  "vpnLine H m w = (let g = u_global m in
     if \<not> glob_VPNRequired g then None
     else if \<not> glob_VPNActive g then Some (paint H m ErrorStyle (tui_truncate (v_width H) ''vpn: blocked'' w))
     else let iface = (if glob_VPNInterface g = [] then ''on'' else glob_VPNInterface g)
       in Some (paint H m SuccessStyle (tui_truncate (v_width H) (''vpn: '' @ iface) w)))"

definition daemonBlockRows :: "tui_host \<Rightarrow> Model \<Rightarrow> int" where
  "daemonBlockRows H m = (if vpnLine H m 0 \<noteq> None then 5 else 4)"

definition daemonDotStyle :: "Model \<Rightarrow> tui_style" where
  "daemonDotStyle m = (if u_daemonDown m then ErrorStyle else SuccessStyle)"

definition daemonStatusDot :: string where
  "daemonStatusDot = map char_of [226, 151, 143 :: nat]"

definition daemonHeading :: "tui_host \<Rightarrow> Model \<Rightarrow> int \<Rightarrow> string" where
  "daemonHeading H m w = (let head = paint H m ColHeader (tui_truncate (v_width H) ''Daemon'' w) in
     if w < v_width H ''Daemon'' + 2 then head else head @ '' '' @ paint H m (daemonDotStyle m) daemonStatusDot)"

definition diskLine :: "tui_host \<Rightarrow> Model \<Rightarrow> int \<Rightarrow> string" where
  "diskLine H m w = (let free = formatBytes (glob_DiskFreeBytes (u_global m)) in
     if glob_DiskLow (u_global m)
     then paint H m ErrorStyle (tui_truncate (v_width H) (''free: '' @ free @ '' - held'') w)
     else paint H m MutedStyle (tui_truncate (v_width H) (''free: '' @ free) w))"

definition chrome :: "string list \<Rightarrow> sidebar_row list" where
  "chrome ls = map (\<lambda>l. (l, - 1)) ls"

definition status_rows :: "tui_host \<Rightarrow> Model \<Rightarrow> int \<Rightarrow> sidebar_row list" where
  "status_rows H m w = map (\<lambda>(i, (_, name)). (renderSidebarRow H m (sidebarEntries m ! i) (int i) name w, int i))
     (enumerate 0 filterNames)"

definition label_rows :: "tui_host \<Rightarrow> Model \<Rightarrow> int \<Rightarrow> nat \<Rightarrow> sidebar_row list" where
  "label_rows H m w n = map (\<lambda>(i, e). (renderSidebarRow H m e (int i) (se_label e) w, int i))
     (enumerate (List.length filterNames) (take n (drop (List.length filterNames) (sidebarEntries m))))"

text \<open>How many labels there is room for, once the daemon's block at the bottom is left its rows.\<close>

definition labels_shown :: "int \<Rightarrow> nat \<Rightarrow> nat" where
  "labels_shown room n = (if room < int n then nat (max (room - 1) 0) else n)"

definition label_section :: "tui_host \<Rightarrow> Model \<Rightarrow> panes \<Rightarrow> int \<Rightarrow> sidebar_row list" where
  "label_section H m p lines = (let
     w = p_sidebarContentW p; n = List.length (sidebarEntries m) - List.length filterNames;
     sh = labels_shown (p_sidebarContentH p - lines - (daemonBlockRows H m + 1) - 2) n in
     if sh = 0 then []
     else chrome [[], paint H m ColHeader (tui_truncate (v_width H) ''Labels'' w)] @ label_rows H m w sh @
       (if sh < n then chrome [paint H m MutedStyle
           (tui_truncate (v_width H) ('' +'' @ itoa (int n - int sh) @ '' more'') w)] else []))"

definition daemon_block :: "tui_host \<Rightarrow> Model \<Rightarrow> int \<Rightarrow> string list" where
  "daemon_block H m w = (let g = u_global m in
     [daemonHeading H m w] @ (case vpnLine H m w of Some l \<Rightarrow> [l] | None \<Rightarrow> []) @
     [paint H m MutedStyle (tui_truncate (v_width H) (''port: '' @ itoa (glob_ListenPort g)) w),
      paint H m MutedStyle (tui_truncate (v_width H) (''dht: '' @ itoa (glob_DhtNodes g)) w),
      diskLine H m w])"

definition buildSidebar :: "tui_host \<Rightarrow> Model \<Rightarrow> panes \<Rightarrow> sidebar_row list" where
  "buildSidebar H m p = (let
     w = p_sidebarContentW p;
     head = chrome [paint H m SidebarTitle (tui_truncate (v_width H) ''torrnado'' w), [],
                    paint H m ColHeader (tui_truncate (v_width H) ''Status'' w)] @ status_rows H m w;
     rows = head @ label_section H m p (int (List.length head));
     block = daemon_block H m w;
     gap = p_sidebarContentH p - int (List.length rows) - int (List.length block)
   in if 1 \<le> gap then rows @ chrome (replicate (nat gap) []) @ chrome block else rows)"

definition renderSidebar :: "tui_host \<Rightarrow> Model \<Rightarrow> panes \<Rightarrow> string" where
  "renderSidebar H m p = str_join (clampLines (map fst (buildSidebar H m p)) (p_sidebarContentH p)) [CHR 0x0A]"

subsection \<open>Lemmas\<close>

lemma filterNames_length [simp]: "length filterNames = 5"
  by (simp add: filterNames_def)

lemma sidebarEntries_length: "length (sidebarEntries m) = 5 + length (labelsInUse m)"
  by (simp add: sidebarEntries_def)

lemma daemon_block_length: "int (length (daemon_block H m w)) = daemonBlockRows H m"
  by (simp add: daemon_block_def daemonBlockRows_def vpnLine_def Let_def)

lemma label_rows_length: "n \<le> length (labelsInUse m) \<Longrightarrow> length (label_rows H m w n) = n"
  by (simp add: label_rows_def sidebarEntries_length)

lemma status_rows_length [simp]: "length (status_rows H m w) = 5"
  by (simp add: status_rows_def)

lemma chrome_length [simp]: "length (chrome ls) = length ls"
  by (simp add: chrome_def)

lemma labels_shown_le: "labels_shown room n \<le> n"
  by (auto simp: labels_shown_def)

lemma labels_shown_room:
  "labels_shown room n \<noteq> 0 \<Longrightarrow> int (labels_shown room n) + (if labels_shown room n < n then 1 else 0) \<le> room"
  by (auto simp: labels_shown_def split: if_splits)

lemma label_section_length:
  "8 + int (length (label_section H m p 8)) \<le> p_sidebarContentH p - daemonBlockRows H m - 1
    \<or> label_section H m p 8 = []"
proof -
  define n where "n = length (labelsInUse m)"
  define room where "room = p_sidebarContentH p - 8 - (daemonBlockRows H m + 1) - 2"
  define sh where "sh = labels_shown room n"
  have n: "length (sidebarEntries m) - length filterNames = n"
    by (simp add: sidebarEntries_length n_def)
  have "length (label_rows H m w sh) = sh" for w
    using labels_shown_le [of room n] by (simp add: label_rows_length sh_def n_def)
  moreover have "sh \<noteq> 0 \<Longrightarrow> int sh + (if sh < n then 1 else 0) \<le> room"
    using labels_shown_room [of room n] by (simp add: sh_def)
  ultimately show ?thesis
    unfolding label_section_def Let_def n room_def [symmetric] sh_def [symmetric]
    by (cases "sh = 0") (auto simp: room_def)
qed

text \<open>The sidebar never has more rows than its pane.\<close>

lemma buildSidebar_fits:
  assumes "12 \<le> p_sidebarContentH p"
  shows "int (length (buildSidebar H m p)) \<le> p_sidebarContentH p"
  using label_section_length [of H m p] assms daemon_block_length [of H m "p_sidebarContentW p"]
  by (auto simp: buildSidebar_def Let_def daemonBlockRows_def)

text \<open>A row that stands for an entry is drawn as that entry.\<close>

definition row_shows :: "tui_host \<Rightarrow> Model \<Rightarrow> int \<Rightarrow> sidebar_row \<Rightarrow> bool" where
  "row_shows H m w r = (case r of (l, i) \<Rightarrow> 0 \<le> i \<longrightarrow> i < int (length (sidebarEntries m)) \<and>
     (let e = sidebarEntries m ! nat i
      in l = renderSidebarRow H m e i (if isLabel e then se_label e else filter_name (se_status e)) w))"

lemma row_shows_chrome [simp]: "list_all (row_shows H m w) (chrome ls)"
  by (simp add: list_all_iff chrome_def row_shows_def)

lemma label_counts_not_empty: "[] \<notin> set (map fst (label_counts ts))"
proof -
  have "[] \<notin> set (map fst c) \<Longrightarrow> [] \<notin> set (map fst (foldl (\<lambda>counts t. if snap_Label t = [] then counts
     else AList.update (snap_Label t) (case map_of counts (snap_Label t) of None \<Rightarrow> 1 | Some n \<Rightarrow> n + 1) counts) c ts))"
    for c :: "(string, nat) gomap"
    by (induction ts arbitrary: c) (simp_all add: keys_update del: set_map)
  then show ?thesis by (simp add: label_counts_def)
qed

lemma labelsInUse_not_empty: "l \<in> set (labelsInUse m) \<Longrightarrow> fst l \<noteq> []"
  using label_counts_not_empty [of "u_torrents m"] by (force simp: labelsInUse_def)

lemma status_rows_show: "list_all (row_shows H m w) (status_rows H m w)"
  by (simp add: status_rows_def filterNames_def row_shows_def sidebarEntries_def isLabel_def filter_name_def
      eval_nat_numeral numeral_eq_Suc)

lemma label_entry: "5 \<le> k \<Longrightarrow> k < 5 + length (labelsInUse m) \<Longrightarrow> isLabel (sidebarEntries m ! k)"
  using labelsInUse_not_empty [of "labelsInUse m ! (k - 5)" m]
  by (simp add: sidebarEntries_def nth_append isLabel_def case_prod_beta)

lemma label_rows_show: "list_all (row_shows H m w) (label_rows H m w n)"
  using label_entry [of _ m]
  by (auto simp: list_all_iff label_rows_def in_set_enumerate_eq row_shows_def sidebarEntries_length Let_def)

lemma buildSidebar_shows: "list_all (row_shows H m (p_sidebarContentW p)) (buildSidebar H m p)"
  by (simp add: buildSidebar_def label_section_def Let_def status_rows_show label_rows_show)

end
