(* ===== verification/TuiComplete.thy ===== *)
theory TuiComplete
  imports TuiTypes Persist
begin

text \<open>
  The command line of the palette: how it is split into arguments (\<^verbatim>\<open>splitArgs\<close> of
  \<^verbatim>\<open>internal/tui/palette.go\<close>), and how Tab completes a path in it (\<^verbatim>\<open>complete.go\<close>). Directories
  are read through the host record.
\<close>

definition paletteCommands :: "(string list \<times> string \<times> string \<times> bool) list" where
  "paletteCommands =
    [([''add''], '':add <magnet|file|dir>'', ''add torrents - anything `torrnado add` takes'', True),
     ([''pause'', ''resume''], '':pause / :resume'', ''pause or resume the marked torrents'', False),
     ([''rm'', ''remove'', ''rm!'', ''remove!''], '':rm / :rm!'', ''remove them; ! deletes the data too'', False),
     ([''purge''], '':purge'', ''delete their data, keeping them in the list'', False),
     ([''recheck''], '':recheck'', ''re-verify the data on disk'', False),
     ([''limit-up''], '':limit-up <rate>'', ''global upload cap: 500k, 2M, unlimited'', False),
     ([''limit-down''], '':limit-down <rate>'', ''global download cap'', False),
     ([''move''], '':move <dir>'', ''move the torrent under the cursor'', True),
     ([''mouse''], '':mouse'', ''hand the mouse back to the terminal, so drag-select works; again to take it'', False),
     ([''label''], '':label [name]'', ''file the marked torrents under a label; no name clears it'', False),
     ([''sort''], '':sort <column> [desc]'', ''name, size, progress, ratio, eta, added, down, up'', False),
     ([''find''], '':find [query]'', ''search a configured indexer for torrents'', False),
     ([''theme''], '':theme [name]'', ''open the theme picker, or apply one by name'', False),
     ([''help''], '':help'', ''show this screen'', False),
     ([''q'', ''quit''], '':q'', ''quit (the daemon keeps running)'', False)]"

subsection \<open>Splitting a line\<close>

text \<open>A character as Go writes it back: a byte that is not UTF-8 becomes the replacement rune.\<close>

definition rune_text :: "rune \<times> string \<Rightarrow> string" where
  "rune_text c = (if fst c = rune_error \<and> List.length (snd c) = 1 then replacement else snd c)"

definition is_quote :: "rune \<Rightarrow> bool" where "is_quote r \<longleftrightarrow> r = 39 \<or> r = 34"

definition is_blank :: "rune \<Rightarrow> bool" where "is_blank r \<longleftrightarrow> r = 32 \<or> r = 9"

text \<open>The arguments so far, the one being read, the quote it is in, and whether one was begun.\<close>

type_synonym splitting = "string list \<times> string \<times> rune option \<times> bool"

definition split_step :: "rune \<times> string \<Rightarrow> splitting \<Rightarrow> splitting" where
  "split_step c s = (let (args, cur, quote, begun) = s; r = fst c in
     case quote of
       Some q \<Rightarrow> if r = q then (args, cur, None, begun) else (args, cur @ rune_text c, quote, begun)
     | None \<Rightarrow>
         if is_quote r then (args, cur, Some r, True)
         else if is_blank r then (if begun \<or> cur \<noteq> [] then (args @ [cur], [], None, False) else s)
         else (args, cur @ rune_text c, None, begun))"

definition split_end :: "splitting \<Rightarrow> string list" where
  "split_end s = (let (args, cur, quote, begun) = s in if begun \<or> cur \<noteq> [] then args @ [cur] else args)"

definition splitArgs :: "string \<Rightarrow> string list" where
  "splitArgs line = split_end (fold split_step (utf8 (trim_space line)) ([], [], None, False))"

subsection \<open>The argument Tab completes\<close>

record pathArg =
  pa_start :: nat
  pa_text :: string
  pa_quote :: "char option"

text \<open>Where the last argument starts: the byte reached, the start, the quote open there, in a word or not.\<close>

definition arg_step :: "rune \<times> string \<Rightarrow> nat \<times> nat \<times> rune option \<times> bool \<Rightarrow> nat \<times> nat \<times> rune option \<times> bool" where
  "arg_step c s = (let (i, start, quote, inWord) = s; r = fst c; i1 = i + List.length (snd c) in
     case quote of
       Some q \<Rightarrow> (i1, start, if r = q then None else quote, inWord)
     | None \<Rightarrow>
         if is_quote r then (i1, if inWord then start else i, Some r, True)
         else if is_blank r then (i1, i + 1, None, False)
         else (i1, if inWord then start else i, None, True))"

definition arg_start :: "string \<Rightarrow> nat" where
  "arg_start line = (let (i, start, quote, inWord) = fold arg_step (utf8 line) (0, List.length line, None, False)
     in if \<not> inWord \<and> quote = None then List.length line else start)"

definition lastPathArg :: "string \<Rightarrow> pathArg" where
  "lastPathArg line = (let start = arg_start line; raw = drop start line in
     case raw of
       c # rest \<Rightarrow> if c = CHR 0x27 \<or> c = CHR 0x22
         then \<lparr>pa_start = start, pa_text = trim_suffix rest [c], pa_quote = Some c\<rparr>
         else \<lparr>pa_start = start, pa_text = raw, pa_quote = None\<rparr>
     | [] \<Rightarrow> \<lparr>pa_start = start, pa_text = raw, pa_quote = None\<rparr>)"

definition completesPaths :: "string \<Rightarrow> bool" where
  "completesPaths name = list_ex (\<lambda>(names, _, _, paths). paths \<and> name \<in> set names) paletteCommands"

definition isNotAPath :: "string \<Rightarrow> bool" where
  "isNotAPath s \<longleftrightarrow> has_prefix s ''magnet:'' \<or> has_prefix s ''http://'' \<or> has_prefix s ''https://''"

definition expandForListing :: "environ \<Rightarrow> string \<Rightarrow> string" where
  "expandForListing V txt = (if txt = [] then ''.'' else case ExpandHome V txt of Inr p \<Rightarrow> p | Inl _ \<Rightarrow> txt)"

definition splitForCompletion :: "environ \<Rightarrow> string \<Rightarrow> string \<times> string" where
  "splitForCompletion V txt = (let expanded = expandForListing V txt in
     if has_suffix txt [slash] then (expanded, []) else (path_dir expanded, path_base expanded))"

type_synonym candidate_entry = "string \<times> bool"

definition is_match :: "string \<Rightarrow> string \<Rightarrow> bool" where
  "is_match prefix name \<longleftrightarrow> has_prefix name prefix \<and> (has_prefix name ''.'' \<longrightarrow> has_prefix prefix ''.'')"

definition matchesIn :: "tui_host \<Rightarrow> string \<Rightarrow> string \<Rightarrow> candidate_entry list" where
  "matchesIn H dir prefix = (case v_readDir H dir of
     None \<Rightarrow> []
   | Some items \<Rightarrow> map (\<lambda>n. (n, v_isDir H (path_join dir n))) (sort_strings (filter (is_match prefix) items)))"

definition joinCompletion :: "string \<Rightarrow> string \<Rightarrow> candidate_entry \<Rightarrow> string" where
  "joinCompletion typed prefix e = trim_suffix typed prefix @ fst e @ (if snd e then [slash] else [])"

definition quoteArg :: "string \<Rightarrow> char option \<Rightarrow> string" where
  "quoteArg s q = (case q of
     Some c \<Rightarrow> [c] @ s @ [c]
   | None \<Rightarrow> if contains_any s [CHR '' '', CHR 0x09] then [CHR 0x27] @ s @ [CHR 0x27] else s)"

fun shorten_to :: "string \<Rightarrow> string \<Rightarrow> string" where
  "shorten_to [] n = []"
| "shorten_to (c # cs) n = (if has_prefix n (c # cs) then c # cs else shorten_to (butlast (c # cs)) n)"

fun longestCommonPrefix :: "string list \<Rightarrow> string" where
  "longestCommonPrefix [] = []"
| "longestCommonPrefix (n # ns) = foldl shorten_to n ns"

definition completePath :: "tui_host \<Rightarrow> string \<Rightarrow> string \<times> string list" where
  "completePath H line = (let words = splitArgs line; arg = lastPathArg line in
     if words = [] \<or> \<not> completesPaths (hd words) then (line, [])
     else if pa_start arg = 0 then (line, [])
     else if isNotAPath (pa_text arg) then (line, [])
     else let (dir, prefix) = splitForCompletion (v_environ H) (pa_text arg); found = matchesIn H dir prefix;
            put = (\<lambda>e. take (pa_start arg) line @ quoteArg (joinCompletion (pa_text arg) prefix e) (pa_quote arg))
       in case found of
         [] \<Rightarrow> (line, [])
       | [e] \<Rightarrow> (put e, [])
       | _ \<Rightarrow> let common = longestCommonPrefix (map fst found) in
           (if List.length prefix < List.length common then put (common, False) else line, map fst found))"

definition candidateList :: "string list \<Rightarrow> string" where
  "candidateList names = (if List.length names \<le> 8 then str_join names ''  ''
     else str_join (take 8 names) ''  '' @ ''  '' @ map char_of [226, 128, 166 :: nat] @ '' '' @
          itoa (int (List.length names) - 8) @ '' more'')"

definition expandPathArgs :: "environ \<Rightarrow> string list \<Rightarrow> string list" where
  "expandPathArgs V args = map (\<lambda>a. if isNotAPath a then a
     else case ExpandHome V a of Inr p \<Rightarrow> p | Inl _ \<Rightarrow> a) args"

subsection \<open>Lemmas\<close>

lemma expandPathArgs_length [simp]: "List.length (expandPathArgs V args) = List.length args"
  by (simp add: expandPathArgs_def)

end
