(* ===== verification/TuiUpdate.thy ===== *)
theory TuiUpdate
  imports TuiSidebar TuiComplete
begin

text \<open>
  What every message does to the interface: \<^verbatim>\<open>Update\<close> of \<^verbatim>\<open>internal/tui/update.go\<close> with the handlers of
  \<^verbatim>\<open>find.go\<close>, \<^verbatim>\<open>themepicker.go\<close>, \<^verbatim>\<open>themewatch.go\<close>, \<^verbatim>\<open>detail.go\<close>, \<^verbatim>\<open>palette.go\<close> and
  \<^verbatim>\<open>mouse.go\<close>. Where the source returns the model beside the call that changes it, the call is taken to
  come first, as its tests expect.
\<close>

definition with_status :: "statusMsg \<Rightarrow> Model \<Rightarrow> tui_step" where
  "with_status s m = Some (setStatus s m)"

definition synced :: "Model \<Rightarrow> tui_step" where
  "synced m = Some (syncDetail m)"

definition displayKey :: "string \<Rightarrow> string" where
  "displayKey key = (if key = '' '' then ''space'' else key)"

subsection \<open>Finding\<close>

definition errNoIndexer :: string where
  "errNoIndexer = ''no indexer configured: set indexer.backend, indexer.url and indexer.api_key in config.toml''"

definition canFind :: "Model \<Rightarrow> bool" where
  "canFind m \<longleftrightarrow> u_finder m \<and> u_findSources m \<noteq> []"

definition openFind :: "Model \<Rightarrow> tui_step" where
  "openFind m = (if \<not> canFind m then with_status (errStatus errNoIndexer) m else quiet_step (m\<lparr>u_mode := modeFind\<rparr>))"

definition startFind :: "string \<Rightarrow> Model \<Rightarrow> tui_step" where
  "startFind q m = (let query = trim_space q in
     if query = [] then quiet_step m
     else if \<not> canFind m then with_status (errStatus errNoIndexer) m
     else let m1 = m\<lparr>u_mode := modeNormal, u_findQuery := query, u_findState := findLoading, u_findResults := [],
                     u_findErr := None, u_findCursor := 0, u_findSeq := u_findSeq m + 1\<rparr>
       in Some (m1, [FindCmd query (u_findSeq m1)]))"

definition applyFindResults :: "int \<Rightarrow> (Result list \<times> string list) result \<Rightarrow> Model \<Rightarrow> Model" where
  "applyFindResults n r m = (if n \<noteq> u_findSeq m then m
     else m\<lparr>u_findState := findLoaded,
       u_findResults := (case r of Inr (rs, _) \<Rightarrow> rs | Inl _ \<Rightarrow> []),
       u_findWarnings := (case r of Inr (_, ws) \<Rightarrow> ws | Inl _ \<Rightarrow> []),
       u_findErr := (case r of Inr _ \<Rightarrow> None | Inl err \<Rightarrow> Some err), u_findCursor := 0\<rparr>)"

definition closeFind :: "Model \<Rightarrow> Model" where
  "closeFind m = m\<lparr>u_findState := findClosed, u_findSeq := u_findSeq m + 1\<rparr>"

definition addFindResult :: "tui_host \<Rightarrow> Model \<Rightarrow> tui_step" where
  "addFindResult H m =
     (if int (List.length (u_findResults m)) \<le> u_findCursor m then quiet_step m
      else Option.bind (index_at (u_findResults m) (u_findCursor m)) (\<lambda>r.
        if res_Link r = [] then with_status (errStatus ''that result has no magnet or download link'') m
        else let (m1, c) = setStatus (okStatus (''adding '' @ tui_truncate (v_width H) (res_Title r) 60)) (closeFind m)
          in Some (m1, c @ [AddBatchCmd [res_Link r]])))"

definition handleFindKey :: "tui_host \<Rightarrow> string \<Rightarrow> Model \<Rightarrow> tui_step" where
  "handleFindKey H key m = (let km = u_keymap m; n = int (List.length (u_findResults m)) in
     if key = ''esc'' \<or> key = k_Back km then quiet_step (closeFind m)
     else if key = k_Find km then quiet_step ((closeFind m)\<lparr>u_mode := modeFind\<rparr>)
     else if key = ''enter'' then addFindResult H m
     else if key = k_Up km \<or> key = ''up'' then quiet_step (m\<lparr>u_findCursor := max 0 (u_findCursor m - 1)\<rparr>)
     else if key = k_Down km \<or> key = ''down'' then
       quiet_step (if 0 < n then m\<lparr>u_findCursor := min (n - 1) (u_findCursor m + 1)\<rparr> else m)
     else if key = k_Top km then quiet_step (m\<lparr>u_findCursor := 0\<rparr>)
     else if key = k_Bottom km then quiet_step (if 0 < n then m\<lparr>u_findCursor := n - 1\<rparr> else m)
     else quiet_step m)"

subsection \<open>Themes\<close>

definition themeFile :: "Model \<Rightarrow> string" where
  "themeFile m = (if u_themesDir m = [] \<or> th_Name (u_theme m) = [] then []
     else path_join (u_themesDir m) (th_Name (u_theme m) @ ''.toml''))"

definition stampOf :: "tui_host \<Rightarrow> string \<Rightarrow> fileStamp option" where
  "stampOf H path = (if path = [] then None else v_stamp H path)"

definition applyTheme :: "tui_host \<Rightarrow> Theme \<Rightarrow> Model \<Rightarrow> Model" where
  "applyTheme H th m = (let m1 = m\<lparr>u_theme := th\<rparr>
     in m1\<lparr>u_themeStamp := (case stampOf H (themeFile m1) of Some s \<Rightarrow> s | None \<Rightarrow> (0, 0))\<rparr>)"

definition keepThemeHint :: "string \<Rightarrow> string" where
  "keepThemeHint name = ''theme '' @ quoted name @ '' (add theme = '' @ quoted name @ '' to config.toml to keep it)''"

definition openThemePicker :: "tui_host \<Rightarrow> Model \<Rightarrow> tui_step" where
  "openThemePicker H m = (let m1 = m\<lparr>u_themeNames := theme_Available (v_themes H) (u_themesDir m)\<rparr> in
     if u_themeNames m1 = [] then with_status (errStatus ''no themes found'') m1
     else quiet_step (m1\<lparr>u_themeSaved := u_theme m1, u_themePicker := True,
       u_themeCursor := (case first_index (\<lambda>n. n = th_Name (u_theme m1)) (u_themeNames m1) of
          Some i \<Rightarrow> int i | None \<Rightarrow> 0)\<rparr>))"

definition moved_to :: "KeyMap \<Rightarrow> string \<Rightarrow> int \<Rightarrow> int \<Rightarrow> int" where
  "moved_to km key hi c =
     (if key = k_Down km \<or> key = ''down'' then (if c < hi then c + 1 else c)
      else if key = k_Up km \<or> key = ''up'' then (if 0 < c then c - 1 else c)
      else if key = k_Top km then 0 else if key = k_Bottom km then hi else c)"

definition moveThemeCursor :: "tui_host \<Rightarrow> string \<Rightarrow> Model \<Rightarrow> tui_step" where
  "moveThemeCursor H key m = (let hi = int (List.length (u_themeNames m)) - 1;
       m1 = m\<lparr>u_themeCursor := moved_to (u_keymap m) key hi (u_themeCursor m)\<rparr>
     in Option.bind (index_at (u_themeNames m1) (u_themeCursor m1)) (\<lambda>name.
       case theme_Load (v_themes H) name (u_themesDir m1) of
         Inl err \<Rightarrow> with_status (errStatus err) m1
       | Inr th \<Rightarrow> quiet_step (applyTheme H th m1)))"

lemma moved_to_bounds: "0 \<le> c \<Longrightarrow> c \<le> hi \<Longrightarrow> 0 \<le> moved_to km key hi c \<and> moved_to km key hi c \<le> hi"
  by (simp add: moved_to_def)

definition handleThemeKey :: "tui_host \<Rightarrow> string \<Rightarrow> Model \<Rightarrow> tui_step" where
  "handleThemeKey H key m = (let km = u_keymap m in
     if key = ''esc'' \<or> key = k_Back km then quiet_step (applyTheme H (u_themeSaved m) (m\<lparr>u_themePicker := False\<rparr>))
     else if key = ''enter'' \<or> key = k_Select km then
       Option.bind (index_at (u_themeNames m) (u_themeCursor m)) (\<lambda>name.
         with_status (okStatus (keepThemeHint name)) (m\<lparr>u_themePicker := False\<rparr>))
     else if key \<in> {k_Down km, ''down'', k_Up km, ''up'', k_Top km, k_Bottom km} then moveThemeCursor H key m
     else quiet_step m)"

definition setThemeByName :: "tui_host \<Rightarrow> string \<Rightarrow> Model \<Rightarrow> tui_step" where
  "setThemeByName H name m = (case theme_Load (v_themes H) name (u_themesDir m) of
     Inl err \<Rightarrow> with_status (errStatus err) m
   | Inr th \<Rightarrow> with_status (okStatus (keepThemeHint name)) (applyTheme H th m))"

definition themeWatchInterval :: duration where "themeWatchInterval = second"

definition checkThemeFile :: "tui_host \<Rightarrow> Model \<Rightarrow> Model \<times> tcmd list" where
  "checkThemeFile H m = (let next = [ThemeWatch themeWatchInterval]; path = themeFile m in
     if u_themePicker m then (m, next)
     else if path = [] then (m, next)
     else case stampOf H path of
       None \<Rightarrow> (m, next)
     | Some stamp \<Rightarrow>
         if stamp = u_themeStamp m then (m, next)
         else let m1 = m\<lparr>u_themeStamp := stamp\<rparr> in
           (case theme_Load (v_themes H) (th_Name (u_theme m1)) (u_themesDir m1) of
              Inl err \<Rightarrow> (let (m2, c) = setStatus (errStatus err) m1 in (m2, next @ c))
            | Inr th \<Rightarrow> (applyTheme H th m1, next)))"

subsection \<open>The detail pane\<close>

definition setDetailTab :: "detailTab \<Rightarrow> Model \<Rightarrow> tui_step" where
  "setDetailTab t m = quiet_step (m\<lparr>u_detailTab := t, u_detailScroll := 0\<rparr>)"

fun largestFile :: "FileInfo \<Rightarrow> FileInfo list \<Rightarrow> FileInfo" where
  "largestFile f [] = f"
| "largestFile f (g # gs) = largestFile (if file_Length f < file_Length g then g else f) gs"

definition previewFile :: "Model \<Rightarrow> tui_step" where
  "previewFile m = (case cursorTorrent m of
     None \<Rightarrow> quiet_step m
   | Some t \<Rightarrow>
       if \<not> u_detailLoaded m \<or> snap_ID (detail_Snapshot (u_detail m)) \<noteq> snap_ID t
       then with_status (errStatus (''still reading '' @ snap_Name t)) m
       else (case detail_Files (u_detail m) of
           [] \<Rightarrow> with_status (errStatus (''no files yet - still waiting for this torrent'' @ [CHR 0x27] @ ''s metadata'')) m
         | f # fs \<Rightarrow>
             Option.bind (if u_detailTab m = tabFiles \<and> u_detailCursor m < int (List.length (f # fs))
               then index_at (f # fs) (u_detailCursor m) else Some (largestFile f fs)) (\<lambda>g.
             Some (m, [PreviewCmd (u_player m) (snap_ID (detail_Snapshot (u_detail m))) g]))))"

definition toggleFileWanted :: "Model \<Rightarrow> tui_step" where
  "toggleFileWanted m = (let fs = detail_Files (u_detail m); n = int (List.length fs); c = u_detailCursor m in
     if n \<le> c then quiet_step m
     else Option.bind (index_at fs c) (\<lambda>f. Some
       (if c < n - 1 then m\<lparr>u_detailCursor := c + 1\<rparr> else m,
        [SetPriorityCmd (snap_ID (detail_Snapshot (u_detail m))) (file_Index f)
          (if file_Priority f = PriorityNone then PriorityNormal else PriorityNone)])))"

definition priority_of_num :: "int \<Rightarrow> priority" where
  "priority_of_num n = (if n = 0 then PriorityNone else if n = 1 then PriorityLow else if n = 2 then PriorityNormal
     else if n = 3 then PriorityHigh else if n = 4 then PriorityNow else PriorityOther n)"

definition adjustFilePriority :: "int \<Rightarrow> Model \<Rightarrow> tui_step" where
  "adjustFilePriority delta m = (let fs = detail_Files (u_detail m); c = u_detailCursor m in
     if u_detailTab m \<noteq> tabFiles \<or> int (List.length fs) \<le> c then quiet_step m
     else Option.bind (index_at fs c) (\<lambda>f.
       let n = wrap64 (priority_num (file_Priority f) + delta) in
       Some (m, [SetPriorityCmd (snap_ID (detail_Snapshot (u_detail m))) (file_Index f)
          (priority_of_num (if n < 0 then 0 else if 4 < n then 4 else n))])))"

subsection \<open>Acting on the targets\<close>

definition on_targets :: "TorrentSnapshot list \<Rightarrow> Model \<Rightarrow> (TorrentSnapshot list \<Rightarrow> Model \<times> tcmd list) \<Rightarrow> tui_step" where
  "on_targets visible m f = Option.bind (tui_targets visible m) (\<lambda>ts. if ts = [] then quiet_step m else Some (f ts))"

definition removeTargets :: "TorrentSnapshot list \<Rightarrow> bool \<Rightarrow> Model \<Rightarrow> tui_step" where
  "removeTargets visible deleteData m =
     on_targets visible m (\<lambda>ts. (m\<lparr>u_selected := {}\<rparr>, [RemoveCmd (map snap_ID ts) deleteData]))"

definition purgeTargets :: "TorrentSnapshot list \<Rightarrow> Model \<Rightarrow> tui_step" where
  "purgeTargets visible m = on_targets visible m (\<lambda>ts. (m, [PurgeCmd (map snap_ID ts)]))"

definition recheckTargets :: "TorrentSnapshot list \<Rightarrow> Model \<Rightarrow> tui_step" where
  "recheckTargets visible m = on_targets visible m (\<lambda>ts. (m, [RecheckCmd (map snap_ID ts)]))"

definition pauseTargets :: "TorrentSnapshot list \<Rightarrow> Model \<Rightarrow> tui_step" where
  "pauseTargets visible m = on_targets visible m (\<lambda>ts. (m, [PauseCmd ts]))"

definition labelTargets :: "string \<Rightarrow> Model \<Rightarrow> tui_step" where
  "labelTargets label m = on_targets (visibleTorrents m) m (\<lambda>ts. (m, [SetLabelCmd (map snap_ID ts) label]))"

definition setPausedTargets :: "bool \<Rightarrow> Model \<Rightarrow> tui_step" where
  "setPausedTargets paused m = on_targets (visibleTorrents m) m (\<lambda>ts. (m, [SetPausedCmd (map snap_ID ts) paused]))"

definition openCursorFolder :: "Model \<Rightarrow> tui_step" where
  "openCursorFolder m = (case cursorTorrent m of
     None \<Rightarrow> quiet_step m
   | Some t \<Rightarrow> Some (m, [OpenCmd (u_opener m) (if snap_DataDir t = [] then snap_SavePath t else snap_DataDir t)
       (snap_SavePath t)]))"

end
