(* ===== verification/TuiKeys.thy ===== *)
theory TuiKeys
  imports TuiUpdate
begin

text \<open>
  Keys, the pointer, and \<^verbatim>\<open>Update\<close> itself: \<^verbatim>\<open>internal/tui/update.go\<close>, \<^verbatim>\<open>mouse.go\<close> and the command
  line of \<^verbatim>\<open>palette.go\<close>.
\<close>

definition ddChordWindow :: duration where "ddChordWindow = 600 * millisecond"

subsection \<open>The sidebar\<close>

definition selectSidebar :: "int \<Rightarrow> Model \<Rightarrow> tui_step" where
  "selectSidebar i0 m = (let entries = sidebarEntries m; n = int (List.length entries) in
     if n = 0 then quiet_step m
     else let i = go_mod (go_mod i0 n + n) n in
       Option.bind (index_at entries i) (\<lambda>e.
         let m1 = applyEntry e m;
             m2 = (if u_filter m1 \<noteq> u_filter m \<or> u_labelFilter m1 \<noteq> u_labelFilter m then m1\<lparr>u_selected := {}\<rparr> else m1)
         in synced (clamped (m2\<lparr>u_sidebarCursor := i\<rparr>))))"

subsection \<open>The pointer\<close>

definition tui_toggleMouse :: "Model \<Rightarrow> tui_step" where
  "tui_toggleMouse m = (let m1 = m\<lparr>u_mouseOff := \<not> u_mouseOff m\<rparr> in
     if u_mouseOff m1
     then (let (m2, c) = setStatus (okStatus (''mouse off - drag to select and copy, '' @
             displayKey (k_ToggleMouse (u_keymap m1)) @ '' to switch back'')) m1 in Some (m2, DisableMouse # c))
     else (let (m2, c) = setStatus (okStatus ''mouse on'') m1 in Some (m2, EnableMouseCellMotion # c)))"

definition scrollTarget :: "mouseTarget \<Rightarrow> int \<Rightarrow> Model \<Rightarrow> tui_step" where
  "scrollTarget t delta m = (case t of
     targetSidebar \<Rightarrow> selectSidebar (currentSidebarIndex m + delta) m
   | targetList \<Rightarrow>
       (let visible = visibleTorrents m in
        if visible = [] then quiet_step m
        else synced (clampCursor (List.length visible) (m\<lparr>u_cursor := u_cursor m + delta\<rparr>)))
   | targetDetailTabs \<Rightarrow> quiet_step (m\<lparr>u_detailScroll := max 0 (u_detailScroll m + delta)\<rparr>)
   | targetDetailBody \<Rightarrow> quiet_step (m\<lparr>u_detailScroll := max 0 (u_detailScroll m + delta)\<rparr>)
   | targetNone \<Rightarrow> quiet_step m)"

definition click_sidebar :: "tui_host \<Rightarrow> panes \<Rightarrow> int \<Rightarrow> Model \<Rightarrow> tui_step" where
  "click_sidebar H p row m = (let rows = buildSidebar H m p in
     if int (List.length rows) \<le> row then quiet_step m
     else Option.bind (index_at rows row) (\<lambda>(_, entry).
       if entry < 0 then quiet_step m else selectSidebar entry (m\<lparr>u_focus := focusSidebar\<rparr>)))"

definition click_list :: "panes \<Rightarrow> int \<Rightarrow> Model \<Rightarrow> tui_step" where
  "click_list p row m = (let visible = visibleTorrents m; n = int (List.length visible);
       (start, _) = scrollWindow (u_cursor m) n (go_div (p_listContentH p - 1) rowLines);
       i = start + go_div (row - 1) rowLines in
     if row = 0 then quiet_step m
     else if i < 0 \<or> n \<le> i then quiet_step m
     else synced (m\<lparr>u_focus := focusList, u_cursor := i\<rparr>))"

definition click_tabs :: "panes \<Rightarrow> int \<Rightarrow> Model \<Rightarrow> tui_step" where
  "click_tabs p x m = (case detailTabAt (x - p_sidebarW p - 1 - panePadX) of
     None \<Rightarrow> quiet_step m
   | Some t \<Rightarrow> setDetailTab t (m\<lparr>u_focus := focusDetail\<rparr>))"

definition click_body :: "panes \<Rightarrow> int \<Rightarrow> Model \<Rightarrow> tui_step" where
  "click_body p row m = (let m1 = m\<lparr>u_focus := focusDetail\<rparr>; n = int (List.length (detail_Files (u_detail m1)));
       (start, _) = scrollWindow (u_detailCursor m1) n (p_detailContentH p - 2); i = start + row - 1 in
     quiet_step (if u_detailTab m1 = tabFiles \<and> 0 < n \<and> 0 < row \<and> i < n then m1\<lparr>u_detailCursor := i\<rparr> else m1))"

definition handleMouse :: "tui_host \<Rightarrow> mouseMsg \<Rightarrow> Model \<Rightarrow> tui_step" where
  "handleMouse H mo m =
     (if u_mouseOff m then quiet_step m
      else if u_showHelp m \<or> u_themePicker m \<or> u_findState m \<noteq> findClosed then quiet_step m
      else if u_width m = 0 \<or> u_height m = 0 then quiet_step m
      else let p = tui_layout (u_width m) (u_height m); (target, row) = hitTest p (mo_X mo) (mo_Y mo) in
        case mo_Button mo of
          MouseWheelUp \<Rightarrow> scrollTarget target (- 1) m
        | MouseWheelDown \<Rightarrow> scrollTarget target 1 m
        | MouseButtonOther \<Rightarrow> quiet_step m
        | MouseLeft \<Rightarrow>
            if \<not> mo_Press mo then quiet_step m
            else (case target of
                targetSidebar \<Rightarrow> click_sidebar H p row m
              | targetList \<Rightarrow> click_list p row m
              | targetDetailTabs \<Rightarrow> click_tabs p (mo_X mo) m
              | targetDetailBody \<Rightarrow> click_body p row m
              | targetNone \<Rightarrow> quiet_step m))"

subsection \<open>The list\<close>

text \<open>Escape peels one layer: the focus, the marks, the search, the label, the status filter.\<close>

definition peel :: "Model \<Rightarrow> tui_step" where
  "peel m = quiet_step
     (if u_focus m \<noteq> focusList then m\<lparr>u_focus := focusList\<rparr>
      else if u_selected m \<noteq> {} then m\<lparr>u_selected := {}\<rparr>
      else if u_searchQuery m \<noteq> [] then clamped (m\<lparr>u_searchQuery := []\<rparr>)
      else if u_labelFilter m \<noteq> [] then
        (let m1 = m\<lparr>u_labelFilter := []\<rparr> in clamped (m1\<lparr>u_sidebarCursor := currentSidebarIndex m1\<rparr>))
      else if u_filter m \<noteq> filterAll then
        (let m1 = m\<lparr>u_filter := filterAll\<rparr> in clamped (m1\<lparr>u_sidebarCursor := currentSidebarIndex m1\<rparr>))
      else m)"

definition mark_row :: "TorrentSnapshot list \<Rightarrow> Model \<Rightarrow> tui_step" where
  "mark_row visible m =
     (if visible = [] then synced m
      else Option.bind (index_at visible (u_cursor m)) (\<lambda>t. let k = snap_ID t in
        synced (m\<lparr>u_selected := (if k \<in> u_selected m then u_selected m - {k} else insert k (u_selected m)),
          u_cursor := (if u_cursor m < int (List.length visible) - 1 then u_cursor m + 1 else u_cursor m)\<rparr>)))"

definition handleListKey :: "tui_host \<Rightarrow> string \<Rightarrow> Model \<Rightarrow> tui_step" where
  "handleListKey H key m0 = (let km = u_keymap m0; visible = visibleTorrents m0; n = int (List.length visible);
       m = (if key \<noteq> ''d'' then m0\<lparr>u_pendingDD := False\<rparr> else m0) in
     if key = ''d'' then
       (if u_pendingDD m \<and> time_sub (v_now H) (u_pendingAt m) \<le> ddChordWindow
        then removeTargets visible False (m\<lparr>u_pendingDD := False\<rparr>)
        else quiet_step (m\<lparr>u_pendingDD := True, u_pendingAt := v_now H\<rparr>))
     else if key = k_Quit km then Some (m\<lparr>u_quitting := True\<rparr>, [QuitCmd])
     else if key = k_Up km \<or> key = ''up'' then
       synced (if 0 < u_cursor m then m\<lparr>u_cursor := u_cursor m - 1\<rparr> else m)
     else if key = k_Down km \<or> key = ''down'' then
       synced (if u_cursor m < n - 1 then m\<lparr>u_cursor := u_cursor m + 1\<rparr> else m)
     else if key = k_Top km then synced (m\<lparr>u_cursor := 0\<rparr>)
     else if key = k_Bottom km then synced (if 0 < n then m\<lparr>u_cursor := n - 1\<rparr> else m)
     else if key = k_Remove km then removeTargets visible False m
     else if key = k_RemoveData km then removeTargets visible True m
     else if key = k_Purge km then purgeTargets visible m
     else if key = k_Pause km then pauseTargets visible m
     else if key = k_Recheck km then recheckTargets visible m
     else if key = k_Preview km then previewFile m
     else if key = k_Open km then openCursorFolder m
     else if key = k_Find km then openFind m
     else if key = k_Detail km then quiet_step (m\<lparr>u_focus := focusDetail\<rparr>)
     else if key = k_Back km then peel m
     else if key = k_Search km then quiet_step (m\<lparr>u_mode := modeSearch\<rparr>)
     else if key = k_Command km then quiet_step (m\<lparr>u_mode := modeCommand, u_commandBuf := []\<rparr>)
     else if key = k_Help km \<or> key = k_HelpAlt km then quiet_step (m\<lparr>u_showHelp := True\<rparr>)
     else if key = k_Select km then mark_row visible m
     else quiet_step m)"

definition handleSidebarKey :: "tui_host \<Rightarrow> string \<Rightarrow> Model \<Rightarrow> tui_step" where
  "handleSidebarKey H key m = (let km = u_keymap m in
     if key = k_Up km \<or> key = ''up'' then selectSidebar (currentSidebarIndex m - 1) m
     else if key = k_Down km \<or> key = ''down'' then selectSidebar (currentSidebarIndex m + 1) m
     else if key = k_Top km then selectSidebar 0 m
     else if key = k_Bottom km then selectSidebar (int (List.length (sidebarEntries m)) - 1) m
     else handleListKey H key m)"

definition handleDetailKey :: "tui_host \<Rightarrow> string \<Rightarrow> Model \<Rightarrow> tui_step" where
  "handleDetailKey H key m = (let km = u_keymap m; n = int (List.length (detail_Files (u_detail m))) in
     if key = k_Up km \<or> key = ''up'' then quiet_step
       (if u_detailTab m = tabFiles
        then (if 0 < u_detailCursor m then m\<lparr>u_detailCursor := u_detailCursor m - 1\<rparr> else m)
        else (if 0 < u_detailScroll m then m\<lparr>u_detailScroll := u_detailScroll m - 1\<rparr> else m))
     else if key = k_Down km \<or> key = ''down'' then quiet_step
       (if u_detailTab m = tabFiles
        then (if u_detailCursor m < n - 1 then m\<lparr>u_detailCursor := u_detailCursor m + 1\<rparr> else m)
        else m\<lparr>u_detailScroll := u_detailScroll m + 1\<rparr>)
     else if key = k_Select km \<and> u_detailTab m = tabFiles then toggleFileWanted m
     else if key = ''+'' \<or> key = ''='' then adjustFilePriority 1 m
     else if key = ''-'' \<or> key = ''_'' then adjustFilePriority (- 1) m
     else handleListKey H key m)"

subsection \<open>The command line\<close>

definition say :: "string \<Rightarrow> Model \<Rightarrow> tui_step" where
  "say err m = Some (m, [Say (errStatus err)])"

definition sort_command :: "string list \<Rightarrow> Model \<Rightarrow> tui_step" where
  "sort_command args m = (case args of
     [] \<Rightarrow> say ''sort: needs a column (name, size, progress, ratio, eta, added, down, up)'' m
   | column # rest \<Rightarrow> (case ParseSortMode column of
       None \<Rightarrow> say (''sort: unknown column '' @ quoted column) m
     | Some mode \<Rightarrow> quiet_step (clamped (m\<lparr>u_sortBy := mode,
         u_sortDesc := (case rest of d # _ \<Rightarrow> d = ''desc'' | [] \<Rightarrow> False)\<rparr>))))"

definition execCommand :: "tui_host \<Rightarrow> string \<Rightarrow> Model \<Rightarrow> tui_step" where
  "execCommand H line m = (case splitArgs line of
     [] \<Rightarrow> quiet_step m
   | name # args \<Rightarrow>
       if name = ''add'' then
         (if args = [] then say ''add: needs a magnet, file or directory'' m
          else Some (m, [AddBatchCmd (expandPathArgs (v_environ H) args)]))
       else if name = ''rm'' \<or> name = ''remove'' then removeTargets (visibleTorrents m) False m
       else if name = ''rm!'' \<or> name = ''remove!'' then removeTargets (visibleTorrents m) True m
       else if name = ''pause'' then setPausedTargets True m
       else if name = ''resume'' then setPausedTargets False m
       else if name = ''purge'' then purgeTargets (visibleTorrents m) m
       else if name = ''recheck'' then recheckTargets (visibleTorrents m) m
       else if name = ''limit-up'' \<or> name = ''limit-down'' then
         (case args of [rate] \<Rightarrow> Some (m, [LimitCmd (name = ''limit-up'') rate])
          | _ \<Rightarrow> say (name @ '': needs a rate, e.g. 500k or unlimited'') m)
       else if name = ''move'' then
         (case args of [dir] \<Rightarrow> (case cursorTorrent m of
              None \<Rightarrow> quiet_step m
            | Some t \<Rightarrow> Option.bind (index_at (expandPathArgs (v_environ H) args) 0)
                (\<lambda>d. Some (m, [MoveCmd (snap_ID t) d])))
          | _ \<Rightarrow> say ''move: needs a directory'' m)
       else if name = ''mouse'' then tui_toggleMouse m
       else if name = ''label'' then labelTargets (str_join args '' '') m
       else if name = ''find'' then (if args = [] then openFind m else startFind (str_join args '' '') m)
       else if name = ''theme'' then
         (case args of [] \<Rightarrow> openThemePicker H m | th # _ \<Rightarrow> setThemeByName H th m)
       else if name = ''sort'' then sort_command args m
       else if name = ''help'' then quiet_step (m\<lparr>u_showHelp := True\<rparr>)
       else if name = ''q'' \<or> name = ''quit'' then Some (m\<lparr>u_quitting := True\<rparr>, [QuitCmd])
       else say (''unknown command '' @ quoted name) m)"

text \<open>The text without its last character, as a slice of runes gives it back.\<close>

definition drop_last_rune :: "string \<Rightarrow> string" where
  "drop_last_rune s = (if s = [] then s else concat (map rune_text (butlast (utf8 s))))"

definition handleCommandKey :: "tui_host \<Rightarrow> keyMsg \<Rightarrow> Model \<Rightarrow> tui_step" where
  "handleCommandKey H k m = (case key_Type k of
     KeyEnter \<Rightarrow> execCommand H (u_commandBuf m) (m\<lparr>u_mode := modeNormal, u_commandBuf := [], u_completions := []\<rparr>)
   | KeyEsc \<Rightarrow> quiet_step (m\<lparr>u_mode := modeNormal, u_commandBuf := [], u_completions := []\<rparr>)
   | KeyBackspace \<Rightarrow> quiet_step (m\<lparr>u_commandBuf := drop_last_rune (u_commandBuf m), u_completions := []\<rparr>)
   | KeyTab \<Rightarrow> (let (line, candidates) = completePath H (u_commandBuf m)
       in quiet_step (m\<lparr>u_commandBuf := line, u_completions := candidates\<rparr>))
   | KeySpace \<Rightarrow> quiet_step (m\<lparr>u_commandBuf := u_commandBuf m @ '' '', u_completions := []\<rparr>)
   | KeyRunes \<Rightarrow> quiet_step (m\<lparr>u_commandBuf := u_commandBuf m @ key_Runes k, u_completions := []\<rparr>)
   | KeyOther \<Rightarrow> quiet_step m)"

definition search_keyed :: "keyMsg \<Rightarrow> Model \<Rightarrow> Model" where
  "search_keyed k m = (case key_Type k of
     KeyEnter \<Rightarrow> m\<lparr>u_mode := modeNormal\<rparr>
   | KeyEsc \<Rightarrow> m\<lparr>u_mode := modeNormal, u_searchQuery := []\<rparr>
   | KeyBackspace \<Rightarrow> m\<lparr>u_searchQuery := drop_last_rune (u_searchQuery m)\<rparr>
   | KeySpace \<Rightarrow> m\<lparr>u_searchQuery := u_searchQuery m @ '' ''\<rparr>
   | KeyRunes \<Rightarrow> m\<lparr>u_searchQuery := u_searchQuery m @ key_Runes k\<rparr>
   | _ \<Rightarrow> m)"

definition handleSearchKey :: "keyMsg \<Rightarrow> Model \<Rightarrow> tui_step" where
  "handleSearchKey k m = (let m1 = search_keyed k m;
       m2 = (if u_searchQuery m1 \<noteq> u_searchQuery m then m1\<lparr>u_selected := {}\<rparr> else m1)
     in quiet_step (clamped m2))"

text \<open>The find prompt takes a byte off, not a character.\<close>

definition handleFindPromptKey :: "keyMsg \<Rightarrow> Model \<Rightarrow> tui_step" where
  "handleFindPromptKey k m = (case key_Type k of
     KeyEnter \<Rightarrow> startFind (u_findQuery m) m
   | KeyEsc \<Rightarrow> quiet_step (m\<lparr>u_mode := modeNormal, u_findQuery := []\<rparr>)
   | KeyBackspace \<Rightarrow> quiet_step (m\<lparr>u_findQuery := butlast (u_findQuery m)\<rparr>)
   | KeySpace \<Rightarrow> quiet_step (m\<lparr>u_findQuery := u_findQuery m @ '' ''\<rparr>)
   | KeyRunes \<Rightarrow> quiet_step (m\<lparr>u_findQuery := u_findQuery m @ key_Runes k\<rparr>)
   | _ \<Rightarrow> quiet_step m)"

subsection \<open>Update\<close>

definition handleKey :: "tui_host \<Rightarrow> keyMsg \<Rightarrow> Model \<Rightarrow> tui_step" where
  "handleKey H k m = (let key = key_String k; km = u_keymap m in
     if key = ''ctrl+c'' then Some (m\<lparr>u_quitting := True\<rparr>, [QuitCmd])
     else if u_showHelp m then quiet_step (m\<lparr>u_showHelp := False\<rparr>)
     else if u_themePicker m then handleThemeKey H key m
     else if u_findState m \<noteq> findClosed then handleFindKey H key m
     else case u_mode m of
       modeSearch \<Rightarrow> handleSearchKey k m
     | modeCommand \<Rightarrow> handleCommandKey H k m
     | modeFind \<Rightarrow> handleFindPromptKey k m
     | modeNormal \<Rightarrow>
         if key = k_FocusNext km then quiet_step (m\<lparr>u_focus := paneFocus_next (u_focus m)\<rparr>)
         else if key = k_FocusPrev km then quiet_step (m\<lparr>u_focus := paneFocus_prev (u_focus m)\<rparr>)
         else if key = k_TabNext km then setDetailTab (detailTab_next (u_detailTab m)) m
         else if key = k_TabPrev km then setDetailTab (detailTab_prev (u_detailTab m)) m
         else if key = k_FilterNext km then selectSidebar (currentSidebarIndex m + 1) m
         else if key = k_FilterPrev km then selectSidebar (currentSidebarIndex m - 1) m
         else if key = k_ToggleMouse km then tui_toggleMouse m
         else if key = k_TabPieces km then setDetailTab tabPieces m
         else if key = k_TabPeers km then setDetailTab tabPeers m
         else if key = k_TabFiles km then setDetailTab tabFiles m
         else case u_focus m of
           focusSidebar \<Rightarrow> handleSidebarKey H key m
         | focusDetail \<Rightarrow> handleDetailKey H key m
         | focusList \<Rightarrow> handleListKey H key m)"

definition on_event :: "Event \<Rightarrow> Model \<Rightarrow> tui_step" where
  "on_event ev m = (let
     m1 = dropVanishedLabelFilter (m\<lparr>u_torrents := ev_Torrents ev, u_global := ev_Global ev\<rparr>);
     (m2, cleared) = revealJustAdded m1;
     (m3, reveal) = (if cleared = [] then (m2, [])
       else setStatus (okStatus (u_status m2 @ '' - cleared '' @ joinClauses cleared @ '' to show them'')) m2);
     (m4, c) = syncDetail (clamped m3)
   in Some (m4, [ListenForEvents] @ c @ reveal))"

definition on_detail :: "EngineTypes.TorrentDetail result \<Rightarrow> Model \<Rightarrow> tui_step" where
  "on_detail r m = (case r of
     Inl err \<Rightarrow> with_status (errStatus err) m
   | Inr d \<Rightarrow>
       if snap_ID (detail_Snapshot d) \<noteq> u_detailID m then quiet_step m
       else let n = int (List.length (detail_Files d)) in
         quiet_step (m\<lparr>u_detail := d, u_detailLoaded := True,
           u_detailCursor := (if n \<le> u_detailCursor m then max 0 (n - 1) else u_detailCursor m)\<rparr>))"

definition Update :: "tui_host \<Rightarrow> tui_msg \<Rightarrow> Model \<Rightarrow> tui_step" where
  "Update H msg m = (case msg of
     WindowSize w h \<Rightarrow> quiet_step (m\<lparr>u_width := w, u_height := h\<rparr>)
   | EngineEvent ev \<Rightarrow> on_event ev m
   | MouseEvent mo \<Rightarrow> handleMouse H mo m
   | EngineClosed \<Rightarrow>
       quiet_step (m\<lparr>u_status := ''lost connection to daemon'', u_statusIsErr := True, u_daemonDown := True\<rparr>)
   | TorrentsAdded txt ids \<Rightarrow> with_status (okStatus txt) (m\<lparr>u_pendingReveal := ids\<rparr>)
   | FindResults n query r \<Rightarrow> quiet_step (applyFindResults n r m)
   | StatusMsg txt isErr \<Rightarrow> with_status \<lparr>sm_text = txt, sm_isErr = isErr\<rparr> m
   | ThemeCheck \<Rightarrow> Some (checkThemeFile H m)
   | StatusExpired n \<Rightarrow> quiet_step (clearStatus n m)
   | DetailLoaded r \<Rightarrow> on_detail r m
   | KeyPressed k \<Rightarrow> handleKey H k m
   | OtherMsg \<Rightarrow> quiet_step m)"

definition tui_New :: "tui_host \<Rightarrow> KeyMap \<Rightarrow> string \<Rightarrow> string \<Rightarrow> string \<Rightarrow> bool \<Rightarrow> string list \<Rightarrow> Theme \<Rightarrow> Model" where
  "tui_New H keys themesDir player opener finder sources th = applyTheme H th
     \<lparr>u_torrents = [], u_global = zero_global, u_daemonDown = False, u_filter = filterAll, u_sortBy = sortName,
      u_sortDesc = False, u_keymap = keys, u_player = player, u_opener = opener, u_cursor = 0, u_selected = {},
      u_mode = modeNormal, u_searchQuery = [], u_commandBuf = [], u_completions = [], u_showHelp = False,
      u_themePicker = False, u_themeNames = [], u_themeCursor = 0, u_theme = theme_of [] [], u_themeSaved = theme_of [] [],
      u_themesDir = themesDir, u_themeStamp = (0, 0), u_finder = finder, u_findState = findClosed, u_findQuery = [],
      u_findResults = [], u_findWarnings = [], u_findCursor = 0, u_findErr = None, u_findSeq = 0,
      u_findSources = sources, u_pendingDD = False, u_pendingAt = 0, u_focus = focusList, u_sidebarCursor = 0,
      u_labelFilter = [], u_mouseOff = False, u_pendingReveal = [], u_detail = zero_detail, u_detailTab = tabPieces,
      u_detailCursor = 0, u_detailScroll = 0, u_detailLoaded = False, u_detailID = [], u_status = [],
      u_statusIsErr = False, u_statusSeq = 0, u_width = 0, u_height = 0, u_quitting = False\<rparr>"

end
