(* ===== verification/TuiFacts.thy ===== *)
theory TuiFacts
  imports TuiKeys
begin

text \<open>
  What every message keeps of the interface, and so what holds however long it runs: the cursors point
  at rows that are there, so that no index is out of range, and the sidebar has the applied filter.
\<close>

subsection \<open>The list as a function of what it depends on\<close>

definition view_of ::
    "TorrentSnapshot list \<Rightarrow> statusFilter \<Rightarrow> string \<Rightarrow> string \<Rightarrow> sortMode \<Rightarrow> bool \<Rightarrow> TorrentSnapshot list" where
  "view_of ts f l q by desc = (let s = to_lower (trim_space q) in
     slice_stable (row_less by desc) (filter (\<lambda>t. filter_matches f t \<and> (l = [] \<or> snap_Label t = l)
       \<and> (s = [] \<or> contains (to_lower (snap_Name t)) s)) ts))"

lemma visible_view: "visibleTorrents m =
    view_of (u_torrents m) (u_filter m) (u_labelFilter m) (u_searchQuery m) (u_sortBy m) (u_sortDesc m)"
  by (simp add: visibleTorrents_def view_of_def drawn_def [abs_def] search_text_def Let_def)

definition labels_of :: "TorrentSnapshot list \<Rightarrow> string set" where
  "labels_of ts = {l. l \<noteq> [] \<and> (\<exists>t\<in>set ts. snap_Label t = l)}"

lemma label_counts_keys: "set (map fst (label_counts ts)) = labels_of ts"
proof -
  have "set (map fst (foldl (\<lambda>counts t. if snap_Label t = [] then counts
     else AList.update (snap_Label t) (case map_of counts (snap_Label t) of None \<Rightarrow> 1 | Some n \<Rightarrow> n + 1) counts) c ts))
     = set (map fst c) \<union> labels_of ts" for c :: "(string, nat) gomap"
    by (induction ts arbitrary: c) (auto simp: keys_update labels_of_def simp del: set_map)
  then show ?thesis by (simp add: label_counts_def)
qed

lemma label_counts_distinct: "distinct_keys (label_counts ts)"
proof -
  have "distinct_keys c \<Longrightarrow> distinct_keys (foldl (\<lambda>counts t. if snap_Label t = [] then counts
     else AList.update (snap_Label t) (case map_of counts (snap_Label t) of None \<Rightarrow> 1 | Some n \<Rightarrow> n + 1) counts) c ts)"
    for c :: "(string, nat) gomap"
    by (induction ts arbitrary: c) auto
  then show ?thesis by (simp add: label_counts_def)
qed

lemma labelsInUse_labels: "set (map fst (labelsInUse m)) = labels_of (u_torrents m)"
  using label_counts_keys [of "u_torrents m"] by (simp add: labelsInUse_def)

lemma labelsInUse_distinct: "distinct (map fst (labelsInUse m))"
proof -
  have "mset (map fst (labelsInUse m)) = mset (map fst (label_counts (u_torrents m)))"
    by (simp add: labelsInUse_def)
  then show ?thesis
    using label_counts_distinct mset_eq_imp_distinct_iff unfolding distinct_keys_def by blast
qed

subsection \<open>What is kept\<close>

definition on_a_row :: "int \<Rightarrow> nat \<Rightarrow> bool" where
  "on_a_row c n \<longleftrightarrow> 0 \<le> c \<and> (c < int n \<or> n = 0 \<and> c = 0)"

definition label_on :: "TorrentSnapshot list \<Rightarrow> statusFilter \<Rightarrow> string \<Rightarrow> bool" where
  "label_on ts f l \<longleftrightarrow> (l \<noteq> [] \<longrightarrow> f = filterAll \<and> l \<in> labels_of ts)"

definition tui_ok :: "Model \<Rightarrow> bool" where
  "tui_ok m \<longleftrightarrow>
     on_a_row (u_cursor m) (length (view_of (u_torrents m) (u_filter m) (u_labelFilter m) (u_searchQuery m)
       (u_sortBy m) (u_sortDesc m))) \<and>
     label_on (u_torrents m) (u_filter m) (u_labelFilter m) \<and>
     0 \<le> u_detailCursor m \<and> 0 \<le> u_detailScroll m \<and> 0 \<le> u_findCursor m \<and>
     (u_themePicker m \<longrightarrow> 0 \<le> u_themeCursor m \<and> u_themeCursor m < int (length (u_themeNames m)))"

text \<open>All but the cursor, which is put right as the last thing.\<close>

definition tui_ok_but_cursor :: "Model \<Rightarrow> bool" where
  "tui_ok_but_cursor m \<longleftrightarrow> label_on (u_torrents m) (u_filter m) (u_labelFilter m) \<and>
     0 \<le> u_detailCursor m \<and> 0 \<le> u_detailScroll m \<and> 0 \<le> u_findCursor m \<and>
     (u_themePicker m \<longrightarrow> 0 \<le> u_themeCursor m \<and> u_themeCursor m < int (length (u_themeNames m)))"

definition fine :: "tui_step \<Rightarrow> bool" where
  "fine s = (case s of None \<Rightarrow> False | Some (m, _) \<Rightarrow> tui_ok m)"

named_theorems tui_fine \<open>handlers return a model that is in order\<close>

lemma fine_Some [simp]: "fine (Some (m, c)) = tui_ok m"
  by (simp add: fine_def)

lemma fine_Some_pair: "fine (Some p) = tui_ok (fst p)"
  by (cases p) simp

lemma tui_okD:
  assumes "tui_ok m"
  shows "on_a_row (u_cursor m) (length (visibleTorrents m))" "0 \<le> u_detailCursor m" "0 \<le> u_detailScroll m"
    "0 \<le> u_findCursor m" "u_themePicker m \<Longrightarrow> 0 \<le> u_themeCursor m"
    "u_themePicker m \<Longrightarrow> u_themeCursor m < int (length (u_themeNames m))"
    "label_on (u_torrents m) (u_filter m) (u_labelFilter m)"
  using assms by (simp_all add: tui_ok_def visible_view)

lemma tui_ok_weaken: "tui_ok m \<Longrightarrow> tui_ok_but_cursor m"
  by (simp add: tui_ok_def tui_ok_but_cursor_def)

lemma clamped_ok: "tui_ok_but_cursor m \<Longrightarrow> tui_ok (clamped m)"
  using clamp_cursor_bounds [of "u_cursor m" "length (visibleTorrents m)"]
  by (simp add: tui_ok_def tui_ok_but_cursor_def clampCursor_def on_a_row_def flip: visible_view)

lemma setStatus_ok [simp]: "tui_ok (fst (setStatus s m)) = tui_ok m"
  "tui_ok_but_cursor (fst (setStatus s m)) = tui_ok_but_cursor m"
  by (simp_all add: setStatus_def tui_ok_def tui_ok_but_cursor_def Let_def)

lemma with_status_fine [simp]: "fine (with_status s m) = tui_ok m"
  by (simp add: with_status_def fine_Some_pair)

lemma syncDetail_ok: "tui_ok m \<Longrightarrow> tui_ok (fst (syncDetail m))"
  by (simp add: syncDetail_def tui_ok_def split: option.split)

lemma synced_fine: "tui_ok m \<Longrightarrow> fine (synced m)"
  by (simp add: synced_def fine_Some_pair syncDetail_ok)

lemma fine_bind: "s \<noteq> None \<Longrightarrow> (\<And>x. s = Some x \<Longrightarrow> fine (f x)) \<Longrightarrow> fine (Option.bind s f)"
  by (cases s) auto

lemma fine_split: "(\<And>a b. p = (a, b) \<Longrightarrow> fine (f a b)) \<Longrightarrow> fine (case p of (a, b) \<Rightarrow> f a b)"
  by (cases p) simp

lemma fine_if: "fine x \<Longrightarrow> fine y \<Longrightarrow> fine (if b then x else y)"
  by simp

lemma applyTheme_ok [simp]: "tui_ok (applyTheme H th m) = tui_ok m"
  by (simp add: applyTheme_def tui_ok_def Let_def)

lemma closeFind_ok [simp]: "tui_ok (closeFind m) = tui_ok m"
  by (simp add: closeFind_def tui_ok_def)

subsection \<open>The handlers\<close>

lemma openFind_fine [tui_fine]: "tui_ok m \<Longrightarrow> fine (openFind m)"
  by (simp add: openFind_def) (simp add: tui_ok_def)

lemma startFind_fine [tui_fine]: "tui_ok m \<Longrightarrow> fine (startFind q m)"
  by (simp add: startFind_def Let_def) (simp add: tui_ok_def)

lemma addFindResult_fine [tui_fine]: "tui_ok m \<Longrightarrow> fine (addFindResult H m)"
  by (auto simp: addFindResult_def Let_def case_prod_beta tui_okD(4) index_at_def intro!: fine_bind)

lemma handleFindKey_fine [tui_fine]: "tui_ok m \<Longrightarrow> fine (handleFindKey H key m)"
  by (simp add: handleFindKey_def Let_def addFindResult_fine)
    (simp add: tui_ok_def closeFind_def)

lemma first_index_less: "first_index P xs = Some i \<Longrightarrow> i < length xs"
  by (simp add: first_index_Some)

lemma openThemePicker_fine [tui_fine]: "tui_ok m \<Longrightarrow> fine (openThemePicker H m)"
  by (auto simp: openThemePicker_def Let_def tui_ok_def theme_Available_not_empty split: option.split
      dest: first_index_less)

lemma moveThemeCursor_fine [tui_fine]:
  assumes "tui_ok m" "u_themePicker m"
  shows "fine (moveThemeCursor H key m)"
proof -
  let ?n = "int (length (u_themeNames m))"
  define c where "c = moved_to (u_keymap m) key (?n - 1) (u_themeCursor m)"
  have "0 \<le> u_themeCursor m" "u_themeCursor m \<le> ?n - 1"
    using tui_okD(5,6) [OF assms] by simp_all
  then have c: "0 \<le> c" "c < ?n" using moved_to_bounds [of "u_themeCursor m" "?n - 1"] by (simp_all add: c_def)
  moreover from c have "tui_ok (m\<lparr>u_themeCursor := c\<rparr>)" using assms(1) by (simp add: tui_ok_def)
  ultimately show ?thesis
    by (auto simp: moveThemeCursor_def Let_def index_at_def c_def [symmetric] intro!: fine_bind split: sum.split)
qed

lemma handleThemeKey_fine [tui_fine]:
  assumes "tui_ok m" "u_themePicker m" shows "fine (handleThemeKey H key m)"
proof -
  have "index_at (u_themeNames m) (u_themeCursor m) \<noteq> None"
    using tui_okD(5,6) [OF assms] by (simp add: index_at_def)
  moreover have "tui_ok (m\<lparr>u_themePicker := False\<rparr>)" using assms by (simp add: tui_ok_def)
  ultimately show ?thesis
    using moveThemeCursor_fine [OF assms] assms(1) by (auto simp: handleThemeKey_def Let_def intro!: fine_bind)
qed

lemma setThemeByName_fine [tui_fine]: "tui_ok m \<Longrightarrow> fine (setThemeByName H name m)"
  by (simp add: setThemeByName_def split: sum.split)

lemma checkThemeFile_ok: "tui_ok m \<Longrightarrow> tui_ok (fst (checkThemeFile H m))"
  by (auto simp: checkThemeFile_def Let_def case_prod_beta split: option.split sum.split) (simp_all add: tui_ok_def)

lemma setDetailTab_fine [tui_fine]: "tui_ok m \<Longrightarrow> fine (setDetailTab t m)"
  by (simp add: setDetailTab_def tui_ok_def)

lemma previewFile_fine [tui_fine]: "tui_ok m \<Longrightarrow> fine (previewFile m)"
  using tui_okD(2) [of m]
  by (auto simp: previewFile_def index_at_def split: option.split list.split intro!: fine_bind)

lemma toggleFileWanted_fine [tui_fine]: "tui_ok m \<Longrightarrow> fine (toggleFileWanted m)"
  using tui_okD(2) [of m]
  by (auto simp: toggleFileWanted_def Let_def index_at_def intro!: fine_bind) (simp add: tui_ok_def)

lemma adjustFilePriority_fine [tui_fine]: "tui_ok m \<Longrightarrow> fine (adjustFilePriority d m)"
  using tui_okD(2) [of m] by (auto simp: adjustFilePriority_def Let_def index_at_def intro!: fine_bind)

lemma on_targets_fine:
  "tui_ok m \<Longrightarrow> (\<And>ts. tui_ok (fst (f ts))) \<Longrightarrow> 0 \<le> u_cursor m \<Longrightarrow> fine (on_targets visible m f)"
  by (auto simp: on_targets_def tui_targets_def index_at_def fine_Some_pair intro!: fine_bind)

lemma target_keys_fine [tui_fine]:
  assumes "tui_ok m"
  shows "fine (removeTargets v d m)" "fine (purgeTargets v m)" "fine (recheckTargets v m)" "fine (pauseTargets v m)"
    "fine (labelTargets l m)" "fine (setPausedTargets p m)"
proof -
  have c: "0 \<le> u_cursor m" using assms by (auto simp: tui_ok_def on_a_row_def)
  have r: "tui_ok (m\<lparr>u_selected := {}\<rparr>)" using assms by (simp add: tui_ok_def)
  show "fine (removeTargets v d m)" "fine (purgeTargets v m)" "fine (recheckTargets v m)" "fine (pauseTargets v m)"
    "fine (labelTargets l m)" "fine (setPausedTargets p m)"
    unfolding removeTargets_def purgeTargets_def recheckTargets_def pauseTargets_def labelTargets_def
      setPausedTargets_def by (rule on_targets_fine [OF assms _ c], simp add: assms r)+
qed

lemma openCursorFolder_fine [tui_fine]: "tui_ok m \<Longrightarrow> fine (openCursorFolder m)"
  by (simp add: openCursorFolder_def split: option.split)

lemma sidebar_entry_label:
  "e \<in> set (sidebarEntries m) \<Longrightarrow> isLabel e \<Longrightarrow> se_label e \<in> labels_of (u_torrents m)"
  unfolding labelsInUse_labels [symmetric] by (force simp: sidebarEntries_def isLabel_def)

lemma selectSidebar_fine [tui_fine]:
  assumes "tui_ok m" shows "fine (selectSidebar i m)"
proof -
  define n where "n = int (length (sidebarEntries m))"
  define j where "j = go_mod (go_mod i n + n) n"
  have n: "0 < n" by (simp add: n_def)
  have "- n < go_mod i n"
  proof -
    have "\<bar>go_mod i n\<bar> < n"
    proof (cases "0 \<le> i")
      case False
      then have "go_mod i n = - ((- i) mod n)"
        using n by (simp add: go_mod_def go_div_def minus_mult_div_eq_mod [symmetric] sgn_if)
      then show ?thesis using n by simp
    qed (use n in \<open>simp add: go_mod_nonneg\<close>)
    then show ?thesis by simp
  qed
  then have "j = (go_mod i n + n) mod n" using n by (simp add: j_def go_mod_nonneg)
  then have j: "0 \<le> j" "j < n" using n by simp_all
  then obtain e where e: "index_at (sidebarEntries m) j = Some e" "e \<in> set (sidebarEntries m)"
    by (auto simp: index_at_def n_def)
  let ?m1 = "applyEntry e m"
  let ?m2 = "if u_filter ?m1 \<noteq> u_filter m \<or> u_labelFilter ?m1 \<noteq> u_labelFilter m then ?m1\<lparr>u_selected := {}\<rparr> else ?m1"
  have "tui_ok_but_cursor (?m2\<lparr>u_sidebarCursor := j\<rparr>)"
    using assms sidebar_entry_label [OF e(2)]
    by (auto simp: applyEntry_def tui_ok_but_cursor_def tui_ok_def label_on_def)
  from clamped_ok [OF this] show ?thesis
    using e(1) n by (simp add: selectSidebar_def Let_def n_def [symmetric] j_def [symmetric] synced_fine)
qed

lemma toggleMouse_fine [tui_fine]: "tui_ok m \<Longrightarrow> fine (tui_toggleMouse m)"
  by (simp add: tui_toggleMouse_def Let_def case_prod_beta) (simp add: tui_ok_def)

lemma scrollTarget_fine [tui_fine]: "tui_ok m \<Longrightarrow> fine (scrollTarget t d m)"
proof (cases t)
  case targetList
  assume "tui_ok m"
  then have "tui_ok (clamped (m\<lparr>u_cursor := u_cursor m + d\<rparr>))"
    by (intro clamped_ok) (simp add: tui_ok_def tui_ok_but_cursor_def)
  moreover have "visibleTorrents (m\<lparr>u_cursor := u_cursor m + d\<rparr>) = visibleTorrents m" by (rule visible_cong) simp_all
  ultimately show ?thesis
    using \<open>tui_ok m\<close> targetList by (simp add: scrollTarget_def Let_def synced_fine)
qed (simp_all add: scrollTarget_def selectSidebar_fine, simp_all add: tui_ok_def)

lemma click_sidebar_fine [tui_fine]: "tui_ok m \<Longrightarrow> 0 \<le> row \<Longrightarrow> fine (click_sidebar H p row m)"
proof -
  assume "tui_ok m" "0 \<le> row"
  moreover have "tui_ok (m\<lparr>u_focus := focusSidebar\<rparr>)" using \<open>tui_ok m\<close> by (simp add: tui_ok_def)
  ultimately show ?thesis
    by (auto simp: click_sidebar_def Let_def index_at_def intro!: fine_bind fine_split selectSidebar_fine)
qed

lemma click_list_fine [tui_fine]: "tui_ok m \<Longrightarrow> fine (click_list p row m)"
proof -
  assume ok: "tui_ok m"
  have "tui_ok (m\<lparr>u_focus := focusList, u_cursor := i\<rparr>)" if "0 \<le> i" "i < int (length (visibleTorrents m))" for i
    using ok that by (simp add: tui_ok_def visible_view on_a_row_def)
  then show ?thesis using ok by (simp add: click_list_def Let_def case_prod_beta synced_fine)
qed

lemma click_tabs_fine [tui_fine]: "tui_ok m \<Longrightarrow> fine (click_tabs p x m)"
  by (simp add: click_tabs_def setDetailTab_def tui_ok_def split: option.split)

lemma click_body_fine [tui_fine]: "tui_ok m \<Longrightarrow> fine (click_body p row m)"
proof -
  assume ok: "tui_ok m"
  have "0 < fst (scrollWindow c (int n) h) + row" if "0 < row" for c n h
    using scrollWindow_bounds(1) [of "int n" "fst (scrollWindow c (int n) h)" "snd (scrollWindow c (int n) h)"] that
    by (intro add_nonneg_pos) simp_all
  then show ?thesis using ok by (auto simp: click_body_def Let_def case_prod_beta tui_ok_def)
qed

lemma handleMouse_fine [tui_fine]: "tui_ok m \<Longrightarrow> fine (handleMouse H mo m)"
proof -
  assume ok: "tui_ok m"
  have "0 \<le> snd (hitTest p x y)" for p x y by (simp add: hitTest_def Let_def)
  then show ?thesis
    using ok unfolding handleMouse_def Let_def
    by (auto intro!: fine_split tui_fine split: mouseButton.split mouseTarget.split) (metis snd_conv click_sidebar_fine)+
qed

lemma on_a_row_iff: "tui_ok m \<Longrightarrow> visibleTorrents m \<noteq> [] \<Longrightarrow> 0 \<le> u_cursor m \<and> u_cursor m < int (length (visibleTorrents m))"
  using tui_okD(1) [of m] by (auto simp: on_a_row_def)

text \<open>Moving the cursor to another row of the same list.\<close>

lemma tui_ok_cursor:
  "tui_ok m \<Longrightarrow> on_a_row c (length (visibleTorrents m)) \<Longrightarrow> tui_ok (m\<lparr>u_cursor := c\<rparr>)"
  by (simp add: tui_ok_def visible_view)

lemma label_off [simp]: "label_on ts f []" "label_on ts filterAll l = (l \<noteq> [] \<longrightarrow> l \<in> labels_of ts)"
  by (simp_all add: label_on_def)

lemma peel_fine [tui_fine]:
  assumes "tui_ok m" shows "fine (peel m)"
proof -
  have a: "tui_ok (m\<lparr>u_focus := focusList\<rparr>)" "tui_ok (m\<lparr>u_selected := {}\<rparr>)"
    using assms by (simp_all add: tui_ok_def)
  have "tui_ok_but_cursor (m\<lparr>u_searchQuery := []\<rparr>)" "tui_ok_but_cursor (m\<lparr>u_labelFilter := [], u_sidebarCursor := i\<rparr>)"
    "u_labelFilter m = [] \<Longrightarrow> tui_ok_but_cursor (m\<lparr>u_filter := filterAll, u_sidebarCursor := i\<rparr>)" for i
    using assms by (simp_all add: tui_ok_def tui_ok_but_cursor_def)
  from this [THEN clamped_ok] show ?thesis
    using a assms by (simp add: peel_def Let_def)
qed

lemma mark_row_fine [tui_fine]:
  assumes "tui_ok m" shows "fine (mark_row (visibleTorrents m) m)"
proof (cases "visibleTorrents m = []")
  case False
  let ?n = "length (visibleTorrents m)"
  have c: "0 \<le> u_cursor m" "u_cursor m < int ?n" using on_a_row_iff [OF assms False] by simp_all
  have "tui_ok (m\<lparr>u_selected := s, u_cursor := d\<rparr>)" if "on_a_row d ?n" for s d
    using assms that by (simp add: tui_ok_def visible_view)
  moreover have "on_a_row (if u_cursor m < int ?n - 1 then u_cursor m + 1 else u_cursor m) ?n"
    using c by (simp add: on_a_row_def)
  ultimately show ?thesis
    using False c unfolding mark_row_def Let_def
    by (simp only: if_False, intro fine_bind synced_fine) (simp_all add: index_at_def)
qed (simp add: mark_row_def synced_fine assms)

lemma handleListKey_fine [tui_fine]:
  assumes "tui_ok m0" shows "fine (handleListKey H key m0)"
proof -
  define v where "v = visibleTorrents m0"
  have ok: "tui_ok (m0\<lparr>u_pendingDD := b\<rparr>)" "tui_ok (m0\<lparr>u_pendingDD := b, u_pendingAt := t\<rparr>)" for b t
    using assms by (simp_all add: tui_ok_def)
  define m where "m = (if key \<noteq> ''d'' then m0\<lparr>u_pendingDD := False\<rparr> else m0)"
  have m: "tui_ok m" using ok(1) assms by (simp add: m_def)
  have v: "v = visibleTorrents m" unfolding m_def v_def by (rule visible_cong) simp_all
  have c: "on_a_row (u_cursor m) (length v)" using tui_okD(1) [OF m] v by simp
  have move: "tui_ok (m\<lparr>u_cursor := d\<rparr>)" if "on_a_row d (length v)" for d
    using tui_ok_cursor [OF m] that v by simp
  have rows: "0 < u_cursor m \<Longrightarrow> on_a_row (u_cursor m - 1) (length v)"
    "u_cursor m < int (length v) - 1 \<Longrightarrow> on_a_row (u_cursor m + 1) (length v)" "on_a_row 0 (length v)"
    "v \<noteq> [] \<Longrightarrow> on_a_row (int (length v) - 1) (length v)"
    using c by (auto simp: on_a_row_def Suc_leI)
  have plain: "tui_ok (m\<lparr>u_quitting := True\<rparr>)" "tui_ok (m\<lparr>u_focus := focusDetail\<rparr>)" "tui_ok (m\<lparr>u_mode := modeSearch\<rparr>)"
    "tui_ok (m\<lparr>u_mode := modeCommand, u_commandBuf := []\<rparr>)" "tui_ok (m\<lparr>u_showHelp := True\<rparr>)"
    "tui_ok (m\<lparr>u_pendingDD := True, u_pendingAt := v_now H\<rparr>)" "tui_ok (m\<lparr>u_pendingDD := False\<rparr>)"
    using m by (simp_all add: tui_ok_def)
  have moved: "tui_ok (if 0 < u_cursor m then m\<lparr>u_cursor := u_cursor m - 1\<rparr> else m)"
    "tui_ok (if u_cursor m < int (length v) - 1 then m\<lparr>u_cursor := u_cursor m + 1\<rparr> else m)"
    "tui_ok (m\<lparr>u_cursor := 0\<rparr>)" "tui_ok (if 0 < int (length v) then m\<lparr>u_cursor := int (length v) - 1\<rparr> else m)"
    using m move rows by simp_all
  show ?thesis
    unfolding handleListKey_def Let_def v_def [symmetric] m_def [symmetric]
    by (intro fine_if synced_fine moved tui_fine plain m)
      (simp_all only: fine_Some plain m v mark_row_fine)
qed

lemma handleSidebarKey_fine [tui_fine]: "tui_ok m \<Longrightarrow> fine (handleSidebarKey H key m)"
  unfolding handleSidebarKey_def Let_def by (intro fine_if tui_fine)

lemma handleDetailKey_fine [tui_fine]: "tui_ok m \<Longrightarrow> fine (handleDetailKey H key m)"
proof -
  assume ok: "tui_ok m"
  have "tui_ok (if 0 < u_detailCursor m then m\<lparr>u_detailCursor := u_detailCursor m - 1\<rparr> else m)"
    "tui_ok (if 0 < u_detailScroll m then m\<lparr>u_detailScroll := u_detailScroll m - 1\<rparr> else m)"
    "tui_ok (if u_detailCursor m < n - 1 then m\<lparr>u_detailCursor := u_detailCursor m + 1\<rparr> else m)"
    "tui_ok (m\<lparr>u_detailScroll := u_detailScroll m + 1\<rparr>)" for n
    using ok by (simp_all add: tui_ok_def)
  then show ?thesis
    unfolding handleDetailKey_def Let_def using ok by (intro fine_if tui_fine) simp_all
qed

lemma say_fine [tui_fine]: "tui_ok m \<Longrightarrow> fine (say err m)"
  by (simp add: say_def)

lemma sort_command_fine [tui_fine]: "tui_ok m \<Longrightarrow> fine (sort_command args m)"
proof -
  assume ok: "tui_ok m"
  have "tui_ok_but_cursor (m\<lparr>u_sortBy := by, u_sortDesc := d\<rparr>)" for "by" d
    using ok by (simp add: tui_ok_def tui_ok_but_cursor_def)
  from clamped_ok [OF this] show ?thesis
    using say_fine [OF ok] by (simp add: sort_command_def split: list.split option.split)
qed

lemma execCommand_fine [tui_fine]:
  assumes "tui_ok m" shows "fine (execCommand H line m)"
proof (cases "splitArgs line")
  case (Cons name args)
  have plain: "tui_ok (m\<lparr>u_showHelp := True\<rparr>)" "tui_ok (m\<lparr>u_quitting := True\<rparr>)"
    using assms by (simp_all add: tui_ok_def)
  have "fine (case args of [rate] \<Rightarrow> Some (m, [LimitCmd b rate]) | _ \<Rightarrow> say err m)" for b err
    using assms say_fine by (auto split: list.split)
  moreover have "fine (case args of [dir] \<Rightarrow> (case cursorTorrent m of
              None \<Rightarrow> quiet_step m
            | Some t \<Rightarrow> Option.bind (index_at (expandPathArgs V args) 0) (\<lambda>d. Some (m, [MoveCmd (snap_ID t) d])))
          | _ \<Rightarrow> say err m)" for V err
    using assms say_fine by (auto simp: expandPathArgs_def index_at_def split: list.split option.split)
  moreover have "fine (case args of [] \<Rightarrow> openThemePicker H m | th # _ \<Rightarrow> setThemeByName H th m)"
    using assms by (auto split: list.split intro: tui_fine)
  ultimately show ?thesis
    unfolding execCommand_def Cons list.case
    by (intro fine_if tui_fine assms) (simp_all add: plain assms)
qed (simp add: execCommand_def assms)

lemma handleCommandKey_fine [tui_fine]:
  assumes "tui_ok m" shows "fine (handleCommandKey H k m)"
proof -
  have "tui_ok (m\<lparr>u_mode := a, u_commandBuf := b, u_completions := c\<rparr>)" "tui_ok (m\<lparr>u_commandBuf := b, u_completions := c\<rparr>)" for a b c
    using assms by (simp_all add: tui_ok_def)
  then show ?thesis
    using assms by (simp add: handleCommandKey_def execCommand_fine case_prod_beta split: keyType.split)
qed

lemma handleSearchKey_fine [tui_fine]:
  assumes "tui_ok m" shows "fine (handleSearchKey k m)"
proof -
  have "tui_ok_but_cursor (search_keyed k m)" "tui_ok_but_cursor ((search_keyed k m)\<lparr>u_selected := {}\<rparr>)"
    using assms by (simp_all add: search_keyed_def tui_ok_def tui_ok_but_cursor_def split: keyType.split)
  then show ?thesis by (simp add: handleSearchKey_def Let_def clamped_ok)
qed

lemma handleFindPromptKey_fine [tui_fine]:
  assumes "tui_ok m" shows "fine (handleFindPromptKey k m)"
proof -
  have "tui_ok (m\<lparr>u_findQuery := q\<rparr>)" "tui_ok (m\<lparr>u_mode := a, u_findQuery := q\<rparr>)" for a q
    using assms by (simp_all add: tui_ok_def)
  then show ?thesis using assms by (simp add: handleFindPromptKey_def startFind_fine split: keyType.split)
qed

lemma handleKey_fine [tui_fine]:
  assumes "tui_ok m" shows "fine (handleKey H k m)"
proof -
  have plain: "tui_ok (m\<lparr>u_quitting := True\<rparr>)" "tui_ok (m\<lparr>u_showHelp := False\<rparr>)" "tui_ok (m\<lparr>u_focus := f\<rparr>)" for f
    using assms by (simp_all add: tui_ok_def)
  have theme: "fine y \<Longrightarrow> fine (if u_themePicker m then handleThemeKey H key m else y)" for key y
    using assms by (simp add: handleThemeKey_fine)
  have panes: "fine (case u_focus m of focusSidebar \<Rightarrow> handleSidebarKey H key m
       | focusDetail \<Rightarrow> handleDetailKey H key m | focusList \<Rightarrow> handleListKey H key m)" for key
    using assms by (simp add: tui_fine split: paneFocus.split)
  have modes: "fine a \<Longrightarrow> fine b \<Longrightarrow> fine c \<Longrightarrow> fine d \<Longrightarrow> fine (case u_mode m of
       modeSearch \<Rightarrow> a | modeCommand \<Rightarrow> b | modeFind \<Rightarrow> c | modeNormal \<Rightarrow> d)" for a b c d
    by (simp split: inputMode.split)
  show ?thesis
    unfolding handleKey_def Let_def
    by (intro theme modes panes fine_if tui_fine assms) (simp_all add: plain)
qed

lemma dropVanished_label:
  "(label_on (u_torrents m) (u_filter m) (u_labelFilter m) \<or> u_filter m = filterAll) \<Longrightarrow>
     label_on (u_torrents (dropVanishedLabelFilter m)) (u_filter (dropVanishedLabelFilter m))
       (u_labelFilter (dropVanishedLabelFilter m))"
  unfolding dropVanishedLabelFilter_def labelsInUse_labels by auto

lemma dropVanished_but_cursor:
  "tui_ok m \<Longrightarrow> tui_ok_but_cursor (dropVanishedLabelFilter (m\<lparr>u_torrents := ts, u_global := g\<rparr>))"
  using dropVanished_label [of "m\<lparr>u_torrents := ts, u_global := g\<rparr>"]
  by (auto simp: tui_ok_def tui_ok_but_cursor_def dropVanishedLabelFilter_def label_on_def)

lemma revealJustAdded_but_cursor: "tui_ok_but_cursor m \<Longrightarrow> tui_ok_but_cursor (fst (revealJustAdded m))"
  by (auto simp: revealJustAdded_def tui_ok_but_cursor_def label_on_def Let_def)

lemma on_event_fine [tui_fine]:
  assumes "tui_ok m" shows "fine (on_event ev m)"
proof -
  let ?m1 = "dropVanishedLabelFilter (m\<lparr>u_torrents := ev_Torrents ev, u_global := ev_Global ev\<rparr>)"
  have "tui_ok_but_cursor (fst (revealJustAdded ?m1))"
    by (rule revealJustAdded_but_cursor [OF dropVanished_but_cursor [OF assms]])
  then show ?thesis
    by (auto simp: on_event_def Let_def case_prod_beta fine_Some_pair intro!: syncDetail_ok clamped_ok)
qed

lemma on_detail_fine [tui_fine]: "tui_ok m \<Longrightarrow> fine (on_detail r m)"
  by (simp add: on_detail_def Let_def split: sum.split) (simp add: tui_ok_def)

lemma clearStatus_ok [simp]: "tui_ok (clearStatus n m) = tui_ok m"
  by (simp add: clearStatus_def tui_ok_def)

lemma applyFindResults_ok: "tui_ok m \<Longrightarrow> tui_ok (applyFindResults n r m)"
  by (simp add: applyFindResults_def tui_ok_def)

lemma Update_fine: "tui_ok m \<Longrightarrow> fine (Update H msg m)"
  unfolding Update_def
  by (auto simp: fine_Some_pair intro: tui_fine checkThemeFile_ok applyFindResults_ok split: tui_msg.split)
    (simp_all add: tui_ok_def)

subsection \<open>A run\<close>

text \<open>A program is the messages it is given, each with the host as it is then.\<close>

fun tui_run :: "(tui_host \<times> tui_msg) list \<Rightarrow> Model \<Rightarrow> Model option" where
  "tui_run [] m = Some m"
| "tui_run ((H, msg) # rest) m = Option.bind (Update H msg m) (\<lambda>(m1, _). tui_run rest m1)"

lemma tui_run_ok: "tui_ok m \<Longrightarrow> \<exists>m'. tui_run steps m = Some m' \<and> tui_ok m'"
proof (induction steps m rule: tui_run.induct)
  case (2 H msg rest m)
  from Update_fine [OF 2(2), of H msg] obtain m1 c where "Update H msg m = Some (m1, c)" "tui_ok m1"
    by (force simp: fine_def split: option.splits)
  then show ?case using 2(1) [of "(m1, c)"] by simp
qed simp

lemma tui_New_ok: "tui_ok (tui_New H keys dir player opener finder sources th)"
  by (simp add: tui_New_def) (simp add: tui_ok_def on_a_row_def view_of_def slice_stable_def)

end
