(* ===== verification/TuiFrames.thy ===== *)
theory TuiFrames
  imports TuiFacts
begin

text \<open>
  What the handlers leave alone: which of them touch the search overlay, and that a key which changes
  what is shown throws the marks away.
\<close>

subsection \<open>A step and what it does\<close>

definition outcome :: "(Model \<Rightarrow> tcmd list \<Rightarrow> bool) \<Rightarrow> tui_step \<Rightarrow> bool" where
  "outcome R s = (case s of None \<Rightarrow> True | Some (m, c) \<Rightarrow> R m c)"

lemma outcome_Some [simp]: "outcome R (Some (m, c)) = R m c" "outcome R None"
  by (simp_all add: outcome_def)

lemma outcome_pair: "outcome R (Some p) = R (fst p) (snd p)"
  by (cases p) simp

lemma outcome_if: "outcome R x \<Longrightarrow> outcome R y \<Longrightarrow> outcome R (if b then x else y)"
  by simp

lemma outcome_bind: "(\<And>x. s = Some x \<Longrightarrow> outcome R (f x)) \<Longrightarrow> outcome R (Option.bind s f)"
  by (cases s) auto

lemma outcome_case_prod: "(\<And>a b. p = (a, b) \<Longrightarrow> outcome R (f a b)) \<Longrightarrow> outcome R (case p of (a, b) \<Rightarrow> f a b)"
  by (cases p) simp

lemma outcome_option: "outcome R a \<Longrightarrow> (\<And>x. outcome R (f x)) \<Longrightarrow> outcome R (case x of None \<Rightarrow> a | Some x \<Rightarrow> f x)"
  by (cases x) auto

lemma outcome_sum: "(\<And>x. outcome R (f x)) \<Longrightarrow> (\<And>y. outcome R (g y)) \<Longrightarrow> outcome R (case s of Inl x \<Rightarrow> f x | Inr y \<Rightarrow> g y)"
  by (cases s) auto

lemma outcome_list: "outcome R a \<Longrightarrow> (\<And>x xs. outcome R (f x xs)) \<Longrightarrow> outcome R (case l of [] \<Rightarrow> a | x # xs \<Rightarrow> f x xs)"
  by (cases l) auto

lemma outcome_on_targets: "(\<And>ts. R (fst (f ts)) (snd (f ts))) \<Longrightarrow> R m [] \<Longrightarrow> outcome R (on_targets v m f)"
  by (auto simp: on_targets_def outcome_pair intro!: outcome_bind)

lemma outcome_modes: "outcome R a \<Longrightarrow> outcome R b \<Longrightarrow> outcome R c \<Longrightarrow> outcome R d \<Longrightarrow>
    outcome R (case x of modeSearch \<Rightarrow> a | modeCommand \<Rightarrow> b | modeFind \<Rightarrow> c | modeNormal \<Rightarrow> d)"
  by (cases x) auto

lemma outcome_panes: "outcome R a \<Longrightarrow> outcome R b \<Longrightarrow> outcome R c \<Longrightarrow>
    outcome R (case x of focusSidebar \<Rightarrow> a | focusDetail \<Rightarrow> b | focusList \<Rightarrow> c)"
  by (cases x) auto

lemmas outcome_intros = outcome_if outcome_bind outcome_case_prod outcome_option outcome_sum outcome_list
  outcome_on_targets outcome_modes outcome_panes

subsection \<open>The marks\<close>

text \<open>Either nothing that decides what is shown changed, or the marks are gone.\<close>

definition marks_follow :: "Model \<Rightarrow> Model \<Rightarrow> tcmd list \<Rightarrow> bool" where
  "marks_follow m m' c \<longleftrightarrow> u_selected m' = {} \<or>
     (u_filter m' = u_filter m \<and> u_labelFilter m' = u_labelFilter m \<and> u_searchQuery m' = u_searchQuery m)"

lemmas marks_simps = marks_follow_def applyTheme_def clampCursor_def closeFind_def setStatus_def applyEntry_def Let_def

named_theorems marks \<open>handlers that throw the marks away when they change what is shown\<close>

lemma marks_follow_setStatus [simp]: "marks_follow m (fst (setStatus s m')) c = marks_follow m m' c"
  by (simp add: marks_follow_def setStatus_def Let_def)

lemma marks_follow_sync [simp]: "marks_follow m (fst (syncDetail m')) c = marks_follow m m' c"
  by (simp add: marks_follow_def syncDetail_def split: option.split)

lemma marks_follow_clamp [simp]: "marks_follow m (clampCursor n m') c = marks_follow m m' c"
  by (simp add: marks_follow_def clampCursor_def)

lemma marks_follow_theme [simp]: "marks_follow m (applyTheme H th m') c = marks_follow m m' c"
  by (simp add: marks_follow_def applyTheme_def Let_def)

lemma marks_status [marks]: "marks_follow m m' [] \<Longrightarrow> outcome (marks_follow m) (with_status s m')"
  by (simp add: with_status_def outcome_pair) (simp add: marks_follow_def)

lemma marks_synced [marks]: "marks_follow m m' [] \<Longrightarrow> outcome (marks_follow m) (synced m')"
  by (simp add: synced_def outcome_pair) (simp add: marks_follow_def)

lemma marks_refl [simp]: "marks_follow m m c"
  by (simp add: marks_follow_def)

text \<open>\<open>m'\<close> shows what \<open>m\<close> shows: handlers run on it answer for \<open>m\<close>.\<close>

lemma marks_later: "u_filter m' = u_filter m \<Longrightarrow> u_labelFilter m' = u_labelFilter m \<Longrightarrow>
    u_searchQuery m' = u_searchQuery m \<Longrightarrow> outcome (marks_follow m') s \<Longrightarrow> outcome (marks_follow m) s"
  by (cases s) (auto simp: marks_follow_def)

lemma marks_find [marks]:
  "outcome (marks_follow m) (openFind m)" "outcome (marks_follow m) (startFind q m)"
  "outcome (marks_follow m) (addFindResult H m)" "outcome (marks_follow m) (handleFindKey H key m)"
proof -
  show o: "outcome (marks_follow m) (openFind m)" "outcome (marks_follow m) (startFind q m)" for q
    unfolding openFind_def startFind_def Let_def
    by ((intro outcome_intros marks)?; simp add: marks_simps)+
  show a: "outcome (marks_follow m) (addFindResult H m)"
    unfolding addFindResult_def Let_def
    by (intro outcome_intros marks) (auto simp: marks_simps)
  show "outcome (marks_follow m) (handleFindKey H key m)"
    unfolding handleFindKey_def Let_def
    by (intro outcome_intros a) (simp_all add: marks_simps)
qed

lemma marks_theme [marks]:
  "outcome (marks_follow m) (openThemePicker H m)" "outcome (marks_follow m) (handleThemeKey H key m)"
  "outcome (marks_follow m) (setThemeByName H name m)"
  unfolding openThemePicker_def handleThemeKey_def moveThemeCursor_def setThemeByName_def Let_def
  by ((intro outcome_intros marks)?; simp add: marks_simps)+

lemma marks_detail [marks]:
  "outcome (marks_follow m) (setDetailTab t m)" "outcome (marks_follow m) (previewFile m)"
  "outcome (marks_follow m) (toggleFileWanted m)" "outcome (marks_follow m) (adjustFilePriority d m)"
  unfolding setDetailTab_def previewFile_def toggleFileWanted_def adjustFilePriority_def Let_def
  by ((intro outcome_intros marks)?; simp add: marks_simps)+

lemma marks_targets [marks]:
  "outcome (marks_follow m) (removeTargets v d m)" "outcome (marks_follow m) (purgeTargets v m)"
  "outcome (marks_follow m) (recheckTargets v m)" "outcome (marks_follow m) (pauseTargets v m)"
  "outcome (marks_follow m) (labelTargets l m)" "outcome (marks_follow m) (setPausedTargets p m)"
  "outcome (marks_follow m) (openCursorFolder m)"
  unfolding removeTargets_def purgeTargets_def recheckTargets_def pauseTargets_def labelTargets_def
    setPausedTargets_def openCursorFolder_def
  by ((intro outcome_intros)?; simp add: marks_simps)+

lemma marks_sidebar [marks]: "outcome (marks_follow m) (selectSidebar i m)"
  unfolding selectSidebar_def Let_def
  by (intro outcome_intros marks) (auto simp: marks_simps)

lemma marks_mouse [marks]:
  "outcome (marks_follow m) (tui_toggleMouse m)" "outcome (marks_follow m) (handleMouse H mo m)"
proof -
  show "outcome (marks_follow m) (tui_toggleMouse m)"
    unfolding tui_toggleMouse_def Let_def
    by (intro outcome_intros) (auto simp: marks_simps)
  have s: "outcome (marks_follow m) (scrollTarget t d m)" for t d
    unfolding scrollTarget_def Let_def
    by (cases t) (auto intro!: marks simp: marks_simps)
  have f: "outcome (marks_follow m) (selectSidebar i (m\<lparr>u_focus := f\<rparr>))" for i f
    by (rule marks_later [OF _ _ _ marks_sidebar]) simp_all
  have "outcome (marks_follow m) (click_sidebar H p row m)" "outcome (marks_follow m) (click_list p row m)"
    "outcome (marks_follow m) (click_tabs p x m)" "outcome (marks_follow m) (click_body p row m)" for p row x
    unfolding click_sidebar_def click_list_def click_tabs_def click_body_def setDetailTab_def Let_def
    by ((intro f outcome_intros marks)?; simp add: marks_simps)+
  then show "outcome (marks_follow m) (handleMouse H mo m)"
    unfolding handleMouse_def Let_def using s
    by (auto intro!: outcome_case_prod split: mouseButton.split mouseTarget.split)
qed

lemma marks_list [marks]: "outcome (marks_follow m) (handleListKey H key m)"
proof -
  define m1 where "m1 = (if key \<noteq> ''d'' then m\<lparr>u_pendingDD := False\<rparr> else m)"
  have same: "u_filter m1 = u_filter m" "u_labelFilter m1 = u_labelFilter m" "u_searchQuery m1 = u_searchQuery m"
    by (simp_all add: m1_def)
  have later: "outcome (marks_follow m1) s \<Longrightarrow> outcome (marks_follow m) s" for s
    by (rule marks_later [OF same])
  have p: "outcome (marks_follow m1) (peel m1)" "outcome (marks_follow m1) (mark_row v m1)" for v
    unfolding peel_def mark_row_def Let_def
    by ((intro outcome_intros marks)?; simp add: marks_simps)+
  have r: "outcome (marks_follow m1) (removeTargets v b (m1\<lparr>u_pendingDD := False\<rparr>))" for v b
    by (rule marks_later [OF _ _ _ marks_targets(1)]) simp_all
  show ?thesis
    unfolding handleListKey_def Let_def m1_def [symmetric]
    by (rule later) (intro outcome_if r p marks; simp add: marks_follow_def)
qed

lemma marks_keys [marks]:
  "outcome (marks_follow m) (handleSidebarKey H key m)" "outcome (marks_follow m) (handleDetailKey H key m)"
  unfolding handleSidebarKey_def handleDetailKey_def Let_def
  by ((intro outcome_if marks)?; simp add: marks_simps)+

lemma marks_command [marks]: "outcome (marks_follow m) (execCommand H line m)"
proof -
  have s: "outcome (marks_follow m) (say err m)" "outcome (marks_follow m) (sort_command args m)" for err args
    unfolding say_def sort_command_def by ((intro outcome_intros)?; simp add: marks_simps)+
  show ?thesis
    unfolding execCommand_def
    by (intro outcome_list outcome_option outcome_if outcome_bind s marks) (simp_all add: marks_follow_def)
qed

lemma marks_prompts [marks]:
  "outcome (marks_follow m) (handleCommandKey H k m)" "outcome (marks_follow m) (handleSearchKey k m)"
  "outcome (marks_follow m) (handleFindPromptKey k m)"
proof -
  have "outcome (marks_follow m) (execCommand H line (m\<lparr>u_mode := a, u_commandBuf := b, u_completions := c\<rparr>))" for line a b c
    by (rule marks_later [OF _ _ _ marks_command]) simp_all
  then show "outcome (marks_follow m) (handleCommandKey H k m)"
    unfolding handleCommandKey_def
    by (cases "key_Type k") (auto intro!: outcome_case_prod simp: marks_follow_def)
  show "outcome (marks_follow m) (handleSearchKey k m)"
    by (auto simp: handleSearchKey_def search_keyed_def marks_simps split: keyType.split)
  show "outcome (marks_follow m) (handleFindPromptKey k m)"
    unfolding handleFindPromptKey_def by (cases "key_Type k") (auto intro: marks simp: marks_follow_def)
qed

lemma marks_handleKey: "outcome (marks_follow m) (handleKey H k m)"
  unfolding handleKey_def Let_def
  by (intro outcome_if outcome_modes outcome_panes marks) (simp_all add: marks_follow_def)

subsection \<open>The search overlay\<close>

text \<open>The searches a batch of commands asks for, and the four things a handler may do to the overlay.\<close>

definition finds :: "tcmd list \<Rightarrow> (string \<times> int) list" where
  "finds c = List.map_filter (\<lambda>x. case x of FindCmd q n \<Rightarrow> Some (q, n) | _ \<Rightarrow> None) c"

definition find_kept :: "Model \<Rightarrow> Model \<Rightarrow> tcmd list \<Rightarrow> bool" where
  "find_kept m m' c \<longleftrightarrow> u_findState m' = u_findState m \<and> u_findQuery m' = u_findQuery m \<and>
     u_findSeq m' = u_findSeq m \<and> u_findResults m' = u_findResults m \<and> finds c = []"

definition find_closed :: "Model \<Rightarrow> Model \<Rightarrow> tcmd list \<Rightarrow> bool" where
  "find_closed m m' c \<longleftrightarrow> u_findState m' = findClosed \<and> u_findSeq m' = u_findSeq m + 1 \<and> finds c = []"

definition find_edited :: "Model \<Rightarrow> Model \<Rightarrow> tcmd list \<Rightarrow> bool" where
  "find_edited m m' c \<longleftrightarrow> u_findState m = findClosed \<and> u_findState m' = findClosed \<and> u_findSeq m' = u_findSeq m \<and> finds c = []"

definition find_started :: "Model \<Rightarrow> Model \<Rightarrow> tcmd list \<Rightarrow> bool" where
  "find_started m m' c \<longleftrightarrow> u_findState m' = findLoading \<and> u_findSeq m' = u_findSeq m + 1 \<and>
     finds c = [(u_findQuery m', u_findSeq m')]"

definition find_moves :: "Model \<Rightarrow> Model \<Rightarrow> tcmd list \<Rightarrow> bool" where
  "find_moves m m' c \<longleftrightarrow> find_kept m m' c \<or> find_closed m m' c \<or> find_edited m m' c \<or> find_started m m' c"

lemma finds_simps [simp]: "finds [] = []" "finds (a @ b) = finds a @ finds b"
  "finds (FindCmd q n # c) = (q, n) # finds c" "finds (ExpireStatus n d # c) = finds c" "finds (LoadDetail k # c) = finds c"
  "finds (AddBatchCmd l # c) = finds c" "finds (RemoveCmd ks del # c) = finds c" "finds (PurgeCmd ks # c) = finds c"
  "finds (PauseCmd ts # c) = finds c" "finds (RecheckCmd ks # c) = finds c" "finds (SetPausedCmd ks pz # c) = finds c"
  "finds (SetLabelCmd ks lab # c) = finds c" "finds (SetPriorityCmd k i pr # c) = finds c" "finds (PreviewCmd lab k f # c) = finds c"
  "finds (OpenCmd o1 o2 o3 # c) = finds c" "finds (LimitCmd upw lab # c) = finds c" "finds (MoveCmd k lab # c) = finds c"
  "finds (DisableMouse # c) = finds c" "finds (EnableMouseCellMotion # c) = finds c" "finds (Say st # c) = finds c"
  "finds (QuitCmd # c) = finds c" "finds (ListenForEvents # c) = finds c" "finds (ThemeWatch d # c) = finds c"
  by (simp_all add: finds_def List.map_filter_def)

named_theorems overlay \<open>handlers and the search overlay\<close>

lemmas overlay_simps = find_kept_def applyTheme_def clampCursor_def setStatus_def applyEntry_def syncDetail_def Let_def

lemma kept_moves: "outcome (find_kept m) s \<Longrightarrow> outcome (find_moves m) s"
  by (cases s) (auto simp: find_moves_def)

lemma overlay_later: "u_findState m' = u_findState m \<Longrightarrow> u_findQuery m' = u_findQuery m \<Longrightarrow>
    u_findSeq m' = u_findSeq m \<Longrightarrow> u_findResults m' = u_findResults m \<Longrightarrow>
    outcome (find_kept m') s \<Longrightarrow> outcome (find_kept m) s"
  by (cases s) (auto simp: find_kept_def)

lemma overlay_status [overlay]: "find_kept m m' [] \<Longrightarrow> outcome (find_kept m) (with_status s m')"
  by (simp add: with_status_def outcome_pair overlay_simps)

lemma overlay_synced [overlay]: "find_kept m m' [] \<Longrightarrow> outcome (find_kept m) (synced m')"
  by (simp add: synced_def outcome_pair) (simp add: overlay_simps split: option.split)

lemma overlay_openFind [overlay]: "outcome (find_kept m) (openFind m)"
  unfolding openFind_def by (intro outcome_intros overlay; simp add: overlay_simps)

lemma overlay_theme [overlay]:
  "outcome (find_kept m) (openThemePicker H m)" "outcome (find_kept m) (handleThemeKey H key m)"
  "outcome (find_kept m) (setThemeByName H name m)"
  unfolding openThemePicker_def handleThemeKey_def moveThemeCursor_def setThemeByName_def Let_def
  by ((intro outcome_intros overlay)?; simp add: overlay_simps)+

lemma overlay_detail [overlay]:
  "outcome (find_kept m) (setDetailTab t m)" "outcome (find_kept m) (previewFile m)"
  "outcome (find_kept m) (toggleFileWanted m)" "outcome (find_kept m) (adjustFilePriority d m)"
  unfolding setDetailTab_def previewFile_def toggleFileWanted_def adjustFilePriority_def Let_def
  by ((intro outcome_intros overlay)?; simp add: overlay_simps)+

lemma overlay_targets [overlay]:
  "outcome (find_kept m) (removeTargets v d m)" "outcome (find_kept m) (purgeTargets v m)"
  "outcome (find_kept m) (recheckTargets v m)" "outcome (find_kept m) (pauseTargets v m)"
  "outcome (find_kept m) (labelTargets l m)" "outcome (find_kept m) (setPausedTargets p m)"
  "outcome (find_kept m) (openCursorFolder m)"
  unfolding removeTargets_def purgeTargets_def recheckTargets_def pauseTargets_def labelTargets_def
    setPausedTargets_def openCursorFolder_def
  by ((intro outcome_intros)?; simp add: overlay_simps)+

lemma overlay_sidebar [overlay]: "outcome (find_kept m) (selectSidebar i m)"
  unfolding selectSidebar_def Let_def
  by (intro outcome_intros overlay) (auto simp: overlay_simps)

lemma overlay_mouse [overlay]:
  "outcome (find_kept m) (tui_toggleMouse m)" "outcome (find_kept m) (handleMouse H mo m)"
proof -
  show "outcome (find_kept m) (tui_toggleMouse m)"
    unfolding tui_toggleMouse_def Let_def
    by (intro outcome_intros) (auto simp: overlay_simps)
  have s: "outcome (find_kept m) (scrollTarget t d m)" for t d
    unfolding scrollTarget_def Let_def
    by (cases t) (auto intro!: overlay simp: overlay_simps)
  have f: "outcome (find_kept m) (selectSidebar i (m\<lparr>u_focus := f\<rparr>))" for i f
    by (rule overlay_later [OF _ _ _ _ overlay_sidebar]) simp_all
  have "outcome (find_kept m) (click_sidebar H p row m)" "outcome (find_kept m) (click_list p row m)"
    "outcome (find_kept m) (click_tabs p x m)" "outcome (find_kept m) (click_body p row m)" for p row x
    unfolding click_sidebar_def click_list_def click_tabs_def click_body_def setDetailTab_def Let_def
    by ((intro f outcome_intros overlay)?; simp add: overlay_simps)+
  then show "outcome (find_kept m) (handleMouse H mo m)"
    unfolding handleMouse_def Let_def using s
    by (auto intro!: outcome_case_prod split: mouseButton.split mouseTarget.split simp: find_kept_def)
qed

lemma overlay_list [overlay]: "outcome (find_kept m) (handleListKey H key m)"
proof -
  define m1 where "m1 = (if key \<noteq> ''d'' then m\<lparr>u_pendingDD := False\<rparr> else m)"
  have later: "outcome (find_kept m1) s \<Longrightarrow> outcome (find_kept m) s" for s
    by (rule overlay_later) (simp_all add: m1_def)
  have p: "outcome (find_kept m1) (peel m1)" "outcome (find_kept m1) (mark_row v m1)" for v
    unfolding peel_def mark_row_def Let_def
    by ((intro outcome_intros overlay)?; simp add: overlay_simps)+
  have r: "outcome (find_kept m1) (removeTargets v b (m1\<lparr>u_pendingDD := False\<rparr>))" for v b
    by (rule overlay_later [OF _ _ _ _ overlay_targets(1)]) simp_all
  show ?thesis
    unfolding handleListKey_def Let_def m1_def [symmetric]
    by (rule later) (intro outcome_if r p overlay; simp add: find_kept_def)
qed

lemma overlay_keys [overlay]:
  "outcome (find_kept m) (handleSidebarKey H key m)" "outcome (find_kept m) (handleDetailKey H key m)"
  unfolding handleSidebarKey_def handleDetailKey_def Let_def
  by ((intro outcome_if overlay)?; simp add: find_kept_def)+

lemma startFind_moves: "outcome (find_moves m) (startFind q m)"
  unfolding startFind_def Let_def
  by (intro outcome_if kept_moves [OF overlay_status]) (simp_all add: find_moves_def find_started_def find_kept_def)

lemma find_moves_later: "u_findState m' = u_findState m \<Longrightarrow> u_findQuery m' = u_findQuery m \<Longrightarrow>
    u_findSeq m' = u_findSeq m \<Longrightarrow> u_findResults m' = u_findResults m \<Longrightarrow>
    outcome (find_moves m') s \<Longrightarrow> outcome (find_moves m) s"
  by (cases s) (auto simp: find_moves_def find_kept_def find_closed_def find_edited_def find_started_def)

lemma handleFindKey_moves: "outcome (find_moves m) (handleFindKey H key m)"
proof -
  have a: "outcome (find_moves m) (addFindResult H m)"
    unfolding addFindResult_def Let_def
    by (intro outcome_if outcome_bind outcome_case_prod kept_moves [OF overlay_status])
      (auto simp: find_moves_def find_closed_def find_kept_def closeFind_def setStatus_def Let_def)
  show ?thesis
    unfolding handleFindKey_def Let_def
    by (intro outcome_if a) (simp_all add: find_moves_def find_kept_def find_closed_def closeFind_def)
qed

lemma execCommand_moves: "outcome (find_moves m) (execCommand H line m)"
proof -
  have s: "outcome (find_kept m) (say err m)" "outcome (find_kept m) (sort_command args m)" for err args
    unfolding say_def sort_command_def by ((intro outcome_intros)?; simp add: overlay_simps)+
  show ?thesis
    unfolding execCommand_def
    by (intro outcome_list outcome_option outcome_if outcome_bind startFind_moves s [THEN kept_moves] overlay [THEN kept_moves])
      (simp_all add: find_moves_def find_kept_def)
qed

lemma prompts_move:
  "outcome (find_moves m) (handleCommandKey H k m)" "outcome (find_moves m) (handleSearchKey k m)"
  "u_findState m = findClosed \<Longrightarrow> outcome (find_moves m) (handleFindPromptKey k m)"
proof -
  have "outcome (find_moves m) (execCommand H line (m\<lparr>u_mode := a, u_commandBuf := b, u_completions := c\<rparr>))" for line a b c
    by (rule find_moves_later [OF _ _ _ _ execCommand_moves]) simp_all
  then show "outcome (find_moves m) (handleCommandKey H k m)"
    unfolding handleCommandKey_def
    by (cases "key_Type k") (auto intro!: outcome_case_prod simp: find_moves_def find_kept_def)
  show "outcome (find_moves m) (handleSearchKey k m)"
    by (auto simp: handleSearchKey_def search_keyed_def overlay_simps find_moves_def split: keyType.split)
  show "u_findState m = findClosed \<Longrightarrow> outcome (find_moves m) (handleFindPromptKey k m)"
    unfolding handleFindPromptKey_def
    by (cases "key_Type k") (auto intro: startFind_moves simp: find_moves_def find_kept_def find_edited_def)
qed

lemma handleKey_moves: "outcome (find_moves m) (handleKey H k m)"
proof -
  have p: "outcome (find_moves m) s \<Longrightarrow> outcome (find_moves m) (if u_findState m \<noteq> findClosed then handleFindKey H key m else
      case u_mode m of modeSearch \<Rightarrow> handleSearchKey k m | modeCommand \<Rightarrow> handleCommandKey H k m
       | modeFind \<Rightarrow> handleFindPromptKey k m | modeNormal \<Rightarrow> s)" for key s
    by (auto intro: handleFindKey_moves prompts_move split: inputMode.split)
  show ?thesis
    unfolding handleKey_def Let_def
    by (intro p outcome_panes overlay [THEN kept_moves] outcome_if) (simp_all add: find_moves_def find_kept_def)
qed

lemma event_overlay:
  "find_kept m (dropVanishedLabelFilter (m\<lparr>u_torrents := ts, u_global := g\<rparr>)) []"
  "find_kept m m1 [] \<Longrightarrow> find_kept m (fst (revealJustAdded m1)) []"
  by (simp add: dropVanishedLabelFilter_def find_kept_def) (simp add: revealJustAdded_def find_kept_def Let_def)

lemma overlay_event: "outcome (find_kept m) (on_event ev m)"
proof -
  let ?m2 = "fst (revealJustAdded (dropVanishedLabelFilter (m\<lparr>u_torrents := ev_Torrents ev, u_global := ev_Global ev\<rparr>)))"
  have "find_kept m ?m2 []" by (rule event_overlay(2) [OF event_overlay(1)])
  then have a: "find_kept m m3 [] \<and> finds r = []" if "(m3, r) = (if b then (?m2, []) else setStatus s ?m2)" for m3 r b s
    using that by (auto simp: find_kept_def setStatus_def Let_def split: if_splits)
  have b: "find_kept m m3 [] \<Longrightarrow> find_kept m (fst (syncDetail (clamped m3))) (snd (syncDetail (clamped m3)))" for m3
    by (simp add: find_kept_def syncDetail_def clampCursor_def split: option.split)
  show ?thesis
    unfolding on_event_def Let_def case_prod_beta outcome_Some
    using a [OF prod.collapse] b by (simp add: find_kept_def)
qed

text \<open>Whatever the message, but an answer to a search.\<close>

lemma Update_moves:
  assumes "\<And>n q r. msg \<noteq> FindResults n q r"
  shows "outcome (find_moves m) (Update H msg m)"
proof -
  have "outcome (find_kept m) (on_detail r m)" for r
    unfolding on_detail_def Let_def by (intro outcome_sum outcome_if overlay) (simp_all add: find_kept_def)
  moreover have "outcome (find_kept m) (with_status s (m\<lparr>u_pendingReveal := ids\<rparr>))" for s ids
    by (rule overlay_status) (simp add: find_kept_def)
  moreover have "outcome (find_kept m) (Some (checkThemeFile H m))"
    by (auto simp: checkThemeFile_def overlay_simps outcome_pair split: option.split sum.split)
  moreover have "outcome (find_kept m) (with_status s m)" for s by (rule overlay_status) (simp add: find_kept_def)
  ultimately show ?thesis
    unfolding Update_def using handleKey_moves assms
    by (auto intro: kept_moves overlay_mouse overlay_event simp: find_moves_def [of m "clearStatus _ _"] find_kept_def clearStatus_def
        split: tui_msg.split) (simp_all add: find_moves_def find_kept_def)
qed

end
