(* ===== verification/ClientWork.thy ===== *)
theory ClientWork
  imports IpcClient Batch Launch Quantities ConfigFile
begin

text \<open>
  What the command line (\<^verbatim>\<open>cmd/torrnado\<close>) and the interface (\<^verbatim>\<open>internal/tui/commands.go\<close>) share: doing a
  thing to each of several torrents, adding what the arguments name, and getting hold of a daemon, which
  \<^verbatim>\<open>spawn.go\<close> starts when there is none and \<^verbatim>\<open>stopcmd.go\<close> waits for the end of. A caller is what a
  method of the client is to it, with the state at the other end threaded through.
\<close>

subsection \<open>Each of several torrents\<close>

text \<open>\<open>count_failed\<close> goes on after a failure and counts; the last error is kept beside the count.\<close>

fun count_failed :: "('a \<Rightarrow> 's \<Rightarrow> unit result \<times> 's) \<Rightarrow> 'a list \<Rightarrow> 's \<Rightarrow> nat \<times> string option \<times> 's" where
  "count_failed f [] s = (0, None, s)"
| "count_failed f (k # ks) s = (let (r, s1) = f k s; (n, lastErr, s2) = count_failed f ks s1 in
     (case r of Inr _ \<Rightarrow> (n, lastErr, s2)
      | Inl err \<Rightarrow> (n + 1, if lastErr = None then Some err else lastErr, s2)))"

fun each_torrent :: "(tid \<Rightarrow> 's \<Rightarrow> unit result \<times> 's) \<Rightarrow> tid list \<Rightarrow> 's \<Rightarrow> nat \<times> string list \<times> 's" where
  "each_torrent f [] s = (0, [], s)"
| "each_torrent f (k # ks) s = (let (r, s1) = f k s; (n, out, s2) = each_torrent f ks s1 in
     (case r of Inr _ \<Rightarrow> (n, out, s2)
      | Inl err \<Rightarrow> (n + 1, (''failed on '' @ k @ '': '' @ err) # out, s2)))"

text \<open>What a subcommand does: its error, the lines it prints, the daemon after.\<close>

type_synonym 's work = "unit result \<times> string list \<times> 's"

definition eachTorrent :: "(tid \<Rightarrow> 's \<Rightarrow> unit result \<times> 's) \<Rightarrow> tid list \<Rightarrow> 's \<Rightarrow> 's work" where
  "eachTorrent f ids s = (let (n, out, s1) = each_torrent f ids s in
     (if 0 < n then Inl (itoa (int n) @ '' of '' @ itoa (int (List.length ids)) @ '' failed'') else Inr (), out, s1))"

text \<open>The states a sequence of calls goes through, whatever each of them answers.\<close>

definition run_each :: "('a \<Rightarrow> 's \<Rightarrow> 'r \<times> 's) \<Rightarrow> 'a list \<Rightarrow> 's \<Rightarrow> 's" where
  "run_each f ks s = fold (\<lambda>k s. snd (f k s)) ks s"

lemma count_failed_run: "snd (snd (count_failed f ks s)) = run_each f ks s"
  by (induction ks arbitrary: s) (simp_all add: run_each_def case_prod_beta split: sum.split)

lemma each_torrent_run: "snd (snd (each_torrent f ks s)) = run_each f ks s"
  by (induction ks arbitrary: s) (simp_all add: run_each_def case_prod_beta split: sum.split)

lemma each_torrent_lines: "length (fst (snd (each_torrent f ks s))) = fst (each_torrent f ks s)"
  by (induction ks arbitrary: s) (simp_all add: case_prod_beta split: sum.split)

lemma count_failed_le: "fst (count_failed f ks s) \<le> length ks"
  by (induction ks arbitrary: s) (auto simp: case_prod_beta le_SucI split: sum.split)

lemma count_failed_each: "fst (count_failed f ks s) = fst (each_torrent f ks s)"
  by (induction ks arbitrary: s) (simp_all add: case_prod_beta split: sum.split)

subsection \<open>Adding\<close>

text \<open>What both ends of an addition do: resolve what only the daemon can, expand, add, clean up. \<open>None\<close> is an
  expansion that does not return.\<close>

definition expand_and_add :: "nat \<Rightarrow> bview \<Rightarrow> 's caller \<Rightarrow> string list \<Rightarrow> AddOpts \<Rightarrow> 's \<times> tempdir \<Rightarrow>
    ((string list \<times> tid list \<times> string list) result \<times> 's \<times> tempdir) option" where
  "expand_and_add fuel B call args opts st = (let (s, dir) = st in
     case c_ResolveLinks call args s of
       (Inl err, s1) \<Rightarrow> Some (Inl err, s1, dir)
     | (Inr args1, s1) \<Rightarrow> (case Expand fuel B args1 dir of
         None \<Rightarrow> None
       | Some (Inl err, ex) \<Rightarrow> Some (Inl err, s1, snd ex)
       | Some (Inr sources, ex) \<Rightarrow> (case c_AddBatch call sources opts s1 of
           (Inl err, s2) \<Rightarrow> Some (Inl err, s2, cleanup B ex)
         | (Inr (ids, failures), s2) \<Rightarrow> Some (Inr (sources, ids, failures), s2, cleanup B ex))))"

subsection \<open>Getting hold of a daemon\<close>

text \<open>
  \<open>dial i\<close> is what the \<open>i\<close>-th attempt to connect answers, \<open>clock i\<close> what the clock reads before it.
\<close>

fun dial_until :: "nat \<Rightarrow> (nat \<Rightarrow> string option) \<Rightarrow> (nat \<Rightarrow> gotime) \<Rightarrow> gotime \<Rightarrow> nat \<Rightarrow> string \<Rightarrow> (string result \<times> nat) option" where
  "dial_until 0 dial clock deadline i lastErr = None"
| "dial_until (Suc fuel) dial clock deadline i lastErr =
     (if clock i < deadline then (case dial i of
         None \<Rightarrow> Some (Inr [], i + 1)
       | Some err \<Rightarrow> dial_until fuel dial clock deadline (i + 1) err)
      else Some (Inl lastErr, i))"

definition spawnWait :: duration where "spawnWait = 5 * second"

text \<open>A daemon to talk to, or why there is none: the first try, the start, the tries after it. The second
  component says whether one was started.\<close>

definition dialOrSpawn :: "nat \<Rightarrow> string \<Rightarrow> (nat \<Rightarrow> string option) \<Rightarrow> string option \<Rightarrow> (nat \<Rightarrow> gotime) \<Rightarrow> (unit result \<times> bool) option" where
  "dialOrSpawn fuel sock dial spawns clock =
     (if dial 0 = None then Some (Inr (), False)
      else case spawns of
        Some err \<Rightarrow> Some (Inl (''spawn daemon: '' @ err), False)
      | None \<Rightarrow> (case dial_until fuel (\<lambda>i. dial (Suc i)) clock (clock 0 + spawnWait) 0 ''%!w(<nil>)'' of
          None \<Rightarrow> None
        | Some (Inr _, _) \<Rightarrow> Some (Inr (), True)
        | Some (Inl err, _) \<Rightarrow> Some (Inl (''daemon did not come up on '' @ sock @ '': '' @ err), True)))"

definition stopPoll :: duration where "stopPoll = 100 * millisecond"

text \<open>\<open>info i\<close> is what the lock says at the \<open>i\<close>-th look.\<close>

fun waitForStop :: "nat \<Rightarrow> (nat \<Rightarrow> DaemonStatus \<times> string option) \<Rightarrow> (nat \<Rightarrow> gotime) \<Rightarrow> duration \<Rightarrow> gotime \<Rightarrow> nat \<Rightarrow> unit result option" where
  "waitForStop 0 info clock timeout deadline i = None"
| "waitForStop (Suc fuel) info clock timeout deadline i = (case info i of
     (st, Some err) \<Rightarrow> Some (Inl err)
   | (st, None) \<Rightarrow>
       if \<not> ds_Running st then Some (Inr ())
       else if deadline < clock i then Some (Inl (''daemon '' @ itoa (ds_PID st) @ '' did not stop within '' @
         duration_text timeout @ ''; it may be finishing a hash check - wait, or send SIGKILL to give up on a clean shutdown''))
       else waitForStop fuel info clock timeout deadline (i + 1))"

text \<open>Both loops end when the clock moves on between two rounds, as the sleep in them makes it.\<close>

definition ticks_on :: "(nat \<Rightarrow> gotime) \<Rightarrow> bool" where
  "ticks_on clock \<longleftrightarrow> (\<forall>i. clock i + stopPoll \<le> clock (i + 1))"

lemma ticks_on_late: "ticks_on clock \<Longrightarrow> clock i + int k * stopPoll \<le> clock (i + k)"
proof (induction k)
  case (Suc k)
  then have "clock (i + k) + stopPoll \<le> clock (i + k + 1)" by (simp add: ticks_on_def)
  then show ?case using Suc by (simp add: algebra_simps)
qed simp

lemma dial_until_returns:
  "ticks_on clock \<Longrightarrow> deadline \<le> clock i + int fuel * stopPoll \<Longrightarrow> dial_until (Suc fuel) dial clock deadline i e \<noteq> None"
proof (induction fuel arbitrary: i e)
  case (Suc fuel)
  have "clock i + stopPoll \<le> clock (i + 1)" using Suc.prems(1) by (simp add: ticks_on_def)
  then have "deadline \<le> clock (i + 1) + int fuel * stopPoll" using Suc.prems(2) by (simp add: algebra_simps)
  then show ?case using Suc.IH [OF Suc.prems(1), of "i + 1"] by (auto simp: dial_until.simps(2) [of "Suc fuel"] split: option.split)
qed (simp split: option.split)

lemma waitForStop_returns:
  "ticks_on clock \<Longrightarrow> deadline < clock i + int fuel * stopPoll \<Longrightarrow> waitForStop (Suc fuel) info clock timeout deadline i \<noteq> None"
proof (induction fuel arbitrary: i)
  case (Suc fuel)
  have "clock i + stopPoll \<le> clock (i + 1)" using Suc.prems(1) by (simp add: ticks_on_def)
  then have "deadline < clock (i + 1) + int fuel * stopPoll" using Suc.prems(2) by (simp add: algebra_simps)
  then show ?case
    using Suc.IH [OF Suc.prems(1), of "i + 1"]
    by (auto simp: waitForStop.simps(2) [of "Suc fuel"] split: prod.split option.split)
qed (simp split: prod.split option.split)

end
