(* ===== verification/TuiCommands.thy ===== *)
theory TuiCommands
  imports ClientWork TuiTypes
begin

text \<open>
  What the interface asks of the daemon, off its main loop: \<^verbatim>\<open>internal/tui/commands.go\<close>, and the commands of
  \<^verbatim>\<open>palette.go\<close> and \<^verbatim>\<open>find.go\<close>. Each becomes a message for the loop. A caller stands for the connection, as in
  \<^verbatim>\<open>IpcClient\<close>; the files and the programs the host can start are a record.
\<close>

record work_host =
  wk_files :: bview
  wk_starts :: "launched \<Rightarrow> string option"

subsection \<open>Torrents\<close>

definition some_failed :: "string \<Rightarrow> nat \<Rightarrow> nat \<Rightarrow> statusMsg" where
  "some_failed did n bad = errStatus (did @ '' '' @ itoa (int n - int bad) @ ''/'' @ itoa (int n) @
     '' torrents ('' @ itoa (int bad) @ '' failed)'')"

definition removeCmd :: "'s caller \<Rightarrow> tid list \<Rightarrow> bool \<Rightarrow> 's \<Rightarrow> statusMsg \<times> 's" where
  "removeCmd c ids deleteData s = (let (bad, _, s1) = count_failed (\<lambda>k. c_Remove c k deleteData) ids s in
     (if 0 < bad then some_failed ''removed'' (List.length ids) bad
      else okStatus ((if deleteData then ''removed (with data)'' else ''removed'') @ '' '' @
        itoa (int (List.length ids)) @ '' torrent(s)''), s1))"

definition openCmd :: "work_host \<Rightarrow> string \<Rightarrow> string \<Rightarrow> string \<Rightarrow> statusMsg" where
  "openCmd W opener dir fallback =
     (let d = (if bv_stat (wk_files W) dir = None \<and> fallback \<noteq> [] then fallback else dir)
      in case Detached (wk_starts W) opener d of Inl err \<Rightarrow> errStatus err | Inr _ \<Rightarrow> okStatus (''opened '' @ d))"

definition purgeCmd :: "'s caller \<Rightarrow> tid list \<Rightarrow> 's \<Rightarrow> statusMsg \<times> 's" where
  "purgeCmd c ids s = (let (bad, _, s1) = count_failed (c_PurgeData c) ids s in
     (if 0 < bad then some_failed ''deleted the data of'' (List.length ids) bad
      else okStatus (''deleted the data of '' @ itoa (int (List.length ids)) @ '' torrent(s), kept the torrent(s)''), s1))"

definition pauseCmd :: "'s caller \<Rightarrow> TorrentSnapshot list \<Rightarrow> 's \<Rightarrow> statusMsg \<times> 's" where
  "pauseCmd c targets s =
     (let (bad, _, s1) = count_failed (\<lambda>t. c_SetPaused c (snap_ID t) (\<not> snap_Paused t)) targets s in
     (if 0 < bad then some_failed ''toggled'' (List.length targets) bad
      else okStatus (''toggled pause on '' @ itoa (int (List.length targets)) @ '' torrent(s)''), s1))"

definition recheckCmd :: "'s caller \<Rightarrow> tid list \<Rightarrow> 's \<Rightarrow> statusMsg \<times> 's" where
  "recheckCmd c ids s = (let (bad, _, s1) = count_failed (c_ForceRecheck c) ids s in
     (if 0 < bad then some_failed ''rechecked'' (List.length ids) bad
      else okStatus (''rechecking '' @ itoa (int (List.length ids)) @ '' torrent(s)''), s1))"

definition setPausedCmd :: "'s caller \<Rightarrow> tid list \<Rightarrow> bool \<Rightarrow> 's \<Rightarrow> statusMsg \<times> 's" where
  "setPausedCmd c ids paused s = (let (bad, _, s1) = count_failed (\<lambda>k. c_SetPaused c k paused) ids s in
     (if 0 < bad then some_failed ''updated'' (List.length ids) bad
      else okStatus ((if paused then ''paused'' else ''resumed'') @ '' '' @ itoa (int (List.length ids)) @ '' torrent(s)''), s1))"

definition setLabelCmd :: "'s caller \<Rightarrow> tid list \<Rightarrow> string \<Rightarrow> 's \<Rightarrow> statusMsg \<times> 's" where
  "setLabelCmd c ids label s = (let (bad, lastErr, s1) = count_failed (\<lambda>k. c_SetLabel c k label) ids s;
       n = List.length ids in
     (case (if bad = n then lastErr else None) of
        Some err \<Rightarrow> errStatus err
      | None \<Rightarrow>
          if 0 < bad then some_failed ''labelled'' n bad
          else if label = [] then okStatus (''cleared the label on '' @ itoa (int n) @ '' torrent(s)'')
          else okStatus (''labelled '' @ itoa (int n) @ '' torrent(s) '' @ quoted label), s1))"

definition moveCmd :: "'s caller \<Rightarrow> tid \<Rightarrow> string \<Rightarrow> 's \<Rightarrow> statusMsg \<times> 's" where
  "moveCmd c k dir s = (case c_MoveStorage c k dir s of
     (Inl err, s1) \<Rightarrow> (errStatus err, s1) | (Inr _, s1) \<Rightarrow> (okStatus (''moved to '' @ dir), s1))"

text \<open>\<open>None\<close> is a rate whose text never comes, as in \<^verbatim>\<open>Rate_String\<close>.\<close>

definition limitCmd :: "'s caller \<Rightarrow> bool \<Rightarrow> string \<Rightarrow> 's \<Rightarrow> (statusMsg \<times> 's) option" where
  "limitCmd c up rate s = (case ParseRate rate of
     Inl err \<Rightarrow> Some (errStatus err, s)
   | Inr bps \<Rightarrow> (case (if up then c_SetGlobalUploadLimit c bps s else c_SetGlobalDownloadLimit c bps s) of
       (Inl err, s1) \<Rightarrow> Some (errStatus err, s1)
     | (Inr _, s1) \<Rightarrow> map_option (\<lambda>txt. (okStatus (''global '' @ (if up then ''upload'' else ''download'') @ '' limit: '' @ txt), s1))
         (Rate_String bps)))"

subsection \<open>One torrent's detail, a file's priority, a preview\<close>

definition loadDetail :: "'s caller \<Rightarrow> tid \<Rightarrow> 's \<Rightarrow> tui_msg \<times> 's" where
  "loadDetail c k s = (let (r, s1) = c_Detail c k s in (DetailLoaded r, s1))"

definition setPriorityCmd :: "'s caller \<Rightarrow> tid \<Rightarrow> int \<Rightarrow> priority \<Rightarrow> 's \<Rightarrow> tui_msg \<times> 's" where
  "setPriorityCmd c k i prio s = (case c_SetFilePriority c k i prio s of
     (Inl err, s1) \<Rightarrow> (said (errStatus err), s1)
   | (Inr _, s1) \<Rightarrow> loadDetail c k s1)"

definition previewCmd :: "work_host \<Rightarrow> 's caller \<Rightarrow> string \<Rightarrow> tid \<Rightarrow> FileInfo \<Rightarrow> 's \<Rightarrow> statusMsg \<times> 's" where
  "previewCmd W c playerCmd k f s = (case c_PreviewURL c k (int (file_Index f)) s of
     (Inl err, s1) \<Rightarrow> (errStatus err, s1)
   | (Inr url, s1) \<Rightarrow> (case Detached (wk_starts W) playerCmd url of
       Inl err \<Rightarrow> (errStatus err, s1)
     | Inr _ \<Rightarrow> (okStatus (''playing '' @ path_base (file_Path f)), s1)))"

subsection \<open>Adding and finding\<close>

definition addBatchCmd :: "nat \<Rightarrow> work_host \<Rightarrow> 's caller \<Rightarrow> string list \<Rightarrow> 's \<times> tempdir \<Rightarrow> (tui_msg \<times> 's \<times> tempdir) option" where
  "addBatchCmd fuel W c args st = map_option (\<lambda>(r, st1). (case r of
       Inl err \<Rightarrow> said (errStatus err)
     | Inr (sources, ids, failures) \<Rightarrow> (case failures of
         err # _ \<Rightarrow> said (errStatus (''added '' @ itoa (int (List.length ids)) @ '', '' @
           itoa (int (List.length failures)) @ '' failed: '' @ err))
       | [] \<Rightarrow> TorrentsAdded (''added '' @ itoa (int (List.length ids)) @ '' torrent(s)'') ids), st1))
     (expand_and_add fuel (wk_files W) c args \<lparr>opt_SavePath = [], opt_Paused = False, opt_Files = []\<rparr> st)"

definition findCmd :: "'s caller \<Rightarrow> string \<Rightarrow> int \<Rightarrow> 's \<Rightarrow> tui_msg \<times> 's" where
  "findCmd c query n s = (let (r, s1) = IpcClient.c_Search c query s in (FindResults n query r, s1))"

subsection \<open>Every command\<close>

text \<open>\<open>None\<close> is a command that does not return, \<open>Some (None, _)\<close> one the loop hears nothing of: the program ends,
  or the terminal is told about the mouse. \<open>ListenForEvents\<close> waits for the daemon and is not run here.\<close>

definition run_cmd :: "nat \<Rightarrow> work_host \<Rightarrow> 's caller \<Rightarrow> tcmd \<Rightarrow> 's \<times> tempdir \<Rightarrow> (tui_msg option \<times> 's \<times> tempdir) option" where
  "run_cmd fuel W c cm st = (let (s, dir) = st;
       status = (\<lambda>(m, s1). Some (Some (said m), s1, dir)); message = (\<lambda>(m, s1). Some (Some m, s1, dir)) in
     case cm of
       LoadDetail k \<Rightarrow> message (loadDetail c k s)
     | RemoveCmd ids del \<Rightarrow> status (removeCmd c ids del s)
     | PurgeCmd ids \<Rightarrow> status (purgeCmd c ids s)
     | PauseCmd targets \<Rightarrow> status (pauseCmd c targets s)
     | RecheckCmd ids \<Rightarrow> status (recheckCmd c ids s)
     | SetPausedCmd ids paused \<Rightarrow> status (setPausedCmd c ids paused s)
     | SetLabelCmd ids label \<Rightarrow> status (setLabelCmd c ids label s)
     | SetPriorityCmd k i prio \<Rightarrow> message (setPriorityCmd c k (int i) prio s)
     | PreviewCmd player k f \<Rightarrow> status (previewCmd W c player k f s)
     | OpenCmd opener d fallback \<Rightarrow> status (openCmd W opener d fallback, s)
     | FindCmd query n \<Rightarrow> message (findCmd c query n s)
     | AddBatchCmd args \<Rightarrow> map_option (\<lambda>(m, st1). (Some m, st1)) (addBatchCmd fuel W c args st)
     | LimitCmd up rate \<Rightarrow> map_option (\<lambda>(m, s1). (Some (said m), s1, dir)) (limitCmd c up rate s)
     | MoveCmd k newDir \<Rightarrow> status (moveCmd c k newDir s)
     | ThemeWatch after \<Rightarrow> message (ThemeCheck, s)
     | ExpireStatus n after \<Rightarrow> message (StatusExpired n, s)
     | Say m \<Rightarrow> status (m, s)
     | QuitCmd \<Rightarrow> Some (None, s, dir)
     | DisableMouse \<Rightarrow> Some (None, s, dir)
     | EnableMouseCellMotion \<Rightarrow> Some (None, s, dir)
     | ListenForEvents \<Rightarrow> Some (None, s, dir))"

subsection \<open>Lemmas\<close>

lemma addBatchCmd_finds_nothing: "addBatchCmd fuel W c args st \<noteq> Some (FindResults n q r, st1)"
  by (auto simp: addBatchCmd_def said_def split: sum.split list.split)

text \<open>Only a search is answered with results, and with those the daemon gave for its query.\<close>

lemma run_cmd_finds:
  "run_cmd fuel W c cm (s, dir) = Some (Some (FindResults n q r), st) \<Longrightarrow>
     cm = FindCmd q n \<and> r = fst (IpcClient.c_Search c q s)"
  by (cases cm)
    (auto simp: run_cmd_def Let_def said_def case_prod_beta findCmd_def loadDetail_def setPriorityCmd_def addBatchCmd_finds_nothing
      split: prod.splits sum.splits)

end
