(* ===== verification/TuiLoop.thy ===== *)
theory TuiLoop
  imports TuiFrames TuiCommands
begin

text \<open>
  The interface at work: the loop of the terminal library around \<open>Update\<close>, with the commands it started, the
  messages that wait for it and the daemon at the other end. A command runs beside the loop, and its
  message is delivered whenever the loop takes it; keys, clicks, the daemon's snapshots and other users of the
  daemon come in between.
\<close>

text \<open>\<open>lo_searched\<close> is history: the queries the daemon was asked and what it answered each.\<close>

record 's tui_loop =
  lo_model :: Model
  lo_cmds :: "tcmd list"
  lo_mail :: "tui_msg list"
  lo_daemon :: 's
  lo_dir :: tempdir
  lo_searched :: "(string \<times> (Result list \<times> string list) result) list"

definition loop_Init :: "Model \<Rightarrow> 's \<Rightarrow> tempdir \<Rightarrow> 's tui_loop" where
  "loop_Init m s dir = \<lparr>lo_model = m, lo_cmds = [ListenForEvents, ThemeWatch themeWatchInterval], lo_mail = [],
     lo_daemon = s, lo_dir = dir, lo_searched = []\<rparr>"

text \<open>What the terminal sends.\<close>

definition from_terminal :: "tui_msg \<Rightarrow> bool" where
  "from_terminal msg = (case msg of WindowSize _ _ \<Rightarrow> True | KeyPressed _ \<Rightarrow> True | MouseEvent _ \<Rightarrow> True | _ \<Rightarrow> False)"

definition from_daemon :: "tui_msg \<Rightarrow> bool" where
  "from_daemon msg = (case msg of EngineEvent _ \<Rightarrow> True | EngineClosed \<Rightarrow> True | _ \<Rightarrow> False)"

definition searched_by :: "tui_msg option \<Rightarrow> (string \<times> (Result list \<times> string list) result) list" where
  "searched_by msg = (case msg of Some (FindResults n q r) \<Rightarrow> [(q, r)] | _ \<Rightarrow> [])"

inductive loop_step :: "'s tui_loop \<Rightarrow> 's tui_loop \<Rightarrow> bool" where
  Terminal: "from_terminal msg \<Longrightarrow> loop_step s (s\<lparr>lo_mail := lo_mail s @ [msg]\<rparr>)"
| Heard: "lo_cmds s = xs @ ListenForEvents # ys \<Longrightarrow> from_daemon msg \<Longrightarrow>
    loop_step s (s\<lparr>lo_cmds := xs @ ys, lo_mail := lo_mail s @ [msg]\<rparr>)"
| Ran: "lo_cmds s = xs @ cm # ys \<Longrightarrow> cm \<noteq> ListenForEvents \<Longrightarrow>
    run_cmd fuel W call cm (lo_daemon s, lo_dir s) = Some (msg, d, dir) \<Longrightarrow>
    loop_step s (s\<lparr>lo_cmds := xs @ ys, lo_mail := lo_mail s @ (case msg of Some m \<Rightarrow> [m] | None \<Rightarrow> []),
      lo_daemon := d, lo_dir := dir, lo_searched := searched_by msg @ lo_searched s\<rparr>)"
| Delivered: "lo_mail s = xs @ msg # ys \<Longrightarrow> Update H msg (lo_model s) = Some (m, c) \<Longrightarrow>
    loop_step s (s\<lparr>lo_mail := xs @ ys, lo_model := m, lo_cmds := lo_cmds s @ c\<rparr>)"
| Elsewhere: "loop_step s (s\<lparr>lo_daemon := d\<rparr>)"

inductive in_loop :: "'s tui_loop \<Rightarrow> 's tui_loop \<Rightarrow> bool" for s0 where
  start: "in_loop s0 s0"
| step: "in_loop s0 s \<Longrightarrow> loop_step s s' \<Longrightarrow> in_loop s0 s'"

inductive_cases loop_stepE: "loop_step s s'"

subsection \<open>The invariant of the model, in the loop\<close>

lemma loop_step_ok: "loop_step s s' \<Longrightarrow> tui_ok (lo_model s) \<Longrightarrow> tui_ok (lo_model s')"
proof (induction rule: loop_step.induct)
  case (Delivered s xs msg ys H m c)
  then show ?case using Update_fine [of "lo_model s" H msg] by (simp add: fine_def)
qed simp_all

lemma in_loop_ok: "in_loop s0 s \<Longrightarrow> tui_ok (lo_model s0) \<Longrightarrow> tui_ok (lo_model s)"
  by (induction rule: in_loop.induct) (auto intro: loop_step_ok)

subsection \<open>Searches\<close>

definition answered_with :: "(Result list \<times> string list) result \<Rightarrow> Result list" where
  "answered_with r = (case r of Inr (rs, _) \<Rightarrow> rs | Inl _ \<Rightarrow> [])"

text \<open>What holds of the overlay: the searches begun carry numbers up to the counter, the one with the counter's
  number is the one the window is open for, and what it lists answers its query.\<close>

definition search_ok :: "(string \<times> int) set \<Rightarrow> (string \<times> (Result list \<times> string list) result) set \<Rightarrow> Model \<Rightarrow> bool" where
  "search_ok wanted answers m \<longleftrightarrow>
     (\<forall>(q, n)\<in>wanted. n \<le> u_findSeq m \<and> (n = u_findSeq m \<longrightarrow> u_findState m \<noteq> findClosed \<and> q = u_findQuery m)) \<and>
     (u_findState m = findLoaded \<longrightarrow> (\<exists>r. (u_findQuery m, r) \<in> answers \<and> u_findResults m = answered_with r))"

lemma search_ok_moves:
  assumes "search_ok wanted answers m" "find_moves m m' c"
  shows "search_ok (set (finds c) \<union> wanted) answers m'"
  using assms(2) unfolding find_moves_def
proof (elim disjE)
  assume "find_kept m m' c"
  then show ?thesis using assms(1) by (auto simp: search_ok_def find_kept_def)
next
  assume "find_closed m m' c"
  then show ?thesis using assms(1) by (fastforce simp: search_ok_def find_closed_def)
next
  assume "find_edited m m' c"
  then show ?thesis using assms(1) by (auto simp: search_ok_def find_edited_def)
next
  assume "find_started m m' c"
  then show ?thesis using assms(1) by (fastforce simp: search_ok_def find_started_def)
qed

lemma search_ok_answer:
  assumes "search_ok wanted answers m" "(q, n) \<in> wanted" "(q, r) \<in> answers"
  shows "search_ok wanted answers (applyFindResults n r m)"
  using assms by (fastforce simp: search_ok_def applyFindResults_def answered_with_def split: sum.split)

lemma search_ok_more: "search_ok wanted answers m \<Longrightarrow> answers \<subseteq> answers' \<Longrightarrow> search_ok wanted answers' m"
  by (auto simp: search_ok_def)

definition mail_ok :: "(string \<times> int) set \<Rightarrow> 's tui_loop \<Rightarrow> bool" where
  "mail_ok wanted s \<longleftrightarrow> set (finds (lo_cmds s)) \<subseteq> wanted \<and>
     (\<forall>n q r. FindResults n q r \<in> set (lo_mail s) \<longrightarrow> (q, n) \<in> wanted \<and> (q, r) \<in> set (lo_searched s))"

definition loop_search_ok :: "'s tui_loop \<Rightarrow> bool" where
  "loop_search_ok s \<longleftrightarrow> (\<exists>wanted. search_ok wanted (set (lo_searched s)) (lo_model s) \<and> mail_ok wanted s)"

lemma set_finds: "(q, n) \<in> set (finds c) \<longleftrightarrow> FindCmd q n \<in> set c"
  by (induction c) (auto simp: finds_def List.map_filter_def split: tcmd.splits)

lemma Update_find: "Update H (FindResults n q r) m = Some (applyFindResults n r m, [])"
  by (simp add: Update_def)

lemma loop_search_step:
  assumes "loop_step s s'" "search_ok wanted (set (lo_searched s)) (lo_model s)" "mail_ok wanted s"
  shows "loop_search_ok s'"
  using assms
proof (induction rule: loop_step.induct)
  case (Terminal msg s)
  then have "mail_ok wanted (s\<lparr>lo_mail := lo_mail s @ [msg]\<rparr>)"
    unfolding mail_ok_def by (cases msg) (simp_all add: from_terminal_def)
  then show ?case using Terminal(2) unfolding loop_search_ok_def by (intro exI [of _ wanted]) simp
next
  case (Heard s xs ys msg)
  then have "mail_ok wanted (s\<lparr>lo_cmds := xs @ ys, lo_mail := lo_mail s @ [msg]\<rparr>)"
    unfolding mail_ok_def by (cases msg) (simp_all add: from_daemon_def)
  then show ?case using Heard(3) unfolding loop_search_ok_def by (intro exI [of _ wanted]) simp
next
  case (Ran s xs cm ys fuel W call msg d dir)
  have "(q, n) \<in> wanted" if "msg = Some (FindResults n q r)" for n q r
    using run_cmd_finds [OF Ran(3) [unfolded that]] Ran(1,5) by (auto simp: set_finds mail_ok_def)
  then have "mail_ok wanted (s\<lparr>lo_cmds := xs @ ys, lo_mail := lo_mail s @ (case msg of Some m \<Rightarrow> [m] | None \<Rightarrow> []),
      lo_daemon := d, lo_dir := dir, lo_searched := searched_by msg @ lo_searched s\<rparr>)"
    using Ran(1,5) unfolding mail_ok_def by (cases msg) (auto simp: searched_by_def set_finds)
  moreover have "search_ok wanted (set (searched_by msg @ lo_searched s)) (lo_model s)"
    by (rule search_ok_more [OF Ran(4)]) simp
  ultimately show ?case unfolding loop_search_ok_def by (intro exI [of _ wanted]) simp
next
  case (Delivered s xs msg ys H m c)
  have "search_ok (set (finds c) \<union> wanted) (set (lo_searched s)) m"
  proof (cases "\<exists>n q r. msg = FindResults n q r")
    case True
    then obtain n q r where msg: "msg = FindResults n q r" by blast
    then have "(q, n) \<in> wanted" "(q, r) \<in> set (lo_searched s)" using Delivered(1,4) by (auto simp: mail_ok_def)
    then show ?thesis using search_ok_answer [OF Delivered(3)] Delivered(2) by (auto simp: msg Update_find)
  next
    case False
    then have "find_moves (lo_model s) m c" using Update_moves [of msg "lo_model s" H] Delivered(2) by simp
    then show ?thesis by (rule search_ok_moves [OF Delivered(3)])
  qed
  moreover have "mail_ok (set (finds c) \<union> wanted) (s\<lparr>lo_mail := xs @ ys, lo_model := m, lo_cmds := lo_cmds s @ c\<rparr>)"
    using Delivered(1,4) by (auto simp: mail_ok_def)
  ultimately show ?case unfolding loop_search_ok_def by (intro exI [of _ "set (finds c) \<union> wanted"]) simp
next
  case (Elsewhere s d)
  then show ?case unfolding loop_search_ok_def by (intro exI [of _ wanted]) (simp add: mail_ok_def)
qed

lemma loop_search: "in_loop s0 s \<Longrightarrow> loop_search_ok s0 \<Longrightarrow> loop_search_ok s"
proof (induction rule: in_loop.induct)
  case (step s s')
  then show ?case using loop_search_step by (metis loop_search_ok_def)
qed

lemma loop_search_start:
  "loop_search_ok (loop_Init (tui_New H keys dir player opener finder sources th) s tmp)"
proof -
  have "search_ok {} {} (tui_New H keys dir player opener finder sources th)"
    by (simp add: search_ok_def tui_New_def applyTheme_def Let_def)
  moreover have "mail_ok {} (loop_Init (tui_New H keys dir player opener finder sources th) s tmp)"
    by (simp add: mail_ok_def loop_Init_def)
  ultimately show ?thesis unfolding loop_search_ok_def by (intro exI [of _ "{}"]) (simp add: loop_Init_def)
qed

end
