(* ===== verification/TuiProps.thy ===== *)
theory TuiProps
  imports TuiLoop EngineInv Demo
begin

text \<open>
  The properties of the interface: no message crashes it, the sidebar shows one filter, a search is
  answered by its own results, a key that changes the view drops the marks, and the list is in order.
\<close>

subsection \<open>What a removal leaves\<close>

text \<open>
  What a removal of several torrents does at the other end: the engine is left with the torrents that were not
  named, and the message says how many of the names it had.
\<close>

definition has_torrents :: "engine \<Rightarrow> tid set" where
  "has_torrents e = fst ` set (e_torrents e)"

lemma key_set_map_entry: "fst ` set (AList.map_entry k f xs) = fst ` set xs"
  by (metis keys_map_entry set_map)

lemma has_upd_tr [simp]: "has_torrents (upd_tr k f e) = has_torrents e"
  by (simp add: has_torrents_def upd_tr_def key_set_map_entry)

lemma has_finish_check [simp]: "has_torrents (finish_check L mc k ck out n e) = has_torrents e"
  by (simp add: has_torrents_def e_torrents_finish_check key_set_map_entry)

lemma has_drain [simp]: "has_torrents (drain L mc k cks e) = has_torrents e"
  by (induction cks arbitrary: e) (simp_all add: runCheck_def case_prod_beta)

lemma has_quiesceCheck [simp]: "has_torrents (quiesceCheck L mc k e) = has_torrents e"
  by (simp add: quiesceCheck_def Let_def split: option.split)

lemma has_None: "map_of (e_torrents e) k = None \<longleftrightarrow> k \<notin> has_torrents e"
  by (simp add: has_torrents_def map_of_eq_None_iff)

lemma has_removeNow: "has_torrents (snd (removeNow L mc k del tr e)) = has_torrents e - {k}"
  by (auto simp: removeNow_def Let_def has_torrents_def dom_map_of_conv_image_fst [symmetric])

lemma has_RemoveTorrent:
  "has_torrents (snd (RemoveTorrent L mc k del e)) = has_torrents e - {k}"
  using has_None [of e k] has_None [of "quiesceCheck L mc k e" k]
  by (simp add: RemoveTorrent_def quiesced_def lookup_def Let_def has_removeNow split: option.split)

lemma RemoveTorrent_result:
  "case fst (RemoveTorrent L mc k del e) of Inl err \<Rightarrow> k \<notin> has_torrents e \<and> err \<noteq> [] | Inr _ \<Rightarrow> k \<in> has_torrents e"
  using has_None [of e k] has_None [of "quiesceCheck L mc k e" k]
  by (simp add: RemoveTorrent_def quiesced_def lookup_def Let_def removeNow_def split: option.split) auto

lemma remove_one:
  assumes "c_Remove (direct_call L mc E) k del d = (r, d1)"
  shows "has_torrents (d_engine d1) = has_torrents (d_engine d) - {k}" "isl r \<longleftrightarrow> k \<notin> has_torrents (d_engine d)"
proof -
  let ?out = "RemoveTorrent L mc k del (d_engine d)"
  have c: "(r, d1) = at_a_distance ''Remove'' d ?out" using assms remote_calls(1) by metis
  then show "has_torrents (d_engine d1) = has_torrents (d_engine d) - {k}"
    by (simp add: at_a_distance_def has_RemoveTorrent)
  show "isl r \<longleftrightarrow> k \<notin> has_torrents (d_engine d)"
    using c RemoveTorrent_result [where L = L and mc = mc and k = k and del = del and e = "d_engine d"]
    by (cases "fst ?out") (simp_all add: at_a_distance_def)
qed

text \<open>The names that count as failed are those the engine did not have, or not any more.\<close>

lemma remove_each:
  assumes "count_failed (\<lambda>k. c_Remove (direct_call L mc E) k del) ks d = (n, err, d')"
  shows "has_torrents (d_engine d') = has_torrents (d_engine d) - set ks
    \<and> n + card (set ks \<inter> has_torrents (d_engine d)) = length ks"
  using assms
proof (induction ks arbitrary: d n err d')
  case (Cons k ks)
  obtain r d1 where c: "c_Remove (direct_call L mc E) k del d = (r, d1)" by fastforce
  obtain n2 err2 d2 where rest: "count_failed (\<lambda>k. c_Remove (direct_call L mc E) k del) ks d1 = (n2, err2, d2)"
    by (metis prod_cases3)
  let ?A = "has_torrents (d_engine d)"
  note one = remove_one [OF c]
  have n: "n = (if k \<in> ?A then n2 else n2 + 1)" "d' = d2"
    using Cons.prems one(2) by (auto simp: c rest split: sum.splits)
  have IH: "has_torrents (d_engine d2) = ?A - {k} - set ks" "n2 + card (set ks \<inter> (?A - {k})) = length ks"
    using Cons.IH [OF rest] one(1) by auto
  have card: "card (set (k # ks) \<inter> ?A) = (if k \<in> ?A then 1 else 0) + card (set ks \<inter> (?A - {k}))"
  proof (cases "k \<in> ?A")
    case True
    then have "set (k # ks) \<inter> ?A = insert k (set ks \<inter> (?A - {k}))" by auto
    then show ?thesis using True by simp
  next
    case False
    then have "set (k # ks) \<inter> ?A = set ks \<inter> (?A - {k})" by auto
    then show ?thesis using False by simp
  qed
  have "n + card (set (k # ks) \<inter> ?A) = length (k # ks)" unfolding card using IH(2) n(1) by (simp del: Diff_insert_absorb split: if_splits)
  moreover have "has_torrents (d_engine d') = ?A - set (k # ks)" unfolding n(2) IH(1) by auto
  ultimately show ?case by blast
qed simp

text \<open>The command as the interface runs it. A name twice in the list cannot be removed twice.\<close>

lemma run_remove:
  assumes "distinct ks" "run_cmd fuel W (direct_call L mc E) (RemoveCmd ks del) (d, dir) = Some (msg, d', dir')"
  shows "has_torrents (d_engine d') = has_torrents (d_engine d) - set ks \<and>
    (\<exists>txt. msg = Some (StatusMsg txt (\<not> set ks \<subseteq> has_torrents (d_engine d))))"
proof -
  obtain n err d1 where c: "count_failed (\<lambda>k. c_Remove (direct_call L mc E) k del) ks d = (n, err, d1)"
    by (metis prod_cases3)
  have l: "length ks = card (set ks)" using assms(1) distinct_card by fastforce
  have f: "finite (set ks)" by simp
  have "0 < n \<longleftrightarrow> card (set ks \<inter> has_torrents (d_engine d)) < card (set ks)" using remove_each [OF c] l by linarith
  also have "\<dots> \<longleftrightarrow> \<not> set ks \<subseteq> has_torrents (d_engine d)"
  proof (cases "set ks \<subseteq> has_torrents (d_engine d)")
    case True
    then show ?thesis by (simp add: Int_absorb2)
  next
    case False
    then have "set ks \<inter> has_torrents (d_engine d) \<subset> set ks" by blast
    then show ?thesis using psubset_card_mono [OF f] False by blast
  qed
  finally have n: "0 < n \<longleftrightarrow> \<not> set ks \<subseteq> has_torrents (d_engine d)" .
  have "d' = d1 \<and> (\<exists>txt. msg = Some (StatusMsg txt (0 < n)))"
    using assms(2) by (auto simp: run_cmd_def removeCmd_def c said_def some_failed_def errStatus_def okStatus_def split: if_splits)
  then show ?thesis using remove_each [OF c] n by simp
qed

subsection \<open>The interface\<close>

text \<open>C27. Whatever messages arrive, keys, clicks, snapshots and late answers in any order, with whatever the
  host answers, the interface does not index out of range, and its cursor is on a torrent of the list,
  unless the list is empty.\<close>

theorem the_interface_never_panics:
  "case tui_run steps (tui_New H keys dir player opener finder sources th) of
     None \<Rightarrow> False
   | Some m \<Rightarrow> (case cursorTorrent m of
       None \<Rightarrow> visibleTorrents m = [] \<and> u_cursor m = 0 | Some t \<Rightarrow> t \<in> set (visibleTorrents m))"
proof -
  obtain m where m: "tui_run steps (tui_New H keys dir player opener finder sources th) = Some m" "tui_ok m"
    using tui_run_ok [OF tui_New_ok] by blast
  have "on_a_row (u_cursor m) (length (visibleTorrents m))" by (rule tui_okD(1) [OF m(2)])
  then show ?thesis
    using m(1) by (auto simp: cursorTorrent_def index_at_def on_a_row_def)
qed

lemma active_filter_rows:
  "filter (entryIsActive m) (map (\<lambda>(f, _). \<lparr>se_label = [], se_status = f, se_count = 0\<rparr>) filterNames)
     = (if u_labelFilter m = [] then [\<lparr>se_label = [], se_status = u_filter m, se_count = 0\<rparr>] else [])"
  by (cases "u_filter m") (simp_all add: filterNames_def entryIsActive_def isLabel_def)

lemma active_label_rows:
  assumes "distinct (map fst ls)" "\<forall>l\<in>set ls. fst l \<noteq> []"
  shows "length (filter (entryIsActive m) (map (\<lambda>(l, n). \<lparr>se_label = l, se_status = filterAll, se_count = n\<rparr>) ls))
     = (if u_labelFilter m \<in> set (map fst ls) then 1 else 0)"
  using assms by (induction ls) (auto simp: entryIsActive_def isLabel_def image_iff filter_map)

lemma first_index_found: "x \<in> set xs \<Longrightarrow> P x \<Longrightarrow> \<exists>i. first_index P xs = Some i"
  using first_index_None [of P xs] by (cases "first_index P xs") (auto simp: list_all_iff)

lemma current_is_active:
  assumes "e \<in> set (sidebarEntries m)" "entryIsActive m e"
  shows "entryIsActive m (sidebarEntries m ! nat (currentSidebarIndex m))"
proof -
  let ?P = "\<lambda>e. if u_labelFilter m \<noteq> [] then isLabel e \<and> se_label e = u_labelFilter m
            else \<not> isLabel e \<and> se_status e = u_filter m"
  have P: "?P e = entryIsActive m e" for e by (auto simp: entryIsActive_def isLabel_def)
  then obtain i where "first_index ?P (sidebarEntries m) = Some i" using first_index_found [OF assms(1), of ?P] assms(2) by blast
  then show ?thesis using first_index_Some [of ?P "sidebarEntries m" i] P by (simp add: currentSidebarIndex_def)
qed

text \<open>C28. The sidebar shows exactly one applied filter, always: one of its rows is active, and it is the one the
  interface takes for the current one when the filter is stepped on or back.\<close>

theorem one_filter_is_shown:
  "case tui_run steps (tui_New H keys dir player opener finder sources th) of
     None \<Rightarrow> False
   | Some m \<Rightarrow> length (filter (entryIsActive m) (sidebarEntries m)) = 1
       \<and> entryIsActive m (sidebarEntries m ! nat (currentSidebarIndex m))"
proof -
  obtain m where m: "tui_run steps (tui_New H keys dir player opener finder sources th) = Some m" "tui_ok m"
    using tui_run_ok [OF tui_New_ok] by blast
  have l: "label_on (u_torrents m) (u_filter m) (u_labelFilter m)" by (rule tui_okD(7) [OF m(2)])
  have "\<forall>l\<in>set (labelsInUse m). fst l \<noteq> []" by (simp add: labelsInUse_not_empty)
  from active_label_rows [OF labelsInUse_distinct this, of m]
  have "length (filter (entryIsActive m) (sidebarEntries m)) = 1"
    using l labelsInUse_labels [of m] active_filter_rows [of m] unfolding sidebarEntries_def filter_append length_append
    by (auto simp: label_on_def labels_of_def split: if_splits)
  moreover from this have "filter (entryIsActive m) (sidebarEntries m) \<noteq> []" by force
  then obtain e where "e \<in> set (sidebarEntries m)" "entryIsActive m e" by (auto simp: filter_empty_conv)
  ultimately show ?thesis using m(1) current_is_active by simp
qed

subsection \<open>Searches\<close>

text \<open>C29. What the search window lists is what the daemon answered to the query it names, however slow the
  daemon, however many searches are under way and windows closed meanwhile, and in whatever order answers,
  keys and snapshots reach the loop.\<close>

theorem a_search_shows_its_own_answer:
  assumes "in_loop (loop_Init (tui_New H keys dir player opener finder sources th) d tmp) s"
    and "u_findState (lo_model s) = findLoaded"
  shows "\<exists>r. (u_findQuery (lo_model s), r) \<in> set (lo_searched s) \<and> u_findResults (lo_model s) = answered_with r"
  using loop_search [OF assms(1) loop_search_start] assms(2) by (auto simp: loop_search_ok_def search_ok_def)

subsection \<open>Marks\<close>

text \<open>C31. A keystroke or a click that changes the filter, the label or the search, and with them what is
  shown, leaves no torrent marked.\<close>

theorem changing_the_view_clears_the_marks:
  assumes "msg = KeyPressed k \<or> msg = MouseEvent mo" and "Update H msg m = Some (m', c)"
    and "u_filter m' \<noteq> u_filter m \<or> u_labelFilter m' \<noteq> u_labelFilter m \<or> u_searchQuery m' \<noteq> u_searchQuery m"
  shows "u_selected m' = {}"
  using marks_handleKey [of m H k] marks_mouse(2) [of m H mo] assms by (auto simp: Update_def marks_follow_def)

text \<open>A mark is kept across snapshots also when its torrent no longer matches what is shown, and x or D then
  removes a torrent that is not on screen.\<close>

text \<open>A snapshot that moves a marked torrent out of view leaves it marked, and the next removal takes it,
  though the list does not show it.\<close>

theorem a_torrent_out_of_view_is_still_removed:
  assumes "Update H (EngineEvent ev) m = Some (m', c)" and "t \<in> set (ev_Torrents ev)" and "snap_ID t \<in> u_selected m"
    and "\<not> drawn m' t"
  shows "t \<notin> set (visibleTorrents m') \<and>
    (\<exists>ks. removeTargets (visibleTorrents m') deleteData m' = Some (m'\<lparr>u_selected := {}\<rparr>, [RemoveCmd ks deleteData])
       \<and> snap_ID t \<in> set ks)"
proof -
  let ?m1 = "dropVanishedLabelFilter (m\<lparr>u_torrents := ev_Torrents ev, u_global := ev_Global ev\<rparr>)"
  have "u_selected ?m1 = u_selected m" "u_torrents ?m1 = ev_Torrents ev" by (simp_all add: dropVanishedLabelFilter_def)
  then have "u_selected (fst (revealJustAdded ?m1)) = u_selected m" "u_torrents (fst (revealJustAdded ?m1)) = ev_Torrents ev"
    by (simp_all add: revealJustAdded_def Let_def)
  moreover have "m' = fst (syncDetail (clamped (fst (if snd (revealJustAdded ?m1) = [] then (fst (revealJustAdded ?m1), [])
      else setStatus (okStatus (u_status (fst (revealJustAdded ?m1)) @ '' - cleared '' @ joinClauses (snd (revealJustAdded ?m1)) @
        '' to show them'')) (fst (revealJustAdded ?m1))))))"
    using assms(1) by (simp add: Update_def on_event_def Let_def case_prod_beta)
  ultimately have s: "u_selected m' = u_selected m" "u_torrents m' = ev_Torrents ev"
    by (simp_all add: syncDetail_def clampCursor_def setStatus_def Let_def split: option.split)
  have "t \<in> set (filter (\<lambda>t. snap_ID t \<in> u_selected m) (ev_Torrents ev))" using assms(2,3) by simp
  moreover from this have "filter (\<lambda>t. snap_ID t \<in> u_selected m) (ev_Torrents ev) \<noteq> []" "u_selected m \<noteq> {}"
    using assms(3) by force+
  ultimately have "removeTargets (visibleTorrents m') deleteData m' = Some (m'\<lparr>u_selected := {}\<rparr>,
      [RemoveCmd (map snap_ID (filter (\<lambda>t. snap_ID t \<in> u_selected m) (ev_Torrents ev))) deleteData])"
    by (simp add: removeTargets_def on_targets_def tui_targets_def s)
  moreover have "t \<notin> set (visibleTorrents m')" using assms(4) by (simp add: set_visible)
  ultimately show ?thesis using assms(2,3) by auto
qed

text \<open>C30. With torrents marked, a removal takes from the engine exactly the marked torrents of the last snapshot,
  each once and no other, and says so: the message is an error if and only if one of them was gone already.\<close>

theorem a_removal_takes_exactly_the_marked:
  assumes "u_selected m \<noteq> {}" and "distinct (map snap_ID (u_torrents m))"
    and "removeTargets visible del m = Some (m', [cm])"
    and "run_cmd fuel W (direct_call L mc E) cm (d, dir) = Some (msg, d', dir')"
  shows "let marked = {k \<in> u_selected m. \<exists>t\<in>set (u_torrents m). snap_ID t = k} in
    has_torrents (d_engine d') = has_torrents (d_engine d) - marked \<and>
    (\<exists>txt. msg = Some (StatusMsg txt (\<not> marked \<subseteq> has_torrents (d_engine d))))"
proof -
  let ?ts = "filter (\<lambda>t. snap_ID t \<in> u_selected m) (u_torrents m)"
  have cm: "cm = RemoveCmd (map snap_ID ?ts) del"
    using assms(1,3) by (auto simp: removeTargets_def on_targets_def tui_targets_def split: if_splits)
  have "set (map snap_ID ?ts) = {k \<in> u_selected m. \<exists>t\<in>set (u_torrents m). snap_ID t = k}" by auto
  then show ?thesis
    using run_remove [OF _ assms(4) [unfolded cm]] distinct_map_filter [OF assms(2)] unfolding Let_def by simp
qed

subsection \<open>The order of the list\<close>

text \<open>Numbers that can be compared, and one torrent coming before another or level with it.\<close>

definition numbers_ok :: "TorrentSnapshot \<Rightarrow> bool" where
  "numbers_ok t \<longleftrightarrow> snap_Progress t \<noteq> NaN \<and> snap_Ratio t \<noteq> NaN \<and> snap_DownloadBPS t \<noteq> NaN \<and> snap_UploadBPS t \<noteq> NaN"

definition in_order :: "sortMode \<Rightarrow> bool \<Rightarrow> TorrentSnapshot \<Rightarrow> TorrentSnapshot \<Rightarrow> bool" where
  "in_order by desc s t = (if desc then \<not> column_less by s t else \<not> column_less by t s)"

lemma f64_lt_weak:
  "x \<noteq> NaN \<Longrightarrow> y \<noteq> NaN \<Longrightarrow> z \<noteq> NaN \<Longrightarrow> \<not> f64_lt x y \<Longrightarrow> \<not> f64_lt y z \<Longrightarrow> \<not> f64_lt x z"
  by (cases x; cases y; cases z) auto

lemma f64_lt_asym: "f64_lt x y \<Longrightarrow> \<not> f64_lt y x"
  by (cases x; cases y) auto

lemma name_less_weak: "\<not> name_less a b \<Longrightarrow> \<not> name_less b c \<Longrightarrow> \<not> name_less a c"
  using str_less_linear [of "to_lower a" "to_lower b"] str_less_trans [of "to_lower b" "to_lower a" "to_lower c"]
  unfolding name_less_def by auto

lemma column_less_weak:
  "numbers_ok r \<Longrightarrow> numbers_ok s \<Longrightarrow> numbers_ok t \<Longrightarrow> \<not> column_less by r s \<Longrightarrow> \<not> column_less by s t \<Longrightarrow> \<not> column_less by r t"
  using name_less_weak [of "snap_Name r" "snap_Name s" "snap_Name t"]
    f64_lt_weak [of "snap_Progress r" "snap_Progress s" "snap_Progress t"]
    f64_lt_weak [of "snap_Ratio r" "snap_Ratio s" "snap_Ratio t"]
    f64_lt_weak [of "snap_DownloadBPS r" "snap_DownloadBPS s" "snap_DownloadBPS t"]
    f64_lt_weak [of "snap_UploadBPS r" "snap_UploadBPS s" "snap_UploadBPS t"]
  by (cases "by") (simp_all add: numbers_ok_def)

lemma column_less_asym: "column_less by s t \<Longrightarrow> \<not> column_less by t s"
  by (cases "by") (simp_all add: name_less_def f64_lt_asym str_less_asym)

interpretation column: sorts_by numbers_ok "row_less by desc" "in_order by desc" for "by" desc
proof unfold_locales
  fix x y z
  show "row_less by desc x y \<Longrightarrow> in_order by desc x y" "\<not> row_less by desc x y \<Longrightarrow> in_order by desc y x"
    using column_less_asym [of "by" x y] column_less_asym [of "by" y x]
    by (simp_all add: row_less_def in_order_def Let_def split: if_splits)
  show "numbers_ok x \<Longrightarrow> numbers_ok y \<Longrightarrow> numbers_ok z \<Longrightarrow> in_order by desc x y \<Longrightarrow> in_order by desc y z \<Longrightarrow> in_order by desc x z"
    using column_less_weak [of x y z "by"] column_less_weak [of z y x "by"]
    by (simp add: in_order_def split: if_splits)
qed

text \<open>The list is the torrents that match, each as often as the daemon reported it, in the order of the column
  chosen, or in the reverse of it.\<close>

theorem the_list_is_in_order:
  assumes "list_all numbers_ok (u_torrents m)"
  shows "mset (visibleTorrents m) = mset (filter (drawn m) (u_torrents m))
    \<and> sorted_wrt (in_order (u_sortBy m) (u_sortDesc m)) (visibleTorrents m)"
  using assms by (auto simp: visibleTorrents_def list_all_iff intro: column.sorted_slice)

text \<open>Two torrents level in the column are listed in an order that depends on the one the daemon reported
  them in, which is that of a Go map; two that are not are listed the same way however they came.\<close>

theorem level_rows_follow_the_daemon:
  assumes "drawn m s" and "drawn m t" and "s \<noteq> t"
  shows "visibleTorrents (m\<lparr>u_torrents := [s, t]\<rparr>) = visibleTorrents (m\<lparr>u_torrents := [t, s]\<rparr>) \<longleftrightarrow>
    column_less (u_sortBy m) s t \<or> column_less (u_sortBy m) t s"
proof -
  have "drawn (m\<lparr>u_torrents := ts\<rparr>) = drawn m" for ts by (intro ext) (simp add: drawn_def search_text_def)
  then show ?thesis
    using assms column_less_asym [of "u_sortBy m" s t]
    by (auto simp: visibleTorrents_def slice_stable_def row_less_def Let_def)
qed

subsection \<open>Witnesses\<close>

definition demo_tui_host :: tui_host where
  "demo_tui_host = \<lparr>v_width = (\<lambda>s. int (length s)), v_render = (\<lambda>_ _ s. s), v_now = 0,
     v_themes = \<lparr>tf_readDir = (\<lambda>_. None), tf_exists = (\<lambda>_. False), tf_read = (\<lambda>_. None), tf_decode = (\<lambda>_. Inl [])\<rparr>,
     v_stamp = (\<lambda>_. None), v_environ = \<lparr>ev_ConfigHome = [], ev_DataHome = [], ev_Home = ''/h'', ev_Darwin = False\<rparr>,
     v_readDir = (\<lambda>_. None), v_isDir = (\<lambda>_. False)\<rparr>"

definition demo_tui :: Model where
  "demo_tui = tui_New demo_tui_host DefaultKeyMap [] [] [] True [''jackett''] (theme_of [] [])"

definition demo_snap :: "string \<Rightarrow> state \<Rightarrow> TorrentSnapshot" where
  "demo_snap k st = zero_snapshot\<lparr>snap_ID := k, snap_Name := k, snap_State := st\<rparr>"

definition demo_key :: "keyType \<Rightarrow> string \<Rightarrow> tui_msg" where
  "demo_key ty s = KeyPressed \<lparr>key_Type = ty, key_Runes = s, key_String = s\<rparr>"

lemmas demo_tui_simps = demo_tui_def tui_New_def applyTheme_def demo_key_def Update_def handleKey_def DefaultKeyMap_def
  Let_def handleListKey_def openFind_def canFind_def handleFindPromptKey_def startFind_def
  applyFindResults_def

lemma trim_u: "trim_space ''u'' = ''u''"
  by (rule trim_space_ascii) (simp_all add: is_space_def)

text \<open>A search for \<open>u\<close>, typed, run and answered by a daemon that has no indexer to ask.\<close>

lemma loop_key:
  assumes "in_loop s0 s" "lo_mail s = []" "Update demo_tui_host (demo_key ty k) (lo_model s) = Some (m, c)"
  shows "in_loop s0 (s\<lparr>lo_model := m, lo_cmds := lo_cmds s @ c\<rparr>)"
proof -
  let ?s = "s\<lparr>lo_mail := lo_mail s @ [demo_key ty k]\<rparr>"
  have "in_loop s0 ?s" by (rule in_loop.step [OF assms(1) loop_step.Terminal]) (simp add: from_terminal_def demo_key_def)
  moreover have "loop_step ?s (?s\<lparr>lo_mail := [] @ [], lo_model := m, lo_cmds := lo_cmds ?s @ c\<rparr>)"
    by (rule loop_step.Delivered) (use assms in simp_all)
  ultimately have "in_loop s0 (?s\<lparr>lo_mail := [] @ [], lo_model := m, lo_cmds := lo_cmds ?s @ c\<rparr>)" by (rule in_loop.step)
  then show ?thesis using assms(2) by (cases s) simp
qed

definition demo_call :: "unit caller" where
  "demo_call rq t s = (Inr (accepted rq), s)"

theorem a_search_shows_its_own_answer_witness:
  "\<exists>s :: unit tui_loop. in_loop (loop_Init demo_tui () []) s \<and> u_findState (lo_model s) = findLoaded \<and>
     (\<exists>r. (u_findQuery (lo_model s), r) \<in> set (lo_searched s) \<and> u_findResults (lo_model s) = answered_with r)"
proof -
  let ?s0 = "loop_Init demo_tui () [] :: unit tui_loop"
  let ?W = "\<lparr>wk_files = undefined, wk_starts = undefined\<rparr>"
  obtain m1 c1 where 1: "Update demo_tui_host (demo_key KeyRunes ''f'') demo_tui = Some (m1, c1)" "u_mode m1 = modeFind"
    "c1 = []" "canFind m1" "u_findQuery m1 = []" "\<not> u_showHelp m1" "\<not> u_themePicker m1" "u_findState m1 = findClosed" "u_findSeq m1 = 0"
    by (simp add: demo_tui_simps)
  obtain m2 where 2: "Update demo_tui_host (demo_key KeyRunes ''u'') m1 = Some (m2, [])" "u_mode m2 = modeFind"
    "canFind m2" "u_findQuery m2 = ''u''" "\<not> u_showHelp m2" "\<not> u_themePicker m2" "u_findState m2 = findClosed" "u_findSeq m2 = 0"
    using 1(2-) by (simp add: Update_def demo_key_def handleKey_def handleFindPromptKey_def canFind_def Let_def)
  obtain m3 where 3: "Update demo_tui_host (demo_key KeyEnter ''enter'') m2 = Some (m3, [FindCmd ''u'' 1])" "u_findSeq m3 = 1"
    using 2(2-) by (simp add: Update_def demo_key_def handleKey_def handleFindPromptKey_def startFind_def trim_u Let_def)
  define s where "s = ?s0\<lparr>lo_model := m3, lo_cmds := lo_cmds ?s0 @ [FindCmd ''u'' 1]\<rparr>"
  have 4: "in_loop ?s0 (?s0\<lparr>lo_model := m1, lo_cmds := lo_cmds ?s0 @ c1\<rparr>)"
    by (rule loop_key [OF in_loop.start]) (use 1 in \<open>simp_all add: loop_Init_def\<close>)
  have 5: "in_loop ?s0 ((?s0\<lparr>lo_model := m1, lo_cmds := lo_cmds ?s0 @ c1\<rparr>)\<lparr>lo_model := m2, lo_cmds := (lo_cmds ?s0 @ c1) @ []\<rparr>)"
    using loop_key [OF 4, of KeyRunes "''u''" m2 "[]"] 2(1) by (simp add: loop_Init_def)
  have "in_loop ?s0 s"
    using loop_key [OF 5, of KeyEnter "''enter''" m3 "[FindCmd ''u'' 1]"] 3(1) 1(3) by (simp add: loop_Init_def s_def)
  moreover have "loop_step s (s\<lparr>lo_cmds := [ListenForEvents, ThemeWatch themeWatchInterval] @ [],
      lo_mail := lo_mail s @ [FindResults 1 ''u'' (Inr ([], []))], lo_daemon := (), lo_dir := [], lo_searched := [(''u'', Inr ([], []))] @ []\<rparr>)"
    using loop_step.Ran [of s "[ListenForEvents, ThemeWatch themeWatchInterval]" "FindCmd ''u'' 1" "[]" 0 ?W demo_call
        "Some (FindResults 1 ''u'' (Inr ([], [])))" "()" "[]"]
    by (simp add: s_def loop_Init_def run_cmd_def findCmd_def IpcClient.c_Search_def reading_def demo_call_def accepted_def
        response_to_def searched_by_def Let_def)
  ultimately have 6: "in_loop ?s0 (s\<lparr>lo_cmds := [ListenForEvents, ThemeWatch themeWatchInterval] @ [],
      lo_mail := lo_mail s @ [FindResults 1 ''u'' (Inr ([], []))], lo_daemon := (), lo_dir := [], lo_searched := [(''u'', Inr ([], []))] @ []\<rparr>)"
    (is "in_loop _ ?t") by (rule in_loop.step)
  let ?m = "applyFindResults 1 (Inr ([], [])) m3"
  have "loop_step ?t (?t\<lparr>lo_mail := [] @ [], lo_model := ?m, lo_cmds := lo_cmds ?t @ []\<rparr>)"
    by (rule loop_step.Delivered [where H = demo_tui_host]) (simp add: s_def loop_Init_def, simp add: s_def, rule Update_find)
  then have 7: "in_loop ?s0 (?t\<lparr>lo_mail := [] @ [], lo_model := ?m, lo_cmds := lo_cmds ?t @ []\<rparr>)" by (rule in_loop.step [OF 6])
  have l: "u_findState ?m = findLoaded" using 3(2) by (simp add: applyFindResults_def)
  show ?thesis
    by (rule exI, intro conjI, rule 7, simp add: l,
        rule a_search_shows_its_own_answer [OF 7 [unfolded demo_tui_def]]) (simp add: l)
qed

definition demo_marked :: Model where
  "demo_marked = demo_tui\<lparr>u_torrents := [demo_snap ''a'' StateDownloading], u_selected := {''a''}, u_filter := filterDownloading\<rparr>"

lemmas demo_list_simps = visibleTorrents_def slice_stable_def drawn_def search_text_def cursorTorrent_def syncDetail_def
  clampCursor_def clamp_cursor_def index_at_def demo_snap_def zero_snapshot_def sidebarEntries_def labelsInUse_def
  label_counts_def filterNames_def currentSidebarIndex_def isLabel_def entryIsActive_def selectSidebar_def applyEntry_def
  go_mod_def go_div_def synced_def

theorem changing_the_view_clears_the_marks_witness:
  "\<exists>m c. Update demo_tui_host (demo_key KeyRunes ''}'') demo_marked = Some (m, c) \<and> u_filter m = filterSeeding \<and> u_selected m = {}"
proof -
  obtain m c where m: "Update demo_tui_host (demo_key KeyRunes ''}'') demo_marked = Some (m, c)" "u_filter m = filterSeeding"
    by (simp add: demo_marked_def demo_tui_simps demo_list_simps)
  moreover have "u_filter demo_marked = filterDownloading" by (simp add: demo_marked_def)
  ultimately show ?thesis
    using changing_the_view_clears_the_marks [of _ _ undefined demo_tui_host demo_marked m c] by (auto simp: demo_key_def)
qed

definition demo_event :: Event where
  "demo_event = \<lparr>ev_Torrents = [demo_snap ''a'' StateSeeding], ev_Global = zero_global, ev_At = 0\<rparr>"

theorem a_torrent_out_of_view_is_still_removed_witness:
  "\<exists>m c ks. Update demo_tui_host (EngineEvent demo_event) demo_marked = Some (m, c) \<and> visibleTorrents m = [] \<and>
     removeTargets (visibleTorrents m) True m = Some (m\<lparr>u_selected := {}\<rparr>, [RemoveCmd ks True]) \<and> ''a'' \<in> set ks"
proof -
  let ?t = "demo_snap ''a'' StateSeeding"
  obtain m c where m: "Update demo_tui_host (EngineEvent demo_event) demo_marked = Some (m, c)" "\<not> drawn m ?t"
      "visibleTorrents m = []"
    by (simp add: demo_marked_def demo_tui_simps demo_list_simps demo_event_def on_event_def dropVanishedLabelFilter_def
        revealJustAdded_def)
  have "?t \<in> set (ev_Torrents demo_event)" "snap_ID ?t \<in> u_selected demo_marked" "snap_ID ?t = ''a''"
    by (simp_all add: demo_event_def demo_marked_def demo_snap_def)
  from a_torrent_out_of_view_is_still_removed [OF m(1) this(1,2) m(2), of True] m this(3) show ?thesis by auto
qed

theorem a_removal_takes_exactly_the_marked_witness:
  "\<exists>m' msg (d' :: daemon). removeTargets [] True demo_marked = Some (m', [RemoveCmd [''a''] True]) \<and>
     run_cmd 0 \<lparr>wk_files = undefined, wk_starts = undefined\<rparr> (direct_call demo_lib (demo_machine True) (\<lambda>_. undefined))
       (RemoveCmd [''a''] True) (\<lparr>d_engine = demo_engine True, d_searcher = NoSearcher, d_previewURL = None\<rparr>, []) =
       Some (msg, d', []) \<and>
     (\<exists>txt. msg = Some (StatusMsg txt (''a'' \<notin> has_torrents (demo_engine True))))"
proof -
  let ?W = "\<lparr>wk_files = undefined, wk_starts = undefined\<rparr> :: work_host"
  let ?c = "direct_call demo_lib (demo_machine True) (\<lambda>_. undefined)"
  let ?d = "\<lparr>d_engine = demo_engine True, d_searcher = NoSearcher, d_previewURL = None\<rparr> :: daemon"
  have m: "u_selected demo_marked = {''a''}" "map snap_ID (u_torrents demo_marked) = [''a'']"
    by (simp_all add: demo_marked_def demo_snap_def)
  then have r: "removeTargets [] True demo_marked = Some (demo_marked\<lparr>u_selected := {}\<rparr>, [RemoveCmd [''a''] True])"
    by (simp add: removeTargets_def on_targets_def tui_targets_def demo_marked_def demo_snap_def)
  obtain msg d' where run: "run_cmd 0 ?W ?c (RemoveCmd [''a''] True) (?d, []) = Some (msg, d', [])"
    by (simp add: run_cmd_def Let_def case_prod_beta)
  have "{k \<in> u_selected demo_marked. \<exists>t\<in>set (u_torrents demo_marked). snap_ID t = k} = {''a''}"
    by (auto simp: demo_marked_def demo_snap_def)
  with a_removal_takes_exactly_the_marked [OF _ _ r run] m have "\<exists>txt. msg = Some (StatusMsg txt (''a'' \<notin> has_torrents (demo_engine True)))"
    by (simp add: Let_def)
  then show ?thesis using r run by blast
qed

theorem the_list_is_in_order_witness:
  "mset (visibleTorrents demo_marked) = mset (filter (drawn demo_marked) (u_torrents demo_marked)) \<and>
     sorted_wrt (in_order sortName False) (visibleTorrents demo_marked)"
  using the_list_is_in_order [of demo_marked]
  by (simp add: demo_marked_def numbers_ok_def demo_snap_def zero_snapshot_def demo_tui_def tui_New_def applyTheme_def Let_def)

theorem level_rows_follow_the_daemon_witness:
  "let m = demo_tui\<lparr>u_sortBy := sortSize\<rparr>; s = demo_snap ''a'' StateSeeding; t = demo_snap ''b'' StateSeeding in
     visibleTorrents (m\<lparr>u_torrents := [s, t]\<rparr>) \<noteq> visibleTorrents (m\<lparr>u_torrents := [t, s]\<rparr>)"
proof -
  define m where "m = demo_tui\<lparr>u_sortBy := sortSize\<rparr>"
  have "drawn m (demo_snap k StateSeeding)" for k
    by (simp add: m_def drawn_def search_text_def to_lower_def demo_tui_def tui_New_def applyTheme_def Let_def)
  from level_rows_follow_the_daemon [OF this this, of "''a''" "''b''"] show ?thesis
    by (simp add: m_def demo_snap_def zero_snapshot_def)
qed

end
