(* ===== verification/Commands.thy ===== *)
theory Commands
  imports TuiCommands
begin

text \<open>
  The subcommands of \<^verbatim>\<open>cmd/torrnado\<close> that ask something of the daemon: \<^verbatim>\<open>ops.go\<close>, \<^verbatim>\<open>add.go\<close>,
  \<^verbatim>\<open>labelcmd.go\<close>, \<^verbatim>\<open>seedlimitcmd.go\<close>, \<^verbatim>\<open>find.go\<close> and \<^verbatim>\<open>stopcmd.go\<close>. A subcommand looks at its arguments,
  then gets hold of a daemon, then works: an argument it refuses is an error before anything is started.
  What it prints is a list of lines, cells set apart by tabs where the source uses a tab writer.
\<close>

type_synonym 's subcommand = "('s \<Rightarrow> 's work) result"

definition withClient :: "fileConfig result \<Rightarrow> (fileConfig \<Rightarrow> (unit result \<times> bool) option) \<Rightarrow> 's subcommand \<Rightarrow> 's \<Rightarrow> 's work option" where
  "withClient loaded dials cm s = (case cm of
     Inl err \<Rightarrow> Some (Inl err, [], s)
   | Inr fn \<Rightarrow> (case loaded of
       Inl err \<Rightarrow> Some (Inl err, [], s)
     | Inr cfg \<Rightarrow> (case dials cfg of
         None \<Rightarrow> None
       | Some (Inl err, _) \<Rightarrow> Some (Inl err, [], s)
       | Some (Inr _, _) \<Rightarrow> Some (fn s))))"

definition silent :: "unit result \<times> 's \<Rightarrow> 's work" where
  "silent p = (fst p, [], snd p)"

subsection \<open>Each of several torrents\<close>

definition newRemoveCmd :: "'s caller \<Rightarrow> bool \<Rightarrow> tid list \<Rightarrow> 's subcommand" where
  "newRemoveCmd c deleteData args = Inr (eachTorrent (\<lambda>k. c_Remove c k deleteData) args)"

definition newPurgeCmd :: "'s caller \<Rightarrow> tid list \<Rightarrow> 's subcommand" where
  "newPurgeCmd c args = Inr (eachTorrent (c_PurgeData c) args)"

definition open_one :: "work_host \<Rightarrow> string \<Rightarrow> 's caller \<Rightarrow> tid \<Rightarrow> 's \<Rightarrow> unit result \<times> 's" where
  "open_one W opener c k s = (case c_Detail c k s of
     (Inl err, s1) \<Rightarrow> (Inl err, s1)
   | (Inr d, s1) \<Rightarrow> let sn = detail_Snapshot d;
         dir = (if snap_DataDir sn = [] then snap_SavePath sn else snap_DataDir sn);
         dir1 = (if bv_stat (wk_files W) dir = None \<and> snap_SavePath sn \<noteq> [] then snap_SavePath sn else dir)
       in (case Detached (wk_starts W) opener dir1 of Inl err \<Rightarrow> Inl err | Inr _ \<Rightarrow> Inr (), s1))"

definition newOpenCmd :: "work_host \<Rightarrow> fileConfig result \<Rightarrow> 's caller \<Rightarrow> tid list \<Rightarrow> 's subcommand" where
  "newOpenCmd W loaded c args = (case loaded of
     Inl err \<Rightarrow> Inl err | Inr cfg \<Rightarrow> Inr (eachTorrent (open_one W (c_Opener cfg) c) args))"

definition newPauseCmd :: "'s caller \<Rightarrow> tid list \<Rightarrow> 's subcommand" where
  "newPauseCmd c args = Inr (eachTorrent (\<lambda>k. c_SetPaused c k True) args)"

definition newResumeCmd :: "'s caller \<Rightarrow> tid list \<Rightarrow> 's subcommand" where
  "newResumeCmd c args = Inr (eachTorrent (\<lambda>k. c_SetPaused c k False) args)"

definition newRecheckCmd :: "'s caller \<Rightarrow> tid list \<Rightarrow> 's subcommand" where
  "newRecheckCmd c args = Inr (eachTorrent (c_ForceRecheck c) args)"

definition newLabelCmd :: "'s caller \<Rightarrow> bool \<Rightarrow> string list \<Rightarrow> 's subcommand" where
  "newLabelCmd c clear args = (case args of
     [] \<Rightarrow> Inl ''requires at least 1 arg(s), only received 0''
   | a # rest \<Rightarrow>
       if clear then Inr (eachTorrent (\<lambda>k. c_SetLabel c k []) args)
       else if rest = [] then Inl ''requires at least 2 arg(s), only received 1''
       else Inr (eachTorrent (\<lambda>k. c_SetLabel c k a) rest))"

text \<open>The limits are set until one is refused.\<close>

fun set_seed_limits :: "'s caller \<Rightarrow> f64 \<Rightarrow> duration \<Rightarrow> tid list \<Rightarrow> 's \<Rightarrow> 's work" where
  "set_seed_limits c ratio seedTime [] s = (Inr (), [], s)"
| "set_seed_limits c ratio seedTime (k # ks) s = (case c_SetSeedLimit c k ratio seedTime s of
     (Inl err, s1) \<Rightarrow> (Inl err, [], s1)
   | (Inr _, s1) \<Rightarrow> (let (r, out, s2) = set_seed_limits c ratio seedTime ks s1
       in (r, (''seed limit set: '' @ k) # out, s2)))"

definition newSeedLimitCmd :: "'s caller \<Rightarrow> string \<Rightarrow> string \<Rightarrow> tid list \<Rightarrow> 's subcommand" where
  "newSeedLimitCmd c ratioFlag timeFlag args =
     (if ratioFlag = [] \<and> timeFlag = [] then Inl ''give --ratio, --time, or both''
      else case parseSeedRatio ratioFlag of
        Inl err \<Rightarrow> Inl err
      | Inr ratio \<Rightarrow> (case parseSeedTime timeFlag of
          Inl err \<Rightarrow> Inl err | Inr seedTime \<Rightarrow> Inr (set_seed_limits c ratio seedTime args)))"

subsection \<open>One torrent\<close>

text \<open>What \<^verbatim>\<open>strconv.Atoi\<close> says of a text it refuses: the first thing wrong, from the left, in 64 bits.\<close>

fun uint_fault :: "nat \<Rightarrow> string \<Rightarrow> bool" where
  "uint_fault n [] \<longleftrightarrow> True"
| "uint_fault n (ch # cs) \<longleftrightarrow> is_digit ch \<and>
     (let m = 10 * n + (of_char ch - 48) in 2 ^ 64 \<le> m \<or> uint_fault m cs)"

definition atoi_error :: "string \<Rightarrow> string" where
  "atoi_error s = (let ds = (if has_prefix s ''-'' \<or> has_prefix s ''+'' then tl s else s)
     in ''strconv.Atoi: parsing '' @ quoted s @ '': '' @
       (if ds \<noteq> [] \<and> uint_fault 0 ds then ''value out of range'' else ''invalid syntax''))"

definition newPriorityCmd :: "'s caller \<Rightarrow> tid \<Rightarrow> string \<Rightarrow> string \<Rightarrow> 's subcommand" where
  "newPriorityCmd c k i p = (case atoi i of
     None \<Rightarrow> Inl (''file-index must be a number: '' @ atoi_error i)
   | Some idx \<Rightarrow> (case ParsePriority p of
       None \<Rightarrow> Inl (''unknown priority '' @ quoted p @ '' (want: none, low, normal, high, now)'')
     | Some prio \<Rightarrow> Inr (\<lambda>s. silent (c_SetFilePriority c k idx prio s))))"

definition newLimitCmd :: "'s caller \<Rightarrow> string \<Rightarrow> string \<Rightarrow> string \<Rightarrow> 's subcommand" where
  "newLimitCmd c torrentID a rate = (let direction = to_lower a in
     if direction \<noteq> ''up'' \<and> direction \<noteq> ''down'' then Inl (''direction must be \"up\" or \"down\", got '' @ quoted a)
     else case ParseRate rate of
       Inl err \<Rightarrow> Inl err
     | Inr bps \<Rightarrow> Inr (\<lambda>s. silent
         (if torrentID \<noteq> [] then
            c_SetTorrentRateLimit c torrentID (if direction = ''up'' then bps else - 1) (if direction = ''up'' then - 1 else bps) s
          else if direction = ''up'' then c_SetGlobalUploadLimit c bps s
          else c_SetGlobalDownloadLimit c bps s)))"

definition newMoveCmd :: "'s caller \<Rightarrow> tid \<Rightarrow> string \<Rightarrow> 's subcommand" where
  "newMoveCmd c k dir = Inr (\<lambda>s. silent (c_MoveStorage c k dir s))"

definition newPreviewCmd :: "work_host \<Rightarrow> fileConfig result \<Rightarrow> 's caller \<Rightarrow> bool \<Rightarrow> tid \<Rightarrow> string \<Rightarrow> 's subcommand" where
  "newPreviewCmd W loaded c play k i = (case atoi i of
     None \<Rightarrow> Inl (''file-index must be a number: '' @ atoi_error i)
   | Some idx \<Rightarrow> (case loaded of
       Inl err \<Rightarrow> Inl err
     | Inr cfg \<Rightarrow> Inr (\<lambda>s. case c_PreviewURL c k idx s of
         (Inl err, s1) \<Rightarrow> (Inl err, [], s1)
       | (Inr url, s1) \<Rightarrow>
           if play then (case Detached (wk_starts W) (c_Player cfg) url of Inl err \<Rightarrow> Inl err | Inr _ \<Rightarrow> Inr (), [], s1)
           else (Inr (), [url], s1))))"

subsection \<open>Adding\<close>

definition newAddCmd :: "nat \<Rightarrow> work_host \<Rightarrow> 's caller \<Rightarrow> AddOpts \<Rightarrow> string list \<Rightarrow> 's \<times> tempdir \<Rightarrow> ('s \<times> tempdir) work option" where
  "newAddCmd fuel W c opts args st = map_option (\<lambda>(r, st1). (case r of
       Inl err \<Rightarrow> (Inl err, [], st1)
     | Inr (sources, ids, failures) \<Rightarrow>
         (if failures \<noteq> [] then Inl (itoa (int (List.length failures)) @ '' of '' @ itoa (int (List.length sources)) @ '' sources failed'')
          else Inr (),
          map (\<lambda>k. ''added: '' @ k) ids @ map (\<lambda>f. ''failed '' @ f) failures, st1)))
     (expand_and_add fuel (wk_files W) c args opts st)"

subsection \<open>Finding\<close>

definition capResults :: "Result list \<Rightarrow> int \<Rightarrow> Result list" where
  "capResults results limit = (if 0 < limit \<and> limit < int (List.length results) then take (nat limit) results else results)"

definition writeFindSources :: "string list \<Rightarrow> string" where
  "writeFindSources sources = (if sources = [] then
       ''no indexer configured: set search.jackett.url and search.jackett.api_key (or search.prowlarr.*) in config.toml''
     else ''searching: '' @ str_join sources '', '')"

definition tab :: string where "tab = [CHR 0x09]"

definition find_row :: "nat \<Rightarrow> Result \<Rightarrow> string option" where
  "find_row i r = map_option (\<lambda>size. str_join
       [itoa (int i + 1), if res_Title r = [] then ''(untitled)'' else res_Title r, size, format_Count (res_Seeders r),
        format_Count (res_Leechers r), res_Tracker r @ (if res_Link r = [] then '' (no link)'' else [])] tab)
     (if 0 < res_Size r then Bytes (res_Size r) else Some ''-'')"

definition writeFindTable :: "Result list \<Rightarrow> int \<Rightarrow> string list option" where
  "writeFindTable results limit = (if results = [] then Some [''no results'']
     else let shown = capResults results limit in
       map_option (\<lambda>rows. str_join [''#'', ''TITLE'', ''SIZE'', ''SEEDS'', ''PEERS'', ''TRACKER''] tab # rows @
           (if List.length shown < List.length results then
              [[], itoa (int (List.length shown)) @ '' of '' @ itoa (int (List.length results)) @ '' shown; --limit 0 for all'']
            else []))
         (those (map (\<lambda>(i, r). find_row i r) (enumerate 0 shown))))"

text \<open>\<open>None\<close> is an index out of range, a Go panic.\<close>

definition writeFindLink :: "Result list \<Rightarrow> int \<Rightarrow> string result option" where
  "writeFindLink results n = (if int (List.length results) < n
     then Some (Inl (''find: --link '' @ itoa n @ '' but only '' @ itoa (int (List.length results)) @ '' results came back''))
     else map_option (\<lambda>r. if res_Link r = []
         then Inl (''find: result '' @ itoa n @ '' has no magnet or download URL'') else Inr (res_Link r))
       (index_at results (n - 1)))"

record find_flags =
  ff_limit :: int
  ff_json :: bool
  ff_check :: bool
  ff_link :: int

text \<open>\<open>json\<close> is how the library writes results.\<close>

definition newFindCmd :: "(Result list \<Rightarrow> string list) \<Rightarrow> 's caller \<Rightarrow> find_flags \<Rightarrow> string list \<Rightarrow> ('s \<Rightarrow> 's work option) result" where
  "newFindCmd json c fl args = (let query = str_join args '' '' in
     if \<not> ff_check fl \<and> trim_space query = [] then Inl ''find: needs a query (or --check)''
     else Inr (\<lambda>s.
       if ff_check fl then Some (case c_SearchSources c s of
           (Inl err, s1) \<Rightarrow> (Inl err, [], s1) | (Inr sources, s1) \<Rightarrow> (Inr (), [writeFindSources sources], s1))
       else case IpcClient.c_Search c query s of
         (Inl err, s1) \<Rightarrow> Some (Inl err, [], s1)
       | (Inr (results, errs), s1) \<Rightarrow> let warned = map (\<lambda>e. ''warning: '' @ e) errs in
           if 0 < ff_link fl then map_option (\<lambda>r. case r of
               Inl err \<Rightarrow> (Inl err, warned, s1) | Inr link \<Rightarrow> (Inr (), warned @ [link], s1))
             (writeFindLink results (ff_link fl))
           else if ff_json fl then Some (Inr (), warned @ json (capResults results (ff_limit fl)), s1)
           else map_option (\<lambda>rows. (Inr (), warned @ rows, s1)) (writeFindTable results (ff_limit fl))))"

subsection \<open>Stopping the daemon\<close>

text \<open>\<open>info i\<close> is what the lock says at the \<open>i\<close>-th look, \<open>dial\<close> why the socket does not answer, if so.\<close>

definition newStopCmd :: "nat \<Rightarrow> string \<Rightarrow> duration \<Rightarrow> (nat \<Rightarrow> DaemonStatus \<times> string option) \<Rightarrow> string option \<Rightarrow>
    (nat \<Rightarrow> gotime) \<Rightarrow> 's caller \<Rightarrow> 's \<Rightarrow> 's work option" where
  "newStopCmd fuel socket timeout info dial clock c s = (case info 0 of
     (st, Some err) \<Rightarrow> Some (Inl err, [], s)
   | (st, None) \<Rightarrow>
       if \<not> ds_Running st then Some (Inr (), [''no daemon is running on '' @ socket], s)
       else case dial of
         Some err \<Rightarrow> Some (Inl (''connect to the daemon on '' @ socket @ '': '' @ err), [], s)
       | None \<Rightarrow> (case c_Shutdown c s of
           (Inl err, s1) \<Rightarrow> Some (Inl (if contains err ''unknown method''
               then ''the running daemon predates `torrnado stop` and cannot be asked over the socket; send it SIGTERM instead (pid '' @
                 itoa (ds_PID st) @ '', from its `daemon starting` log line)''
               else ''ask the daemon to stop: '' @ err), [], s1)
         | (Inr _, s1) \<Rightarrow>
             let said = (if ds_PID st \<noteq> 0 then ''asked daemon '' @ itoa (ds_PID st) @ '' to stop'' else ''asked the daemon to stop'')
             in if timeout \<le> 0 then Some (Inr (), [said], s1)
                else map_option (\<lambda>r. case r of Inl err \<Rightarrow> (Inl err, [said], s1) | Inr _ \<Rightarrow> (Inr (), [said, ''stopped''], s1))
                  (waitForStop fuel (\<lambda>i. info (Suc i)) clock timeout (clock 0 + timeout) 0)))"

end
