(* ===== verification/Template.thy ===== *)
theory Template
  imports ConfigFile Ordering
begin

text \<open>
  The annotated configuration file \<^verbatim>\<open>torrnado init\<close> writes: \<^verbatim>\<open>internal/config/template.go\<close>. The text is a byte
  string; where the source pads to a column it counts bytes for the width and runes for the padding, and so does this.
\<close>

subsection \<open>Shortest floats\<close>

text \<open>
  Go's \<^verbatim>\<open>strconv.FormatFloat\<close> with precision -1: the fewest digits that read back as the same number, in the
  formats \<^verbatim>\<open>f\<close> and \<^verbatim>\<open>g\<close>. Seventeen digits are always enough.
\<close>

text \<open>How often a positive number has to be multiplied by ten to reach one, up to a bound no float passes.\<close>

fun zeros_before :: "nat \<Rightarrow> rat \<Rightarrow> nat" where
  "zeros_before 0 q = 0"
| "zeros_before (Suc fuel) q = (if 1 \<le> q then 0 else Suc (zeros_before fuel (10 * q)))"

text \<open>The position of the point: the least \<open>p\<close> with \<open>q < 10 ^ p\<close>.\<close>

definition point_of :: "rat \<Rightarrow> int" where
  "point_of q = (if 1 \<le> q then int (List.length (nat_digits (nat \<lfloor>q\<rfloor>))) else 1 - int (zeros_before 400 q))"

definition ten_to :: "int \<Rightarrow> rat" where
  "ten_to e = (if 0 \<le> e then 10 ^ nat e else 1 / 10 ^ nat (- e))"

text \<open>\<open>n\<close> significant digits as a number, and the point.\<close>

definition rounded_to :: "nat \<Rightarrow> rat \<Rightarrow> nat \<times> int" where
  "rounded_to n q = (let p = point_of q; d = nat (round_half_even (q * ten_to (int n - p)))
     in if d = 10 ^ n then (10 ^ (n - 1), p + 1) else (d, p))"

definition shortest_digits :: "rat \<Rightarrow> nat \<times> int" where
  "shortest_digits q = (case List.find (\<lambda>n. let (d, p) = rounded_to n q in rnd (of_nat d * ten_to (p - int n)) = Fin q) [1..<18] of
     Some n \<Rightarrow> (let (d, p) = rounded_to n q in (d div 10 ^ (n - List.length (trim_right_char (CHR ''0'') (nat_digits d))), p))
   | None \<Rightarrow> rounded_to 17 q)"

text \<open>Digits with the point at \<open>p\<close>, as format \<^verbatim>\<open>f\<close> writes them.\<close>

definition plain_digits :: "string \<Rightarrow> int \<Rightarrow> string" where
  "plain_digits ds p =
     (if p \<le> 0 then ''0.'' @ replicate (nat (- p)) (CHR ''0'') @ ds
      else if int (List.length ds) \<le> p then ds @ replicate (nat p - List.length ds) (CHR ''0'')
      else take (nat p) ds @ ''.'' @ drop (nat p) ds)"

definition scientific :: "string \<Rightarrow> int \<Rightarrow> string" where
  "scientific ds p = (let e = p - 1 in take 1 ds @ (if List.length ds = 1 then [] else ''.'' @ drop 1 ds) @ ''e'' @
     (if e < 0 then ''-'' else ''+'') @ pad_zeros 2 (nat_digits (nat \<bar>e\<bar>)))"

definition float_with :: "(string \<Rightarrow> int \<Rightarrow> string) \<Rightarrow> f64 \<Rightarrow> string" where
  "float_with f x = (case x of
     Fin q \<Rightarrow> if q = 0 then ''0''
       else let (d, p) = shortest_digits \<bar>q\<bar> in (if q < 0 then ''-'' else []) @ f (nat_digits d) p
   | PosInf \<Rightarrow> ''+Inf'' | NegInf \<Rightarrow> ''-Inf'' | NaN \<Rightarrow> ''NaN'')"

text \<open>Format \<^verbatim>\<open>f\<close>, and format \<^verbatim>\<open>g\<close>, which turns to exponents below ten to the -4 and from ten to the 6 on.\<close>

definition float_shortest :: "f64 \<Rightarrow> string" where
  "float_shortest x = float_with plain_digits x"

definition float_general :: "f64 \<Rightarrow> string" where
  "float_general x = float_with (\<lambda>ds p. if p - 1 < - 4 \<or> 6 \<le> p - 1 then scientific ds p else plain_digits ds p) x"

subsection \<open>The file\<close>

definition nl :: string where "nl = [CHR 0x0A]"

definition unlines :: "string list \<Rightarrow> string" where
  "unlines ls = concat (map (\<lambda>l. l @ nl) ls)"

subsection \<open>The comments\<close>

definition templateHeader :: string where
  "templateHeader = unlines
    [''# torrnado configuration.'',
     ''#'',
     ''# Written by `torrnado init` from the built-in defaults: this file says'',
     ''# what torrnado would already do without it. Every key is optional, so'',
     ''# deleting a line restores that default rather than losing the setting -'',
     ''# which also means a value left here stays put when the built-in default'',
     ''# changes in a later release.'',
     ''#'',
     ''# An unknown key or a bad value is an error naming the key, not something'',
     ''# quietly ignored. `torrnado config` prints what is in effect.'',
     []]"

definition templateRateLimit :: string where
  "templateRateLimit = unlines
    [[],
     ''[rate_limit]'',
     ''# Client-wide, not per torrent. A bare byte count, \"500k\", \"2M\", \"1.5G\",'',
     ''# or \"unlimited\". Per-torrent limits are set at runtime with'',
     ''# `torrnado limit --torrent <id>`.'']"

definition templateSeedLimit :: string where
  "templateSeedLimit = unlines
    [[],
     ''[seed_limit]'',
     ''# Applied only once a torrent has finished downloading, and they pause it'',
     ''# rather than holding it: this is a decision that the torrent is done, so'',
     ''# it survives a restart. Whichever comes first wins. Per-torrent limits'',
     ''# are set at runtime with `torrnado seed-limit`.'']"

definition templatePort :: string where
  "templatePort = unlines
    [[],
     ''[port]'',
     ''# Tried in order until one binds; 0 for both lets the OS choose. A fixed'',
     ''# range is what you forward at the router to get incoming connections.'']"

definition templateNetwork :: string where
  "templateNetwork = unlines
    [[],
     ''[network]'']"

definition templateSearch :: string where
  "templateSearch = unlines
    [[],
     ''[search.jackett]'',
     ''# `torrnado find <query>` searches the indexers configured below -'',
     ''# self-hosted Jackett or Prowlarr - each of which fans one query out to every'',
     ''# tracker configured in it. torrnado makes a single HTTP GET and never'',
     ''# contacts a tracker itself, which is why find is not held by [vpn] below.'',
     ''#'',
     ''# The daemon does the searching, so a session and a result cache outlive any'',
     ''# one command. Both sources are searched together and the results merged, so'',
     ''# filling in the second widens a search rather than replacing the first.'',
     ''#'',
     ''# Empty - the default - turns find off: it then says what to put here rather'',
     ''# than failing obscurely.'']"

definition templateSearchProwlarr :: string where
  "templateSearchProwlarr = unlines
    [[],
     ''[search.prowlarr]'']"

definition templateSearchRutracker :: string where
  "templateSearchRutracker = unlines
    [[],
     ''[search.rutracker]'',
     ''# rutracker.org is a site rather than an aggregator: torrnado reads its pages'',
     ''# directly, so it needs a login, and it sits behind a Cloudflare challenge, so'',
     ''# it also needs [flaresolverr] below.'',
     ''#'',
     ''# Either session on its own, or username and password together. A captcha on'',
     ''# the login form cannot be answered from here - when that happens, log in with'',
     ''# a browser and copy its bb_session cookie into session.'',
     ''#'',
     ''# Its search page carries no magnet, so a result is a token like'',
     ''# \"rutracker:6916386\" and the daemon reads the magnet off the topic page when'',
     ''# you add it. That costs about two seconds, once, for the one you picked.'']"

definition templateFlareSolverr :: string where
  "templateFlareSolverr = unlines
    [[],
     ''[flaresolverr]'',
     ''# A FlareSolverr server, which drives a real browser. Needed only by a source'',
     ''# behind a Cloudflare challenge - [search.rutracker] above is one.'',
     ''#'',
     ''# It cannot be replaced by an HTTP client here, however carefully dressed up:'',
     ''# Cloudflare binds its clearance to the TLS fingerprint of whoever earned it,'',
     ''# so a cookie handed to a Go client is challenged again. The browser has to be'',
     ''# the one that reads the page.'',
     ''#'',
     ''# Empty - the default - leaves it off, and any source needing it says so.'']"

definition templateVPN :: string where
  "templateVPN = unlines
    [[],
     ''[vpn]'',
     ''# required = true holds every transfer - download and upload - while the'',
     ''# system is not on a VPN, and releases them when it comes back. Tracker'',
     ''# and DHT announces still go out, so this is \"nothing transfers off-VPN\",'',
     ''# not a network kill switch.'',
     ''#'',
     ''# interfaces names devices to count as a VPN whatever the system says'',
     ''# about them - the escape hatch for a tunnel the kernel cannot label, such'',
     ''# as policy-based IPsec. Detection needs no configuration otherwise.'']"

definition templateLog :: string where
  "templateLog = unlines
    [[],
     ''[log]'']"

definition templateKeybinds :: string where
  "templateKeybinds = unlines
    [[],
     ''[keybinds]'',
     ''# Rebind any TUI action: action = \"key\". Press h in the interface for the'',
     ''# defaults. An action that does not exist is an error, so a typo cannot'',
     ''# leave a key silently doing the old thing.'']"

subsection \<open>Values\<close>

definition ratioLiteral :: "f64 \<Rightarrow> string" where
  "ratioLiteral r = (let s = float_shortest r in if contains s ''.'' then s else s @ ''.0'')"

definition rateLiteral :: "int \<Rightarrow> string" where
  "rateLiteral r = (if r \<le> 0 then ''unlimited'' else itoa r)"

definition tomlString :: "string \<Rightarrow> string" where "tomlString s = quoted s"

definition tomlBool :: "bool \<Rightarrow> string" where "tomlBool v = (if v then ''true'' else ''false'')"

definition tomlStrings :: "string list \<Rightarrow> string" where
  "tomlStrings items = ''['' @ str_join (map tomlString items) '', '' @ '']''"

subsection \<open>Rows\<close>

type_synonym template_row = "string \<times> string \<times> string"

text \<open>\<^verbatim>\<open>%-*s\<close>: padded with blanks to a number of characters.\<close>

definition pad_text :: "nat \<Rightarrow> string \<Rightarrow> string" where
  "pad_text w s = s @ replicate (w - List.length (utf8 s)) (CHR '' '')"

definition row_widths :: "template_row list \<Rightarrow> nat \<times> nat" where
  "row_widths rows = foldl (\<lambda>(kw, vw) (key, val, comment).
     (max kw (List.length key), if comment \<noteq> [] then max vw (List.length val) else vw)) (0, 0) rows"

definition row_line :: "nat \<Rightarrow> nat \<Rightarrow> template_row \<Rightarrow> string" where
  "row_line kw vw r = (let (key, val, comment) = r in
     if comment = [] then pad_text kw key @ '' = '' @ val
     else pad_text kw key @ '' = '' @ pad_text vw val @ ''  # '' @ comment)"

definition writeRows :: "template_row list \<Rightarrow> string" where
  "writeRows rows = (let (kw, vw) = row_widths rows in unlines (map (row_line kw vw) rows))"

fun wrap_from :: "nat \<Rightarrow> string \<Rightarrow> string list \<Rightarrow> string list" where
  "wrap_from width cur [] = (if cur = [] then [] else [cur])"
| "wrap_from width cur (item # items) =
     (if cur = [] then wrap_from width item items
      else if width < List.length cur + 2 + List.length item then (cur @ '','') # wrap_from width item items
      else wrap_from width (cur @ '', '' @ item) items)"

definition wrapList :: "string list \<Rightarrow> nat \<Rightarrow> string list" where
  "wrapList items width = wrap_from width [] items"

definition writeKeybinds :: "(string \<times> string) list \<Rightarrow> string" where
  "writeKeybinds binds = writeRows (map (\<lambda>a. (a, tomlString (case map_of binds a of Some v \<Rightarrow> v | None \<Rightarrow> []), [])) (sort_strings (map fst binds))) @
     unlines [''#'', ''# Actions:''] @ unlines (map (\<lambda>l. ''#   '' @ l) (wrapList KnownActions 64))"

subsection \<open>The file\<close>

text \<open>\<open>None\<close> is a size whose text never comes, as in \<^verbatim>\<open>Size_String\<close>.\<close>

definition Template :: "fileConfig \<Rightarrow> string option" where
  "Template c = map_option (\<lambda>minFree. let sc = fileConfig.c_Search c; lg = c_Log c in
     templateHeader @ writeRows
       [(''download_dir'', tomlString (c_DownloadDir c), ''where torrents are saved''),
        (''daemon_socket'', tomlString (c_DaemonSocket c), ''the socket every client dials''),
        (''state_dir'', tomlString (c_StateDir c), ''session file + saved metainfo''),
        (''min_free_space'', tomlString minFree, ''hold every transfer below this much free disk; none = never''),
        (''watch_dir'', tomlString (c_WatchDir c), ''add .torrent files dropped here; empty watches nothing''),
        (''theme'', tomlString (c_Theme c), ''a built-in, or a .toml in <config>/torrnado/themes''),
        (''player'', tomlString (c_Player c), ''preview command; %f places the URL''),
        (''opener'', tomlString (c_Opener c), ''folder command; %f places the path''),
        (''on_complete'', tomlString (c_OnComplete c), ''run when a torrent finishes; %f places its folder'')] @
     templateRateLimit @ writeRows
       [(''upload'', tomlString (rateLiteral (rl_Upload (c_RateLimit c))), []),
        (''download'', tomlString (rateLiteral (rl_Download (c_RateLimit c))), [])] @
     templateSeedLimit @ writeRows
       [(''ratio'', ratioLiteral (sl_Ratio (c_SeedLimit c)), ''stop seeding at this ratio; 0 = never''),
        (''time'', tomlString (Duration_String (sl_Time (c_SeedLimit c))), ''stop seeding after this long; none = never'')] @
     templatePort @ writeRows
       [(''low'', itoa (pr_Low (c_Port c)), []), (''high'', itoa (pr_High (c_Port c)), [])] @
     templateNetwork @ writeRows
       [(''dht'', tomlBool (nw_DHT (c_Network c)), []), (''pex'', tomlBool (nw_PEX (c_Network c)), []),
        (''encryption'', tomlBool (nw_Encryption (c_Network c)), []),
        (''seed'', tomlBool (nw_Seed (c_Network c)),
         ''keep uploading after a torrent completes; while one is still downloading, peers are uploaded to either way'')] @
     templateSearch @ writeRows
       [(''url'', tomlString (ag_URL (sr_Jackett sc)), ''e.g. http://localhost:9117''),
        (''api_key'', tomlString (ag_APIKey (sr_Jackett sc)), ''from Jackett'' @ [CHR 0x27] @ ''s dashboard'')] @
     templateSearchProwlarr @ writeRows
       [(''url'', tomlString (ag_URL (sr_Prowlarr sc)), ''e.g. http://localhost:9696''),
        (''api_key'', tomlString (ag_APIKey (sr_Prowlarr sc)), ''from Settings -> General'')] @
     templateSearchRutracker @ writeRows
       [(''username'', tomlString (ru_Username (sr_Rutracker sc)), []),
        (''password'', tomlString (ru_Password (sr_Rutracker sc)), []),
        (''session'', tomlString (ru_Session (sr_Rutracker sc)), ''a bb_session cookie; the way through a captcha'')] @
     templateFlareSolverr @ writeRows
       [(''url'', tomlString (fs_URL (c_FlareSolverr c)), ''e.g. http://localhost:8191''),
        (''max_timeout'', tomlString (Duration_String (fs_MaxTimeout (c_FlareSolverr c))), ''per page, challenge included'')] @
     templateVPN @ writeRows
       [(''required'', tomlBool (vpn_Required (c_VPN c)), []),
        (''interfaces'', tomlStrings (vpn_Interfaces (c_VPN c)), ''extra devices to count as a VPN'')] @
     templateLog @ writeRows
       [(''level'', tomlString (lg_Level lg), str_join LogLevels '', ''),
        (''library_level'', tomlString (lg_LibraryLevel lg), ''the torrent library, filtered separately''),
        (''file'', tomlString (lg_File lg), ''empty = stderr, which is what a service manager wants'')] @
     templateKeybinds @ writeKeybinds (c_Keybinds c))
   (Size_String (c_MinFreeSpace c))"

subsection \<open>Lemmas\<close>

text \<open>Nothing is lost where the list of actions is wrapped.\<close>

lemma str_join_Cons: "xs \<noteq> [] \<Longrightarrow> str_join (x # xs) sep = x @ sep @ str_join xs sep"
  by (cases xs) auto

lemma wrap_from_not_Nil: "cur \<noteq> [] \<Longrightarrow> wrap_from width cur items \<noteq> []"
  by (induction width cur items rule: wrap_from.induct) auto

lemma wrap_from_keeps:
  "cur \<noteq> [] \<Longrightarrow> [] \<notin> set items \<Longrightarrow> str_join (wrap_from width cur items) '' '' = str_join (cur # items) '', ''"
proof (induction width cur items rule: wrap_from.induct)
  case (2 width cur item items)
  then have i: "item \<noteq> []" "[] \<notin> set items" by auto
  show ?case
  proof (cases "width < List.length cur + 2 + List.length item")
    case True
    have "str_join ((cur @ '','') # wrap_from width item items) '' '' = (cur @ '','') @ '' '' @ str_join (wrap_from width item items) '' ''"
      by (rule str_join_Cons [OF wrap_from_not_Nil [OF i(1)]])
    also have "\<dots> = cur @ '', '' @ str_join (item # items) '', ''"
      using "2.IH"(2) [OF "2.prems"(1) True i] by simp
    also have "\<dots> = str_join (cur # item # items) '', ''" by simp
    finally show ?thesis using "2.prems"(1) True by simp
  next
    case False
    have "str_join (wrap_from width (cur @ '', '' @ item) items) '' '' = str_join ((cur @ '', '' @ item) # items) '', ''"
      by (rule "2.IH"(3) [OF "2.prems"(1) False]) (use i in auto)
    also have "\<dots> = str_join (cur # item # items) '', ''" by (cases items) simp_all
    finally show ?thesis using "2.prems"(1) False by simp
  qed
qed simp

lemma wrapList_keeps: "[] \<notin> set items \<Longrightarrow> str_join (wrapList items width) '' '' = str_join items '', ''"
  using wrap_from_keeps [of "hd items" "tl items" width] by (cases items) (auto simp: wrapList_def)

text \<open>The comma a line ends with is not counted: a line can be a byte wider than asked.\<close>

lemma wrap_from_width:
  "List.length cur \<le> width \<Longrightarrow> \<forall>i\<in>set items. List.length i \<le> width \<Longrightarrow> l \<in> set (wrap_from width cur items) \<Longrightarrow> List.length l \<le> width + 1"
  by (induction width cur items rule: wrap_from.induct) (auto split: if_splits)

lemma wrapList_wider: "wrapList [''ab'', ''cd''] 2 = [''ab,'', ''cd'']"
  by (simp add: wrapList_def)

end
