(* ===== verification/Reports.thy ===== *)
theory Reports
  imports Template Commands
begin

text \<open>
  The subcommands that report: \<^verbatim>\<open>list\<close> of \<^verbatim>\<open>ops.go\<close>, \<^verbatim>\<open>statuscmd.go\<close>, \<^verbatim>\<open>configcmd.go\<close> and
  \<^verbatim>\<open>version.go\<close>, and \<^verbatim>\<open>initcmd.go\<close>, which writes a configuration. Lines are as written to the tab writer,
  which lines their cells up. \<open>None\<close> is a size or a rate whose text never comes.
\<close>

definition cells :: "string list \<Rightarrow> string" where "cells cs = str_join cs tab"

subsection \<open>The list\<close>

definition percent_text :: "f64 \<Rightarrow> string" where
  "percent_text x = float_text 1 (f64_mul x (Fin 100)) @ ''%''"

definition torrent_row :: "bool \<Rightarrow> TorrentSnapshot \<Rightarrow> string option" where
  "torrent_row labelled s = Option.bind (format_Rate (snap_DownloadBPS s)) (\<lambda>down.
     map_option (\<lambda>upr. cells ([snap_ID s, snap_Name s, StatusText s, percent_text (snap_Progress s), down, upr,
         format_Ratio (snap_Ratio s), itoa (snap_NumSeeds s) @ ''/'' @ itoa (snap_NumPeers s)] @
         (if labelled then [snap_Label s] else [])))
       (format_Rate (snap_UploadBPS s)))"

definition writeTorrentTable :: "TorrentSnapshot list \<Rightarrow> string list option" where
  "writeTorrentTable snaps = (let labelled = list_ex (\<lambda>s. snap_Label s \<noteq> []) snaps in
     map_option (\<lambda>rows. cells ([''ID'', ''NAME'', ''STATE'', ''PROGRESS'', ''DOWN'', ''UP'', ''RATIO'', ''PEERS''] @
         (if labelled then [''LABEL''] else [])) # rows)
       (those (map (torrent_row labelled) snaps)))"

definition sumRates :: "TorrentSnapshot list \<Rightarrow> nat \<times> f64 \<times> f64" where
  "sumRates snaps = (List.length snaps, foldl (\<lambda>a s. f64_add a (snap_DownloadBPS s)) (Fin 0) snaps,
     foldl (\<lambda>a s. f64_add a (snap_UploadBPS s)) (Fin 0) snaps)"

text \<open>A frame of \<^verbatim>\<open>list --watch\<close>; \<open>now\<close> is the time of day as text.\<close>

definition watch_frame :: "bool \<Rightarrow> string \<Rightarrow> TorrentSnapshot list \<Rightarrow> f64 \<Rightarrow> f64 \<Rightarrow> string list option" where
  "watch_frame tty now snaps down upr = Option.bind (writeTorrentTable snaps) (\<lambda>table.
     Option.bind (format_Rate down) (\<lambda>d. map_option (\<lambda>u.
       (if tty then [[CHR 0x1B] @ ''[H'' @ [CHR 0x1B] @ ''[2J''] else []) @ table @
       [[], now @ ''  |  '' @ itoa (int (List.length snaps)) @ '' torrents  |  '' @ map char_of [226, 134, 147 :: nat] @ '' '' @ d @
         ''  '' @ map char_of [226, 134, 145 :: nat] @ '' '' @ u @ ''  |  ctrl-c to stop''])
       (format_Rate upr)))"

definition newListCmd :: "'s caller \<Rightarrow> 's \<Rightarrow> 's work option" where
  "newListCmd c s = (case c_List c s of
     (Inl err, s1) \<Rightarrow> Some (Inl err, [], s1)
   | (Inr snaps, s1) \<Rightarrow> map_option (\<lambda>rows. (Inr (), rows, s1)) (writeTorrentTable snaps))"

subsection \<open>Status\<close>

definition pidText :: "int \<Rightarrow> string" where
  "pidText pid = (if pid = 0 then ''unknown (started by a torrnado that did not record it)'' else itoa pid)"

definition orUnknown :: "string \<Rightarrow> string" where
  "orUnknown s = (if s = [] then ''unknown (this daemon is too old to report it)'' else s)"

definition orUnknownInt :: "int \<Rightarrow> string" where
  "orUnknownInt n = (if n = 0 then ''unknown'' else itoa n)"

text \<open>\<^verbatim>\<open>time.Duration.Round\<close>: to a multiple, half away from zero.\<close>

definition duration_round :: "duration \<Rightarrow> duration \<Rightarrow> duration" where
  "duration_round d m = (let r = \<bar>d\<bar> mod m; a = (if r + r < m then \<bar>d\<bar> - r else \<bar>d\<bar> + m - r)
     in if d < 0 then - a else a)"

definition uptimeText :: "gotime \<Rightarrow> gotime \<Rightarrow> string" where
  "uptimeText now started = (if started = 0 then ''unknown (this daemon is too old to report it)''
     else let d = now - started in
       duration_text (duration_round d (if d < minute then second else minute)))"

definition vpnText :: "GlobalStats \<Rightarrow> string" where
  "vpnText g = (if glob_VPNActive g then ''required, active on '' @ glob_VPNInterface g
     else ''required, NOT active - transfers are held'')"

text \<open>What the socket answers within the wait: an event, none yet, or a closed connection.\<close>

datatype first_event = Heard GlobalStats | NothingYet | Hung_up

definition probeDaemon :: "string option \<Rightarrow> 's caller \<Rightarrow> first_event \<Rightarrow> 's \<Rightarrow> GlobalStats option \<times> 's" where
  "probeDaemon dial c ev s = (case dial of
     Some err \<Rightarrow> (None, s)
   | None \<Rightarrow> (case c_Ping c s of
       (Inl err, s1) \<Rightarrow> (None, s1)
     | (Inr _, s1) \<Rightarrow> (case ev of Heard g \<Rightarrow> Some g | NothingYet \<Rightarrow> Some zero_global | Hung_up \<Rightarrow> None, s1)))"

definition writeStatusReport :: "gotime \<Rightarrow> string \<Rightarrow> DaemonStatus \<Rightarrow> GlobalStats option \<Rightarrow> string list option" where
  "writeStatusReport now socket info probed = (let row = (\<lambda>k v. cells [''  '' @ k, v]) in
     if \<not> ds_Running info then Some [''Daemon'', row ''status'' ''not running'', row ''socket'' socket,
         row ''lock'' (ds_LockPath info), [], ''Start one with `torrnado daemon`, or any command that needs it.'']
     else let head = [''Daemon'', row ''status'' (if probed \<noteq> None then ''running'' else ''running, but not answering on its socket''),
         row ''pid'' (pidText (ds_PID info)), row ''socket'' socket, row ''lock'' (ds_LockPath info)] in
       case probed of
         None \<Rightarrow> Some (head @ [[], ''It holds the lock, so it is alive - most likely busy hash-checking.'',
           ''Do not start a second daemon against this state directory.''])
       | Some g \<Rightarrow> Option.bind (format_Rate (glob_DownloadBPS g)) (\<lambda>down. Option.bind (format_Rate (glob_UploadBPS g)) (\<lambda>upr.
           map_option (\<lambda>disk. head @
             [row ''version'' (orUnknown (glob_Version g)), row ''uptime'' (uptimeText now (glob_StartedAt g)),
              row ''listen port'' (orUnknownInt (glob_ListenPort g))] @
             (if glob_VPNRequired g then [row ''vpn'' (vpnText g)] else []) @
             [[], ''Transfers'', row ''torrents'' (itoa (glob_NumTorrents g)), row ''down'' down, row ''up'' upr] @ disk)
           (if 0 < glob_DiskTotalBytes g then
              Option.bind (Bytes (glob_DiskFreeBytes g)) (\<lambda>f. map_option (\<lambda>t. [row ''disk free'' (f @ '' of '' @ t)])
                (Bytes (glob_DiskTotalBytes g)))
            else Some []))))"

text \<open>The command: the error with no text is the exit status of \<^verbatim>\<open>--quiet\<close>.\<close>

definition newStatusCmd :: "bool \<Rightarrow> gotime \<Rightarrow> string \<Rightarrow> DaemonStatus \<times> string option \<Rightarrow> string option \<Rightarrow> 's caller \<Rightarrow>
    first_event \<Rightarrow> 's \<Rightarrow> 's work option" where
  "newStatusCmd quiet now socket looked dial c ev s = (case looked of
     (info, Some err) \<Rightarrow> Some (Inl err, [], s)
   | (info, None) \<Rightarrow>
       if quiet then Some (if ds_Running info then Inr () else Inl [], [], s)
       else if \<not> ds_Running info then map_option (\<lambda>out. (Inr (), out, s)) (writeStatusReport now socket info None)
       else let (probed, s1) = probeDaemon dial c ev s
         in map_option (\<lambda>out. (Inr (), out, s1)) (writeStatusReport now socket info probed))"

subsection \<open>The configuration\<close>

definition orNone :: "string \<Rightarrow> string" where "orNone s = (if s = [] then ''none'' else s)"

definition ratioText :: "f64 \<Rightarrow> string" where
  "ratioText r = (if f64_le r (Fin 0) then ''none'' else float_general r)"

definition portRangeText :: "PortRange \<Rightarrow> string" where
  "portRangeText p = (if pr_Low p \<le> 0 then ''any (chosen by the OS)''
     else if pr_High p \<le> pr_Low p then itoa (pr_Low p)
     else str_join [itoa (pr_Low p), itoa (pr_High p)] ''-'')"

definition vpnRequiredNote :: string where
  "vpnRequiredNote = ''(transfers held off-VPN; tracker/DHT announces still go out)''"

definition searchText :: "SearchTable \<Rightarrow> string" where
  "searchText sc = (let agg = (\<lambda>name a. if Aggregator_Enabled a
         then [name @ '' '' @ ag_URL a @ '' ('' @ (if ag_APIKey a \<noteq> [] then ''api key set'' else ''no api key'') @ '')''] else []);
       rt = sr_Rutracker sc;
       how = (if ru_Username rt \<noteq> [] then [''username set''] else []) @ (if ru_Password rt \<noteq> [] then [''password set''] else []) @
         (if ru_Session rt \<noteq> [] then [''session cookie set''] else []);
       parts = agg ''jackett'' (sr_Jackett sc) @ agg ''prowlarr'' (sr_Prowlarr sc) @
         (if Rutracker_Enabled rt then [''rutracker ('' @ str_join how '', '' @ '')''] else [])
     in if parts = [] then ''none'' else str_join parts '', '')"

text \<open>\<open>there\<close> says that the file is not known to be missing, \<open>themes\<close> is the themes directory if it has a path.\<close>

definition writeConfigReport :: "fileConfig \<Rightarrow> string \<Rightarrow> bool \<Rightarrow> string option \<Rightarrow> string list option" where
  "writeConfigReport cfg path there themes = (let row = (\<lambda>k v. cells [''  '' @ k, v]); n = c_Network cfg; lg = c_Log cfg;
       sl = c_SeedLimit cfg; fsr = c_FlareSolverr cfg; v = c_VPN cfg; keys = c_Keybinds cfg in
     Option.bind (Size_String (c_MinFreeSpace cfg)) (\<lambda>minFree. Option.bind (Rate_String (rl_Upload (c_RateLimit cfg))) (\<lambda>upl.
     map_option (\<lambda>dnl.
       [''Paths'', row ''config'' (path @ (if there then [] else tab @ ''(not found - built-in defaults in use)''))] @
       (case themes of Some d \<Rightarrow> [row ''themes'' d] | None \<Rightarrow> []) @
       [row ''download_dir'' (c_DownloadDir cfg), row ''state_dir'' (c_StateDir cfg), row ''watch_dir'' (orNone (c_WatchDir cfg)),
        row ''daemon_socket'' (c_DaemonSocket cfg), row ''session'' (path_join (c_StateDir cfg) ''session.json''),
        row ''saved metainfo'' (path_join (c_StateDir cfg) ''torrents''), [], ''Settings'',
        row ''theme'' (c_Theme cfg), row ''player'' (c_Player cfg), row ''opener'' (c_Opener cfg), row ''min_free_space'' minFree,
        row ''on_complete'' (orNone (c_OnComplete cfg)), row ''seed_limit.ratio'' (ratioText (sl_Ratio sl)),
        row ''seed_limit.time'' (Duration_String (sl_Time sl)), row ''rate_limit.upload'' upl, row ''rate_limit.download'' dnl,
        row ''port'' (portRangeText (c_Port cfg)), row ''network.dht'' (tomlBool (nw_DHT n)), row ''network.pex'' (tomlBool (nw_PEX n)),
        row ''network.encryption'' (tomlBool (nw_Encryption n)), row ''network.seed'' (tomlBool (nw_Seed n)),
        row ''search'' (searchText (fileConfig.c_Search cfg))] @
       (if FlareSolverr_Enabled fsr
        then [cells [''  flaresolverr'', fs_URL fsr, ''(max '' @ Duration_String (fs_MaxTimeout fsr) @ '' per page)'']] else []) @
       [if vpn_Required v then cells [''  vpn.required'', ''true'', vpnRequiredNote] else row ''vpn.required'' ''false''] @
       (if vpn_Interfaces v \<noteq> []
        then [cells [''  vpn.interfaces'', str_join (vpn_Interfaces v) '', '', ''(also counted as a VPN)'']] else []) @
       [[], ''Logging'', row ''log.level'' (lg_Level lg),
        cells [''  log.library_level'', lg_LibraryLevel lg, ''(the torrent library, filtered separately)''],
        if lg_File lg = [] then cells [''  log.file'', ''stderr'', ''(whatever started the daemon captures it)'']
        else row ''log.file'' (lg_File lg), [], ''Keybinds''] @
       (if keys = [] then [''  (none - press h in the TUI for the defaults)'']
        else map (\<lambda>a. row a (case map_of keys a of Some k \<Rightarrow> k | None \<Rightarrow> [])) (sort_strings (map fst keys))))
     (Rate_String (rl_Download (c_RateLimit cfg))))))"

subsection \<open>Writing a configuration\<close>

text \<open>What the file system answers: making the directory, opening, writing (how much got there, and the error), closing.\<close>

record init_host =
  ih_mkdir :: "string option"
  ih_open :: "string option"
  ih_write :: "nat \<times> string option"
  ih_close :: "string option"

text \<open>The last component is the file at the path, before and after.\<close>

definition runInit :: "init_host \<Rightarrow> string \<Rightarrow> string \<Rightarrow> bool \<Rightarrow> bool \<Rightarrow> string option \<Rightarrow> unit result \<times> string list \<times> string option" where
  "runInit I path doc force stdout file =
     (if stdout then (Inr (), [doc], file)
      else case ih_mkdir I of
        Some err \<Rightarrow> (Inl (''create '' @ path_dir path @ '': '' @ err), [], file)
      | None \<Rightarrow>
          if \<not> force \<and> file \<noteq> None then (Inl (path @
            '' already exists (pass --force to overwrite it, or --print to see the defaults without writing)''), [], file)
          else case ih_open I of
            Some err \<Rightarrow> (Inl (''create '' @ path @ '': '' @ err), [], file)
          | None \<Rightarrow> (case ih_write I of
              (n, Some err) \<Rightarrow> (Inl (''write '' @ path @ '': '' @ err), [], Some (take n doc))
            | (_, None) \<Rightarrow> (case ih_close I of
                Some err \<Rightarrow> (Inl (''write '' @ path @ '': '' @ err), [], Some doc)
              | None \<Rightarrow> (Inr (), [''wrote '' @ path, ''every key is optional - deleting a line restores its default''], Some doc))))"

definition initPath :: "environ \<Rightarrow> string \<Rightarrow> string result" where
  "initPath V flag = (if flag \<noteq> [] then Inr flag else DefaultPath V)"

definition newInitCmd :: "environ \<Rightarrow> string \<Rightarrow> (string \<Rightarrow> init_host) \<Rightarrow> bool \<Rightarrow> bool \<Rightarrow> (string \<Rightarrow> string option) \<Rightarrow>
    (unit result \<times> string list \<times> (string \<Rightarrow> string option)) option" where
  "newInitCmd V flag I force stdout files = (case initPath V flag of
     Inl err \<Rightarrow> Some (Inl err, [], files)
   | Inr path \<Rightarrow> (case Default V of
       Inl err \<Rightarrow> Some (Inl err, [], files)
     | Inr cfg \<Rightarrow> map_option (\<lambda>doc. let (r, out, f) = runInit (I path) path doc force stdout (files path)
         in (r, out, files(path := f))) (Template cfg)))"

subsection \<open>Versions\<close>

record buildInfo =
  bi_Version :: string
  bi_Commit :: string
  bi_Date :: string
  bi_Go :: string

definition moduleVersion :: "string \<Rightarrow> string" where
  "moduleVersion v = (if v = [] \<or> v = ''(devel)'' \<or> has_prefix v ''v0.0.0-'' then ''dev'' else trim_suffix v ''+dirty'')"

definition build_setting :: "string \<times> string \<Rightarrow> buildInfo \<Rightarrow> buildInfo" where
  "build_setting kv b = (let (k, v) = kv in
     if k = ''vcs.revision'' then (if bi_Commit b = [] then b\<lparr>bi_Commit := v\<rparr> else b)
     else if k = ''vcs.time'' then (if bi_Date b = [] then b\<lparr>bi_Date := v\<rparr> else b)
     else if k = ''vcs.modified'' then (if v = ''true'' then b\<lparr>bi_Commit := bi_Commit b @ ''-dirty''\<rparr> else b)
     else b)"

text \<open>What the linker stamped, and what the toolchain recorded: the module's version and its settings.\<close>

definition currentBuild :: "buildInfo \<Rightarrow> (string \<times> (string \<times> string) list) option \<Rightarrow> buildInfo" where
  "currentBuild b info = (case info of
     None \<Rightarrow> if bi_Version b = [] then b\<lparr>bi_Version := ''dev''\<rparr> else b
   | Some (mv, settings) \<Rightarrow>
       fold build_setting settings (if bi_Version b = [] then b\<lparr>bi_Version := moduleVersion mv\<rparr> else b))"

definition shortCommit :: "string \<Rightarrow> string" where
  "shortCommit s = (case str_cut s ''-'' of
     Some (base, suffix) \<Rightarrow> if 12 < List.length base then take 12 base @ ''-'' @ suffix
       else if 12 < List.length s then take 12 s else s
   | None \<Rightarrow> if 12 < List.length s then take 12 s else s)"

definition buildInfo_String :: "buildInfo \<Rightarrow> string" where
  "buildInfo_String b = str_join ([bi_Version b] @ (if bi_Commit b \<noteq> [] then [''('' @ shortCommit (bi_Commit b) @ '')''] else [])) '' ''"

definition writeVersion :: "buildInfo \<Rightarrow> string list" where
  "writeVersion b = [''torrnado '' @ bi_Version b] @ (if bi_Commit b \<noteq> [] then [''  commit  '' @ bi_Commit b] else []) @
     (if bi_Date b \<noteq> [] then [''  built   '' @ bi_Date b] else []) @ [''  go      '' @ bi_Go b]"

end
