(* ===== verification/CommandProps.thy ===== *)
theory CommandProps
  imports Commands Reports
begin

text \<open>
  The properties of the subcommands: they do what the interface does, starting a daemon and stopping one come to
  an end, and what was stopped has let go of the lock.
\<close>

subsection \<open>The two front ends\<close>

text \<open>A subcommand and a command of the interface agree when they leave the daemon alike and both fail or neither.\<close>

definition agree :: "'s subcommand \<Rightarrow> ('s \<Rightarrow> statusMsg \<times> 's) \<Rightarrow> 's \<Rightarrow> bool" where
  "agree cm f s = (case cm of Inl _ \<Rightarrow> False
     | Inr w \<Rightarrow> snd (snd (w s)) = snd (f s) \<and> (isl (fst (w s)) \<longleftrightarrow> sm_isErr (fst (f s))))"

lemma eachTorrent_state: "snd (snd (eachTorrent f ks s)) = run_each f ks s"
  by (simp add: eachTorrent_def case_prod_beta each_torrent_run)

lemma eachTorrent_err: "isl (fst (eachTorrent f ks s)) \<longleftrightarrow> 0 < fst (count_failed f ks s)"
  by (simp add: eachTorrent_def case_prod_beta count_failed_each)

lemmas work_simps = agree_def eachTorrent_state eachTorrent_err case_prod_beta count_failed_run some_failed_def errStatus_def okStatus_def

lemma agree_setPaused:
  "agree (newPauseCmd c ids) (setPausedCmd c ids True) s" "agree (newResumeCmd c ids) (setPausedCmd c ids False) s"
  by (simp_all add: newPauseCmd_def newResumeCmd_def setPausedCmd_def work_simps)

lemma agree_remove: "agree (newRemoveCmd c del ids) (removeCmd c ids del) s"
  by (simp add: newRemoveCmd_def removeCmd_def work_simps)

lemma agree_purge: "agree (newPurgeCmd c ids) (purgeCmd c ids) s"
  by (simp add: newPurgeCmd_def purgeCmd_def work_simps)

lemma agree_recheck: "agree (newRecheckCmd c ids) (recheckCmd c ids) s"
  by (simp add: newRecheckCmd_def recheckCmd_def work_simps)

lemma count_failed_lastErr: "fst (count_failed f ks s) = 0 \<Longrightarrow> fst (snd (count_failed f ks s)) = None"
  by (induction ks arbitrary: s) (auto simp: case_prod_beta split: sum.splits)

lemma setLabelCmd_result:
  "snd (setLabelCmd c ids label s) = run_each (\<lambda>k. c_SetLabel c k label) ids s"
  "sm_isErr (fst (setLabelCmd c ids label s)) \<longleftrightarrow> 0 < fst (count_failed (\<lambda>k. c_SetLabel c k label) ids s)"
  using count_failed_lastErr [of "\<lambda>k. c_SetLabel c k label" ids s]
  by (auto simp: setLabelCmd_def Let_def work_simps split: option.split)

lemma agree_label:
  assumes "ids \<noteq> []"
  shows "agree (newLabelCmd c False (label # ids)) (setLabelCmd c ids label) s"
    "agree (newLabelCmd c True ids) (setLabelCmd c ids []) s"
  using assms by (auto simp: newLabelCmd_def agree_def setLabelCmd_result eachTorrent_state eachTorrent_err split: list.split)

lemma agree_move: "agree (newMoveCmd c k dir) (moveCmd c k dir) s"
  by (auto simp: newMoveCmd_def moveCmd_def silent_def agree_def errStatus_def okStatus_def split: prod.split sum.split)

text \<open>C33. The command line and the interface do the same: over any connection, removing, purging, pausing, resuming,
  rechecking, labelling and moving torrents leave the daemon alike from both, and fail in both or in neither.\<close>

theorem the_front_ends_do_the_same:
  assumes "ids \<noteq> []"
  shows "agree (newRemoveCmd c del ids) (removeCmd c ids del) s \<and>
    agree (newPurgeCmd c ids) (purgeCmd c ids) s \<and>
    agree (newPauseCmd c ids) (setPausedCmd c ids True) s \<and>
    agree (newResumeCmd c ids) (setPausedCmd c ids False) s \<and>
    agree (newRecheckCmd c ids) (recheckCmd c ids) s \<and>
    agree (newLabelCmd c False (label # ids)) (setLabelCmd c ids label) s \<and>
    agree (newLabelCmd c True ids) (setLabelCmd c ids []) s \<and>
    agree (newMoveCmd c k dir) (moveCmd c k dir) s"
  using assms by (intro conjI agree_remove agree_purge agree_setPaused agree_recheck agree_label agree_move)

subsection \<open>Starting a daemon\<close>

lemma dial_until_Inr:
  "dial_until fuel dial clock deadline i e = Some (Inr r, n) \<Longrightarrow> i < n \<and> dial (n - 1) = None \<and> clock (n - 1) < deadline"
  by (induction fuel dial clock deadline i e rule: dial_until.induct) (fastforce split: if_splits option.splits)+

lemma dial_until_Inl:
  "dial_until fuel dial clock deadline i e = Some (Inl err, n) \<Longrightarrow> i \<le> n \<and> deadline \<le> clock n \<and> (\<forall>j. i \<le> j \<and> j < n \<longrightarrow> dial j \<noteq> None)"
proof (induction fuel dial clock deadline i e rule: dial_until.induct)
  case (2 fuel dial clock deadline i lastErr)
  show ?case
  proof (cases "clock i < deadline")
    case True
    then obtain err' where e: "dial i = Some err'" "dial_until fuel dial clock deadline (i + 1) err' = Some (Inl err, n)"
      using "2.prems" by (auto split: option.splits)
    have IH: "i + 1 \<le> n \<and> deadline \<le> clock n \<and> (\<forall>j. i + 1 \<le> j \<and> j < n \<longrightarrow> dial j \<noteq> None)"
      by (rule "2.IH" [OF True e])
    have "dial j \<noteq> None" if "i \<le> j" "j < n" for j using IH e(1) that by (cases "j = i") auto
    then show ?thesis using IH by simp
  qed (use "2.prems" in auto)
qed simp

text \<open>C34. Getting hold of a daemon comes to an end: with a clock that the sleep between two tries moves on, 51 tries
  are never used up. A daemon is started only if the first try failed, and the result is a connection exactly if a try
  was answered before the five seconds were over.\<close>

theorem a_daemon_is_reached_or_given_up:
  assumes "ticks_on clock"
  shows "case dialOrSpawn 51 sock dial spawns clock of
      None \<Rightarrow> False
    | Some (Inr _, started) \<Rightarrow> (started \<longleftrightarrow> dial 0 \<noteq> None) \<and>
        (started \<longrightarrow> (\<exists>i. dial (Suc i) = None \<and> clock i < clock 0 + spawnWait))
    | Some (Inl _, started) \<Rightarrow> dial 0 \<noteq> None \<and> (started \<longleftrightarrow> spawns = None) \<and>
        (started \<longrightarrow> (\<exists>n. clock 0 + spawnWait \<le> clock n \<and> (\<forall>i < n. dial (Suc i) \<noteq> None)))"
proof (cases "dial 0 = None \<or> spawns \<noteq> None")
  case True
  then show ?thesis by (auto simp: dialOrSpawn_def)
next
  case False
  let ?d = "dial_until 51 (\<lambda>i. dial (Suc i)) clock (clock 0 + spawnWait) 0 ''%!w(<nil>)''"
  have "?d \<noteq> None"
    using dial_until_returns [OF assms, of "clock 0 + spawnWait" 0 50]
    by (simp add: spawnWait_def stopPoll_def)
  then obtain r n where d: "?d = Some (r, n)" by fastforce
  show ?thesis
  proof (cases r)
    case (Inl err)
    then show ?thesis using False dial_until_Inl [OF d [unfolded Inl]] by (auto simp: dialOrSpawn_def d)
  next
    case (Inr x)
    then show ?thesis using False dial_until_Inr [OF d [unfolded Inr]] by (auto simp: dialOrSpawn_def d)
  qed
qed

subsection \<open>Stopping a daemon\<close>

lemma waitForStop_Inr:
  "waitForStop fuel info clock timeout deadline i = Some (Inr x) \<Longrightarrow>
     \<exists>j. i \<le> j \<and> snd (info j) = None \<and> \<not> ds_Running (fst (info j))"
proof (induction fuel arbitrary: i)
  case (Suc fuel)
  obtain st e where info: "info i = (st, e)" by fastforce
  show ?case
  proof (cases "e = None \<and> ds_Running st \<and> \<not> deadline < clock i")
    case True
    then have "waitForStop fuel info clock timeout deadline (i + 1) = Some (Inr x)" using Suc.prems info by simp
    from Suc.IH [OF this] show ?thesis by (metis Suc_eq_plus1 Suc_leD)
  next
    case False
    then have "e = None \<and> \<not> ds_Running st" using Suc.prems info by (auto split: option.splits if_splits)
    then show ?thesis using info by (intro exI [of _ i]) simp
  qed
qed simp

text \<open>C35. Stopping a daemon comes to an end, and tells the truth: given as much fuel as the timeout has tenths of a
  second, it returns; when it says that the daemon stopped, the daemon had acknowledged the request, and the lock was
  seen free after that; and a daemon that was asked but not seen to stop is an error, unless nobody wanted to wait.\<close>

theorem a_stop_is_waited_for:
  assumes "ticks_on clock" and "timeout < int fuel * stopPoll"
  shows "case newStopCmd (Suc fuel) socket timeout info dial clock c s of
      None \<Rightarrow> False
    | Some (r, out, s') \<Rightarrow>
        (''stopped'' \<in> set out \<longrightarrow> r = Inr () \<and> fst (c_Shutdown c s) = Inr () \<and>
           (\<exists>j>0. snd (info j) = None \<and> \<not> ds_Running (fst (info j)))) \<and>
        (s' = s \<or> s' = snd (c_Shutdown c s)) \<and> (''stopped'' \<notin> set out \<and> s' \<noteq> s \<longrightarrow> isl r \<or> timeout \<le> 0)"
proof -
  let ?w = "waitForStop (Suc fuel) (\<lambda>i. info (Suc i)) clock timeout (clock 0 + timeout) 0"
  obtain st e where i: "info 0 = (st, e)" by fastforce
  obtain q s1 where q: "c_Shutdown c s = (q, s1)" by fastforce
  have "clock 0 + timeout < clock 0 + int fuel * stopPoll" using assms(2) by simp
  then obtain r where w: "?w = Some r" using waitForStop_returns [OF assms(1)] by blast
  have sp: "''stopped'' \<noteq> ''asked daemon '' @ x" "''stopped'' \<noteq> ''asked the daemon to stop''"
    "''stopped'' \<noteq> ''no daemon is running on '' @ x" for x by simp_all
  have free: "\<exists>j>0. snd (info j) = None \<and> \<not> ds_Running (fst (info j))" if "r = Inr ()"
    using waitForStop_Inr [OF w [unfolded that]] by blast
  show ?thesis
    using free by (cases r; cases q; cases e; cases dial)
      (auto simp: newStopCmd_def i q w Let_def simp del: waitForStop.simps)
qed

subsection \<open>Witnesses\<close>

definition demo_clock :: "nat \<Rightarrow> gotime" where
  "demo_clock i = int i * stopPoll"

lemma demo_clock_ticks: "ticks_on demo_clock"
  by (simp add: ticks_on_def demo_clock_def stopPoll_def)

definition demo_answers :: "nat caller" where
  "demo_answers rq t s = (if even s then Inr (accepted rq) else Inl ''gone'', s + 1)"

theorem the_front_ends_do_the_same_witness:
  "agree (newRemoveCmd demo_answers False [''a'', ''b'']) (removeCmd demo_answers [''a'', ''b''] False) 0 \<and>
   sm_isErr (fst (removeCmd demo_answers [''a'', ''b''] False 0))"
  using the_front_ends_do_the_same [of "[''a'', ''b'']" demo_answers False 0 "''l''" "''a''" "''/d''"]
  by (simp add: removeCmd_def c_Remove_def ok_only_def demo_answers_def some_failed_def errStatus_def)

theorem a_daemon_is_reached_or_given_up_witness:
  "dialOrSpawn 51 ''/s'' (\<lambda>i. if i < 3 then Some ''refused'' else None) None demo_clock = Some (Inr (), True) \<and>
   (\<exists>i. (if Suc i < 3 then Some ''refused'' else None) = None \<and> demo_clock i < demo_clock 0 + spawnWait)"
proof -
  have d: "dialOrSpawn 51 ''/s'' (\<lambda>i. if i < 3 then Some ''refused'' else None) None demo_clock = Some (Inr (), True)"
    by (simp add: dialOrSpawn_def demo_clock_def spawnWait_def stopPoll_def eval_nat_numeral)
  show ?thesis
    using a_daemon_is_reached_or_given_up [OF demo_clock_ticks, where sock = "''/s''" and
      dial = "\<lambda>i. if i < 3 then Some ''refused'' else None" and spawns = None]
    unfolding d by simp
qed

definition demo_looks :: "nat \<Rightarrow> DaemonStatus \<times> string option" where
  "demo_looks i = (\<lparr>ds_Running = i < 3, ds_PID = 7, ds_LockPath = ''/s.lock''\<rparr>, None)"

theorem a_stop_is_waited_for_witness:
  "\<exists>r out s'. newStopCmd 11 ''/s'' second demo_looks None demo_clock demo_answers 0 = Some (r, out, s') \<and>
     out = [''asked daemon 7 to stop'', ''stopped''] \<and> r = Inr () \<and> (\<exists>j>0. \<not> ds_Running (fst (demo_looks j)))"
proof -
  have i: "itoa 7 = ''7''" by code_simp
  have s: "newStopCmd 11 ''/s'' second demo_looks None demo_clock demo_answers 0 =
      Some (Inr (), [''asked daemon 7 to stop'', ''stopped''], 1)"
    by (simp add: newStopCmd_def demo_looks_def demo_clock_def stopPoll_def c_Shutdown_def ok_only_def demo_answers_def i
        eval_nat_numeral)
  have t: "second < int 11 * stopPoll" "Suc 11 = 12" by (simp_all add: stopPoll_def)
  have "newStopCmd 12 ''/s'' second demo_looks None demo_clock demo_answers 0 =
      Some (Inr (), [''asked daemon 7 to stop'', ''stopped''], 1)"
    by (simp add: newStopCmd_def demo_looks_def demo_clock_def stopPoll_def c_Shutdown_def ok_only_def demo_answers_def i
        eval_nat_numeral)
  then show ?thesis
    using s a_stop_is_waited_for [OF demo_clock_ticks t(1), where socket = "''/s''" and info = demo_looks and dial = None
      and c = demo_answers and s = 0] unfolding t(2) by auto
qed

text \<open>
  The properties of the reports: a configuration in use is not overwritten, and a report of one tells no secret.
\<close>

subsection \<open>init\<close>

lemma Default_no_floor: "Default V = Inr cfg \<Longrightarrow> c_MinFreeSpace cfg = 0"
  by (auto simp: Default_def default_with_def Let_def split: sum.splits)

lemma Template_returns: "c_MinFreeSpace c = 0 \<Longrightarrow> Template c \<noteq> None"
  by (simp add: Template_def Size_String_def)

text \<open>C36. \<^verbatim>\<open>torrnado init\<close> always returns and touches no file but the one it is for; without \<^verbatim>\<open>--force\<close> it leaves
  that one too as it was if it was there; and when it reports success, and was not asked to print, the file holds the
  whole template of the defaults.\<close>

theorem init_keeps_a_file_that_is_there:
  assumes "initPath V flag = Inr path"
  shows "case newInitCmd V flag I force stdout files of
      None \<Rightarrow> False
    | Some (r, out, files') \<Rightarrow> (\<forall>p. p \<noteq> path \<longrightarrow> files' p = files p) \<and>
        (files path \<noteq> None \<and> \<not> force \<longrightarrow> files' = files) \<and>
        (r = Inr () \<and> \<not> stdout \<longrightarrow> (\<exists>cfg. Default V = Inr cfg \<and> files' path = Template cfg))"
proof (cases "Default V")
  case (Inl err)
  then show ?thesis using assms by (simp add: newInitCmd_def)
next
  case (Inr cfg)
  obtain doc where doc: "Template cfg = Some doc" using Template_returns [OF Default_no_floor [OF Inr]] by blast
  obtain r out f where run: "runInit (I path) path doc force stdout (files path) = (r, out, f)" by (metis prod_cases3)
  have "(files path \<noteq> None \<and> \<not> force \<longrightarrow> f = files path) \<and> (r = Inr () \<and> \<not> stdout \<longrightarrow> f = Some doc)"
    using run by (auto simp: runInit_def split: if_splits option.splits prod.splits)
  then show ?thesis using assms by (auto simp: newInitCmd_def Inr doc run)
qed

subsection \<open>config\<close>

text \<open>Two tables of sources that differ in their secrets alone.\<close>

definition like_agg :: "Aggregator \<Rightarrow> Aggregator \<Rightarrow> bool" where
  "like_agg a b \<longleftrightarrow> ag_URL a = ag_URL b \<and> (ag_APIKey a = [] \<longleftrightarrow> ag_APIKey b = [])"

definition like_search :: "SearchTable \<Rightarrow> SearchTable \<Rightarrow> bool" where
  "like_search s t \<longleftrightarrow> like_agg (sr_Jackett s) (sr_Jackett t) \<and> like_agg (sr_Prowlarr s) (sr_Prowlarr t) \<and>
     (ru_Username (sr_Rutracker s) = [] \<longleftrightarrow> ru_Username (sr_Rutracker t) = []) \<and>
     (ru_Password (sr_Rutracker s) = [] \<longleftrightarrow> ru_Password (sr_Rutracker t) = []) \<and>
     (ru_Session (sr_Rutracker s) = [] \<longleftrightarrow> ru_Session (sr_Rutracker t) = [])"

text \<open>C37. The report of the configuration tells no secret: it depends on the API keys, the user name, the password and the
  session cookie only through whether each is set.\<close>

theorem a_config_report_tells_no_secret:
  assumes "like_search (fileConfig.c_Search cfg) sc"
  shows "writeConfigReport (cfg\<lparr>fileConfig.c_Search := sc\<rparr>) path there themes = writeConfigReport cfg path there themes"
proof -
  have "searchText sc = searchText (fileConfig.c_Search cfg)"
    using assms by (simp add: like_search_def like_agg_def searchText_def Aggregator_Enabled_def Rutracker_Enabled_def)
  then show ?thesis by (simp add: writeConfigReport_def)
qed

subsection \<open>Versions and limits\<close>

text \<open>A short commit of a changed tree loses the end of its mark.\<close>

lemma a_short_commit_loses_its_mark: "shortCommit ''abc1234-dirty'' = ''abc1234-dirt''"
  by (simp add: shortCommit_def str_cut_def)

text \<open>Unlike the other subcommands, \<^verbatim>\<open>seed-limit\<close> gives up at the first torrent that refuses.\<close>

lemma seed_limits_give_up:
  "c_SetSeedLimit c k r t s = (Inl err, s') \<Longrightarrow> set_seed_limits c r t (k # ks) s = (Inl err, [], s')"
  by simp

subsection \<open>Witnesses\<close>

definition demo_home :: environ where
  "demo_home = \<lparr>ev_ConfigHome = [], ev_DataHome = [], ev_Home = ''/h'', ev_Darwin = False\<rparr>"

definition demo_init :: init_host where
  "demo_init = \<lparr>ih_mkdir = None, ih_open = None, ih_write = (3, Some ''disk full''), ih_close = None\<rparr>"

theorem init_keeps_a_file_that_is_there_witness:
  "\<exists>r out. newInitCmd demo_home ''/c'' (\<lambda>_. demo_init) False False [''/c'' \<mapsto> ''theme = 1''] = Some (r, out, [''/c'' \<mapsto> ''theme = 1'']) \<and>
     r \<noteq> Inr ()"
proof -
  have p: "initPath demo_home ''/c'' = Inr ''/c''" by (simp add: initPath_def)
  note init = init_keeps_a_file_that_is_there [OF p, where I = "\<lambda>_. demo_init" and force = False and stdout = False
      and files = "[''/c'' \<mapsto> ''theme = 1'']"]
  obtain r out fs where n: "newInitCmd demo_home ''/c'' (\<lambda>_. demo_init) False False [''/c'' \<mapsto> ''theme = 1''] = Some (r, out, fs)"
    using init by (cases "newInitCmd demo_home ''/c'' (\<lambda>_. demo_init) False False [''/c'' \<mapsto> ''theme = 1'']") auto
  have fs: "fs = [''/c'' \<mapsto> ''theme = 1'']" using init unfolding n by simp
  have "r \<noteq> Inr ()"
    using n by (auto simp: newInitCmd_def p runInit_def demo_init_def split: sum.splits option.splits)
  then show ?thesis using n fs by blast
qed

definition demo_secret :: "string \<Rightarrow> SearchTable" where
  "demo_secret k = \<lparr>sr_Jackett = \<lparr>ag_URL = ''http://j'', ag_APIKey = k\<rparr>, sr_Prowlarr = no_aggregator,
     sr_Rutracker = \<lparr>ru_Username = [], ru_Password = [], ru_Session = k\<rparr>\<rparr>"

definition demo_told :: "string \<Rightarrow> fileConfig" where
  "demo_told k = (default_with demo_home ''/h/d'' ''/h/s'' ''/h/t'')\<lparr>fileConfig.c_Search := demo_secret k\<rparr>"

theorem a_config_report_tells_no_secret_witness:
  "demo_told ''s3cret'' \<noteq> demo_told ''other'' \<and> writeConfigReport (demo_told ''s3cret'') ''/c'' True None \<noteq> None \<and>
   writeConfigReport (demo_told ''other'') ''/c'' True None = writeConfigReport (demo_told ''s3cret'') ''/c'' True None"
proof -
  have "like_search (fileConfig.c_Search (demo_told ''s3cret'')) (demo_secret ''other'')"
    by (simp add: like_search_def like_agg_def demo_secret_def demo_told_def)
  from a_config_report_tells_no_secret [OF this, of "''/c''" True None]
  have e: "writeConfigReport (demo_told ''other'') ''/c'' True None = writeConfigReport (demo_told ''s3cret'') ''/c'' True None"
    by (simp add: demo_told_def)
  have "fileConfig.c_Search (demo_told k) = demo_secret k" for k by (simp add: demo_told_def)
  moreover have "demo_secret ''s3cret'' \<noteq> demo_secret ''other''" by (simp add: demo_secret_def)
  ultimately have d: "demo_told ''s3cret'' \<noteq> demo_told ''other''" by metis
  have "writeConfigReport (demo_told ''s3cret'') ''/c'' True None \<noteq> None"
    by (simp add: writeConfigReport_def demo_told_def default_with_def Size_String_def Rate_String_def Let_def)
  then show ?thesis using d e by simp
qed

end
