(* ===== verification/TuiPanes.thy ===== *)
theory TuiPanes
  imports TuiKeys
begin

text \<open>
  What is drawn in the panes beside the sidebar: the list (\<^verbatim>\<open>internal/tui/list.go\<close>), the detail pane
  (\<^verbatim>\<open>detail.go\<close>) and its map of pieces (\<^verbatim>\<open>pieces.go\<close>). \<open>None\<close> is a drawing that crashes: a size whose text never
  comes, or a bar of a negative length, which \<^verbatim>\<open>strings.Repeat\<close> refuses.
\<close>

definition newline :: string where "newline = [CHR 0x0A]"

text \<open>The characters drawn, as UTF-8.\<close>

definition glyph :: "nat list \<Rightarrow> string" where "glyph = map char_of"

definition arrow_down :: string where "arrow_down = glyph [226, 134, 147]"
definition arrow_up :: string where "arrow_up = glyph [226, 134, 145]"
definition bar_full :: string where "bar_full = glyph [226, 148, 129]"
definition bar_track :: string where "bar_track = glyph [226, 148, 128]"
definition full_block :: string where "full_block = glyph [226, 150, 136]"

definition formatRate :: "f64 \<Rightarrow> string option" where "formatRate = format_Rate"

definition formatETA :: "duration \<Rightarrow> string" where "formatETA = format_ETA"

text \<open>\<^verbatim>\<open>strings.Repeat\<close>, which panics on a negative count.\<close>

definition repeat_text :: "string \<Rightarrow> int \<Rightarrow> string option" where
  "repeat_text s n = (if n < 0 then None else Some (str_repeat s (nat n)))"

subsection \<open>Cells of the list\<close>

definition f64_floor :: "f64 \<Rightarrow> f64" where
  "f64_floor x = (case x of Fin a \<Rightarrow> Fin (of_int \<lfloor>a\<rfloor>) | _ \<Rightarrow> x)"

definition percentCell :: "f64 \<Rightarrow> string" where
  "percentCell fr = itoa (int_of_f64 (f64_floor (f64_mul fr (Fin 100))))"

definition clamp_fraction :: "f64 \<Rightarrow> f64" where
  "clamp_fraction fr = (let f = (if f64_lt (Fin 1) fr then Fin 1 else fr) in if f64_lt f (Fin 0) then Fin 0 else f)"

definition progressCell :: "tui_host \<Rightarrow> f64 \<Rightarrow> int \<Rightarrow> string option" where
  "progressCell H fr0 barW = (let
     fr = clamp_fraction fr0;
     pct = padRight (v_width H) (percentCell fr @ ''%'') colPercent;
     filled = int_of_f64 (f64_mul fr (f64_of_int barW)) in
   if barW \<le> 0 then Some pct
   else Option.bind (repeat_text bar_full filled) (\<lambda>a.
     map_option (\<lambda>b. a @ b @ '' '' @ pct) (repeat_text bar_track (barW - filled))))"

definition rateCell :: "string \<Rightarrow> f64 \<Rightarrow> string option" where
  "rateCell prefix bps = (if f64_lt bps (Fin 1) then Some [] else map_option (\<lambda>s. prefix @ s) (formatRate bps))"

definition etaCell :: "TorrentSnapshot \<Rightarrow> string" where
  "etaCell t = (if snap_ETA t \<le> 0 then [] else formatETA (snap_ETA t))"

subsection \<open>The list\<close>

definition renderListHeader :: "tui_host \<Rightarrow> Model \<Rightarrow> panes \<Rightarrow> string" where
  "renderListHeader H m p = (let (nameW, wide) = nameWidth (p_listContentW p); bar = barWidth (p_listContentW p);
     pad = padRight (v_width H) in
   paint H m ColHeader (blanks (colMark + colGap) @ pad ''Name'' nameW @ '' '' @ pad (progressHeading bar) (progressWidthWith bar) @
     (if wide then '' '' @ pad ''Size'' colSize @ '' '' @ pad ''Status'' colStatus @ '' '' @ pad (arrow_down @ '' Speed'') colDown @
        '' '' @ pad (arrow_up @ '' Speed'') colUp @ '' '' @ pad ''ETA'' colETA else [])))"

definition wide_cells :: "tui_host \<Rightarrow> TorrentSnapshot \<Rightarrow> string option" where
  "wide_cells H t = (let pad = padRight (v_width H) in
     Option.bind (Bytes (snap_TotalLength t)) (\<lambda>size.
     Option.bind (rateCell (arrow_down @ '' '') (snap_DownloadBPS t)) (\<lambda>down.
     map_option (\<lambda>upr. '' '' @ pad size colSize @ '' '' @ pad (StatusText t) colStatus @ '' '' @ pad down colDown @
         '' '' @ pad upr colUp @ '' '' @ pad (etaCell t) colETA)
       (rateCell (arrow_up @ '' '') (snap_UploadBPS t)))))"

definition row_style :: "bool \<Rightarrow> bool \<Rightarrow> tui_style" where
  "row_style isCursor selected = (if isCursor \<and> selected then CursorSelectedRow
     else if isCursor then CursorRow else if selected then SelectedRow else RowStyle)"

definition renderRow :: "tui_host \<Rightarrow> Model \<Rightarrow> panes \<Rightarrow> TorrentSnapshot \<Rightarrow> bool \<Rightarrow> string option" where
  "renderRow H m p t isCursor = (let (nameW, wide) = nameWidth (p_listContentW p); selected = snap_ID t \<in> u_selected m in
     Option.bind (progressCell H (snap_Progress t) (barWidth (p_listContentW p))) (\<lambda>progress.
     map_option (\<lambda>rest. paint H m (row_style isCursor selected)
         ((if isCursor then ''>'' else '' '') @ (if selected then ''*'' else '' '') @ '' '' @
          padRight (v_width H) (tui_truncate (v_width H) (snap_Name t) nameW) nameW @ '' '' @ progress @ rest))
       (if wide then wide_cells H t else Some [])))"

type_synonym helpEntry = "string \<times> string"

definition keyPair :: "string \<Rightarrow> string \<Rightarrow> string" where
  "keyPair primary alt = (if alt = [] \<or> alt = primary then displayKey primary
     else displayKey primary @ '' / '' @ displayKey alt)"

definition widest :: "tui_host \<Rightarrow> string list \<Rightarrow> int" where
  "widest H ss = foldl (\<lambda>w s. if w < v_width H s then v_width H s else w) 0 ss"

definition renderEmptyList :: "tui_host \<Rightarrow> Model \<Rightarrow> int \<Rightarrow> int \<Rightarrow> string" where
  "renderEmptyList H m width height = (let
     rows = [('':add <magnet|file|dir>'', ''add a torrent without leaving here''),
       (''torrnado add <magnet>'', ''or from a shell, interface or not''),
       (keyPair (k_Help (u_keymap m)) (k_HelpAlt (u_keymap m)), ''every key and command'')];
     keyW = widest H (map fst rows)
   in str_join (clampLines ([paint H m MutedStyle '' no torrents yet'', []] @
       map (\<lambda>(key, desc). ''   '' @ paint H m RowStyle (padRight (v_width H) key keyW) @ ''  '' @
         paint H m MutedStyle (tui_truncate (v_width H) desc (width - keyW - 5))) rows) height) newline)"

definition list_rows :: "tui_host \<Rightarrow> Model \<Rightarrow> panes \<Rightarrow> TorrentSnapshot list \<Rightarrow> int \<Rightarrow> int \<Rightarrow> string list option" where
  "list_rows H m p visible start stop = those (map (\<lambda>i. renderRow H m p (visible ! nat i) (i = u_cursor m)) [start..stop - 1])"

definition renderListBody :: "tui_host \<Rightarrow> Model \<Rightarrow> panes \<Rightarrow> TorrentSnapshot list \<Rightarrow> int \<Rightarrow> string option" where
  "renderListBody H m p visible paneH = (let height = paneH - 1 in
     if u_torrents m = [] then Some (renderEmptyList H m (p_listContentW p) height)
     else if visible = [] then Some (paint H m MutedStyle ('' nothing matches '' @
       (if u_labelFilter m \<noteq> [] then ''label '' @ u_labelFilter m else ''status '' @ filter_name (u_filter m))))
     else let (start, stop) = scrollWindow (u_cursor m) (int (List.length visible)) (go_div height rowLines)
       in map_option (\<lambda>ls. str_join (clampLines ls height) newline) (list_rows H m p visible start stop))"

subsection \<open>The map of pieces\<close>

datatype cellState = cellComplete | cellChecking | cellPartial | cellUnknown | cellMissing

primrec cell_rank :: "cellState \<Rightarrow> nat" where
  "cell_rank cellComplete = 0"
| "cell_rank cellChecking = 1"
| "cell_rank cellPartial = 2"
| "cell_rank cellUnknown = 3"
| "cell_rank cellMissing = 4"

lemma cell_rank_inject [simp]: "cell_rank a = cell_rank b \<longleftrightarrow> a = b"
  by (cases a; cases b) simp_all

instantiation cellState :: linorder
begin

definition less_eq_cellState :: "cellState \<Rightarrow> cellState \<Rightarrow> bool" where "less_eq_cellState a b \<longleftrightarrow> cell_rank a \<le> cell_rank b"
definition less_cellState :: "cellState \<Rightarrow> cellState \<Rightarrow> bool" where "less_cellState a b \<longleftrightarrow> cell_rank a < cell_rank b"

instance by standard (auto simp: less_eq_cellState_def less_cellState_def)

end

definition runState :: "PieceRun \<Rightarrow> cellState" where
  "runState r = (if run_Complete r then cellComplete else if run_Checking r then cellChecking
     else if run_Partial r then cellPartial else if \<not> run_Known r then cellUnknown else cellMissing)"

text \<open>The cell a piece falls into.\<close>

definition cell_of :: "int \<Rightarrow> int \<Rightarrow> int \<Rightarrow> int" where
  "cell_of numPieces cs piece = (let c = go_div (piece * cs) numPieces in if cs \<le> c then cs - 1 else c)"

text \<open>One run: \<open>n\<close> more pieces in state \<open>st\<close>, from piece \<open>piece\<close> on.\<close>

fun mark_pieces :: "int \<Rightarrow> int \<Rightarrow> cellState \<Rightarrow> nat \<Rightarrow> int \<Rightarrow> cellState list \<Rightarrow> int \<times> cellState list" where
  "mark_pieces numPieces cs st 0 piece out = (piece, out)"
| "mark_pieces numPieces cs st (Suc n) piece out =
     (if piece < numPieces then let c = nat (cell_of numPieces cs piece)
        in mark_pieces numPieces cs st n (piece + 1) (if out ! c < st then out[c := st] else out)
      else (piece, out))"

definition mark_run :: "int \<Rightarrow> int \<Rightarrow> PieceRun \<Rightarrow> int \<times> cellState list \<Rightarrow> int \<times> cellState list" where
  "mark_run numPieces cs r po = mark_pieces numPieces cs (runState r) (nat (run_Length r)) (fst po) (snd po)"

definition downsample :: "PieceRun list \<Rightarrow> int \<Rightarrow> int \<Rightarrow> cellState list" where
  "downsample rs numPieces cs = (if cs \<le> 0 then []
     else snd (fold (mark_run numPieces cs) rs (0, replicate (nat cs) cellComplete)))"

fun pieceStyle :: "cellState \<Rightarrow> tui_style" where
  "pieceStyle cellComplete = SuccessStyle"
| "pieceStyle cellChecking = WarningStyle"
| "pieceStyle cellPartial = WarningStyle"
| "pieceStyle cellUnknown = MutedStyle"
| "pieceStyle cellMissing = ProgressTrack"

definition piece_cells :: "tui_host \<Rightarrow> Model \<Rightarrow> nat \<Rightarrow> cellState list \<Rightarrow> string" where
  "piece_cells H m width sts = concat (map (\<lambda>(i, st).
     (if 0 < i \<and> i mod width = 0 then newline else []) @ paint H m (pieceStyle st) full_block) (enumerate 0 sts))"

definition renderPieceMap :: "tui_host \<Rightarrow> Model \<Rightarrow> EngineTypes.TorrentDetail \<Rightarrow> int \<Rightarrow> int \<Rightarrow> string" where
  "renderPieceMap H m d width height =
     (if width \<le> 0 \<or> height \<le> 0 then []
      else if detail_NumPieces d = 0 \<or> detail_Pieces d = [] then paint H m MutedStyle '' waiting for metadata...''
      else piece_cells H m (nat width)
        (downsample (detail_Pieces d) (detail_NumPieces d) (min (width * height) (detail_NumPieces d))))"

definition pieceSummary :: "EngineTypes.TorrentDetail \<Rightarrow> string option" where
  "pieceSummary d = (if detail_NumPieces d = 0 then Some []
     else let rs = detail_Pieces d;
       verified = (\<Sum>r\<leftarrow>filter run_Complete rs. run_Length r);
       unknown = (\<Sum>r\<leftarrow>filter (\<lambda>r. \<not> run_Complete r \<and> \<not> run_Known r) rs. run_Length r)
     in map_option (\<lambda>len. '' '' @ itoa verified @ ''/'' @ itoa (detail_NumPieces d) @ '' pieces verified '' @ glyph [195, 151] @ '' '' @ len @
         (if 0 < unknown then ''  ('' @ itoa unknown @ '' unknown)'' else []))
       (Bytes (detail_PieceLength d)))"

subsection \<open>The detail pane\<close>

definition peerColClient :: int where "peerColClient = 20"
definition peerColPieces :: int where "peerColPieces = 13"
definition peerColSource :: int where "peerColSource = 9"
definition peerColSpeed :: int where "peerColSpeed = 22"
definition peerColFixed :: int where
  "peerColFixed = colGap + 4 * colGap + peerColClient + peerColPieces + peerColSource + peerColSpeed"
definition fileColSize :: int where "fileColSize = 9"
definition fileColPrio :: int where "fileColPrio = 8"
definition fileColPct :: int where "fileColPct = 5"
definition fileColMark :: int where "fileColMark = 1"
definition fileColFixed :: int where
  "fileColFixed = fileColMark + 4 * colGap + fileColSize + fileColPct + fileColPrio"

definition renderDetailTabs :: "tui_host \<Rightarrow> Model \<Rightarrow> panes \<Rightarrow> string" where
  "renderDetailTabs H m p = tui_truncate (v_width H) (paint H m MutedStyle ('' '' @ glyph [226, 148, 128] @ '' '') @
     str_join (map (\<lambda>(t, name). if t = u_detailTab m then paint H m TabActive (''['' @ name @ '']'')
       else paint H m TabInactive ('' '' @ name @ '' '')) detailTabNames) ''  '') (p_detailContentW p)"

definition peer_line :: "tui_host \<Rightarrow> int \<Rightarrow> PeerInfo \<Rightarrow> string option" where
  "peer_line H addrW peer = (let padr = padRight (v_width H); padl = padLeft (v_width H) in
     Option.bind (formatRate (peer_DownloadBPS peer)) (\<lambda>down. map_option (\<lambda>upr.
       '' '' @ padr (peer_Addr peer) addrW @ '' '' @
       padr (peer_Client peer @ (if peer_Encrypted peer then '' '' @ glyph [240, 159, 148, 146] else [])) peerColClient @
       '' '' @ padl (itoa (peer_PiecesHave peer) @ ''/'' @ itoa (peer_PiecesTotal peer)) peerColPieces @
       '' '' @ padr (peer_Source peer) peerColSource @
       '' '' @ padr (arrow_down @ '' '' @ down @ '' '' @ arrow_up @ '' '' @ upr) peerColSpeed)
     (formatRate (peer_UploadBPS peer))))"

definition peersTab :: "tui_host \<Rightarrow> Model \<Rightarrow> panes \<Rightarrow> int \<Rightarrow> string list option" where
  "peersTab H m p height = (let peers = detail_Peers (u_detail m); w = p_detailContentW p; addrW = max 8 (w - peerColFixed);
     padr = padRight (v_width H); padl = padLeft (v_width H);
     header = '' '' @ padr ''Address'' addrW @ '' '' @ padr ''Client'' peerColClient @ '' '' @ padl ''Pieces'' peerColPieces @
       '' '' @ padr ''Source'' peerColSource @ '' '' @ padr ''Speed'' peerColSpeed;
     head = [paint H m MutedStyle ('' Peers: '' @ itoa (int (List.length peers))), paint H m ColHeader (tui_truncate (v_width H) header w)];
     (start, stop) = scrollWindow (u_detailScroll m) (int (List.length peers)) (height - 2) in
   if peers = [] then Some (head @ [paint H m MutedStyle '' (no connected peers)''])
   else map_option (\<lambda>rows. head @ map (\<lambda>row. paint H m RowStyle (tui_truncate (v_width H) row w)) rows)
     (those (map (peer_line H addrW) (take (nat (stop - start)) (drop (nat start) peers)))))"

definition fileProgress :: "FileInfo \<Rightarrow> f64" where
  "fileProgress f = (if file_Length f = 0 then Fin 0 else f64_div (f64_of_int (file_Completed f)) (f64_of_int (file_Length f)))"

definition mediaExtensions :: "string list" where
  "mediaExtensions = [''.mkv'', ''.mp4'', ''.avi'', ''.mov'', ''.m4v'', ''.webm'', ''.flv'', ''.wmv'', ''.mpg'', ''.mpeg'',
     ''.ts'', ''.m2ts'', ''.ogv'', ''.mp3'', ''.flac'', ''.m4a'', ''.ogg'', ''.opus'', ''.wav'', ''.aac'']"

definition mediaMarker :: "string \<Rightarrow> string" where
  "mediaMarker p = (if to_lower (path_ext p) \<in> set mediaExtensions then glyph [226, 150, 184] else '' '')"

definition file_row :: "tui_host \<Rightarrow> Model \<Rightarrow> panes \<Rightarrow> int \<Rightarrow> FileInfo \<Rightarrow> string option" where
  "file_row H m p i f = (let w = p_detailContentW p; pathW = max 8 (w - fileColFixed); padr = padRight (v_width H); padl = padLeft (v_width H);
     marked = (i = u_detailCursor m \<and> u_focus m = focusDetail);
     style = (if marked then CursorRow else if file_Priority f = PriorityNone then MutedStyle else RowStyle) in
   map_option (\<lambda>size. paint H m style (tui_truncate (v_width H)
       ((if marked then ''>'' else '' '') @ '' '' @ padr (mediaMarker (file_Path f) @ file_Path f) pathW @
        '' '' @ padl size fileColSize @ '' '' @ padl (percentCell (fileProgress f)) fileColPct @
        '' '' @ padr (priority_String (file_Priority f)) fileColPrio) w))
     (Bytes (file_Length f)))"

definition filesTab :: "tui_host \<Rightarrow> Model \<Rightarrow> panes \<Rightarrow> int \<Rightarrow> string list option" where
  "filesTab H m p height = (let files = detail_Files (u_detail m); w = p_detailContentW p; pathW = max 8 (w - fileColFixed);
     padr = padRight (v_width H); padl = padLeft (v_width H);
     head = [paint H m ColHeader (tui_truncate (v_width H) (blanks (fileColMark + colGap) @ padr ''File'' pathW @
       '' '' @ padl ''Size'' fileColSize @ '' '' @ padl ''%'' fileColPct @ '' '' @ padr ''Priority'' fileColPrio) w)];
     (start, stop) = scrollWindow (u_detailCursor m) (int (List.length files)) (height - 1) in
   if files = [] then Some (head @ [paint H m MutedStyle '' (metadata not yet available)''])
   else map_option (\<lambda>rows. head @ rows) (those (map (\<lambda>i. file_row H m p i (files ! nat i)) [start..stop - 1])))"

definition piecesTab :: "tui_host \<Rightarrow> Model \<Rightarrow> panes \<Rightarrow> int \<Rightarrow> string list option" where
  "piecesTab H m p height = map_option (\<lambda>summary. let bitmap = renderPieceMap H m (u_detail m) (p_detailContentW p) (height - 1)
     in paint H m MutedStyle summary # (if bitmap \<noteq> [] then str_split (CHR 0x0A) bitmap else [])) (pieceSummary (u_detail m))"

definition renderDetailBody :: "tui_host \<Rightarrow> Model \<Rightarrow> panes \<Rightarrow> string option" where
  "renderDetailBody H m p = (let height = p_detailContentH p - 1 in
     if height \<le> 0 then Some []
     else if cursorTorrent m = None then Some []
     else if \<not> u_detailLoaded m then Some (paint H m MutedStyle '' loading...'')
     else map_option (\<lambda>ls. str_join (clampLines ls height) newline)
       (case u_detailTab m of tabPieces \<Rightarrow> piecesTab H m p height | tabPeers \<Rightarrow> peersTab H m p height | tabFiles \<Rightarrow> filesTab H m p height))"

end
