(* ===== verification/TuiView.thy ===== *)
theory TuiView
  imports TuiPanes
begin

text \<open>
  The whole screen: \<^verbatim>\<open>View\<close> and the footer (\<^verbatim>\<open>internal/tui/view.go\<close>), the help screen (\<^verbatim>\<open>help.go\<close>, with
  the mark of \<^verbatim>\<open>internal/branding/logo.go\<close>), the search window (\<^verbatim>\<open>find.go\<close>), the theme picker
  (\<^verbatim>\<open>themepicker.go\<close>) and how a window is laid over the frame (\<^verbatim>\<open>overlay.go\<close>). What lays blocks of text
  beside or above each other, frames them and cuts styled lines is the terminal library's: a record of functions.
\<close>

record canvas =
  cv_stack :: "string list \<Rightarrow> string"
  cv_beside :: "string list \<Rightarrow> string"
  cv_centred :: "string list \<Rightarrow> string"
  cv_pane :: "Theme \<Rightarrow> bool \<Rightarrow> int \<Rightarrow> int option \<Rightarrow> string \<Rightarrow> string"
  cv_wide :: "int \<Rightarrow> string \<Rightarrow> string"
  cv_height :: "string \<Rightarrow> int"
  cv_cells :: "string \<Rightarrow> int"
  cv_cut :: "string \<Rightarrow> int \<Rightarrow> string"
  cv_cut_left :: "string \<Rightarrow> int \<Rightarrow> string"

definition lines_of :: "string \<Rightarrow> string list" where "lines_of = str_split (CHR 0x0A)"

definition newlines_in :: "string \<Rightarrow> int" where
  "newlines_in s = int (List.length (filter (\<lambda>c. c = CHR 0x0A) s))"

subsection \<open>The mark\<close>

definition Logo :: string where
  "Logo = glyph [226, 149, 173, 226, 148, 128, 226, 148, 128, 226, 149, 174, 10,
     226, 148, 130, 226, 149, 173, 226, 149, 175, 10, 226, 149, 176, 226, 149, 175]"

definition LogoLines :: "string \<Rightarrow> string list" where "LogoLines logo = lines_of logo"

definition logo_Width :: "string \<Rightarrow> nat" where
  "logo_Width logo = foldl (\<lambda>w line. let n = List.length (utf8 line) in if w < n then n else w) 0 (LogoLines logo)"

subsection \<open>Help\<close>

definition helpTwoColumnWidth :: int where "helpTwoColumnWidth = 100"
definition helpGutter :: int where "helpGutter = 4"

definition helpHint :: "Model \<Rightarrow> string" where
  "helpHint m = (let k = (if k_HelpAlt (u_keymap m) = [] then k_Help (u_keymap m) else k_HelpAlt (u_keymap m))
     in if k = [] then [] else displayKey k @ '' help'')"

definition paletteHelp :: "helpEntry list" where
  "paletteHelp = map (\<lambda>(_, usage, desc, _). (usage, desc)) paletteCommands"

definition writeHelpSection :: "tui_host \<Rightarrow> Model \<Rightarrow> string \<Rightarrow> helpEntry list \<Rightarrow> int \<Rightarrow> string" where
  "writeHelpSection H m title entries width = (let keyW = widest H (map fst entries) in
     paint H m AccentStyle title @ newline @
     concat (map (\<lambda>(key, desc). ''  '' @ paint H m RowStyle (padRight (v_width H) key keyW) @ ''  '' @
       paint H m MutedStyle (tui_truncate (v_width H) desc (width - keyW - 4)) @ newline) entries) @ newline)"

definition helpNaturalWidth :: "tui_host \<Rightarrow> helpEntry list list \<Rightarrow> int" where
  "helpNaturalWidth H sections = widest H (map fst (concat sections)) + widest H (map snd (concat sections)) + 4"

definition helpBody :: "tui_host \<Rightarrow> canvas \<Rightarrow> Model \<Rightarrow> int \<Rightarrow> int \<Rightarrow> helpEntry list \<Rightarrow> helpEntry list \<Rightarrow> helpEntry list \<Rightarrow> string" where
  "helpBody H K m width height nav actions commands = (let
     trim = trim_right_char (CHR 0x0A);
     one = trim (writeHelpSection H m ''NAVIGATION'' nav width @ writeHelpSection H m ''ACTIONS'' actions width @
       writeHelpSection H m ''COMMANDS'' commands width) @ newline;
     leftNeed = helpNaturalWidth H [nav, actions]; rightNeed = helpNaturalWidth H [commands];
     leftW = (if leftNeed + rightNeed + helpGutter \<le> width then leftNeed
       else go_div ((width - helpGutter) * leftNeed) (leftNeed + rightNeed));
     rightW = width - leftW - helpGutter;
     left = writeHelpSection H m ''NAVIGATION'' nav leftW @ writeHelpSection H m ''ACTIONS'' actions leftW;
     right = writeHelpSection H m ''COMMANDS'' commands rightW
   in if width < helpTwoColumnWidth \<or> height \<le> 0 \<or> newlines_in one + 3 \<le> height then one
      else cv_beside K [cv_wide K (leftW + helpGutter) (trim left), trim right] @ newline)"

definition helpHeader :: "tui_host \<Rightarrow> canvas \<Rightarrow> Model \<Rightarrow> int \<Rightarrow> int \<Rightarrow> string" where
  "helpHeader H K m height bodyLines =
     (if 0 < height \<and> height < bodyLines + int (List.length (LogoLines Logo)) + 2 then paint H m TitleStyle ''torrnado - keys''
      else cv_centred K [paint H m TitleStyle Logo, ''   '', paint H m TitleStyle ''torrnado'' @ newline @ paint H m MutedStyle ''keys & commands''])"

definition help_nav :: "KeyMap \<Rightarrow> helpEntry list" where
  "help_nav km =
    [(k_Up km @ '' / '' @ k_Down km, ''move up / down''),
     (k_Top km @ '' / '' @ k_Bottom km, ''jump to top / bottom''),
     (displayKey (k_FocusNext km) @ '' / '' @ displayKey (k_FocusPrev km), ''move focus between the panes''),
     (displayKey (k_TabNext km) @ '' / '' @ displayKey (k_TabPrev km) @ '', '' @ displayKey (k_TabPieces km) @ ''/'' @
        displayKey (k_TabPeers km) @ ''/'' @ displayKey (k_TabFiles km), ''switch the detail pane'' @ [CHR 0x27] @ ''s tab''),
     (k_Search km, ''search torrents by name''),
     (displayKey (k_Select km), ''mark the torrent under the cursor; on the Files tab, skip that file''),
     (k_Detail km, ''move focus into the detail pane''),
     (k_Back km, ''focus back to the list, then clear selection, search, filter'')]"

definition help_actions :: "KeyMap \<Rightarrow> helpEntry list" where
  "help_actions km =
    [(k_Remove km @ '', dd'', ''remove the marked torrents, keeping the data''),
     (k_RemoveData km, ''remove them and delete the data too''),
     (k_Purge km, ''delete their data, keeping the torrents in the list''),
     (k_Pause km, ''pause or resume''),
     (k_Recheck km, ''re-verify the data on disk''),
     (''+ / -'', ''raise or lower the priority of the file under the cursor''),
     (k_Command km, ''open the command palette''),
     (k_ToggleMouse km, ''hand the mouse back to the terminal, to select and copy text''),
     (k_Preview km, ''stream to your player: the file under the cursor, or the biggest one''),
     (k_Open km, ''open the torrent'' @ [CHR 0x27] @ ''s folder in your file manager''),
     (k_Find km, ''search a configured indexer for new torrents to add''),
     (keyPair (k_Help km) (k_HelpAlt km), ''show this screen''),
     (k_Quit km, ''quit (the daemon keeps running)''),
     (''ctrl+c'', ''the same, from any prompt or overlay'')]"

definition renderHelp :: "tui_host \<Rightarrow> canvas \<Rightarrow> Model \<Rightarrow> int \<Rightarrow> int \<Rightarrow> string" where
  "renderHelp H K m width height = (let
     body = helpBody H K m width height (help_nav (u_keymap m)) (help_actions (u_keymap m)) paletteHelp;
     ls = lines_of (helpHeader H K m height (newlines_in body + 1) @ newline @ newline @ body);
     clipped = (0 < height \<and> height \<le> int (List.length ls));
     note = (if clipped then ''(clipped - resize the terminal)'' else ''Keys reflect any [keybinds] overrides in config.toml.'')
   in str_join ((if clipped then take (nat (height - 1)) ls else ls) @
        [paint H m MutedStyle (tui_truncate (v_width H) note width)]) newline)"

subsection \<open>The footer\<close>

definition minHintW :: int where "minHintW = 12"
definition footerRateW :: int where "footerRateW = 14"
definition findPrompt :: string where "findPrompt = ''find:''"

definition renderPrompt :: "tui_host \<Rightarrow> Model \<Rightarrow> string \<Rightarrow> string \<Rightarrow> int \<Rightarrow> string list \<Rightarrow> string" where
  "renderPrompt H m sigil buf width hints = (let W = v_width H; room = width - 2 - W sigil; shown = truncateTail W buf room;
     line = paint H m AccentStyle ('' '' @ sigil) @ paint H m BaseStyle shown @ paint H m AccentStyle full_block;
     spare = room - W shown - 3 in
   if room < 1 then tui_truncate W ('' '' @ sigil) width
   else if hints = [] \<or> spare < minHintW then line
   else line @ paint H m MutedStyle (blanks 3 @ tui_truncate W (candidateList hints) spare))"

definition footer_left :: "tui_host \<Rightarrow> GlobalStats \<Rightarrow> string option" where
  "footer_left H g = Option.bind (formatRate (glob_DownloadBPS g)) (\<lambda>down. map_option (\<lambda>upr.
     '' '' @ padRight (v_width H) (arrow_down @ '' '' @ down) footerRateW @ padRight (v_width H) (arrow_up @ '' '' @ upr) footerRateW @
     glyph [226, 148, 130] @ ''  '' @ itoa (glob_NumTorrents g) @ '' torrents'') (formatRate (glob_UploadBPS g)))"

definition footer_right :: "Model \<Rightarrow> string \<times> tui_style" where
  "footer_right m = (if u_status m \<noteq> [] then (u_status m, if u_statusIsErr m then StatusErr else StatusBar)
     else if u_mouseOff m then (''mouse off ('' @ displayKey (k_ToggleMouse (u_keymap m)) @ '')'', MutedStyle)
     else (helpHint m, MutedStyle))"

definition renderFooter :: "tui_host \<Rightarrow> Model \<Rightarrow> panes \<Rightarrow> string option" where
  "renderFooter H m p = (case u_mode m of
     modeSearch \<Rightarrow> Some (renderPrompt H m ''/'' (u_searchQuery m) (p_footerW p) [])
   | modeCommand \<Rightarrow> Some (renderPrompt H m '':'' (u_commandBuf m) (p_footerW p) (u_completions m))
   | modeFind \<Rightarrow> Some (renderPrompt H m findPrompt (u_findQuery m) (p_footerW p) [])
   | modeNormal \<Rightarrow>
       if u_showHelp m then Some (paint H m StatusBar '' press any key to close help'')
       else map_option (\<lambda>left. let W = v_width H; w = p_footerW p; (right, rightStyle) = footer_right m; gap = w - W left - W right - 1 in
         if 1 \<le> gap then tui_truncate W (paint H m StatusBar left @
             (if right \<noteq> [] then blanks gap @ paint H m rightStyle right @ '' '' else [])) w
         else if u_status m = [] then tui_truncate W (paint H m StatusBar left) w
         else paint H m (if u_statusIsErr m then StatusErr else StatusBar) (tui_truncate W ('' '' @ u_status m) w))
       (footer_left H (u_global m)))"

subsection \<open>The search window\<close>

definition findHeader :: "tui_host \<Rightarrow> int \<Rightarrow> bool \<Rightarrow> int \<Rightarrow> string" where
  "findHeader H titleW wide inner = (let pad = padRight (v_width H) in
     pad (tui_truncate (v_width H) (pad [] colFindNum @ '' '' @ pad ''TITLE'' titleW @
       (if wide then '' '' @ pad ''SIZE'' colFindSize @ '' '' @ pad ''SEEDS'' colFindPeers @ '' '' @ pad ''PEERS'' colFindPeers @
          '' '' @ pad ''TRACKER'' colFindTracker else [])) inner) inner)"

definition findRow :: "tui_host \<Rightarrow> Model \<Rightarrow> int \<Rightarrow> int \<Rightarrow> bool \<Rightarrow> int \<Rightarrow> string option" where
  "findRow H m i titleW wide inner = Option.bind (index_at (u_findResults m) i) (\<lambda>r. let W = v_width H; pad = padRight W;
       title = (if res_Title r = [] then ''(untitled)'' else res_Title r) @ (if res_Link r = [] then '' (no link)'' else []) in
     map_option (\<lambda>size. pad (tui_truncate W (pad ((if i = u_findCursor m then ''> '' else ''  '') @ itoa (i + 1)) colFindNum @ '' '' @
         pad (tui_truncate W title titleW) titleW @
         (if wide then '' '' @ pad size colFindSize @ '' '' @ pad (format_Count (res_Seeders r)) colFindPeers @
            '' '' @ pad (format_Count (res_Leechers r)) colFindPeers @
            '' '' @ pad (tui_truncate W (res_Tracker r) colFindTracker) colFindTracker else [])) inner) inner)
       (if 0 < res_Size r then Bytes (res_Size r) else Some ''-''))"

fun wrap_words :: "(string \<Rightarrow> int) \<Rightarrow> int \<Rightarrow> string \<Rightarrow> string list \<Rightarrow> string list" where
  "wrap_words W width line [] = [padRight W (tui_truncate W line width) width]"
| "wrap_words W width line (word # ws) =
     (if line = [] then wrap_words W width word ws
      else if W line + 1 + W word \<le> width then wrap_words W width (line @ '' '' @ word) ws
      else padRight W line width # wrap_words W width word ws)"

definition wrapTo :: "(string \<Rightarrow> int) \<Rightarrow> string \<Rightarrow> int \<Rightarrow> string" where
  "wrapTo W s width = (if width < 1 then s
     else str_join (concat (map (\<lambda>para. wrap_words W width [] (GoStrings.fields para)) (lines_of s))) newline)"

definition find_lines :: "tui_host \<Rightarrow> Model \<Rightarrow> int \<Rightarrow> int \<Rightarrow> bool \<Rightarrow> int \<Rightarrow> string list option" where
  "find_lines H m rows titleW wide inner = (let (start, stop) = scrollWindow (u_findCursor m) (int (List.length (u_findResults m))) rows in
     those (map (\<lambda>i. map_option (\<lambda>line. paint H m (if i = u_findCursor m then CursorRow else RowStyle) line)
       (findRow H m i titleW wide inner)) [start..stop - 1]))"

definition findBody :: "tui_host \<Rightarrow> Model \<Rightarrow> int \<Rightarrow> int \<Rightarrow> string option" where
  "findBody H m inner rows = (let trunc = (\<lambda>s. tui_truncate (v_width H) s inner); (titleW, wide) = findColumns inner in
     if u_findState m = findLoading then Some (paint H m MutedStyle (trunc (''searching'' @
         (if u_findSources m \<noteq> [] then '' '' @ str_join (u_findSources m) '', '' else []) @ '' for '' @ quoted (u_findQuery m) @ ''...'')) @ newline)
     else case u_findErr m of
       Some err \<Rightarrow> Some (paint H m ErrorStyle (wrapTo (v_width H) err inner) @ newline)
     | None \<Rightarrow>
         if u_findResults m = [] then Some (paint H m MutedStyle (trunc (''nothing matched '' @ quoted (u_findQuery m))) @ newline)
         else map_option (\<lambda>ls. concat (map (\<lambda>l. l @ newline) (paint H m ColHeader (findHeader H titleW wide inner) # ls @
             map (\<lambda>w. paint H m ErrorStyle (trunc ('' ! '' @ w))) (u_findWarnings m) @
             (if rows < int (List.length (u_findResults m)) then [paint H m MutedStyle (trunc ('' '' @ itoa (u_findCursor m + 1) @ '' of '' @
                itoa (int (List.length (u_findResults m)))))] else []))))
           (find_lines H m rows titleW wide inner))"

definition placed :: "tui_host \<Rightarrow> canvas \<Rightarrow> Model \<Rightarrow> string \<Rightarrow> string \<times> int \<times> int" where
  "placed H K m box = (box, center_at (u_width m) (u_height m - 1) (v_width H box) (cv_height K box))"

definition middle_dot :: string where "middle_dot = glyph [194, 183]"

definition renderFindResults :: "tui_host \<Rightarrow> canvas \<Rightarrow> Model \<Rightarrow> (string \<times> int \<times> int) option" where
  "renderFindResults H K m = (let inner = max (minFindTitle + colFindNum + 1) (u_width m - 2 * borderWidth - 2 * panePadX);
     rows = max 1 (u_height m - 1 - borderHeight - 5); trunc = tui_truncate (v_width H) in
   map_option (\<lambda>body. placed H K m (cv_pane K (u_theme m) True (inner + 2 * panePadX) None
       (paint H m TitleStyle ''find'' @
        (if u_findQuery m \<noteq> [] then paint H m MutedStyle (''  '' @ trunc (u_findQuery m) (inner - 6)) else []) @ newline @ newline @ body @ newline @
        paint H m MutedStyle (trunc (''enter add '' @ middle_dot @ '' j/k move '' @ middle_dot @ '' '' @ displayKey (k_Find (u_keymap m)) @
          '' new search '' @ middle_dot @ '' esc close'') inner))))
     (findBody H m inner rows))"

subsection \<open>The theme picker\<close>

definition picker_inner :: "tui_host \<Rightarrow> Model \<Rightarrow> string \<Rightarrow> int" where
  "picker_inner H m hint = (let inner = foldl (\<lambda>inner name. let w = v_width H name + 17 in if inner < w then w else inner)
       (v_width H hint) (u_themeNames m); maxInner = u_width m - 2 * borderWidth - 2 * panePadX
     in if maxInner < inner then max 1 maxInner else inner)"

definition picker_line :: "tui_host \<Rightarrow> Model \<Rightarrow> int \<Rightarrow> int \<Rightarrow> string" where
  "picker_line H m inner i = (let name = u_themeNames m ! nat i;
     note = (if name = th_Name (u_themeSaved m) then '' (current)'' else if IsUserTheme (v_themes H) name (u_themesDir m) then '' (user)'' else []) in
   if i = u_themeCursor m then paint H m CursorRow (padRight (v_width H) (''> '' @ name @ note) inner)
   else paint H m RowStyle (padRight (v_width H) (''  '' @ name @ note) inner))"

definition renderThemePicker :: "tui_host \<Rightarrow> canvas \<Rightarrow> Model \<Rightarrow> string \<times> int \<times> int" where
  "renderThemePicker H K m = (let
     hint = ''enter apply '' @ middle_dot @ '' esc cancel '' @ middle_dot @ '' j/k move'';
     inner = picker_inner H m hint; n = int (List.length (u_themeNames m)); maxRows = u_height m - 1 - borderHeight - 3;
     (start, stop) = scrollWindow (u_themeCursor m) n (if maxRows < n then max 1 maxRows else n)
   in placed H K m (cv_pane K (u_theme m) True (inner + 2 * panePadX) None
        (paint H m TitleStyle ''theme'' @ newline @ newline @
         concat (map (\<lambda>i. picker_line H m inner i @ newline) [start..stop - 1]) @ newline @
         paint H m MutedStyle (tui_truncate (v_width H) hint inner))))"

subsection \<open>A window over the frame\<close>

definition widest_line :: "canvas \<Rightarrow> string list \<Rightarrow> int" where
  "widest_line K ls = foldl (\<lambda>w l. if w < cv_cells K l then cv_cells K l else w) 0 ls"

definition splice_line :: "canvas \<Rightarrow> int \<Rightarrow> int \<Rightarrow> string \<Rightarrow> string \<Rightarrow> string" where
  "splice_line K x boxW line0 boxLine = (let
     line = (if cv_cells K line0 < x then line0 @ blanks (x - cv_cells K line0) else line0);
     w = cv_cells K boxLine;
     mid = (if w < boxW then boxLine @ blanks (boxW - w) else if boxW < w then cv_cut K boxLine boxW else boxLine)
   in cv_cut K line x @ mid @ cv_cut_left K line (x + boxW))"

fun splice_rows :: "canvas \<Rightarrow> int \<Rightarrow> int \<Rightarrow> nat \<Rightarrow> string list \<Rightarrow> string list \<Rightarrow> string list" where
  "splice_rows K x boxW row [] ls = ls"
| "splice_rows K x boxW row (b # bs) ls =
     (if List.length ls \<le> row then ls else splice_rows K x boxW (row + 1) bs (ls[row := splice_line K x boxW (ls ! row) b]))"

definition overlay :: "canvas \<Rightarrow> string \<Rightarrow> string \<times> int \<times> int \<Rightarrow> string" where
  "overlay K base placing = (let (box, x0, y0) = placing; x = max 0 x0; y = max 0 y0; ls = lines_of base; bs = lines_of box;
     frameW = widest_line K ls; boxW = min (widest_line K bs) (frameW - x) in
   if box = [] \<or> frameW \<le> x then base else str_join (splice_rows K x boxW (nat y) bs ls) newline)"

subsection \<open>The screen\<close>

definition clampBlock :: "string \<Rightarrow> int \<Rightarrow> string" where
  "clampBlock s height = (if height \<le> 0 then []
     else let ls = lines_of s in if int (List.length ls) \<le> height then s else str_join (take (nat height) ls) newline)"

definition tui_frame :: "tui_host \<Rightarrow> canvas \<Rightarrow> Model \<Rightarrow> panes \<Rightarrow> string option" where
  "tui_frame H K m p = Option.bind (renderListBody H m p (visibleTorrents m) (p_listContentH p)) (\<lambda>list_body.
     Option.bind (renderDetailBody H m p) (\<lambda>detail_body. map_option (\<lambda>footer. let
       pane = (\<lambda>f. cv_pane K (u_theme m) (u_focus m = f));
       sidebar = pane focusSidebar (p_sidebarBoxW p) (Some (p_sidebarContentH p)) (clampBlock (renderSidebar H m p) (p_sidebarContentH p));
       list_pane = pane focusList (p_listBoxW p) (Some (p_listContentH p))
         (clampBlock (cv_stack K [renderListHeader H m p, list_body]) (p_listContentH p));
       detail = pane focusDetail (p_detailBoxW p) (Some (p_detailContentH p))
         (clampBlock (cv_stack K [renderDetailTabs H m p, detail_body]) (p_detailContentH p))
     in cv_stack K [cv_beside K [sidebar, cv_stack K [list_pane, detail]], footer]) (renderFooter H m p)))"

definition View :: "tui_host \<Rightarrow> canvas \<Rightarrow> Model \<Rightarrow> string option" where
  "View H K m = (let p = tui_layout (u_width m) (u_height m) in
     if u_quitting m then Some []
     else if u_width m = 0 then Some (''starting torrnado...'' @ newline)
     else if u_width m < minWidth \<or> u_height m < minHeight then
       Some (''terminal too small: need at least '' @ itoa minWidth @ ''x'' @ itoa minHeight @ '', have '' @ itoa (u_width m) @ ''x'' @
         itoa (u_height m) @ newline)
     else if u_showHelp m then
       (let helpW = u_width m - borderWidth; helpH = u_height m - 1 - borderHeight in
        map_option (\<lambda>footer. cv_stack K [cv_pane K (u_theme m) False helpW (Some helpH) (renderHelp H K m (helpW - 2 * panePadX) helpH), footer])
          (renderFooter H m p))
     else Option.bind (tui_frame H K m p) (\<lambda>frame.
       if u_themePicker m then Some (overlay K frame (renderThemePicker H K m))
       else if u_findState m \<noteq> findClosed then map_option (overlay K frame) (renderFindResults H K m)
       else Some frame))"

end
