(* ===== verification/Attach.thy ===== *)
theory Attach
  imports Commands TuiFacts
begin

text \<open>
  \<^verbatim>\<open>torrnado\<close> without a subcommand, \<^verbatim>\<open>cmd/torrnado/attach.go\<close>: a daemon is got hold of, the theme read, and the
  interface started on it; a daemon that does not know of searching leaves it without sources.
\<close>

definition runAttach :: "tui_host \<Rightarrow> fileConfig result \<Rightarrow> (fileConfig \<Rightarrow> (unit result \<times> bool) option) \<Rightarrow> 's caller \<Rightarrow> 's \<Rightarrow>
    (Model result \<times> 's) option" where
  "runAttach H loaded dials c s = (case loaded of
     Inl err \<Rightarrow> Some (Inl err, s)
   | Inr cfg \<Rightarrow> (case dials cfg of
       None \<Rightarrow> None
     | Some (Inl err, _) \<Rightarrow> Some (Inl err, s)
     | Some (Inr _, _) \<Rightarrow> (case DefaultThemesDir (v_environ H) of
         Inl err \<Rightarrow> Some (Inl err, s)
       | Inr themesDir \<Rightarrow> (case theme_Load (v_themes H) (c_Theme cfg) themesDir of
           Inl err \<Rightarrow> Some (Inl err, s)
         | Inr th \<Rightarrow> (let (r, s1) = c_SearchSources c s; sources = (case r of Inl _ \<Rightarrow> [] | Inr so \<Rightarrow> so) in
             Some (Inr (tui_New H (WithOverrides (c_Keybinds cfg) DefaultKeyMap) themesDir (c_Player cfg) (c_Opener cfg) True sources th), s1))))))"

text \<open>The interface starts in a state from which no message crashes it.\<close>

lemma runAttach_ok: "runAttach H loaded dials c s = Some (Inr m, s1) \<Longrightarrow> tui_ok m"
  using tui_New_ok by (auto simp: runAttach_def split: sum.splits option.splits prod.splits)

subsection \<open>Starting a daemon\<close>

text \<open>What the system answers: where this program is, making the directory, opening the log, starting, letting go.\<close>

record spawn_host =
  sp_exe :: "string result"
  sp_mkdir :: "string option"
  sp_log :: "string option"
  sp_start :: "string option"
  sp_release :: "string option"

definition spawn_args :: "string \<Rightarrow> string list" where
  "spawn_args configPathFlag = ''daemon'' # (if configPathFlag \<noteq> [] then [''--config'', configPathFlag] else [])"

text \<open>The second component is the process that was started: the program, its arguments, and the file it writes to.\<close>

definition spawnDaemon :: "environ \<Rightarrow> spawn_host \<Rightarrow> string \<Rightarrow> unit result \<times> (string \<times> string list \<times> string) option" where
  "spawnDaemon V S configPathFlag = (case sp_exe S of
     Inl err \<Rightarrow> (Inl err, None)
   | Inr exe \<Rightarrow> (case DefaultDataDir V of
       Inl err \<Rightarrow> (Inl err, None)
     | Inr dir \<Rightarrow> (case sp_mkdir S of
         Some err \<Rightarrow> (Inl (''create '' @ dir @ '': '' @ err), None)
       | None \<Rightarrow> (case sp_log S of
           Some err \<Rightarrow> (Inl err, None)
         | None \<Rightarrow> (case sp_start S of
             Some err \<Rightarrow> (Inl err, None)
           | None \<Rightarrow> (case sp_release S of Some err \<Rightarrow> Inl err | None \<Rightarrow> Inr (),
               Some (exe, spawn_args configPathFlag, path_join dir ''daemon.log'')))))))"

text \<open>The daemon is told which configuration its client read, and a start without an error is a start.\<close>

lemma spawned_with_the_same_config:
  "spawnDaemon V S flag = (r, started) \<Longrightarrow> (case started of None \<Rightarrow> isl r | Some (_, args, _) \<Rightarrow> args = spawn_args flag)"
  by (auto simp: spawnDaemon_def split: sum.splits option.splits)

subsection \<open>The end of the program\<close>

text \<open>What \<^verbatim>\<open>main\<close> writes to standard error, and the exit status.\<close>

definition main_end :: "unit result \<Rightarrow> string list \<times> int" where
  "main_end r = (case r of Inr _ \<Rightarrow> ([], 0) | Inl err \<Rightarrow> (if err \<noteq> [] then [''error: '' @ err] else [], 1))"

lemma quiet_status_says_nothing: "main_end (Inl []) = ([], 1)"
  by (simp add: main_end_def)

end
