(* ===== verification/Sockets.thy ===== *)
theory Sockets
  imports IpcServer
begin

text \<open>
  Which daemon has the socket: \<^verbatim>\<open>Serve\<close> and \<^verbatim>\<open>Close\<close> of \<^verbatim>\<open>internal/ipc/server.go\<close>, with the lock of
  \<^verbatim>\<open>lock_unix.go\<close>, as one process runs them and as the steps of several processes on one machine, in any order. A process
  may die at any step; the kernel then takes its lock back and the socket file stays.
\<close>

subsection \<open>One process\<close>

datatype serve_effect = MadeDir | TookLock | RemovedSocket | Listening | DroppedLock | StoppedListening | HungUp

text \<open>What the file system and the kernel answer: the directory, the lock, the listener.\<close>

definition Serve :: "string \<Rightarrow> string option \<Rightarrow> string result \<Rightarrow> string option \<Rightarrow> unit result \<times> serve_effect list" where
  "Serve socketPath mkdir lock listen = (case mkdir of
     Some err \<Rightarrow> (Inl (''create socket dir: '' @ err), [])
   | None \<Rightarrow> (case lock of
       Inl err \<Rightarrow> (Inl err, [MadeDir])
     | Inr _ \<Rightarrow> (case listen of
         Some err \<Rightarrow> (Inl (''listen on '' @ socketPath @ '': '' @ err), [MadeDir, TookLock, RemovedSocket, DroppedLock])
       | None \<Rightarrow> (Inr (), [MadeDir, TookLock, RemovedSocket, Listening]))))"

definition server_Close :: "string option \<Rightarrow> unit result \<times> serve_effect list" where
  "server_Close listener = (case listener of None \<Rightarrow> Inr () | Some err \<Rightarrow> Inl err, [StoppedListening, HungUp, RemovedSocket, DroppedLock])"

subsection \<open>Several processes\<close>

text \<open>
  How far a process is: in its \<open>n\<close>-th try for the lock, with the lock, with the way cleared for its own socket,
  serving, no longer listening, with its socket removed, or asking whether a daemon runs, which takes the lock for a moment.
\<close>

datatype serve_phase = Away | Trying nat | Locking | Clearing | Serving | Closing | Removing | Asking

record sockets =
  sw_phase :: "nat \<Rightarrow> serve_phase"
  sw_lock :: "nat option"
  sw_socket :: "nat option"

definition enters :: "nat \<Rightarrow> serve_phase \<Rightarrow> sockets \<Rightarrow> sockets" where
  "enters p ph w = w\<lparr>sw_phase := (sw_phase w)(p := ph)\<rparr>"

inductive serve_step :: "nat \<Rightarrow> sockets \<Rightarrow> sockets \<Rightarrow> bool" where
  Starts: "sw_phase w p = Away \<Longrightarrow> serve_step p w (enters p (Trying 0) w)"
| Locks: "sw_phase w p = Trying n \<Longrightarrow> sw_lock w = None \<Longrightarrow> serve_step p w (enters p Locking (w\<lparr>sw_lock := Some p\<rparr>))"
| Waits: "sw_phase w p = Trying n \<Longrightarrow> sw_lock w \<noteq> None \<Longrightarrow> Suc n < lock_attempts \<Longrightarrow> serve_step p w (enters p (Trying (Suc n)) w)"
| Refused: "sw_phase w p = Trying n \<Longrightarrow> sw_lock w \<noteq> None \<Longrightarrow> lock_attempts \<le> Suc n \<Longrightarrow> serve_step p w (enters p Away w)"
| Clears: "sw_phase w p = Locking \<Longrightarrow> serve_step p w (enters p Clearing (w\<lparr>sw_socket := None\<rparr>))"
| Binds: "sw_phase w p = Clearing \<Longrightarrow> sw_socket w = None \<Longrightarrow> serve_step p w (enters p Serving (w\<lparr>sw_socket := Some p\<rparr>))"
| Bind_fails: "sw_phase w p = Clearing \<Longrightarrow> serve_step p w (enters p Away (w\<lparr>sw_lock := None\<rparr>))"
| Closes: "sw_phase w p = Serving \<Longrightarrow> serve_step p w (enters p Closing (w\<lparr>sw_socket := None\<rparr>))"
| Removes: "sw_phase w p = Closing \<Longrightarrow> serve_step p w (enters p Removing (w\<lparr>sw_socket := None\<rparr>))"
| Releases: "sw_phase w p = Removing \<Longrightarrow> serve_step p w (enters p Away (w\<lparr>sw_lock := None\<rparr>))"
| Asks: "sw_phase w p = Away \<Longrightarrow> sw_lock w = None \<Longrightarrow> serve_step p w (enters p Asking (w\<lparr>sw_lock := Some p\<rparr>))"
| Asked: "sw_phase w p = Asking \<Longrightarrow> serve_step p w (enters p Away (w\<lparr>sw_lock := None\<rparr>))"
| Dies: "serve_step p w (enters p Away (if sw_lock w = Some p then w\<lparr>sw_lock := None\<rparr> else w))"

text \<open>From a machine on which nobody runs, whatever socket file a dead daemon left there.\<close>

inductive contended :: "sockets \<Rightarrow> bool" where
  fresh: "contended \<lparr>sw_phase = (\<lambda>_. Away), sw_lock = None, sw_socket = left\<rparr>"
| step: "contended w \<Longrightarrow> serve_step p w w' \<Longrightarrow> contended w'"

definition has_lock :: "serve_phase \<Rightarrow> bool" where
  "has_lock ph \<longleftrightarrow> ph \<in> {Locking, Clearing, Serving, Closing, Removing, Asking}"

definition lock_inv :: "sockets \<Rightarrow> bool" where
  "lock_inv w \<longleftrightarrow> (\<forall>p. has_lock (sw_phase w p) \<longleftrightarrow> sw_lock w = Some p) \<and>
     (\<forall>p. sw_phase w p = Serving \<longrightarrow> sw_socket w = Some p)"

lemma enters_simps [simp]:
  "sw_phase (enters p ph w) q = (if q = p then ph else sw_phase w q)"
  "sw_lock (enters p ph w) = sw_lock w" "sw_socket (enters p ph w) = sw_socket w"
  by (simp_all add: enters_def)

lemma has_lock_simps [simp]:
  "has_lock Locking" "has_lock Clearing" "has_lock Serving" "has_lock Closing" "has_lock Removing" "has_lock Asking"
  "\<not> has_lock Away" "\<not> has_lock (Trying n)"
  by (simp_all add: has_lock_def)

lemma serve_step_inv: "serve_step p w w' \<Longrightarrow> lock_inv w \<Longrightarrow> lock_inv w'"
proof (induction rule: serve_step.induct)
  case (Dies p w)
  then show ?case by (auto simp: lock_inv_def)
qed (auto simp: lock_inv_def, (metis has_lock_simps option.inject)+)

lemma contended_inv: "contended w \<Longrightarrow> lock_inv w"
proof (induction rule: contended.induct)
  case (fresh left)
  then show ?case by (simp add: lock_inv_def)
qed (rule serve_step_inv)

lemma serve_step_others:
  "serve_step q w w' \<Longrightarrow> lock_inv w \<Longrightarrow> sw_phase w p = Serving \<Longrightarrow> q \<noteq> p \<Longrightarrow> sw_phase w' p = Serving"
  by (induction rule: serve_step.induct) simp_all

text \<open>A start that failed keeps nothing: what it took it gave back.\<close>

lemma a_failed_start_keeps_nothing:
  "Serve path mkdir lock listen = (Inl err, effects) \<Longrightarrow> TookLock \<in> set effects \<Longrightarrow> last effects = DroppedLock"
  by (auto simp: Serve_def split: option.splits sum.splits)

text \<open>C32. A running daemon is not displaced: in every order in which daemons start, ask, stop and die on one machine, the
  process that serves is the only one past the lock, the socket is its own, and no step of another process changes that.\<close>

theorem a_running_daemon_is_not_displaced:
  assumes "contended w" and "sw_phase w p = Serving"
  shows "sw_socket w = Some p \<and> (\<forall>q. has_lock (sw_phase w q) \<longleftrightarrow> q = p) \<and>
    (\<forall>q w'. serve_step q w w' \<and> q \<noteq> p \<longrightarrow> sw_phase w' p = Serving \<and> sw_socket w' = Some p)"
proof -
  have i: "lock_inv w" by (rule contended_inv [OF assms(1)])
  then have l: "sw_lock w = Some p" using assms(2) by (metis has_lock_simps(3) lock_inv_def)
  have "sw_phase w' p = Serving \<and> sw_socket w' = Some p" if "serve_step q w w'" "q \<noteq> p" for q w'
    using serve_step_others [OF that(1) i assms(2) that(2)] serve_step_inv [OF that(1) i] by (simp add: lock_inv_def)
  then show ?thesis using i l assms(2) by (auto simp: lock_inv_def)
qed

text \<open>However the last one ended, the next daemon can start.\<close>

lemma the_next_daemon_starts:
  assumes "contended w" "sw_lock w = None" "sw_phase w q = Away"
  shows "\<exists>w1 w2 w3 w4. serve_step q w w1 \<and> serve_step q w1 w2 \<and> serve_step q w2 w3 \<and> serve_step q w3 w4 \<and> sw_phase w4 q = Serving"
proof -
  let ?w1 = "enters q (Trying 0) w"
  let ?w2 = "enters q Locking (?w1\<lparr>sw_lock := Some q\<rparr>)"
  let ?w3 = "enters q Clearing (?w2\<lparr>sw_socket := None\<rparr>)"
  let ?w4 = "enters q Serving (?w3\<lparr>sw_socket := Some q\<rparr>)"
  have "serve_step q w ?w1" by (rule serve_step.Starts [OF assms(3)])
  moreover have "serve_step q ?w1 ?w2" by (rule serve_step.Locks) (simp_all add: assms(2))
  moreover have "serve_step q ?w2 ?w3" by (rule serve_step.Clears) (simp add: enters_def)
  moreover have "serve_step q ?w3 ?w4" by (rule serve_step.Binds) (simp_all add: enters_def)
  moreover have "sw_phase ?w4 q = Serving" by simp
  ultimately show ?thesis by blast
qed

subsection \<open>Witness\<close>

theorem a_running_daemon_is_not_displaced_witness:
  "\<exists>w. contended w \<and> sw_phase w 7 = Serving \<and> (\<forall>q. has_lock (sw_phase w q) \<longleftrightarrow> q = 7) \<and> (\<exists>w'. serve_step 8 w w' \<and> sw_socket w' = Some 7)"
proof -
  let ?w0 = "\<lparr>sw_phase = (\<lambda>_. Away), sw_lock = None, sw_socket = Some 3\<rparr>"
  have c: "contended ?w0" by (rule contended.fresh)
  have "sw_lock ?w0 = None" "sw_phase ?w0 7 = Away" by simp_all
  from the_next_daemon_starts [OF c this] obtain w1 w2 w3 w where
    w: "serve_step 7 ?w0 w1" "serve_step 7 w1 w2" "serve_step 7 w2 w3" "serve_step 7 w3 w" "sw_phase w 7 = Serving" by blast
  have cw: "contended w" by (rule contended.step [OF contended.step [OF contended.step [OF contended.step [OF c w(1)] w(2)] w(3)] w(4)])
  note t = a_running_daemon_is_not_displaced [OF cw w(5)]
  have "serve_step 8 w (enters 8 Away (if sw_lock w = Some 8 then w\<lparr>sw_lock := None\<rparr> else w))" by (rule serve_step.Dies)
  then have "\<exists>w'. serve_step 8 w w' \<and> sw_socket w' = Some 7" using t by (metis numeral_eq_iff semiring_norm(88) num.distinct(1))
  then show ?thesis using cw w(5) t by blast
qed

end
