(* ===== verification/ManPage.thy ===== *)
theory ManPage
  imports Stream
begin

text \<open>
  The manual page, \<^verbatim>\<open>cmd/torrnado/man.go\<close>. The tree of commands is the command-line library's: what the page
  takes from a command and from a flag is a record here.
\<close>

record cobra_flag =
  fl_Name :: string
  fl_Shorthand :: string
  fl_Usage :: string
  fl_DefValue :: string
  fl_Type :: string
  fl_Hidden :: bool

record cobra_command =
  cc_Short :: string
  cc_Long :: string
  cc_UseLine :: string
  cc_Hidden :: bool
  cc_Available :: bool
  cc_Flags :: "cobra_flag list"

definition nl_char :: char where "nl_char = CHR 0x0A"

definition backslash :: char where "backslash = CHR 0x5C"

definition man_line :: "string \<Rightarrow> string" where "man_line s = s @ [nl_char]"

definition roff_line :: "string \<Rightarrow> string" where
  "roff_line l = (if has_prefix l ''.'' \<or> has_prefix l [CHR 0x27] then backslash # ''&'' @ l else l)"

definition roff :: "string \<Rightarrow> string" where
  "roff s = str_join (map roff_line (str_split nl_char
     (replace_all (replace_all s [backslash] (backslash # ''e'')) ''-'' (backslash # ''-'')))) [nl_char]"

definition bold :: "string \<Rightarrow> string" where
  "bold s = backslash # ''fB'' @ s @ backslash # ''fR''"

definition italic :: "string \<Rightarrow> string" where
  "italic s = backslash # ''fI'' @ s @ backslash # ''fR''"

definition man_section :: "string \<Rightarrow> string" where
  "man_section name = man_line (''.SH '' @ name)"

definition flag_text :: "cobra_flag \<Rightarrow> string" where
  "flag_text f = (let
     names = (if fl_Shorthand f \<noteq> [] then bold (roff (''-'' @ fl_Shorthand f)) @ '', '' else []) @ bold (roff (''--'' @ fl_Name f)) @
       (if fl_Type f \<noteq> ''bool'' then '' '' @ italic (fl_Type f) else [])
   in man_line ''.TP'' @ man_line names @ roff (fl_Usage f) @
      (if fl_DefValue f \<noteq> [] \<and> fl_DefValue f \<noteq> ''false'' then '' (default '' @ roff (fl_DefValue f) @ '')'' else []) @ man_line [])"

definition writeFlags :: "cobra_flag list \<Rightarrow> string \<times> bool" where
  "writeFlags fs = (let shown = filter (\<lambda>f. \<not> fl_Hidden f) fs in (concat (map flag_text shown), shown \<noteq> []))"

definition command_text :: "cobra_command \<Rightarrow> string" where
  "command_text c = man_line (''.SS '' @ bold (roff (cc_UseLine c))) @
     man_line (roff (if cc_Long c = [] then cc_Short c else cc_Long c)) @ fst (writeFlags (cc_Flags c))"

definition man_files :: "(string \<times> string) list" where
  "man_files =
    [(''$XDG_CONFIG_HOME/torrnado/config.toml'', ''Configuration. A missing file is not an error; an invalid one is.''),
     (''$XDG_CONFIG_HOME/torrnado/themes/<name>.toml'', ''Your own palettes, which shadow a built-in of the same name.''),
     (''$XDG_DATA_HOME/torrnado/daemon.sock'', ''The socket every client dials.''),
     (''$XDG_DATA_HOME/torrnado/session.json'', ''The torrent list and everything chosen about it, restored on start.''),
     (''$XDG_DATA_HOME/torrnado/torrents/'', ''A copy of each torrent'' @ [CHR 0x27] @ ''s metainfo, so a restart re-adds without finding a peer.''),
     (''$XDG_DATA_HOME/torrnado/daemon.log'', ''Where a daemon spawned by a client writes.'')]"

definition man_examples :: "(string \<times> string) list" where
  "man_examples =
    [(''torrnado'', ''Attach the interface, spawning a daemon if none is running.''),
     (''torrnado add '' @ [CHR 0x27] @ ''magnet:?xt=urn:btih:...'' @ [CHR 0x27], ''Add a torrent and exit; it keeps downloading.''),
     (''torrnado list --watch'', ''Follow the daemon'' @ [CHR 0x27] @ ''s own state changes in a shell.''),
     (''torrnado priority <id> 0 none'', ''Stop wanting the first file of a torrent.''),
     (''torrnado config'', ''Print the paths and settings in effect, without contacting the daemon.'')]"

text \<open>\<open>prog\<close> is the program itself with the flags every command has, \<open>today\<close> the date in UTC.\<close>

definition writeManPage :: "cobra_command \<Rightarrow> cobra_command list \<Rightarrow> string \<Rightarrow> string \<Rightarrow> string" where
  "writeManPage prog commands release today = (let (options, some_option) = writeFlags (cc_Flags prog) in
     man_line (''.TH TORRNADO 1 '' @ quoted today @ '' '' @ quoted (''torrnado '' @ release) @ '' '' @ quoted ''User Commands'') @
     man_section ''NAME'' @ man_line (''torrnado '' @ backslash # ''- '' @ roff (cc_Short prog)) @
     man_section ''SYNOPSIS'' @ man_line ''.B torrnado'' @ man_line (''['' @ italic ''command'' @ ''] ['' @ italic ''flags'' @ '']'') @
     man_section ''DESCRIPTION'' @ man_line (roff (cc_Long prog)) @ man_line ''.PP'' @
     man_line (roff (''Quitting the interface does not stop the daemon. Every subcommand below dials the daemon'' @ [CHR 0x27] @
       ''s socket, spawning one if nothing answers, makes a single call and exits.'')) @
     man_section ''OPTIONS'' @ options @ (if some_option then [] else man_line ''None.'') @
     man_section ''COMMANDS'' @ concat (map command_text (filter (\<lambda>c. \<not> cc_Hidden c \<and> cc_Available c) commands)) @
     man_section ''FILES'' @ concat (map (\<lambda>(f, d). man_line ''.TP'' @ man_line (''.I '' @ roff f) @ man_line (roff d)) man_files) @
     man_section ''ENVIRONMENT'' @
     man_line ''.TP'' @ man_line ''.B XDG_CONFIG_HOME'' @
     man_line (roff ''Where the config and themes live. Honored on every platform, not only Linux; defaults to ~/.config.'') @
     man_line ''.TP'' @ man_line ''.B XDG_DATA_HOME'' @ man_line (roff ''Where the socket, session and logs live; defaults to ~/.local/share.'') @
     man_section ''EXAMPLES'' @ concat (map (\<lambda>(x, d). man_line ''.TP'' @ man_line (''.B '' @ roff x) @ man_line (roff d)) man_examples) @
     man_section ''SEE ALSO'' @ man_line (roff ''Full documentation at https://torrnado.dev''))"

text \<open>The command: what \<^verbatim>\<open>--output\<close> names is created first; \<open>writes\<close> is why the page could not be written, if so.\<close>

definition newManCmd :: "string \<Rightarrow> string option \<Rightarrow> string option \<Rightarrow> string \<Rightarrow> string \<Rightarrow> cobra_command \<Rightarrow> cobra_command list \<Rightarrow> string \<Rightarrow>
    unit result \<times> string" where
  "newManCmd out create writes release build prog commands today =
     (case (if out = [] then None else create) of
        Some err \<Rightarrow> (Inl (''create '' @ out @ '': '' @ err), [])
      | None \<Rightarrow> (case writes of
          Some err \<Rightarrow> (Inl err, [])
        | None \<Rightarrow> (Inr (), writeManPage prog commands (if release = [] then build else release) today)))"

subsection \<open>Lemmas\<close>

text \<open>What a formatter prints of a text, of the escapes used here.\<close>

fun unroff :: "string \<Rightarrow> string" where
  "unroff [] = []"
| "unroff [c] = [c]"
| "unroff (c # d # cs) =
     (if c = backslash \<and> d = CHR ''e'' then backslash # unroff cs
      else if c = backslash \<and> d = CHR ''-'' then d # unroff cs
      else if c = backslash \<and> d = CHR ''&'' then unroff cs
      else c # unroff (d # cs))"

definition roff_char :: "char \<Rightarrow> string" where
  "roff_char c = (if c = backslash then backslash # ''e'' else if c = CHR ''-'' then backslash # ''-'' else [c])"

lemma replace_char: "replace_all s [x] r = concat (map (\<lambda>c. if c = x then r else [c]) s)"
  by (induction s) (simp_all add: replace_all.simps [of "_ # _"] replace_all.simps [of "[]"] has_prefix_def)

lemma roff_chars: "replace_all (replace_all s [backslash] (backslash # ''e'')) ''-'' (backslash # ''-'') = concat (map roff_char s)"
  by (induction s) (simp_all add: replace_char roff_char_def backslash_def)

lemma unroff_plain: "c \<noteq> backslash \<Longrightarrow> unroff (c # cs) = c # unroff cs"
  by (cases cs) simp_all

lemma unroff_chars: "unroff (concat (map roff_char s) @ rest) = s @ unroff rest"
  by (induction s) (simp_all add: roff_char_def unroff_plain)

lemma unroff_line: "unroff (roff_line (concat (map roff_char l)) @ rest) = l @ unroff rest"
  using unroff_chars [of l rest] by (simp add: roff_line_def)

lemma unroff_lines:
  "unroff (str_join (map (\<lambda>l. roff_line (concat (map roff_char l))) ls) [nl_char]) = str_join ls [nl_char]"
proof (induction ls "[nl_char]" rule: str_join.induct)
  case (2 w)
  then show ?case using unroff_line [of w "[]"] by simp
next
  case (3 w v ws)
  then show ?case by (simp add: unroff_line unroff_plain nl_char_def backslash_def)
qed simp

lemma split_chars: "str_split nl_char (concat (map roff_char s)) = map (\<lambda>l. concat (map roff_char l)) (str_split nl_char s)"
proof (induction s)
  case (Cons c s)
  obtain w ws where "str_split nl_char s = w # ws" by (cases "str_split nl_char s") (use str_split_not_Nil in auto)
  then show ?case using Cons by (auto simp: roff_char_def nl_char_def backslash_def)
qed simp

text \<open>A formatter prints the text a page was given, and reads none of its lines as a request.\<close>

lemma a_man_page_shows_the_text:
  "unroff (roff s) = s \<and> list_all (\<lambda>l. \<not> has_prefix l ''.'' \<and> \<not> has_prefix l [CHR 0x27]) (str_split nl_char (roff s))"
proof -
  let ?ls = "map (\<lambda>l. roff_line (concat (map roff_char l))) (str_split nl_char s)"
  have r: "roff s = str_join ?ls [nl_char]" by (simp add: roff_def roff_chars split_chars comp_def)
  have n: "nl_char \<notin> set (roff_line (concat (map roff_char l)))" if "nl_char \<notin> set l" for l
    using that by (auto simp: roff_line_def roff_char_def nl_char_def backslash_def split: if_splits)
  have "list_all (\<lambda>w. nl_char \<notin> set w) (str_split nl_char s)" using str_split_iff [of nl_char s] by blast
  then have "list_all (\<lambda>w. nl_char \<notin> set w) ?ls" using n by (auto simp: list_all_iff)
  moreover have "?ls \<noteq> []" using str_split_iff [of nl_char s] by simp
  ultimately have "str_split nl_char (roff s) = ?ls" unfolding r by (intro split_join)
  moreover have "\<not> has_prefix (roff_line l) ''.'' \<and> \<not> has_prefix (roff_line l) [CHR 0x27]" for l
    by (auto simp: roff_line_def has_prefix_def backslash_def)
  moreover have "str_join (str_split nl_char s) [nl_char] = s" by (rule join_split)
  ultimately show ?thesis using unroff_lines [of "str_split nl_char s"] by (simp add: r list_all_iff)
qed

end
