(* ===== verification/Spec2Isabelle.thy ===== *)
theory Spec2Isabelle
  imports SessionProps DaemonProps QuantityProps IndexerProps RpcProps WatchProps Batch TuiProps CommandProps ViewProps Attach Sockets ManPage
begin

text \<open>
  A model of torrnado (\<^verbatim>\<open>github.com/lestex/torrnado\<close>, Go), a BitTorrent daemon and the terminal interface and
  subcommands that drive it over a local socket. Everything is a shallow embedding: Go functions are HOL functions
  under the source's names, and the theorems are about those.

  \<^bold>\<open>The program and its parts.\<close> One daemon process (\<^verbatim>\<open>cmd/torrnado/daemon.go\<close>) reads a configuration file
  (\<^verbatim>\<open>internal/config\<close>), starts an engine (\<^verbatim>\<open>internal/engine\<close>) over the torrent library, restores the session
  file, and then feeds the engine from four sides: a tick, which re-reads the VPN (\<^verbatim>\<open>internal/vpn\<close>) and the free
  space, decides for every torrent whether data may flow, and publishes a snapshot; the watch directory
  (\<^verbatim>\<open>cmd/torrnado/watch.go\<close>); the stream server (\<^verbatim>\<open>internal/stream\<close>), which only reads; and the socket
  (\<^verbatim>\<open>internal/ipc\<close>), one read loop per connection, with a lock that lets one daemon run. Searches go to a searcher
  (\<^verbatim>\<open>internal/indexer\<close>) of up to three sources, one of them a site read through FlareSolverr
  (\<^verbatim>\<open>internal/flaresolverr\<close>). At the other end of the socket are the subcommands (\<^verbatim>\<open>cmd/torrnado\<close>) and the
  interface (\<^verbatim>\<open>internal/tui\<close>), which start a daemon when there is none, expand what is to be added
  (\<^verbatim>\<open>internal/batch\<close>), and ask the daemon for everything else.

  \<^bold>\<open>Theories and sources.\<close> In the order they build on each other:

  \<^item> Shared: \<^verbatim>\<open>Prelude\<close> (results, 64-bit wrap-around, instants, association lists for Go maps, runs and their
    invariants), \<^verbatim>\<open>GoStrings\<close> (\<^verbatim>\<open>strings\<close>, \<^verbatim>\<open>utf8\<close>, decimal digits), \<^verbatim>\<open>Float64\<close> and \<^verbatim>\<open>ParseFloat\<close>
    (\<^verbatim>\<open>float64\<close>, \<^verbatim>\<open>strconv\<close>, \<^verbatim>\<open>time.ParseDuration\<close>), \<^verbatim>\<open>Ordering\<close> (\<^verbatim>\<open>sort\<close>), \<^verbatim>\<open>FileSys\<close>
    (\<^verbatim>\<open>path/filepath\<close>, \<^verbatim>\<open>os\<close>).
  \<^item> The engine: \<^verbatim>\<open>EngineTypes\<close> (\<^verbatim>\<open>types.go\<close>), \<^verbatim>\<open>Library\<close> (the torrent library's interface), \<^verbatim>\<open>EngineState\<close>
    (\<^verbatim>\<open>engine.go\<close>), \<^verbatim>\<open>Snapshot\<close> (\<^verbatim>\<open>snapshot.go\<close>, the two guards, subscriptions), \<^verbatim>\<open>Persist\<close> and
    \<^verbatim>\<open>Restore\<close> (\<^verbatim>\<open>session.go\<close>), \<^verbatim>\<open>Labels\<close> (\<^verbatim>\<open>label.go\<close>, \<^verbatim>\<open>seedlimit.go\<close>), \<^verbatim>\<open>SelectFiles\<close>
    (\<^verbatim>\<open>selectfiles.go\<close>, with \<^verbatim>\<open>path.Match\<close>), \<^verbatim>\<open>Checks\<close>, \<^verbatim>\<open>DataFiles\<close>, \<^verbatim>\<open>EngineOps\<close> and \<^verbatim>\<open>MovePurge\<close>
    (\<^verbatim>\<open>ops.go\<close>), \<^verbatim>\<open>Tick\<close> (the tick and the shutdown). \<^verbatim>\<open>EngineInv\<close> makes a transition system of them, one
    constructor of \<^verbatim>\<open>eop\<close> per operation; \<^verbatim>\<open>EngineSafety\<close>, \<^verbatim>\<open>EngineSwitches\<close>, \<^verbatim>\<open>EngineHolds\<close>,
    \<^verbatim>\<open>EngineConfig\<close> and \<^verbatim>\<open>TickFacts\<close> are its invariants, \<^verbatim>\<open>Demo\<close> the concrete inputs of the witnesses,
    \<^verbatim>\<open>EngineProps\<close>, \<^verbatim>\<open>RestoreFacts\<close> and \<^verbatim>\<open>SessionProps\<close> its properties.
  \<^item> Around it: \<^verbatim>\<open>Vpn\<close> and \<^verbatim>\<open>VpnProps\<close> (\<^verbatim>\<open>internal/vpn\<close>), \<^verbatim>\<open>Quantities\<close> and \<^verbatim>\<open>QuantityProps\<close>
    (\<^verbatim>\<open>internal/format\<close>, \<^verbatim>\<open>rate.go\<close>, \<^verbatim>\<open>size.go\<close>, \<^verbatim>\<open>duration.go\<close>), \<^verbatim>\<open>ConfigFile\<close>, \<^verbatim>\<open>ConfigProps\<close> and
    \<^verbatim>\<open>Template\<close> (\<^verbatim>\<open>internal/config\<close>), \<^verbatim>\<open>WatchDir\<close> and \<^verbatim>\<open>WatchProps\<close>, \<^verbatim>\<open>Stream\<close>, \<^verbatim>\<open>Logging\<close>
    (\<^verbatim>\<open>internal/logging\<close>, \<^verbatim>\<open>logbridge.go\<close>), \<^verbatim>\<open>Launch\<close>, \<^verbatim>\<open>Batch\<close>, \<^verbatim>\<open>Daemon\<close> and \<^verbatim>\<open>DaemonProps\<close>.
  \<^item> Searching: \<^verbatim>\<open>Indexer\<close> (results, tokens, errors, the wire, the cache), \<^verbatim>\<open>IndexerClient\<close> (\<^verbatim>\<open>jackett.go\<close>,
    \<^verbatim>\<open>prowlarr.go\<close>), \<^verbatim>\<open>FlareSolverr\<close>, \<^verbatim>\<open>Rutracker\<close>, \<^verbatim>\<open>Sources\<close> (\<^verbatim>\<open>multi.go\<close>), \<^verbatim>\<open>IndexerProps\<close>.
  \<^item> The socket: \<^verbatim>\<open>Wire\<close> (\<^verbatim>\<open>protocol.go\<close>), \<^verbatim>\<open>IpcServer\<close> (\<^verbatim>\<open>server.go\<close>, \<^verbatim>\<open>lock.go\<close>), \<^verbatim>\<open>Sockets\<close> (several
    daemons after one socket), \<^verbatim>\<open>IpcClient\<close> (\<^verbatim>\<open>client.go\<close>), \<^verbatim>\<open>RpcLink\<close> (both ends joined), \<^verbatim>\<open>RpcProps\<close>.
  \<^item> The subcommands: \<^verbatim>\<open>ClientWork\<close> (what they share with the interface, \<^verbatim>\<open>spawn.go\<close>, \<^verbatim>\<open>stopcmd.go\<close>),
    \<^verbatim>\<open>Commands\<close>, \<^verbatim>\<open>Reports\<close>, \<^verbatim>\<open>ManPage\<close>, \<^verbatim>\<open>Attach\<close>, \<^verbatim>\<open>CommandProps\<close>.
  \<^item> The interface: \<^verbatim>\<open>Theme\<close> (\<^verbatim>\<open>internal/theme\<close>), \<^verbatim>\<open>TuiTypes\<close> (\<^verbatim>\<open>model.go\<close>, \<^verbatim>\<open>msg.go\<close>,
    \<^verbatim>\<open>keymap.go\<close>), \<^verbatim>\<open>TuiList\<close>, \<^verbatim>\<open>TuiLayout\<close>, \<^verbatim>\<open>TuiSidebar\<close>, \<^verbatim>\<open>TuiComplete\<close>, \<^verbatim>\<open>TuiUpdate\<close>,
    \<^verbatim>\<open>TuiKeys\<close> (\<^verbatim>\<open>update.go\<close>, \<^verbatim>\<open>mouse.go\<close>, \<^verbatim>\<open>palette.go\<close> and the rest of what reacts), \<^verbatim>\<open>TuiCommands\<close>
    (\<^verbatim>\<open>commands.go\<close>), \<^verbatim>\<open>TuiFacts\<close>, \<^verbatim>\<open>TuiFrames\<close>, \<^verbatim>\<open>TuiLoop\<close> (the loop with its commands under way),
    \<^verbatim>\<open>TuiPanes\<close> and \<^verbatim>\<open>TuiView\<close> (what is drawn), \<^verbatim>\<open>TuiProps\<close>, \<^verbatim>\<open>ViewProps\<close>.
\<close>

text \<open>
  \<^bold>\<open>How state and operations correspond.\<close> A Go struct is a record with its fields, an enum or a tagged value a
  datatype, a method a function that returns the new state. A string is its bytes; \<^verbatim>\<open>int64\<close> and \<^verbatim>\<open>int\<close> are
  \<^verbatim>\<open>int\<close> with \<^verbatim>\<open>wrap64\<close> where the source can overflow, sequence numbers on the wire 64-bit words; the
  interface's counters of searches and messages are left unbounded. A \<^verbatim>\<open>float64\<close> is an exact rational rounded after
  every operation, with infinities and NaN. A time is a count of nanoseconds, zero the zero time. An error is
  \<^verbatim>\<open>Inl\<close> of its text, in the source's words. A Go map is an association list with distinct keys; where the
  source ranges over one, the order is the list's, and nothing proved rests on it. \<^verbatim>\<open>sort.SliceStable\<close> is an
  insertion sort, which gives the same list, and so is \<^verbatim>\<open>sort.Slice\<close>, used on names that differ. \<^verbatim>\<open>None\<close> is a crash, or text that never comes: \<^verbatim>\<open>format.Bytes\<close> of
  the smallest integer recurses for ever, and so whatever prints it has no value (a disk line of the sidebar is
  empty then).

  The torrent library is a parameter: what the engine tells it is a history of commands in the engine's state,
  \<^verbatim>\<open>e_cmds\<close>, and what it answers is a record \<^verbatim>\<open>lib\<close> of functions of that history, given afresh to each
  operation. The machine (clock, disk space, network interfaces, the kernel's refusals) is likewise an argument of each
  operation. The file system the program changes is a tree that it carries.

  Concurrency is explicit. A lock-protected section of the engine is one step; a goroutine that outlives its caller
  (a verification, a wait for metadata) is data in the engine's state and a step of its own. Three systems interleave
  freely: \<^verbatim>\<open>RpcLink\<close> (calls, the daemon's turns, searches that finish late, events, lost connections),
  \<^verbatim>\<open>TuiLoop\<close> (keys, clicks, snapshots and the answers of commands, in any order) and \<^verbatim>\<open>Sockets\<close> (several
  daemons starting, stopping and dying). In the interface a \<^verbatim>\<open>tea.Cmd\<close> is data, and Go's order of evaluation is
  kept where \<^verbatim>\<open>return m, m.f()\<close> copies the model before or after the call.

  \<^bold>\<open>Interfaces.\<close> Each is a locale interpreted on the model's own definitions: \<^verbatim>\<open>kv_store\<close> (Go maps),
  \<^verbatim>\<open>invariant_ops\<close> (a run keeps what each step keeps: the engine, the site's session, the log), \<^verbatim>\<open>tracked_inv\<close> (an
  invariant of each torrent), \<^verbatim>\<open>newest_mailbox\<close> (a channel of one slot: the engine's subscriptions, the client's
  events), \<^verbatim>\<open>transition_guard\<close> (the VPN and the free space), \<^verbatim>\<open>best_first_source\<close> (a client, the site plugin,
  either, several), \<^verbatim>\<open>sorts_by\<close> (strings, file names, the columns of the list).

  \<^bold>\<open>What the lemmas show.\<close> The numbers are those of the properties' own texts.

  \<^item> A torrent that is paused, or held by a guard, transfers nothing (C1, C2, C13, C23), through every operation a
    client, a tick or a restart can do; with the one gap C2 names, after a move.
  \<^item> Storages are closed, torrents well formed, checks cancellable, in every reachable state and behind the socket
    (C3, C9, C11).
  \<^item> The session: a save is all or nothing, a restored torrent is the saved one, and one value blocks every save (C4,
    C5, C12).
  \<^item> The socket: answers go to their own calls, requests are runs of the engine's operations, the client's methods are
    the engine's, a shutdown is answered, a running daemon is not displaced (C6--C8, C10, C32).
  \<^item> Searching: order, merging, caching, bounds, sessions, tokens (C14--C19).
  \<^item> Quantities, the configuration, the watch directory, additions, streams (C20--C22, C24--C26).
  \<^item> The interface: no index out of range, one active filter, a search shows its own answer, a removal takes what was
    marked, and a key or a click that changes the view drops the marks (C27--C31); what is drawn and what a click hits agree (C38--C40).
  \<^item> The subcommands do to the daemon what the interface does; starting and stopping a daemon come to an end; a
    configuration is neither overwritten nor told (C33--C37).

  \<^bold>\<open>Bounds and fuel.\<close> Where the source has a bound, it is the source's: ten redirects in \<^verbatim>\<open>http_get\<close>, five tries
  for the lock, the retries of a request, 64 searches in a cache. Two loops end by the clock and take fuel: 51 rounds
  reach the end of the wait for a new daemon (\<^verbatim>\<open>dialOrSpawn\<close>), and one more than the timeout over a tenth of a
  second that of a stop (\<^verbatim>\<open>waitForStop\<close>); both are proved to return with it if the clock moves on by the time they
  slept. \<^verbatim>\<open>Expand\<close> calls itself on what a pattern matched; fuel 2 is proved to be enough unless a match that does not exist
  is itself a pattern; for one that matches its own name first no fuel is (\<^verbatim>\<open>a_dangling_match_never_returns\<close>). A decimal is searched up to 400
  places below one and to 17 digits, more than any float needs. \<^verbatim>\<open>format.Bytes\<close>, which may not return, is a
  \<^verbatim>\<open>partial_function\<close>, and C20 says when it does. All other recursion is structural or has its measure.

  \<^bold>\<open>Not modelled.\<close> Code that is not in the repository is a parameter, with what the properties need of it as named
  hypotheses: the torrent library, the kernel, the network, HTTP serving of bytes, the JSON, TOML and HTML decoders,
  \<^verbatim>\<open>url.Parse\<close>, the glob matcher of \<^verbatim>\<open>filepath\<close>. The gob encoding of the socket is taken to carry values
  unchanged. The tree of subcommands, their flags and help texts are handed to cobra and do nothing of themselves: a
  subcommand begins here with its parsed arguments. The terminal library's loop is \<^verbatim>\<open>TuiLoop\<close>; how wide a
  character is, borders, colours and the cutting of styled lines are functions in \<^verbatim>\<open>tui_host\<close> and \<^verbatim>\<open>canvas\<close>,
  and the table that gives each style its colours (\<^verbatim>\<open>style.go\<close>) is left out, as is the question whether a terminal
  can show them. Goroutines that only wait on a ticker are left out, and what they call is a step: a tick, a scan
  of the watch directory, a frame of \<^verbatim>\<open>list --watch\<close>. The variants for systems other than Linux and the flags a
  child process is detached with are left out. Letters outside ASCII keep their case. The exact text of a log line is
  \<^verbatim>\<open>slog\<close>'s.
\<close>

end
